(* ===== verification/Prelude.thy ===== *)
theory Prelude
  imports Main "HOL-Library.Word" "HOL-Library.Multiset" "HOL-Library.State_Monad"
begin

text \<open>
  What every component theory shares: the machine integers of the C code as words, the
  status codes of UEFI, the way a run of the firmware can stop without returning, 
  the effect type, and the lemmas on words, lists and state transformers that the
  component proofs use.

  Effects.  A C function that calls services of the firmware core (allocation, the GCD,
  protocol lookups, memory-mapped registers) is a state transformer of type
  \<open>('w, 'a) state\<close> of \<open>HOL-Library.State_Monad\<close>: the world \<open>'w\<close> is a type parameter, and
  the services, whose code is not in this repository, are function parameters (fields of
  a record of services).  Nothing is assumed of them unless a theorem says so.
\<close>

unbundle bit_operations_syntax

section \<open>Automation\<close>

named_theorems eff_simps \<open>unfolding of effectful code into pairs of a result and a world\<close>
named_theorems lookup_simps \<open>characterisations of the table lookups\<close>

section \<open>Machine integers\<close>

type_synonym u8 = "8 word"
type_synonym u16 = "16 word"
type_synonym u32 = "32 word"
type_synonym u64 = "64 word"

section \<open>Status codes\<close>

text \<open>
  \<open>EFI_STATUS\<close>: success, the error codes the code names, any other error
  (high bit set) and the warnings (neither success nor error).
\<close>

datatype efi_status =
    EFI_SUCCESS
  | EFI_INVALID_PARAMETER
  | EFI_UNSUPPORTED
  | EFI_BUFFER_TOO_SMALL
  | EFI_NOT_READY
  | EFI_DEVICE_ERROR
  | EFI_OUT_OF_RESOURCES
  | EFI_NOT_FOUND
  | EFI_ABORTED
  | EFI_OTHER_ERROR nat
  | EFI_WARNING nat

definition EFI_ERROR :: "efi_status \<Rightarrow> bool" where
  "EFI_ERROR s = (case s of EFI_SUCCESS \<Rightarrow> False | EFI_WARNING _ \<Rightarrow> False | _ \<Rightarrow> True)"

lemma EFI_ERROR_simps [simp]:
  "\<not> EFI_ERROR EFI_SUCCESS" "\<not> EFI_ERROR (EFI_WARNING n)"
  "EFI_ERROR EFI_INVALID_PARAMETER" "EFI_ERROR EFI_UNSUPPORTED"
  "EFI_ERROR EFI_BUFFER_TOO_SMALL" "EFI_ERROR EFI_NOT_READY"
  "EFI_ERROR EFI_DEVICE_ERROR" "EFI_ERROR EFI_OUT_OF_RESOURCES"
  "EFI_ERROR EFI_NOT_FOUND" "EFI_ERROR EFI_ABORTED" "EFI_ERROR (EFI_OTHER_ERROR n)"
  by (simp_all add: EFI_ERROR_def)

text \<open>The ways a firmware phase stops for good instead of returning.\<close>

datatype halt = ASSERT_FAILED | CPU_DEAD_LOOP | OUT_OF_BOUNDS

section \<open>Memory types of UEFI and PI\<close>

datatype efi_memory_type =
    EfiReservedMemoryType | EfiLoaderCode | EfiLoaderData | EfiBootServicesCode
  | EfiBootServicesData | EfiRuntimeServicesCode | EfiRuntimeServicesData
  | EfiConventionalMemory | EfiUnusableMemory | EfiACPIReclaimMemory
  | EfiACPIMemoryNVS | EfiMemoryMappedIO | EfiMemoryMappedIOPortSpace | EfiPalCode
  | EfiMaxMemoryType

datatype efi_resource_type =
    EFI_RESOURCE_SYSTEM_MEMORY | EFI_RESOURCE_MEMORY_MAPPED_IO | EFI_RESOURCE_IO
  | EFI_RESOURCE_FIRMWARE_DEVICE | EFI_RESOURCE_MEMORY_MAPPED_IO_PORT
  | EFI_RESOURCE_MEMORY_RESERVED | EFI_RESOURCE_IO_RESERVED

datatype arm_memory_region_attributes =
    ARM_MEMORY_REGION_ATTRIBUTE_UNCACHED_UNBUFFERED
  | ARM_MEMORY_REGION_ATTRIBUTE_WRITE_BACK
  | ARM_MEMORY_REGION_ATTRIBUTE_WRITE_THROUGH
  | ARM_MEMORY_REGION_ATTRIBUTE_DEVICE

section \<open>Address arithmetic\<close>

definition EFI_PAGES_TO_SIZE :: "u64 \<Rightarrow> u64" where
  "EFI_PAGES_TO_SIZE pages = push_bit 12 pages"

definition ALIGN_VALUE :: "u64 \<Rightarrow> u64 \<Rightarrow> u64" where
  "ALIGN_VALUE v a = v + (((0 - v)) AND (a - 1))"

text \<open>The bytes of the half-open range that starts at \<open>a\<close> and has \<open>n\<close> bytes, as numbers:
  no wrap-around at the end of the address space.\<close>

definition span :: "u64 \<Rightarrow> u64 \<Rightarrow> nat set" where
  "span a n = {unat a ..< unat a + unat n}"

lemma mem_span [simp]: "x \<in> span a n \<longleftrightarrow> unat a \<le> x \<and> x < unat a + unat n"
  by (auto simp: span_def)

lemma span_empty_iff [simp]: "span a n = {} \<longleftrightarrow> n = 0"
  by (simp add: span_def unat_eq_zero)

lemma unat_ucast: "unat (ucast (x :: 'a::len word) :: 'b::len word) = unat x mod 2 ^ LENGTH('b)"
  by (simp add: unsigned_ucast_eq take_bit_eq_mod)

lemma unat_and_le: "unat ((x::'a::len word) AND y) \<le> unat y"
  using word_and_le1 [of x y] by (simp add: word_le_nat_alt)

lemma unat_two_power:
  assumes "n < LENGTH('a::len)"
  shows "unat (2 ^ n :: 'a word) = 2 ^ n"
proof -
  have "unat (of_nat (2 ^ n) :: 'a word) = 2 ^ n"
    using power_strict_increasing [OF assms, of "2::nat"] by (simp only: unat_of_nat mod_less)
  then show ?thesis by simp
qed

lemma span_zero [simp]: "span a 0 = {}"
  by simp

lemma unat_add_nowrap:
  fixes a b :: "'a::len word"
  shows "unat a + unat b < 2 ^ LENGTH('a) \<Longrightarrow> unat (a + b) = unat a + unat b"
  by (rule unat_add_lem [THEN iffD1])

lemma unat_add_below:
  fixes a b c :: "'a::len word"
  shows "unat a + unat b \<le> unat c \<Longrightarrow> unat (a + b) = unat a + unat b"
  using unsigned_less [of c, where 'a = nat] by (intro unat_add_nowrap) linarith

lemma unat_diff_le:
  fixes a b :: "'a::len word"
  shows "b \<le> a \<Longrightarrow> unat (a - b) = unat a - unat b"
  by (rule unat_sub)

lemma unat_add_diff [simp]:
  fixes a b :: "'a::len word"
  shows "a \<le> b \<Longrightarrow> unat a + unat (b - a) = unat b"
    and "a < b \<Longrightarrow> unat a + unat (b - a) = unat b"
    and "unat a \<le> unat b \<Longrightarrow> unat a + unat (b - a) = unat b"
    and "unat a < unat b \<Longrightarrow> unat a + unat (b - a) = unat b"
  by (auto simp: unat_diff_le word_le_nat_alt word_less_nat_alt)

lemma cut_step:
  fixes c p r e :: nat
  assumes "c \<le> p" "p \<le> r" "r \<le> e" "{c..<p} \<inter> U = {}"
  shows "{c..<p} \<union> ({r..<e} - U) = {c..<e} - ({p..<r} \<union> U)"
  using assms by fastforce

lemma span_diff [simp]:
  "a \<le> b \<Longrightarrow> span a (b - a) = {unat a ..< unat b}"
  "a < b \<Longrightarrow> span a (b - a) = {unat a ..< unat b}"
  by (simp_all add: span_def)

section \<open>Lists\<close>

lemma sorted_wrt_adjacent:
  assumes "transp P"
  shows "sorted_wrt P xs \<longleftrightarrow> (\<forall>i. Suc i < length xs \<longrightarrow> P (xs ! i) (xs ! Suc i))"
  using assms by (rule sorted_wrt_iff_nth_Suc_transp)

lemma find_Some_split:
  "List.find P xs = Some x \<longleftrightarrow> (\<exists>ys zs. xs = ys @ x # zs \<and> P x \<and> (\<forall>y \<in> set ys. \<not> P y))"
proof (induction xs)
  case Nil
  then show ?case by simp
next
  case (Cons a xs)
  show ?case
  proof (cases "P a")
    case True
    then show ?thesis
      by (auto simp: Cons_eq_append_conv)
  next
    case False
    with Cons.IH show ?thesis
      by (auto simp: Cons_eq_append_conv) (metis append_Cons list.set_intros set_ConsD)+
  qed
qed

lemma find_append:
  "List.find P (xs @ ys) = (case List.find P xs of None \<Rightarrow> List.find P ys | Some x \<Rightarrow> Some x)"
  by (induction xs) auto

section \<open>Sorting with a comparison function\<close>

text \<open>
  \<open>PerformQuickSort\<close> of the firmware's SortLib sorts an array in place with a comparison
  function. Its documented behaviour, for a given comparison: the result is a
  rearrangement of the input in which no element compares greater than a later one.
\<close>

definition sorts_with :: "('a \<Rightarrow> 'a \<Rightarrow> int) \<Rightarrow> ('a list \<Rightarrow> 'a list) \<Rightarrow> bool" where
  "sorts_with cmp f \<longleftrightarrow>
     (\<forall>xs. mset (f xs) = mset xs \<and> sorted_wrt (\<lambda>a b. cmp a b \<le> 0) (f xs))"

text \<open>
  A comparison function that orders by a numeric key. Three comparison functions of the
  code are of this kind.
\<close>

locale key_comparator =
  fixes cmp :: "'a \<Rightarrow> 'a \<Rightarrow> int" and key :: "'a \<Rightarrow> 'b::linorder"
  assumes cmp_le: "cmp a b \<le> 0 \<longleftrightarrow> key a \<le> key b"
    and cmp_eq: "cmp a b = 0 \<longleftrightarrow> key a = key b"
begin

lemma sorted_keys: "sorts_with cmp f \<Longrightarrow> sorted_wrt (\<lambda>a b. key a \<le> key b) (f xs)"
  by (simp add: sorts_with_def cmp_le)

lemma sort_key_sorts: "sorts_with cmp (sort_key key)"
proof -
  have "sorted_wrt (\<lambda>a b. key a \<le> key b) (sort_key key xs)" for xs :: "'a list"
    using sorted_sort_key [of key xs] by (simp only: sorted_map)
  then show ?thesis by (simp add: sorts_with_def cmp_le)
qed

text \<open>With distinct keys the sorted arrangement is unique, whatever the algorithm.\<close>

lemma sort_unique:
  assumes f: "sorts_with cmp f" and dist: "distinct (map key xs)" and perm: "mset ys = mset xs"
  shows "f ys = sort_key key xs"
proof -
  have m: "mset (f ys) = mset xs" using f perm by (simp add: sorts_with_def)
  have "distinct (map key (f ys))"
    using dist m by (metis mset_map mset_eq_imp_distinct_iff)
  moreover have "sorted (map key (f ys))"
    using sorted_keys [OF f, of ys] by (simp add: sorted_map)
  ultimately show ?thesis
    using m properties_for_sort_key [of "f ys" xs key]
    by (metis (mono_tags, lifting) distinct_map filter_cong inj_on_def filter_mset_eq_conv
        set_mset_mset sort_key_inj_key_eq sorted_sort_key mset_sort)
qed

end

section \<open>Effects\<close>

text \<open>Running a service for each element of a list, in order, ignoring its result.\<close>

fun for_each :: "('a \<Rightarrow> ('w, unit) state) \<Rightarrow> 'a list \<Rightarrow> ('w, unit) state" where
  "for_each f [] = State_Monad.return ()"
| "for_each f (x # xs) = do { _ \<leftarrow> f x; for_each f xs }"

lemma for_each_append:
  "for_each f (xs @ ys) = do { _ \<leftarrow> for_each f xs; for_each f ys }"
  by (induction xs) simp_all

lemma run_for_each_Cons [eff_simps]:
  "run_state (for_each f (x # xs)) w = run_state (for_each f xs) (snd (run_state (f x) w))"
  by (simp split: prod.splits)

lemmas run_simps = run_state_bind run_state_return run_state_get run_state_set

end
