(* ===== verification/MemoryMap.thy ===== *)
theory MemoryMap
  imports Prelude
begin

text \<open>
  The platform memory map and the lookups in it, with the lookups in the configuration map.

  \<^item> \<open>efi_memory_region_descriptor\<close>: \<open>EFI_MEMORY_REGION_DESCRIPTOR\<close> of \<open>MemoryMapLib.h\<close>;
  \<^item> \<open>LocateMemoryRegionByName\<close>, \<open>LocateMemoryRegionByAddress\<close>:
    \<open>SiliciumPkg/Library/MemoryMapHelperLib/MemoryMapHelper.c\<close>;
  \<^item> \<open>LocateConfigurationEntry32\<close>, \<open>LocateConfigurationEntry64\<close>:
    \<open>QcomPkg/Library/ConfigurationMapHelperLib/ConfigurationMapHelperLib.c\<close>.

  The tables that \<open>GetMemoryMap\<close> and \<open>GetConfigurationMap\<close> return are platform data and are
  arguments here (a list of at most 255 entries: the count is a \<open>UINT8\<close>). The string
  comparison \<open>AsciiStriCmp\<close> belongs to the firmware's base library and is an argument too,
  as a function that returns 0 on equal strings. A pointer argument that may be NULL is an
  option; an OUT parameter is the pair of the old content going in and the new content
  coming out, so that a lookup that fails visibly leaves it alone.

  All lookups of the repository walk a table and take the first entry that fits. The
  locale \<open>first_match\<close> is that contract: it is interpreted on each of the four functions
  here, and by the clock driver and the GPIO driver on theirs.
\<close>

section \<open>The memory map\<close>

datatype efi_memory_hob_option =
    NoHob | AddMem | AddDev | HobOnlyNoCacheSetting | AllocOnly | MaxMemOption

record efi_memory_region_descriptor =
  Name :: string
  Address :: u64
  Length :: u64
  HobOption :: efi_memory_hob_option
  ResourceType :: efi_resource_type
  ResourceAttribute :: u32
  MemoryType :: efi_memory_type
  ArmAttributes :: arm_memory_region_attributes

type_synonym region = efi_memory_region_descriptor

abbreviation MAX_ARM_MEMORY_REGION_DESCRIPTOR_COUNT :: nat where
  "MAX_ARM_MEMORY_REGION_DESCRIPTOR_COUNT \<equiv> 128"

section \<open>First-match table lookups\<close>

text \<open>
  \<open>locate k ds out\<close> walks the table \<open>ds\<close> for the key \<open>k\<close> with the OUT parameter \<open>out\<close>.
\<close>

locale first_match =
  fixes hit :: "'k \<Rightarrow> 'd \<Rightarrow> bool"
    and found :: "'d \<Rightarrow> 'o \<Rightarrow> 'r"
    and missed :: "'o \<Rightarrow> 'r"
    and locate :: "'k \<Rightarrow> 'd list \<Rightarrow> 'o \<Rightarrow> 'r"
  assumes locate_Nil: "locate k [] out = missed out"
    and locate_Cons: "locate k (d # ds) out = (if hit k d then found d out else locate k ds out)"
begin

lemma locate_eq:
  "locate k ds out = (case List.find (hit k) ds of None \<Rightarrow> missed out | Some d \<Rightarrow> found d out)"
  by (induction ds) (auto simp: locate_Nil locate_Cons)

lemma locate_missed:
  assumes "\<And>d. d \<in> set ds \<Longrightarrow> \<not> hit k d"
  shows "locate k ds out = missed out"
proof -
  from assms have "List.find (hit k) ds = None" by (auto simp: find_None_iff)
  then show ?thesis by (simp add: locate_eq)
qed

lemma locate_first:
  assumes "\<And>d. d \<in> set ds \<Longrightarrow> \<not> hit k d" and "hit k d"
  shows "locate k (ds @ d # es) out = found d out"
  using assms(1)
proof (induction ds)
  case Nil
  then show ?case by (simp add: locate_Cons assms(2))
next
  case (Cons x ds)
  then show ?case by (simp add: locate_Cons)
qed

lemma locate_cases:
  obtains (found) d where "d \<in> set ds" and "hit k d" and "locate k ds out = found d out"
  | (missed) "\<forall>d \<in> set ds. \<not> hit k d" and "locate k ds out = missed out"
proof (cases "List.find (hit k) ds")
  case None
  then have "\<forall>d \<in> set ds. \<not> hit k d" by (auto simp: find_None_iff)
  moreover have "locate k ds out = missed out" by (simp add: locate_eq None)
  ultimately show ?thesis by (rule that(2))
next
  case (Some d)
  then have "d \<in> set ds" and "hit k d" by (auto simp: find_Some_iff)
  moreover have "locate k ds out = found d out" by (simp add: locate_eq Some)
  ultimately show ?thesis by (rule that(1))
qed

end

text \<open>
  The lookups that return a status: a hit stores the entry (or a field of it) through the
  OUT parameter and returns success, a miss leaves the parameter and returns not-found.
\<close>

locale status_lookup =
  first_match hit "\<lambda>d _. (EFI_SUCCESS, res d)" "\<lambda>out. (EFI_NOT_FOUND, out)" locate
  for hit :: "'k \<Rightarrow> 'd \<Rightarrow> bool" and res :: "'d \<Rightarrow> 'o"
    and locate :: "'k \<Rightarrow> 'd list \<Rightarrow> 'o \<Rightarrow> efi_status \<times> 'o"
begin

lemma status_iff:
  "fst (locate k ds out) = EFI_SUCCESS \<longleftrightarrow> (\<exists>d \<in> set ds. hit k d)"
  "fst (locate k ds out) = EFI_NOT_FOUND \<longleftrightarrow> (\<forall>d \<in> set ds. \<not> hit k d)"
  by (cases rule: locate_cases [of ds k out]; auto)+

lemma not_found_keeps_out:
  "fst (locate k ds out) \<noteq> EFI_SUCCESS \<Longrightarrow> locate k ds out = (EFI_NOT_FOUND, out)"
  by (cases rule: locate_cases [of ds k out]) auto

lemma success_is_entry:
  "locate k ds out = (EFI_SUCCESS, r) \<Longrightarrow> \<exists>d \<in> set ds. hit k d \<and> r = res d"
  by (cases rule: locate_cases [of ds k out]) auto

end

section \<open>MemoryMapHelperLib\<close>

text \<open>The loop of \<open>LocateMemoryRegionByName\<close>; \<open>AsciiStriCmp\<close> non-zero means \<open>continue\<close>.\<close>

fun by_name_loop ::
    "(string \<Rightarrow> string \<Rightarrow> int) \<Rightarrow> string \<Rightarrow> region list \<Rightarrow> region \<Rightarrow> efi_status \<times> region" where
  "by_name_loop stricmp name [] out = (EFI_NOT_FOUND, out)"
| "by_name_loop stricmp name (d # ds) out =
     (if stricmp name (Name d) \<noteq> 0 then by_name_loop stricmp name ds out
      else (EFI_SUCCESS, d))"

definition LocateMemoryRegionByName ::
    "(string \<Rightarrow> string \<Rightarrow> int) \<Rightarrow> region list \<Rightarrow> string option \<Rightarrow> region option
      \<Rightarrow> efi_status \<times> region option" where
  "LocateMemoryRegionByName stricmp mm RegionName out =
     (case RegionName of
        None \<Rightarrow> (EFI_INVALID_PARAMETER, out)
      | Some name \<Rightarrow>
          (case out of
             None \<Rightarrow> (EFI_INVALID_PARAMETER, out)
           | Some old \<Rightarrow> map_prod id Some (by_name_loop stricmp name mm old)))"

fun by_address_loop :: "u64 \<Rightarrow> region list \<Rightarrow> region \<Rightarrow> efi_status \<times> region" where
  "by_address_loop addr [] out = (EFI_NOT_FOUND, out)"
| "by_address_loop addr (d # ds) out =
     (if Address d \<noteq> addr then by_address_loop addr ds out else (EFI_SUCCESS, d))"

definition LocateMemoryRegionByAddress ::
    "region list \<Rightarrow> u64 \<Rightarrow> region option \<Rightarrow> efi_status \<times> region option" where
  "LocateMemoryRegionByAddress mm RegionAddress out =
     (case out of
        None \<Rightarrow> (EFI_INVALID_PARAMETER, out)
      | Some old \<Rightarrow> map_prod id Some (by_address_loop RegionAddress mm old))"

interpretation by_name: status_lookup
  "\<lambda>name d. stricmp name (Name d) = 0" "\<lambda>d. d" "by_name_loop stricmp"
  for stricmp :: "string \<Rightarrow> string \<Rightarrow> int"
  by unfold_locales auto

interpretation by_address: status_lookup
  "\<lambda>addr d. Address d = addr" "\<lambda>d. d" by_address_loop
  by unfold_locales auto

section \<open>ConfigurationMapHelperLib\<close>

record efi_configuration_entry_descriptor =
  ConfName :: string
  ConfValue :: u64

type_synonym conf_entry = efi_configuration_entry_descriptor

fun conf_loop32 ::
    "(string \<Rightarrow> string \<Rightarrow> int) \<Rightarrow> string \<Rightarrow> conf_entry list \<Rightarrow> u32 \<Rightarrow> efi_status \<times> u32" where
  "conf_loop32 stricmp name [] out = (EFI_NOT_FOUND, out)"
| "conf_loop32 stricmp name (d # ds) out =
     (if stricmp name (ConfName d) \<noteq> 0 then conf_loop32 stricmp name ds out
      else (EFI_SUCCESS, ucast (ConfValue d AND 0xFFFFFFFF)))"

fun conf_loop64 ::
    "(string \<Rightarrow> string \<Rightarrow> int) \<Rightarrow> string \<Rightarrow> conf_entry list \<Rightarrow> u64 \<Rightarrow> efi_status \<times> u64" where
  "conf_loop64 stricmp name [] out = (EFI_NOT_FOUND, out)"
| "conf_loop64 stricmp name (d # ds) out =
     (if stricmp name (ConfName d) \<noteq> 0 then conf_loop64 stricmp name ds out
      else (EFI_SUCCESS, ConfValue d))"

definition LocateConfigurationEntry32 ::
    "(string \<Rightarrow> string \<Rightarrow> int) \<Rightarrow> conf_entry list \<Rightarrow> string option \<Rightarrow> u32 option
      \<Rightarrow> efi_status \<times> u32 option" where
  "LocateConfigurationEntry32 stricmp cm EntryName out =
     (case (EntryName, out) of
        (Some name, Some old) \<Rightarrow> map_prod id Some (conf_loop32 stricmp name cm old)
      | _ \<Rightarrow> (EFI_INVALID_PARAMETER, out))"

definition LocateConfigurationEntry64 ::
    "(string \<Rightarrow> string \<Rightarrow> int) \<Rightarrow> conf_entry list \<Rightarrow> string option \<Rightarrow> u64 option
      \<Rightarrow> efi_status \<times> u64 option" where
  "LocateConfigurationEntry64 stricmp cm EntryName out =
     (case (EntryName, out) of
        (Some name, Some old) \<Rightarrow> map_prod id Some (conf_loop64 stricmp name cm old)
      | _ \<Rightarrow> (EFI_INVALID_PARAMETER, out))"

interpretation conf32: status_lookup
  "\<lambda>name d. stricmp name (ConfName d) = 0" "\<lambda>d. ucast (ConfValue d AND 0xFFFFFFFF)"
  "conf_loop32 stricmp"
  for stricmp :: "string \<Rightarrow> string \<Rightarrow> int"
  by unfold_locales auto

interpretation conf64: status_lookup
  "\<lambda>name d. stricmp name (ConfName d) = 0" "\<lambda>d. ConfValue d" "conf_loop64 stricmp"
  for stricmp :: "string \<Rightarrow> string \<Rightarrow> int"
  by unfold_locales auto

end
