(* ===== verification/MemoryInit.thy ===== *)
theory MemoryInit
  imports MemoryMap
begin

text \<open>
  The part of the pre-DXE phase that turns the platform memory map into HOBs and the MMU
  table, and the helper that maps a region later on.

  \<^item> \<open>CompareMemoryRegions\<close>, \<open>ValidateMemoryMap\<close>, \<open>AddHob\<close>, \<open>MemoryPeim\<close>:
    \<open>SiliciumPkg/Library/MemoryInitPeiLib/MemoryInitPei.c\<close>;
  \<^item> \<open>MapMemoryRegion\<close>:
    \<open>SiliciumPkg/Library/MemoryAllocationHelperLib/MemoryAllocationHelper.c\<close>.

  Parameters: \<open>PerformQuickSort\<close> (\<open>srt\<close>, with \<open>sorts_with\<close> as its documented behaviour),
  \<open>ArmConfigureMmu\<close>, the fixed PCD \<open>PcdSystemMemoryBase\<close> (\<open>base\<close>), the feature PCD for the
  memory type HOB (\<open>pcd_mti\<close>) and whether assertions are compiled in (\<open>dbg\<close>). The HOB list
  is the list of the calls to the HOB library, in order. The MMU table on the stack has 128
  entries; a store past its end is the value \<open>Inl OUT_OF_BOUNDS\<close>.
\<close>

section \<open>Types\<close>

datatype hob =
    ResourceDescriptorHob efi_resource_type u32 u64 u64
  | MemoryAllocationHob u64 u64 efi_memory_type
  | MemoryTypeInformationHob

record arm_memory_region_descriptor =
  PhysicalBase :: u64
  VirtualBase :: u64
  TableLength :: u64
  Attributes :: arm_memory_region_attributes

text \<open>The zero initialiser: the first attribute constant has the value 0.\<close>

definition zero_entry :: arm_memory_region_descriptor where
  "zero_entry = \<lparr> PhysicalBase = 0, VirtualBase = 0, TableLength = 0,
     Attributes = ARM_MEMORY_REGION_ATTRIBUTE_UNCACHED_UNBUFFERED \<rparr>"

section \<open>Validation\<close>

definition CompareMemoryRegions :: "region \<Rightarrow> region \<Rightarrow> int" where
  "CompareMemoryRegions Region1 Region2 =
     (if Address Region1 < Address Region2 then -1
      else if Address Region1 > Address Region2 then 1
      else 0)"

interpretation region_order: key_comparator CompareMemoryRegions Address
  by unfold_locales (auto simp: CompareMemoryRegions_def)

text \<open>The loop of \<open>ValidateMemoryMap\<close> over the neighbours of the sorted array; the last
  argument is \<open>IsInvalid\<close>.\<close>

fun overlap_loop :: "u64 \<Rightarrow> region list \<Rightarrow> bool \<Rightarrow> bool" where
  "overlap_loop base (Current # Next # rest) IsInvalid =
     (let EndAddress = Address Current + Length Current in
      if Address Current < base then overlap_loop base (Next # rest) IsInvalid
      else if EndAddress > Address Next then overlap_loop base (Next # rest) True
      else overlap_loop base (Next # rest) IsInvalid)"
| "overlap_loop base _ IsInvalid = IsInvalid"

definition ValidateMemoryMap ::
    "bool \<Rightarrow> (region list \<Rightarrow> region list) \<Rightarrow> u64 \<Rightarrow> region list \<Rightarrow> halt + region list" where
  "ValidateMemoryMap dbg srt base MemoryDescriptor =
     (if dbg \<and> \<not> int (length MemoryDescriptor) - 1 < int MAX_ARM_MEMORY_REGION_DESCRIPTOR_COUNT
      then Inl ASSERT_FAILED
      else let regions = srt MemoryDescriptor in
        if overlap_loop base regions False then Inl CPU_DEAD_LOOP else Inr regions)"

section \<open>HOBs and the MMU table\<close>

definition AddHob :: "region \<Rightarrow> hob list" where
  "AddHob r =
     (if HobOption r = AddMem \<or> HobOption r = AddDev \<or> HobOption r = HobOnlyNoCacheSetting
      then [ResourceDescriptorHob (ResourceType r) (ResourceAttribute r) (Address r) (Length r)]
      else []) @
     (if ResourceType r = EFI_RESOURCE_SYSTEM_MEMORY \<or> MemoryType r = EfiRuntimeServicesData
      then [MemoryAllocationHob (Address r) (Length r) (MemoryType r)]
      else [])"

definition table_entry :: "region \<Rightarrow> arm_memory_region_descriptor" where
  "table_entry r = \<lparr> PhysicalBase = Address r, VirtualBase = Address r,
     TableLength = Length r, Attributes = ArmAttributes r \<rparr>"

text \<open>The loop of \<open>MemoryPeim\<close>: regions still to visit, \<open>Index\<close>, \<open>MemoryTable\<close> and the HOBs
  built so far.\<close>

fun peim_loop ::
    "region list \<Rightarrow> nat \<Rightarrow> arm_memory_region_descriptor list \<Rightarrow> hob list
      \<Rightarrow> halt + (arm_memory_region_descriptor list \<times> hob list)" where
  "peim_loop [] Index tbl hobs = Inr (tbl, hobs)"
| "peim_loop (r # rs) Index tbl hobs =
     (let hobs = hobs @ AddHob r in
      if HobOption r = HobOnlyNoCacheSetting then peim_loop rs Index tbl hobs
      else if Index < length tbl
      then peim_loop rs (Suc Index) (tbl[Index := table_entry r]) hobs
      else Inl OUT_OF_BOUNDS)"

record peim_result =
  peim_status :: efi_status
  peim_hobs :: "hob list"
  peim_table :: "arm_memory_region_descriptor list"

definition MemoryPeim ::
    "bool \<Rightarrow> (region list \<Rightarrow> region list) \<Rightarrow> u64 \<Rightarrow> bool
      \<Rightarrow> (arm_memory_region_descriptor list \<Rightarrow> efi_status) \<Rightarrow> region list
      \<Rightarrow> halt + peim_result" where
  "MemoryPeim dbg srt base pcd_mti ArmConfigureMmu MemoryMap =
     (case ValidateMemoryMap dbg srt base MemoryMap of
        Inl h \<Rightarrow> Inl h
      | Inr regions \<Rightarrow>
          (case peim_loop regions 0
                  (replicate MAX_ARM_MEMORY_REGION_DESCRIPTOR_COUNT zero_entry) [] of
             Inl h \<Rightarrow> Inl h
           | Inr (tbl, hobs) \<Rightarrow>
               (let status = ArmConfigureMmu tbl in
                if EFI_ERROR status
                then Inr \<lparr> peim_status = status, peim_hobs = hobs, peim_table = tbl \<rparr>
                else Inr \<lparr> peim_status = EFI_SUCCESS,
                  peim_hobs = hobs @ (if pcd_mti then [MemoryTypeInformationHob] else []),
                  peim_table = tbl \<rparr>)))"

section \<open>MapMemoryRegion\<close>

datatype efi_gcd_memory_type = EfiGcdMemoryTypeSystemMemory | EfiGcdMemoryTypeMemoryMappedIo

abbreviation EFI_MEMORY_UC :: u64 where "EFI_MEMORY_UC \<equiv> 0x1"
abbreviation EFI_MEMORY_WB :: u64 where "EFI_MEMORY_WB \<equiv> 0x8"

text \<open>The three services \<open>MapMemoryRegion\<close> calls.\<close>

record 'w map_services =
  AddMemorySpace :: "efi_gcd_memory_type \<Rightarrow> u64 \<Rightarrow> u64 \<Rightarrow> u64 \<Rightarrow> ('w, efi_status) state"
  ArmSetMemoryAttributes ::
    "u64 \<Rightarrow> u64 \<Rightarrow> arm_memory_region_attributes \<Rightarrow> u64 \<Rightarrow> ('w, efi_status) state"
  SetMemorySpaceAttributes :: "u64 \<Rightarrow> u64 \<Rightarrow> u64 \<Rightarrow> ('w, efi_status) state"

definition region_details ::
    "efi_memory_type \<Rightarrow> (efi_gcd_memory_type \<times> arm_memory_region_attributes \<times> u64) option" where
  "region_details Type =
     (case Type of
        EfiConventionalMemory \<Rightarrow>
          Some (EfiGcdMemoryTypeSystemMemory, ARM_MEMORY_REGION_ATTRIBUTE_WRITE_BACK, EFI_MEMORY_WB)
      | EfiMemoryMappedIO \<Rightarrow>
          Some (EfiGcdMemoryTypeMemoryMappedIo, ARM_MEMORY_REGION_ATTRIBUTE_DEVICE, EFI_MEMORY_UC)
      | _ \<Rightarrow> None)"

definition MapMemoryRegion ::
    "'w map_services \<Rightarrow> u64 \<Rightarrow> u64 \<Rightarrow> efi_memory_type \<Rightarrow> ('w, efi_status) state" where
  "MapMemoryRegion sv addr len Type =
     (case region_details Type of
        None \<Rightarrow> State_Monad.return EFI_UNSUPPORTED
      | Some (space, arm, attr) \<Rightarrow> do {
          s1 \<leftarrow> AddMemorySpace sv space addr len 0xF;
          if EFI_ERROR s1 then State_Monad.return s1 else do {
            s2 \<leftarrow> ArmSetMemoryAttributes sv addr len arm 0;
            if EFI_ERROR s2 then State_Monad.return s2 else do {
              s3 \<leftarrow> SetMemorySpaceAttributes sv addr len attr;
              if EFI_ERROR s3 then State_Monad.return s3
              else State_Monad.return EFI_SUCCESS } } })"

section \<open>Lemmas\<close>

subsection \<open>Validation\<close>

lemma overlap_loop_acc: "overlap_loop base rs b \<longleftrightarrow> b \<or> overlap_loop base rs False"
proof (induction base rs b rule: overlap_loop.induct)
  case (1 base Current Next rest IsInvalid)
  show ?case
    unfolding overlap_loop.simps Let_def
    using 1 by (auto split: if_splits)
qed simp_all

text \<open>On a sorted map, comparing neighbours is comparing all pairs.\<close>

definition keeps_clear :: "u64 \<Rightarrow> region \<Rightarrow> region \<Rightarrow> bool" where
  "keeps_clear base d e \<longleftrightarrow> (base \<le> Address d \<longrightarrow> Address d + Length d \<le> Address e)"

lemma overlap_loop_iff:
  assumes "sorted_wrt (\<lambda>d e. Address d \<le> Address e) rs"
  shows "\<not> overlap_loop base rs False \<longleftrightarrow> sorted_wrt (keeps_clear base) rs"
  using assms
proof (induction rs rule: induct_list012)
  case (3 x y zs)
  then have IH: "\<not> overlap_loop base (y # zs) False \<longleftrightarrow> sorted_wrt (keeps_clear base) (y # zs)"
    by simp
  have "keeps_clear base x z" if "keeps_clear base x y" "z \<in> set zs" for z
    using that 3(3) by (auto simp: keeps_clear_def)
  then have head: "(\<forall>z \<in> set (y # zs). keeps_clear base x z) \<longleftrightarrow> keeps_clear base x y"
    by auto
  have "overlap_loop base (x # y # zs) False \<longleftrightarrow>
      \<not> keeps_clear base x y \<or> overlap_loop base (y # zs) False"
    using overlap_loop_acc [of base "y # zs" True] by (auto simp: keeps_clear_def Let_def not_le not_less)
  then show ?case
    using IH head by (simp only: sorted_wrt.simps) blast
qed simp_all

lemma validate_Inr_iff:
  assumes "sorts_with CompareMemoryRegions srt"
  shows "ValidateMemoryMap dbg srt base mm = Inr out \<longleftrightarrow>
    out = srt mm \<and> (dbg \<longrightarrow> length mm \<le> 128) \<and> sorted_wrt (keeps_clear base) (srt mm)"
  using overlap_loop_iff [OF region_order.sorted_keys [OF assms], of base mm]
  by (auto simp: ValidateMemoryMap_def Let_def)

subsection \<open>The MMU table\<close>

definition mapped :: "region list \<Rightarrow> region list" where
  "mapped rs = filter (\<lambda>r. HobOption r \<noteq> HobOnlyNoCacheSetting) rs"

lemma mapped_simps [simp]:
  "mapped [] = []"
  "mapped (r # rs) = (if HobOption r = HobOnlyNoCacheSetting then mapped rs else r # mapped rs)"
  by (simp_all add: mapped_def)

lemma length_mapped_le: "length (mapped rs) \<le> length rs"
  by (simp add: mapped_def)

lemma peim_loop_ok:
  assumes "Index + length (mapped rs) \<le> length tbl"
  shows "peim_loop rs Index tbl hobs =
    Inr (take Index tbl @ map table_entry (mapped rs) @ drop (Index + length (mapped rs)) tbl,
         hobs @ concat (map AddHob rs))"
  using assms
proof (induction rs Index tbl hobs rule: peim_loop.induct)
  case (1 Index tbl hobs)
  then show ?case by simp
next
  case (2 r rs Index tbl hobs)
  show ?case
  proof (cases "HobOption r = HobOnlyNoCacheSetting")
    case True
    with 2 show ?thesis by simp
  next
    case False
    with 2(3) have lt: "Index < length tbl" by simp
    have "take (Suc Index) (tbl[Index := e]) = take Index tbl @ [e]" for e
      using lt by (simp add: take_Suc_conv_app_nth)
    with False lt 2 show ?thesis by simp
  qed
qed

lemma peim_loop_overflow:
  assumes "length tbl < Index + length (mapped rs)" "Index \<le> length tbl"
  shows "peim_loop rs Index tbl hobs = Inl OUT_OF_BOUNDS"
  using assms by (induction rs Index tbl hobs rule: peim_loop.induct) (auto simp: Let_def)


lemma MemoryPeim_Inr:
  assumes srt: "sorts_with CompareMemoryRegions srt"
    and run: "MemoryPeim dbg srt base pcd_mti mmu mm = Inr res"
  shows "sorted_wrt (keeps_clear base) (srt mm)"
    and "length (mapped (srt mm)) \<le> 128"
    and "peim_table res = map table_entry (mapped (srt mm)) @
      replicate (128 - length (mapped (srt mm))) zero_entry"
    and "peim_status res = (let s = mmu (peim_table res) in if EFI_ERROR s then s else EFI_SUCCESS)"
    and "peim_hobs res = concat (map AddHob (srt mm)) @
      (if pcd_mti \<and> peim_status res = EFI_SUCCESS then [MemoryTypeInformationHob] else [])"
proof -
  let ?tbl = "replicate 128 zero_entry"
  from run obtain rs tbl hobs where v: "ValidateMemoryMap dbg srt base mm = Inr rs"
    and p: "peim_loop rs 0 ?tbl [] = Inr (tbl, hobs)"
    by (auto simp: MemoryPeim_def split: sum.splits)
  from v show "sorted_wrt (keeps_clear base) (srt mm)" by (simp add: validate_Inr_iff [OF srt])
  from v have rs: "rs = srt mm" by (simp add: validate_Inr_iff [OF srt])
  show len: "length (mapped (srt mm)) \<le> 128"
    using p peim_loop_overflow [of ?tbl 0 rs "[]"] unfolding rs by fastforce
  from p have tbl: "tbl = map table_entry (mapped (srt mm)) @
        replicate (128 - length (mapped (srt mm))) zero_entry"
      and hobs: "hobs = concat (map AddHob (srt mm))"
    using peim_loop_ok [of 0 rs ?tbl "[]"] len by (simp_all add: rs)
  show "peim_table res = map table_entry (mapped (srt mm)) @
      replicate (128 - length (mapped (srt mm))) zero_entry"
    using run v p tbl by (simp add: MemoryPeim_def Let_def split: if_splits) auto
  show "peim_status res = (let s = mmu (peim_table res) in if EFI_ERROR s then s else EFI_SUCCESS)"
    using run v p by (simp add: MemoryPeim_def Let_def split: if_splits) auto
  show "peim_hobs res = concat (map AddHob (srt mm)) @
      (if pcd_mti \<and> peim_status res = EFI_SUCCESS then [MemoryTypeInformationHob] else [])"
    using run v p hobs by (simp add: MemoryPeim_def Let_def split: if_splits) auto
qed

lemma mapped_sorted:
  "sorted_wrt P rs \<Longrightarrow> sorted_wrt P (mapped rs)"
  unfolding mapped_def by (rule sorted_wrt_filter)


section \<open>Sample maps\<close>

definition sample_region :: "string \<Rightarrow> u64 \<Rightarrow> u64 \<Rightarrow> efi_memory_hob_option \<Rightarrow> region" where
  "sample_region n a l h = \<lparr> Name = n, Address = a, Length = l, HobOption = h,
     ResourceType = EFI_RESOURCE_SYSTEM_MEMORY, ResourceAttribute = 7,
     MemoryType = EfiConventionalMemory,
     ArmAttributes = ARM_MEMORY_REGION_ATTRIBUTE_WRITE_BACK \<rparr>"

lemma sample_region_sel [simp]:
  "Address (sample_region n a l h) = a" "Length (sample_region n a l h) = l"
  "HobOption (sample_region n a l h) = h"
  by (simp_all add: sample_region_def)

definition sample_map :: "region list" where
  "sample_map = [sample_region ''RAM'' 0x80000000 0x1000 AddMem,
     sample_region ''Carve-out'' 0x80001000 0x1000 HobOnlyNoCacheSetting,
     sample_region ''Display'' 0x80002000 0x1000 NoHob]"

definition page_map :: "nat \<Rightarrow> region list" where
  "page_map n = map (\<lambda>i. sample_region ''Page'' (of_nat i * 0x1000) 0x1000 AddMem) [0..<n]"

abbreviation address_sort :: "region list \<Rightarrow> region list" where
  "address_sort \<equiv> sort_key Address"

lemma address_sort_sample: "address_sort sample_map = sample_map"
  by (rule sort_key_id_if_sorted) (simp add: sample_map_def)

lemma unat_page: "i < 2 ^ 52 \<Longrightarrow> unat (of_nat i * 0x1000 :: u64) = i * 0x1000"
  by (simp add: unat_word_ariths unat_of_nat)

lemma page_map_sorted: "n \<le> 2 ^ 52 \<Longrightarrow> address_sort (page_map n) = page_map n"
proof (rule sort_key_id_if_sorted)
  assume "n \<le> 2 ^ 52"
  then show "sorted (map Address (page_map n))"
    by (auto simp: page_map_def sorted_iff_nth_mono word_le_nat_alt unat_page)
qed

lemma page_map_clear:
  assumes "n \<le> 2 ^ 51" shows "sorted_wrt (keeps_clear base) (page_map n)"
proof -
  have "(of_nat i * 0x1000 + 0x1000 :: u64) \<le> of_nat j * 0x1000" if "i < j" "j < n" for i j
  proof -
    have "(of_nat i * 0x1000 + 0x1000 :: u64) = of_nat (Suc i) * 0x1000" by (simp add: algebra_simps)
    moreover have "(of_nat (Suc i) * 0x1000 :: u64) \<le> of_nat j * 0x1000"
      unfolding word_le_nat_alt using that assms unat_page [of "Suc i"] unat_page [of j] by simp
    ultimately show ?thesis by (simp only:)
  qed
  then show ?thesis
    by (auto simp: page_map_def sorted_wrt_iff_nth_less keeps_clear_def)
qed

lemma page_map_mapped [simp]: "mapped (page_map n) = page_map n" "length (page_map n) = n"
  by (simp_all add: page_map_def mapped_def filter_map comp_def)

section \<open>Properties\<close>

text \<open>C11. ValidateMemoryMap lets a map through exactly when no region at or above the system
  memory base runs into a later one; then the array has been sorted by address. With
  assertions compiled in it also has at most 128 entries.\<close>

theorem validate_accepts_iff:
  assumes "sorts_with CompareMemoryRegions srt"
  shows "ValidateMemoryMap dbg srt base mm = Inr out \<longleftrightarrow>
    out = srt mm \<and> (dbg \<longrightarrow> length mm \<le> 128) \<and>
    (\<forall>i j. i < j \<and> j < length out \<and> base \<le> Address (out ! i) \<longrightarrow>
       Address (out ! i) + Length (out ! i) \<le> Address (out ! j))"
  using validate_Inr_iff [OF assms, of dbg base mm out]
  by (auto simp: sorted_wrt_iff_nth_less keeps_clear_def)

lemma validate_accepts_iff_witness:
  "ValidateMemoryMap True address_sort 0x80000000 sample_map = Inr sample_map"
proof -
  have "sorted_wrt (keeps_clear 0x80000000) sample_map"
    by (simp add: sample_map_def keeps_clear_def)
  then show ?thesis
    unfolding validate_accepts_iff [OF region_order.sort_key_sorts] address_sort_sample
    by (auto simp: sorted_wrt_iff_nth_less keeps_clear_def) (simp add: sample_map_def)
qed

text \<open>The verdict of ValidateMemoryMap, and the sorted array, do not depend on the order
  in which the platform lists its regions, nor on which sorting algorithm the library uses.\<close>

theorem validate_order_independent:
  assumes "sorts_with CompareMemoryRegions srt" "sorts_with CompareMemoryRegions srt'"
    and "mset mm' = mset mm" "distinct (map Address mm)"
  shows "ValidateMemoryMap dbg srt base mm = ValidateMemoryMap dbg srt' base mm'"
proof -
  have "srt mm = srt' mm'"
    using assms by (metis region_order.sort_unique)
  moreover have "length mm = length mm'" using assms(3) by (metis size_mset)
  ultimately show ?thesis by (simp add: ValidateMemoryMap_def)
qed

lemma validate_order_independent_witness:
  "ValidateMemoryMap True address_sort 0x80000000 (rev sample_map)
   = ValidateMemoryMap True address_sort 0x80000000 sample_map"
  by (rule validate_order_independent)
    (simp_all add: region_order.sort_key_sorts, simp add: sample_map_def)

text \<open>C12. When MemoryPeim returns, the table it gave to the MMU has 128 entries. The first ones are
  the regions of the map but the HOB-only ones, each once, with its address, length and
  attributes and mapped identically (virtual equals physical); the rest have length 0, the
  terminator. An entry in system memory whose range does not wrap around the address space is
  disjoint from every later one.\<close>

theorem mmu_table_identity_disjoint:
  assumes "sorts_with CompareMemoryRegions srt"
    and "MemoryPeim dbg srt base pcd_mti mmu mm = Inr res"
    and "n = length (filter (\<lambda>r. HobOption r \<noteq> HobOnlyNoCacheSetting) mm)"
  shows "length (peim_table res) = 128 \<and> n \<le> 128
    \<and> mset (map (\<lambda>e. (PhysicalBase e, VirtualBase e, TableLength e, Attributes e)) (take n (peim_table res)))
      = mset (map (\<lambda>r. (Address r, Address r, Length r, ArmAttributes r))
          (filter (\<lambda>r. HobOption r \<noteq> HobOnlyNoCacheSetting) mm))
    \<and> (\<forall>e \<in> set (drop n (peim_table res)). TableLength e = 0)
    \<and> (\<forall>i j. i < j \<and> j < n \<and> base \<le> PhysicalBase (peim_table res ! i)
        \<and> unat (PhysicalBase (peim_table res ! i)) + unat (TableLength (peim_table res ! i)) < 2 ^ 64
        \<longrightarrow> span (PhysicalBase (peim_table res ! i)) (TableLength (peim_table res ! i))
          \<inter> span (PhysicalBase (peim_table res ! j)) (TableLength (peim_table res ! j)) = {})"
proof -
  let ?ms = "mapped (srt mm)"
  have m: "mset (srt mm) = mset mm" using assms(1) by (simp add: sorts_with_def)
  then have perm: "mset ?ms = mset (filter (\<lambda>r. HobOption r \<noteq> HobOnlyNoCacheSetting) mm)"
    by (simp add: mapped_def)
  then have len: "length ?ms = n" unfolding assms(3) by (metis size_mset)
  note res = MemoryPeim_Inr [OF assms(1,2)]
  have tbl: "peim_table res = map table_entry ?ms @ replicate (128 - n) zero_entry"
    using res(3) by (simp add: len)
  have at: "peim_table res ! k = table_entry (?ms ! k)" if "k < n" for k
    using that len by (simp add: tbl nth_append)
  have content: "mset (map (\<lambda>e. (PhysicalBase e, VirtualBase e, TableLength e, Attributes e)) (take n (peim_table res)))
      = mset (map (\<lambda>r. (Address r, Address r, Length r, ArmAttributes r))
          (filter (\<lambda>r. HobOption r \<noteq> HobOnlyNoCacheSetting) mm))"
    using perm len by (simp add: tbl comp_def table_entry_def mset_map del: mset_filter)
  have apart: "span (PhysicalBase (peim_table res ! i)) (TableLength (peim_table res ! i))
      \<inter> span (PhysicalBase (peim_table res ! j)) (TableLength (peim_table res ! j)) = {}"
    if ij: "i < j" "j < n" and b: "base \<le> PhysicalBase (peim_table res ! i)"
      and nowrap: "unat (PhysicalBase (peim_table res ! i)) + unat (TableLength (peim_table res ! i)) < 2 ^ 64"
    for i j
  proof -
    have "keeps_clear base (?ms ! i) (?ms ! j)"
      using mapped_sorted [OF res(1)] ij len by (simp add: sorted_wrt_iff_nth_less)
    with ij b have "Address (?ms ! i) + Length (?ms ! i) \<le> Address (?ms ! j)"
      by (simp add: at keeps_clear_def table_entry_def)
    with ij nowrap show ?thesis by (auto simp: at table_entry_def word_le_nat_alt unat_add_nowrap)
  qed
  have "\<forall>e \<in> set (drop n (peim_table res)). TableLength e = 0"
    using len by (auto simp: tbl zero_entry_def)
  then show ?thesis using content apart len res(2) by (simp add: tbl)
qed

lemma mmu_table_identity_disjoint_witness:
  "\<exists>res. MemoryPeim True address_sort 0x80000000 False (\<lambda>_. EFI_SUCCESS) sample_map = Inr res
     \<and> mset (map (\<lambda>e. (PhysicalBase e, VirtualBase e, TableLength e, Attributes e)) (take 2 (peim_table res)))
       = {# (0x80000000, 0x80000000, 0x1000, ARM_MEMORY_REGION_ATTRIBUTE_WRITE_BACK),
            (0x80002000, 0x80002000, 0x1000, ARM_MEMORY_REGION_ATTRIBUTE_WRITE_BACK) #}
     \<and> span 0x80000000 0x1000 \<inter> span (PhysicalBase (peim_table res ! 1)) (TableLength (peim_table res ! 1)) = {}"
proof -
  have "sorted_wrt (keeps_clear 0x80000000) sample_map"
    by (simp add: sample_map_def keeps_clear_def)
  then have v: "ValidateMemoryMap True address_sort 0x80000000 sample_map = Inr sample_map"
    by (simp add: validate_Inr_iff [OF region_order.sort_key_sorts] address_sort_sample)
      (simp add: sample_map_def)
  have ms: "mapped sample_map = [sample_region ''RAM'' 0x80000000 0x1000 AddMem,
      sample_region ''Display'' 0x80002000 0x1000 NoHob]"
    by (simp add: sample_map_def)
  obtain res where run: "MemoryPeim True address_sort 0x80000000 False (\<lambda>_. EFI_SUCCESS) sample_map = Inr res"
    and tbl: "peim_table res ! 0 = table_entry (sample_region ''RAM'' 0x80000000 0x1000 AddMem)"
    using v peim_loop_ok [of 0 sample_map "replicate 128 zero_entry" "[]"]
    by (simp add: MemoryPeim_def ms)
  have two: "2 = length (filter (\<lambda>r. HobOption r \<noteq> HobOnlyNoCacheSetting) sample_map)"
    by (simp add: sample_map_def)
  have first: "PhysicalBase (peim_table res ! 0) = 0x80000000" "TableLength (peim_table res ! 0) = 0x1000"
    by (simp_all add: tbl table_entry_def)
  note facts = mmu_table_identity_disjoint [OF region_order.sort_key_sorts run two]
  have "\<forall>i j. i < j \<and> j < 2 \<and> 0x80000000 \<le> PhysicalBase (peim_table res ! i)
      \<and> unat (PhysicalBase (peim_table res ! i)) + unat (TableLength (peim_table res ! i)) < 2 ^ 64
      \<longrightarrow> span (PhysicalBase (peim_table res ! i)) (TableLength (peim_table res ! i))
        \<inter> span (PhysicalBase (peim_table res ! j)) (TableLength (peim_table res ! j)) = {}"
    using facts by (elim conjE)
  from this [THEN spec, THEN spec, of 0 1] first
  have apart: "span 0x80000000 0x1000 \<inter> span (PhysicalBase (peim_table res ! 1)) (TableLength (peim_table res ! 1)) = {}"
    by (simp del: span_def)
  from facts have "mset (map (\<lambda>e. (PhysicalBase e, VirtualBase e, TableLength e, Attributes e)) (take 2 (peim_table res)))
      = mset (map (\<lambda>r. (Address r, Address r, Length r, ArmAttributes r)) (mapped sample_map))"
    unfolding mapped_def by (elim conjE)
  with run apart show ?thesis by (intro exI [of _ res]) (simp add: ms sample_region_def)
qed

text \<open>C33. MemoryPeim writes past its 128-entry table exactly when a validated map has more
  than 128 regions to map; with assertions compiled in that cannot happen.\<close>

theorem memory_peim_overflow_iff:
  assumes "sorts_with CompareMemoryRegions srt"
  shows "MemoryPeim dbg srt base pcd_mti mmu mm = Inl OUT_OF_BOUNDS \<longleftrightarrow>
    \<not> dbg \<and> ValidateMemoryMap dbg srt base mm = Inr (srt mm)
    \<and> 128 < length (filter (\<lambda>r. HobOption r \<noteq> HobOnlyNoCacheSetting) mm)"
proof -
  have m: "mset (srt mm) = mset mm" using assms by (simp add: sorts_with_def)
  then have len: "length (mapped (srt mm)) = length (filter (\<lambda>r. HobOption r \<noteq> HobOnlyNoCacheSetting) mm)"
    by (metis mapped_def mset_filter size_mset)
  have le: "length (mapped (srt mm)) \<le> length mm"
    using length_mapped_le m by (metis size_mset)
  have loop: "peim_loop (srt mm) 0 (replicate 128 zero_entry) [] = Inl OUT_OF_BOUNDS
      \<longleftrightarrow> 128 < length (mapped (srt mm))"
    using peim_loop_ok [of 0 "srt mm" "replicate 128 zero_entry" "[]"]
      peim_loop_overflow [of "replicate 128 zero_entry" 0 "srt mm" "[]"]
    by (cases "128 < length (mapped (srt mm))") auto
  show ?thesis
  proof (cases "ValidateMemoryMap dbg srt base mm")
    case (Inl h)
    then have "h \<noteq> OUT_OF_BOUNDS" by (auto simp: ValidateMemoryMap_def Let_def split: if_splits)
    with Inl show ?thesis by (simp add: MemoryPeim_def)
  next
    case (Inr rs)
    then have "rs = srt mm" "dbg \<longrightarrow> length mm \<le> 128"
      by (simp_all add: validate_Inr_iff [OF assms])
    then show ?thesis using Inr loop len le
      by (cases dbg) (auto simp: MemoryPeim_def Let_def split: sum.splits if_splits)
  qed
qed

lemma memory_peim_overflow_iff_witness:
  "MemoryPeim False address_sort 0 False (\<lambda>_. EFI_SUCCESS) (page_map 129) = Inl OUT_OF_BOUNDS"
  unfolding memory_peim_overflow_iff [OF region_order.sort_key_sorts]
  by (simp add: validate_Inr_iff [OF region_order.sort_key_sorts] page_map_sorted page_map_clear
      mapped_def [symmetric])

text \<open>The count check is one too weak for a table that the MMU library reads up to an
  entry of length zero: a map of exactly 128 non-empty regions passes it, with assertions on,
  and is handed over with no terminating entry.\<close>

theorem full_table_has_no_terminator:
  assumes "sorts_with CompareMemoryRegions srt"
    and "ValidateMemoryMap True srt base mm = Inr (srt mm)"
    and "length (filter (\<lambda>r. HobOption r \<noteq> HobOnlyNoCacheSetting) mm) = 128"
    and "\<forall>r \<in> set mm. Length r \<noteq> 0"
  shows "\<exists>res. MemoryPeim True srt base pcd_mti mmu mm = Inr res
    \<and> length (peim_table res) = 128 \<and> (\<forall>e \<in> set (peim_table res). TableLength e \<noteq> 0)"
proof -
  have m: "mset (srt mm) = mset mm" using assms(1) by (simp add: sorts_with_def)
  then have len: "length (mapped (srt mm)) = 128"
    using assms(3) by (metis mapped_def mset_filter size_mset)
  then obtain tbl hobs where loop: "peim_loop (srt mm) 0 (replicate 128 zero_entry) [] = Inr (tbl, hobs)"
    using peim_loop_ok [of 0 "srt mm" "replicate 128 zero_entry" "[]"] by auto
  then obtain res where run: "MemoryPeim True srt base pcd_mti mmu mm = Inr res"
    using assms(2) by (cases "EFI_ERROR (mmu tbl)") (auto simp: MemoryPeim_def Let_def)
  have "set (mapped (srt mm)) \<subseteq> set mm"
    using m by (metis filter_is_subset mapped_def set_mset_mset)
  then show ?thesis
    using MemoryPeim_Inr(3) [OF assms(1) run] run len assms(4)
    by (auto simp: table_entry_def)
qed

lemma full_table_has_no_terminator_witness:
  "\<exists>res. MemoryPeim True address_sort 0 False (\<lambda>_. EFI_SUCCESS) (page_map 128) = Inr res
    \<and> length (peim_table res) = 128 \<and> (\<forall>e \<in> set (peim_table res). TableLength e \<noteq> 0)"
  by (rule full_table_has_no_terminator [OF region_order.sort_key_sorts])
    (simp_all add: validate_Inr_iff [OF region_order.sort_key_sorts] page_map_sorted page_map_clear
      mapped_def [symmetric], simp add: page_map_def)

end
