(* ===== verification/RamManager.thy ===== *)
theory RamManager
  imports MemoryInit
begin

text \<open>
  \<open>SiliciumPkg/Drivers/RamManagerDxe/RamManager.c\<close>: the driver that maps the memory the
  SoC library reports as usable and the firmware does not know of yet.

  The services of the firmware core are the fields of \<open>ram_services\<close>; pointers are
  addresses, 0 is NULL. \<open>GetMemoryMap\<close> takes the size and the buffer and returns the status,
  the new size, the descriptor size and the descriptors it wrote; the number of descriptors,
  \<open>MEMORY_DESCRIPTOR_LIST_SIZE\<close>, is the length of that list. \<open>GetUsableMemoryRanges\<close> is
  another library of the repository (see \<open>RamRanges\<close>): it takes the content of the caller's
  pointer variable and returns the new content and the array it points to. The caller's
  variable is not initialised, so its content is the argument \<open>garbage\<close> of \<open>ManageRam\<close>.

  The loop of \<open>ParseMemoryRange\<close> counts in a \<open>UINT16\<close>; it is a partial function, whose value
  \<open>None\<close> means that it does not return. \<open>ram_gaps\<close> is its specification.
\<close>

section \<open>Types\<close>

record efi_memory_descriptor =
  PhysicalStart :: u64
  NumberOfPages :: u64

record efi_memory_range =
  RangeAddress :: u64
  RangeLength :: u64

record 'w ram_services =
  map_sv :: "'w map_services"
  GetMemoryMap ::
    "u64 \<Rightarrow> u64 \<Rightarrow> ('w, efi_status \<times> u64 \<times> u64 \<times> efi_memory_descriptor list) state"
  AllocateZeroPool :: "u64 \<Rightarrow> ('w, u64) state"
  FreePool :: "u64 \<Rightarrow> ('w, unit) state"
  GetUsableMemoryRanges :: "u64 \<Rightarrow> ('w, efi_status \<times> u64 \<times> efi_memory_range list) state"

record ram_globals =
  EfiMemoryMap :: u64
  EfiMemoryMapSize :: u64
  DescriptorSize :: u64
  MapEntries :: "efi_memory_descriptor list"

definition initial_globals :: ram_globals where
  "initial_globals = \<lparr> EfiMemoryMap = 0, EfiMemoryMapSize = 0, DescriptorSize = 0, MapEntries = [] \<rparr>"

section \<open>Operations\<close>

text \<open>The status of \<open>MapMemoryRegion\<close> is only logged.\<close>

definition HandleRamRange :: "'w map_services \<Rightarrow> u64 \<Rightarrow> u64 \<Rightarrow> ('w, unit) state" where
  "HandleRamRange sv base len = do {
     s \<leftarrow> MapMemoryRegion sv base len EfiConventionalMemory;
     State_Monad.return () }"

definition region_end :: "efi_memory_descriptor \<Rightarrow> u64" where
  "region_end d = PhysicalStart d + EFI_PAGES_TO_SIZE (NumberOfPages d)"

text \<open>The loop: \<open>i\<close>, \<open>CurrentRangeBase\<close> and the world; it returns the last two.\<close>

partial_function (option) parse_loop ::
    "'w map_services \<Rightarrow> efi_memory_descriptor list \<Rightarrow> u64 \<Rightarrow> u16 \<Rightarrow> u64 \<Rightarrow> 'w
      \<Rightarrow> (u64 \<times> 'w) option" where
  "parse_loop sv mm RangeEnd i CurrentRangeBase w =
     (if unat i < length mm then
        (let RegionBase = PhysicalStart (mm ! unat i);
             RegionEnd = region_end (mm ! unat i)
         in if RegionBase \<ge> RangeEnd then Some (CurrentRangeBase, w)
            else if RegionEnd \<le> CurrentRangeBase
            then parse_loop sv mm RangeEnd (i + 1) CurrentRangeBase w
            else
              (let w' = (if RegionBase > CurrentRangeBase
                         then snd (run_state (HandleRamRange sv CurrentRangeBase
                                (RegionBase - CurrentRangeBase)) w)
                         else w);
                   base' = (if RegionEnd > CurrentRangeBase then RegionEnd else CurrentRangeBase)
               in parse_loop sv mm RangeEnd (i + 1) base' w'))
      else Some (CurrentRangeBase, w))"

definition ParseMemoryRange ::
    "'w map_services \<Rightarrow> efi_memory_descriptor list \<Rightarrow> u64 \<Rightarrow> u64 \<Rightarrow> 'w \<Rightarrow> 'w option" where
  "ParseMemoryRange sv mm RangeBase RangeEnd w =
     (case parse_loop sv mm RangeEnd 0 RangeBase w of
        None \<Rightarrow> None
      | Some (cur, w') \<Rightarrow>
          Some (if cur < RangeEnd then snd (run_state (HandleRamRange sv cur (RangeEnd - cur)) w')
                else w'))"

definition CompareMemoryRegions :: "efi_memory_descriptor \<Rightarrow> efi_memory_descriptor \<Rightarrow> int" where
  "CompareMemoryRegions Region1 Region2 =
     (if PhysicalStart Region1 < PhysicalStart Region2 then -1
      else if PhysicalStart Region1 > PhysicalStart Region2 then 1
      else 0)"

definition CompareMemoryRanges :: "efi_memory_range \<Rightarrow> efi_memory_range \<Rightarrow> int" where
  "CompareMemoryRanges Range1 Range2 =
     (if RangeAddress Range1 < RangeAddress Range2 then -1
      else if RangeAddress Range1 > RangeAddress Range2 then 1
      else 0)"

interpretation descriptor_order: key_comparator CompareMemoryRegions PhysicalStart
  by unfold_locales (auto simp: CompareMemoryRegions_def)

interpretation range_order: key_comparator CompareMemoryRanges RangeAddress
  by unfold_locales (auto simp: CompareMemoryRanges_def)

definition GetEfiMemoryMap ::
    "'w ram_services \<Rightarrow> ram_globals \<Rightarrow> ('w, efi_status \<times> ram_globals) state" where
  "GetEfiMemoryMap sv g = do {
     (s, size, _, _) \<leftarrow> GetMemoryMap sv (EfiMemoryMapSize g) (EfiMemoryMap g);
     let g = g\<lparr> EfiMemoryMapSize := size \<rparr>;
     if EFI_ERROR s \<and> s \<noteq> EFI_BUFFER_TOO_SMALL then State_Monad.return (s, g)
     else do {
       let g = g\<lparr> EfiMemoryMapSize := EfiMemoryMapSize g + 1024 \<rparr>;
       p \<leftarrow> AllocateZeroPool sv (EfiMemoryMapSize g);
       let g = g\<lparr> EfiMemoryMap := p \<rparr>;
       if p = 0 then State_Monad.return (EFI_OUT_OF_RESOURCES, g)
       else do {
         (s, size, dsize, entries) \<leftarrow> GetMemoryMap sv (EfiMemoryMapSize g) p;
         let g = g\<lparr> EfiMemoryMapSize := size, DescriptorSize := dsize, MapEntries := entries \<rparr>;
         State_Monad.return (if EFI_ERROR s then s else EFI_SUCCESS, g) } } }"

text \<open>The range loop of \<open>ManageRam\<close>.\<close>

fun manage_loop ::
    "'w map_services \<Rightarrow> efi_memory_descriptor list \<Rightarrow> efi_memory_range list \<Rightarrow> 'w \<Rightarrow> 'w option" where
  "manage_loop sv mm [] w = Some w"
| "manage_loop sv mm (r # rs) w =
     (case ParseMemoryRange sv mm (RangeAddress r) (RangeAddress r + RangeLength r) w of
        None \<Rightarrow> None
      | Some w' \<Rightarrow> manage_loop sv mm rs w')"

definition ram_cleanup :: "'w ram_services \<Rightarrow> ram_globals \<Rightarrow> u64 \<Rightarrow> ('w, unit) state" where
  "ram_cleanup sv g MemoryRange = do {
     _ \<leftarrow> if EfiMemoryMap g \<noteq> 0 then FreePool sv (EfiMemoryMap g) else State_Monad.return ();
     if MemoryRange \<noteq> 0 then FreePool sv MemoryRange else State_Monad.return () }"

definition ManageRam ::
    "'w ram_services \<Rightarrow> (efi_memory_descriptor list \<Rightarrow> efi_memory_descriptor list)
      \<Rightarrow> (efi_memory_range list \<Rightarrow> efi_memory_range list) \<Rightarrow> u64 \<Rightarrow> ram_globals \<Rightarrow> 'w
      \<Rightarrow> (efi_status \<times> 'w) option" where
  "ManageRam sv sort_map sort_ranges garbage g w =
     (case run_state (GetEfiMemoryMap sv g) w of
        ((s, g), w) \<Rightarrow>
          if EFI_ERROR s then Some (s, snd (run_state (ram_cleanup sv g garbage) w))
          else
            (case run_state (GetUsableMemoryRanges sv garbage) w of
               ((s, p, ranges), w) \<Rightarrow>
                 if EFI_ERROR s then Some (s, snd (run_state (ram_cleanup sv g p) w))
                 else
                   (case manage_loop (map_sv sv) (sort_map (MapEntries g)) (sort_ranges ranges) w of
                      None \<Rightarrow> None
                    | Some w' \<Rightarrow> Some (s, snd (run_state (ram_cleanup sv g p) w')))))"

section \<open>Specification\<close>

text \<open>The gaps that the sorted memory map leaves in a range, as (base, length) pairs.\<close>

fun ram_gaps :: "efi_memory_descriptor list \<Rightarrow> u64 \<Rightarrow> u64 \<Rightarrow> (u64 \<times> u64) list" where
  "ram_gaps [] e cur = (if cur < e then [(cur, e - cur)] else [])"
| "ram_gaps (d # ds) e cur =
     (if PhysicalStart d \<ge> e then (if cur < e then [(cur, e - cur)] else [])
      else if region_end d \<le> cur then ram_gaps ds e cur
      else (if PhysicalStart d > cur then [(cur, PhysicalStart d - cur)] else [])
           @ ram_gaps ds e (region_end d))"

text \<open>The bytes a descriptor describes, and that its end does not wrap.\<close>

definition region_bytes :: "efi_memory_descriptor \<Rightarrow> nat set" where
  "region_bytes d = {unat (PhysicalStart d) ..< unat (PhysicalStart d) + 4096 * unat (NumberOfPages d)}"

definition region_fits :: "efi_memory_descriptor \<Rightarrow> bool" where
  "region_fits d \<longleftrightarrow> unat (PhysicalStart d) + 4096 * unat (NumberOfPages d) < 2 ^ 64"

definition gap_bytes :: "(u64 \<times> u64) list \<Rightarrow> nat set" where
  "gap_bytes gs = (\<Union>(b, n) \<in> set gs. span b n)"

lemma gap_bytes_simps [simp]:
  "gap_bytes [] = {}" "gap_bytes ((b, n) # gs) = span b n \<union> gap_bytes gs"
  "gap_bytes (gs @ hs) = gap_bytes gs \<union> gap_bytes hs"
  by (auto simp: gap_bytes_def)

lemma unat_region_end:
  assumes "region_fits d"
  shows "unat (region_end d) = unat (PhysicalStart d) + 4096 * unat (NumberOfPages d)"
proof -
  have "unat (NumberOfPages d * 4096) = unat (NumberOfPages d) * 4096"
    using assms unat_mult_lem [of "NumberOfPages d" 4096] by (simp add: region_fits_def)
  with assms show ?thesis
    by (simp add: region_end_def region_fits_def EFI_PAGES_TO_SIZE_def push_bit_eq_mult
        unat_add_nowrap)
qed

lemma region_bytes_end:
  "region_fits d \<Longrightarrow> region_bytes d = {unat (PhysicalStart d) ..< unat (region_end d)}"
  by (simp add: region_bytes_def unat_region_end)

abbreviation by_start :: "efi_memory_descriptor list \<Rightarrow> bool" where
  "by_start \<equiv> sorted_wrt (\<lambda>d e. PhysicalStart d \<le> PhysicalStart e)"

lemma later_regions_clear:
  assumes "by_start (d # ds)" "a \<le> PhysicalStart d"
  shows "{x..<unat a} \<inter> (\<Union>r \<in> set (d # ds). region_bytes r) = {}"
  using assms by (fastforce simp: region_bytes_def word_le_nat_alt)

lemma gap_step:
  fixes c p r e :: nat
  assumes "{c..<p} \<inter> ({p..<r} \<union> U) = {}" "p < e" "c < r"
  shows "{c..<p} \<union> ({r..<e} - U) = {c..<e} - ({p..<r} \<union> U)"
  using assms by fastforce

lemma ram_gaps_cover:
  assumes "by_start ds" "\<forall>d \<in> set ds. region_fits d"
  shows "gap_bytes (ram_gaps ds e cur) = {unat cur ..< unat e} - (\<Union>d \<in> set ds. region_bytes d)"
  using assms
proof (induction ds arbitrary: cur)
  case Nil
  then show ?case by (auto simp: word_less_nat_alt)
next
  case (Cons d ds)
  have fits: "region_fits d" using Cons.prems by simp
  consider (past) "e \<le> PhysicalStart d" | (skip) "PhysicalStart d < e" "region_end d \<le> cur"
    | (use) "PhysicalStart d < e" "cur < region_end d" by fastforce
  then show ?case
  proof cases
    case past
    with later_regions_clear [OF Cons.prems(1) past, of "unat cur"] show ?thesis
      by (auto simp: word_less_nat_alt)
  next
    case skip
    then have "ram_gaps (d # ds) e cur = ram_gaps ds e cur" by (auto dest: leD)
    then show ?thesis
      using skip Cons by (auto simp: region_bytes_end [OF fits] word_le_nat_alt)
  next
    case use
    have "{unat cur ..< unat (PhysicalStart d)} \<inter> (\<Union>r \<in> set (d # ds). region_bytes r) = {}"
      by (rule later_regions_clear) (use Cons.prems in simp_all)
    then have step: "{unat cur ..< unat (PhysicalStart d)} \<union>
          ({unat (region_end d) ..< unat e} - (\<Union>r \<in> set ds. region_bytes r)) =
        {unat cur ..< unat e} - (region_bytes d \<union> (\<Union>r \<in> set ds. region_bytes r))"
      unfolding region_bytes_end [OF fits]
      using use by (intro gap_step) (simp_all add: word_less_nat_alt region_bytes_end [OF fits])
    moreover have "ram_gaps (d # ds) e cur =
        (if cur < PhysicalStart d then [(cur, PhysicalStart d - cur)] else [])
        @ ram_gaps ds e (region_end d)"
      using use by auto
    moreover have "gap_bytes (if cur < PhysicalStart d then [(cur, PhysicalStart d - cur)] else [])
        = {unat cur ..< unat (PhysicalStart d)}"
      by (simp add: word_less_nat_alt)
    ultimately show ?thesis
      using Cons by (simp del: ram_gaps.simps)
  qed
qed

text \<open>The gaps come in ascending order, none is empty, and none overlaps another.\<close>

lemma ram_gaps_bounds:
  "(b, n) \<in> set (ram_gaps ds e cur) \<Longrightarrow>
     n \<noteq> 0 \<and> cur \<le> b \<and> unat b + unat n \<le> unat e"
proof (induction ds e cur rule: ram_gaps.induct)
  case (1 e cur)
  then show ?case by (auto simp: unat_diff_le word_less_nat_alt split: if_splits)
next
  case (2 d ds e cur)
  have "b = c \<and> n = f - c \<and> c < f \<and> f \<le> e \<Longrightarrow> n \<noteq> 0 \<and> c \<le> b \<and> unat b + unat n \<le> unat e" for c f
    by (auto simp: unat_diff_le word_less_nat_alt word_le_nat_alt)
  with 2 show ?case by (auto split: if_splits)
qed

lemma ram_gaps_ascending:
  assumes "\<forall>d \<in> set ds. region_fits d"
  shows "sorted_wrt (\<lambda>(b, n) (b', n'). unat b + unat n \<le> unat b') (ram_gaps ds e cur)"
  using assms
proof (induction ds e cur rule: ram_gaps.induct)
  case (2 d ds e cur)
  have "PhysicalStart d \<le> region_end d"
    using 2 by (simp add: word_le_nat_alt unat_region_end)
  then have "unat cur + unat (PhysicalStart d - cur) \<le> unat b"
    if "(b, n) \<in> set (ram_gaps ds e (region_end d))" "cur < PhysicalStart d" for b n
    using ram_gaps_bounds [OF that(1)] that(2) by (simp add: word_le_nat_alt)
  with 2 show ?case by (auto simp: sorted_wrt_append)
qed simp

section \<open>The loop meets the specification\<close>

text \<open>A plan is the list of ranges to map, in order.\<close>

definition map_all :: "'w map_services \<Rightarrow> (u64 \<times> u64) list \<Rightarrow> 'w \<Rightarrow> 'w" where
  "map_all sv gs w = snd (run_state (for_each (\<lambda>(b, n). HandleRamRange sv b n) gs) w)"

lemma map_all_simps [simp]:
  "map_all sv [] w = w"
  "map_all sv ((b, n) # gs) w = map_all sv gs (snd (run_state (HandleRamRange sv b n) w))"
  by (simp_all add: map_all_def run_for_each_Cons del: for_each.simps(2))

lemma map_all_append [simp]: "map_all sv (gs @ hs) w = map_all sv hs (map_all sv gs w)"
  by (induction gs arbitrary: w) auto

text \<open>What the rest of the loop and the final piece of a range do.\<close>

definition finish_range :: "'w map_services \<Rightarrow> u64 \<Rightarrow> u64 \<times> 'w \<Rightarrow> 'w" where
  "finish_range sv e p = (case p of (cur, w) \<Rightarrow>
     if cur < e then snd (run_state (HandleRamRange sv cur (e - cur)) w) else w)"

lemma parse_loop_gaps:
  assumes "length mm < 2 ^ 16" "k \<le> length mm"
  shows "map_option (finish_range sv e) (parse_loop sv mm e (of_nat k) cur w)
    = Some (map_all sv (ram_gaps (drop k mm) e cur) w)"
  using assms(2)
proof (induction "length mm - k" arbitrary: k cur w)
  case 0
  with assms(1) show ?case
    by (subst parse_loop.simps) (simp add: finish_range_def unat_of_nat)
next
  case (Suc n)
  then have lt: "k < length mm" by simp
  have k: "unat (of_nat k :: u16) = k" using lt assms(1) by (simp add: unat_of_nat)
  have drop: "drop k mm = mm ! k # drop (Suc k) mm" using lt by (simp add: Cons_nth_drop_Suc)
  have IH: "map_option (finish_range sv e) (parse_loop sv mm e (of_nat k + 1) cur w)
      = Some (map_all sv (ram_gaps (drop (Suc k) mm) e cur) w)" for cur w
    using Suc(1) [of "Suc k"] Suc(2) lt by (simp add: add.commute)
  show ?case
    unfolding parse_loop.simps [of sv mm e "of_nat k"] drop
    by (simp add: k lt Let_def if_distrib [of "map_option (finish_range sv e)"] IH
        del: map_option_eq_Some cong: if_cong) (auto simp: finish_range_def)
qed

lemma ParseMemoryRange_gaps:
  assumes "length mm < 2 ^ 16"
  shows "ParseMemoryRange sv mm b e w = Some (map_all sv (ram_gaps mm e b) w)"
proof -
  have "ParseMemoryRange sv mm b e w = map_option (finish_range sv e) (parse_loop sv mm e 0 b w)"
    by (simp add: ParseMemoryRange_def finish_range_def split: option.splits)
  then show ?thesis using parse_loop_gaps [OF assms, of 0 sv e b w] by simp
qed

definition ram_plan ::
    "efi_memory_descriptor list \<Rightarrow> efi_memory_range list \<Rightarrow> (u64 \<times> u64) list" where
  "ram_plan mm rs =
     concat (map (\<lambda>r. ram_gaps mm (RangeAddress r + RangeLength r) (RangeAddress r)) rs)"

lemma ram_plan_simps [simp]:
  "ram_plan mm [] = []"
  "ram_plan mm (r # rs) =
     ram_gaps mm (RangeAddress r + RangeLength r) (RangeAddress r) @ ram_plan mm rs"
  by (simp_all add: ram_plan_def)

lemma manage_loop_plan:
  "length mm < 2 ^ 16 \<Longrightarrow> manage_loop sv mm rs w = Some (map_all sv (ram_plan mm rs) w)"
  by (induction rs arbitrary: w) (simp_all add: ParseMemoryRange_gaps)

lemma ram_plan_cover:
  assumes "by_start mm" "\<forall>d \<in> set mm. region_fits d"
    and "\<forall>r \<in> set rs. unat (RangeAddress r) + unat (RangeLength r) < 2 ^ 64"
  shows "gap_bytes (ram_plan mm rs) =
    (\<Union>r \<in> set rs. span (RangeAddress r) (RangeLength r)) - (\<Union>d \<in> set mm. region_bytes d)"
  using assms(3)
  by (induction rs) (auto simp: ram_gaps_cover [OF assms(1,2)] unat_add_nowrap)

lemma sorts_with_regions:
  assumes "sorts_with CompareMemoryRegions f"
  shows "by_start (f mm)" "set (f mm) = set mm" "length (f mm) = length mm"
  using descriptor_order.sorted_keys [OF assms] assms
  by (auto simp: sorts_with_def dest: mset_eq_setD mset_eq_length)

lemma manage_ram_plan:
  assumes "sorts_with CompareMemoryRegions sort_map" "sorts_with CompareMemoryRanges sort_ranges"
    and "run_state (GetEfiMemoryMap sv g) w = ((EFI_SUCCESS, g'), w1)"
    and "run_state (GetUsableMemoryRanges sv garbage) w1 = ((EFI_SUCCESS, p, ranges), w2)"
    and "length (MapEntries g') < 65536"
    and "\<forall>d \<in> set (MapEntries g'). unat (PhysicalStart d) + 4096 * unat (NumberOfPages d) < 2 ^ 64"
    and "\<forall>r \<in> set ranges. unat (RangeAddress r) + unat (RangeLength r) < 2 ^ 64"
  shows "\<exists>gs. ManageRam sv sort_map sort_ranges garbage g w =
      Some (EFI_SUCCESS, snd (run_state (ram_cleanup sv g' p) (map_all (map_sv sv) gs w2)))
    \<and> gap_bytes gs = (\<Union>r \<in> set ranges. span (RangeAddress r) (RangeLength r))
        - (\<Union>d \<in> set (MapEntries g'). region_bytes d)"
proof (intro exI conjI)
  let ?mm = "sort_map (MapEntries g')" and ?rs = "sort_ranges ranges"
  have rs: "set ?rs = set ranges"
    using assms(2) by (auto simp: sorts_with_def dest: mset_eq_setD)
  note mm = sorts_with_regions [OF assms(1), of "MapEntries g'"]
  show "ManageRam sv sort_map sort_ranges garbage g w =
      Some (EFI_SUCCESS, snd (run_state (ram_cleanup sv g' p)
        (map_all (map_sv sv) (ram_plan ?mm ?rs) w2)))"
    using assms(3-5) mm(3) by (simp add: ManageRam_def manage_loop_plan)
  show "gap_bytes (ram_plan ?mm ?rs) = (\<Union>r \<in> set ranges. span (RangeAddress r) (RangeLength r))
        - (\<Union>d \<in> set (MapEntries g'). region_bytes d)"
    using ram_plan_cover [of ?mm ?rs] mm assms(6,7) by (simp add: rs region_fits_def)
qed

section \<open>A recording instance of the services\<close>

text \<open>The world is the log of the spaces added; everything succeeds.\<close>

definition log_map_services :: "(u64 \<times> u64) list map_services" where
  "log_map_services = \<lparr>
     AddMemorySpace = (\<lambda>_ a n _. do { l \<leftarrow> State_Monad.get; _ \<leftarrow> State_Monad.set (l @ [(a, n)]);
       State_Monad.return EFI_SUCCESS }),
     ArmSetMemoryAttributes = (\<lambda>_ _ _ _. State_Monad.return EFI_SUCCESS),
     SetMemorySpaceAttributes = (\<lambda>_ _ _. State_Monad.return EFI_SUCCESS) \<rparr>"

definition sample_descriptors :: "efi_memory_descriptor list" where
  "sample_descriptors = [\<lparr> PhysicalStart = 0x90000000, NumberOfPages = 16 \<rparr>,
     \<lparr> PhysicalStart = 0x80000000, NumberOfPages = 256 \<rparr>]"

definition log_ram_services :: "efi_status \<Rightarrow> (u64 \<times> u64) list ram_services" where
  "log_ram_services s = \<lparr> map_sv = log_map_services,
     GetMemoryMap = (\<lambda>n p. State_Monad.return
       (if s \<noteq> EFI_SUCCESS then s else if p = 0 then EFI_BUFFER_TOO_SMALL else EFI_SUCCESS,
        80, 40, sample_descriptors)),
     AllocateZeroPool = (\<lambda>_. State_Monad.return 0x1000),
     FreePool = (\<lambda>p. do { l \<leftarrow> State_Monad.get; State_Monad.set (l @ [(p, 0)]) }),
     GetUsableMemoryRanges = (\<lambda>_. State_Monad.return (EFI_SUCCESS, 0x2000,
       [\<lparr> RangeAddress = 0x80000000, RangeLength = 0x20000000 \<rparr>])) \<rparr>"

lemma descriptor_sort_sample:
  "sort_key PhysicalStart sample_descriptors = rev sample_descriptors"
  by (simp add: sample_descriptors_def)

section \<open>Properties\<close>

text \<open>C13. For a sorted memory map of fewer than 65536 descriptors that do not wrap,
  ParseMemoryRange returns, and it maps, in ascending order and without overlap, non-empty
  ranges that together are exactly the bytes of the given range no descriptor describes.\<close>

theorem parse_range_maps_the_gaps:
  assumes "length mm < 65536"
    and "sorted_wrt (\<lambda>d e. PhysicalStart d \<le> PhysicalStart e) mm"
    and "\<forall>d \<in> set mm. unat (PhysicalStart d) + 4096 * unat (NumberOfPages d) < 2 ^ 64"
  shows "\<exists>gs. ParseMemoryRange sv mm b e w = Some (map_all sv gs w)
    \<and> gap_bytes gs = {unat b ..< unat e} - (\<Union>d \<in> set mm. region_bytes d)
    \<and> sorted_wrt (\<lambda>(b, n) (b', n'). unat b + unat n \<le> unat b') gs
    \<and> (\<forall>(b, n) \<in> set gs. n \<noteq> 0)"
proof (intro exI conjI)
  have fits: "\<forall>d \<in> set mm. region_fits d" using assms(3) by (simp add: region_fits_def)
  show "ParseMemoryRange sv mm b e w = Some (map_all sv (ram_gaps mm e b) w)"
    using assms(1) by (simp add: ParseMemoryRange_gaps)
  show "gap_bytes (ram_gaps mm e b) = {unat b ..< unat e} - (\<Union>d \<in> set mm. region_bytes d)"
    using assms(2) fits by (rule ram_gaps_cover)
  show "sorted_wrt (\<lambda>(b, n) (b', n'). unat b + unat n \<le> unat b') (ram_gaps mm e b)"
    using fits by (rule ram_gaps_ascending)
  show "\<forall>(b', n) \<in> set (ram_gaps mm e b). n \<noteq> 0"
    using ram_gaps_bounds by fastforce
qed

lemma parse_range_maps_the_gaps_witness:
  "\<exists>gs. ParseMemoryRange log_map_services (rev sample_descriptors) 0x80000000 0xA0000000 []
      = Some (map_all log_map_services gs [])
    \<and> gap_bytes gs = {0x80000000 ..< 0xA0000000} -
        (\<Union>d \<in> set (rev sample_descriptors). region_bytes d)"
  using parse_range_maps_the_gaps [of "rev sample_descriptors" log_map_services
      "0x80000000" "0xA0000000" "[]"]
  by (auto simp: sample_descriptors_def)

text \<open>C1. When the services succeed, ManageRam returns success having mapped exactly the usable
  bytes that the firmware's memory map does not describe, whatever the order in which the
  two arrays were given, and then freed its buffers.\<close>

theorem manage_ram_maps_usable_minus_known:
  assumes "sorts_with CompareMemoryRegions sort_map" "sorts_with CompareMemoryRanges sort_ranges"
    and "run_state (GetEfiMemoryMap sv g) w = ((EFI_SUCCESS, g'), w1)"
    and "run_state (GetUsableMemoryRanges sv garbage) w1 = ((EFI_SUCCESS, p, ranges), w2)"
    and "length (MapEntries g') < 65536"
    and "\<forall>d \<in> set (MapEntries g'). unat (PhysicalStart d) + 4096 * unat (NumberOfPages d) < 2 ^ 64"
    and "\<forall>r \<in> set ranges. unat (RangeAddress r) + unat (RangeLength r) < 2 ^ 64"
  shows "\<exists>gs. ManageRam sv sort_map sort_ranges garbage g w =
      Some (EFI_SUCCESS, snd (run_state (ram_cleanup sv g' p) (map_all (map_sv sv) gs w2)))
    \<and> gap_bytes gs = (\<Union>r \<in> set ranges. span (RangeAddress r) (RangeLength r))
        - (\<Union>d \<in> set (MapEntries g'). region_bytes d)"
  using assms by (rule manage_ram_plan)

lemma manage_ram_maps_usable_minus_known_witness:
  "\<exists>gs w'. ManageRam (log_ram_services EFI_SUCCESS) (sort_key PhysicalStart)
        (sort_key RangeAddress) 7 initial_globals [] = Some (EFI_SUCCESS, w')
    \<and> gap_bytes gs = span 0x80000000 0x20000000 - (\<Union>d \<in> set sample_descriptors. region_bytes d)"
proof -
  let ?sv = "log_ram_services EFI_SUCCESS"
  have map: "run_state (GetEfiMemoryMap ?sv initial_globals) [] =
      ((EFI_SUCCESS, \<lparr> EfiMemoryMap = 0x1000, EfiMemoryMapSize = 80, DescriptorSize = 40,
         MapEntries = sample_descriptors \<rparr>), [])"
    by (simp add: GetEfiMemoryMap_def log_ram_services_def initial_globals_def)
  have ranges: "run_state (GetUsableMemoryRanges ?sv 7) [] =
      ((EFI_SUCCESS, 0x2000, [\<lparr> RangeAddress = 0x80000000, RangeLength = 0x20000000 \<rparr>]), [])"
    by (simp add: log_ram_services_def)
  have len: "length (MapEntries \<lparr> EfiMemoryMap = 0x1000, EfiMemoryMapSize = 80,
      DescriptorSize = 40, MapEntries = sample_descriptors \<rparr>) < 65536"
    and fits: "\<forall>d \<in> set (MapEntries \<lparr> EfiMemoryMap = 0x1000, EfiMemoryMapSize = 80,
      DescriptorSize = 40, MapEntries = sample_descriptors \<rparr>).
      unat (PhysicalStart d) + 4096 * unat (NumberOfPages d) < 2 ^ 64"
    by (simp_all add: sample_descriptors_def)
  have wraps: "\<forall>r \<in> set [\<lparr> RangeAddress = 0x80000000, RangeLength = 0x20000000 \<rparr>].
      unat (RangeAddress r) + unat (RangeLength r) < 2 ^ 64" by simp
  note result = manage_ram_maps_usable_minus_known [OF descriptor_order.sort_key_sorts
      range_order.sort_key_sorts map ranges len fits wraps]
  show ?thesis
    by (rule exE [OF result], intro exI conjI, erule conjunct1, drule conjunct2) simp
qed

text \<open>When the size query of the memory map fails, ManageRam returns that error and maps
  nothing, but it passes the uninitialised content of its range pointer to FreePool, unless
  that content happens to be NULL.\<close>

theorem manage_ram_frees_uninitialised_pointer:
  assumes "run_state (GetMemoryMap sv (EfiMemoryMapSize initial_globals) 0) w = ((s, r), w1)"
    and "EFI_ERROR s" "s \<noteq> EFI_BUFFER_TOO_SMALL"
  shows "ManageRam sv sort_map sort_ranges garbage initial_globals w =
    Some (s, if garbage = 0 then w1 else snd (run_state (FreePool sv garbage) w1))"
proof -
  obtain size dsize entries where r: "r = (size, dsize, entries)" by (cases r)
  have "run_state (GetEfiMemoryMap sv initial_globals) w =
      ((s, initial_globals\<lparr> EfiMemoryMapSize := size \<rparr>), w1)"
    using assms by (simp add: GetEfiMemoryMap_def r initial_globals_def)
  then show ?thesis
    using assms(2) by (simp add: ManageRam_def ram_cleanup_def initial_globals_def)
qed

lemma manage_ram_frees_uninitialised_pointer_witness:
  "ManageRam (log_ram_services EFI_UNSUPPORTED) (sort_key PhysicalStart) (sort_key RangeAddress)
     0xDEAD initial_globals [] = Some (EFI_UNSUPPORTED, [(0xDEAD, 0)])"
  using manage_ram_frees_uninitialised_pointer [of "log_ram_services EFI_UNSUPPORTED" "[]"
      EFI_UNSUPPORTED _ "[]" "sort_key PhysicalStart" "sort_key RangeAddress" "0xDEAD"]
  by (auto simp: log_ram_services_def)

end
