(* ===== verification/RamRanges.thy ===== *)
theory RamRanges
  imports RamManager
begin

text \<open>
  The SoC libraries that tell the RAM manager which memory is usable.

  \<^item> Samsung: \<open>SamsungPkg/Library/RamManagerLib/RamManager.c\<close> and \<open>MemoryHole.c\<close>. The constructor
    \<open>GetMemoryData\<close> reads the memory size and asks the secure world (SMC) and the hypervisor
    (HVC) for the holes; \<open>samsung_GetUsableMemoryRanges\<close> cuts them out.
  \<^item> Qualcomm: \<open>QcomPkg/Library/RamManagerLib/RamManager.c\<close>, ranges from the RAM partition protocol.
  \<^item> MediaTek: \<open>MediaTekPkg/Library/RamManagerLib/RamManager.c\<close>, the size from two registers of the
    memory controller.
  \<^item> The null library, which reports that it is unsupported.

  The SMC and HVC calls, register reads, pool allocation and the partition protocol are
  parameters. The locale \<open>range_provider\<close> is the contract of \<open>GetUsableMemoryRanges\<close> towards
  its only caller, \<open>ManageRam\<close>; all four libraries are interpretations of it.
\<close>

section \<open>The contract with ManageRam\<close>

locale range_provider =
  fixes provide :: "u64 \<Rightarrow> ('w, efi_status \<times> u64 \<times> efi_memory_range list) state"
  assumes failure_keeps_pointer:
      "run_state (provide p) w = ((s, p', rs), w') \<Longrightarrow> EFI_ERROR s \<Longrightarrow> p' = p"
    and success_allocates:
      "run_state (provide p) w = ((s, p', rs), w') \<Longrightarrow> \<not> EFI_ERROR s \<Longrightarrow> s = EFI_SUCCESS \<and> p' \<noteq> 0"
begin

text \<open>What the caller frees: on failure the old content of its own pointer variable, on
  success the buffer it was given.\<close>

lemma manage_ram_after_failure:
  assumes "GetUsableMemoryRanges sv = provide"
    and "run_state (GetEfiMemoryMap sv g) w = ((EFI_SUCCESS, g'), w1)"
    and "run_state (provide garbage) w1 = ((s, p, rs), w2)" "EFI_ERROR s"
  shows "ManageRam sv sort_map sort_ranges garbage g w =
    Some (s, snd (run_state (ram_cleanup sv g' garbage) w2))"
  using assms failure_keeps_pointer [OF assms(3,4)] by (simp add: ManageRam_def)

lemma manage_ram_status:
  assumes "GetUsableMemoryRanges sv = provide"
    and "run_state (GetEfiMemoryMap sv g) w = ((EFI_SUCCESS, g'), w1)"
    and "run_state (provide garbage) w1 = ((s, p, rs), w2)"
    and "ManageRam sv sort_map sort_ranges garbage g w = Some (s', w')"
  shows "s' = s"
  using assms by (auto simp: ManageRam_def split: if_splits option.splits)

end

section \<open>The null library\<close>

definition null_GetUsableMemoryRanges ::
    "u64 \<Rightarrow> ('w, efi_status \<times> u64 \<times> efi_memory_range list) state" where
  "null_GetUsableMemoryRanges RangePtr = State_Monad.return (EFI_UNSUPPORTED, RangePtr, [])"

interpretation null: range_provider null_GetUsableMemoryRanges
  by unfold_locales (auto simp: null_GetUsableMemoryRanges_def)

text \<open>With the null library the driver gets as far as the failure, and frees what the stack held.\<close>

lemma null_library_frees_garbage:
  assumes "GetUsableMemoryRanges sv = null_GetUsableMemoryRanges"
    and "run_state (GetEfiMemoryMap sv g) w = ((EFI_SUCCESS, g'), w1)"
  shows "ManageRam sv sort_map sort_ranges garbage g w =
    Some (EFI_UNSUPPORTED, snd (run_state (ram_cleanup sv g' garbage) w1))"
  by (rule null.manage_ram_after_failure [OF assms])
    (simp_all add: null_GetUsableMemoryRanges_def)

section \<open>Qualcomm\<close>

record ram_partition_entry =
  PartBase :: u64
  AvailableLength :: u64

record qcom_globals =
  RamPartition :: u64
  RamPartitionCount :: u32
  Partitions :: "ram_partition_entry list"

record 'w qcom_services =
  LocateRamPartitionProtocol :: "('w, efi_status) state"
  GetRamPartitionsCall :: "u64 \<Rightarrow> u32 \<Rightarrow> ('w, efi_status \<times> u32 \<times> ram_partition_entry list) state"
  qcom_AllocateZeroPool :: "u64 \<Rightarrow> ('w, u64) state"
  qcom_FreePool :: "u64 \<Rightarrow> ('w, unit) state"

text \<open>The library constructor.\<close>

definition GetRamPartitions ::
    "'w qcom_services \<Rightarrow> qcom_globals \<Rightarrow> ('w, efi_status \<times> qcom_globals) state" where
  "GetRamPartitions sv g = do {
     s \<leftarrow> LocateRamPartitionProtocol sv;
     if EFI_ERROR s then State_Monad.return (s, g)
     else do {
       (s, n, _) \<leftarrow> GetRamPartitionsCall sv 0 (RamPartitionCount g);
       let g = g\<lparr> RamPartitionCount := n \<rparr>;
       if EFI_ERROR s \<and> s \<noteq> EFI_BUFFER_TOO_SMALL then State_Monad.return (s, g)
       else do {
         p \<leftarrow> qcom_AllocateZeroPool sv (16 * ucast (RamPartitionCount g));
         let g = g\<lparr> RamPartition := p \<rparr>;
         if p = 0 then State_Monad.return (EFI_OUT_OF_RESOURCES, g)
         else do {
           (s, n, ps) \<leftarrow> GetRamPartitionsCall sv p (RamPartitionCount g);
           let g = g\<lparr> RamPartitionCount := n, Partitions := ps \<rparr>;
           State_Monad.return (if EFI_ERROR s then s else EFI_SUCCESS, g) } } } }"

text \<open>The copy loop runs over the \<open>RamPartitionCount\<close> entries; the count that is handed out is
  a \<open>UINT8\<close>, so the caller sees only that many entries of the buffer.\<close>

definition qcom_ranges :: "qcom_globals \<Rightarrow> efi_memory_range list" where
  "qcom_ranges g = map (\<lambda>e. \<lparr> RangeAddress = PartBase e, RangeLength = AvailableLength e \<rparr>)
     (take (unat (RamPartitionCount g)) (Partitions g))"

definition qcom_GetUsableMemoryRanges ::
    "'w qcom_services \<Rightarrow> qcom_globals \<Rightarrow> u64
      \<Rightarrow> ('w, efi_status \<times> u64 \<times> efi_memory_range list) state" where
  "qcom_GetUsableMemoryRanges sv g RangePtr = do {
     p \<leftarrow> qcom_AllocateZeroPool sv (16 * ucast (RamPartitionCount g));
     if p = 0 then do {
       _ \<leftarrow> qcom_FreePool sv (RamPartition g);
       State_Monad.return (EFI_OUT_OF_RESOURCES, RangePtr, []) }
     else do {
       _ \<leftarrow> qcom_FreePool sv (RamPartition g);
       let RangeCount = (ucast (RamPartitionCount g) :: u8);
       State_Monad.return (EFI_SUCCESS, p, take (unat RangeCount) (qcom_ranges g)) } }"

interpretation qcom: range_provider "qcom_GetUsableMemoryRanges sv g"
  for sv :: "'w qcom_services" and g
  by unfold_locales
    (auto simp: qcom_GetUsableMemoryRanges_def Let_def split: if_splits prod.splits)

section \<open>MediaTek\<close>

record emi_rank_info =
  Channel :: u8
  Rank :: u8
  ColShift :: nat
  RowShift :: nat
  RowExtShift :: nat
  SizeShift :: nat
  SizeMask :: u8
  EnableBit :: nat

definition mRankInfo :: "emi_rank_info list" where
  "mRankInfo = [
     \<lparr> Channel = 0, Rank = 0, ColShift = 4, RowShift = 12, RowExtShift = 24,
       SizeShift = 16, SizeMask = 0xF, EnableBit = 0 \<rparr>,
     \<lparr> Channel = 0, Rank = 1, ColShift = 6, RowShift = 14, RowExtShift = 25,
       SizeShift = 20, SizeMask = 0xF, EnableBit = 17 \<rparr>,
     \<lparr> Channel = 1, Rank = 0, ColShift = 20, RowShift = 28, RowExtShift = 4,
       SizeShift = 24, SizeMask = 0xF, EnableBit = 0 \<rparr>,
     \<lparr> Channel = 1, Rank = 1, ColShift = 22, RowShift = 30, RowExtShift = 5,
       SizeShift = 28, SizeMask = 0xF, EnableBit = 16 \<rparr>]"

definition GetRankSize :: "u32 \<Rightarrow> u32 \<Rightarrow> emi_rank_info \<Rightarrow> bool \<Rightarrow> u64" where
  "GetRankSize ConA ConH Info DataWidthIs32Bit =
     (let RankSize = ucast (drop_bit (SizeShift Info) ConH AND ucast (SizeMask Info)) :: u64 in
      if RankSize \<noteq> 0 then RankSize * 0x10000000
      else
        let ColBit = ucast ((drop_bit (ColShift Info) ConA AND 0x03) + 9) :: u8;
            RowBit = ucast (push_bit 2 (drop_bit (RowExtShift Info) ConA AND 0x01)
                            + (drop_bit (RowShift Info) ConA AND 0x03) + 13) :: u8
        in push_bit (unat RowBit + unat ColBit) 1 * ((if DataWidthIs32Bit then 4 else 2) * 8))"

definition EnabledChannels :: "u32 \<Rightarrow> u8" where
  "EnabledChannels ConA = push_bit (unat (drop_bit 8 ConA AND 0x3)) 1"

definition DataWidthIs32Bit :: "u32 \<Rightarrow> bool" where
  "DataWidthIs32Bit ConA = (ConA AND 0x2 \<noteq> 0)"

text \<open>The rank loop of \<open>GetUsableMemoryRanges\<close>; the last argument is \<open>TotalSize\<close>.\<close>

fun rank_loop :: "u32 \<Rightarrow> u32 \<Rightarrow> emi_rank_info list \<Rightarrow> u64 \<Rightarrow> u64" where
  "rank_loop ConA ConH [] TotalSize = TotalSize"
| "rank_loop ConA ConH (Info # rest) TotalSize =
     (if Channel Info \<ge> EnabledChannels ConA then rank_loop ConA ConH rest TotalSize
      else if EnableBit Info \<noteq> 0 \<and> ConA AND push_bit (EnableBit Info) 1 = 0
      then rank_loop ConA ConH rest TotalSize
      else
        let Size = GetRankSize ConA ConH Info (DataWidthIs32Bit ConA);
            Size = (if EnabledChannels ConA \<ge> 4 then Size * 2 else Size)
        in rank_loop ConA ConH rest (TotalSize + Size))"

record 'w mtk_services =
  MmioRead32 :: "u64 \<Rightarrow> ('w, u32) state"
  mtk_AllocateZeroPool :: "u64 \<Rightarrow> ('w, u64) state"

definition mtk_GetUsableMemoryRanges ::
    "'w mtk_services \<Rightarrow> (string \<Rightarrow> string \<Rightarrow> int) \<Rightarrow> region list \<Rightarrow> region \<Rightarrow> u64 \<Rightarrow> u64
      \<Rightarrow> ('w, efi_status \<times> u64 \<times> efi_memory_range list) state" where
  "mtk_GetUsableMemoryRanges sv stricmp mm uninit base RangePtr =
     (case LocateMemoryRegionByName stricmp mm (Some ''EMI'') (Some uninit) of
        (s, out) \<Rightarrow>
          if EFI_ERROR s then State_Monad.return (s, RangePtr, [])
          else do {
            ConA \<leftarrow> MmioRead32 sv (Address (the out) + 0x00);
            ConH \<leftarrow> MmioRead32 sv (Address (the out) + 0x38);
            let TotalSize = rank_loop ConA ConH mRankInfo 0;
            p \<leftarrow> mtk_AllocateZeroPool sv 16;
            if p = 0 then State_Monad.return (EFI_OUT_OF_RESOURCES, RangePtr, [])
            else State_Monad.return
              (EFI_SUCCESS, p, [\<lparr> RangeAddress = base, RangeLength = TotalSize \<rparr>]) })"

interpretation mtk: range_provider "mtk_GetUsableMemoryRanges sv stricmp mm uninit base"
  for sv :: "'w mtk_services" and stricmp mm uninit base
  by unfold_locales
    (auto simp: mtk_GetUsableMemoryRanges_def Let_def split: if_splits prod.splits)

section \<open>Samsung: memory holes\<close>

abbreviation MAX_UINTN :: u64 where "MAX_UINTN \<equiv> - 1"
abbreviation BASE_2GB :: u64 where "BASE_2GB \<equiv> 0x80000000"
abbreviation BASE_4GB :: u64 where "BASE_4GB \<equiv> 0x100000000"
abbreviation BASE_32GB :: u64 where "BASE_32GB \<equiv> 0x800000000"
abbreviation SIZE_1GB :: u64 where "SIZE_1GB \<equiv> 0x40000000"

text \<open>The function identifiers and arguments of \<open>MemoryHole.h\<close>.\<close>

abbreviation SMC_DRM_GET_SOC_INFO :: u64 where "SMC_DRM_GET_SOC_INFO \<equiv> 0x82002060"
abbreviation SMC_CMD_GET_SOC_INFO :: u64 where "SMC_CMD_GET_SOC_INFO \<equiv> - 302"
abbreviation HVC_GET_DRM_PLUGIN_INFO :: u64 where "HVC_GET_DRM_PLUGIN_INFO \<equiv> 0x82002060"
abbreviation HVC_GET_HARX_INFO :: u64 where "HVC_GET_HARX_INFO \<equiv> 0xC6000020"

definition SmcFunction :: "u64 list" where
  "SmcFunction = [SMC_CMD_GET_SOC_INFO, SMC_DRM_GET_SOC_INFO]"
definition HvcFunction :: "u64 list" where
  "HvcFunction = [HVC_GET_HARX_INFO, HVC_GET_DRM_PLUGIN_INFO]"
definition CmdSocInfoArg :: "u64 list" where "CmdSocInfoArg = [2, 1]"
definition DrmSocInfoArg :: "u64 list" where "DrmSocInfoArg = [1, 2]"
definition HarxInfoArg :: "u64 list" where "HarxInfoArg = [1, 2]"
definition DrmPluginArg :: "u64 list" where "DrmPluginArg = [1, 2]"

record arm_hvc_args =
  Arg0 :: u64
  Arg1 :: u64
  Arg2 :: u64
  Arg3 :: u64
  Arg4 :: u64

text \<open>The three fixed PCDs and the calls out of the firmware.\<close>

record 'w soc_services =
  ArmCallSmc0 :: "u64 \<Rightarrow> ('w, u64) state"
  ArmCallSmc1 :: "u64 \<Rightarrow> u64 \<Rightarrow> ('w, u64) state"
  ArmCallHvc :: "arm_hvc_args \<Rightarrow> ('w, arm_hvc_args) state"
  MmioRead64 :: "u64 \<Rightarrow> ('w, u64) state"
  soc_AllocateZeroPool :: "u64 \<Rightarrow> ('w, u64) state"
  PcdHasSecurePgtbl :: bool
  PcdHasHarx :: bool
  PcdHasDrmPlugin :: bool

type_synonym hole = "u64 \<times> u64"

text \<open>Each getter takes the old content of its two OUT parameters and returns the new one.\<close>

definition GetSecureDramRange :: "'w soc_services \<Rightarrow> hole \<Rightarrow> ('w, efi_status \<times> hole) state" where
  "GetSecureDramRange sv out = do {
     version \<leftarrow> ArmCallSmc0 sv (SmcFunction ! 0);
     if version \<noteq> 0x66001000 then State_Monad.return (EFI_UNSUPPORTED, out)
     else do {
       HoleAddress \<leftarrow> ArmCallSmc1 sv (SmcFunction ! 0) (CmdSocInfoArg ! 0);
       if HoleAddress = MAX_UINTN then State_Monad.return (EFI_ABORTED, out)
       else do {
         HoleLength \<leftarrow> ArmCallSmc1 sv (SmcFunction ! 0) (CmdSocInfoArg ! 1);
         if HoleLength = MAX_UINTN then State_Monad.return (EFI_ABORTED, out)
         else State_Monad.return (EFI_SUCCESS, (HoleAddress, HoleLength)) } } }"

definition VerifyDrmSocInfoOutput :: "u64 \<Rightarrow> efi_status" where
  "VerifyDrmSocInfoOutput Output =
     (if Output = 0 then EFI_INVALID_PARAMETER
      else if Output = 3 then EFI_UNSUPPORTED
      else if Output = MAX_UINTN then EFI_NOT_READY
      else if Output AND 0xFFFFF \<noteq> 0 then EFI_ABORTED
      else EFI_SUCCESS)"

definition GetSecurePgtblRange :: "'w soc_services \<Rightarrow> hole \<Rightarrow> ('w, efi_status \<times> hole) state" where
  "GetSecurePgtblRange sv out =
     (if \<not> PcdHasSecurePgtbl sv then State_Monad.return (EFI_NOT_FOUND, out)
      else do {
        HoleAddress \<leftarrow> ArmCallSmc1 sv (SmcFunction ! 1) (DrmSocInfoArg ! 0);
        let s = VerifyDrmSocInfoOutput HoleAddress;
        if EFI_ERROR s then State_Monad.return (s, out)
        else do {
          HoleLength \<leftarrow> ArmCallSmc1 sv (SmcFunction ! 1) (DrmSocInfoArg ! 1);
          let s = VerifyDrmSocInfoOutput HoleLength;
          if EFI_ERROR s then State_Monad.return (s, out)
          else State_Monad.return (EFI_SUCCESS, (HoleAddress, HoleLength)) } })"

definition SendHypervisorCall :: "'w soc_services \<Rightarrow> u64 \<Rightarrow> u64 \<Rightarrow> ('w, u64) state" where
  "SendHypervisorCall sv Function Arg = do {
     Args \<leftarrow> ArmCallHvc sv \<lparr> Arg0 = Function, Arg1 = Arg, Arg2 = 0, Arg3 = 0, Arg4 = 0 \<rparr>;
     State_Monad.return (Arg0 Args) }"

definition GetHarxRange :: "'w soc_services \<Rightarrow> hole \<Rightarrow> ('w, efi_status \<times> hole) state" where
  "GetHarxRange sv out =
     (if \<not> PcdHasHarx sv then State_Monad.return (EFI_NOT_FOUND, out)
      else do {
        version \<leftarrow> SendHypervisorCall sv (HvcFunction ! 0) 0;
        if version \<noteq> 0xE1200100 then State_Monad.return (EFI_UNSUPPORTED, out)
        else do {
          HoleAddress \<leftarrow> SendHypervisorCall sv (HvcFunction ! 0) (HarxInfoArg ! 0);
          if HoleAddress = MAX_UINTN then State_Monad.return (EFI_ABORTED, out)
          else do {
            HoleLength \<leftarrow> SendHypervisorCall sv (HvcFunction ! 0) (HarxInfoArg ! 1);
            if HoleLength = MAX_UINTN then State_Monad.return (EFI_ABORTED, out)
            else State_Monad.return (EFI_SUCCESS, (HoleAddress, HoleLength)) } } })"

definition drm_plugin_error :: "u64 \<Rightarrow> bool" where
  "drm_plugin_error v = (v = 0 \<or> v = 0xB113 \<or> v = 0xC)"

definition GetDrmPluginRange :: "'w soc_services \<Rightarrow> hole \<Rightarrow> ('w, efi_status \<times> hole) state" where
  "GetDrmPluginRange sv out =
     (if \<not> PcdHasDrmPlugin sv then State_Monad.return (EFI_NOT_FOUND, out)
      else do {
        HoleAddress \<leftarrow> SendHypervisorCall sv (HvcFunction ! 1) (DrmPluginArg ! 0);
        if drm_plugin_error HoleAddress then State_Monad.return (EFI_ABORTED, out)
        else do {
          HoleLength \<leftarrow> SendHypervisorCall sv (HvcFunction ! 1) (DrmPluginArg ! 1);
          if drm_plugin_error HoleLength then State_Monad.return (EFI_ABORTED, out)
          else State_Monad.return (EFI_SUCCESS, (HoleAddress, HoleLength)) } })"

section \<open>Samsung: usable ranges\<close>

record samsung_globals =
  MemoryStart :: u64
  MemoryEnd :: u64
  HoleRange :: "efi_memory_range list"

definition range_of :: "hole \<Rightarrow> efi_memory_range" where
  "range_of h = \<lparr> RangeAddress = fst h, RangeLength = snd h \<rparr>"

definition zero_range :: efi_memory_range where
  "zero_range = \<lparr> RangeAddress = 0, RangeLength = 0 \<rparr>"

definition GetMemorySpace ::
    "'w soc_services \<Rightarrow> (string \<Rightarrow> string \<Rightarrow> int) \<Rightarrow> region list \<Rightarrow> region \<Rightarrow> u64
      \<Rightarrow> samsung_globals \<Rightarrow> ('w, efi_status \<times> samsung_globals) state" where
  "GetMemorySpace sv stricmp mm uninit base g =
     (case LocateMemoryRegionByName stricmp mm (Some ''NS_IRAM'') (Some uninit) of
        (s, out) \<Rightarrow>
          if EFI_ERROR s then State_Monad.return (s, g)
          else do {
            MemorySize \<leftarrow> MmioRead64 sv (Address (the out) + 0x848);
            let g = g\<lparr> MemoryStart := base \<rparr>;
            let g = g\<lparr> MemoryEnd := (if MemoryStart g = BASE_2GB then BASE_32GB + MemorySize
                                   else MemoryStart g + MemorySize) \<rparr>;
            State_Monad.return (EFI_SUCCESS, g) })"

text \<open>One step of \<open>GetMemoryHoles\<close>: entry \<open>i\<close> is stored when the getter succeeds; the locals
  \<open>HoleAddress\<close> and \<open>HoleLength\<close> are threaded through.\<close>

definition hole_step ::
    "nat \<Rightarrow> (hole \<Rightarrow> ('w, efi_status \<times> hole) state) \<Rightarrow> hole \<times> efi_memory_range list
      \<Rightarrow> ('w, hole \<times> efi_memory_range list) state" where
  "hole_step i getter p = do {
     (s, locals) \<leftarrow> getter (fst p);
     State_Monad.return
       (locals, if EFI_ERROR s then snd p else (snd p)[i := range_of locals]) }"

definition GetMemoryHoles ::
    "'w soc_services \<Rightarrow> hole \<Rightarrow> samsung_globals \<Rightarrow> ('w, efi_status \<times> samsung_globals) state" where
  "GetMemoryHoles sv uninit g = do {
     p \<leftarrow> hole_step 0 (GetSecureDramRange sv) (uninit, replicate 5 zero_range);
     p \<leftarrow> hole_step 1 (GetHarxRange sv) p;
     p \<leftarrow> hole_step 2 (GetDrmPluginRange sv) p;
     p \<leftarrow> hole_step 3 (GetSecurePgtblRange sv) p;
     let holes = (if MemoryStart g = BASE_2GB
                  then (snd p)[4 := range_of (BASE_4GB, SIZE_1GB * 30)] else snd p);
     State_Monad.return (EFI_SUCCESS, g\<lparr> HoleRange := holes \<rparr>) }"

text \<open>The library constructor.\<close>

definition GetMemoryData ::
    "'w soc_services \<Rightarrow> (string \<Rightarrow> string \<Rightarrow> int) \<Rightarrow> region list \<Rightarrow> region \<Rightarrow> hole \<Rightarrow> u64
      \<Rightarrow> samsung_globals \<Rightarrow> ('w, efi_status \<times> samsung_globals) state" where
  "GetMemoryData sv stricmp mm uninit_region uninit_hole base g = do {
     (s, g) \<leftarrow> GetMemorySpace sv stricmp mm uninit_region base g;
     if EFI_ERROR s then State_Monad.return (s, g)
     else do {
       (s, g) \<leftarrow> GetMemoryHoles sv uninit_hole g;
       if EFI_ERROR s then State_Monad.return (s, g)
       else State_Monad.return (EFI_SUCCESS, g) } }"

text \<open>The hole loop: remaining holes, \<open>i\<close>, \<open>CurrentMemoryStart\<close> and the new array.\<close>

fun hole_loop ::
    "efi_memory_range list \<Rightarrow> nat \<Rightarrow> u64 \<Rightarrow> efi_memory_range list \<Rightarrow> u64 \<times> efi_memory_range list" where
  "hole_loop [] i cur ranges = (cur, ranges)"
| "hole_loop (h # hs) i cur ranges =
     (if RangeAddress h = 0 then hole_loop hs (Suc i) cur ranges
      else
        let MemoryRangeLength = RangeAddress h - cur;
            ranges = (if MemoryRangeLength > 0
                      then ranges[i := \<lparr> RangeAddress = cur, RangeLength = MemoryRangeLength \<rparr>]
                      else ranges)
        in hole_loop hs (Suc i) (RangeAddress h + RangeLength h) ranges)"

definition usable_ranges :: "samsung_globals \<Rightarrow> efi_memory_range list" where
  "usable_ranges g =
     (let n = length (HoleRange g) + 1;
          (cur, ranges) = hole_loop (HoleRange g) 0 (MemoryStart g) (replicate n zero_range)
      in if MemoryEnd g > cur
         then ranges[n - 1 := \<lparr> RangeAddress = cur, RangeLength = MemoryEnd g - cur \<rparr>]
         else ranges)"

definition samsung_GetUsableMemoryRanges ::
    "'w soc_services \<Rightarrow> samsung_globals \<Rightarrow> u64
      \<Rightarrow> ('w, efi_status \<times> u64 \<times> efi_memory_range list) state" where
  "samsung_GetUsableMemoryRanges sv g RangePtr = do {
     p \<leftarrow> soc_AllocateZeroPool sv (16 * of_nat (length (HoleRange g) + 1));
     if p = 0 then State_Monad.return (EFI_OUT_OF_RESOURCES, RangePtr, [])
     else State_Monad.return (EFI_SUCCESS, p, usable_ranges g) }"

interpretation samsung: range_provider "samsung_GetUsableMemoryRanges sv g"
  for sv :: "'w soc_services" and g
  by unfold_locales
    (auto simp: samsung_GetUsableMemoryRanges_def Let_def split: if_splits prod.splits)

section \<open>Lemmas: cutting out the holes\<close>

text \<open>The holes that are present come in ascending order, do not overlap and lie between
  \<open>cur\<close> and \<open>e\<close>.\<close>

fun holes_ascend :: "u64 \<Rightarrow> u64 \<Rightarrow> efi_memory_range list \<Rightarrow> bool" where
  "holes_ascend cur e [] = (cur \<le> e)"
| "holes_ascend cur e (h # hs) =
     (if RangeAddress h = 0 then holes_ascend cur e hs
      else cur \<le> RangeAddress h \<and> unat (RangeAddress h) + unat (RangeLength h) \<le> unat e
        \<and> holes_ascend (RangeAddress h + RangeLength h) e hs)"

definition present :: "efi_memory_range list \<Rightarrow> efi_memory_range list" where
  "present hs = filter (\<lambda>h. RangeAddress h \<noteq> 0) hs"

abbreviation range_bytes :: "efi_memory_range \<Rightarrow> nat set" where
  "range_bytes r \<equiv> span (RangeAddress r) (RangeLength r)"

definition all_bytes :: "efi_memory_range list \<Rightarrow> nat set" where
  "all_bytes rs = (\<Union>r \<in> set rs. range_bytes r)"

lemma all_bytes_simps [simp]:
  "all_bytes [] = {}" "all_bytes (r # rs) = range_bytes r \<union> all_bytes rs"
  "all_bytes (rs @ ss) = all_bytes rs \<union> all_bytes ss"
  "all_bytes (replicate n zero_range) = {}"
  by (auto simp: all_bytes_def zero_range_def)

lemma present_simps [simp]:
  "present [] = []"
  "present (h # hs) = (if RangeAddress h = 0 then present hs else h # present hs)"
  by (simp_all add: present_def)

lemma holes_ascend_bounds:
  "holes_ascend cur e hs \<Longrightarrow> cur \<le> e \<and> all_bytes (present hs) \<subseteq> {unat cur ..< unat e}"
proof (induction cur e hs rule: holes_ascend.induct)
  case (2 cur e h hs)
  show ?case
  proof (cases "RangeAddress h = 0")
    case False
    have "unat (RangeAddress h + RangeLength h) = unat (RangeAddress h) + unat (RangeLength h)"
      using 2(3) False by (intro unat_add_below [of _ _ e]) simp
    with 2 False show ?thesis by (fastforce simp: word_le_nat_alt span_def)
  qed (use 2 in simp)
qed simp

text \<open>The specification of the array that the loop fills: one entry per hole, then the rest.\<close>

fun pieces :: "u64 \<Rightarrow> u64 \<Rightarrow> efi_memory_range list \<Rightarrow> efi_memory_range list" where
  "pieces cur e [] =
     [if e > cur then \<lparr> RangeAddress = cur, RangeLength = e - cur \<rparr> else zero_range]"
| "pieces cur e (h # hs) =
     (if RangeAddress h = 0 then zero_range # pieces cur e hs
      else (if RangeAddress h - cur > 0
            then \<lparr> RangeAddress = cur, RangeLength = RangeAddress h - cur \<rparr> else zero_range)
           # pieces (RangeAddress h + RangeLength h) e hs)"

lemma list_update_prefix [simp]: "(xs @ y # ys)[length xs := z] = xs @ z # ys"
  by (induction xs) auto

definition last_range ::
    "u64 \<Rightarrow> nat \<Rightarrow> u64 \<times> efi_memory_range list \<Rightarrow> efi_memory_range list" where
  "last_range e n p = (if e > fst p
     then (snd p)[n := \<lparr> RangeAddress = fst p, RangeLength = e - fst p \<rparr>] else snd p)"

lemma hole_loop_pieces:
  "last_range e (length filled + length hs)
     (hole_loop hs (length filled) cur (filled @ replicate (length hs) zero_range @ [zero_range]))
   = filled @ pieces cur e hs"
proof (induction hs arbitrary: filled cur)
  case Nil
  then show ?case by (simp add: last_range_def)
next
  case (Cons h hs)
  have "last_range e (Suc (length filled + length hs)) (hole_loop hs (Suc (length filled)) c
      (filled @ x # replicate (length hs) zero_range @ [zero_range])) = filled @ x # pieces c e hs"
    for c x
    using Cons.IH [of "filled @ [x]" c] by simp
  then show ?case by (simp add: Let_def)
qed

lemma usable_ranges_pieces:
  "usable_ranges g = pieces (MemoryStart g) (MemoryEnd g) (HoleRange g)"
  using hole_loop_pieces [of "MemoryEnd g" "[]" "HoleRange g" "MemoryStart g"]
  by (simp add: usable_ranges_def last_range_def case_prod_beta Let_def
      replicate_append_same [symmetric] split: if_split_asm)

text \<open>With ascending holes the pieces are the complement, ascending and without wrap-around.\<close>

lemma pieces_cover:
  assumes "holes_ascend cur e hs"
  shows "all_bytes (pieces cur e hs) = {unat cur ..< unat e} - all_bytes (present hs)"
  using assms
proof (induction cur e hs rule: holes_ascend.induct)
  case (1 cur e)
  then show ?case by (auto simp: zero_range_def)
next
  case (2 cur e h hs)
  show ?case
  proof (cases "RangeAddress h = 0")
    case False
    let ?a = "RangeAddress h" and ?b = "RangeAddress h + RangeLength h"
    have end_eq: "unat ?b = unat ?a + unat (RangeLength h)"
      using 2(3) False by (intro unat_add_below [of _ _ e]) simp
    have rest: "holes_ascend ?b e hs" and le: "cur \<le> ?a" using 2(3) False by simp_all
    have first: "range_bytes (if ?a - cur > 0 then \<lparr> RangeAddress = cur, RangeLength = ?a - cur \<rparr>
        else zero_range) = {unat cur ..< unat ?a}"
      using le by (auto simp: word_gt_0 zero_range_def)
    have later: "unat ?b \<le> unat e" "all_bytes (present hs) \<subseteq> {unat ?b ..< unat e}"
      using holes_ascend_bounds [OF rest] by (simp_all add: word_le_nat_alt)
    have "{unat cur ..< unat ?a} \<union> ({unat ?b ..< unat e} - all_bytes (present hs)) =
        {unat cur ..< unat e} - ({unat ?a ..< unat ?b} \<union> all_bytes (present hs))"
      by (rule cut_step) (use le later end_eq in \<open>auto simp: word_le_nat_alt\<close>)
    moreover have "all_bytes (pieces ?b e hs) = {unat ?b ..< unat e} - all_bytes (present hs)"
      using 2 False rest by simp
    moreover have "range_bytes h = {unat ?a ..< unat ?b}" by (simp add: span_def end_eq)
    ultimately show ?thesis using False first by simp
  next
    case True
    then show ?thesis using 2 by (simp add: zero_range_def)
  qed
qed

lemma pieces_bounds:
  assumes "holes_ascend cur e hs"
  shows "\<forall>r \<in> set (pieces cur e hs). unat (RangeAddress r) + unat (RangeLength r) \<le> unat e"
  using assms
proof (induction cur e hs rule: holes_ascend.induct)
  case (1 cur e)
  then show ?case by (auto simp: zero_range_def)
next
  case (2 cur e h hs)
  then show ?case by (auto simp: zero_range_def word_le_nat_alt split: if_splits)
qed

lemma usable_fits:
  assumes "holes_ascend (MemoryStart g) (MemoryEnd g) (HoleRange g)"
  shows "\<forall>r \<in> set (usable_ranges g). unat (RangeAddress r) + unat (RangeLength r) < 2 ^ 64"
  using pieces_bounds [OF assms] unsigned_less [of "MemoryEnd g", where 'a = nat]
  by (fastforce simp: usable_ranges_pieces)

lemma length_pieces [simp]: "length (pieces cur e hs) = length hs + 1"
  by (induction cur e hs rule: pieces.induct) auto

section \<open>Lemmas: the MediaTek size registers\<close>

lemma col_bits: "unat (ucast (((x::u32) AND 3) + 9) :: u8) \<in> {9..12}"
proof -
  have "unat (x AND 3) \<le> 3" using unat_and_le [of x 3] by simp
  then have "unat ((x AND 3) + 9) = unat (x AND 3) + 9" by (simp add: unat_word_ariths)
  with \<open>unat (x AND 3) \<le> 3\<close> show ?thesis by (simp add: unat_ucast)
qed

lemma row_bits: "unat (ucast (push_bit 2 ((x::u32) AND 1) + (y AND 3) + 13) :: u8) \<in> {13..20}"
proof -
  have y: "unat (y AND 3) \<le> 3" using unat_and_le [of y 3] by simp
  have x: "unat (x AND 1) \<le> 1" using unat_and_le [of x 1] by simp
  have p: "unat (push_bit 2 (x AND 1)) = 4 * unat (x AND 1)"
    using x by (simp add: push_bit_eq_mult unat_word_ariths del: push_bit_and)
  have "unat (push_bit 2 (x AND 1) + (y AND 3) + 13) = 4 * unat (x AND 1) + unat (y AND 3) + 13"
    using x y by (simp add: unat_word_ariths p del: push_bit_and)
  with x y show ?thesis by (simp add: unat_ucast del: push_bit_and)
qed

lemma unat_push_one: "k < 64 \<Longrightarrow> unat (push_bit k 1 :: u64) = 2 ^ k"
  by (simp add: unat_two_power)

lemma rank_size_value:
  assumes "Info \<in> set mRankInfo"
  shows "\<exists>k f. unat (GetRankSize ConA ConH Info wide) = f * 2 ^ k
     \<and> (f \<in> {1..15} \<and> k = 28 \<or> f \<in> {16, 32} \<and> k \<in> {22..32})"
proof -
  let ?f = "drop_bit (SizeShift Info) ConH AND ucast (SizeMask Info) :: u32"
  have f: "unat ?f \<le> 15" using assms unat_and_le [of "drop_bit (SizeShift Info) ConH" 15] by (auto simp: mRankInfo_def)
  let ?F = "ucast ?f :: u64"
  have F: "unat ?F = unat ?f" using f by (simp add: unat_ucast)
  show ?thesis
  proof (cases "?F = 0")
    case False
    then have "unat ?F \<in> {1..15}" using f F unat_eq_zero [of ?F] by (auto simp del: unat_eq_zero)
    moreover have "unat (?F * 0x10000000) = unat ?F * 2 ^ 28"
      using f F by (simp add: unat_word_ariths)
    ultimately show ?thesis using False
      by (intro exI [of _ 28] exI [of _ "unat ?F"]) (simp add: GetRankSize_def Let_def)
  next
    case True
    let ?c = "unat (ucast ((drop_bit (ColShift Info) ConA AND 0x03) + 9) :: u8)"
    let ?r = "unat (ucast (push_bit 2 (drop_bit (RowExtShift Info) ConA AND 0x01)
                            + (drop_bit (RowShift Info) ConA AND 0x03) + 13) :: u8)"
    have k: "?r + ?c \<in> {22..32}"
      using col_bits [of "drop_bit (ColShift Info) ConA"]
        row_bits [of "drop_bit (RowExtShift Info) ConA" "drop_bit (RowShift Info) ConA"] by simp
    have p: "unat (push_bit (?r + ?c) 1 :: u64) = 2 ^ (?r + ?c)"
      by (rule unat_push_one) (use k in simp)
    let ?w = "(if wide then 4 else 2) * 8 :: u64"
    have w: "unat ?w \<in> {16, 32}" by simp
    have "(2::nat) ^ (?r + ?c) \<le> 2 ^ 32" by (rule power_increasing) (use k in auto)
    then have "2 ^ (?r + ?c) * unat ?w < 2 ^ 64" using w by auto
    then have "unat (push_bit (?r + ?c) 1 * ?w) = unat ?w * 2 ^ (?r + ?c)"
      using p by (subst unat_mult_lem [THEN iffD1]) (simp_all add: mult.commute)
    moreover have "GetRankSize ConA ConH Info wide = push_bit (?r + ?c) 1 * ?w"
      by (simp only: GetRankSize_def Let_def True simp_thms if_False)
    ultimately show ?thesis
      using w k by (intro exI [of _ "?r + ?c"] exI [of _ "unat ?w"] conjI disjI2) (simp only:)+
  qed
qed

lemma rank_size_bounds:
  assumes "Info \<in> set mRankInfo"
  shows "0 < unat (GetRankSize ConA ConH Info wide)" "unat (GetRankSize ConA ConH Info wide) \<le> 2 ^ 37"
proof -
  obtain k f where v: "unat (GetRankSize ConA ConH Info wide) = f * 2 ^ k"
    and r: "f \<in> {1..15} \<and> k = 28 \<or> f \<in> {16, 32} \<and> k \<in> {22..32}"
    using rank_size_value [OF assms] by metis
  show "0 < unat (GetRankSize ConA ConH Info wide)" using r by (auto simp: v)
  have "(2::nat) ^ k \<le> 2 ^ 32" by (rule power_increasing) (use r in auto)
  moreover have "f \<le> 32" using r by auto
  ultimately have "f * 2 ^ k \<le> 32 * 2 ^ 32" by (intro mult_mono) auto
  then show "unat (GetRankSize ConA ConH Info wide) \<le> 2 ^ 37" by (simp add: v)
qed

definition rank_enabled :: "u32 \<Rightarrow> emi_rank_info \<Rightarrow> bool" where
  "rank_enabled ConA Info \<longleftrightarrow> Channel Info < EnabledChannels ConA
     \<and> (EnableBit Info = 0 \<or> ConA AND push_bit (EnableBit Info) 1 \<noteq> 0)"

definition rank_bytes :: "u32 \<Rightarrow> u32 \<Rightarrow> emi_rank_info \<Rightarrow> nat" where
  "rank_bytes ConA ConH Info = unat (GetRankSize ConA ConH Info (DataWidthIs32Bit ConA))
     * (if EnabledChannels ConA \<ge> 4 then 2 else 1)"

lemma rank_loop_Cons:
  "rank_loop ConA ConH (Info # rest) TotalSize =
     (if rank_enabled ConA Info
      then rank_loop ConA ConH rest (TotalSize +
        (let Size = GetRankSize ConA ConH Info (DataWidthIs32Bit ConA) in
         if EnabledChannels ConA \<ge> 4 then Size * 2 else Size))
      else rank_loop ConA ConH rest TotalSize)"
  by (auto simp: rank_enabled_def Let_def not_le)

lemma rank_loop_sum:
  assumes "set infos \<subseteq> set mRankInfo" "unat TotalSize + length infos * 2 ^ 38 < 2 ^ 64"
  shows "unat (rank_loop ConA ConH infos TotalSize) =
    unat TotalSize + (\<Sum>Info \<leftarrow> filter (rank_enabled ConA) infos. rank_bytes ConA ConH Info)
    \<and> (\<Sum>Info \<leftarrow> filter (rank_enabled ConA) infos. rank_bytes ConA ConH Info) \<le> length infos * 2 ^ 38"
  using assms
proof (induction infos arbitrary: TotalSize)
  case (Cons Info rest)
  show ?case
  proof (cases "rank_enabled ConA Info")
    case False
    with Cons.IH [of TotalSize] Cons.prems show ?thesis
      by (simp add: rank_loop_Cons del: rank_loop.simps)
  next
    case True
    let ?s = "GetRankSize ConA ConH Info (DataWidthIs32Bit ConA)"
    let ?S = "if EnabledChannels ConA \<ge> 4 then ?s * 2 else ?s"
    have "unat ?s \<le> 2 ^ 37" using Cons.prems(1) rank_size_bounds(2) by simp
    then have S: "unat ?S = rank_bytes ConA ConH Info" "rank_bytes ConA ConH Info \<le> 2 ^ 38"
      by (simp_all add: rank_bytes_def unat_word_ariths)
    then have sum: "unat (TotalSize + ?S) = unat TotalSize + rank_bytes ConA ConH Info"
      using Cons.prems(2) by (subst unat_add_nowrap) simp_all
    from Cons.IH [of "TotalSize + ?S"] Cons.prems S(2) sum True show ?thesis
      by (simp add: rank_loop_Cons Let_def del: rank_loop.simps)
  qed
qed simp

lemma EnabledChannels_pos: "0 < EnabledChannels ConA"
proof -
  have "unat (drop_bit 8 ConA AND 0x3) \<le> 3" using unat_and_le [of "drop_bit 8 ConA" 3] by simp
  then have "unat (EnabledChannels ConA) = 2 ^ unat (drop_bit 8 ConA AND 0x3)"
    by (simp add: EnabledChannels_def unat_two_power)
  then show ?thesis by (simp add: word_less_nat_alt)
qed

section \<open>A device for the witnesses\<close>

text \<open>Every call fails; reads return 6 GB.\<close>

definition quiet_soc :: "unit soc_services" where
  "quiet_soc = \<lparr> ArmCallSmc0 = (\<lambda>_. State_Monad.return 0), ArmCallSmc1 = (\<lambda>_ _. State_Monad.return 0),
     ArmCallHvc = State_Monad.return, MmioRead64 = (\<lambda>_. State_Monad.return 0x180000000),
     soc_AllocateZeroPool = (\<lambda>_. State_Monad.return 0x3000),
     PcdHasSecurePgtbl = False, PcdHasHarx = False, PcdHasDrmPlugin = False \<rparr>"

definition two_holes :: "u64 \<Rightarrow> u64 \<Rightarrow> samsung_globals" where
  "two_holes a b = \<lparr> MemoryStart = 0x80000000, MemoryEnd = 0x100000000,
     HoleRange = [range_of (a, 0x1000), range_of (b, 0x1000), zero_range, zero_range, zero_range] \<rparr>"

section \<open>Properties\<close>

text \<open>C14. If the holes the secure world reported are in ascending order, disjoint and inside the
  memory, the Samsung library hands out one range per hole and one more, none wraps, and
  together they are exactly the memory less the holes.\<close>

theorem samsung_usable_is_complement:
  assumes "holes_ascend (MemoryStart g) (MemoryEnd g) (HoleRange g)"
  shows "all_bytes (usable_ranges g) = {unat (MemoryStart g) ..< unat (MemoryEnd g)}
      - (\<Union>h \<in> {h \<in> set (HoleRange g). RangeAddress h \<noteq> 0}. span (RangeAddress h) (RangeLength h))
    \<and> length (usable_ranges g) = length (HoleRange g) + 1
    \<and> (\<forall>r \<in> set (usable_ranges g). unat (RangeAddress r) + unat (RangeLength r) < 2 ^ 64)"
proof (intro conjI)
  have "all_bytes (present hs) = (\<Union>h \<in> {h \<in> set hs. RangeAddress h \<noteq> 0}. span (RangeAddress h) (RangeLength h))"
    for hs by (auto simp: present_def all_bytes_def)
  then show "all_bytes (usable_ranges g) = {unat (MemoryStart g) ..< unat (MemoryEnd g)}
      - (\<Union>h \<in> {h \<in> set (HoleRange g). RangeAddress h \<noteq> 0}. span (RangeAddress h) (RangeLength h))"
    using pieces_cover [OF assms] by (simp add: usable_ranges_pieces)
qed (use usable_fits [OF assms] in \<open>simp_all add: usable_ranges_pieces\<close>)

lemma samsung_usable_is_complement_witness:
  "length (usable_ranges (two_holes 0x90000000 0xA0000000)) = 6"
  using samsung_usable_is_complement [of "two_holes 0x90000000 0xA0000000"]
  by (simp add: two_holes_def range_of_def zero_range_def)

text \<open>C2. End to end: with the Samsung library as provider and ascending holes, no byte that
  ManageRam maps lies in a hole.\<close>

theorem samsung_ram_avoids_holes:
  assumes "sorts_with RamManager.CompareMemoryRegions sort_map"
    and "sorts_with CompareMemoryRanges sort_ranges"
    and "GetUsableMemoryRanges sv = samsung_GetUsableMemoryRanges soc sg"
    and "run_state (GetEfiMemoryMap sv g) w = ((EFI_SUCCESS, g'), w1)"
    and "run_state (soc_AllocateZeroPool soc (16 * of_nat (length (HoleRange sg) + 1))) w1 = (p, w2)"
    and "p \<noteq> 0" "length (MapEntries g') < 65536"
    and "\<forall>d \<in> set (MapEntries g'). unat (PhysicalStart d) + 4096 * unat (NumberOfPages d) < 2 ^ 64"
    and "holes_ascend (MemoryStart sg) (MemoryEnd sg) (HoleRange sg)"
  shows "\<exists>gs. ManageRam sv sort_map sort_ranges garbage g w =
      Some (EFI_SUCCESS, snd (run_state (ram_cleanup sv g' p) (map_all (map_sv sv) gs w2)))
    \<and> (\<forall>h \<in> set (HoleRange sg). RangeAddress h \<noteq> 0 \<longrightarrow> gap_bytes gs \<inter> range_bytes h = {})"
proof -
  have run: "run_state (GetUsableMemoryRanges sv garbage) w1 = ((EFI_SUCCESS, p, usable_ranges sg), w2)"
    using assms(3,5,6) by (simp add: samsung_GetUsableMemoryRanges_def)
  note fits = usable_fits [OF assms(9)]
  have "all_bytes (usable_ranges sg) \<inter> range_bytes h = {}"
    if "h \<in> set (HoleRange sg)" "RangeAddress h \<noteq> 0" for h
    using that pieces_cover [OF assms(9)]
    by (auto simp: usable_ranges_pieces all_bytes_def present_def)
  moreover obtain gs where
    "ManageRam sv sort_map sort_ranges garbage g w =
      Some (EFI_SUCCESS, snd (run_state (ram_cleanup sv g' p) (map_all (map_sv sv) gs w2)))"
    "gap_bytes gs = all_bytes (usable_ranges sg) - (\<Union>d \<in> set (MapEntries g'). region_bytes d)"
    using manage_ram_plan [OF assms(1,2,4) run assms(7,8) fits] unfolding all_bytes_def by metis
  ultimately show ?thesis by (intro exI [of _ gs]) auto
qed

text \<open>Nothing sorts the holes: when the second hole lies below the first, the library hands
  out the first hole as usable memory.\<close>

theorem samsung_descending_holes_exposed:
  assumes "HoleRange g = [h0, h1, zero_range, zero_range, zero_range]"
    and "RangeAddress h0 \<noteq> 0" "RangeAddress h1 \<noteq> 0"
    and "unat (RangeAddress h1) + unat (RangeLength h1) \<le> unat (RangeAddress h0)"
    and "unat (RangeAddress h0) + unat (RangeLength h0) \<le> unat (MemoryEnd g)"
  shows "span (RangeAddress h0) (RangeLength h0) \<subseteq> all_bytes (usable_ranges g)"
proof -
  have e: "unat (RangeAddress h1 + RangeLength h1) = unat (RangeAddress h1) + unat (RangeLength h1)"
    using assms(4) by (rule unat_add_below)
  show ?thesis
  proof (cases "MemoryEnd g > RangeAddress h1 + RangeLength h1")
    case True
    then show ?thesis using assms(4,5) e
      by (auto simp: usable_ranges_pieces assms(1-3) zero_range_def)
  next
    case False
    then have "RangeLength h0 = 0"
      using assms(4,5) e by (simp add: word_less_nat_alt unat_eq_zero [symmetric] del: unat_eq_zero)
    then show ?thesis by simp
  qed
qed

lemma samsung_descending_holes_exposed_witness:
  "span 0xA0000000 0x1000 \<subseteq> all_bytes (usable_ranges (two_holes 0xA0000000 0x90000000))"
  using samsung_descending_holes_exposed [of "two_holes 0xA0000000 0x90000000"
      "range_of (0xA0000000, 0x1000)" "range_of (0x90000000, 0x1000)"]
  by (simp add: two_holes_def range_of_def)

text \<open>C34. The MediaTek library reports the sum of the sizes of the enabled ranks, computed
  without overflow: at least one rank counts and the total is at most 1 TiB.\<close>

theorem mtk_total_size_exact:
  "unat (rank_loop ConA ConH mRankInfo 0) =
     (\<Sum>Info \<leftarrow> filter (rank_enabled ConA) mRankInfo. rank_bytes ConA ConH Info)
   \<and> 0 < unat (rank_loop ConA ConH mRankInfo 0)
   \<and> unat (rank_loop ConA ConH mRankInfo 0) \<le> 2 ^ 40"
proof -
  have len: "length mRankInfo = 4" by (simp add: mRankInfo_def)
  note total = rank_loop_sum [OF subset_refl, of 0 ConA ConH]
  have sum: "unat (rank_loop ConA ConH mRankInfo 0) =
     (\<Sum>Info \<leftarrow> filter (rank_enabled ConA) mRankInfo. rank_bytes ConA ConH Info)"
    using total by (simp add: len)
  have le: "unat (rank_loop ConA ConH mRankInfo 0) \<le> 2 ^ 40"
    using total by (simp add: len)
  have first: "mRankInfo ! 0 \<in> set mRankInfo" by (rule nth_mem) (simp add: len)
  have "rank_enabled ConA (mRankInfo ! 0)"
    using EnabledChannels_pos [of ConA] by (simp add: rank_enabled_def mRankInfo_def)
  then have "rank_bytes ConA ConH (mRankInfo ! 0)
      \<le> (\<Sum>Info \<leftarrow> filter (rank_enabled ConA) mRankInfo. rank_bytes ConA ConH Info)"
    using first by (intro member_le_sum_list) simp_all
  moreover have "0 < rank_bytes ConA ConH (mRankInfo ! 0)"
    using rank_size_bounds(1) [OF first] by (simp add: rank_bytes_def)
  ultimately show ?thesis using sum le by (intro conjI) linarith+
qed

text \<open>C35. With no hole reported and the memory starting at 2 GB, the ranges the Samsung library
  derives add up to exactly the size that the 64-bit register at offset 0x848 of the region
  NS_IRAM reports: the fixed carve-out between 4 GB and 34 GB costs nothing.\<close>

theorem samsung_ranges_add_up:
  assumes "LocateMemoryRegionByName stricmp mm (Some ''NS_IRAM'') (Some uninit) = (EFI_SUCCESS, Some r)"
    and "run_state (MmioRead64 sv (Address r + 0x848)) w = (sz, w1)"
    and "run_state (ArmCallSmc0 sv (SmcFunction ! 0)) w1 = (version, w2)" "version \<noteq> 0x66001000"
    and "\<not> PcdHasHarx sv" "\<not> PcdHasDrmPlugin sv" "\<not> PcdHasSecurePgtbl sv"
    and "0x80000000 \<le> sz" "unat sz \<le> 2 ^ 62"
  shows "\<exists>g2. run_state (GetMemoryData sv stricmp mm uninit uninit_hole 0x80000000 g) w = ((EFI_SUCCESS, g2), w2)
    \<and> (\<Sum>r \<leftarrow> usable_ranges g2. unat (RangeLength r)) = unat sz"
proof -
  have dram: "run_state (GetSecureDramRange sv uninit_hole) w1 = ((EFI_UNSUPPORTED, uninit_hole), w2)"
    using assms(3,4) by (simp add: GetSecureDramRange_def)
  let ?g1 = "g\<lparr> MemoryStart := 0x80000000, MemoryEnd := 0x800000000 + sz \<rparr>"
  have space: "run_state (GetMemorySpace sv stricmp mm uninit 0x80000000 g) w = ((EFI_SUCCESS, ?g1), w1)"
    using assms(1,2) by (simp add: GetMemorySpace_def)
  let ?holes = "[zero_range, zero_range, zero_range, zero_range, range_of (BASE_4GB, SIZE_1GB * 30)]"
  have run: "run_state (GetMemoryData sv stricmp mm uninit uninit_hole 0x80000000 g) w
      = ((EFI_SUCCESS, ?g1\<lparr> HoleRange := ?holes \<rparr>), w2)"
    using assms(5-7) dram space
    by (simp add: GetMemoryData_def GetMemoryHoles_def hole_step_def GetHarxRange_def
        GetDrmPluginRange_def GetSecurePgtblRange_def numeral_eq_Suc Let_def)
  have "unat (0x800000000 + sz) = 0x800000000 + unat sz"
    using assms(9) by (subst unat_add_nowrap) simp_all
  then have "unat (0x800000000 + sz - 0x880000000) = unat sz - 0x80000000"
    "(0x800000000 + sz > 0x880000000) = (unat sz > 0x80000000)"
    using assms(8) by (simp_all add: unat_diff_le word_le_nat_alt word_less_nat_alt)
  then have "(\<Sum>r \<leftarrow> usable_ranges (?g1\<lparr> HoleRange := ?holes \<rparr>). unat (RangeLength r)) = unat sz"
    using assms(8) by (simp add: usable_ranges_pieces zero_range_def range_of_def word_le_nat_alt)
  with run show ?thesis by blast
qed

text \<open>A SoC whose register reports 6 GB; every other read gives 1.\<close>

definition six_gb_soc :: "unit soc_services" where
  "six_gb_soc = quiet_soc\<lparr> MmioRead64 :=
     (\<lambda>a. State_Monad.return (if a = 0x2020848 then 0x180000000 else 1)) \<rparr>"

lemma samsung_ranges_add_up_witness:
  "\<exists>g2. run_state (GetMemoryData six_gb_soc (\<lambda>a b. if a = b then 0 else 1)
        [sample_region ''NS_IRAM'' 0x2020000 0x1000 NoHob] (sample_region [] 0 0 NoHob) (7, 7)
        0x80000000 (two_holes 0 0)) () = ((EFI_SUCCESS, g2), ())
    \<and> (\<Sum>r \<leftarrow> usable_ranges g2. unat (RangeLength r)) = 0x180000000"
proof -
  let ?r = "sample_region ''NS_IRAM'' 0x2020000 0x1000 NoHob"
  have look: "LocateMemoryRegionByName (\<lambda>a b. if a = b then 0 else 1) [?r] (Some ''NS_IRAM'')
      (Some (sample_region [] 0 0 NoHob)) = (EFI_SUCCESS, Some ?r)"
    by (simp add: LocateMemoryRegionByName_def sample_region_def)
  have reg: "run_state (MmioRead64 six_gb_soc (Address ?r + 0x848)) () = (0x180000000, ())"
    by (simp add: six_gb_soc_def sample_region_def)
  show ?thesis
    using samsung_ranges_add_up [OF look reg, of 0 "()" "(7, 7)"]
    by (simp add: six_gb_soc_def quiet_soc_def SmcFunction_def)
qed

text \<open>A service record for the end-to-end property: the firmware describes nothing yet.\<close>

definition empty_map_services :: "unit soc_services \<Rightarrow> samsung_globals \<Rightarrow> unit ram_services" where
  "empty_map_services soc sg = \<lparr>
     map_sv = \<lparr> AddMemorySpace = (\<lambda>_ _ _ _. State_Monad.return EFI_SUCCESS),
       ArmSetMemoryAttributes = (\<lambda>_ _ _ _. State_Monad.return EFI_SUCCESS),
       SetMemorySpaceAttributes = (\<lambda>_ _ _. State_Monad.return EFI_SUCCESS) \<rparr>,
     GetMemoryMap = (\<lambda>n p. State_Monad.return (EFI_SUCCESS, 0, 40, [])),
     AllocateZeroPool = (\<lambda>_. State_Monad.return 0x1000),
     FreePool = (\<lambda>_. State_Monad.return ()),
     GetUsableMemoryRanges = samsung_GetUsableMemoryRanges soc sg \<rparr>"

lemma samsung_ram_avoids_holes_witness:
  "\<exists>gs w'. ManageRam (empty_map_services quiet_soc (two_holes 0x90000000 0xA0000000))
      (sort_key PhysicalStart) (sort_key RangeAddress) 7 initial_globals () = Some (EFI_SUCCESS, w')
    \<and> gap_bytes gs \<inter> span 0x90000000 0x1000 = {}"
proof -
  let ?sg = "two_holes 0x90000000 0xA0000000"
  let ?sv = "empty_map_services quiet_soc ?sg"
  have map: "run_state (GetEfiMemoryMap ?sv initial_globals) () =
      ((EFI_SUCCESS, \<lparr> EfiMemoryMap = 0x1000, EfiMemoryMapSize = 0, DescriptorSize = 40,
        MapEntries = [] \<rparr>), ())"
    by (simp add: GetEfiMemoryMap_def empty_map_services_def initial_globals_def)
  have "GetUsableMemoryRanges ?sv = samsung_GetUsableMemoryRanges quiet_soc ?sg"
    by (simp add: empty_map_services_def)
  from samsung_ram_avoids_holes [OF descriptor_order.sort_key_sorts range_order.sort_key_sorts
      this map, of "0x3000" "()" 7]
  show ?thesis
    by (auto simp: quiet_soc_def two_holes_def range_of_def zero_range_def)
qed

end
