(* ===== verification/Memory.thy ===== *)
theory Memory
  imports Prelude
begin

text \<open>
  The flat memory that the patching and parsing code reads and writes through pointers: a
  function from addresses to bytes, with the little-endian accesses of the processor. An
  access of several bytes wraps around at the end of the address space.
\<close>

type_synonym mem = "u64 \<Rightarrow> u8"

definition read16 :: "mem \<Rightarrow> u64 \<Rightarrow> u16" where
  "read16 m a = ucast (m a) OR push_bit 8 (ucast (m (a + 1)))"

definition read32 :: "mem \<Rightarrow> u64 \<Rightarrow> u32" where
  "read32 m a = ucast (m a) OR push_bit 8 (ucast (m (a + 1)))
     OR push_bit 16 (ucast (m (a + 2))) OR push_bit 24 (ucast (m (a + 3)))"

definition read64 :: "mem \<Rightarrow> u64 \<Rightarrow> u64" where
  "read64 m a = ucast (read32 m a) OR push_bit 32 (ucast (read32 m (a + 4)))"

definition write32 :: "mem \<Rightarrow> u64 \<Rightarrow> u32 \<Rightarrow> mem" where
  "write32 m a v = m(a := ucast v, a + 1 := ucast (drop_bit 8 v),
     a + 2 := ucast (drop_bit 16 v), a + 3 := ucast (drop_bit 24 v))"

text \<open>\<open>CopyMem\<close> of the base library into \<open>a\<close>, from a buffer that does not overlap it.\<close>

fun write_bytes :: "mem \<Rightarrow> u64 \<Rightarrow> u8 list \<Rightarrow> mem" where
  "write_bytes m a [] = m"
| "write_bytes m a (b # bs) = write_bytes (m(a := b)) (a + 1) bs"

definition read_bytes :: "mem \<Rightarrow> u64 \<Rightarrow> nat \<Rightarrow> u8 list" where
  "read_bytes m a n = map (\<lambda>i. m (a + of_nat i)) [0..<n]"

section \<open>Reading back\<close>

lemma read32_write32 [simp]: "read32 (write32 m a v) a = v"
proof (rule bit_word_eqI)
  fix n :: nat assume "n < LENGTH(32)"
  then show "bit (read32 (write32 m a v) a) n = bit v n"
    by (cases "n < 8"; cases "n < 16"; cases "n < 24")
      (auto simp: read32_def write32_def bit_simps not_less)
qed

text \<open>The four bytes of a word are those at distance less than 4.\<close>

definition word_at :: "u64 \<Rightarrow> u64 set" where
  "word_at a = {a, a + 1, a + 2, a + 3}"

lemma write32_outside: "x \<notin> word_at a \<Longrightarrow> write32 m a v x = m x"
  by (simp add: write32_def word_at_def)

lemma read32_cong: "(\<And>x. x \<in> word_at a \<Longrightarrow> m x = m' x) \<Longrightarrow> read32 m a = read32 m' a"
  by (simp add: read32_def word_at_def)

lemma read32_write32_other:
  "word_at a \<inter> word_at b = {} \<Longrightarrow> read32 (write32 m a v) b = read32 m b"
  by (rule read32_cong) (auto intro: write32_outside)

lemma word_at_range:
  assumes "unat a + 3 < 2 ^ 64" "x \<in> word_at a"
  shows "unat a \<le> unat x \<and> unat x \<le> unat a + 3"
proof -
  have "unat (a + 1) = unat a + 1" "unat (a + 2) = unat a + 2" "unat (a + 3) = unat a + 3"
    using assms(1) by (simp_all add: unat_add_nowrap)
  with assms(2) show ?thesis by (auto simp: word_at_def)
qed

lemma word_at_disjoint:
  assumes "unat a + 4 \<le> unat b" "unat b + 3 < 2 ^ 64"
  shows "word_at a \<inter> word_at b = {}"
  using word_at_range [of a] word_at_range [of b] assms by fastforce

lemma write_bytes_outside:
  assumes "\<forall>i < length bs. x \<noteq> a + of_nat i"
  shows "write_bytes m a bs x = m x"
  using assms
proof (induction bs arbitrary: m a)
  case (Cons b bs)
  have "x \<noteq> a" using Cons.prems by force
  moreover have "\<forall>i < length bs. x \<noteq> a + 1 + of_nat i"
    using Cons.prems by (metis Suc_less_eq add.assoc length_Cons of_nat_Suc)
  ultimately show ?case using Cons.IH by simp
qed simp

lemma write_bytes_inside:
  assumes "i < length bs" "length bs \<le> 2 ^ 64"
  shows "write_bytes m a bs (a + of_nat i) = bs ! i"
  using assms
proof (induction bs arbitrary: m a i)
  case (Cons b bs)
  show ?case
  proof (cases i)
    case 0
    have "a \<noteq> a + 1 + of_nat j" if "j < length bs" for j
    proof
      assume "a = a + 1 + of_nat j"
      then have "of_nat (Suc j) = (0 :: u64)" by (simp add: add.assoc)
      then have "unat (of_nat (Suc j) :: u64) = 0" by simp
      then show False using that Cons.prems unfolding unat_of_nat by (cases "Suc j = 2 ^ 64") auto
    qed
    with 0 show ?thesis by (simp add: write_bytes_outside)
  next
    case (Suc j)
    with Cons.IH [of j "m(a := b)" "a + 1"] Cons.prems show ?thesis
      by (simp add: add.assoc fun_upd_def)
  qed
qed simp

end
