(* ===== verification/ErrataPatcher.thy ===== *)
theory ErrataPatcher
  imports Memory
begin

text \<open>
  The code that rewrites ARM64 instructions of the Windows loader in memory.

  \<^item> \<open>ApplyReadActlrEl1Patch\<close>: \<open>QcomPkg/Library/ErrataPatchesLib/ErrataPatchesLib.c\<close>;
    \<open>ApplyReadCntfrqEl0Patch\<close>: \<open>SamsungPkg/Library/ErrataPatchesLib/ErrataPatchesLib.c\<close>. Both
    are one scan, \<open>mrs_loop\<close>, with another instruction and another replacement.
  \<^item> \<open>ARM64_BRANCH_LOCATION_INSTRUCTION\<close>: \<open>SiliciumPkg/Include/Library/AssemblyUtilsLib.h\<close>.
  \<^item> \<open>IsWinloadMemory\<close>, \<open>IsValidString\<close>, \<open>GetTextMemory\<close>, \<open>PatchWinloadTransferToKernel\<close> and the
    table \<open>CodebaseSemester\<close>:
    \<open>SiliciumPkg/Library/KernelErrataPatcherLib/Winload.c\<close> and \<open>Winload.h\<close>.
  \<^item> \<open>RemoveSecureBootCheck\<close>: \<open>SiliciumPkg/Applications/UFPLoader/UFPPatch.c\<close>.

  The scans step an address until it reaches the end; near the top of the address space they
  would not end, so they are partial functions with the value \<open>None\<close> for not returning.
  Cache maintenance has no effect on the memory and is left out.
\<close>

section \<open>Instructions\<close>

text \<open>The branch-and-link that the macro encodes: the distance is divided as an unsigned
  64-bit number, cut to 32 bits and masked with 27 bits, one more than the field has.\<close>

definition ARM64_BRANCH_LOCATION_INSTRUCTION :: "u64 \<Rightarrow> u64 \<Rightarrow> u32" where
  "ARM64_BRANCH_LOCATION_INSTRUCTION CurrentOffset TargetOffset =
     0x94000000 OR (ucast ((TargetOffset - CurrentOffset) div 4) AND 0x7FFFFFF)"

text \<open>What the processor makes of a branch-and-link at \<open>pc\<close>: the opcode is in the upper six
  bits, the target is \<open>pc\<close> plus four times the sign-extended lower 26 bits.\<close>

definition is_bl :: "u32 \<Rightarrow> bool" where
  "is_bl i = (drop_bit 26 i = 0x25)"

definition bl_target :: "u64 \<Rightarrow> u32 \<Rightarrow> u64" where
  "bl_target pc i = pc + 4 * scast (ucast i :: 26 word)"

section \<open>Replacing system register reads\<close>

definition mrs_replace :: "u32 \<Rightarrow> u32 \<Rightarrow> u32 \<Rightarrow> u32" where
  "mrs_replace pat repl i = (if i AND NOT 0x1F = pat then repl OR (i AND 0x1F) else i)"

partial_function (option) mrs_loop ::
    "u32 \<Rightarrow> u32 \<Rightarrow> u64 \<Rightarrow> u64 \<Rightarrow> mem \<Rightarrow> mem option" where
  "mrs_loop pat repl End Current m =
     (if Current < End then
        (let Instruction = read32 m Current in
         if Instruction AND NOT 0x1F \<noteq> pat then mrs_loop pat repl End (Current + 4) m
         else mrs_loop pat repl End (Current + 4)
                (write32 m Current (repl OR (Instruction AND 0x1F))))
      else Some m)"

definition ApplyReadActlrEl1Patch :: "u64 \<Rightarrow> u64 \<Rightarrow> mem \<Rightarrow> mem option" where
  "ApplyReadActlrEl1Patch Base End m = mrs_loop 0xD5381020 0xD2800000 End Base m"

definition ApplyReadCntfrqEl0Patch :: "u64 \<Rightarrow> u64 \<Rightarrow> mem \<Rightarrow> mem option" where
  "ApplyReadCntfrqEl0Patch Base End m = mrs_loop 0xD53BE000 0xD2A03180 End Base m"

section \<open>Removing the secure boot check of the UFP loader\<close>

partial_function (option) RemoveSecureBootCheck_loop :: "u64 \<Rightarrow> u64 \<Rightarrow> mem \<Rightarrow> mem option" where
  "RemoveSecureBootCheck_loop End Current m =
     (if Current < End then
        (if read64 m (Current + 4 * 0) \<noteq> 0xA9015BF5A9BE53F3
         then RemoveSecureBootCheck_loop End (Current + 4) m
         else if read64 m (Current + 4 * 66) \<noteq> 0xD65F03C0A8C253F3
         then RemoveSecureBootCheck_loop End (Current + 4) m
         else if read32 m (Current - 4 * 1) \<noteq> 0x0
         then RemoveSecureBootCheck_loop End (Current + 4) m
         else Some (write32 (write32 m (Current + 4 * 0) 0x2A1F03E0) (Current + 4 * 1) 0xD65F03C0))
      else Some m)"

definition RemoveSecureBootCheck :: "u64 \<Rightarrow> u64 \<Rightarrow> mem \<Rightarrow> mem option" where
  "RemoveSecureBootCheck Base End m = RemoveSecureBootCheck_loop End Base m"

definition ApplyUfpPatches :: "u64 \<Rightarrow> u64 \<Rightarrow> mem \<Rightarrow> mem option" where
  "ApplyUfpPatches Base len m = RemoveSecureBootCheck Base (Base + len) m"

section \<open>Finding the loader\<close>

record winload =
  mWinloadBase :: u64
  mWinloadEnd :: u64

text \<open>Offsets of the PE structures (\<open>ShellCode.c\<close> of the reference patches declares them too).
  \<open>char_of_byte\<close> reads a byte as a character.\<close>

definition char_of_byte :: "u8 \<Rightarrow> char" where
  "char_of_byte b = char_of (unat b)"

text \<open>\<open>AsciiStrnCmp\<close> and \<open>AsciiStriCmp\<close> are parameters, as functions on the strings that the
  pointers designate: the bytes up to the terminator, at most \<open>n\<close>.\<close>

fun c_string :: "mem \<Rightarrow> u64 \<Rightarrow> nat \<Rightarrow> string" where
  "c_string m a 0 = []"
| "c_string m a (Suc n) = (if m a = 0 then [] else char_of_byte (m a) # c_string m (a + 1) n)"

fun text_loop ::
    "(string \<Rightarrow> string \<Rightarrow> nat \<Rightarrow> int) \<Rightarrow> mem \<Rightarrow> u64 \<Rightarrow> nat \<Rightarrow> u64 \<Rightarrow> winload \<Rightarrow> efi_status \<times> winload" where
  "text_loop strncmp m Base 0 section_header g = (EFI_NOT_FOUND, g)"
| "text_loop strncmp m Base (Suc n) section_header g =
     (if strncmp (c_string m section_header 8) ''.text'' 8 \<noteq> 0
      then text_loop strncmp m Base n (section_header + 40) g
      else
        let b = Base + ucast (read32 m (section_header + 12))
        in (EFI_SUCCESS, g\<lparr> mWinloadBase := b,
              mWinloadEnd := b + ucast (read32 m (section_header + 16)) \<rparr>))"

definition GetTextMemory ::
    "(string \<Rightarrow> string \<Rightarrow> nat \<Rightarrow> int) \<Rightarrow> mem \<Rightarrow> u64 \<Rightarrow> u64 \<Rightarrow> winload \<Rightarrow> efi_status \<times> winload" where
  "GetTextMemory strncmp m Base NtHeader g =
     text_loop strncmp m Base (unat (read16 m (NtHeader + 6)))
       (NtHeader + 24 + ucast (read16 m (NtHeader + 20))) g"

text \<open>The loop of \<open>IsValidString\<close> over the at most 32 characters; \<open>n\<close> of them are left.\<close>

fun valid_string_loop :: "mem \<Rightarrow> u64 \<Rightarrow> u64 \<Rightarrow> nat \<Rightarrow> bool" where
  "valid_string_loop m p End 0 = False"
| "valid_string_loop m p End (Suc n) =
     (if p \<ge> End then False
      else if m p = 0 then True
      else if m p < 0x20 \<or> m p > 0x7E then False
      else valid_string_loop m (p + 1) End n)"

definition IsValidString :: "mem \<Rightarrow> u64 \<Rightarrow> u64 \<Rightarrow> bool" where
  "IsValidString m String End = valid_string_loop m String End 32"

definition IsWinloadMemory ::
    "(string \<Rightarrow> string \<Rightarrow> nat \<Rightarrow> int) \<Rightarrow> (string \<Rightarrow> string \<Rightarrow> int) \<Rightarrow> mem \<Rightarrow> u64 \<Rightarrow> u64 \<Rightarrow> winload
      \<Rightarrow> bool \<times> winload" where
  "IsWinloadMemory strncmp stricmp m Base End g =
     (if Base = 0 then (False, g)
      else if 64 > End - Base then (False, g)
      else if read16 m Base \<noteq> 0x5A4D then (False, g)
      else
        let e_lfanew = (ucast (read32 m (Base + 60)) :: u64) in
        if e_lfanew + 264 > End - Base then (False, g)
        else
          let NtHeader = Base + e_lfanew in
          if read32 m NtHeader \<noteq> 0x00004550 then (False, g)
          else if read16 m (NtHeader + 24) \<noteq> 0x20B then (False, g)
          else if read32 m (NtHeader + 132) = 0 then (False, g)
          else
            let ExportDirRva = read32 m (NtHeader + 136);
                ExportDirSize = read32 m (NtHeader + 140)
            in if ExportDirRva = 0 \<or> ExportDirSize = 0 then (False, g)
            else if ucast (ExportDirRva + ExportDirSize) > End - Base then (False, g)
            else
              let ImgDirExport = Base + ucast ExportDirRva;
                  Name = read32 m (ImgDirExport + 12)
              in if Name = 0 then (False, g)
              else if ucast Name > End - Base then (False, g)
              else
                let EntryExportName = Base + ucast Name in
                if \<not> IsValidString m EntryExportName End then (False, g)
                else if stricmp (c_string m EntryExportName 32) ''winload.sys'' = 0
                then (let (s, g') = GetTextMemory strncmp m Base NtHeader g
                      in (s = EFI_SUCCESS, g'))
                else (False, g))"

section \<open>Redirecting the transfer to the kernel\<close>

record codebase_semester =
  SemesterName :: string
  TransferToKernelOffset :: u16
  TargetInstruction :: u32

definition CodebaseSemester :: "codebase_semester list" where
  "CodebaseSemester = [
     \<lparr> SemesterName = ''Legacy'', TransferToKernelOffset = 0x0, TargetInstruction = 0xD2800002 \<rparr>,
     \<lparr> SemesterName = ''Germanium'', TransferToKernelOffset = 0x80, TargetInstruction = 0xD2800002 \<rparr>,
     \<lparr> SemesterName = ''Vibranium'', TransferToKernelOffset = 0x90, TargetInstruction = 0xD2800002 \<rparr>,
     \<lparr> SemesterName = ''Selenium'', TransferToKernelOffset = 0x450, TargetInstruction = 0xD2800002 \<rparr>,
     \<lparr> SemesterName = ''Bromine'', TransferToKernelOffset = 0x4D0, TargetInstruction = 0x52800014 \<rparr>,
     \<lparr> SemesterName = ''Krypton'', TransferToKernelOffset = 0x860, TargetInstruction = 0x52800015 \<rparr>,
     \<lparr> SemesterName = ''Rubidium'', TransferToKernelOffset = 0x9D0, TargetInstruction = 0x52800015 \<rparr>]"

text \<open>The inner scan: the address of the branch to \<open>TransferToKernelAddr\<close> that is followed by
  the target instruction, if there is one.\<close>

partial_function (option) transfer_loop ::
    "mem \<Rightarrow> u64 \<Rightarrow> u64 \<Rightarrow> u32 \<Rightarrow> u64 \<Rightarrow> u64 option option" where
  "transfer_loop m WinloadEnd TransferToKernelAddr target Current =
     (if Current < TransferToKernelAddr + (WinloadEnd - TransferToKernelAddr) then
        (if read32 m Current \<noteq> ARM64_BRANCH_LOCATION_INSTRUCTION Current TransferToKernelAddr
         then transfer_loop m WinloadEnd TransferToKernelAddr target (Current + 4)
         else if read32 m (Current + 4) \<noteq> target
         then transfer_loop m WinloadEnd TransferToKernelAddr target (Current + 4)
         else Some (Some Current))
      else Some None)"

fun semester_loop ::
    "winload \<Rightarrow> u8 list \<Rightarrow> codebase_semester list \<Rightarrow> mem \<Rightarrow> mem option" where
  "semester_loop g ShellCode [] m = Some m"
| "semester_loop g ShellCode (s # ss) m =
     (let TransferToKernelAddr = mWinloadBase g + ucast (TransferToKernelOffset s);
          NewTransferToKernelAddr = TransferToKernelAddr - of_nat (length ShellCode)
      in case transfer_loop m (mWinloadEnd g) TransferToKernelAddr (TargetInstruction s)
                TransferToKernelAddr of
           None \<Rightarrow> None
         | Some None \<Rightarrow> semester_loop g ShellCode ss m
         | Some (Some Current) \<Rightarrow>
             Some (write32 (write_bytes m NewTransferToKernelAddr ShellCode) Current
               (ARM64_BRANCH_LOCATION_INSTRUCTION Current NewTransferToKernelAddr)))"

definition PatchWinloadTransferToKernel :: "winload \<Rightarrow> u8 list \<Rightarrow> mem \<Rightarrow> mem option" where
  "PatchWinloadTransferToKernel g ShellCode m =
     (if mWinloadBase g = 0 \<or> mWinloadEnd g = 0 then Some m
      else semester_loop g ShellCode CodebaseSemester m)"

section \<open>Lemmas\<close>

subsection \<open>The branch encoding\<close>

lemma opcode_shift: "(0x94000000 :: u32) = push_bit 26 0x25"
  by simp

lemma bit_branch:
  "bit (ARM64_BRANCH_LOCATION_INSTRUCTION cur tgt) n \<longleftrightarrow>
     n < 32 \<and> (26 \<le> n \<and> bit (0x25 :: u32) (n - 26) \<or> n < 27 \<and> bit (tgt - cur) (n + 2))"
proof -
  have "(tgt - cur) div 4 = drop_bit 2 (tgt - cur)" by (simp add: drop_bit_eq_div)
  moreover have "(0x7FFFFFF :: u32) = mask 27" by (simp add: mask_eq_exp_minus_1)
  ultimately show ?thesis
    unfolding ARM64_BRANCH_LOCATION_INSTRUCTION_def opcode_shift
    by (simp only: bit_or_iff bit_and_iff bit_mask_iff bit_push_bit_iff bit_unsigned_iff bit_drop_bit_eq
        comp_apply possible_bit_word add.commute) (auto dest: bit_imp_le_length)
qed

lemma is_bl_branch: "is_bl (ARM64_BRANCH_LOCATION_INSTRUCTION cur tgt)"
proof -
  have "bit (0x25 :: u32) 0" by simp
  then have "drop_bit 26 (ARM64_BRANCH_LOCATION_INSTRUCTION cur tgt) = 0x25"
    by (intro bit_word_eqI) (auto simp: bit_drop_bit_eq bit_branch less_Suc_eq numeral_eq_Suc)
  then show ?thesis by (simp add: is_bl_def)
qed

lemma bl_target_branch:
  assumes "4 dvd unat (tgt - cur)" "- (2 ^ 27) \<le> sint (tgt - cur)" "sint (tgt - cur) < 2 ^ 27"
  shows "bl_target cur (ARM64_BRANCH_LOCATION_INSTRUCTION cur tgt) = tgt"
proof -
  let ?d = "tgt - cur" and ?i = "ARM64_BRANCH_LOCATION_INSTRUCTION cur tgt"
  have high: "bit ?d n = bit ?d 27" if "27 \<le> n" "n < 64" for n
  proof -
    have s: "signed_take_bit 27 (sint ?d) = sint ?d"
      using assms(2,3) by (simp add: signed_take_bit_int_eq_self)
    have "bit (sint ?d) n = bit (sint ?d) (min n 27)"
      by (subst s [symmetric]) (simp add: bit_signed_take_bit_iff min.commute)
    then show ?thesis using that by (simp add: bit_sint_iff min_def)
  qed
  have low: "\<not> bit ?d n" if "n < 2" for n
  proof -
    have "take_bit 2 (unat ?d) = 0" using assms(1) by (simp add: take_bit_eq_mod)
    then have "\<not> bit (take_bit 2 (unat ?d)) n" by simp
    then show ?thesis using that by (simp add: bit_take_bit_iff bit_unsigned_iff)
  qed
  have "4 * scast (ucast ?i :: 26 word) = ?d"
  proof (rule bit_word_eqI)
    fix n assume n: "n < LENGTH(64)"
    have "4 * scast (ucast ?i :: 26 word) = push_bit 2 (scast (ucast ?i :: 26 word) :: u64)"
      by (simp add: push_bit_eq_mult)
    moreover have "2 \<le> n \<Longrightarrow> Suc (Suc (n - 2)) = n" by simp
    ultimately show "bit (4 * scast (ucast ?i :: 26 word) :: u64) n = bit ?d n"
      using n low high [of n]
      by (simp only: bit_push_bit_iff bit_signed_iff bit_unsigned_iff bit_branch)
        (cases "n < 2"; cases "n < 28"; auto simp: not_less min_def)
  qed
  then show ?thesis by (simp add: bl_target_def)
qed

subsection \<open>The scans\<close>

text \<open>The address of the \<open>k\<close>th instruction from \<open>a\<close>, and the words of a range that ends below
  the top of the address space.\<close>

lemma unat_instr:
  fixes a :: u64
  assumes "unat a + 4 * k < 2 ^ 64"
  shows "unat (a + of_nat (4 * k)) = unat a + 4 * k"
  using assms by (subst unat_add_nowrap) (simp_all add: unat_of_nat del: of_nat_mult)

lemma instr_step: "(a :: u64) + 4 + of_nat (4 * k) = a + of_nat (4 * Suc k)"
  by (simp add: algebra_simps)

lemma mrs_loop_spec:
  assumes "unat End = unat a + 4 * n"
  shows "\<exists>m'. mrs_loop pat repl End a m = Some m'
    \<and> (\<forall>k < n. read32 m' (a + of_nat (4 * k)) = mrs_replace pat repl (read32 m (a + of_nat (4 * k))))
    \<and> (\<forall>x. unat x < unat a \<or> unat End \<le> unat x \<longrightarrow> m' x = m x)"
  using assms
proof (induction n arbitrary: a m)
  case 0
  then show ?case by (subst mrs_loop.simps) (simp add: word_less_nat_alt)
next
  case (Suc n)
  let ?i = "read32 m a"
  let ?m1 = "if ?i AND NOT 0x1F \<noteq> pat then m else write32 m a (repl OR (?i AND 0x1F))"
  have top: "unat a + 4 * Suc n < 2 ^ 64" using Suc.prems unsigned_less [of End, where 'a = nat] by simp
  have nxt: "unat (a + 4) = unat a + 4" using top by (subst unat_add_nowrap) simp_all
  have "a < End" using Suc.prems by (simp add: word_less_nat_alt)
  then have step: "mrs_loop pat repl End a m = mrs_loop pat repl End (a + 4) ?m1"
    by (subst mrs_loop.simps) (simp add: Let_def)
  have "unat End = unat (a + 4) + 4 * n" using Suc.prems nxt by simp
  from Suc.IH [OF this, of ?m1] obtain m' where
    run: "mrs_loop pat repl End (a + 4) ?m1 = Some m'"
    and words: "\<And>k. k < n \<Longrightarrow> read32 m' (a + 4 + of_nat (4 * k)) =
      mrs_replace pat repl (read32 ?m1 (a + 4 + of_nat (4 * k)))"
    and rest: "\<And>x. unat x < unat (a + 4) \<or> unat End \<le> unat x \<Longrightarrow> m' x = ?m1 x" by auto
  have same: "read32 ?m1 b = read32 m b" if "word_at a \<inter> word_at b = {}" for b
    using that by (simp add: read32_write32_other)
  have outside: "?m1 x = m x" if "x \<notin> word_at a" for x :: u64
    using that by (simp add: write32_outside)
  show ?case
  proof (intro exI conjI allI impI)
    show "mrs_loop pat repl End a m = Some m'" using step run by simp
  next
    fix k assume k: "k < Suc n"
    show "read32 m' (a + of_nat (4 * k)) = mrs_replace pat repl (read32 m (a + of_nat (4 * k)))"
    proof (cases k)
      case 0
      have "read32 m' a = read32 ?m1 a"
        by (rule read32_cong, rule rest) (use word_at_range [of a] top nxt in force)
      then show ?thesis by (simp add: 0 mrs_replace_def)
    next
      case (Suc j)
      have "word_at a \<inter> word_at (a + of_nat (4 * k)) = {}"
        by (rule word_at_disjoint) (use unat_instr [of a k] k top Suc in simp_all)
      then show ?thesis using words [of j] k same Suc by (simp add: instr_step del: of_nat_mult)
    qed
  next
    fix x :: u64 assume "unat x < unat a \<or> unat End \<le> unat x"
    then have "x \<notin> word_at a" "unat x < unat (a + 4) \<or> unat End \<le> unat x"
      using word_at_range [of a x] top nxt Suc.prems by auto
    then show "m' x = m x" using rest outside by simp
  qed
qed

text \<open>The inner scan stops at the first instruction that satisfies both tests, if the range has
  one.\<close>

definition branch_here :: "mem \<Rightarrow> u64 \<Rightarrow> u32 \<Rightarrow> u64 \<Rightarrow> bool" where
  "branch_here m T target c \<longleftrightarrow> read32 m c = ARM64_BRANCH_LOCATION_INSTRUCTION c T
     \<and> read32 m (c + 4) = target"

definition first_instr :: "(u64 \<Rightarrow> bool) \<Rightarrow> u64 \<Rightarrow> u64 \<Rightarrow> nat \<Rightarrow> bool" where
  "first_instr P a End k \<longleftrightarrow> unat a + 4 * k < unat End \<and> P (a + of_nat (4 * k))
     \<and> (\<forall>j < k. \<not> P (a + of_nat (4 * j)))"

definition no_instr :: "(u64 \<Rightarrow> bool) \<Rightarrow> u64 \<Rightarrow> u64 \<Rightarrow> bool" where
  "no_instr P a End \<longleftrightarrow> (\<forall>k. unat a + 4 * k < unat End \<longrightarrow> \<not> P (a + of_nat (4 * k)))"

lemma first_instr_here: "a < End \<Longrightarrow> P a \<Longrightarrow> first_instr P a End 0"
  by (simp add: first_instr_def word_less_nat_alt)

lemma first_instr_next:
  assumes "\<not> P a" "unat (a + 4) = unat a + 4" "first_instr P (a + 4) End k"
  shows "first_instr P a End (Suc k)"
  using assms by (auto simp: first_instr_def less_Suc_eq_0_disj instr_step simp del: of_nat_mult)

lemma no_instr_end: "\<not> a < End \<Longrightarrow> no_instr P a End"
  by (simp add: no_instr_def word_less_nat_alt)

lemma no_instr_next:
  assumes "\<not> P a" "unat (a + 4) = unat a + 4" "no_instr P (a + 4) End"
  shows "no_instr P a End"
  unfolding no_instr_def
proof (intro allI impI)
  fix k assume k: "unat a + 4 * k < unat End"
  show "\<not> P (a + of_nat (4 * k))"
    using assms k by (cases k) (simp_all add: no_instr_def instr_step del: of_nat_mult)
qed

text \<open>A scan that steps over the addresses where \<open>P\<close> fails and stops at the first where it holds.\<close>

lemma scan_first:
  assumes step: "\<And>a. a < End \<Longrightarrow> \<not> P a \<Longrightarrow> scan a = scan (a + 4)"
    and stop: "\<And>a. \<not> a < End \<Longrightarrow> scan a = Some none"
    and hit: "\<And>a. a < End \<Longrightarrow> P a \<Longrightarrow> scan a = Some (found a)"
    and top: "unat End \<le> 2 ^ 64 - 4"
  shows "no_instr P a End \<and> scan a = Some none
    \<or> (\<exists>k. first_instr P a End k \<and> scan a = Some (found (a + of_nat (4 * k))))"
proof (induction "unat End - unat a" arbitrary: a rule: less_induct)
  case less
  show ?case
  proof (cases "a < End")
    case False
    then show ?thesis by (simp add: stop no_instr_end)
  next
    case True
    then have lt: "unat a < unat End" by (simp add: word_less_nat_alt)
    have nxt: "unat (a + 4) = unat a + 4" using lt top by (subst unat_add_nowrap) simp_all
    show ?thesis
    proof (cases "P a")
      case here: True
      with True show ?thesis using first_instr_here [of a End P] hit by force
    next
      case False
      have "unat End - unat (a + 4) < unat End - unat a" using lt nxt by simp
      from less [OF this] show ?thesis
      proof (elim disjE exE conjE)
        assume "no_instr P (a + 4) End" "scan (a + 4) = Some none"
        then show ?thesis using no_instr_next [of P a, OF False nxt] step [OF True False] by simp
      next
        fix k assume "first_instr P (a + 4) End k" "scan (a + 4) = Some (found (a + 4 + of_nat (4 * k)))"
        then show ?thesis
          using first_instr_next [of P a, OF False nxt] step [OF True False] unfolding instr_step by metis
      qed
    qed
  qed
qed

lemma transfer_loop_first:
  assumes "unat End \<le> 2 ^ 64 - 4"
  shows "no_instr (branch_here m T target) a End \<and> transfer_loop m End T target a = Some None
    \<or> (\<exists>k. first_instr (branch_here m T target) a End k
         \<and> transfer_loop m End T target a = Some (Some (a + of_nat (4 * k))))"
  by (rule scan_first [where scan = "transfer_loop m End T target" and found = Some, OF _ _ _ assms];
      subst transfer_loop.simps) (auto simp: branch_here_def)

lemma bl_target_backwards:
  assumes "4 dvd n" "n < 2 ^ 27"
  shows "bl_target c (ARM64_BRANCH_LOCATION_INSTRUCTION c (c - of_nat n)) = c - of_nat n"
proof (rule bl_target_branch)
  have d: "c - of_nat n - c = word_of_int (- int n)" by simp
  have "sint (word_of_int (- int n) :: u64) = - int n"
    using assms(2) by (subst signed_of_int) (simp add: signed_take_bit_int_eq_self)
  then show "- (2 ^ 27) \<le> sint (c - of_nat n - c)" "sint (c - of_nat n - c) < 2 ^ 27"
    using assms(2) unfolding d by simp_all
  have "int 4 dvd - int n mod 2 ^ 64" using assms(1) by (intro dvd_mod) auto
  then have "int 4 dvd uint (word_of_int (- int n) :: u64)"
    unfolding uint_word_of_int by simp
  then show "4 dvd unat (c - of_nat n - c)"
    unfolding d of_nat_unat [symmetric, where 'a = int] by (simp only: of_nat_dvd_iff)
qed

text \<open>The function of an entry of the table; the first branch to it that the scan takes; no such
  branch in the text section.\<close>

definition transfer_at :: "winload \<Rightarrow> codebase_semester \<Rightarrow> u64" where
  "transfer_at g s = mWinloadBase g + ucast (TransferToKernelOffset s)"

definition first_branch :: "winload \<Rightarrow> mem \<Rightarrow> codebase_semester \<Rightarrow> u64 \<Rightarrow> bool" where
  "first_branch g m s c \<longleftrightarrow> (\<exists>k. c = transfer_at g s + of_nat (4 * k)
     \<and> first_instr (branch_here m (transfer_at g s) (TargetInstruction s)) (transfer_at g s) (mWinloadEnd g) k)"

definition no_branch :: "winload \<Rightarrow> mem \<Rightarrow> codebase_semester \<Rightarrow> bool" where
  "no_branch g m s \<longleftrightarrow>
     no_instr (branch_here m (transfer_at g s) (TargetInstruction s)) (transfer_at g s) (mWinloadEnd g)"

definition redirected :: "winload \<Rightarrow> u8 list \<Rightarrow> mem \<Rightarrow> codebase_semester \<Rightarrow> u64 \<Rightarrow> mem" where
  "redirected g sc m s c = write32 (write_bytes m (transfer_at g s - of_nat (length sc)) sc) c
     (ARM64_BRANCH_LOCATION_INSTRUCTION c (transfer_at g s - of_nat (length sc)))"

lemma semester_loop_effect:
  assumes "unat (mWinloadEnd g) \<le> 2 ^ 64 - 4"
  shows "(\<forall>s \<in> set ss. no_branch g m s) \<and> semester_loop g sc ss m = Some m
    \<or> (\<exists>i < length ss. \<exists>c. (\<forall>h < i. no_branch g m (ss ! h)) \<and> first_branch g m (ss ! i) c
         \<and> semester_loop g sc ss m = Some (redirected g sc m (ss ! i) c))"
proof (induction ss)
  case (Cons s ss)
  let ?T = "transfer_at g s"
  let ?scan = "transfer_loop m (mWinloadEnd g) ?T (TargetInstruction s) ?T"
  from transfer_loop_first [OF assms, of m ?T "TargetInstruction s" ?T] show ?case
  proof (elim disjE exE conjE)
    assume none: "?scan = Some None"
      and "no_instr (branch_here m ?T (TargetInstruction s)) ?T (mWinloadEnd g)"
    then have here: "no_branch g m s" by (simp add: no_branch_def)
    have run: "semester_loop g sc (s # ss) m = semester_loop g sc ss m"
      using none by (simp add: Let_def transfer_at_def)
    from Cons.IH show ?thesis
    proof (elim disjE exE conjE)
      fix i c assume i: "i < length ss" "\<forall>h < i. no_branch g m (ss ! h)" "first_branch g m (ss ! i) c"
        "semester_loop g sc ss m = Some (redirected g sc m (ss ! i) c)"
      then have "\<forall>h < Suc i. no_branch g m ((s # ss) ! h)"
        using here by (auto simp: less_Suc_eq_0_disj)
      then show ?thesis
        using i run by (intro disjI2 exI [of _ "Suc i"] conjI exI [of _ c]) simp_all
    qed (use here run in simp)
  next
    fix k assume k: "first_instr (branch_here m ?T (TargetInstruction s)) ?T (mWinloadEnd g) k"
      and found: "?scan = Some (Some (?T + of_nat (4 * k)))"
    have "first_branch g m s (?T + of_nat (4 * k))" using k by (auto simp: first_branch_def)
    moreover have "semester_loop g sc (s # ss) m = Some (redirected g sc m s (?T + of_nat (4 * k)))"
      using found by (simp add: Let_def transfer_at_def redirected_def del: of_nat_mult)
    ultimately show ?thesis
      by (intro disjI2 exI [of _ 0] conjI exI [of _ "?T + of_nat (4 * k)"]) simp_all
  qed
qed simp

lemma semester_offset_bound: "s \<in> set CodebaseSemester \<Longrightarrow> unat (TransferToKernelOffset s) \<le> 0x9D0"
  by (auto simp: CodebaseSemester_def)

lemma patch_result:
  assumes site: "first_branch g m s c" and s: "s \<in> set CodebaseSemester"
    and room: "length sc \<le> unat (mWinloadBase g)" "4 dvd length sc"
    and ends: "unat (mWinloadEnd g) + length sc < unat (mWinloadBase g) + 2 ^ 27"
      "unat (mWinloadEnd g) < 2 ^ 64 - 0x1000" "mWinloadBase g \<le> mWinloadEnd g"
    and at: "T = transfer_at g s" and res: "m' = redirected g sc m s c"
  shows "is_bl (read32 m' c)" "bl_target c (read32 m' c) = T - of_nat (length sc)"
    "bl_target c (read32 m c) = T"
    "\<forall>i < length sc. m' (T - of_nat (length sc) + of_nat i) = sc ! i"
    "\<forall>x. x \<notin> word_at c \<and> (\<forall>i < length sc. x \<noteq> T - of_nat (length sc) + of_nat i) \<longrightarrow> m' x = m x"
proof -
  have m': "m' = write32 (write_bytes m (T - of_nat (length sc)) sc) c
             (ARM64_BRANCH_LOCATION_INSTRUCTION c (T - of_nat (length sc)))"
    by (simp add: res redirected_def at)
  obtain k where c: "c = T + of_nat (4 * k)" "unat T + 4 * k < unat (mWinloadEnd g)"
    and T: "T = mWinloadBase g + ucast (TransferToKernelOffset s)"
    and old: "read32 m c = ARM64_BRANCH_LOCATION_INSTRUCTION c T"
    using site at by (auto simp: first_branch_def first_instr_def branch_here_def transfer_at_def)
  have "unat (ucast (TransferToKernelOffset s) :: u64) = unat (TransferToKernelOffset s)"
    using semester_offset_bound [OF s] by (simp add: unat_ucast)
  then have uT: "unat T = unat (mWinloadBase g) + unat (TransferToKernelOffset s)"
    unfolding T using semester_offset_bound [OF s] ends
    by (subst unat_add_nowrap) (simp_all add: word_le_nat_alt)
  have uc: "unat c = unat T + 4 * k"
    unfolding c using c(2) ends by (intro unat_instr) simp
  have n: "T - of_nat (length sc) = c - of_nat (4 * k + length sc)" and old_T: "T = c - of_nat (4 * k)"
    using c by simp_all
  have new: "read32 m' c = ARM64_BRANCH_LOCATION_INSTRUCTION c (c - of_nat (4 * k + length sc))"
    unfolding m' n by simp
  show "is_bl (read32 m' c)" by (simp add: new is_bl_branch)
  have "4 * k + length sc < 2 ^ 27" using c(2) ends(1) uT by linarith
  then show "bl_target c (read32 m' c) = T - of_nat (length sc)"
    unfolding new n using room by (intro bl_target_backwards) simp_all
  show "bl_target c (read32 m c) = T"
    unfolding old using c(2) ends(1) uT
    by (subst (1 2) old_T, intro bl_target_backwards) simp_all
  have area: "unat (T - of_nat (length sc) + of_nat i) = unat T - length sc + i" if "i < length sc" for i
  proof -
    have l: "unat (of_nat (length sc) :: u64) = length sc" using room unsigned_less [of "mWinloadBase g", where 'a = nat]
      by (simp add: unat_of_nat)
    have "unat (T - of_nat (length sc)) = unat T - length sc"
      using room uT l by (subst unat_diff_le) (simp_all add: word_le_nat_alt)
    then show ?thesis using that l room uT unsigned_less [of T, where 'a = nat]
      by (subst unat_add_nowrap) (simp_all add: unat_of_nat)
  qed
  have sep: "T - of_nat (length sc) + of_nat i \<notin> word_at c" if "i < length sc" for i
    using word_at_range [of c "T - of_nat (length sc) + of_nat i"] area [OF that] that uc c(2) ends room uT
    by fastforce
  have len: "length sc \<le> 2 ^ 64" using room unsigned_less [of "mWinloadBase g", where 'a = nat] by simp
  show "\<forall>i < length sc. m' (T - of_nat (length sc) + of_nat i) = sc ! i"
    unfolding m' using sep len by (simp add: write32_outside write_bytes_inside)
  show "\<forall>x. x \<notin> word_at c \<and> (\<forall>i < length sc. x \<noteq> T - of_nat (length sc) + of_nat i) \<longrightarrow> m' x = m x"
    unfolding m' by (simp add: write32_outside write_bytes_outside)
qed

lemma first_and_no: "first_branch g m s c \<Longrightarrow> \<not> no_branch g m s"
  by (auto simp: first_branch_def no_branch_def first_instr_def no_instr_def)

subsection \<open>What the recogniser reads\<close>

definition agree :: "u64 \<Rightarrow> u64 \<Rightarrow> mem \<Rightarrow> mem \<Rightarrow> bool" where
  "agree Base End m m' \<longleftrightarrow> (\<forall>x. Base \<le> x \<and> x < End \<longrightarrow> m x = m' x)"

lemma agree_at:
  assumes "agree Base End m m'" "Base \<le> End" "unat d < unat (End - Base)"
  shows "m' (Base + d) = m (Base + d)"
proof -
  have "unat (End - Base) = unat End - unat Base" using assms(2) by (rule unat_diff_le)
  then have "unat (Base + d) = unat Base + unat d" "unat Base + unat d < unat End"
    using assms(3) by (auto intro: unat_add_below [of _ _ End])
  with assms(1) show ?thesis by (simp add: agree_def word_le_nat_alt word_less_nat_alt)
qed

lemma unat_off:
  fixes d :: u64
  assumes "unat d + n < 2 ^ 64"
  shows "unat (d + of_nat n) = unat d + n"
  using assms by (subst unat_add_nowrap) (simp_all add: unat_of_nat)

lemma agree_off:
  assumes "agree Base End m m'" "Base \<le> End" "unat d + n < unat (End - Base)"
  shows "m' (Base + d + of_nat n) = m (Base + d + of_nat n)"
proof -
  have "unat (d + of_nat n) = unat d + n"
    using assms(3) unsigned_less [of "End - Base", where 'a = nat] by (intro unat_off) simp
  then show ?thesis using agree_at [OF assms(1,2), of "d + of_nat n"] assms(3) by (simp add: add.assoc)
qed

lemma agree_read16:
  assumes "agree Base End m m'" "Base \<le> End" "unat d + 2 \<le> unat (End - Base)"
  shows "read16 m' (Base + d) = read16 m (Base + d)"
  using agree_off [OF assms(1,2), of d 0] agree_off [OF assms(1,2), of d 1] assms(3)
  by (simp add: read16_def)

lemma agree_read32:
  assumes "agree Base End m m'" "Base \<le> End" "unat d + 4 \<le> unat (End - Base)"
  shows "read32 m' (Base + d) = read32 m (Base + d)"
  using agree_off [OF assms(1,2), of d 0] agree_off [OF assms(1,2), of d 1]
    agree_off [OF assms(1,2), of d 2] agree_off [OF assms(1,2), of d 3] assms(3)
  by (simp add: read32_def)

lemma agree_c_string:
  assumes "agree Base End m m'" "Base \<le> End" "unat d + n \<le> unat (End - Base)"
  shows "c_string m' (Base + d) n = c_string m (Base + d) n"
  using assms(3)
proof (induction n arbitrary: d)
  case (Suc n)
  have "unat (d + 1) = unat d + 1"
    using Suc.prems unsigned_less [of "End - Base", where 'a = nat] unat_off [of d 1] by simp
  with Suc show ?case using agree_off [OF assms(1,2), of d 0] Suc.IH [of "d + 1"]
    by (simp add: add.assoc)
qed simp

lemma agree_valid_string:
  assumes "agree Base End m m'" "Base \<le> p"
  shows "valid_string_loop m' p End n = valid_string_loop m p End n
    \<and> (valid_string_loop m p End n \<longrightarrow> c_string m' p n = c_string m p n)"
  using assms(2)
proof (induction n arbitrary: p)
  case (Suc n)
  show ?case
  proof (cases "p < End")
    case True
    then have "m' p = m p" using assms(1) Suc.prems by (simp add: agree_def)
    moreover have "unat (p + 1) = unat p + 1"
      using True unat_off [of p 1] unsigned_less [of End, where 'a = nat] by (simp add: word_less_nat_alt)
    then have "Base \<le> p + 1" using Suc.prems by (simp add: word_le_nat_alt)
    ultimately show ?thesis using True Suc.IH [of "p + 1"] by (auto dest: leD)
  qed (simp add: not_less)
qed simp

lemma agree_text_loop:
  assumes "agree Base End m m'" "Base \<le> End" "unat d + 40 * n \<le> unat (End - Base)"
  shows "text_loop strncmp m' Base n (Base + d) g = text_loop strncmp m Base n (Base + d) g"
  using assms(3)
proof (induction n arbitrary: d)
  case (Suc n)
  have off: "unat (d + of_nat k) = unat d + k" if "k \<le> 40" for k
    using Suc.prems unsigned_less [of "End - Base", where 'a = nat] that by (intro unat_off) simp
  note reads = agree_c_string [OF assms(1,2), of d 8] agree_read32 [OF assms(1,2), of "d + 12"]
    agree_read32 [OF assms(1,2), of "d + 16"] Suc.IH [of "d + 40"]
  with Suc.prems off [of 12] off [of 16] off [of 40] show ?case
    by (simp add: add.assoc)
qed simp


text \<open>An image whose export directory entry does not overflow and holds the name field, and whose
  section table lies inside the memory.\<close>

definition headers_inside :: "mem \<Rightarrow> u64 \<Rightarrow> u64 \<Rightarrow> bool" where
  "headers_inside m Base End \<longleftrightarrow>
     (let lf = read32 m (Base + 60); nt = Base + ucast lf in
      unat lf + 24 + unat (read16 m (nt + 20)) + 40 * unat (read16 m (nt + 6)) \<le> unat (End - Base)
      \<and> unat (read32 m (nt + 136)) + unat (read32 m (nt + 140)) < 2 ^ 32
      \<and> 16 \<le> unat (read32 m (nt + 140)))"

lemma unat_ucast_u64 [simp]:
  "unat (ucast (v :: u32) :: u64) = unat v" "unat (ucast (h :: u16) :: u64) = unat h"
  using unsigned_less [of v, where 'a = nat] unsigned_less [of h, where 'a = nat]
  by (simp_all add: unat_ucast)

lemma IsWinloadMemory_agree:
  assumes ag: "agree Base End m m'" and le: "Base \<le> End" and inside: "headers_inside m Base End"
  shows "IsWinloadMemory strncmp stricmp m' Base End g = IsWinloadMemory strncmp stricmp m Base End g"
proof -
  let ?L = "End - Base"
  let ?lf = "ucast (read32 m (Base + 60)) :: u64"
  note r16 = agree_read16 [OF ag le] and r32 = agree_read32 [OF ag le]
  have L: "unat ?L < 2 ^ 64" using unsigned_less [of ?L, where 'a = nat] by simp
  have dos: "read16 m' Base = read16 m Base \<and> read32 m' (Base + 60) = read32 m (Base + 60)"
    if "64 \<le> ?L"
    using that r16 [of 0] r32 [of 60] by (simp add: word_le_nat_alt)
  have lf: "unat (?lf + 264) = unat ?lf + 264"
    using unsigned_less [of "read32 m (Base + 60)", where 'a = nat] unat_off [of ?lf 264] by simp
  have nt: "read32 m' (Base + ?lf) = read32 m (Base + ?lf)"
      "\<And>k. k \<le> 262 \<Longrightarrow> read16 m' (Base + ?lf + of_nat k) = read16 m (Base + ?lf + of_nat k)"
      "\<And>k. k \<le> 260 \<Longrightarrow> read32 m' (Base + ?lf + of_nat k) = read32 m (Base + ?lf + of_nat k)"
    if "?lf + 264 \<le> ?L"
  proof -
    have b: "unat ?lf + 264 \<le> unat ?L" using that lf by (simp only: word_le_nat_alt)
    show "read32 m' (Base + ?lf) = read32 m (Base + ?lf)" using r32 [of ?lf] b by simp
    show "read16 m' (Base + ?lf + of_nat k) = read16 m (Base + ?lf + of_nat k)" if "k \<le> 262" for k
      using r16 [of "?lf + of_nat k"] unat_off [of ?lf k] b L that by (simp add: add.assoc)
    show "read32 m' (Base + ?lf + of_nat k) = read32 m (Base + ?lf + of_nat k)" if "k \<le> 260" for k
      using r32 [of "?lf + of_nat k"] unat_off [of ?lf k] b L that by (simp add: add.assoc)
  qed
  let ?rva = "read32 m (Base + ?lf + 136)" and ?size = "read32 m (Base + ?lf + 140)"
  have name: "read32 m' (Base + ucast ?rva + 12) = read32 m (Base + ucast ?rva + 12)"
    if "ucast (?rva + ?size) \<le> ?L"
  proof -
    have "unat (?rva + ?size) = unat ?rva + unat ?size"
      using inside by (intro unat_add_nowrap) (simp add: headers_inside_def Let_def)
    then have b: "unat ?rva + 16 \<le> unat ?L"
      using that inside by (simp add: word_le_nat_alt headers_inside_def Let_def)
    then show ?thesis using r32 [of "ucast ?rva + 12"] unat_off [of "ucast ?rva" 12] L
      by (simp add: add.assoc)
  qed
  let ?str = "Base + ucast (read32 m (Base + ucast ?rva + 12))"
  have str: "IsValidString m' ?str End = IsValidString m ?str End"
    "IsValidString m ?str End \<Longrightarrow> c_string m' ?str 32 = c_string m ?str 32"
    if "ucast (read32 m (Base + ucast ?rva + 12)) \<le> ?L"
  proof -
    have "unat Base + unat (ucast (read32 m (Base + ucast ?rva + 12)) :: u64) \<le> unat End"
      using that unat_diff_le [OF le] le by (simp add: word_le_nat_alt)
    then have "Base \<le> ?str" by (simp add: word_le_nat_alt unat_add_below [of Base _ End])
    from agree_valid_string [OF ag this, of 32]
    show "IsValidString m' ?str End = IsValidString m ?str End"
      "IsValidString m ?str End \<Longrightarrow> c_string m' ?str 32 = c_string m ?str 32"
      by (simp_all add: IsValidString_def)
  qed
  have tloop: "GetTextMemory strncmp m' Base (Base + ?lf) g = GetTextMemory strncmp m Base (Base + ?lf) g"
    if "?lf + 264 \<le> ?L"
  proof -
    let ?n = "unat (read16 m (Base + ?lf + 6))" and ?o = "ucast (read16 m (Base + ?lf + 20)) :: u64"
    have b: "unat ?lf + 24 + unat ?o + 40 * ?n \<le> unat ?L"
      using inside by (simp add: headers_inside_def Let_def)
    have "unat (?lf + 24) = unat ?lf + 24" using unat_off [of ?lf 24] b L by simp
    then have "unat (?lf + 24 + ?o) = unat ?lf + 24 + unat ?o"
      using b by (subst unat_add_below [of _ _ ?L]) simp_all
    then have "text_loop strncmp m' Base ?n (Base + (?lf + 24 + ?o)) g
        = text_loop strncmp m Base ?n (Base + (?lf + 24 + ?o)) g"
      using b by (intro agree_text_loop [OF ag le]) simp
    then show ?thesis
      using nt(2) [OF that, of 6] nt(2) [OF that, of 20] by (simp add: GetTextMemory_def add.assoc)
  qed
  note unfold = IsWinloadMemory_def Let_def
  show ?thesis
  proof (cases "64 > ?L \<or> ?lf + 264 > ?L")
    case True
    then show ?thesis using dos by (cases "64 > ?L") (simp_all add: unfold not_less)
  next
    case False
    then have L1: "64 \<le> ?L" "?lf + 264 \<le> ?L" by (simp_all add: not_less)
    note reads = dos [OF L1(1)] nt(1) [OF L1(2)] nt(2) [OF L1(2), of 24, simplified]
      nt(3) [OF L1(2), of 132, simplified] nt(3) [OF L1(2), of 136, simplified]
      nt(3) [OF L1(2), of 140, simplified] tloop [OF L1(2)]
    show ?thesis
    proof (cases "ucast (?rva + ?size) > ?L")
      case True
      then show ?thesis using reads by (simp add: unfold split del: if_split cong del: if_weak_cong)
    next
      case False
      then have nm: "read32 m' (Base + ucast ?rva + 12) = read32 m (Base + ucast ?rva + 12)"
        by (intro name) (simp add: not_less)
      show ?thesis
      proof (cases "ucast (read32 m (Base + ucast ?rva + 12)) > ?L")
        case True
        then show ?thesis using reads nm
          by (simp add: unfold split del: if_split cong del: if_weak_cong)
      next
        case False
        then have L4: "ucast (read32 m (Base + ucast ?rva + 12)) \<le> ?L" by (simp add: not_less)
        show ?thesis using reads nm str(1) [OF L4] str(2) [OF L4]
          by (cases "IsValidString m ?str End")
            (simp_all add: unfold split del: if_split cong del: if_weak_cong)
      qed
    qed
  qed
qed

lemma IsWinloadMemory_False: "IsWinloadMemory strncmp stricmp m Base End g = (False, g') \<Longrightarrow> g' = g"
proof -
  have "text_loop strncmp m b n h g = (s, g') \<Longrightarrow> s \<noteq> EFI_SUCCESS \<Longrightarrow> g' = g" for b n h s
    by (induction n arbitrary: h) (auto simp: Let_def split: if_splits)
  then show "IsWinloadMemory strncmp stricmp m Base End g = (False, g') \<Longrightarrow> g' = g"
    by (auto simp: IsWinloadMemory_def Let_def GetTextMemory_def split: if_splits prod.splits)
qed

subsection \<open>The UFP patch\<close>

definition ufp_site :: "mem \<Rightarrow> u64 \<Rightarrow> bool" where
  "ufp_site m c \<longleftrightarrow> read64 m c = 0xA9015BF5A9BE53F3 \<and> read64 m (c + 4 * 66) = 0xD65F03C0A8C253F3
     \<and> read32 m (c - 4) = 0"

lemma RemoveSecureBootCheck_first:
  assumes "unat End \<le> 2 ^ 64 - 4"
  shows "no_instr (ufp_site m) a End \<and> RemoveSecureBootCheck_loop End a m = Some m
    \<or> (\<exists>k. first_instr (ufp_site m) a End k
         \<and> RemoveSecureBootCheck_loop End a m
             = Some (write32 (write32 m (a + of_nat (4 * k)) 0x2A1F03E0) (a + of_nat (4 * k) + 4) 0xD65F03C0))"
  by (rule scan_first [where scan = "\<lambda>a. RemoveSecureBootCheck_loop End a m"
        and found = "\<lambda>c. write32 (write32 m c 0x2A1F03E0) (c + 4) 0xD65F03C0", OF _ _ _ assms];
      subst RemoveSecureBootCheck_loop.simps) (auto simp: ufp_site_def)

lemma ufp_words:
  "read32 (write32 (write32 m c v) (c + 4) w) c = v" "read32 (write32 (write32 m c v) (c + 4) w) (c + 4) = w"
  "x \<notin> word_at c \<union> word_at (c + 4) \<Longrightarrow> write32 (write32 m c v) (c + 4) w x = m x"
proof -
  have "word_at (c + 4) \<inter> word_at c = {}" by (auto simp: word_at_def)
  then show "read32 (write32 (write32 m c v) (c + 4) w) c = v" by (simp add: read32_write32_other)
qed (simp_all add: write32_outside)

section \<open>A crafted image\<close>

text \<open>Offsets from the image base and the bytes there; everything else is 0. The export directory
  entry is \<open>rva = 0xFFFFFFF0\<close>, \<open>size = 0x20\<close>.\<close>

definition crafted_bytes :: "(u64 \<times> u8) list" where
  "crafted_bytes = [(0, 0x4D), (1, 0x5A), (60, 64), (64, 0x50), (65, 0x45), (70, 1), (84, 0xF0),
     (88, 0x0B), (89, 0x02), (196, 1), (200, 0xF0), (201, 0xFF), (202, 0xFF), (203, 0xFF), (204, 0x20),
     (328, 0x2E), (329, 0x74), (330, 0x65), (331, 0x78), (332, 0x74), (341, 0x10), (345, 0x02),
     (0x200, 0x77), (0x201, 0x69), (0x202, 0x6E), (0x203, 0x6C), (0x204, 0x6F), (0x205, 0x61),
     (0x206, 0x64), (0x207, 0x2E), (0x208, 0x73), (0x209, 0x79), (0x20A, 0x73)]"

definition crafted :: "u8 \<Rightarrow> mem" where
  "crafted b a = (if a = 0x10000FFFD then b
     else case map_of crafted_bytes (a - 0x10000) of None \<Rightarrow> 0 | Some v \<Rightarrow> v)"

definition plain_strncmp :: "string \<Rightarrow> string \<Rightarrow> nat \<Rightarrow> int" where
  "plain_strncmp s t n = (if take n s = take n t then 0 else 1)"

definition plain_stricmp :: "string \<Rightarrow> string \<Rightarrow> int" where
  "plain_stricmp s t = (if s = t then 0 else 1)"

definition no_winload :: winload where
  "no_winload = \<lparr> mWinloadBase = 0, mWinloadEnd = 0 \<rparr>"

lemma valid_string_step:
  "0 < n \<Longrightarrow> valid_string_loop m p End n = (if p \<ge> End then False else if m p = 0 then True
     else if m p < 0x20 \<or> m p > 0x7E then False else valid_string_loop m (p + 1) End (n - 1))"
  by (cases n) simp_all

lemma c_string_step:
  "0 < n \<Longrightarrow> c_string m a n = (if m a = 0 then [] else char_of_byte (m a) # c_string m (a + 1) (n - 1))"
  by (cases n) simp_all

lemma text_step:
  "0 < n \<Longrightarrow> text_loop strncmp m Base n h g =
     (if strncmp (c_string m h 8) ''.text'' 8 \<noteq> 0 then text_loop strncmp m Base (n - 1) (h + 40) g
      else let b = Base + ucast (read32 m (h + 12))
        in (EFI_SUCCESS, g\<lparr> mWinloadBase := b, mWinloadEnd := b + ucast (read32 m (h + 16)) \<rparr>))"
  by (cases n) simp_all

lemmas crafted_simps = crafted_def crafted_bytes_def

lemma crafted_name:
  "IsValidString (crafted b) 0x10200 0x11000" "c_string (crafted b) 0x10200 32 = ''winload.sys''"
  by (simp add: IsValidString_def valid_string_step crafted_simps)
    (simp add: c_string_step char_of_byte_def crafted_simps char_of_def bit_0)

lemma crafted_text:
  "GetTextMemory plain_strncmp (crafted b) 0x10000 0x10040 no_winload
     = (EFI_SUCCESS, \<lparr> mWinloadBase = 0x11000, mWinloadEnd = 0x11200 \<rparr>)"
proof -
  have name: "c_string (crafted b) 0x10148 8 = ''.text''"
    by (simp add: c_string_step char_of_byte_def crafted_simps char_of_def bit_0)
  have "read16 (crafted b) 0x10046 = 1" "read16 (crafted b) 0x10054 = 240"
    "read32 (crafted b) 0x10154 = 0x1000" "read32 (crafted b) 0x10158 = 0x200"
    by (simp_all add: read16_def read32_def crafted_simps)
  with name show ?thesis
    by (simp add: GetTextMemory_def text_step plain_strncmp_def no_winload_def)
qed

lemma crafted_headers:
  "read16 (crafted b) 0x10000 = 0x5A4D" "read32 (crafted b) 0x1003C = 64"
  "read32 (crafted b) 0x10040 = 0x4550" "read16 (crafted b) 0x10058 = 0x20B"
  "read32 (crafted b) 0x100C4 = 1" "read32 (crafted b) 0x100C8 = 0xFFFFFFF0"
  "read32 (crafted b) 0x100CC = 0x20" "read32 (crafted b) 0x10000FFFC = push_bit 8 (ucast b)"
  by (simp_all add: read16_def read32_def crafted_simps)

lemma crafted_accepted:
  "IsWinloadMemory plain_strncmp plain_stricmp (crafted 2) 0x10000 0x11000 no_winload
     = (True, \<lparr> mWinloadBase = 0x11000, mWinloadEnd = 0x11200 \<rparr>)"
  by (simp add: IsWinloadMemory_def Let_def crafted_headers crafted_name crafted_text plain_stricmp_def)

lemma crafted_rejected:
  "IsWinloadMemory plain_strncmp plain_stricmp (crafted 0) 0x10000 0x11000 no_winload = (False, no_winload)"
  by (simp add: IsWinloadMemory_def Let_def crafted_headers)

section \<open>Properties\<close>

text \<open>C20. The branch macro is right although its mask is one bit too wide: for a target at a
  multiple of four within 128 MB it yields a branch-and-link that the processor resolves to
  that target.\<close>

theorem branch_roundtrip:
  assumes "4 dvd unat (tgt - cur)" "- (2 ^ 27) \<le> sint (tgt - cur)" "sint (tgt - cur) < 2 ^ 27"
  shows "is_bl (ARM64_BRANCH_LOCATION_INSTRUCTION cur tgt)
    \<and> bl_target cur (ARM64_BRANCH_LOCATION_INSTRUCTION cur tgt) = tgt"
  using assms by (simp add: is_bl_branch bl_target_branch)

lemma branch_roundtrip_witness:
  "bl_target 0x80000100 (ARM64_BRANCH_LOCATION_INSTRUCTION 0x80000100 0x80000080) = 0x80000080"
  using branch_roundtrip [of "0x80000080" "0x80000100"] by simp

text \<open>C16. On a text section of whole instructions both platform patches return and replace exactly
  the reads of their system register: each becomes the constant move into the same
  register, no read is left, and nothing else in memory changes.\<close>

theorem mrs_patches_exact:
  assumes "unat End = unat Base + 4 * n"
    and "(patch, pat, repl) \<in> {(ApplyReadActlrEl1Patch, 0xD5381020, 0xD2800000),
           (ApplyReadCntfrqEl0Patch, 0xD53BE000, 0xD2A03180)}"
  shows "\<exists>m'. patch Base End m = Some m'
    \<and> (\<forall>k < n. let i = read32 m (Base + of_nat (4 * k)); i' = read32 m' (Base + of_nat (4 * k)) in
         i' AND NOT 0x1F \<noteq> pat \<and> (if i AND NOT 0x1F = pat then i' = repl OR (i AND 0x1F) else i' = i))
    \<and> (\<forall>x. unat x < unat Base \<or> unat End \<le> unat x \<longrightarrow> m' x = m x)"
proof -
  have clear: "(repl OR (i AND 0x1F)) AND NOT 0x1F \<noteq> pat" for i
  proof -
    have "(repl OR (i AND 0x1F)) AND NOT 0x1F = repl AND NOT 0x1F"
      by (simp add: bit.conj_disj_distrib2 and.assoc)
    then show ?thesis using assms(2) by auto
  qed
  have "patch Base End m = mrs_loop pat repl End Base m"
    using assms(2) by (auto simp: ApplyReadActlrEl1Patch_def ApplyReadCntfrqEl0Patch_def)
  then show ?thesis
    using mrs_loop_spec [OF assms(1), of pat repl m] clear
    by (auto simp: mrs_replace_def Let_def)
qed

lemma mrs_patches_exact_witness:
  "\<exists>m'. ApplyReadCntfrqEl0Patch 0x1000 0x1008 (\<lambda>_. 0) = Some m' \<and> m' 0x1008 = 0"
  using mrs_patches_exact [of "0x1008" "0x1000" 2 ApplyReadCntfrqEl0Patch "0xD53BE000" "0xD2A03180" "\<lambda>_. 0"]
  by auto

text \<open>C4. Redirecting the transfer to the kernel. Without a loader (base or end still 0) memory
  stays as it is. Otherwise the search returns, and it goes through the releases of Windows in
  the order of the table. When the text section holds, for one of them, a branch to the
  transfer function that the release's target instruction follows, the first such branch of the
  first such release is patched: it branches to the shell code afterwards, the shell code has
  been copied directly in front of the function, and nothing else changed. Only when no
  release has such a branch, memory stays as it is.\<close>

theorem transfer_patch_redirects:
  assumes "mWinloadBase g \<le> mWinloadEnd g"
    and "length sc \<le> unat (mWinloadBase g)" "4 dvd length sc"
    and "unat (mWinloadEnd g) + length sc < unat (mWinloadBase g) + 2 ^ 27"
    and "unat (mWinloadEnd g) < 2 ^ 64 - 0x1000"
  shows "if mWinloadBase g = 0 \<or> mWinloadEnd g = 0 then PatchWinloadTransferToKernel g sc m = Some m
    else if \<forall>s \<in> set CodebaseSemester. no_branch g m s then PatchWinloadTransferToKernel g sc m = Some m
    else \<exists>m' i c. PatchWinloadTransferToKernel g sc m = Some m' \<and> i < length CodebaseSemester
      \<and> (\<forall>h < i. no_branch g m (CodebaseSemester ! h)) \<and> first_branch g m (CodebaseSemester ! i) c
      \<and> (let T = transfer_at g (CodebaseSemester ! i) in
           bl_target c (read32 m c) = T
         \<and> is_bl (read32 m' c) \<and> bl_target c (read32 m' c) = T - of_nat (length sc)
         \<and> (\<forall>i < length sc. m' (T - of_nat (length sc) + of_nat i) = sc ! i)
         \<and> (\<forall>x. x \<notin> word_at c \<and> (\<forall>i < length sc. x \<noteq> T - of_nat (length sc) + of_nat i)
              \<longrightarrow> m' x = m x))"
    (is "if _ then _ else if _ then _ else ?patched")
proof (cases "(mWinloadBase g = 0 \<or> mWinloadEnd g = 0) \<or> (\<forall>s \<in> set CodebaseSemester. no_branch g m s)")
  case True
  have top: "unat (mWinloadEnd g) \<le> 2 ^ 64 - 4" using assms(5) by simp
  have "semester_loop g sc CodebaseSemester m = Some m" if "\<forall>s \<in> set CodebaseSemester. no_branch g m s"
    using semester_loop_effect [OF top, of CodebaseSemester m sc] that first_and_no
    by (metis nth_mem)
  with True show ?thesis by (auto simp: PatchWinloadTransferToKernel_def)
next
  case False
  have top: "unat (mWinloadEnd g) \<le> 2 ^ 64 - 4" using assms(5) by simp
  from False semester_loop_effect [OF top, of CodebaseSemester m sc] obtain i c where
    i: "i < length CodebaseSemester" "\<forall>h < i. no_branch g m (CodebaseSemester ! h)"
      "first_branch g m (CodebaseSemester ! i) c"
    and run: "PatchWinloadTransferToKernel g sc m = Some (redirected g sc m (CodebaseSemester ! i) c)"
    by (auto simp: PatchWinloadTransferToKernel_def)
  note eff = patch_result [OF i(3) nth_mem [OF i(1)] assms(2-5) assms(1) refl refl]
  have ?patched unfolding Let_def using i run eff by blast
  with False show ?thesis by (simp only: de_Morgan_disj if_not_P if_False not_False_eq_True simp_thms)
qed

text \<open>A text section of four instructions whose second is a branch to the first, followed by the
  target instruction of the first release.\<close>

definition branch_memory :: mem where
  "branch_memory = write32 (write32 (\<lambda>_. 0) 0x10004 0x97FFFFFF) 0x10008 0xD2800002"

lemma transfer_patch_redirects_witness:
  "\<exists>m'. PatchWinloadTransferToKernel \<lparr> mWinloadBase = 0x10000, mWinloadEnd = 0x10010 \<rparr>
      [0x1F, 0x20, 0x03, 0xD5] branch_memory = Some m'
    \<and> bl_target 0x10004 (read32 branch_memory 0x10004) = 0x10000
    \<and> bl_target 0x10004 (read32 m' 0x10004) = 0xFFFC \<and> m' 0xFFFC = 0x1F"
proof -
  let ?g = "\<lparr> mWinloadBase = 0x10000, mWinloadEnd = 0x10010 \<rparr>"
  have len: "4 dvd length [0x1F, 0x20, 0x03, 0xD5 :: u8]" by (simp add: numeral_eq_Suc)
  have here: "branch_here branch_memory 0x10000 0xD2800002 0x10004"
    "\<not> branch_here branch_memory 0x10000 0xD2800002 0x10000"
    by (simp_all add: branch_here_def branch_memory_def read32_def write32_def ARM64_BRANCH_LOCATION_INSTRUCTION_def)
  have T: "transfer_at ?g (CodebaseSemester ! 0) = 0x10000" "TargetInstruction (CodebaseSemester ! 0) = 0xD2800002"
    by (simp_all add: transfer_at_def CodebaseSemester_def)
  have some: "\<not> no_branch ?g branch_memory (CodebaseSemester ! 0)"
    unfolding no_branch_def T using here(1) by (auto simp: no_instr_def intro!: exI [of _ 1])
  have only: "c = 0x10004" if c: "first_branch ?g branch_memory (CodebaseSemester ! 0) c" for c
  proof -
    obtain k where k: "c = 0x10000 + of_nat (4 * k)"
      "first_instr (branch_here branch_memory 0x10000 0xD2800002) 0x10000 0x10010 k"
      using c unfolding first_branch_def T by auto
    have "k \<noteq> 0" by (rule notI) (use k(2) here(2) in \<open>simp add: first_instr_def\<close>)
    moreover have "\<not> 1 < k" using k(2) here(1) by (auto simp: first_instr_def)
    ultimately have "k = 1" by simp
    with k(1) show ?thesis by simp
  qed
  have ne: "\<not> (\<forall>s \<in> set CodebaseSemester. no_branch ?g branch_memory s)"
    using some by (metis nth_mem length_greater_0_conv CodebaseSemester_def list.distinct(1))
  have first: "i = 0" if "\<forall>h < i. no_branch ?g branch_memory (CodebaseSemester ! h)" for i
    using that some by (cases i) auto
  from transfer_patch_redirects [OF _ _ len, of ?g branch_memory] ne obtain m' i c where
    run: "PatchWinloadTransferToKernel ?g [0x1F, 0x20, 0x03, 0xD5] branch_memory = Some m'"
    and i: "\<forall>h < i. no_branch ?g branch_memory (CodebaseSemester ! h)"
      "first_branch ?g branch_memory (CodebaseSemester ! i) c"
    and eff: "let T = transfer_at ?g (CodebaseSemester ! i) in
           bl_target c (read32 branch_memory c) = T
         \<and> is_bl (read32 m' c) \<and> bl_target c (read32 m' c) = T - of_nat (length [0x1F, 0x20, 0x03, 0xD5 :: u8])
         \<and> (\<forall>i < length [0x1F, 0x20, 0x03, 0xD5 :: u8].
              m' (T - of_nat (length [0x1F, 0x20, 0x03, 0xD5 :: u8]) + of_nat i) = [0x1F, 0x20, 0x03, 0xD5] ! i)"
    by (auto simp del: length_Cons simp: Let_def)
  have z: "i = 0" by (rule first [OF i(1)])
  have "c = 0x10004" by (rule only) (use i(2) z in simp)
  with run eff show ?thesis unfolding z Let_def T by (auto dest: spec [of _ 0])
qed

text \<open>C18. The recogniser of the loader depends only on the bytes of the candidate memory: for an
  image whose export entry does not overflow 32 bits and holds the name field and whose
  section table fits, memory outside makes no difference to verdict and result.\<close>

theorem winload_reads_inside:
  assumes "agree Base End m m'" "Base \<le> End" "headers_inside m Base End"
  shows "IsWinloadMemory strncmp stricmp m' Base End g = IsWinloadMemory strncmp stricmp m Base End g"
  using assms by (rule IsWinloadMemory_agree)

lemma winload_reads_inside_witness:
  "IsWinloadMemory plain_strncmp plain_stricmp (((\<lambda>_. 0)(0x1008C := 16))(0x11000 := 1)) 0x10000 0x11000 no_winload
   = IsWinloadMemory plain_strncmp plain_stricmp ((\<lambda>_. 0)(0x1008C := 16)) 0x10000 0x11000 no_winload"
  by (rule winload_reads_inside)
    (auto simp: agree_def headers_inside_def Let_def read16_def read32_def)

text \<open>The size check of the export directory is computed in 32 bits and can wrap: there is an
  image for which the verdict hangs on a byte 4 GB behind the candidate memory.\<close>

theorem winload_export_check_wraps:
  "\<exists>m m' Base End. agree Base End m m'
    \<and> fst (IsWinloadMemory plain_strncmp plain_stricmp m Base End no_winload)
    \<and> \<not> fst (IsWinloadMemory plain_strncmp plain_stricmp m' Base End no_winload)"
proof (intro exI conjI)
  show "agree 0x10000 0x11000 (crafted 2) (crafted 0)"
    by (auto simp: agree_def crafted_def)
  show "fst (IsWinloadMemory plain_strncmp plain_stricmp (crafted 2) 0x10000 0x11000 no_winload)"
    by (simp add: crafted_accepted)
  show "\<not> fst (IsWinloadMemory plain_strncmp plain_stricmp (crafted 0) 0x10000 0x11000 no_winload)"
    by (simp add: crafted_rejected)
qed

text \<open>C36. The UFP patch returns. When an instruction of the loader starts the function that it
  looks for (prologue, epilogue and preceding padding as in the source), the first two
  instructions of the first such function become "return 0" and nothing else changes; only
  when the loader has no such function, memory stays as it is.\<close>

theorem ufp_patch_effect:
  assumes "unat (Base + len) \<le> 2 ^ 64 - 4"
  shows "if no_instr (ufp_site m) Base (Base + len) then ApplyUfpPatches Base len m = Some m
    else \<exists>m' k. ApplyUfpPatches Base len m = Some m' \<and> first_instr (ufp_site m) Base (Base + len) k
      \<and> (let c = Base + of_nat (4 * k) in read32 m' c = 0x2A1F03E0 \<and> read32 m' (c + 4) = 0xD65F03C0
          \<and> (\<forall>x. x \<notin> word_at c \<union> word_at (c + 4) \<longrightarrow> m' x = m x))"
proof -
  have run: "ApplyUfpPatches Base len m = RemoveSecureBootCheck_loop (Base + len) Base m"
    by (simp add: ApplyUfpPatches_def RemoveSecureBootCheck_def)
  have excl: "\<not> no_instr (ufp_site m) Base (Base + len)" if "first_instr (ufp_site m) Base (Base + len) k" for k
    using that by (auto simp: first_instr_def no_instr_def)
  from RemoveSecureBootCheck_first [OF assms, of m Base] show ?thesis
  proof (elim disjE exE conjE)
    fix k assume k: "first_instr (ufp_site m) Base (Base + len) k"
      and res: "RemoveSecureBootCheck_loop (Base + len) Base m = Some (write32 (write32 m
         (Base + of_nat (4 * k)) 0x2A1F03E0) (Base + of_nat (4 * k) + 4) 0xD65F03C0)"
    have "\<exists>m' k. ApplyUfpPatches Base len m = Some m' \<and> first_instr (ufp_site m) Base (Base + len) k
      \<and> (let c = Base + of_nat (4 * k) in read32 m' c = 0x2A1F03E0 \<and> read32 m' (c + 4) = 0xD65F03C0
          \<and> (\<forall>x. x \<notin> word_at c \<union> word_at (c + 4) \<longrightarrow> m' x = m x))"
      unfolding run by (intro exI conjI, rule res, rule k) (simp add: Let_def ufp_words del: of_nat_mult)
    then show ?thesis using excl [OF k] by (simp only: if_False)
  qed (simp add: run)
qed

text \<open>A loader of 512 bytes with the function that the patch looks for at its third instruction.\<close>

definition ufp_memory :: mem where
  "ufp_memory = write32 (write32 (write32 (write32 (\<lambda>_. 0) 0x10008 0xA9BE53F3) 0x1000C 0xA9015BF5)
     0x10110 0xA8C253F3) 0x10114 0xD65F03C0"

lemma ufp_patch_effect_witness:
  "\<exists>m'. ApplyUfpPatches 0x10000 0x200 ufp_memory = Some m'
    \<and> read32 m' 0x10008 = 0x2A1F03E0 \<and> read32 m' 0x1000C = 0xD65F03C0"
proof -
  have here: "ufp_site ufp_memory 0x10008" "\<not> ufp_site ufp_memory 0x10000" "\<not> ufp_site ufp_memory 0x10004"
    by (simp_all add: ufp_site_def ufp_memory_def read64_def read32_def write32_def)
  have some: "\<not> no_instr (ufp_site ufp_memory) 0x10000 (0x10000 + 0x200)"
    using here(1) by (auto simp: no_instr_def intro!: exI [of _ 2])
  have only: "k = 2" if k: "first_instr (ufp_site ufp_memory) 0x10000 (0x10000 + 0x200) k" for k
  proof -
    have "k \<noteq> 0" by (rule notI) (use k here(2) in \<open>simp add: first_instr_def\<close>)
    moreover have "k \<noteq> 1" by (rule notI) (use k here(3) in \<open>simp add: first_instr_def\<close>)
    moreover have "\<not> 2 < k" using k here(1) by (auto simp: first_instr_def)
    ultimately show ?thesis by simp
  qed
  from ufp_patch_effect [of "0x10000" "0x200" ufp_memory] some obtain m' k where
    run: "ApplyUfpPatches 0x10000 0x200 ufp_memory = Some m'"
    and k: "first_instr (ufp_site ufp_memory) 0x10000 (0x10000 + 0x200) k"
    and eff: "let c = 0x10000 + of_nat (4 * k) in read32 m' c = 0x2A1F03E0 \<and> read32 m' (c + 4) = 0xD65F03C0"
    by (auto simp: Let_def)
  from run eff only [OF k] show ?thesis by simp
qed

end
