(* ===== verification/Kep.thy ===== *)
theory Kep
  imports ErrataPatcher
begin

text \<open>
  \<open>SiliciumPkg/Library/KernelErrataPatcherLib\<close>: \<open>KernelErrataPatcherLib.c\<close> and
  \<open>MemoryAttribute.c\<close>. The library hooks two entries of the boot services table when the
  system is ready to boot, watches page allocations until it recognises the Windows loader,
  patches its text, and patches the transfer to the kernel when boot services end.

  \<open>kep_state\<close> holds the table entries and its checksum, the library's globals (the static
  arrays of \<open>KepParseAllocatedMemory\<close> included) and the memory. A table entry or saved
  pointer is one of the functions it can hold (\<open>fn\<close>). Parameters (\<open>kep_services\<close>): the
  firmware's functions, \<open>CalculateCrc32\<close> as a function of the table with its checksum
  cleared, the memory attribute protocol, and the platform's patches and shell code. A call
  through a pointer that is NULL or leads back into the hook is the value \<open>None\<close>, as is a
  platform patch that does not return.

  \<open>kep_step\<close> is the system: the event, allocations and the end of boot services in any order,
  with other code changing memory in between. The locale \<open>platform_patches\<close> is the contract
  of \<open>ApplyPlatformErrataPatches\<close>; the two platform libraries and the null library meet it.
\<close>

section \<open>State and services\<close>

datatype fn = NULL_FN | FW_ALLOCATE_PAGES | FW_EXIT_BOOT_SERVICES | KEP_ALLOCATE_PAGES_HOOK
  | KEP_EXIT_BOOT_SERVICES_HOOK

record boot_services =
  bs_AllocatePages :: fn
  bs_ExitBootServices :: fn
  bs_CRC32 :: u32

abbreviation MAX_LOADER_RANGES :: nat where "MAX_LOADER_RANGES \<equiv> 64"

record kep_state =
  gBS :: boot_services
  mOrigAllocatePages :: fn
  mOrigExitBootServices :: fn
  LoaderBase :: "u64 list"
  LoaderEnd :: "u64 list"
  LoaderCount :: nat
  winload_range :: winload
  memory :: mem
  mMemoryAttributeProtocol :: bool
  event_open :: bool

datatype efi_allocate_type = AllocateAnyPages | AllocateMaxAddress | AllocateAddress

record 'w kep_services =
  fw_AllocatePages ::
    "efi_allocate_type \<Rightarrow> efi_memory_type \<Rightarrow> u64 \<Rightarrow> u64 \<Rightarrow> ('w, efi_status \<times> u64) state"
  fw_ExitBootServices :: "u64 \<Rightarrow> u64 \<Rightarrow> ('w, efi_status) state"
  CreateReadyToBootEvent :: "('w, efi_status) state"
  CalculateCrc32 :: "boot_services \<Rightarrow> u32"
  LocateMemoryAttribute :: "('w, bool) state"
  SetMemoryAttributes :: "u64 \<Rightarrow> u64 \<Rightarrow> u64 \<Rightarrow> ('w, efi_status) state"
  ClearMemoryAttributes :: "u64 \<Rightarrow> u64 \<Rightarrow> u64 \<Rightarrow> ('w, efi_status) state"
  ApplyPlatformErrataPatches :: "u64 \<Rightarrow> u64 \<Rightarrow> mem \<Rightarrow> mem option"
  GetPlatformShellCode :: "u8 list option"
  AsciiStrnCmp :: "string \<Rightarrow> string \<Rightarrow> nat \<Rightarrow> int"
  AsciiStriCmp :: "string \<Rightarrow> string \<Rightarrow> int"

abbreviation EFI_MEMORY_RO :: u64 where "EFI_MEMORY_RO \<equiv> 0x20000"

section \<open>Operations\<close>

definition update_crc :: "'w kep_services \<Rightarrow> boot_services \<Rightarrow> boot_services" where
  "update_crc sv bs = bs\<lparr> bs_CRC32 := CalculateCrc32 sv (bs\<lparr> bs_CRC32 := 0 \<rparr>) \<rparr>"

definition SetWinloadProtection ::
    "'w kep_services \<Rightarrow> kep_state \<Rightarrow> bool \<Rightarrow> ('w, efi_status) state" where
  "SetWinloadProtection sv s Enable =
     (let b = mWinloadBase (winload_range s); e = mWinloadEnd (winload_range s) in
      if \<not> mMemoryAttributeProtocol s then State_Monad.return EFI_SUCCESS
      else if b = 0 \<or> e = 0 then State_Monad.return EFI_INVALID_PARAMETER
      else
        let WinloadLength = ALIGN_VALUE (e - b) 0x1000 in
        if Enable then SetMemoryAttributes sv b WinloadLength EFI_MEMORY_RO
        else ClearMemoryAttributes sv b WinloadLength EFI_MEMORY_RO)"

definition LocateMemoryAttributeProtocol ::
    "'w kep_services \<Rightarrow> kep_state \<Rightarrow> ('w, efi_status \<times> kep_state) state" where
  "LocateMemoryAttributeProtocol sv s = do {
     found \<leftarrow> LocateMemoryAttribute sv;
     State_Monad.return (EFI_SUCCESS, s\<lparr> mMemoryAttributeProtocol := found \<rparr>) }"

text \<open>The loop of \<open>KepParseAllocatedMemory\<close> over the saved ranges.\<close>

fun parse_ranges ::
    "'w kep_services \<Rightarrow> mem \<Rightarrow> (u64 \<times> u64) list \<Rightarrow> winload \<Rightarrow> bool \<times> winload" where
  "parse_ranges sv m [] g = (False, g)"
| "parse_ranges sv m ((b, e) # rs) g =
     (case IsWinloadMemory (AsciiStrnCmp sv) (AsciiStriCmp sv) m b e g of
        (True, g') \<Rightarrow> (True, g')
      | (False, g') \<Rightarrow> parse_ranges sv m rs g')"

definition KepParseAllocatedMemory ::
    "'w kep_services \<Rightarrow> u64 \<Rightarrow> u64 \<Rightarrow> efi_memory_type \<Rightarrow> kep_state \<Rightarrow> bool \<times> kep_state" where
  "KepParseAllocatedMemory sv Base Pages MemoryType s =
     (let s = (if MemoryType = EfiLoaderCode \<and> LoaderCount s < MAX_LOADER_RANGES
               then s\<lparr> LoaderBase := (LoaderBase s)[LoaderCount s := Base],
                       LoaderEnd := (LoaderEnd s)[LoaderCount s := Base + EFI_PAGES_TO_SIZE Pages],
                       LoaderCount := LoaderCount s + 1 \<rparr>
               else s);
          (found, g) = parse_ranges sv (memory s)
            (take (LoaderCount s) (zip (LoaderBase s) (LoaderEnd s))) (winload_range s)
      in (found, s\<lparr> winload_range := g \<rparr>))"

definition KepAllocatePagesHook ::
    "'w kep_services \<Rightarrow> efi_allocate_type \<Rightarrow> efi_memory_type \<Rightarrow> u64 \<Rightarrow> u64 \<Rightarrow> kep_state \<Rightarrow> 'w
      \<Rightarrow> ((efi_status \<times> u64) \<times> kep_state \<times> 'w) option" where
  "KepAllocatePagesHook sv Type MemoryType Pages Memory s w =
     (if mOrigAllocatePages s \<noteq> FW_ALLOCATE_PAGES then None
      else case run_state (fw_AllocatePages sv Type MemoryType Pages Memory) w of
        ((Status, Memory), w) \<Rightarrow>
          if EFI_ERROR Status then Some ((Status, Memory), s, w)
          else case KepParseAllocatedMemory sv Memory Pages MemoryType s of
            (False, s) \<Rightarrow> Some ((EFI_SUCCESS, Memory), s, w)
          | (True, s) \<Rightarrow>
              let s = s\<lparr> gBS := update_crc sv ((gBS s)\<lparr> bs_AllocatePages := mOrigAllocatePages s \<rparr>) \<rparr>
              in case run_state (SetWinloadProtection sv s False) w of
                (Status, w) \<Rightarrow>
                  if EFI_ERROR Status then Some ((EFI_SUCCESS, Memory), s, w)
                  else case ApplyPlatformErrataPatches sv (mWinloadBase (winload_range s))
                         (mWinloadEnd (winload_range s)) (memory s) of
                    None \<Rightarrow> None
                  | Some m \<Rightarrow>
                      let s = s\<lparr> memory := m \<rparr>;
                          (_, w) = run_state (SetWinloadProtection sv s True) w
                      in Some ((EFI_SUCCESS, Memory), s, w))"

text \<open>The end of the exit hook calls through the restored table entry.\<close>

definition call_ExitBootServices ::
    "'w kep_services \<Rightarrow> u64 \<Rightarrow> u64 \<Rightarrow> kep_state \<Rightarrow> 'w \<Rightarrow> (efi_status \<times> kep_state \<times> 'w) option" where
  "call_ExitBootServices sv ImageHandle MapKey s w =
     (if bs_ExitBootServices (gBS s) \<noteq> FW_EXIT_BOOT_SERVICES then None
      else case run_state (fw_ExitBootServices sv ImageHandle MapKey) w of
        (Status, w) \<Rightarrow> Some (Status, s, w))"

definition KepExitBootServicesHook ::
    "'w kep_services \<Rightarrow> u64 \<Rightarrow> u64 \<Rightarrow> kep_state \<Rightarrow> 'w \<Rightarrow> (efi_status \<times> kep_state \<times> 'w) option" where
  "KepExitBootServicesHook sv ImageHandle MapKey s w =
     (let s = s\<lparr> gBS := update_crc sv ((gBS s)\<lparr> bs_ExitBootServices := mOrigExitBootServices s \<rparr>) \<rparr>;
          g = winload_range s
      in if mWinloadBase g = 0 \<or> mWinloadEnd g = 0 then call_ExitBootServices sv ImageHandle MapKey s w
         else case GetPlatformShellCode sv of
           None \<Rightarrow> call_ExitBootServices sv ImageHandle MapKey s w
         | Some ShellCode \<Rightarrow>
             if length ShellCode = 0 then call_ExitBootServices sv ImageHandle MapKey s w
             else case run_state (SetWinloadProtection sv s False) w of
               (Status, w) \<Rightarrow>
                 if EFI_ERROR Status then call_ExitBootServices sv ImageHandle MapKey s w
                 else case PatchWinloadTransferToKernel g ShellCode (memory s) of
                   None \<Rightarrow> None
                 | Some m \<Rightarrow>
                     let s = s\<lparr> memory := m \<rparr>;
                         (_, w) = run_state (SetWinloadProtection sv s True) w
                     in call_ExitBootServices sv ImageHandle MapKey s w)"

definition ReadyToBootHandler :: "'w kep_services \<Rightarrow> kep_state \<Rightarrow> kep_state" where
  "ReadyToBootHandler sv s =
     (let s = s\<lparr> mOrigExitBootServices := bs_ExitBootServices (gBS s),
                 mOrigAllocatePages := bs_AllocatePages (gBS s) \<rparr>;
          bs = (gBS s)\<lparr> bs_AllocatePages := KEP_ALLOCATE_PAGES_HOOK,
                       bs_ExitBootServices := KEP_EXIT_BOOT_SERVICES_HOOK \<rparr>
      in s\<lparr> gBS := update_crc sv bs, event_open := False \<rparr>)"

definition KernelErrataPatcherLibConstructor ::
    "'w kep_services \<Rightarrow> kep_state \<Rightarrow> ('w, efi_status \<times> kep_state) state" where
  "KernelErrataPatcherLibConstructor sv s = do {
     Status \<leftarrow> CreateReadyToBootEvent sv;
     if EFI_ERROR Status then State_Monad.return (EFI_SUCCESS, s)
     else LocateMemoryAttributeProtocol sv (s\<lparr> event_open := True \<rparr>) }"

section \<open>The platform libraries\<close>

text \<open>The contract: on a text section of whole instructions the patches return and touch nothing
  outside the section.\<close>

locale platform_patches =
  fixes apply_patches :: "u64 \<Rightarrow> u64 \<Rightarrow> mem \<Rightarrow> mem option"
  assumes patches_contract: "unat End = unat Base + 4 * n \<Longrightarrow>
    \<exists>m'. apply_patches Base End m = Some m' \<and> (\<forall>x. unat x < unat Base \<or> unat End \<le> unat x \<longrightarrow> m' x = m x)"
begin

lemma patches_return:
  "unat End = unat Base + 4 * n \<Longrightarrow> apply_patches Base End m \<noteq> None"
  using patches_contract by fastforce

lemma patches_inside:
  assumes "unat End = unat Base + 4 * n" "apply_patches Base End m = Some m'"
    and "unat x < unat Base \<or> unat End \<le> unat x"
  shows "m' x = m x"
  using patches_contract [OF assms(1), of m] assms(2,3) by auto

end

definition null_ApplyPlatformErrataPatches :: "u64 \<Rightarrow> u64 \<Rightarrow> mem \<Rightarrow> mem option" where
  "null_ApplyPlatformErrataPatches Base End m = Some m"

definition qcom_ApplyPlatformErrataPatches :: "bool \<Rightarrow> u64 \<Rightarrow> u64 \<Rightarrow> mem \<Rightarrow> mem option" where
  "qcom_ApplyPlatformErrataPatches HAS_ACTLR_EL1_UNIMPLEMENTED_ERRATA Base End m =
     (if HAS_ACTLR_EL1_UNIMPLEMENTED_ERRATA then ApplyReadActlrEl1Patch Base End m else Some m)"

definition samsung_ApplyPlatformErrataPatches :: "bool \<Rightarrow> u64 \<Rightarrow> u64 \<Rightarrow> mem \<Rightarrow> mem option" where
  "samsung_ApplyPlatformErrataPatches HAS_CNTFRQ_EL0_EMPTY_ERRATA Base End m =
     (if HAS_CNTFRQ_EL0_EMPTY_ERRATA then ApplyReadCntfrqEl0Patch Base End m else Some m)"

lemma mrs_loop_contract:
  assumes "unat End = unat Base + 4 * n"
  shows "\<exists>m'. (if b then mrs_loop pat repl End Base m else Some m) = Some m'
    \<and> (\<forall>x. unat x < unat Base \<or> unat End \<le> unat x \<longrightarrow> m' x = m x)"
proof (cases b)
  case True
  then show ?thesis using mrs_loop_spec [OF assms, of pat repl m] by (simp only: if_True) blast
qed simp

interpretation null_patches: platform_patches null_ApplyPlatformErrataPatches
  by unfold_locales (simp add: null_ApplyPlatformErrataPatches_def)

interpretation qcom_patches: platform_patches "qcom_ApplyPlatformErrataPatches b" for b
  unfolding qcom_ApplyPlatformErrataPatches_def ApplyReadActlrEl1Patch_def
  by unfold_locales (rule mrs_loop_contract)

interpretation samsung_patches: platform_patches "samsung_ApplyPlatformErrataPatches b" for b
  unfolding samsung_ApplyPlatformErrataPatches_def ApplyReadCntfrqEl0Patch_def
  by unfold_locales (rule mrs_loop_contract)

definition platform_libraries :: "(u64 \<Rightarrow> u64 \<Rightarrow> mem \<Rightarrow> mem option) set" where
  "platform_libraries = {null_ApplyPlatformErrataPatches} \<union> range qcom_ApplyPlatformErrataPatches
     \<union> range samsung_ApplyPlatformErrataPatches"

lemma platform_libraries_contract:
  assumes "apply_patches \<in> platform_libraries" "unat End = unat Base + 4 * n"
  shows "\<exists>m'. apply_patches Base End m = Some m'
    \<and> (\<forall>x. unat x < unat Base \<or> unat End \<le> unat x \<longrightarrow> m' x = m x)"
  using assms(1) null_patches.patches_contract [OF assms(2)] qcom_patches.patches_contract [OF assms(2)]
    samsung_patches.patches_contract [OF assms(2)]
  unfolding platform_libraries_def by blast

section \<open>The system\<close>

inductive kep_step :: "'w kep_services \<Rightarrow> kep_state \<times> 'w \<Rightarrow> kep_state \<times> 'w \<Rightarrow> bool"
  for sv :: "'w kep_services" where
  ready: "event_open s \<Longrightarrow> kep_step sv (s, w) (ReadyToBootHandler sv s, w)"
| hooked_alloc: "bs_AllocatePages (gBS s) = KEP_ALLOCATE_PAGES_HOOK \<Longrightarrow>
    KepAllocatePagesHook sv Type MemoryType Pages Memory s w = Some (r, s', w') \<Longrightarrow>
    kep_step sv (s, w) (s', w')"
| plain_alloc: "bs_AllocatePages (gBS s) = FW_ALLOCATE_PAGES \<Longrightarrow>
    run_state (fw_AllocatePages sv Type MemoryType Pages Memory) w = (r, w') \<Longrightarrow>
    kep_step sv (s, w) (s, w')"
| hooked_exit: "bs_ExitBootServices (gBS s) = KEP_EXIT_BOOT_SERVICES_HOOK \<Longrightarrow>
    KepExitBootServicesHook sv ImageHandle MapKey s w = Some (st, s', w') \<Longrightarrow>
    kep_step sv (s, w) (s', w')"
| others: "kep_step sv (s, w) (s\<lparr> memory := m \<rparr>, w')"

text \<open>The state in which the library is loaded: untouched table, empty globals.\<close>

definition fresh_state :: "'w kep_services \<Rightarrow> mem \<Rightarrow> kep_state" where
  "fresh_state sv m = \<lparr>
     gBS = update_crc sv \<lparr> bs_AllocatePages = FW_ALLOCATE_PAGES,
       bs_ExitBootServices = FW_EXIT_BOOT_SERVICES, bs_CRC32 = 0 \<rparr>,
     mOrigAllocatePages = NULL_FN, mOrigExitBootServices = NULL_FN,
     LoaderBase = replicate 64 0, LoaderEnd = replicate 64 0, LoaderCount = 0,
     winload_range = \<lparr> mWinloadBase = 0, mWinloadEnd = 0 \<rparr>,
     memory = m, mMemoryAttributeProtocol = False, event_open = False \<rparr>"

inductive kep_reachable :: "'w kep_services \<Rightarrow> kep_state \<times> 'w \<Rightarrow> bool"
  for sv :: "'w kep_services" where
  init: "run_state (KernelErrataPatcherLibConstructor sv (fresh_state sv m)) w = ((st, s), w') \<Longrightarrow>
    kep_reachable sv (s, w')"
| step: "kep_reachable sv p \<Longrightarrow> kep_step sv p q \<Longrightarrow> kep_reachable sv q"

definition crc_ok :: "'w kep_services \<Rightarrow> kep_state \<Rightarrow> bool" where
  "crc_ok sv s \<longleftrightarrow> bs_CRC32 (gBS s) = CalculateCrc32 sv ((gBS s)\<lparr> bs_CRC32 := 0 \<rparr>)"

text \<open>Before the event the table is the firmware's; after it the saved pointers are the
  firmware's functions, and an entry is a hook or the function saved for it. Once a loader was
  found the allocation hook is gone.\<close>

definition kep_inv :: "'w kep_services \<Rightarrow> kep_state \<Rightarrow> bool" where
  "kep_inv sv s \<longleftrightarrow> crc_ok sv s
     \<and> length (LoaderBase s) = 64 \<and> length (LoaderEnd s) = 64 \<and> LoaderCount s \<le> 64
     \<and> (event_open s \<longrightarrow> bs_AllocatePages (gBS s) = FW_ALLOCATE_PAGES
          \<and> bs_ExitBootServices (gBS s) = FW_EXIT_BOOT_SERVICES)
     \<and> (bs_AllocatePages (gBS s) = FW_ALLOCATE_PAGES
          \<or> bs_AllocatePages (gBS s) = KEP_ALLOCATE_PAGES_HOOK \<and> mOrigAllocatePages s = FW_ALLOCATE_PAGES)
     \<and> (bs_ExitBootServices (gBS s) = FW_EXIT_BOOT_SERVICES
          \<or> bs_ExitBootServices (gBS s) = KEP_EXIT_BOOT_SERVICES_HOOK
            \<and> mOrigExitBootServices s = FW_EXIT_BOOT_SERVICES)
     \<and> (mWinloadBase (winload_range s) \<noteq> 0 \<or> mWinloadEnd (winload_range s) \<noteq> 0
          \<longrightarrow> \<not> event_open s \<and> bs_AllocatePages (gBS s) = FW_ALLOCATE_PAGES)"

section \<open>Lemmas\<close>

lemma crc_ok_update [simp]: "crc_ok sv (s\<lparr> gBS := update_crc sv bs \<rparr>)"
  by (simp add: crc_ok_def update_crc_def)

lemma update_crc_sel [simp]:
  "bs_AllocatePages (update_crc sv bs) = bs_AllocatePages bs"
  "bs_ExitBootServices (update_crc sv bs) = bs_ExitBootServices bs"
  by (simp_all add: update_crc_def)

lemma parse_ranges_False: "parse_ranges sv m rs g = (False, g') \<Longrightarrow> g' = g"
proof (induction rs arbitrary: g)
  case (Cons r rs)
  obtain b e where r: "r = (b, e)" by (cases r)
  obtain f g1 where w: "IsWinloadMemory (AsciiStrnCmp sv) (AsciiStriCmp sv) m b e g = (f, g1)" by fastforce
  with Cons r show ?case by (cases f) (auto dest: IsWinloadMemory_False)
qed simp

text \<open>What parsing an allocation does to the state.\<close>

lemma parse_state:
  assumes "KepParseAllocatedMemory sv b n t s = (found, s')"
    and "length (LoaderBase s) = 64" "length (LoaderEnd s) = 64" "LoaderCount s \<le> 64"
  shows "gBS s' = gBS s" "mOrigAllocatePages s' = mOrigAllocatePages s"
    "mOrigExitBootServices s' = mOrigExitBootServices s" "event_open s' = event_open s"
    "memory s' = memory s"
    "length (LoaderBase s') = 64" "length (LoaderEnd s') = 64" "LoaderCount s' \<le> 64"
    "\<not> found \<Longrightarrow> winload_range s' = winload_range s"
  using assms by (auto simp: KepParseAllocatedMemory_def Let_def split: prod.splits if_splits
      dest: parse_ranges_False)

lemma kep_inv_ready: "kep_inv sv s \<Longrightarrow> event_open s \<Longrightarrow> kep_inv sv (ReadyToBootHandler sv s)"
  by (auto simp: kep_inv_def ReadyToBootHandler_def Let_def crc_ok_def update_crc_def)


text \<open>The allocation hook: result and state in terms of the original call and the parse.\<close>

lemma hook_cases:
  assumes "KepAllocatePagesHook sv t mt n a s w = Some (r, s', w')"
  obtains (failed) st a' where "run_state (fw_AllocatePages sv t mt n a) w = ((st, a'), w')"
      "EFI_ERROR st" "r = (st, a')" "s' = s"
  | (unknown) st a' where "run_state (fw_AllocatePages sv t mt n a) w = ((st, a'), w')"
      "\<not> EFI_ERROR st" "r = (EFI_SUCCESS, a')" "KepParseAllocatedMemory sv a' n mt s = (False, s')"
  | (found) st a' w1 s1 m where "run_state (fw_AllocatePages sv t mt n a) w = ((st, a'), w1)"
      "\<not> EFI_ERROR st" "r = (EFI_SUCCESS, a')" "KepParseAllocatedMemory sv a' n mt s = (True, s1)"
      "s' = s1\<lparr> gBS := update_crc sv ((gBS s1)\<lparr> bs_AllocatePages := mOrigAllocatePages s1 \<rparr>),
                memory := m \<rparr>"
proof -
  obtain st a' w1 where o: "run_state (fw_AllocatePages sv t mt n a) w = ((st, a'), w1)"
    by (metis prod.exhaust_sel)
  obtain f s1 where p: "KepParseAllocatedMemory sv a' n mt s = (f, s1)" by fastforce
  note run = assms [unfolded KepAllocatePagesHook_def o]
  show thesis
  proof (cases "EFI_ERROR st")
    case True
    with run show thesis by (intro failed [of st a']) (auto simp: o split: if_splits)
  next
    case ok: False
    show thesis
    proof (cases f)
      case False
      with ok run p show thesis by (intro unknown [of st a']) (auto simp: o split: if_splits)
    next
      case True
      let ?s = "s1\<lparr> gBS := update_crc sv ((gBS s1)\<lparr> bs_AllocatePages := mOrigAllocatePages s1 \<rparr>) \<rparr>"
      from ok True run p have r: "r = (EFI_SUCCESS, a')" and "s' = ?s \<or> (\<exists>m. s' = ?s\<lparr> memory := m \<rparr>)"
        by (auto simp: Let_def split: if_splits prod.splits option.splits)
      then obtain m where "s' = ?s\<lparr> memory := m \<rparr>"
        by (metis kep_state.surjective kep_state.update_convs(8))
      with ok True o p r show thesis by (intro found [of st a' w1 s1 m]) auto
    qed
  qed
qed

lemma protection_table:
  "SetWinloadProtection sv (s\<lparr> gBS := bs \<rparr>) b = SetWinloadProtection sv s b"
  by (simp add: SetWinloadProtection_def)

lemma exit_hook_state:
  assumes "KepExitBootServicesHook sv h k s w = Some (st, s', w')"
  shows "\<exists>m. s' = s\<lparr> gBS := update_crc sv ((gBS s)\<lparr> bs_ExitBootServices := mOrigExitBootServices s \<rparr>),
      memory := m \<rparr>" (is "\<exists>m. s' = ?s m")
    and "\<exists>v. run_state (fw_ExitBootServices sv h k) v = (st, w')"
proof -
  note run = assms [unfolded KepExitBootServicesHook_def call_ExitBootServices_def Let_def]
  from run show "\<exists>v. run_state (fw_ExitBootServices sv h k) v = (st, w')"
    by (auto split: if_splits option.splits prod.splits)
  from run have "s' = ?s (memory s) \<or> (\<exists>m. s' = ?s m)"
    by (auto split: if_splits option.splits prod.splits)
  then show "\<exists>m. s' = ?s m" by blast
qed

lemma crc_ok_memory [simp]: "crc_ok sv (s\<lparr> memory := m \<rparr>) = crc_ok sv s"
  by (simp add: crc_ok_def)

lemma kep_inv_memory: "kep_inv sv s \<Longrightarrow> kep_inv sv (s\<lparr> memory := m \<rparr>)"
  by (simp add: kep_inv_def)

lemma kep_inv_alloc:
  assumes inv: "kep_inv sv s" and hook: "bs_AllocatePages (gBS s) = KEP_ALLOCATE_PAGES_HOOK"
    and run: "KepAllocatePagesHook sv t mt n a s w = Some (r, s', w')"
  shows "kep_inv sv s'"
  using run
proof (cases rule: hook_cases)
  case failed
  with inv show ?thesis by simp
next
  case (unknown st a')
  with inv show ?thesis
    using parse_state [OF unknown(4)] by (auto simp: kep_inv_def crc_ok_def)
next
  case (found st a' w1 s1 m)
  let ?bs = "(gBS s1)\<lparr> bs_AllocatePages := mOrigAllocatePages s1 \<rparr>"
  have "crc_ok sv s'" using crc_ok_update [of sv ?bs s1] by (simp add: found(5))
  with inv hook found(5) show ?thesis
    using parse_state [OF found(4)] by (auto simp: kep_inv_def)
qed

lemma kep_inv_exit:
  assumes inv: "kep_inv sv s" and hook: "bs_ExitBootServices (gBS s) = KEP_EXIT_BOOT_SERVICES_HOOK"
    and run: "KepExitBootServicesHook sv h k s w = Some (st, s', w')"
  shows "kep_inv sv s'"
proof -
  let ?bs = "(gBS s)\<lparr> bs_ExitBootServices := mOrigExitBootServices s \<rparr>"
  obtain m where s': "s' = s\<lparr> gBS := update_crc sv ?bs, memory := m \<rparr>"
    using exit_hook_state(1) [OF run] by blast
  have "crc_ok sv s'" using crc_ok_update [of sv ?bs s] by (simp add: s')
  with inv hook s' show ?thesis by (auto simp: kep_inv_def)
qed

lemma kep_inv_step: "kep_step sv (s, w) (s', w') \<Longrightarrow> kep_inv sv s \<Longrightarrow> kep_inv sv s'"
  by (induction "(s, w)" "(s', w')" rule: kep_step.induct)
    (auto intro: kep_inv_ready kep_inv_alloc kep_inv_exit kep_inv_memory)

lemma kep_inv_fresh:
  "run_state (KernelErrataPatcherLibConstructor sv (fresh_state sv m)) w = ((st, s), w') \<Longrightarrow> kep_inv sv s"
  by (auto simp: KernelErrataPatcherLibConstructor_def LocateMemoryAttributeProtocol_def fresh_state_def
      kep_inv_def crc_ok_def update_crc_def split: prod.splits if_splits)

lemma kep_inv_reachable:
  assumes "kep_reachable sv p" shows "kep_inv sv (fst p)"
  using assms
proof induction
  case (init m w st s w')
  then show ?case by (auto dest: kep_inv_fresh)
next
  case (step p q)
  then show ?case using kep_inv_step by (metis prod.collapse)
qed


lemma semester_loop_returns:
  "unat (mWinloadEnd g) \<le> 2 ^ 64 - 4 \<Longrightarrow> PatchWinloadTransferToKernel g sc m \<noteq> None"
  using semester_loop_effect [of g CodebaseSemester m sc]
  by (auto simp: PatchWinloadTransferToKernel_def)

section \<open>Sample services\<close>

definition sample_services :: "efi_status \<Rightarrow> unit kep_services" where
  "sample_services clear = \<lparr>
     fw_AllocatePages = (\<lambda>_ _ _ _. State_Monad.return (EFI_SUCCESS, 0x20000)),
     fw_ExitBootServices = (\<lambda>_ _. State_Monad.return EFI_SUCCESS),
     CreateReadyToBootEvent = State_Monad.return EFI_SUCCESS,
     CalculateCrc32 = (\<lambda>bs. if bs_AllocatePages bs = FW_ALLOCATE_PAGES then 1 else 2),
     LocateMemoryAttribute = State_Monad.return True,
     SetMemoryAttributes = (\<lambda>_ _ _. State_Monad.return EFI_SUCCESS),
     ClearMemoryAttributes = (\<lambda>_ _ _. State_Monad.return clear),
     ApplyPlatformErrataPatches = qcom_ApplyPlatformErrataPatches False,
     GetPlatformShellCode = Some [0x1F, 0x20, 0x03, 0xD5],
     AsciiStrnCmp = plain_strncmp, AsciiStriCmp = plain_stricmp \<rparr>"

text \<open>The state after the library was loaded and the event fired.\<close>

definition hooked_state :: "efi_status \<Rightarrow> kep_state" where
  "hooked_state clear = ReadyToBootHandler (sample_services clear)
     ((fresh_state (sample_services clear) (\<lambda>_. 0))\<lparr> event_open := True, mMemoryAttributeProtocol := True \<rparr>)"

lemma hooked_state_reachable: "kep_reachable (sample_services clear) (hooked_state clear, ())"
proof -
  let ?sv = "sample_services clear"
  let ?s = "(fresh_state ?sv (\<lambda>_. 0))\<lparr> event_open := True, mMemoryAttributeProtocol := True \<rparr>"
  have "run_state (KernelErrataPatcherLibConstructor ?sv (fresh_state ?sv (\<lambda>_. 0))) () = ((EFI_SUCCESS, ?s), ())"
    by (simp add: KernelErrataPatcherLibConstructor_def LocateMemoryAttributeProtocol_def
        sample_services_def)
  then have "kep_reachable ?sv (?s, ())" by (rule kep_reachable.init)
  moreover have "kep_step ?sv (?s, ()) (hooked_state clear, ())"
    unfolding hooked_state_def by (rule kep_step.ready) simp
  ultimately show ?thesis by (rule kep_reachable.step)
qed

lemma hooked_state_sel [simp]:
  "bs_AllocatePages (gBS (hooked_state clear)) = KEP_ALLOCATE_PAGES_HOOK"
  "bs_ExitBootServices (gBS (hooked_state clear)) = KEP_EXIT_BOOT_SERVICES_HOOK"
  "winload_range (hooked_state clear) = \<lparr> mWinloadBase = 0, mWinloadEnd = 0 \<rparr>"
  by (simp_all add: hooked_state_def ReadyToBootHandler_def Let_def fresh_state_def)

section \<open>Properties\<close>

text \<open>C3. In every state the system can reach, the checksum of the boot services table is the one
  of its current content, the saved allocation ranges fit their arrays, each table entry is
  the firmware's function or a hook that has the firmware's function saved, and once the
  loader was recognised the allocation hook has been taken out.\<close>

theorem kep_table_consistent:
  assumes "kep_reachable sv (s, w)"
  shows "bs_CRC32 (gBS s) = CalculateCrc32 sv ((gBS s)\<lparr> bs_CRC32 := 0 \<rparr>)
    \<and> LoaderCount s \<le> length (LoaderBase s) \<and> LoaderCount s \<le> length (LoaderEnd s)
    \<and> (bs_AllocatePages (gBS s) = FW_ALLOCATE_PAGES
        \<or> bs_AllocatePages (gBS s) = KEP_ALLOCATE_PAGES_HOOK \<and> mOrigAllocatePages s = FW_ALLOCATE_PAGES)
    \<and> (bs_ExitBootServices (gBS s) = FW_EXIT_BOOT_SERVICES
        \<or> bs_ExitBootServices (gBS s) = KEP_EXIT_BOOT_SERVICES_HOOK
          \<and> mOrigExitBootServices s = FW_EXIT_BOOT_SERVICES)
    \<and> (mWinloadBase (winload_range s) = 0 \<and> mWinloadEnd (winload_range s) = 0
        \<or> bs_AllocatePages (gBS s) = FW_ALLOCATE_PAGES)"
  using kep_inv_reachable [OF assms] by (auto simp: kep_inv_def crc_ok_def)

lemma kep_table_consistent_witness:
  "bs_CRC32 (gBS (hooked_state EFI_SUCCESS)) = 2"
  using kep_table_consistent [OF hooked_state_reachable, of EFI_SUCCESS]
  by (simp add: sample_services_def)

text \<open>C21. The allocation hook is transparent. Take a state that the system can reach with the
  hook in the table, one of the platform libraries of the repository, and suppose that a loader
  which this allocation makes the library recognise has a text section of whole instructions
  (the platform patches step by one instruction and need not return otherwise). Then the hook
  returns, with the error of the firmware's function or success, and with the address that
  function allocated. It stays in the table exactly as long as no loader was recognised; after
  the recognition it applies the platform's patches, when the text could be made writable, and
  no byte outside the text section changes.\<close>

theorem allocation_hook_transparent:
  assumes "kep_reachable sv (s, w)" "bs_AllocatePages (gBS s) = KEP_ALLOCATE_PAGES_HOOK"
    and "run_state (fw_AllocatePages sv t mt n a) w = ((st, a'), w1)"
    and "ApplyPlatformErrataPatches sv \<in> platform_libraries"
    and "KepParseAllocatedMemory sv a' n mt s = (found, s1)"
    and "found \<Longrightarrow> 4 dvd unat (mWinloadEnd (winload_range s1)) - unat (mWinloadBase (winload_range s1))"
    and "found \<Longrightarrow> mWinloadBase (winload_range s1) \<le> mWinloadEnd (winload_range s1)"
  shows "\<exists>s' w'. KepAllocatePagesHook sv t mt n a s w
      = Some ((if EFI_ERROR st then st else EFI_SUCCESS, a'), s', w')
    \<and> bs_AllocatePages (gBS s')
        = (if \<not> EFI_ERROR st \<and> found then FW_ALLOCATE_PAGES else KEP_ALLOCATE_PAGES_HOOK)
    \<and> (if \<not> EFI_ERROR st \<and> found \<and> \<not> EFI_ERROR (fst (run_state (SetWinloadProtection sv s1 False) w1))
       then ApplyPlatformErrataPatches sv (mWinloadBase (winload_range s1)) (mWinloadEnd (winload_range s1))
              (memory s) = Some (memory s')
          \<and> (\<forall>x. x < mWinloadBase (winload_range s1) \<or> mWinloadEnd (winload_range s1) \<le> x
               \<longrightarrow> memory s' x = memory s x)
       else memory s' = memory s)"
proof -
  have inv: "kep_inv sv s" using kep_inv_reachable [OF assms(1)] by simp
  then have orig: "mOrigAllocatePages s = FW_ALLOCATE_PAGES"
    using assms(2) by (auto simp: kep_inv_def)
  note p = parse_state [OF assms(5)]
  have s1: "gBS s1 = gBS s" "mOrigAllocatePages s1 = FW_ALLOCATE_PAGES" "memory s1 = memory s"
    using p(1,2,5) inv orig by (simp_all add: kep_inv_def)
  note unf = KepAllocatePagesHook_def Let_def assms(3,5) orig s1
  let ?b = "mWinloadBase (winload_range s1)" and ?e = "mWinloadEnd (winload_range s1)"
  consider (failed) "EFI_ERROR st" | (unknown) "\<not> EFI_ERROR st" "\<not> found"
    | (locked) "\<not> EFI_ERROR st" found "EFI_ERROR (fst (run_state (SetWinloadProtection sv s1 False) w1))"
    | (patched) "\<not> EFI_ERROR st" found "\<not> EFI_ERROR (fst (run_state (SetWinloadProtection sv s1 False) w1))"
    by blast
  then show ?thesis
  proof cases
    case patched
    obtain k where "unat ?e = unat ?b + 4 * k"
      using assms(6,7) patched(2) by (metis dvdE le_add_diff_inverse word_le_nat_alt)
    from platform_libraries_contract [OF assms(4) this, of "memory s"] obtain m' where
      m': "ApplyPlatformErrataPatches sv ?b ?e (memory s) = Some m'"
        "\<forall>x. unat x < unat ?b \<or> unat ?e \<le> unat x \<longrightarrow> m' x = memory s x"
      by blast
    then show ?thesis using patched assms(2)
      by (auto simp: unf protection_table word_less_nat_alt word_le_nat_alt split: prod.splits)
  qed (use assms(2) in \<open>auto simp: unf protection_table split: prod.splits\<close>)
qed

text \<open>An allocation after which the image of \<open>crafted\<close> is found, with the Qualcomm patches on.\<close>

definition finding_services :: "unit kep_services" where
  "finding_services = (sample_services EFI_SUCCESS)\<lparr>
     fw_AllocatePages := (\<lambda>_ _ _ _. State_Monad.return (EFI_SUCCESS, 0x10000)),
     ApplyPlatformErrataPatches := qcom_ApplyPlatformErrataPatches True \<rparr>"

definition finding_state :: kep_state where
  "finding_state = (ReadyToBootHandler finding_services
     ((fresh_state finding_services (\<lambda>_. 0))\<lparr> event_open := True, mMemoryAttributeProtocol := True \<rparr>))
       \<lparr> memory := crafted 2 \<rparr>"

lemma finding_state_reachable: "kep_reachable finding_services (finding_state, ())"
proof -
  let ?s = "(fresh_state finding_services (\<lambda>_. 0))\<lparr> event_open := True, mMemoryAttributeProtocol := True \<rparr>"
  have "run_state (KernelErrataPatcherLibConstructor finding_services
      (fresh_state finding_services (\<lambda>_. 0))) () = ((EFI_SUCCESS, ?s), ())"
    by (simp add: KernelErrataPatcherLibConstructor_def LocateMemoryAttributeProtocol_def
        sample_services_def finding_services_def)
  then have "kep_reachable finding_services (?s, ())" by (rule kep_reachable.init)
  then have "kep_reachable finding_services (ReadyToBootHandler finding_services ?s, ())"
    by (rule kep_reachable.step) (rule kep_step.ready, simp)
  then show ?thesis unfolding finding_state_def by (rule kep_reachable.step) (rule kep_step.others)
qed

lemma finding_parse:
  "KepParseAllocatedMemory finding_services 0x10000 1 EfiLoaderCode finding_state
   = (True, finding_state\<lparr> LoaderBase := 0x10000 # replicate 63 0, LoaderEnd := 0x11000 # replicate 63 0,
       LoaderCount := 1, winload_range := \<lparr> mWinloadBase = 0x11000, mWinloadEnd = 0x11200 \<rparr> \<rparr>)"
proof -
  have s: "replicate 64 (0 :: u64) = 0 # replicate 63 0" by (simp add: numeral_eq_Suc)
  have sv: "AsciiStrnCmp finding_services = plain_strncmp" "AsciiStriCmp finding_services = plain_stricmp"
    by (simp_all add: finding_services_def sample_services_def)
  have st: "LoaderBase finding_state = 0 # replicate 63 0" "LoaderEnd finding_state = 0 # replicate 63 0"
    "LoaderCount finding_state = 0" "memory finding_state = crafted 2" "winload_range finding_state = no_winload"
    unfolding finding_state_def by (simp_all add: ReadyToBootHandler_def Let_def fresh_state_def s no_winload_def)
  show ?thesis
    by (simp add: KepParseAllocatedMemory_def Let_def st sv crafted_accepted EFI_PAGES_TO_SIZE_def)
qed

lemma allocation_hook_transparent_witness:
  "\<exists>s' w'. KepAllocatePagesHook finding_services AllocateAnyPages EfiLoaderCode 1 0 finding_state ()
      = Some ((EFI_SUCCESS, 0x10000), s', w')
    \<and> bs_AllocatePages (gBS s') = FW_ALLOCATE_PAGES
    \<and> qcom_ApplyPlatformErrataPatches True 0x11000 0x11200 (crafted 2) = Some (memory s')
    \<and> memory s' 0x10000 = 0x4D"
proof -
  have sv: "run_state (fw_AllocatePages finding_services AllocateAnyPages EfiLoaderCode 1 0) ()
      = ((EFI_SUCCESS, 0x10000), ())"
    "ApplyPlatformErrataPatches finding_services = qcom_ApplyPlatformErrataPatches True"
    "run_state (ClearMemoryAttributes finding_services x y z) () = (EFI_SUCCESS, ())" for x y z
    by (simp_all add: finding_services_def sample_services_def)
  have st: "bs_AllocatePages (gBS finding_state) = KEP_ALLOCATE_PAGES_HOOK" "memory finding_state = crafted 2"
    "mMemoryAttributeProtocol finding_state"
    unfolding finding_state_def by (simp_all add: ReadyToBootHandler_def Let_def fresh_state_def)
  have lib: "ApplyPlatformErrataPatches finding_services \<in> platform_libraries"
    by (simp add: sv(2) platform_libraries_def)
  have byte: "crafted 2 0x10000 = 0x4D" by (simp add: crafted_simps)
  show ?thesis
    using allocation_hook_transparent [OF finding_state_reachable st(1) sv(1) lib finding_parse]
    by (auto simp: sv st byte SetWinloadProtection_def)
qed

text \<open>C22. The exit hook takes itself out of the table with a correct checksum and returns what the
  firmware's function returns, whether or not it patched; when the text cannot be made
  writable it leaves memory alone.\<close>

theorem exit_hook_restores:
  assumes "kep_reachable sv (s, w)" "bs_ExitBootServices (gBS s) = KEP_EXIT_BOOT_SERVICES_HOOK"
    and "unat (mWinloadEnd (winload_range s)) \<le> 2 ^ 64 - 4"
  shows "\<exists>st s' v w'. KepExitBootServicesHook sv h k s w = Some (st, s', w')
    \<and> run_state (fw_ExitBootServices sv h k) v = (st, w')
    \<and> bs_ExitBootServices (gBS s') = FW_EXIT_BOOT_SERVICES \<and> crc_ok sv s'
    \<and> (EFI_ERROR (fst (run_state (SetWinloadProtection sv s False) w)) \<longrightarrow> memory s' = memory s)"
proof -
  have orig: "mOrigExitBootServices s = FW_EXIT_BOOT_SERVICES"
    using kep_inv_reachable [OF assms(1)] assms(2) by (auto simp: kep_inv_def)
  let ?bs = "update_crc sv ((gBS s)\<lparr> bs_ExitBootServices := mOrigExitBootServices s \<rparr>)"
  have "KepExitBootServicesHook sv h k s w \<noteq> None"
    using orig
    by (auto simp: KepExitBootServicesHook_def call_ExitBootServices_def Let_def
        semester_loop_returns [OF assms(3)] split: prod.splits option.splits)
  then obtain st s' w' where run: "KepExitBootServicesHook sv h k s w = Some (st, s', w')"
    by (metis option.exhaust prod_cases3)
  moreover have "EFI_ERROR (fst (run_state (SetWinloadProtection sv s False) w)) \<longrightarrow> memory s' = memory s"
    using run by (auto simp: KepExitBootServicesHook_def call_ExitBootServices_def Let_def protection_table
        split: prod.splits option.splits if_splits)
  moreover obtain v where "run_state (fw_ExitBootServices sv h k) v = (st, w')"
    using exit_hook_state(2) [OF run] by blast
  moreover obtain m where "s' = s\<lparr> gBS := ?bs, memory := m \<rparr>"
    using exit_hook_state(1) [OF run] by blast
  ultimately show ?thesis using orig by fastforce
qed

lemma exit_hook_restores_witness:
  "\<exists>s'. KepExitBootServicesHook (sample_services EFI_UNSUPPORTED) 0 0 (hooked_state EFI_UNSUPPORTED) ()
     = Some (EFI_SUCCESS, s', ()) \<and> bs_ExitBootServices (gBS s') = FW_EXIT_BOOT_SERVICES"
  using exit_hook_restores [OF hooked_state_reachable hooked_state_sel(2), of EFI_UNSUPPORTED 0 0]
  by (auto simp: sample_services_def)

text \<open>C38. For the first entry of the semester table, whose function offset is 0, the shell code goes
  in front of the text section, outside the range whose protection was lifted.\<close>

theorem legacy_shell_code_outside_text:
  assumes "transfer_loop m (mWinloadEnd g) (mWinloadBase g) 0xD2800002 (mWinloadBase g) = Some (Some c)"
    and "mWinloadBase g \<noteq> 0" "mWinloadEnd g \<noteq> 0" "mWinloadBase g \<le> mWinloadEnd g"
    and "length sc \<le> unat (mWinloadBase g)" "4 dvd length sc" "i < length sc"
    and "unat (mWinloadEnd g) + length sc < unat (mWinloadBase g) + 2 ^ 27"
    and "unat (mWinloadEnd g) < 2 ^ 64 - 0x1000"
  shows "\<exists>m' x. PatchWinloadTransferToKernel g sc m = Some m' \<and> m' x = sc ! i
    \<and> unat x = unat (mWinloadBase g) - length sc + i \<and> x < mWinloadBase g"
proof -
  let ?T = "mWinloadBase g" and ?s = "hd CodebaseSemester"
  let ?m' = "write32 (write_bytes m (?T - of_nat (length sc)) sc) c
    (ARM64_BRANCH_LOCATION_INSTRUCTION c (?T - of_nat (length sc)))"
  have "unat (mWinloadEnd g) \<le> 2 ^ 64 - 4" using assms(9) by simp
  then have site: "first_branch g m ?s c"
    using transfer_loop_first [of "mWinloadEnd g" m ?T "0xD2800002" ?T] assms(1)
    by (auto simp: first_branch_def transfer_at_def CodebaseSemester_def)
  have s: "?s \<in> set CodebaseSemester" by (simp add: CodebaseSemester_def)
  have "PatchWinloadTransferToKernel g sc m = Some ?m'"
    using assms(1-3) by (simp add: PatchWinloadTransferToKernel_def CodebaseSemester_def Let_def)
  moreover have at: "?T = transfer_at g ?s" by (simp add: transfer_at_def CodebaseSemester_def)
  moreover have "?m' (?T - of_nat (length sc) + of_nat i) = sc ! i"
    using patch_result(4) [OF site s assms(5,6) assms(8,9) assms(4) at refl] assms(7) at
    by (simp only: redirected_def)
  moreover have "unat (?T - of_nat (length sc) + of_nat i) = unat ?T - length sc + i"
  proof -
    have l: "unat (of_nat (length sc) :: u64) = length sc"
      using assms(5) unsigned_less [of ?T, where 'a = nat] by (simp add: unat_of_nat)
    have "unat (?T - of_nat (length sc)) = unat ?T - length sc"
      using assms(5) l by (subst unat_diff_le) (simp_all add: word_le_nat_alt)
    then show ?thesis using assms(5,7) unsigned_less [of ?T, where 'a = nat]
      by (subst unat_off) simp_all
  qed
  ultimately show ?thesis
    using assms(5,7) by (intro exI [of _ ?m'] exI [of _ "?T - of_nat (length sc) + of_nat i"])
      (simp add: word_less_nat_alt)
qed

lemma legacy_shell_code_outside_text_witness:
  "\<exists>m' x. PatchWinloadTransferToKernel \<lparr> mWinloadBase = 0x10000, mWinloadEnd = 0x10010 \<rparr>
      [0x1F, 0x20, 0x03, 0xD5] (write32 (write32 (\<lambda>_. 0) 0x10000 0x94000000) 0x10004 0xD2800002) = Some m'
    \<and> m' x = 0x1F \<and> x < 0x10000"
proof -
  let ?m = "write32 (write32 (\<lambda>_. 0) 0x10000 0x94000000) 0x10004 0xD2800002"
  have "read32 ?m 0x10000 = 0x94000000" "read32 ?m 0x10004 = 0xD2800002"
    by (simp_all add: read32_write32_other word_at_def)
  then have loop: "transfer_loop ?m 0x10010 0x10000 0xD2800002 0x10000 = Some (Some 0x10000)"
    by (subst transfer_loop.simps) (simp add: ARM64_BRANCH_LOCATION_INSTRUCTION_def)
  have d: "4 dvd length [0x1F, 0x20, 0x03, 0xD5 :: u8]" by (simp add: numeral_eq_Suc)
  show ?thesis
    using legacy_shell_code_outside_text [OF _ _ _ _ _ d,
        of ?m "\<lparr> mWinloadBase = 0x10000, mWinloadEnd = 0x10010 \<rparr>" "0x10000" 0] loop
    by auto
qed

end
