(* ===== verification/KeypadQueue.thy ===== *)
theory KeypadQueue
  imports Prelude
begin

text \<open>
  The key queue of the keypad driver: \<open>EFI_KEY_QUEUE\<close> of
  \<open>SiliciumPkg/Drivers/KeypadDxe/KeypadDxe.h\<close> and its operations in \<open>KeypadTextIn.c\<close>, a ring
  of 256 slots that holds at most 255 keys and drops the oldest when it is full.

  The locale \<open>dropping_queue\<close> is what the driver relies on, over the list of keys in the queue
  (oldest first); the ring meets it through the abstraction \<open>queue_list\<close>.
\<close>

section \<open>Keys\<close>

record efi_input_key =
  ScanCode :: u16
  UnicodeChar :: u16

record efi_key_data =
  Key :: efi_input_key
  KeyShiftState :: u32
  KeyToggleState :: u8

abbreviation SCAN_NULL :: u16 where "SCAN_NULL \<equiv> 0"
abbreviation CHAR_NULL :: u16 where "CHAR_NULL \<equiv> 0"

text \<open>A partial keystroke carries neither a scan code nor a character.\<close>

definition partial_key :: "efi_key_data \<Rightarrow> bool" where
  "partial_key k = (ScanCode (Key k) = SCAN_NULL \<and> UnicodeChar (Key k) = CHAR_NULL)"

section \<open>The ring\<close>

abbreviation KEYPAD_EFI_KEY_MAX_COUNT :: nat where "KEYPAD_EFI_KEY_MAX_COUNT \<equiv> 256"

record efi_key_queue =
  Buffer :: "efi_key_data list"
  Head :: nat
  Tail :: nat

definition IsEfikeyBufEmpty :: "efi_key_queue \<Rightarrow> bool" where
  "IsEfikeyBufEmpty Queue = (Head Queue = Tail Queue)"

text \<open>The second argument is the old content of the OUT parameter, None for a NULL pointer.\<close>

definition PopEfikeyBufHead ::
    "efi_key_queue \<Rightarrow> efi_key_data option \<Rightarrow> efi_status \<times> efi_key_queue \<times> efi_key_data option" where
  "PopEfikeyBufHead Queue KeyData =
     (if IsEfikeyBufEmpty Queue then (EFI_NOT_READY, Queue, KeyData)
      else (EFI_SUCCESS,
            Queue\<lparr> Head := (Head Queue + 1) mod KEYPAD_EFI_KEY_MAX_COUNT \<rparr>,
            map_option (\<lambda>_. Buffer Queue ! Head Queue) KeyData))"

definition PushEfikeyBufTail :: "efi_key_queue \<Rightarrow> efi_key_data \<Rightarrow> efi_key_queue" where
  "PushEfikeyBufTail Queue KeyData =
     (let Queue = (if (Tail Queue + 1) mod KEYPAD_EFI_KEY_MAX_COUNT = Head Queue
                   then fst (snd (PopEfikeyBufHead Queue None)) else Queue);
          Queue = Queue\<lparr> Buffer := (Buffer Queue)[Tail Queue := KeyData] \<rparr>
      in Queue\<lparr> Tail := (Tail Queue + 1) mod KEYPAD_EFI_KEY_MAX_COUNT \<rparr>)"

section \<open>The contract\<close>

locale dropping_queue =
  fixes inv :: "'q \<Rightarrow> bool" and content :: "'q \<Rightarrow> 'k list"
    and is_empty :: "'q \<Rightarrow> bool" and push :: "'q \<Rightarrow> 'k \<Rightarrow> 'q" and pop :: "'q \<Rightarrow> 'q" and front :: "'q \<Rightarrow> 'k"
    and cap :: nat
  assumes cap_pos: "0 < cap"
    and content_cap: "inv q \<Longrightarrow> length (content q) \<le> cap"
    and is_empty_content: "inv q \<Longrightarrow> is_empty q \<longleftrightarrow> content q = []"
    and front_content: "inv q \<Longrightarrow> content q \<noteq> [] \<Longrightarrow> front q = hd (content q)"
    and inv_pop: "inv q \<Longrightarrow> content q \<noteq> [] \<Longrightarrow> inv (pop q)"
    and content_pop: "inv q \<Longrightarrow> content q \<noteq> [] \<Longrightarrow> content (pop q) = tl (content q)"
    and inv_push: "inv q \<Longrightarrow> inv (push q k)"
    and content_push: "inv q \<Longrightarrow> content (push q k) =
      (if length (content q) = cap then tl (content q) else content q) @ [k]"
begin

text \<open>Pushing keys keeps the newest ones.\<close>

definition newest :: "'k list \<Rightarrow> 'k list" where
  "newest ks = drop (length ks - cap) ks"

lemma content_newest: "inv q \<Longrightarrow> newest (content q) = content q"
  using content_cap by (simp add: newest_def)

lemma newest_snoc:
  assumes "length ks \<le> cap"
  shows "newest (ks @ [k]) = (if length ks = cap then tl ks else ks) @ [k]"
  using assms cap_pos by (cases ks) (auto simp: newest_def)

lemma newest_step: "newest (newest ks @ ls) = newest (ks @ ls)"
proof -
  have "length ks + length ls - cap = (length ks - cap) + (length (drop (length ks - cap) ks) + length ls - cap)"
    using cap_pos by simp
  then show ?thesis
    by (cases "length ks \<le> cap") (simp_all add: newest_def add.commute)
qed

lemma content_pushes:
  assumes "inv q"
  shows "inv (foldl push q ks) \<and> content (foldl push q ks) = newest (content q @ ks)"
  using assms
proof (induction ks arbitrary: q)
  case Nil
  then show ?case by (simp add: content_newest)
next
  case (Cons k ks)
  have "content (push q k) = newest (content q @ [k])"
    using Cons.prems content_cap by (simp add: content_push newest_snoc)
  then show ?case
    using Cons.IH [OF inv_push [OF Cons.prems]] newest_step [of "content q @ [k]" ks] by simp
qed

end

section \<open>The ring meets the contract\<close>

definition queue_inv :: "efi_key_queue \<Rightarrow> bool" where
  "queue_inv q \<longleftrightarrow> length (Buffer q) = 256 \<and> Head q < 256 \<and> Tail q < 256"

definition queue_length :: "efi_key_queue \<Rightarrow> nat" where
  "queue_length q = (Tail q + 256 - Head q) mod 256"

definition queue_list :: "efi_key_queue \<Rightarrow> efi_key_data list" where
  "queue_list q = map (\<lambda>i. Buffer q ! ((Head q + i) mod 256)) [0..<queue_length q]"

definition queue_pop :: "efi_key_queue \<Rightarrow> efi_key_queue" where
  "queue_pop q = fst (snd (PopEfikeyBufHead q None))"

definition queue_front :: "efi_key_queue \<Rightarrow> efi_key_data" where
  "queue_front q = Buffer q ! Head q"

lemma length_queue_list [simp]: "length (queue_list q) = queue_length q"
  by (simp add: queue_list_def)

lemma wrap_index: "(x :: nat) < 512 \<Longrightarrow> x mod 256 = (if x < 256 then x else x - 256)"
  by (simp add: le_mod_geq)

lemma queue_length_cases:
  assumes "queue_inv q"
  shows "queue_length q = (if Head q \<le> Tail q then Tail q - Head q else Tail q + 256 - Head q)"
proof (cases "Head q \<le> Tail q")
  case True
  then have "queue_length q = (Tail q - Head q + 256) mod 256" by (simp add: queue_length_def)
  also have "\<dots> = Tail q - Head q" using assms by (auto simp: queue_inv_def intro: mod_less)
  finally show ?thesis using True by simp
qed (use assms in \<open>simp add: queue_length_def queue_inv_def\<close>)

lemma queue_length_le: "queue_length q < 256"
  by (simp add: queue_length_def)

lemma queue_empty_iff: "queue_inv q \<Longrightarrow> queue_length q = 0 \<longleftrightarrow> Head q = Tail q"
  by (auto simp: queue_length_cases queue_inv_def)

lemma queue_list_empty: "queue_inv q \<Longrightarrow> IsEfikeyBufEmpty q \<longleftrightarrow> queue_list q = []"
  by (metis IsEfikeyBufEmpty_def length_0_conv length_queue_list queue_empty_iff)

lemma queue_list_front:
  assumes "queue_inv q" "queue_list q \<noteq> []"
  shows "hd (queue_list q) = queue_front q"
proof -
  have "0 < queue_length q" using assms(2) by (metis length_greater_0_conv length_queue_list)
  then show ?thesis using assms(1)
    by (simp add: queue_list_def hd_map queue_front_def queue_inv_def)
qed

lemma queue_pop_inv: "queue_inv q \<Longrightarrow> queue_inv (queue_pop q)"
  by (simp add: queue_pop_def PopEfikeyBufHead_def queue_inv_def)

lemma queue_pop_list:
  assumes inv: "queue_inv q" and ne: "queue_list q \<noteq> []"
  shows "queue_list (queue_pop q) = tl (queue_list q)"
proof -
  let ?q = "q\<lparr> Head := (Head q + 1) mod 256 \<rparr>"
  have "\<not> IsEfikeyBufEmpty q" using assms by (simp add: queue_list_empty)
  then have q: "queue_pop q = ?q" and ht: "Head q \<noteq> Tail q"
    by (simp_all add: queue_pop_def PopEfikeyBufHead_def IsEfikeyBufEmpty_def)
  have n: "0 < queue_length q" using ne by (metis length_greater_0_conv length_queue_list)
  have len: "queue_length ?q = queue_length q - 1"
    using queue_length_cases [OF inv] queue_length_cases [of ?q] inv ht
    by (cases "Head q = 255") (auto simp: queue_inv_def)
  have "[0..<queue_length q] = 0 # map Suc [0..<queue_length q - 1]"
    using n by (metis Suc_diff_1 map_Suc_upt upt_conv_Cons)
  then have "tl (queue_list q) = map (\<lambda>i. Buffer q ! ((Head q + Suc i) mod 256)) [0..<queue_length q - 1]"
    by (simp add: queue_list_def comp_def)
  also have "\<dots> = queue_list ?q"
    using len by (simp add: queue_list_def mod_simps)
  finally show ?thesis by (simp add: q)
qed

text \<open>Storing at the tail of a ring that is not full.\<close>

lemma queue_store_list:
  assumes inv: "queue_inv q" and room: "(Tail q + 1) mod 256 \<noteq> Head q"
  shows "queue_list (q\<lparr> Buffer := (Buffer q)[Tail q := k], Tail := (Tail q + 1) mod 256 \<rparr>)
    = queue_list q @ [k]"
proof -
  let ?q = "q\<lparr> Buffer := (Buffer q)[Tail q := k], Tail := (Tail q + 1) mod 256 \<rparr>"
  have len: "queue_length ?q = Suc (queue_length q)"
    using queue_length_cases [OF inv] queue_length_cases [of ?q] inv room
    by (cases "Tail q = 255") (auto simp: queue_inv_def)
  have last: "(Head q + queue_length q) mod 256 = Tail q"
    using queue_length_cases [OF inv] inv by (auto simp: queue_inv_def)
  have other: "(Head q + i) mod 256 \<noteq> Tail q" if "i < queue_length q" for i
    using that inv queue_length_le [of q] queue_length_cases [OF inv]
    by (auto simp: wrap_index queue_inv_def split: if_splits)
  have "(Buffer q)[Tail q := k] ! ((Head q + i) mod 256) = Buffer q ! ((Head q + i) mod 256)"
    if "i < queue_length q" for i
    using other [OF that] by (metis nth_list_update_neq)
  then show ?thesis
    using inv last len by (simp add: queue_list_def queue_inv_def)
qed

lemma queue_full_iff:
  assumes "queue_inv q"
  shows "(Tail q + 1) mod 256 = Head q \<longleftrightarrow> queue_length q = 255"
  using assms queue_length_cases [OF assms] by (cases "Tail q = 255") (auto simp: queue_inv_def)

lemma queue_push_inv: "queue_inv q \<Longrightarrow> queue_inv (PushEfikeyBufTail q k)"
  by (simp add: PushEfikeyBufTail_def PopEfikeyBufHead_def queue_inv_def Let_def)

lemma queue_push_list:
  assumes inv: "queue_inv q"
  shows "queue_list (PushEfikeyBufTail q k) =
    (if length (queue_list q) = 255 then tl (queue_list q) else queue_list q) @ [k]"
proof (cases "queue_length q = 255")
  case False
  then have "(Tail q + 1) mod 256 \<noteq> Head q" using queue_full_iff [OF inv] by simp
  then show ?thesis
    using False queue_store_list [OF inv, of k] by (simp add: PushEfikeyBufTail_def Let_def)
next
  case True
  then have ne: "queue_list q \<noteq> []" by (metis length_queue_list list.size(3) zero_neq_numeral)
  let ?q = "queue_pop q"
  have t: "Tail ?q = Tail q" by (simp add: queue_pop_def PopEfikeyBufHead_def)
  have "length (queue_list ?q) = 254" using queue_pop_list [OF inv ne] True by simp
  then have "(Tail ?q + 1) mod 256 \<noteq> Head ?q"
    using queue_full_iff [OF queue_pop_inv [OF inv]] by simp
  from queue_store_list [OF queue_pop_inv [OF inv] this, of k] show ?thesis
    using True queue_full_iff [OF inv] queue_pop_list [OF inv ne]
    by (simp add: PushEfikeyBufTail_def Let_def queue_pop_def [symmetric] t)
qed

interpretation keyq: dropping_queue queue_inv queue_list IsEfikeyBufEmpty PushEfikeyBufTail
  queue_pop queue_front 255
  by unfold_locales
    (use queue_length_le in \<open>auto simp: queue_list_empty queue_list_front queue_pop_inv queue_pop_list
      queue_push_inv queue_push_list less_Suc_eq_le [symmetric]\<close>)

lemma pop_simps:
  assumes "queue_inv q"
  shows "PopEfikeyBufHead q d = (case queue_list q of
      [] \<Rightarrow> (EFI_NOT_READY, q, d)
    | k # ks \<Rightarrow> (EFI_SUCCESS, queue_pop q, map_option (\<lambda>_. k) d))"
  using queue_list_empty [OF assms] queue_list_front [OF assms]
  by (auto simp: PopEfikeyBufHead_def queue_pop_def queue_front_def split: list.splits)

section \<open>Properties\<close>

definition key_of :: "u16 \<Rightarrow> u16 \<Rightarrow> efi_key_data" where
  "key_of sc c = \<lparr> Key = \<lparr> ScanCode = sc, UnicodeChar = c \<rparr>, KeyShiftState = 0, KeyToggleState = 0 \<rparr>"

definition empty_queue :: efi_key_queue where
  "empty_queue = \<lparr> Buffer = replicate 256 (key_of 0 0), Head = 0, Tail = 0 \<rparr>"

lemma empty_queue_inv: "queue_inv empty_queue" "queue_list empty_queue = []"
  by (simp_all add: empty_queue_def queue_inv_def queue_list_def queue_length_def)

text \<open>C6. The ring implements a first-in first-out queue that keeps the newest 255 keys: after any
  sequence of PushEfikeyBufTail calls it holds the last 255 of the old and new keys in their
  order, and PopEfikeyBufHead answers EFI_NOT_READY on the empty queue without changing
  anything and otherwise removes and returns the oldest key.\<close>
theorem key_queue_keeps_newest:
  assumes "queue_inv q"
  shows "queue_inv (foldl PushEfikeyBufTail q ks) \<and>
    queue_list (foldl PushEfikeyBufTail q ks) =
      drop (length (queue_list q @ ks) - 255) (queue_list q @ ks) \<and>
    (case queue_list q of
       [] \<Rightarrow> IsEfikeyBufEmpty q \<and> PopEfikeyBufHead q d = (EFI_NOT_READY, q, d)
     | k # rest \<Rightarrow> \<not> IsEfikeyBufEmpty q \<and>
         (\<exists>q'. PopEfikeyBufHead q d = (EFI_SUCCESS, q', map_option (\<lambda>_. k) d) \<and>
            queue_inv q' \<and> queue_list q' = rest))"
  using keyq.content_pushes [OF assms, of ks] queue_list_empty [OF assms] queue_pop_inv [OF assms]
    queue_pop_list [OF assms]
  by (auto simp: keyq.newest_def pop_simps [OF assms] split: list.split)

theorem key_queue_keeps_newest_witness:
  "queue_list (foldl PushEfikeyBufTail empty_queue [key_of 1 0, key_of 2 0]) = [key_of 1 0, key_of 2 0] \<and>
   length (queue_list (foldl PushEfikeyBufTail empty_queue (replicate 300 (key_of 3 0)))) = 255 \<and>
   PopEfikeyBufHead empty_queue (Some (key_of 7 0)) = (EFI_NOT_READY, empty_queue, Some (key_of 7 0))"
  using key_queue_keeps_newest [OF empty_queue_inv(1), of "[key_of 1 0, key_of 2 0]" "Some (key_of 7 0)"]
    key_queue_keeps_newest [OF empty_queue_inv(1), of "replicate 300 (key_of 3 0)" None]
  by (simp add: empty_queue_inv)

end
