(* ===== verification/Keypad.thy ===== *)
theory Keypad
  imports KeypadQueue
begin

text \<open>
  The keypad driver, \<open>SiliciumPkg/Drivers/KeypadDxe\<close>: \<open>KeypadTextIn.c\<close>, \<open>KeypadController.c\<close> and
  the callback \<open>KeypadReturnApiPushEfikeyBufTail\<close> of \<open>KeypadDxe.c\<close>.

  \<open>keypad_dev\<close> is \<open>KEYPAD_CONSOLE_IN_DEV\<close>; the linked list of notifications is a list of its
  nodes, each with its address as the handle. The services of the firmware core, the
  performance counter and the key device are parameters (\<open>keypad_services\<close>): \<open>GetKeys\<close> gives
  the keys that one poll reports, which the device passes to the callback one by one.

  Every operation takes the device record and returns the new one. A pointer argument that
  may be NULL is an option. The loops that wait for something outside are partial functions;
  their value is \<open>None\<close> when they do not return.
\<close>

section \<open>State and services\<close>

record notify_node =
  NodeHandle :: u64
  NodeKeyData :: efi_key_data
  KeyNotificationFn :: nat

record keypad_dev =
  WaitForKey :: u64
  WaitForKeyEx :: u64
  TimerEvent :: u64
  Last :: u64
  LeftCtrl :: bool
  RightCtrl :: bool
  LeftAlt :: bool
  RightAlt :: bool
  LeftShift :: bool
  RightShift :: bool
  LeftLogo :: bool
  RightLogo :: bool
  Menu :: bool
  SysReq :: bool
  CapsLock :: bool
  NumLock :: bool
  ScrollLock :: bool
  IsSupportPartialKey :: bool
  EfiKeyQueue :: efi_key_queue
  EfiKeyQueueForNotify :: efi_key_queue
  KeypadErr :: bool
  ControllerNameTable :: u64
  NotifyList :: "notify_node list"
  KeyNotifyProcessEvent :: u64

record 'w keypad_services =
  RaiseTPL :: "nat \<Rightarrow> ('w, nat) state"
  RestoreTPL :: "nat \<Rightarrow> ('w, unit) state"
  SignalEvent :: "u64 \<Rightarrow> ('w, unit) state"
  kp_AllocateZeroPool :: "('w, u64) state"
  kp_FreePool :: "u64 \<Rightarrow> ('w, unit) state"
  GetPerformanceCounter :: "('w, u64) state"
  GetTimeInNanoSecond :: "u64 \<Rightarrow> u64"
  GetKeys :: "u64 \<Rightarrow> ('w, efi_key_data list) state"
  ResetKeypadDevice :: "('w, unit) state"
  CallNotification :: "nat \<Rightarrow> efi_key_data \<Rightarrow> ('w, unit) state"

abbreviation TPL_CALLBACK :: nat where "TPL_CALLBACK \<equiv> 8"
abbreviation TPL_NOTIFY :: nat where "TPL_NOTIFY \<equiv> 16"

section \<open>Keys arriving from the device\<close>

definition IsKeyRegistered :: "efi_key_data \<Rightarrow> efi_key_data \<Rightarrow> bool" where
  "IsKeyRegistered RegsiteredData InputData =
     (if ScanCode (Key RegsiteredData) \<noteq> ScanCode (Key InputData)
         \<or> UnicodeChar (Key RegsiteredData) \<noteq> UnicodeChar (Key InputData) then False
      else if KeyShiftState RegsiteredData \<noteq> 0
         \<and> KeyShiftState RegsiteredData \<noteq> KeyShiftState InputData then False
      else if KeyToggleState RegsiteredData \<noteq> 0
         \<and> KeyToggleState RegsiteredData \<noteq> KeyToggleState InputData then False
      else True)"

text \<open>The loop over the notification list in the callback.\<close>

fun notify_loop ::
    "'w keypad_services \<Rightarrow> efi_key_data \<Rightarrow> notify_node list \<Rightarrow> keypad_dev \<Rightarrow> ('w, keypad_dev) state" where
  "notify_loop sv k [] dev = State_Monad.return dev"
| "notify_loop sv k (n # ns) dev =
     (if IsKeyRegistered (NodeKeyData n) k then do {
        let dev = dev\<lparr> EfiKeyQueueForNotify := PushEfikeyBufTail (EfiKeyQueueForNotify dev) k \<rparr>;
        _ \<leftarrow> SignalEvent sv (KeyNotifyProcessEvent dev);
        notify_loop sv k ns dev }
      else notify_loop sv k ns dev)"

definition KeypadReturnApiPushEfikeyBufTail ::
    "'w keypad_services \<Rightarrow> keypad_dev \<Rightarrow> efi_key_data \<Rightarrow> ('w, keypad_dev) state" where
  "KeypadReturnApiPushEfikeyBufTail sv dev k =
     (if partial_key k \<and> \<not> IsSupportPartialKey dev then State_Monad.return dev
      else do {
        dev \<leftarrow> notify_loop sv k (NotifyList dev) dev;
        State_Monad.return (dev\<lparr> EfiKeyQueue := PushEfikeyBufTail (EfiKeyQueue dev) k \<rparr>) })"

fun push_keys ::
    "'w keypad_services \<Rightarrow> efi_key_data list \<Rightarrow> keypad_dev \<Rightarrow> ('w, keypad_dev) state" where
  "push_keys sv [] dev = State_Monad.return dev"
| "push_keys sv (k # ks) dev = do {
     dev \<leftarrow> KeypadReturnApiPushEfikeyBufTail sv dev k;
     push_keys sv ks dev }"

section \<open>Controller\<close>

definition KeypadError :: "keypad_dev \<Rightarrow> keypad_dev" where
  "KeypadError dev = dev\<lparr> KeypadErr := True \<rparr>"

definition KeypadTimerHandler :: "'w keypad_services \<Rightarrow> keypad_dev \<Rightarrow> ('w, keypad_dev) state" where
  "KeypadTimerHandler sv dev = do {
     OldTpl \<leftarrow> RaiseTPL sv TPL_NOTIFY;
     if KeypadErr dev then do {
       _ \<leftarrow> RestoreTPL sv OldTpl;
       State_Monad.return dev }
     else do {
       CurrentCounterValue \<leftarrow> GetPerformanceCounter sv;
       let DeltaCounter = CurrentCounterValue - Last dev;
       let dev = dev\<lparr> Last := CurrentCounterValue \<rparr>;
       keys \<leftarrow> GetKeys sv (GetTimeInNanoSecond sv DeltaCounter);
       dev \<leftarrow> push_keys sv keys dev;
       _ \<leftarrow> RestoreTPL sv OldTpl;
       State_Monad.return dev } }"

definition clear_queue :: "efi_key_queue \<Rightarrow> efi_key_queue" where
  "clear_queue q = q\<lparr> Head := 0, Tail := 0 \<rparr>"

definition InitKeypad ::
    "'w keypad_services \<Rightarrow> keypad_dev \<Rightarrow> bool \<Rightarrow> ('w, efi_status \<times> keypad_dev) state" where
  "InitKeypad sv dev ExtendedVerification = do {
     _ \<leftarrow> ResetKeypadDevice sv;
     State_Monad.return (EFI_SUCCESS, dev\<lparr>
       EfiKeyQueue := clear_queue (EfiKeyQueue dev),
       EfiKeyQueueForNotify := clear_queue (EfiKeyQueueForNotify dev),
       CapsLock := False, NumLock := False, ScrollLock := False,
       LeftCtrl := False, RightCtrl := False, LeftAlt := False, RightAlt := False,
       LeftShift := False, RightShift := False, LeftLogo := False, RightLogo := False,
       Menu := False, SysReq := False, IsSupportPartialKey := False \<rparr>) }"

section \<open>Text input protocols\<close>

definition KeypadReadKeyStrokeWorker ::
    "'w keypad_services \<Rightarrow> keypad_dev \<Rightarrow> efi_key_data option
      \<Rightarrow> ('w, efi_status \<times> keypad_dev \<times> efi_key_data option) state" where
  "KeypadReadKeyStrokeWorker sv dev KeyData =
     (if KeyData = None then State_Monad.return (EFI_INVALID_PARAMETER, dev, KeyData)
      else do {
        OldTpl \<leftarrow> RaiseTPL sv TPL_NOTIFY;
        dev \<leftarrow> KeypadTimerHandler sv dev;
        let (s, dev, out) =
          (if KeypadErr dev then (EFI_DEVICE_ERROR, dev, KeyData)
           else case PopEfikeyBufHead (EfiKeyQueue dev) KeyData of
             (s, q, out) \<Rightarrow> (s, dev\<lparr> EfiKeyQueue := q \<rparr>, out));
        _ \<leftarrow> RestoreTPL sv OldTpl;
        State_Monad.return (s, dev, out) })"

definition KeypadEfiReset ::
    "'w keypad_services \<Rightarrow> keypad_dev \<Rightarrow> bool \<Rightarrow> ('w, efi_status \<times> keypad_dev) state" where
  "KeypadEfiReset sv dev ExtendedVerification =
     (if KeypadErr dev then State_Monad.return (EFI_DEVICE_ERROR, dev)
      else do {
        OldTpl \<leftarrow> RaiseTPL sv TPL_NOTIFY;
        (s, dev) \<leftarrow> InitKeypad sv dev ExtendedVerification;
        if EFI_ERROR s then do {
          _ \<leftarrow> RestoreTPL sv OldTpl;
          State_Monad.return (EFI_DEVICE_ERROR, dev) }
        else do {
          _ \<leftarrow> RestoreTPL sv OldTpl;
          State_Monad.return (EFI_SUCCESS, dev) } })"

text \<open>The translation of control characters in \<open>KeypadReadKeyStroke\<close>; the mask is the two
  control bits of the shift state.\<close>

definition translate_ctrl :: "efi_key_data \<Rightarrow> efi_input_key" where
  "translate_ctrl k =
     (let c = UnicodeChar (Key k) in
      if KeyShiftState k AND 0xC \<noteq> 0 then
        if c \<ge> 0x61 \<and> c \<le> 0x7A then (Key k)\<lparr> UnicodeChar := c - 0x61 + 1 \<rparr>
        else if c \<ge> 0x41 \<and> c \<le> 0x5A then (Key k)\<lparr> UnicodeChar := c - 0x41 + 1 \<rparr>
        else Key k
      else Key k)"

partial_function (option) KeypadReadKeyStroke ::
    "'w keypad_services \<Rightarrow> efi_key_data \<Rightarrow> keypad_dev \<Rightarrow> efi_input_key \<Rightarrow> 'w
      \<Rightarrow> (efi_status \<times> keypad_dev \<times> efi_input_key \<times> 'w) option" where
  "KeypadReadKeyStroke sv uninit dev KeyOut w =
     (case run_state (KeypadReadKeyStrokeWorker sv dev (Some uninit)) w of
        ((s, dev, out), w) \<Rightarrow>
          if EFI_ERROR s then Some (s, dev, KeyOut, w)
          else if partial_key (the out) then KeypadReadKeyStroke sv (the out) dev KeyOut w
          else Some (EFI_SUCCESS, dev, translate_ctrl (the out), w))"

partial_function (option) wait_loop ::
    "'w keypad_services \<Rightarrow> u64 \<Rightarrow> keypad_dev \<Rightarrow> 'w \<Rightarrow> (keypad_dev \<times> 'w) option" where
  "wait_loop sv Event dev w =
     (if \<not> IsEfikeyBufEmpty (EfiKeyQueue dev) then
        (let k = Buffer (EfiKeyQueue dev) ! Head (EfiKeyQueue dev) in
         if partial_key k
         then wait_loop sv Event
                (dev\<lparr> EfiKeyQueue := fst (snd (PopEfikeyBufHead (EfiKeyQueue dev) (Some k))) \<rparr>) w
         else Some (dev, snd (run_state (SignalEvent sv Event) w)))
      else Some (dev, w))"

definition KeypadWaitForKey ::
    "'w keypad_services \<Rightarrow> u64 \<Rightarrow> keypad_dev \<Rightarrow> 'w \<Rightarrow> (keypad_dev \<times> 'w) option" where
  "KeypadWaitForKey sv Event dev w =
     (case run_state (RaiseTPL sv TPL_NOTIFY) w of
        (OldTpl, w) \<Rightarrow>
          (case run_state (KeypadTimerHandler sv dev) w of
             (dev, w) \<Rightarrow>
               (case (if \<not> KeypadErr dev then wait_loop sv Event dev w else Some (dev, w)) of
                  None \<Rightarrow> None
                | Some (dev, w) \<Rightarrow> Some (dev, snd (run_state (RestoreTPL sv OldTpl) w)))))"

definition KeypadWaitForKeyEx ::
    "'w keypad_services \<Rightarrow> u64 \<Rightarrow> keypad_dev \<Rightarrow> 'w \<Rightarrow> (keypad_dev \<times> 'w) option" where
  "KeypadWaitForKeyEx sv Event dev w = KeypadWaitForKey sv Event dev w"

definition KeypadEfiResetEx ::
    "'w keypad_services \<Rightarrow> keypad_dev \<Rightarrow> bool \<Rightarrow> ('w, efi_status \<times> keypad_dev) state" where
  "KeypadEfiResetEx sv dev ExtendedVerification = KeypadEfiReset sv dev ExtendedVerification"

definition KeypadReadKeyStrokeEx ::
    "'w keypad_services \<Rightarrow> keypad_dev \<Rightarrow> efi_key_data option
      \<Rightarrow> ('w, efi_status \<times> keypad_dev \<times> efi_key_data option) state" where
  "KeypadReadKeyStrokeEx sv dev KeyData =
     (if KeyData = None then State_Monad.return (EFI_INVALID_PARAMETER, dev, KeyData)
      else KeypadReadKeyStrokeWorker sv dev KeyData)"

abbreviation EFI_SCROLL_LOCK_ACTIVE :: u8 where "EFI_SCROLL_LOCK_ACTIVE \<equiv> 0x01"
abbreviation EFI_NUM_LOCK_ACTIVE :: u8 where "EFI_NUM_LOCK_ACTIVE \<equiv> 0x02"
abbreviation EFI_CAPS_LOCK_ACTIVE :: u8 where "EFI_CAPS_LOCK_ACTIVE \<equiv> 0x04"
abbreviation EFI_KEY_STATE_EXPOSED :: u8 where "EFI_KEY_STATE_EXPOSED \<equiv> 0x40"
abbreviation EFI_TOGGLE_STATE_VALID :: u8 where "EFI_TOGGLE_STATE_VALID \<equiv> 0x80"

text \<open>The lights: cleared, then the first active toggle of the chain is set.\<close>

definition set_lights :: "u8 \<Rightarrow> keypad_dev \<Rightarrow> keypad_dev" where
  "set_lights t dev =
     (let dev = dev\<lparr> ScrollLock := False, NumLock := False, CapsLock := False,
                    IsSupportPartialKey := False \<rparr>
      in if t AND EFI_SCROLL_LOCK_ACTIVE = EFI_SCROLL_LOCK_ACTIVE then dev\<lparr> ScrollLock := True \<rparr>
         else if t AND EFI_NUM_LOCK_ACTIVE = EFI_NUM_LOCK_ACTIVE then dev\<lparr> NumLock := True \<rparr>
         else if t AND EFI_CAPS_LOCK_ACTIVE = EFI_CAPS_LOCK_ACTIVE then dev\<lparr> CapsLock := True \<rparr>
         else if t AND EFI_KEY_STATE_EXPOSED = EFI_KEY_STATE_EXPOSED
         then dev\<lparr> IsSupportPartialKey := True \<rparr>
         else dev)"

definition KeypadSetState ::
    "'w keypad_services \<Rightarrow> keypad_dev \<Rightarrow> u8 option \<Rightarrow> ('w, efi_status \<times> keypad_dev) state" where
  "KeypadSetState sv dev Toggles =
     (case Toggles of
        None \<Rightarrow> State_Monad.return (EFI_INVALID_PARAMETER, dev)
      | Some t \<Rightarrow> do {
          OldTpl \<leftarrow> RaiseTPL sv TPL_NOTIFY;
          let (s, dev) =
            (if KeypadErr dev then (EFI_DEVICE_ERROR, dev)
             else if t AND EFI_TOGGLE_STATE_VALID \<noteq> EFI_TOGGLE_STATE_VALID then (EFI_UNSUPPORTED, dev)
             else (EFI_SUCCESS, set_lights t dev));
          _ \<leftarrow> RestoreTPL sv OldTpl;
          State_Monad.return (s, dev) })"

text \<open>The search of \<open>KeypadRegisterKeyNotify\<close>.\<close>

fun registered_loop :: "efi_key_data \<Rightarrow> nat \<Rightarrow> notify_node list \<Rightarrow> u64 option" where
  "registered_loop k f [] = None"
| "registered_loop k f (n # ns) =
     (if IsKeyRegistered (NodeKeyData n) k then
        if KeyNotificationFn n = f then Some (NodeHandle n) else registered_loop k f ns
      else registered_loop k f ns)"

definition KeypadRegisterKeyNotify ::
    "'w keypad_services \<Rightarrow> keypad_dev \<Rightarrow> efi_key_data option \<Rightarrow> nat option \<Rightarrow> u64 option
      \<Rightarrow> ('w, efi_status \<times> keypad_dev \<times> u64 option) state" where
  "KeypadRegisterKeyNotify sv dev KeyData Fn NotifyHandle =
     (case (KeyData, NotifyHandle, Fn) of
        (Some k, Some old, Some f) \<Rightarrow> do {
          OldTpl \<leftarrow> RaiseTPL sv TPL_NOTIFY;
          (s, dev, h) \<leftarrow>
            (case registered_loop k f (NotifyList dev) of
               Some h \<Rightarrow> State_Monad.return (EFI_SUCCESS, dev, h)
             | None \<Rightarrow> do {
                 p \<leftarrow> kp_AllocateZeroPool sv;
                 if p = 0 then State_Monad.return (EFI_OUT_OF_RESOURCES, dev, old)
                 else State_Monad.return (EFI_SUCCESS,
                   dev\<lparr> NotifyList := NotifyList dev @
                     [\<lparr> NodeHandle = p, NodeKeyData = k, KeyNotificationFn = f \<rparr>] \<rparr>, p) });
          _ \<leftarrow> RestoreTPL sv OldTpl;
          State_Monad.return (s, dev, Some h) }
      | _ \<Rightarrow> State_Monad.return (EFI_INVALID_PARAMETER, dev, NotifyHandle))"

text \<open>The search of \<open>KeypadUnregisterKeyNotify\<close>: the list without the first node at the address.\<close>

fun unregister_loop :: "u64 \<Rightarrow> notify_node list \<Rightarrow> notify_node list option" where
  "unregister_loop h [] = None"
| "unregister_loop h (n # ns) =
     (if NodeHandle n = h then Some ns else map_option ((#) n) (unregister_loop h ns))"

definition KeypadUnregisterKeyNotify ::
    "'w keypad_services \<Rightarrow> keypad_dev \<Rightarrow> u64 \<Rightarrow> ('w, efi_status \<times> keypad_dev) state" where
  "KeypadUnregisterKeyNotify sv dev NotificationHandle =
     (if NotificationHandle = 0 then State_Monad.return (EFI_INVALID_PARAMETER, dev)
      else do {
        OldTpl \<leftarrow> RaiseTPL sv TPL_NOTIFY;
        (s, dev) \<leftarrow>
          (case unregister_loop NotificationHandle (NotifyList dev) of
             Some ns \<Rightarrow> do {
               _ \<leftarrow> kp_FreePool sv NotificationHandle;
               State_Monad.return (EFI_SUCCESS, dev\<lparr> NotifyList := ns \<rparr>) }
           | None \<Rightarrow> State_Monad.return (EFI_INVALID_PARAMETER, dev));
        _ \<leftarrow> RestoreTPL sv OldTpl;
        State_Monad.return (s, dev) })"

section \<open>Calling the notification functions\<close>

fun call_loop :: "'w keypad_services \<Rightarrow> efi_key_data \<Rightarrow> notify_node list \<Rightarrow> ('w, unit) state" where
  "call_loop sv k [] = State_Monad.return ()"
| "call_loop sv k (n # ns) =
     (if IsKeyRegistered (NodeKeyData n) k then do {
        _ \<leftarrow> CallNotification sv (KeyNotificationFn n) k;
        call_loop sv k ns }
      else call_loop sv k ns)"

partial_function (option) KeyNotifyProcessHandler ::
    "'w keypad_services \<Rightarrow> efi_key_data \<Rightarrow> keypad_dev \<Rightarrow> 'w \<Rightarrow> (keypad_dev \<times> 'w) option" where
  "KeyNotifyProcessHandler sv uninit dev w =
     (case run_state (RaiseTPL sv TPL_NOTIFY) w of
        (OldTpl, w) \<Rightarrow>
          (case PopEfikeyBufHead (EfiKeyQueueForNotify dev) (Some uninit) of
             (s, q, out) \<Rightarrow>
               (let dev = dev\<lparr> EfiKeyQueueForNotify := q \<rparr>;
                    w = snd (run_state (RestoreTPL sv OldTpl) w)
                in if EFI_ERROR s then Some (dev, w)
                   else KeyNotifyProcessHandler sv (the out) dev
                          (snd (run_state (call_loop sv (the out) (NotifyList dev)) w)))))"

section \<open>What a poll does to the device record\<close>

definition accepted :: "keypad_dev \<Rightarrow> efi_key_data list \<Rightarrow> efi_key_data list" where
  "accepted dev ks = filter (\<lambda>k. \<not> partial_key k \<or> IsSupportPartialKey dev) ks"

definition matching :: "keypad_dev \<Rightarrow> efi_key_data \<Rightarrow> notify_node list" where
  "matching dev k = filter (\<lambda>n. IsKeyRegistered (NodeKeyData n) k) (NotifyList dev)"

definition announced :: "keypad_dev \<Rightarrow> efi_key_data list \<Rightarrow> efi_key_data list" where
  "announced dev ks = concat (map (\<lambda>k. replicate (length (matching dev k)) k) (accepted dev ks))"

definition receive :: "efi_key_data list \<Rightarrow> keypad_dev \<Rightarrow> keypad_dev" where
  "receive ks dev = dev\<lparr>
     EfiKeyQueue := foldl PushEfikeyBufTail (EfiKeyQueue dev) (accepted dev ks),
     EfiKeyQueueForNotify := foldl PushEfikeyBufTail (EfiKeyQueueForNotify dev) (announced dev ks) \<rparr>"

lemma accepted_update [simp]:
  "accepted (dev\<lparr>EfiKeyQueue := q\<rparr>) = accepted dev" "accepted (dev\<lparr>EfiKeyQueueForNotify := q\<rparr>) = accepted dev"
  "accepted (dev\<lparr>Last := t\<rparr>) = accepted dev"
  by (auto simp: accepted_def fun_eq_iff)

lemma matching_update [simp]:
  "matching (dev\<lparr>EfiKeyQueue := q\<rparr>) = matching dev" "matching (dev\<lparr>EfiKeyQueueForNotify := q\<rparr>) = matching dev"
  "matching (dev\<lparr>Last := t\<rparr>) = matching dev"
  by (auto simp: matching_def fun_eq_iff)

lemma announced_update [simp]:
  "announced (dev\<lparr>EfiKeyQueue := q\<rparr>) = announced dev" "announced (dev\<lparr>EfiKeyQueueForNotify := q\<rparr>) = announced dev"
  "announced (dev\<lparr>Last := t\<rparr>) = announced dev"
  by (auto simp: announced_def fun_eq_iff)

lemma fst_run_bind:
  "fst (run_state (State_Monad.bind m f) w) = fst (run_state (f (fst (run_state m w))) (snd (run_state m w)))"
  "snd (run_state (State_Monad.bind m f) w) = snd (run_state (f (fst (run_state m w))) (snd (run_state m w)))"
  by (simp_all split: prod.splits)

lemmas run_bind_simps = fst_run_bind Let_def split_beta

lemma notify_loop_dev:
  "fst (run_state (notify_loop sv k ns dev) w) =
     dev\<lparr> EfiKeyQueueForNotify := foldl PushEfikeyBufTail (EfiKeyQueueForNotify dev)
       (replicate (length (filter (\<lambda>n. IsKeyRegistered (NodeKeyData n) k) ns)) k) \<rparr>"
  by (induction ns arbitrary: dev w) (simp_all add: run_bind_simps del: run_state_bind)

lemma callback_dev:
  "fst (run_state (KeypadReturnApiPushEfikeyBufTail sv dev k) w) = receive [k] dev"
  by (simp add: KeypadReturnApiPushEfikeyBufTail_def receive_def accepted_def announced_def
      notify_loop_dev run_bind_simps matching_def del: run_state_bind)

lemma receive_Nil [simp]: "receive [] dev = dev"
  by (simp add: receive_def accepted_def announced_def)

lemma receive_Cons: "receive (k # ks) dev = receive ks (receive [k] dev)"
  by (simp add: receive_def accepted_def announced_def matching_def)

lemma push_keys_dev: "fst (run_state (push_keys sv ks dev) w) = receive ks dev"
  by (induction ks arbitrary: dev w)
    (simp_all add: run_bind_simps callback_dev receive_Cons [symmetric] del: run_state_bind)

text \<open>The keys one poll reports, in the order of the service calls of the timer handler.\<close>

definition polled :: "'w keypad_services \<Rightarrow> keypad_dev \<Rightarrow> 'w \<Rightarrow> efi_key_data list" where
  "polled sv dev w =
     (let (c, w) = run_state (GetPerformanceCounter sv) (snd (run_state (RaiseTPL sv TPL_NOTIFY) w))
      in fst (run_state (GetKeys sv (GetTimeInNanoSecond sv (c - Last dev))) w))"

lemma timer_dev:
  "\<exists>t. fst (run_state (KeypadTimerHandler sv dev) w) =
     (if KeypadErr dev then dev else receive (polled sv dev w) (dev\<lparr>Last := t\<rparr>))"
  by (auto simp: KeypadTimerHandler_def run_bind_simps push_keys_dev polled_def simp del: run_state_bind)

definition keypad_inv :: "keypad_dev \<Rightarrow> bool" where
  "keypad_inv dev \<longleftrightarrow> queue_inv (EfiKeyQueue dev) \<and> queue_inv (EfiKeyQueueForNotify dev)"

lemma receive_fields [simp]:
  "KeypadErr (receive ks dev) = KeypadErr dev"
  "IsSupportPartialKey (receive ks dev) = IsSupportPartialKey dev"
  "NotifyList (receive ks dev) = NotifyList dev"
  by (simp_all add: receive_def)

lemma receive_inv: "keypad_inv dev \<Longrightarrow> keypad_inv (receive ks dev)"
  using keyq.content_pushes by (simp add: keypad_inv_def receive_def)

lemma receive_queue:
  "keypad_inv dev \<Longrightarrow> queue_list (EfiKeyQueue (receive ks dev)) =
     keyq.newest (queue_list (EfiKeyQueue dev) @ accepted dev ks)"
  using keyq.content_pushes by (simp add: keypad_inv_def receive_def)

lemma timer_facts:
  assumes inv: "keypad_inv dev" and d: "fst (run_state (KeypadTimerHandler sv dev) w) = d"
  shows "keypad_inv d" "KeypadErr d = KeypadErr dev" "IsSupportPartialKey d = IsSupportPartialKey dev"
    "NotifyList d = NotifyList dev"
    "queue_list (EfiKeyQueue d) = (if KeypadErr dev then queue_list (EfiKeyQueue dev)
       else keyq.newest (queue_list (EfiKeyQueue dev) @ accepted dev (polled sv dev w)))"
proof -
  obtain t where t: "d = (if KeypadErr dev then dev else receive (polled sv dev w) (dev\<lparr>Last := t\<rparr>))"
    using timer_dev [of sv dev w] d by metis
  have "keypad_inv (dev\<lparr>Last := t\<rparr>)" using inv by (simp add: keypad_inv_def)
  from receive_inv [OF this] receive_queue [OF this]
  show "keypad_inv d" "KeypadErr d = KeypadErr dev" "IsSupportPartialKey d = IsSupportPartialKey dev"
    "NotifyList d = NotifyList dev"
    "queue_list (EfiKeyQueue d) = (if KeypadErr dev then queue_list (EfiKeyQueue dev)
       else keyq.newest (queue_list (EfiKeyQueue dev) @ accepted dev (polled sv dev w)))"
    using inv t by simp_all
qed

section \<open>Reading a key\<close>

text \<open>One round of \<open>KeypadReadKeyStrokeWorker\<close> over the list of keys.\<close>

lemma worker_facts:
  assumes inv: "keypad_inv dev"
    and run: "run_state (KeypadReadKeyStrokeWorker sv dev (Some u)) w = ((s, d, out), w')"
  shows "keypad_inv d \<and> KeypadErr d = KeypadErr dev \<and> IsSupportPartialKey d = IsSupportPartialKey dev \<and>
    NotifyList d = NotifyList dev \<and>
    (if KeypadErr dev then s = EFI_DEVICE_ERROR \<and> queue_list (EfiKeyQueue d) = queue_list (EfiKeyQueue dev)
     else case keyq.newest (queue_list (EfiKeyQueue dev) @
            accepted dev (polled sv dev (snd (run_state (RaiseTPL sv TPL_NOTIFY) w)))) of
       [] \<Rightarrow> s = EFI_NOT_READY \<and> queue_list (EfiKeyQueue d) = []
     | k # ks \<Rightarrow> s = EFI_SUCCESS \<and> out = Some k \<and> queue_list (EfiKeyQueue d) = ks)"
proof -
  let ?w = "snd (run_state (RaiseTPL sv TPL_NOTIFY) w)"
  define d1 where "d1 = fst (run_state (KeypadTimerHandler sv dev) ?w)"
  note t = timer_facts [OF inv d1_def [symmetric]]
  have q: "queue_inv (EfiKeyQueue d1)" "queue_inv (EfiKeyQueueForNotify d1)"
    using t(1) by (simp_all add: keypad_inv_def)
  have "(s, d, out) = fst (run_state (KeypadReadKeyStrokeWorker sv dev (Some u)) w)" using run by simp
  also have "\<dots> = (if KeypadErr d1 then (EFI_DEVICE_ERROR, d1, Some u)
      else case PopEfikeyBufHead (EfiKeyQueue d1) (Some u) of
        (s, q, out) \<Rightarrow> (s, d1\<lparr> EfiKeyQueue := q \<rparr>, out))"
    by (simp add: KeypadReadKeyStrokeWorker_def run_bind_simps d1_def del: run_state_bind)
  finally have r: "(s, d, out) = (if KeypadErr d1 then (EFI_DEVICE_ERROR, d1, Some u)
      else case PopEfikeyBufHead (EfiKeyQueue d1) (Some u) of
        (s, q, out) \<Rightarrow> (s, d1\<lparr> EfiKeyQueue := q \<rparr>, out))" .
  show ?thesis
  proof (cases "KeypadErr dev")
    case True
    then show ?thesis using r t by simp
  next
    case False
    define l where "l = queue_list (EfiKeyQueue d1)"
    have l: "keyq.newest (queue_list (EfiKeyQueue dev) @ accepted dev (polled sv dev ?w)) = l"
      using t(5) False by (simp add: l_def)
    have r': "(s, d, out) = (case l of [] \<Rightarrow> (EFI_NOT_READY, d1, Some u)
      | k # ks \<Rightarrow> (EFI_SUCCESS, d1\<lparr> EfiKeyQueue := queue_pop (EfiKeyQueue d1) \<rparr>, Some k))"
      using r t(2) False by (simp add: pop_simps [OF q(1)] l_def split: list.splits)
    show ?thesis
      using r' False t(2-4) q queue_pop_inv [OF q(1)] queue_pop_list [OF q(1)]
      unfolding l by (cases l) (simp_all add: keypad_inv_def l_def)
  qed
qed

lemma partial_accepted:
  "\<not> IsSupportPartialKey dev \<Longrightarrow> filter partial_key (accepted dev ks) = []"
  by (auto simp: accepted_def filter_empty_conv)

lemma partial_newest: "length (filter partial_key (keyq.newest ks)) \<le> length (filter partial_key ks)"
  unfolding keyq.newest_def
  by (metis append_take_drop_id filter_append le_add2 length_append)

text \<open>What a call of \<open>KeypadReadKeyStroke\<close> may answer.\<close>

definition read_answer ::
    "keypad_dev \<Rightarrow> efi_input_key \<Rightarrow> efi_status \<Rightarrow> keypad_dev \<Rightarrow> efi_input_key \<Rightarrow> bool" where
  "read_answer dev old s d out \<longleftrightarrow>
     keypad_inv d \<and> KeypadErr d = KeypadErr dev \<and>
     (if KeypadErr dev then s = EFI_DEVICE_ERROR \<and> out = old
      else s = EFI_NOT_READY \<and> out = old \<and> queue_list (EfiKeyQueue d) = [] \<or>
        s = EFI_SUCCESS \<and> (\<exists>k. \<not> partial_key k \<and> out = translate_ctrl k))"

lemma read_step:
  "KeypadReadKeyStroke sv u dev old w =
     (case run_state (KeypadReadKeyStrokeWorker sv dev (Some u)) w of
        ((s, d, out), w) \<Rightarrow>
          if EFI_ERROR s then Some (s, d, old, w)
          else if partial_key (the out) then KeypadReadKeyStroke sv (the out) d old w
          else Some (EFI_SUCCESS, d, translate_ctrl (the out), w))"
  by (subst KeypadReadKeyStroke.simps) simp

lemma read_returns:
  assumes "keypad_inv dev" "\<not> IsSupportPartialKey dev"
  shows "\<exists>s d out w'. KeypadReadKeyStroke sv u dev old w = Some (s, d, out, w') \<and> read_answer dev old s d out"
  using assms
proof (induction "length (filter partial_key (queue_list (EfiKeyQueue dev)))" arbitrary: u dev w
    rule: less_induct)
  case (less dev)
  obtain s d out w1 where run: "run_state (KeypadReadKeyStrokeWorker sv dev (Some u)) w = ((s, d, out), w1)"
    by (metis prod.exhaust)
  note f = worker_facts [OF less.prems(1) run]
  define l where "l = keyq.newest (queue_list (EfiKeyQueue dev) @
    accepted dev (polled sv dev (snd (run_state (RaiseTPL sv TPL_NOTIFY) w))))"
  have le: "length (filter partial_key l) \<le> length (filter partial_key (queue_list (EfiKeyQueue dev)))"
    using partial_newest partial_accepted [OF less.prems(2)] by (metis append_Nil2 filter_append l_def)
  show ?case
  proof (cases "\<not> KeypadErr dev \<and> (\<exists>k ks. l = k # ks \<and> partial_key k)")
    case False
    then show ?thesis
      using f by (subst read_step) (auto simp: run read_answer_def l_def [symmetric] split: list.splits if_splits)
  next
    case True
    then obtain k ks where l: "l = k # ks" "partial_key k" "\<not> KeypadErr dev" by auto
    have d: "keypad_inv d" "KeypadErr d = KeypadErr dev" "\<not> IsSupportPartialKey d" "s = EFI_SUCCESS"
      "out = Some k" "queue_list (EfiKeyQueue d) = ks"
      using f l less.prems(2) by (simp_all add: l_def [symmetric])
    have "length (filter partial_key (queue_list (EfiKeyQueue d)))
        < length (filter partial_key (queue_list (EfiKeyQueue dev)))"
      using le l d(6) by simp
    from less.hyps [OF this d(1,3), of k w1] show ?thesis
      using d l by (subst read_step) (auto simp: run read_answer_def)
  qed
qed

text \<open>With a device that reports nothing new, the answer is the first real key of the queue.\<close>

lemma quiet_poll:
  assumes "\<And>t w. fst (run_state (GetKeys sv t) w) = []"
  shows "polled sv dev w = []"
  by (simp add: polled_def split_beta assms)

lemma read_quiet:
  assumes quiet: "\<And>t w. fst (run_state (GetKeys sv t) w) = []"
    and inv: "keypad_inv dev" and ok: "\<not> KeypadErr dev"
  shows "\<exists>d w'. KeypadReadKeyStroke sv u dev old w =
      (case dropWhile partial_key (queue_list (EfiKeyQueue dev)) of
         [] \<Rightarrow> Some (EFI_NOT_READY, d, old, w')
       | k # ks \<Rightarrow> Some (EFI_SUCCESS, d, translate_ctrl k, w')) \<and>
    queue_list (EfiKeyQueue d) = tl (dropWhile partial_key (queue_list (EfiKeyQueue dev)))"
  using inv ok
proof (induction "queue_list (EfiKeyQueue dev)" arbitrary: u dev w)
  case Nil
  obtain s d out w1 where run: "run_state (KeypadReadKeyStrokeWorker sv dev (Some u)) w = ((s, d, out), w1)"
    by (metis prod.exhaust)
  from worker_facts [OF Nil.prems(1) run] Nil
  show ?case
    by (subst read_step) (auto simp: run quiet_poll [OF quiet] accepted_def keyq.newest_def)
next
  case (Cons k ks)
  obtain s d out w1 where run: "run_state (KeypadReadKeyStrokeWorker sv dev (Some u)) w = ((s, d, out), w1)"
    by (metis prod.exhaust)
  have "keyq.newest (queue_list (EfiKeyQueue dev)) = k # ks"
    using keyq.content_newest Cons.prems(1) Cons.hyps(2) by (simp add: keypad_inv_def)
  with worker_facts [OF Cons.prems(1) run] Cons.prems
  have d: "s = EFI_SUCCESS" "out = Some k" "queue_list (EfiKeyQueue d) = ks" "keypad_inv d" "\<not> KeypadErr d"
    by (simp_all add: quiet_poll [OF quiet] accepted_def)
  show ?case
  proof (cases "partial_key k")
    case True
    then show ?thesis
      using Cons.hyps(1) [OF d(3) [symmetric] d(4,5), of k w1] Cons.hyps(2) [symmetric] d
      by (subst read_step) (simp add: run)
  next
    case False
    then show ?thesis
      using Cons.hyps(2) [symmetric] d by (subst read_step) (simp add: run)
  qed
qed

section \<open>Waiting for a key\<close>

lemma wait_loop_quiet:
  assumes "queue_inv (EfiKeyQueue dev)"
  shows "\<exists>d. queue_inv (EfiKeyQueue d) \<and> EfiKeyQueueForNotify d = EfiKeyQueueForNotify dev \<and>
    queue_list (EfiKeyQueue d) = dropWhile partial_key (queue_list (EfiKeyQueue dev)) \<and>
    wait_loop sv e dev w = Some (d, if queue_list (EfiKeyQueue d) = [] then w
      else snd (run_state (SignalEvent sv e) w))"
  using assms
proof (induction "queue_list (EfiKeyQueue dev)" arbitrary: dev)
  case Nil
  then show ?case
    by (subst wait_loop.simps) (simp add: queue_list_empty)
next
  case (Cons k ks)
  have ne: "\<not> IsEfikeyBufEmpty (EfiKeyQueue dev)" "queue_list (EfiKeyQueue dev) \<noteq> []"
    using Cons by (auto simp: queue_list_empty)
  have fr: "Buffer (EfiKeyQueue dev) ! Head (EfiKeyQueue dev) = k"
    using queue_list_front [OF Cons.prems ne(2)] Cons.hyps(2) [symmetric] by (simp add: queue_front_def)
  have pop: "fst (snd (PopEfikeyBufHead (EfiKeyQueue dev) (Some k))) = queue_pop (EfiKeyQueue dev)"
    using Cons by (simp add: pop_simps Cons.hyps(2) [symmetric])
  have tl: "queue_list (queue_pop (EfiKeyQueue dev)) = ks"
    using queue_pop_list [OF Cons.prems ne(2)] Cons.hyps(2) [symmetric] by simp
  show ?case
  proof (cases "partial_key k")
    case True
    let ?d = "dev\<lparr>EfiKeyQueue := queue_pop (EfiKeyQueue dev)\<rparr>"
    from Cons.hyps(1) [of ?d] tl queue_pop_inv [OF Cons.prems]
    show ?thesis
      using True ne(1) fr pop Cons.hyps(2) [symmetric]
      by (subst wait_loop.simps) (simp add: Let_def)
  next
    case False
    then show ?thesis
      using Cons.prems ne(1) fr Cons.hyps(2) [symmetric]
      by (subst wait_loop.simps) (simp add: Let_def)
  qed
qed

lemma wait_returns:
  assumes inv: "keypad_inv dev"
  shows "\<exists>d w'. KeypadWaitForKey sv e dev w = Some (d, w') \<and> keypad_inv d"
proof -
  let ?w = "snd (run_state (RaiseTPL sv TPL_NOTIFY) w)"
  obtain d1 w1 where t: "run_state (KeypadTimerHandler sv dev) ?w = (d1, w1)"
    by (metis prod.exhaust)
  have inv1: "keypad_inv d1" using timer_facts(1) [OF inv, of sv ?w d1] t by simp
  then obtain d2 w2 where "wait_loop sv e d1 w1 = Some (d2, w2)" "keypad_inv d2"
    using wait_loop_quiet [of d1 sv e w1] by (auto simp: keypad_inv_def)
  then show ?thesis
    using t inv1 by (auto simp: KeypadWaitForKey_def split_beta)
qed

section \<open>Task priority\<close>

text \<open>The documented behaviour of the priority services, over the current priority of a world,
  and that the other services come back at the priority they were called at.\<close>

definition keeps_tpl :: "('w \<Rightarrow> nat) \<Rightarrow> ('w, 'a) state \<Rightarrow> bool" where
  "keeps_tpl tpl m \<longleftrightarrow> (\<forall>w. tpl (snd (run_state m w)) = tpl w)"

definition tpl_laws :: "'w keypad_services \<Rightarrow> ('w \<Rightarrow> nat) \<Rightarrow> bool" where
  "tpl_laws sv tpl \<longleftrightarrow>
     (\<forall>n w. fst (run_state (RaiseTPL sv n) w) = tpl w) \<and>
     (\<forall>n w. tpl (snd (run_state (RestoreTPL sv n) w)) = n) \<and>
     keeps_tpl tpl (kp_AllocateZeroPool sv) \<and> (\<forall>p. keeps_tpl tpl (kp_FreePool sv p)) \<and>
     (\<forall>f k. keeps_tpl tpl (CallNotification sv f k))"

lemma keypad_operations_tpl:
  assumes "tpl_laws sv tpl"
  shows "keeps_tpl tpl (KeypadTimerHandler sv dev)"
    and "keeps_tpl tpl (KeypadReadKeyStrokeWorker sv dev kd)"
    and "keeps_tpl tpl (KeypadEfiReset sv dev ext)"
    and "keeps_tpl tpl (KeypadSetState sv dev ts)"
    and "keeps_tpl tpl (KeypadRegisterKeyNotify sv dev kd fn h)"
    and "keeps_tpl tpl (KeypadUnregisterKeyNotify sv dev h')"
  using assms
  by (simp_all add: tpl_laws_def keeps_tpl_def run_bind_simps KeypadTimerHandler_def
      KeypadReadKeyStrokeWorker_def KeypadEfiReset_def KeypadSetState_def KeypadRegisterKeyNotify_def
      KeypadUnregisterKeyNotify_def split: option.split del: run_state_bind)

lemma wait_tpl:
  assumes "tpl_laws sv tpl" "KeypadWaitForKey sv e dev w = Some (d, w')"
  shows "tpl w' = tpl w"
  using assms
  by (auto simp: tpl_laws_def KeypadWaitForKey_def split_beta split: option.splits)

lemma read_tpl:
  fixes sv :: "'w keypad_services"
  assumes tpl: "tpl_laws sv tpl" and inv: "keypad_inv dev" "\<not> IsSupportPartialKey dev"
  shows "\<exists>s d out w'. KeypadReadKeyStroke sv u dev old w = Some (s, d, out, w') \<and> tpl w' = tpl w"
proof -
  let ?P = "\<lambda>sv u dev old w r. tpl_laws sv tpl \<longrightarrow> tpl (snd (snd (snd r))) = tpl w"
  have step: "?P sv u dev old w r" if run: "KeypadReadKeyStroke sv u dev old w = Some r"
    for sv :: "'w keypad_services" and u dev old w r
  proof (rule KeypadReadKeyStroke.raw_induct [where P = ?P, OF _ run], intro impI)
    fix f and sv :: "'w keypad_services" and u dev old w r
    assume hyp: "\<And>sv u dev old w r. f sv u dev old w = Some r \<Longrightarrow> ?P sv u dev old w r"
      and body: "(case run_state (KeypadReadKeyStrokeWorker sv dev (Some u)) w of
        ((s, dev, out), w) \<Rightarrow> if EFI_ERROR s then Some (s, dev, old, w)
          else if partial_key (the out) then f sv (the out) dev old w
          else Some (EFI_SUCCESS, dev, translate_ctrl (the out), w)) = Some r"
      and laws: "tpl_laws sv tpl"
    obtain s d out w1 where run: "run_state (KeypadReadKeyStrokeWorker sv dev (Some u)) w = ((s, d, out), w1)"
      by (metis prod.exhaust)
    have "tpl w1 = tpl w"
      using keypad_operations_tpl(2) [OF laws, of dev "Some u"] run by (metis keeps_tpl_def snd_conv)
    then show "tpl (snd (snd (snd r))) = tpl w"
      using body hyp [of sv "the out" d old w1 r] laws by (auto simp: run split: if_splits)
  qed
  from read_returns [OF inv, of sv u old w] obtain s d out w' where
    "KeypadReadKeyStroke sv u dev old w = Some (s, d, out, w')" by blast
  with step [OF this] tpl show ?thesis by simp
qed

lemma call_loop_tpl: "tpl_laws sv tpl \<Longrightarrow> tpl (snd (run_state (call_loop sv k ns) w)) = tpl w"
  by (induction ns arbitrary: w)
    (simp_all add: tpl_laws_def keeps_tpl_def run_bind_simps del: run_state_bind)

lemma handler_step:
  "KeyNotifyProcessHandler sv u dev w =
     (let (OldTpl, w1) = run_state (RaiseTPL sv TPL_NOTIFY) w;
          (s, q, out) = PopEfikeyBufHead (EfiKeyQueueForNotify dev) (Some u);
          d = dev\<lparr> EfiKeyQueueForNotify := q \<rparr>;
          w2 = snd (run_state (RestoreTPL sv OldTpl) w1)
      in if EFI_ERROR s then Some (d, w2)
         else KeyNotifyProcessHandler sv (the out) d (snd (run_state (call_loop sv (the out) (NotifyList d)) w2)))"
  by (subst KeyNotifyProcessHandler.simps) (simp add: Let_def split_beta)

lemma handler_tpl:
  assumes laws: "tpl_laws sv tpl" and inv: "queue_inv (EfiKeyQueueForNotify dev)"
  shows "\<exists>d w'. KeyNotifyProcessHandler sv u dev w = Some (d, w') \<and> tpl w' = tpl w"
  using inv
proof (induction "queue_list (EfiKeyQueueForNotify dev)" arbitrary: dev u w)
  case Nil
  then show ?case
    using laws
    by (subst handler_step) (simp add: Let_def split_beta pop_simps Nil.hyps [symmetric] tpl_laws_def)
next
  case (Cons k ks)
  let ?d = "dev\<lparr>EfiKeyQueueForNotify := queue_pop (EfiKeyQueueForNotify dev)\<rparr>"
  have tl: "ks = queue_list (EfiKeyQueueForNotify ?d)" "queue_inv (EfiKeyQueueForNotify ?d)"
    using queue_pop_list [OF Cons.prems] queue_pop_inv [OF Cons.prems] Cons.hyps(2) [symmetric] by simp_all
  define w2 where "w2 = snd (run_state (call_loop sv k (NotifyList dev)) (snd (run_state
    (RestoreTPL sv (fst (run_state (RaiseTPL sv TPL_NOTIFY) w))) (snd (run_state (RaiseTPL sv TPL_NOTIFY) w)))))"
  have "tpl w2 = tpl w"
    using laws by (simp add: w2_def call_loop_tpl [OF laws]) (simp add: tpl_laws_def)
  moreover have "KeyNotifyProcessHandler sv u dev w = KeyNotifyProcessHandler sv k ?d w2"
    using pop_simps [OF Cons.prems] Cons.hyps(2) [symmetric]
    by (subst handler_step) (simp add: Let_def split_beta w2_def)
  ultimately show ?case using Cons.hyps(1) [OF tl, of k w2] by simp
qed

section \<open>Notifications\<close>

text \<open>The calls one key gives: each matching registration, in the order of the list.\<close>

definition calls_for :: "notify_node list \<Rightarrow> efi_key_data \<Rightarrow> (nat \<times> efi_key_data) list" where
  "calls_for ns k = map (\<lambda>n. (KeyNotificationFn n, k)) (filter (\<lambda>n. IsKeyRegistered (NodeKeyData n) k) ns)"

text \<open>A log of the notification calls in the world; the priority services do not touch it.\<close>

definition records_calls :: "'w keypad_services \<Rightarrow> ('w \<Rightarrow> (nat \<times> efi_key_data) list) \<Rightarrow> bool" where
  "records_calls sv log \<longleftrightarrow>
     (\<forall>f k w. log (snd (run_state (CallNotification sv f k) w)) = log w @ [(f, k)]) \<and>
     (\<forall>n w. log (snd (run_state (RaiseTPL sv n) w)) = log w) \<and>
     (\<forall>n w. log (snd (run_state (RestoreTPL sv n) w)) = log w)"

lemma call_loop_log:
  "records_calls sv log \<Longrightarrow> log (snd (run_state (call_loop sv k ns) w)) = log w @ calls_for ns k"
  by (induction ns arbitrary: w) (simp_all add: calls_for_def records_calls_def run_bind_simps del: run_state_bind)

lemma handler_log:
  assumes log: "records_calls sv log" and inv: "queue_inv (EfiKeyQueueForNotify dev)"
  shows "\<exists>d w'. KeyNotifyProcessHandler sv u dev w = Some (d, w') \<and>
    log w' = log w @ concat (map (calls_for (NotifyList dev)) (queue_list (EfiKeyQueueForNotify dev))) \<and>
    queue_list (EfiKeyQueueForNotify d) = [] \<and> EfiKeyQueue d = EfiKeyQueue dev"
  using inv
proof (induction "queue_list (EfiKeyQueueForNotify dev)" arbitrary: dev u w)
  case Nil
  then show ?case
    using log
    by (subst KeyNotifyProcessHandler.simps)
      (simp add: Let_def split_beta pop_simps Nil.hyps [symmetric] records_calls_def)
next
  case (Cons k ks)
  let ?q = "queue_pop (EfiKeyQueueForNotify dev)"
  let ?d = "dev\<lparr>EfiKeyQueueForNotify := ?q\<rparr>"
  have tl: "queue_list ?q = ks" "queue_inv ?q"
    using queue_pop_list [OF Cons.prems] queue_pop_inv [OF Cons.prems] Cons.hyps(2) [symmetric] by simp_all
  define w0 where "w0 = snd (run_state (RaiseTPL sv TPL_NOTIFY) w)"
  define w1 where "w1 = snd (run_state (RestoreTPL sv (fst (run_state (RaiseTPL sv TPL_NOTIFY) w))) w0)"
  define w2 where "w2 = snd (run_state (call_loop sv k (NotifyList dev)) w1)"
  have "log w1 = log w" using log by (simp add: records_calls_def w1_def w0_def)
  then have w2: "log w2 = log w @ calls_for (NotifyList dev) k"
    using call_loop_log [OF log] by (simp add: w2_def)
  have step: "KeyNotifyProcessHandler sv u dev w = KeyNotifyProcessHandler sv k ?d w2"
    using pop_simps [OF Cons.prems] Cons.hyps(2) [symmetric]
    by (subst KeyNotifyProcessHandler.simps)
      (simp add: Let_def split_beta w2_def w1_def w0_def)
  have "ks = queue_list (EfiKeyQueueForNotify ?d)" "queue_inv (EfiKeyQueueForNotify ?d)" using tl by simp_all
  from Cons.hyps(1) [OF this, of k w2] tl w2 show ?case
    by (auto simp: step Cons.hyps(2) [symmetric])
qed

section \<open>Registrations\<close>

lemma registered_loop_append_fresh:
  "registered_loop k f ns = None \<Longrightarrow>
   registered_loop k f (ns @ [\<lparr> NodeHandle = p, NodeKeyData = k, KeyNotificationFn = f \<rparr>]) = Some p"
  by (induction ns) (auto simp: IsKeyRegistered_def split: if_splits)

lemma unregister_loop_append_fresh:
  "p \<notin> NodeHandle ` set ns \<Longrightarrow> NodeHandle n = p \<Longrightarrow> unregister_loop p (ns @ [n]) = Some ns"
  by (induction ns) auto

lemma unregister_loop_remove:
  "unregister_loop h ns = (if h \<in> NodeHandle ` set ns
     then Some (takeWhile (\<lambda>n. NodeHandle n \<noteq> h) ns @ tl (dropWhile (\<lambda>n. NodeHandle n \<noteq> h) ns)) else None)"
  by (induction ns) auto

section \<open>Properties\<close>

text \<open>A device record and services for the examples: the world is the priority and the log of
  notification calls; the device reports nothing and pools come from one address.\<close>

definition ex_dev :: keypad_dev where
  "ex_dev = \<lparr> WaitForKey = 1, WaitForKeyEx = 2, TimerEvent = 3, Last = 0, LeftCtrl = False, RightCtrl = False,
     LeftAlt = False, RightAlt = False, LeftShift = False, RightShift = False, LeftLogo = False,
     RightLogo = False, Menu = False, SysReq = False, CapsLock = False, NumLock = False,
     ScrollLock = False, IsSupportPartialKey = False, EfiKeyQueue = empty_queue,
     EfiKeyQueueForNotify = empty_queue, KeypadErr = False, ControllerNameTable = 0, NotifyList = [],
     KeyNotifyProcessEvent = 4 \<rparr>"

type_synonym ex_world = "nat \<times> (nat \<times> efi_key_data) list"

definition ex_kp_sv :: "efi_key_data list \<Rightarrow> ex_world keypad_services" where
  "ex_kp_sv keys = \<lparr>
     RaiseTPL = \<lambda>n. State (\<lambda>(t, l). (t, (n, l))),
     RestoreTPL = \<lambda>n. State (\<lambda>(t, l). ((), (n, l))),
     SignalEvent = \<lambda>_. State (\<lambda>w. ((), w)),
     kp_AllocateZeroPool = State (\<lambda>w. (0x1000, w)),
     kp_FreePool = \<lambda>_. State (\<lambda>w. ((), w)),
     GetPerformanceCounter = State (\<lambda>w. (5, w)),
     GetTimeInNanoSecond = \<lambda>t. t,
     GetKeys = \<lambda>_. State (\<lambda>w. (keys, w)),
     ResetKeypadDevice = State (\<lambda>w. ((), w)),
     CallNotification = \<lambda>f k. State (\<lambda>(t, l). ((), (t, l @ [(f, k)]))) \<rparr>"

lemma ex_dev_inv: "keypad_inv ex_dev"
  by (simp add: keypad_inv_def ex_dev_def empty_queue_inv)

lemma ex_kp_sv_tpl: "tpl_laws (ex_kp_sv ks) fst"
  by (simp add: tpl_laws_def keeps_tpl_def ex_kp_sv_def split_beta)

lemma ex_kp_sv_log: "records_calls (ex_kp_sv ks) snd"
  by (simp add: records_calls_def ex_kp_sv_def split_beta)

text \<open>C23. KeypadReadKeyStroke and KeypadWaitForKey return when partial keys are not enabled
  (their loops discard partial keys; a poll cannot add new ones). The read answers
  EFI_DEVICE_ERROR exactly when the keypad has failed, EFI_NOT_READY only with an empty queue,
  and never hands out a partial key; on an error the caller's key is not written.\<close>
theorem keypad_reads_return:
  assumes "keypad_inv dev" and "\<not> IsSupportPartialKey dev"
  shows "(\<exists>s d out w'. KeypadReadKeyStroke sv u dev old w = Some (s, d, out, w') \<and>
      keypad_inv d \<and> KeypadErr d = KeypadErr dev \<and>
      (if KeypadErr dev then s = EFI_DEVICE_ERROR \<and> out = old
       else s = EFI_NOT_READY \<and> out = old \<and> queue_list (EfiKeyQueue d) = [] \<or>
         s = EFI_SUCCESS \<and> (\<exists>k. \<not> partial_key k \<and> out = translate_ctrl k))) \<and>
    (\<exists>d w'. KeypadWaitForKey sv e dev w = Some (d, w') \<and> keypad_inv d)"
  using read_returns [OF assms, of sv u old w] wait_returns [OF assms(1), of sv e w]
  by (auto simp: read_answer_def)

theorem keypad_reads_return_witness:
  "\<exists>s d out w'. KeypadReadKeyStroke (ex_kp_sv [key_of 0 0, key_of 0 0x41]) (key_of 0 0) ex_dev
     (Key (key_of 9 9)) (4, []) = Some (s, d, out, w') \<and> s \<noteq> EFI_DEVICE_ERROR"
  using keypad_reads_return [OF ex_dev_inv, of "ex_kp_sv [key_of 0 0, key_of 0 0x41]" "key_of 0 0"
      "Key (key_of 9 9)" "(4, [])" 0]
  by (force simp: ex_dev_def)

text \<open>C24. When the device reports nothing new, KeypadReadKeyStroke answers with the first key of
  the queue that is not partial (its control characters translated), dropping the partial keys in
  front of it and keeping the keys behind it; this holds also with partial keys enabled.\<close>
theorem read_gives_first_real_key:
  assumes "\<And>t w. fst (run_state (GetKeys sv t) w) = []" and "keypad_inv dev" and "\<not> KeypadErr dev"
  shows "\<exists>d w'. KeypadReadKeyStroke sv u dev old w =
      (case dropWhile partial_key (queue_list (EfiKeyQueue dev)) of
         [] \<Rightarrow> Some (EFI_NOT_READY, d, old, w')
       | k # ks \<Rightarrow> Some (EFI_SUCCESS, d, translate_ctrl k, w')) \<and>
    queue_list (EfiKeyQueue d) = tl (dropWhile partial_key (queue_list (EfiKeyQueue dev)))"
  using assms by (rule read_quiet)

definition ex_dev_keys :: "efi_key_data list \<Rightarrow> keypad_dev" where
  "ex_dev_keys ks = ex_dev\<lparr> EfiKeyQueue := foldl PushEfikeyBufTail empty_queue ks \<rparr>"

lemma ex_dev_keys:
  "keypad_inv (ex_dev_keys ks)" "length ks \<le> 255 \<Longrightarrow> queue_list (EfiKeyQueue (ex_dev_keys ks)) = ks"
  using keyq.content_pushes [OF empty_queue_inv(1), of ks]
  by (simp_all add: ex_dev_keys_def keypad_inv_def ex_dev_def empty_queue_inv keyq.newest_def)

theorem read_gives_first_real_key_witness:
  "\<exists>d w'. KeypadReadKeyStroke (ex_kp_sv []) (key_of 0 0)
      (ex_dev_keys [key_of 0 0, (key_of 0 0x63)\<lparr> KeyShiftState := 8 \<rparr>, key_of 5 0]) (Key (key_of 9 9)) (4, [])
      = Some (EFI_SUCCESS, d, \<lparr> ScanCode = 0, UnicodeChar = 3 \<rparr>, w') \<and>
    queue_list (EfiKeyQueue d) = [key_of 5 0]"
proof -
  have quiet: "fst (run_state (GetKeys (ex_kp_sv []) t) w) = []" for t w
    by (simp add: ex_kp_sv_def)
  from read_gives_first_real_key [OF quiet ex_dev_keys(1), of "[key_of 0 0,
      (key_of 0 0x63)\<lparr> KeyShiftState := 8 \<rparr>, key_of 5 0]" "key_of 0 0" "Key (key_of 9 9)" "(4, [])"]
  show ?thesis
    by (simp add: ex_dev_keys(2) partial_key_def key_of_def translate_ctrl_def)
      (simp add: ex_dev_keys_def ex_dev_def)
qed

text \<open>C26. Every operation of the keypad driver that raises the task priority gives the caller's
  priority back, errors included: the timer handler, the readers, the reset, the lights, the
  two registration functions, the handler of the wait events, and the handler that calls the
  notification functions, which themselves have to come back at the priority they are
  called at. The readers and handlers that loop return (the simple reader while partial keys
  are disabled).\<close>
theorem keypad_restores_priority:
  assumes "tpl_laws sv tpl" and "keypad_inv dev"
  shows "keeps_tpl tpl (KeypadTimerHandler sv dev) \<and>
    keeps_tpl tpl (KeypadReadKeyStrokeWorker sv dev kd) \<and>
    keeps_tpl tpl (KeypadReadKeyStrokeEx sv dev kd) \<and>
    keeps_tpl tpl (KeypadEfiReset sv dev ext) \<and>
    keeps_tpl tpl (KeypadSetState sv dev ts) \<and>
    keeps_tpl tpl (KeypadRegisterKeyNotify sv dev kd fn h) \<and>
    keeps_tpl tpl (KeypadUnregisterKeyNotify sv dev h') \<and>
    (\<exists>d w'. KeypadWaitForKey sv e dev w = Some (d, w') \<and> tpl w' = tpl w) \<and>
    (\<exists>d w'. KeypadWaitForKeyEx sv e dev w = Some (d, w') \<and> tpl w' = tpl w) \<and>
    (\<exists>d w'. KeyNotifyProcessHandler sv u dev w = Some (d, w') \<and> tpl w' = tpl w) \<and>
    (\<not> IsSupportPartialKey dev \<longrightarrow>
      (\<exists>s d out w'. KeypadReadKeyStroke sv u dev old w = Some (s, d, out, w') \<and> tpl w' = tpl w))"
proof -
  obtain d w' where wait: "KeypadWaitForKey sv e dev w = Some (d, w')"
    using wait_returns [OF assms(2), of sv e w] by blast
  have "keeps_tpl tpl (KeypadReadKeyStrokeEx sv dev kd)"
    using keypad_operations_tpl(2) [OF assms(1)] by (simp add: KeypadReadKeyStrokeEx_def keeps_tpl_def)
  moreover have "queue_inv (EfiKeyQueueForNotify dev)" using assms(2) by (simp add: keypad_inv_def)
  ultimately show ?thesis
    using keypad_operations_tpl [OF assms(1)] wait wait_tpl [OF assms(1) wait]
      handler_tpl [OF assms(1), of dev u w] read_tpl [OF assms, of u old w]
    by (simp add: KeypadWaitForKeyEx_def)
qed

theorem keypad_restores_priority_witness:
  "keeps_tpl fst (KeypadUnregisterKeyNotify (ex_kp_sv []) ex_dev 0x1000) \<and>
   (\<exists>d w'. KeypadWaitForKey (ex_kp_sv [key_of 5 0]) 0 ex_dev (4, []) = Some (d, w') \<and> fst w' = 4)"
  using keypad_restores_priority [OF ex_kp_sv_tpl ex_dev_inv]
  by (metis fst_conv)

text \<open>C27. Key notifications: after a key that m registrations match arrives and
  KeyNotifyProcessHandler runs, every matching function has been called with the key, in the
  order of registration, and this whole round is repeated m times, because the callback queues
  the key once for each matching registration: m * m calls for one key press.\<close>
theorem notification_calls:
  assumes "records_calls sv log" and "queue_inv (EfiKeyQueueForNotify dev)"
    and "queue_list (EfiKeyQueueForNotify dev) = []" and "\<not> partial_key k"
    and "length (matching dev k) \<le> 255"
  shows "\<exists>d w'. KeyNotifyProcessHandler sv u (fst (run_state (KeypadReturnApiPushEfikeyBufTail sv dev k) w0)) w
      = Some (d, w') \<and>
    log w' = log w @ concat (replicate (length (matching dev k)) (calls_for (NotifyList dev) k)) \<and>
    length (log w') = length (log w) + (length (matching dev k))\<^sup>2"
proof -
  let ?d = "receive [k] dev"
  let ?ks = "replicate (length (matching dev k)) k"
  have q: "queue_inv (EfiKeyQueueForNotify ?d) \<and> queue_list (EfiKeyQueueForNotify ?d) = ?ks"
    using keyq.content_pushes [OF assms(2), of ?ks] assms(3-5)
    by (simp add: receive_def announced_def accepted_def keyq.newest_def)
  from handler_log [OF assms(1) conjunct1 [OF q], of u w]
  obtain d w' where r: "KeyNotifyProcessHandler sv u (receive [k] dev) w = Some (d, w')"
    "log w' = log w @ concat (replicate (length (matching dev k)) (calls_for (NotifyList dev) k))"
    using q by auto
  have "length (calls_for (NotifyList dev) k) = length (matching dev k)"
    by (simp add: calls_for_def matching_def)
  then show ?thesis
    using r by (simp add: callback_dev length_concat sum_list_replicate power2_eq_square)
qed

definition ex_dev_two :: keypad_dev where
  "ex_dev_two = ex_dev\<lparr> NotifyList :=
     [\<lparr> NodeHandle = 1, NodeKeyData = key_of 5 0, KeyNotificationFn = 1 \<rparr>,
      \<lparr> NodeHandle = 2, NodeKeyData = key_of 5 0, KeyNotificationFn = 2 \<rparr>] \<rparr>"

theorem notification_calls_witness:
  "\<exists>d w'. KeyNotifyProcessHandler (ex_kp_sv []) (key_of 0 0)
      (fst (run_state (KeypadReturnApiPushEfikeyBufTail (ex_kp_sv []) ex_dev_two (key_of 5 0)) (4, []))) (4, [])
      = Some (d, w') \<and> map fst (snd w') = [1, 2, 1, 2]"
proof -
  have inv: "queue_inv (EfiKeyQueueForNotify ex_dev_two)" "queue_list (EfiKeyQueueForNotify ex_dev_two) = []"
    by (simp_all add: ex_dev_two_def ex_dev_def empty_queue_inv)
  have k: "\<not> partial_key (key_of 5 0)" by (simp add: partial_key_def key_of_def)
  have m: "matching ex_dev_two (key_of 5 0) = NotifyList ex_dev_two"
    by (simp add: matching_def ex_dev_two_def IsKeyRegistered_def)
  have "length (matching ex_dev_two (key_of 5 0)) \<le> 255" unfolding m by (simp add: ex_dev_two_def)
  from notification_calls [OF ex_kp_sv_log inv k this, of "[]" "key_of 0 0" "(4, [])" "(4, [])"] m
  show ?thesis
    by (auto simp: calls_for_def ex_dev_two_def IsKeyRegistered_def numeral_2_eq_2)
qed

text \<open>C25. Registering a key notification that no registration covers, with a fresh pool address,
  answers success with that address as the handle; registering the same key and function again
  answers the same handle without a second entry; unregistering the handle restores the list.\<close>
theorem register_unregister_roundtrip:
  assumes "registered_loop k f (NotifyList dev) = None"
    and "\<And>w. fst (run_state (kp_AllocateZeroPool sv) w) = p"
    and "p \<noteq> 0" and "p \<notin> NodeHandle ` set (NotifyList dev)"
  shows "\<exists>d. fst (run_state (KeypadRegisterKeyNotify sv dev (Some k) (Some f) (Some old)) w)
      = (EFI_SUCCESS, d, Some p) \<and>
    fst (run_state (KeypadRegisterKeyNotify sv d (Some k) (Some f) (Some old)) w2)
      = (EFI_SUCCESS, d, Some p) \<and>
    fst (run_state (KeypadUnregisterKeyNotify sv d p) w3) = (EFI_SUCCESS, dev)"
proof -
  let ?d = "dev\<lparr> NotifyList := NotifyList dev @
    [\<lparr> NodeHandle = p, NodeKeyData = k, KeyNotificationFn = f \<rparr>] \<rparr>"
  have "fst (run_state (KeypadRegisterKeyNotify sv dev (Some k) (Some f) (Some old)) w) = (EFI_SUCCESS, ?d, Some p)"
    using assms by (simp add: KeypadRegisterKeyNotify_def run_bind_simps del: run_state_bind)
  moreover have "fst (run_state (KeypadRegisterKeyNotify sv ?d (Some k) (Some f) (Some old)) w2)
      = (EFI_SUCCESS, ?d, Some p)"
    using registered_loop_append_fresh [OF assms(1), of p]
    by (simp add: KeypadRegisterKeyNotify_def run_bind_simps del: run_state_bind)
  moreover have "fst (run_state (KeypadUnregisterKeyNotify sv ?d p) w3) = (EFI_SUCCESS, dev)"
    using unregister_loop_append_fresh [OF assms(4)] assms(3)
    by (simp add: KeypadUnregisterKeyNotify_def run_bind_simps del: run_state_bind)
  ultimately show ?thesis by blast
qed

theorem register_unregister_roundtrip_witness:
  "\<exists>d. fst (run_state (KeypadRegisterKeyNotify (ex_kp_sv []) ex_dev_two (Some (key_of 6 0)) (Some 1) (Some 0))
      (4, [])) = (EFI_SUCCESS, d, Some 0x1000) \<and>
    fst (run_state (KeypadUnregisterKeyNotify (ex_kp_sv []) d 0x1000) (4, [])) = (EFI_SUCCESS, ex_dev_two)"
  using register_unregister_roundtrip [of "key_of 6 0" 1 ex_dev_two "ex_kp_sv []" "0x1000" 0 "(4, [])" "(4, [])"
      "(4, [])"]
  by (auto simp: ex_dev_two_def IsKeyRegistered_def key_of_def ex_kp_sv_def)

end
