(* ===== verification/MtkClock.thy ===== *)
theory MtkClock
  imports MemoryMap
begin

text \<open>
  The MediaTek clock driver, \<open>MediaTekPkg/Drivers/ClockDxe/ClockDxe.c\<close>, over the clock tables of
  \<open>ClockImplLib\<close> (types of \<open>Include/Library/ClockImplLib.h\<close>).

  \<open>MTK_CLOCK_DESC\<close> is a tagged union: the tag and the member are one datatype, so the default
  branches of the switches (a tag outside the enumeration) have no counterpart. The table
  \<open>gClocks\<close> is an argument, and so are the memory-mapped registers, the delays and the
  base library's \<open>LowBitSet32\<close> (\<open>clock_services\<close>).

  A clock refers to its parents by id, so the operations recurse through the table and are
  partial functions; \<open>None\<close> means that the call does not return: the parents form a cycle, or a
  run-time assertion or an array bound is violated. \<open>BIT\<close> follows the AArch64 instruction for
  amounts of 32 and more; the other shifts by the width or more, undefined in C and absent from the
  tables, give 0 here. Dividing by zero gives 0, as the AArch64 instruction does.
\<close>

section \<open>Types\<close>

datatype mtk_clock_controller_type = ClkApMixed | ClkTopCkGen | ClkInfraCfgAo | ClkMax

record mtk_gate_desc =
  GateSetOffset :: u32
  GateClearOffset :: u32
  StatusOffset :: u32
  GateShift :: u8
  Inverted :: bool
  GateParent :: u32

record mtk_mux_gate_desc =
  MuxOffset :: u32
  MuxSetOffset :: u32
  MuxClearOffset :: u32
  UpdateOffset :: u32
  MuxShift :: u8
  MuxWidth :: u8
  MuxGateShift :: u8
  UpdateShift :: u8
  Parents :: "u32 list"
  ParentCount :: u32

record mtk_pll_desc =
  BaseOffset :: u32
  PowerOffset :: u32
  EnMask :: u32
  ResetBarMask :: u32
  PostDivOffset :: u32
  PostDivShift :: u8
  FMax :: u64
  FMin :: u64
  PcwOffset :: u32
  PcwShift :: u8
  PcwBits :: u8
  PcwiBits :: u8
  PllParent :: u32

record mtk_factor_desc =
  FactorParent :: u32
  Mult :: u32
  Div :: u32

datatype mtk_clock_type =
    ClockTypeFixed u64
  | ClockTypePll mtk_pll_desc
  | ClockTypeMux mtk_mux_gate_desc
  | ClockTypeMuxGate mtk_mux_gate_desc
  | ClockTypeFactors mtk_factor_desc
  | ClockTypeGate mtk_gate_desc

record mtk_clock_desc =
  ClockId :: u32
  ClockName :: string
  Controller :: mtk_clock_controller_type
  ClockType :: mtk_clock_type

type_synonym clock = mtk_clock_desc

record 'w clock_services =
  MmioRead32 :: "u64 \<Rightarrow> ('w, u32) state"
  MmioWrite32 :: "u64 \<Rightarrow> u32 \<Rightarrow> ('w, unit) state"
  MicroSecondDelay :: "nat \<Rightarrow> ('w, unit) state"
  LowBitSet32 :: "u32 \<Rightarrow> int"

type_synonym controllers = "mtk_clock_controller_type \<Rightarrow> region"

section \<open>Macros\<close>

text \<open>C leaves a shift of an \<open>int\<close> by 32 or more undefined; the AArch64 instruction that shifts by a
  register takes the amount modulo 32.\<close>

definition BIT :: "u8 \<Rightarrow> u32" where
  "BIT x = push_bit (unat x mod 32) 1"

definition GENMASK :: "int \<Rightarrow> int \<Rightarrow> u64" where
  "GENMASK h l = (NOT 0 - (push_bit (nat l) 1 - 1)) AND drop_bit (nat (63 - h)) (NOT 0)"

definition REG_CON0 :: u32 where "REG_CON0 = 0"
definition CON0_PWR_ON :: u32 where "CON0_PWR_ON = BIT 0"
definition CON0_ISO_EN :: u32 where "CON0_ISO_EN = BIT 1"
definition POSTDIV_MASK :: u64 where "POSTDIV_MASK = GENMASK 2 0"

section \<open>Registers\<close>

type_synonym ('w, 'a) run = "'w \<Rightarrow> ('a \<times> 'w) option"

definition ClockRead ::
    "'w clock_services \<Rightarrow> controllers \<Rightarrow> mtk_clock_controller_type \<Rightarrow> u32 \<Rightarrow> ('w, u32) run" where
  "ClockRead sv mr c reg w =
     (if c = ClkMax then None
      else Some (run_state (MmioRead32 sv (Address (mr c) + ucast reg)) w))"

definition ClockWrite ::
    "'w clock_services \<Rightarrow> controllers \<Rightarrow> mtk_clock_controller_type \<Rightarrow> u32 \<Rightarrow> u32 \<Rightarrow> ('w, unit) run" where
  "ClockWrite sv mr c reg v w =
     (if c = ClkMax then None
      else Some (run_state (MmioWrite32 sv (Address (mr c) + ucast reg) v) w))"

text \<open>Read a register, change the value, write it back.\<close>

definition clock_update ::
    "'w clock_services \<Rightarrow> controllers \<Rightarrow> mtk_clock_controller_type \<Rightarrow> u32 \<Rightarrow> (u32 \<Rightarrow> u32) \<Rightarrow> ('w, unit) run" where
  "clock_update sv mr c reg f w =
     Option.bind (ClockRead sv mr c reg w) (\<lambda>(v, w). ClockWrite sv mr c reg (f v) w)"

definition delay :: "'w clock_services \<Rightarrow> nat \<Rightarrow> 'w \<Rightarrow> 'w" where
  "delay sv n w = snd (run_state (MicroSecondDelay sv n) w)"

section \<open>Looking up clocks\<close>

fun clock_by_name_loop :: "(string \<Rightarrow> string \<Rightarrow> int) \<Rightarrow> string \<Rightarrow> clock list \<Rightarrow> unit \<Rightarrow> clock option" where
  "clock_by_name_loop strcmp name [] u = None"
| "clock_by_name_loop strcmp name (c # cs) u =
     (if strcmp (ClockName c) name = 0 then Some c else clock_by_name_loop strcmp name cs u)"

definition ClockGetByName :: "(string \<Rightarrow> string \<Rightarrow> int) \<Rightarrow> clock list \<Rightarrow> string option \<Rightarrow> clock option" where
  "ClockGetByName strcmp clocks name =
     (case name of None \<Rightarrow> None | Some n \<Rightarrow> clock_by_name_loop strcmp n clocks ())"

fun clock_by_id_loop :: "u32 \<Rightarrow> clock list \<Rightarrow> unit \<Rightarrow> clock option" where
  "clock_by_id_loop i [] u = None"
| "clock_by_id_loop i (c # cs) u = (if ClockId c = i then Some c else clock_by_id_loop i cs u)"

definition ClockGetById :: "clock list \<Rightarrow> u32 \<Rightarrow> clock option" where
  "ClockGetById clocks i = clock_by_id_loop i clocks ()"

definition ClockGetId ::
    "(string \<Rightarrow> string \<Rightarrow> int) \<Rightarrow> clock list \<Rightarrow> string option \<Rightarrow> u32 option \<Rightarrow> efi_status \<times> u32 option" where
  "ClockGetId strcmp clocks name out =
     (case ClockGetByName strcmp clocks name of
        None \<Rightarrow> (EFI_INVALID_PARAMETER, out)
      | Some c \<Rightarrow> if out = None then (EFI_INVALID_PARAMETER, out) else (EFI_SUCCESS, Some (ClockId c)))"

definition ClockGetName ::
    "clock list \<Rightarrow> u32 \<Rightarrow> string option \<Rightarrow> efi_status \<times> string option" where
  "ClockGetName clocks i out =
     (case ClockGetById clocks i of
        None \<Rightarrow> (EFI_INVALID_PARAMETER, out)
      | Some c \<Rightarrow> if out = None then (EFI_INVALID_PARAMETER, out) else (EFI_SUCCESS, Some (ClockName c)))"

interpretation clock_by_name: first_match
  "\<lambda>name c. strcmp (ClockName c) name = 0" "\<lambda>c _. Some c" "\<lambda>_. None" "clock_by_name_loop strcmp"
  for strcmp :: "string \<Rightarrow> string \<Rightarrow> int"
  by unfold_locales auto

interpretation clock_by_id: first_match
  "\<lambda>i c. ClockId c = i" "\<lambda>c _. Some c" "\<lambda>_. None" clock_by_id_loop
  by unfold_locales auto

lemma ClockGetById_SomeD: "ClockGetById clocks i = Some c \<Longrightarrow> c \<in> set clocks \<and> ClockId c = i"
  by (cases rule: clock_by_id.locate_cases [of clocks i "()"]) (auto simp: ClockGetById_def)

section \<open>Parents of multiplexers\<close>

definition ClockGetParent ::
    "'w clock_services \<Rightarrow> controllers \<Rightarrow> clock list \<Rightarrow> u32 \<Rightarrow> u32 option
      \<Rightarrow> ('w, efi_status \<times> u32 option) run" where
  "ClockGetParent sv mr clocks i out w =
     (case ClockGetById clocks i of
        None \<Rightarrow> Some ((EFI_INVALID_PARAMETER, out), w)
      | Some c \<Rightarrow>
          (let get = (\<lambda>m.
             if out = None then Some ((EFI_INVALID_PARAMETER, out), w)
             else Option.bind (ClockRead sv mr (Controller c) (MuxOffset m) w) (\<lambda>(v, w).
               let v = ucast (ucast (drop_bit (unat (MuxShift m)) v) AND GENMASK (uint (MuxWidth m) - 1) 0) :: u32
               in if v \<ge> ParentCount m then Some ((EFI_DEVICE_ERROR, out), w)
                  else if unat v < length (Parents m)
                  then Some ((EFI_SUCCESS, Some (Parents m ! unat v)), w) else None))
           in case ClockType c of
                ClockTypeMuxGate m \<Rightarrow> get m
              | ClockTypeMux m \<Rightarrow> get m
              | _ \<Rightarrow> Some ((EFI_UNSUPPORTED, out), w)))"

text \<open>The search for the parent; the index is \<open>ParentCount\<close> when there is none.\<close>

fun parent_index :: "u32 \<Rightarrow> u32 list \<Rightarrow> nat \<Rightarrow> nat \<Rightarrow> nat option" where
  "parent_index p ps 0 k = Some k"
| "parent_index p [] (Suc n) k = None"
| "parent_index p (q # ps) (Suc n) k = (if p = q then Some k else parent_index p ps n (Suc k))"

definition ClockSetParent ::
    "'w clock_services \<Rightarrow> controllers \<Rightarrow> clock list \<Rightarrow> u32 \<Rightarrow> u32 \<Rightarrow> ('w, efi_status) run" where
  "ClockSetParent sv mr clocks i p w =
     (case ClockGetById clocks i of
        None \<Rightarrow> Some (EFI_INVALID_PARAMETER, w)
      | Some c \<Rightarrow>
          (let set_parent = (\<lambda>m.
             let Mask = ucast (GENMASK (uint (MuxWidth m) - 1) 0) :: u32; s = unat (MuxShift m) in
             Option.bind (parent_index p (Parents m) (unat (ParentCount m)) 0) (\<lambda>Index.
               if Index = unat (ParentCount m) then Some (EFI_INVALID_PARAMETER, w)
               else let bits = ucast (push_bit s (of_nat Index :: u64)) :: u32 in
                 Option.bind (ClockRead sv mr (Controller c) (MuxOffset m) w) (\<lambda>(Orig, w).
                   let v = (Orig AND NOT (push_bit s Mask)) OR bits
                   in if Orig \<noteq> v then
                        Option.bind (ClockWrite sv mr (Controller c) (MuxClearOffset m) (push_bit s Mask) w) (\<lambda>(_, w).
                        Option.bind (ClockWrite sv mr (Controller c) (MuxSetOffset m) bits w) (\<lambda>(_, w).
                          if UpdateOffset m \<noteq> 0 then
                            Option.bind (ClockWrite sv mr (Controller c) (UpdateOffset m) (BIT (UpdateShift m)) w)
                              (\<lambda>(_, w). Some (EFI_SUCCESS, w))
                          else Some (EFI_SUCCESS, w)))
                      else Some (EFI_SUCCESS, w))))
           in case ClockType c of
                ClockTypeMuxGate m \<Rightarrow> set_parent m
              | ClockTypeMux m \<Rightarrow> set_parent m
              | _ \<Rightarrow> Some (EFI_UNSUPPORTED, w)))"

section \<open>Enabling and disabling\<close>

text \<open>The register writes of the PLL branch.\<close>

definition pll_enable ::
    "'w clock_services \<Rightarrow> controllers \<Rightarrow> mtk_clock_controller_type \<Rightarrow> mtk_pll_desc \<Rightarrow> ('w, unit) run" where
  "pll_enable sv mr c p w =
     Option.bind (clock_update sv mr c (PowerOffset p) (\<lambda>v. v OR CON0_PWR_ON) w) (\<lambda>(_, w).
     Option.bind (clock_update sv mr c (PowerOffset p) (\<lambda>v. v AND NOT CON0_ISO_EN) (delay sv 1 w)) (\<lambda>(_, w).
     Option.bind (clock_update sv mr c (BaseOffset p + REG_CON0) (\<lambda>v. v OR EnMask p) (delay sv 1 w)) (\<lambda>(_, w).
       let w = delay sv 20 w in
       if ResetBarMask p \<noteq> 0
       then clock_update sv mr c (BaseOffset p + REG_CON0) (\<lambda>v. v OR ResetBarMask p) w
       else Some ((), w))))"

definition pll_disable ::
    "'w clock_services \<Rightarrow> controllers \<Rightarrow> mtk_clock_controller_type \<Rightarrow> mtk_pll_desc \<Rightarrow> ('w, unit) run" where
  "pll_disable sv mr c p w =
     Option.bind (if ResetBarMask p \<noteq> 0
       then clock_update sv mr c (BaseOffset p + REG_CON0) (\<lambda>v. v AND NOT (ResetBarMask p)) w
       else Some ((), w)) (\<lambda>(_, w).
     Option.bind (clock_update sv mr c (BaseOffset p + REG_CON0) (\<lambda>v. v AND NOT (EnMask p)) w) (\<lambda>(_, w).
     Option.bind (clock_update sv mr c (PowerOffset p) (\<lambda>v. v OR CON0_ISO_EN) w) (\<lambda>(_, w).
       clock_update sv mr c (PowerOffset p) (\<lambda>v. v AND NOT CON0_PWR_ON) w)))"

text \<open>The register writes of the gate branch.\<close>

definition single_register :: "mtk_gate_desc \<Rightarrow> bool" where
  "single_register g = (GateSetOffset g = GateClearOffset g \<and> StatusOffset g = GateClearOffset g)"

definition gate_switch ::
    "'w clock_services \<Rightarrow> controllers \<Rightarrow> mtk_clock_controller_type \<Rightarrow> mtk_gate_desc \<Rightarrow> bool \<Rightarrow> ('w, unit) run" where
  "gate_switch sv mr c g Enable w =
     (let Enable = (if Inverted g then \<not> Enable else Enable) in
      if single_register g then
        clock_update sv mr c (StatusOffset g)
          (\<lambda>v. if Enable then v OR BIT (GateShift g) else v AND NOT (BIT (GateShift g))) w
      else
        ClockWrite sv mr c (if Enable then GateClearOffset g else GateSetOffset g) (BIT (GateShift g)) w)"

partial_function (option) ClockSetEnable ::
    "'w clock_services \<Rightarrow> controllers \<Rightarrow> clock list \<Rightarrow> u32 \<Rightarrow> bool \<Rightarrow> ('w, efi_status) run" where
  "ClockSetEnable sv mr clocks i Enable w =
     (case ClockGetById clocks i of
        None \<Rightarrow> Some (EFI_INVALID_PARAMETER, w)
      | Some c \<Rightarrow>
          (case ClockType c of
             ClockTypeFixed f \<Rightarrow> Some (EFI_SUCCESS, w)
           | ClockTypePll p \<Rightarrow>
               Option.bind (ClockSetEnable sv mr clocks (PllParent p) Enable w) (\<lambda>(s, w).
                 if EFI_ERROR s then Some (s, w)
                 else Option.bind (if Enable then pll_enable sv mr (Controller c) p w
                                   else pll_disable sv mr (Controller c) p w)
                        (\<lambda>(_, w). Some (EFI_SUCCESS, w)))
           | ClockTypeMux m \<Rightarrow>
               Option.bind (ClockGetParent sv mr clocks (ClockId c) (Some 0) w) (\<lambda>((s, v), w).
                 if EFI_ERROR s then Some (s, w)
                 else Option.bind (ClockSetEnable sv mr clocks (the v) Enable w) (\<lambda>(s, w).
                   if EFI_ERROR s then Some (s, w) else Some (EFI_SUCCESS, w)))
           | ClockTypeMuxGate m \<Rightarrow>
               Option.bind (ClockGetParent sv mr clocks (ClockId c) (Some 0) w) (\<lambda>((s, v), w).
                 if EFI_ERROR s then Some (s, w)
                 else Option.bind (ClockSetEnable sv mr clocks (the v) Enable w) (\<lambda>(s, w).
                   if EFI_ERROR s then Some (s, w)
                   else Option.bind (ClockWrite sv mr (Controller c)
                          (if Enable then MuxClearOffset m else MuxSetOffset m) (BIT (MuxGateShift m)) w)
                        (\<lambda>(_, w). Some (EFI_SUCCESS, w))))
           | ClockTypeFactors f \<Rightarrow> ClockSetEnable sv mr clocks (FactorParent f) Enable w
           | ClockTypeGate g \<Rightarrow>
               Option.bind (ClockSetEnable sv mr clocks (GateParent g) Enable w) (\<lambda>(s, w).
                 if EFI_ERROR s then Some (s, w)
                 else Option.bind (gate_switch sv mr (Controller c) g Enable w)
                        (\<lambda>(_, w). Some (EFI_SUCCESS, w)))))"

partial_function (option) ClockIsEnabled ::
    "'w clock_services \<Rightarrow> controllers \<Rightarrow> clock list \<Rightarrow> u32 \<Rightarrow> bool option \<Rightarrow> 'w
      \<Rightarrow> ((efi_status \<times> bool option) \<times> 'w) option" where
  "ClockIsEnabled sv mr clocks i out w =
     (case ClockGetById clocks i of
        None \<Rightarrow> Some ((EFI_INVALID_PARAMETER, out), w)
      | Some c \<Rightarrow>
          if out = None then Some ((EFI_INVALID_PARAMETER, out), w)
          else (case ClockType c of
             ClockTypeFixed f \<Rightarrow> Some ((EFI_SUCCESS, Some True), w)
           | ClockTypeMux m \<Rightarrow> Some ((EFI_SUCCESS, Some True), w)
           | ClockTypePll p \<Rightarrow>
               Option.bind (ClockRead sv mr (Controller c) (BaseOffset p + REG_CON0) w) (\<lambda>(v, w).
                 Some ((EFI_SUCCESS, Some (v AND EnMask p \<noteq> 0)), w))
           | ClockTypeMuxGate m \<Rightarrow>
               Option.bind (ClockRead sv mr (Controller c) (MuxOffset m) w) (\<lambda>(v, w).
                 Some ((EFI_SUCCESS, Some (v AND BIT (MuxGateShift m) = 0)), w))
           | ClockTypeFactors f \<Rightarrow> ClockIsEnabled sv mr clocks (FactorParent f) out w
           | ClockTypeGate g \<Rightarrow>
               Option.bind (ClockRead sv mr (Controller c) (StatusOffset g) w) (\<lambda>(v, w).
                 let e = (v AND BIT (GateShift g) = 0)
                 in Some ((EFI_SUCCESS, Some (if Inverted g then \<not> e else e)), w))))"

section \<open>Frequencies\<close>

text \<open>The output of a PLL from the frequency of its parent and the values of its two registers.\<close>

definition pll_rate :: "mtk_pll_desc \<Rightarrow> u32 \<Rightarrow> u32 \<Rightarrow> u64 \<Rightarrow> u64" where
  "pll_rate p div_reg pcw_reg parent =
     (let PostDiv = ucast (push_bit (unat (ucast (drop_bit (unat (PostDivShift p)) div_reg) AND POSTDIV_MASK)) (1 :: u32)) :: u64;
          Pcw = ucast (pcw_reg AND ucast (GENMASK (uint (PcwBits p) - 1) 0)) :: u64;
          PcwfBits = ucast (PcwBits p) - ucast (PcwiBits p) :: u32;
          Vco = drop_bit (unat PcwfBits) (parent * Pcw);
          f = (Vco + PostDiv - 1) div PostDiv
      in (f + 50000) div 100000 * 100000)"

partial_function (option) ClockGetFrequency ::
    "'w clock_services \<Rightarrow> controllers \<Rightarrow> clock list \<Rightarrow> u32 \<Rightarrow> u64 option \<Rightarrow> 'w
      \<Rightarrow> ((efi_status \<times> u64 option) \<times> 'w) option" where
  "ClockGetFrequency sv mr clocks i out w =
     (case ClockGetById clocks i of
        None \<Rightarrow> Some ((EFI_INVALID_PARAMETER, out), w)
      | Some c \<Rightarrow>
          if out = None then Some ((EFI_INVALID_PARAMETER, out), w)
          else (case ClockType c of
             ClockTypeFixed f \<Rightarrow> Some ((EFI_SUCCESS, Some f), w)
           | ClockTypePll p \<Rightarrow>
               Option.bind (ClockRead sv mr (Controller c) (PostDivOffset p) w) (\<lambda>(d, w).
               Option.bind (ClockRead sv mr (Controller c) (PcwOffset p) w) (\<lambda>(n, w).
               Option.bind (ClockGetFrequency sv mr clocks (PllParent p) (Some 0) w) (\<lambda>((s, vco), w).
                 if EFI_ERROR s then Some ((s, out), w)
                 else Some ((EFI_SUCCESS, Some (pll_rate p d n (the vco))), w))))
           | ClockTypeMux m \<Rightarrow>
               Option.bind (ClockGetParent sv mr clocks (ClockId c) (Some 0) w) (\<lambda>((s, v), w).
                 if EFI_ERROR s then Some ((s, out), w)
                 else ClockGetFrequency sv mr clocks (the v) out w)
           | ClockTypeMuxGate m \<Rightarrow>
               Option.bind (ClockGetParent sv mr clocks (ClockId c) (Some 0) w) (\<lambda>((s, v), w).
                 if EFI_ERROR s then Some ((s, out), w)
                 else ClockGetFrequency sv mr clocks (the v) out w)
           | ClockTypeFactors f \<Rightarrow>
               Option.bind (ClockGetFrequency sv mr clocks (FactorParent f) out w) (\<lambda>((s, out), w).
                 if EFI_ERROR s then Some ((s, out), w)
                 else Some ((EFI_SUCCESS, Some (the out * ucast (Mult f) div ucast (Div f))), w))
           | ClockTypeGate g \<Rightarrow> ClockGetFrequency sv mr clocks (GateParent g) out w))"

text \<open>The search for the post divider: \<open>Value\<close> and \<open>PostDiv\<close> after the loop, from \<open>Value\<close> on
  (at most five rounds).\<close>

fun post_div_loop :: "nat \<Rightarrow> u64 \<Rightarrow> u64 \<Rightarrow> nat \<Rightarrow> u32 \<Rightarrow> nat \<times> u32" where
  "post_div_loop 0 f fmin v d = (v, d)"
| "post_div_loop (Suc n) f fmin v d =
     (if f * ucast (push_bit v 1 :: u32) \<ge> fmin then (v, push_bit v 1)
      else post_div_loop n f fmin (Suc v) (push_bit v 1))"

definition PllCalcValues ::
    "'w clock_services \<Rightarrow> controllers \<Rightarrow> clock list \<Rightarrow> clock option \<Rightarrow> u64 \<Rightarrow> u32 option \<Rightarrow> u32 option \<Rightarrow> 'w
      \<Rightarrow> ((efi_status \<times> u32 option \<times> u32 option) \<times> 'w) option" where
  "PllCalcValues sv mr clocks Clock Frequency PcwResult PostDivResult w =
     (if Clock = None \<or> PcwResult = None \<or> PostDivResult = None
      then Some ((EFI_INVALID_PARAMETER, PcwResult, PostDivResult), w)
      else (case ClockType (the Clock) of
          ClockTypePll p \<Rightarrow>
            (let f = (if Frequency > FMax p then FMax p else Frequency);
                 (v, d) = post_div_loop 5 f (FMin p) 0 0
             in Option.bind (ClockGetFrequency sv mr clocks (PllParent p) (Some 0) w) (\<lambda>((s, par), w).
               if EFI_ERROR s then Some ((s, PcwResult, PostDivResult), w)
               else
                 let shift = unat (ucast (PcwBits p) - ucast (PcwiBits p) :: u32);
                     pcw = push_bit shift (push_bit v f) div the par
                 in Some ((EFI_SUCCESS, Some (ucast pcw), Some d), w)))
        | _ \<Rightarrow> Some ((EFI_INVALID_PARAMETER, PcwResult, PostDivResult), w)))"

definition ClockSetFrequency ::
    "'w clock_services \<Rightarrow> controllers \<Rightarrow> clock list \<Rightarrow> u32 \<Rightarrow> u64 \<Rightarrow> ('w, efi_status) run" where
  "ClockSetFrequency sv mr clocks i Frequency w =
     (case ClockGetById clocks i of
        None \<Rightarrow> Some (EFI_INVALID_PARAMETER, w)
      | Some c \<Rightarrow>
          (case ClockType c of
             ClockTypePll p \<Rightarrow>
               Option.bind (PllCalcValues sv mr clocks (Some c) Frequency (Some 0) (Some 0) w) (\<lambda>((s, pcw, d), w).
                 if EFI_ERROR s then Some (s, w)
                 else Option.bind (ClockRead sv mr (Controller c) (PostDivOffset p) w) (\<lambda>(v, w).
                   let v = v AND NOT (ucast (push_bit (unat (PostDivShift p)) POSTDIV_MASK));
                       v = v OR ucast (push_bit (unat (PostDivShift p)) (word_of_int (LowBitSet32 sv (the d)) :: u64))
                   in Option.bind
                        (if PostDivOffset p \<noteq> PcwOffset p then
                           Option.bind (ClockWrite sv mr (Controller c) (PostDivOffset p) v w) (\<lambda>(_, w).
                             ClockRead sv mr (Controller c) (PcwOffset p) w)
                         else Some (v, w)) (\<lambda>(v, w).
                      let v = v AND NOT (ucast (GENMASK (uint (PcwShift p) + uint (PcwBits p) - 1) (uint (PcwShift p))));
                          v = v OR push_bit (unat (PcwShift p)) (the pcw)
                      in Option.bind (ClockWrite sv mr (Controller c) (PcwOffset p) v w) (\<lambda>(_, w).
                        Some (EFI_SUCCESS, delay sv 20 w)))))
           | _ \<Rightarrow> Some (EFI_UNSUPPORTED, w)))"

section \<open>Entry point\<close>

definition no_region :: region where
  "no_region = \<lparr> Name = [], Address = 0, Length = 0, HobOption = NoHob,
     ResourceType = EFI_RESOURCE_SYSTEM_MEMORY, ResourceAttribute = 0,
     MemoryType = EfiReservedMemoryType, ArmAttributes = ARM_MEMORY_REGION_ATTRIBUTE_UNCACHED_UNBUFFERED \<rparr>"

text \<open>\<open>mClockControllersRegions\<close> before the entry point runs.\<close>

definition mClockControllersRegions :: controllers where
  "mClockControllersRegions = (\<lambda>_. no_region)"

definition InitClockDriver ::
    "(string \<Rightarrow> string \<Rightarrow> int) \<Rightarrow> region list \<Rightarrow> ('w, efi_status) state \<Rightarrow> 'w
      \<Rightarrow> (efi_status \<times> controllers) \<times> 'w" where
  "InitClockDriver stricmp mm Install w =
     (let find = (\<lambda>name c mr.
            case LocateMemoryRegionByName stricmp mm (Some name) (Some (mr c)) of
              (s, r) \<Rightarrow> (s, mr(c := the r)));
          (s, mr) = find ''AP Mixed'' ClkApMixed mClockControllersRegions
      in if EFI_ERROR s then ((s, mr), w)
      else let (s, mr) = find ''Top Ck Gen'' ClkTopCkGen mr
      in if EFI_ERROR s then ((s, mr), w)
      else let (s, mr) = find ''Infra Cfg AO'' ClkInfraCfgAo mr
      in if EFI_ERROR s then ((s, mr), w)
      else let (s, w) = run_state Install w
      in if EFI_ERROR s then ((s, mr), w) else ((s, mr), w))"

end
