(* ===== verification/MtkClockCorrect.thy ===== *)
theory MtkClockCorrect
  imports MtkClock
begin

text \<open>
  Correctness of the clock driver model of \<open>MtkClock\<close>. The recursion through the table ends
  because the parents of a well-formed table decrease a rank; the properties of gates and
  multiplexers are relative to the documented behaviour of their registers
  (\<open>gate_hardware\<close>, \<open>mux_hardware\<close>), over the content of the one register they concern.
\<close>

section \<open>Well-formed tables\<close>

definition parents_of :: "clock \<Rightarrow> u32 set" where
  "parents_of c = (case ClockType c of
       ClockTypeFixed f \<Rightarrow> {}
     | ClockTypePll p \<Rightarrow> {PllParent p}
     | ClockTypeMux m \<Rightarrow> set (Parents m)
     | ClockTypeMuxGate m \<Rightarrow> set (Parents m)
     | ClockTypeFactors f \<Rightarrow> {FactorParent f}
     | ClockTypeGate g \<Rightarrow> {GateParent g})"

definition mux_ok :: "clock \<Rightarrow> bool" where
  "mux_ok c = (case ClockType c of
       ClockTypeMux m \<Rightarrow> unat (ParentCount m) = length (Parents m)
     | ClockTypeMuxGate m \<Rightarrow> unat (ParentCount m) = length (Parents m)
     | _ \<Rightarrow> True)"

text \<open>Every parent is a clock of the table and of smaller rank, so the parents form no cycle.\<close>

definition ranked_table :: "(u32 \<Rightarrow> nat) \<Rightarrow> clock list \<Rightarrow> bool" where
  "ranked_table rank clocks \<longleftrightarrow>
     (\<forall>c \<in> set clocks. Controller c \<noteq> ClkMax \<and> mux_ok c \<and>
        (\<forall>p \<in> parents_of c. p \<in> ClockId ` set clocks \<and> rank p < rank (ClockId c)))"

lemma ClockGetById_known: "i \<in> ClockId ` set clocks \<Longrightarrow> \<exists>c. ClockGetById clocks i = Some c"
  by (cases rule: clock_by_id.locate_cases [of clocks i "()"]) (auto simp: ClockGetById_def)

lemma ranked_clock:
  assumes "ranked_table rank clocks" "ClockGetById clocks i = Some c"
  shows "Controller c \<noteq> ClkMax" "mux_ok c" "ClockId c = i" "ClockGetById clocks (ClockId c) = Some c"
    "\<And>p. p \<in> parents_of c \<Longrightarrow> p \<in> ClockId ` set clocks \<and> rank p < rank i"
  using assms ClockGetById_SomeD [OF assms(2)] by (auto simp: ranked_table_def)

lemma ClockRead_returns: "c \<noteq> ClkMax \<Longrightarrow> \<exists>v w'. ClockRead sv mr c r w = Some (v, w')"
  by (cases "run_state (MmioRead32 sv (Address (mr c) + ucast r)) w") (simp add: ClockRead_def)

lemma ClockWrite_returns: "c \<noteq> ClkMax \<Longrightarrow> \<exists>w'. ClockWrite sv mr c r v w = Some ((), w')"
  by (cases "run_state (MmioWrite32 sv (Address (mr c) + ucast r) v) w") (simp add: ClockWrite_def)

lemma clock_update_returns: "c \<noteq> ClkMax \<Longrightarrow> \<exists>w'. clock_update sv mr c r f w = Some ((), w')"
  using ClockRead_returns [of c sv mr r w] ClockWrite_returns [of c sv mr r]
  by (auto simp: clock_update_def)

lemma bind_returns: "(\<exists>w'. m = Some ((), w')) \<Longrightarrow> (\<And>w. \<exists>w'. k w = Some (x, w')) \<Longrightarrow>
  \<exists>w'. Option.bind m (\<lambda>(_, w). k w) = Some (x, w')"
  by auto

lemma pll_returns:
  "c \<noteq> ClkMax \<Longrightarrow> \<exists>w'. pll_enable sv mr c p w = Some ((), w')"
  "c \<noteq> ClkMax \<Longrightarrow> \<exists>w'. pll_disable sv mr c p w = Some ((), w')"
  unfolding pll_enable_def pll_disable_def Let_def
  by (intro bind_returns clock_update_returns; simp add: clock_update_returns)+

lemma gate_switch_returns: "c \<noteq> ClkMax \<Longrightarrow> \<exists>w'. gate_switch sv mr c g e w = Some ((), w')"
  by (simp add: gate_switch_def Let_def clock_update_returns ClockWrite_returns)

lemma get_parent_returns:
  assumes r: "ranked_table rank clocks" and c: "ClockGetById clocks i = Some c"
    and m: "ClockType c = ClockTypeMux m \<or> ClockType c = ClockTypeMuxGate m"
  shows "\<exists>s v w'. ClockGetParent sv mr clocks i (Some out) w = Some ((s, Some v), w') \<and>
    (s = EFI_DEVICE_ERROR \<or> s = EFI_SUCCESS \<and> v \<in> parents_of c)"
proof -
  obtain x w' where x: "ClockRead sv mr (Controller c) (MuxOffset m) w = Some (x, w')"
    using ClockRead_returns [OF ranked_clock(1) [OF r c], of sv mr "MuxOffset m" w] by blast
  have l: "unat (ParentCount m) = length (Parents m)"
    using ranked_clock(2) [OF r c] m by (auto simp: mux_ok_def)
  have p: "parents_of c = set (Parents m)"
    using m by (auto simp: parents_of_def)
  show ?thesis
    using m by (auto simp: ClockGetParent_def c x Let_def p word_le_nat_alt l)
qed

text \<open>Statuses an operation on a known clock can give.\<close>

definition clock_status :: "efi_status \<Rightarrow> bool" where
  "clock_status s \<longleftrightarrow> s = EFI_SUCCESS \<or> s = EFI_DEVICE_ERROR"

lemma set_enable_returns:
  assumes r: "ranked_table rank clocks" and i: "i \<in> ClockId ` set clocks"
  shows "\<exists>s w'. ClockSetEnable sv mr clocks i e w = Some (s, w') \<and> clock_status s"
  using i
proof (induction "rank i" arbitrary: i w rule: less_induct)
  case (less i)
  then obtain c where c: "ClockGetById clocks i = Some c" using ClockGetById_known by blast
  note rc = ranked_clock [OF r c]
  note IH = less.hyps
  have par: "\<exists>s w'. ClockSetEnable sv mr clocks p e w = Some (s, w') \<and> clock_status s" if "p \<in> parents_of c" for p w
    using rc(5) [OF that] less.hyps by blast
  show ?case
  proof (cases "ClockType c")
    case (ClockTypeFixed f)
    then show ?thesis by (subst ClockSetEnable.simps) (simp add: c clock_status_def)
  next
    case (ClockTypePll p)
    then obtain s w1 where "ClockSetEnable sv mr clocks (PllParent p) e w = Some (s, w1)" "clock_status s"
      using par [of "PllParent p" w] by (auto simp: parents_of_def)
    then show ?thesis
      using ClockTypePll pll_returns [OF rc(1), of sv mr p w1]
      by (subst ClockSetEnable.simps) (auto simp: c clock_status_def)
  next
    case (ClockTypeMux m)
    from get_parent_returns [OF r c disjI1 [OF this], of sv mr 0 w] obtain s v w1 where
      g: "ClockGetParent sv mr clocks i (Some 0) w = Some ((s, Some v), w1)"
      "s = EFI_DEVICE_ERROR \<or> s = EFI_SUCCESS \<and> v \<in> parents_of c" by blast
    then show ?thesis
      using ClockTypeMux par [of v w1]
      by (subst ClockSetEnable.simps) (auto simp: c rc(3) clock_status_def)
  next
    case (ClockTypeMuxGate m)
    from get_parent_returns [OF r c disjI2 [OF this], of sv mr 0 w] obtain s v w1 where
      g: "ClockGetParent sv mr clocks i (Some 0) w = Some ((s, Some v), w1)"
      "s = EFI_DEVICE_ERROR \<or> s = EFI_SUCCESS \<and> v \<in> parents_of c" by blast
    show ?thesis
    proof (cases "s = EFI_DEVICE_ERROR")
      case True
      then show ?thesis using ClockTypeMuxGate g by (subst ClockSetEnable.simps) (simp add: c rc(3) clock_status_def)
    next
      case False
      with g obtain s2 w2 where s2: "ClockSetEnable sv mr clocks v e w1 = Some (s2, w2)" "clock_status s2"
        using par [of v w1] by auto
      obtain w3 where "ClockWrite sv mr (Controller c) (if e then MuxClearOffset m else MuxSetOffset m)
          (BIT (MuxGateShift m)) w2 = Some ((), w3)"
        using ClockWrite_returns [OF rc(1)] by meson
      then show ?thesis
        using ClockTypeMuxGate g False s2
        by (subst ClockSetEnable.simps) (auto simp: c rc(3) clock_status_def)
    qed
  next
    case (ClockTypeFactors f)
    then show ?thesis
      using par [of "FactorParent f" w] by (subst ClockSetEnable.simps) (simp add: c parents_of_def)
  next
    case (ClockTypeGate g)
    then obtain s w1 where "ClockSetEnable sv mr clocks (GateParent g) e w = Some (s, w1)" "clock_status s"
      using par [of "GateParent g" w] by (auto simp: parents_of_def)
    then show ?thesis
      using ClockTypeGate gate_switch_returns [OF rc(1), of sv mr g e w1]
      by (subst ClockSetEnable.simps) (auto simp: c clock_status_def)
  qed
qed

lemma is_enabled_returns:
  assumes r: "ranked_table rank clocks" and i: "i \<in> ClockId ` set clocks"
  shows "\<exists>b w'. ClockIsEnabled sv mr clocks i (Some out) w = Some ((EFI_SUCCESS, Some b), w')"
  using i
proof (induction "rank i" arbitrary: i w rule: less_induct)
  case (less i)
  then obtain c where c: "ClockGetById clocks i = Some c" using ClockGetById_known by blast
  note rc = ranked_clock [OF r c]
  have par: "\<exists>b w'. ClockIsEnabled sv mr clocks p (Some out) w = Some ((EFI_SUCCESS, Some b), w')"
    if "p \<in> parents_of c" for p w
    using rc(5) [OF that] less.hyps by blast
  have rd: "\<exists>v w'. ClockRead sv mr (Controller c) a w = Some (v, w')" for a
    using ClockRead_returns [OF rc(1)] .
  show ?case
  proof (cases "ClockType c")
    case (ClockTypePll p)
    then show ?thesis
      using rd [of "BaseOffset p + REG_CON0"] by (subst ClockIsEnabled.simps) (auto simp: c)
  next
    case (ClockTypeMuxGate m)
    then show ?thesis
      using rd [of "MuxOffset m"] by (subst ClockIsEnabled.simps) (auto simp: c)
  next
    case (ClockTypeFactors f)
    then show ?thesis
      using par [of "FactorParent f" w] by (subst ClockIsEnabled.simps) (simp add: c parents_of_def)
  next
    case (ClockTypeGate g)
    then show ?thesis
      using rd [of "StatusOffset g"] by (subst ClockIsEnabled.simps) (auto simp: c Let_def)
  next
    case (ClockTypeFixed f)
    then show ?thesis by (subst ClockIsEnabled.simps) (auto simp: c)
  next
    case (ClockTypeMux m)
    then show ?thesis by (subst ClockIsEnabled.simps) (auto simp: c)
  qed
qed

lemma get_frequency_returns:
  assumes r: "ranked_table rank clocks" and i: "i \<in> ClockId ` set clocks"
  shows "\<exists>s f w'. ClockGetFrequency sv mr clocks i (Some out) w = Some ((s, Some f), w') \<and> clock_status s"
  using i
proof (induction "rank i" arbitrary: i out w rule: less_induct)
  case (less i)
  then obtain c where c: "ClockGetById clocks i = Some c" using ClockGetById_known by blast
  note rc = ranked_clock [OF r c]
  have par: "\<exists>s f w'. ClockGetFrequency sv mr clocks p (Some out) w = Some ((s, Some f), w') \<and> clock_status s"
    if "p \<in> parents_of c" for p out w
    using rc(5) [OF that] less.hyps by blast
  show ?case
  proof (cases "ClockType c")
    case (ClockTypeFixed f)
    then show ?thesis by (subst ClockGetFrequency.simps) (simp add: c clock_status_def)
  next
    case (ClockTypePll p)
    obtain d w1 where d: "ClockRead sv mr (Controller c) (PostDivOffset p) w = Some (d, w1)"
      using ClockRead_returns [OF rc(1), of sv mr "PostDivOffset p" w] by blast
    obtain n w2 where n: "ClockRead sv mr (Controller c) (PcwOffset p) w1 = Some (n, w2)"
      using ClockRead_returns [OF rc(1), of sv mr "PcwOffset p" w1] by blast
    show ?thesis
      using ClockTypePll par [of "PllParent p" 0 w2]
      by (subst ClockGetFrequency.simps) (auto simp: c d n parents_of_def clock_status_def)
  next
    case (ClockTypeMux m)
    from get_parent_returns [OF r c disjI1 [OF this], of sv mr 0 w] obtain s v w1 where
      "ClockGetParent sv mr clocks i (Some 0) w = Some ((s, Some v), w1)"
      "s = EFI_DEVICE_ERROR \<or> s = EFI_SUCCESS \<and> v \<in> parents_of c" by blast
    then show ?thesis
      using ClockTypeMux par [of v out w1]
      by (subst ClockGetFrequency.simps) (auto simp: c rc(3) clock_status_def)
  next
    case (ClockTypeMuxGate m)
    from get_parent_returns [OF r c disjI2 [OF this], of sv mr 0 w] obtain s v w1 where
      "ClockGetParent sv mr clocks i (Some 0) w = Some ((s, Some v), w1)"
      "s = EFI_DEVICE_ERROR \<or> s = EFI_SUCCESS \<and> v \<in> parents_of c" by blast
    then show ?thesis
      using ClockTypeMuxGate par [of v out w1]
      by (subst ClockGetFrequency.simps) (auto simp: c rc(3) clock_status_def)
  next
    case (ClockTypeFactors f)
    then show ?thesis
      using par [of "FactorParent f" out w]
      by (subst ClockGetFrequency.simps) (auto simp: c parents_of_def clock_status_def)
  next
    case (ClockTypeGate g)
    then show ?thesis
      using par [of "GateParent g" out w]
      by (subst ClockGetFrequency.simps) (simp add: c parents_of_def)
  qed
qed

section \<open>Gates\<close>

text \<open>How the registers of a gate behave, over the content \<open>reg\<close> of its status register: a single
  register keeps what is written; otherwise the set and the clear register set and clear bits.\<close>

definition gate_hardware :: "'w clock_services \<Rightarrow> u64 \<Rightarrow> mtk_gate_desc \<Rightarrow> ('w \<Rightarrow> u32) \<Rightarrow> bool" where
  "gate_hardware sv base g reg \<longleftrightarrow>
     (\<forall>w. fst (run_state (MmioRead32 sv (base + ucast (StatusOffset g))) w) = reg w \<and>
          reg (snd (run_state (MmioRead32 sv (base + ucast (StatusOffset g))) w)) = reg w) \<and>
     (\<forall>v w. if single_register g
        then reg (snd (run_state (MmioWrite32 sv (base + ucast (StatusOffset g)) v) w)) = v
        else reg (snd (run_state (MmioWrite32 sv (base + ucast (GateSetOffset g)) v) w)) = reg w OR v \<and>
          reg (snd (run_state (MmioWrite32 sv (base + ucast (GateClearOffset g)) v) w)) = reg w AND NOT v)"

lemma BIT_nonzero: "unat n < 32 \<Longrightarrow> BIT n \<noteq> 0"
  by (simp add: BIT_def push_bit_eq_mult)

lemma bit_cleared [simp]: "((v :: u32) AND NOT b) AND b = 0" "(v OR b) AND b = b"
  by (auto intro!: bit_word_eqI simp: bit_simps)

lemma gate_hardwareD:
  assumes "gate_hardware sv base g reg"
  shows "run_state (MmioRead32 sv (base + ucast (StatusOffset g))) w = (a, w') \<Longrightarrow> a = reg w \<and> reg w' = reg w"
    and "single_register g \<Longrightarrow> run_state (MmioWrite32 sv (base + ucast (StatusOffset g)) v) w = (u, w') \<Longrightarrow>
      reg w' = v"
    and "\<not> single_register g \<Longrightarrow> run_state (MmioWrite32 sv (base + ucast (GateSetOffset g)) v) w = (u, w') \<Longrightarrow>
      reg w' = reg w OR v"
    and "\<not> single_register g \<Longrightarrow> run_state (MmioWrite32 sv (base + ucast (GateClearOffset g)) v) w = (u, w') \<Longrightarrow>
      reg w' = reg w AND NOT v"
  using assms unfolding gate_hardware_def by (metis fst_conv snd_conv)+

lemma gate_switch_reg:
  assumes hw: "gate_hardware sv (Address (mr c)) g reg" and n: "unat (GateShift g) < 32"
    and run: "gate_switch sv mr c g e w = Some (u, w1)"
  shows "(reg w1 AND BIT (GateShift g) = 0) = ((e \<noteq> Inverted g) \<noteq> single_register g)"
proof (cases "single_register g")
  case True
  have "\<exists>v. reg w1 = (if e \<noteq> Inverted g then v OR BIT (GateShift g) else v AND NOT (BIT (GateShift g)))"
    using run True gate_hardwareD(2) [OF hw True]
    by (auto simp: gate_switch_def clock_update_def ClockRead_def ClockWrite_def split: if_splits prod.splits)
  then show ?thesis using BIT_nonzero [OF n] True by (cases e; cases "Inverted g"; auto)
next
  case False
  have "\<exists>v. reg w1 = (if e \<noteq> Inverted g then v AND NOT (BIT (GateShift g)) else v OR BIT (GateShift g))"
    using run False gate_hardwareD(3,4) [OF hw False]
    by (auto simp: gate_switch_def ClockWrite_def split: if_splits)
  then show ?thesis using BIT_nonzero [OF n] False by (cases e; cases "Inverted g"; auto)
qed

lemma set_enable_gate:
  assumes "ClockGetById clocks i = Some c" "ClockType c = ClockTypeGate g"
    and "ClockSetEnable sv mr clocks i e w = Some (EFI_SUCCESS, w1)"
  shows "\<exists>w0. gate_switch sv mr (Controller c) g e w0 = Some ((), w1)"
  using assms(3)
  by (subst (asm) ClockSetEnable.simps) (auto simp: assms(1,2) Option.bind_eq_Some_conv split: if_splits)

section \<open>Multiplexers\<close>

definition mux_of :: "clock \<Rightarrow> mtk_mux_gate_desc option" where
  "mux_of c = (case ClockType c of ClockTypeMux m \<Rightarrow> Some m | ClockTypeMuxGate m \<Rightarrow> Some m | _ \<Rightarrow> None)"

definition mux_hardware :: "'w clock_services \<Rightarrow> u64 \<Rightarrow> mtk_mux_gate_desc \<Rightarrow> ('w \<Rightarrow> u32) \<Rightarrow> bool" where
  "mux_hardware sv base m reg \<longleftrightarrow>
     (\<forall>w. fst (run_state (MmioRead32 sv (base + ucast (MuxOffset m))) w) = reg w \<and>
          reg (snd (run_state (MmioRead32 sv (base + ucast (MuxOffset m))) w)) = reg w) \<and>
     (\<forall>v w. reg (snd (run_state (MmioWrite32 sv (base + ucast (MuxSetOffset m)) v) w)) = reg w OR v \<and>
        reg (snd (run_state (MmioWrite32 sv (base + ucast (MuxClearOffset m)) v) w)) = reg w AND NOT v \<and>
        (UpdateOffset m \<noteq> 0 \<longrightarrow>
          reg (snd (run_state (MmioWrite32 sv (base + ucast (UpdateOffset m)) v) w)) = reg w))"

definition mux_fits :: "mtk_mux_gate_desc \<Rightarrow> bool" where
  "mux_fits m \<longleftrightarrow> 0 < unat (MuxWidth m) \<and> unat (MuxShift m) + unat (MuxWidth m) \<le> 32 \<and>
     unat (ParentCount m) = length (Parents m) \<and> length (Parents m) \<le> 2 ^ unat (MuxWidth m)"

lemma GENMASK_mask:
  assumes "0 < n" "n \<le> 64"
  shows "GENMASK (int n - 1) 0 = mask n"
proof -
  have "nat (63 - (int n - 1)) = 64 - n" using assms by simp
  then show ?thesis
    using assms by (auto intro!: bit_word_eqI simp: GENMASK_def bit_simps)
qed

lemma parent_index_eq:
  "parent_index p ps (length ps) k = Some (k + length (takeWhile (\<lambda>q. p \<noteq> q) ps))"
  by (induction ps arbitrary: k) auto

lemma first_parent:
  assumes "p \<in> set ps"
  shows "length (takeWhile (\<lambda>q. p \<noteq> q) ps) < length ps" "ps ! length (takeWhile (\<lambda>q. p \<noteq> q) ps) = p"
  using assms by (induction ps) auto

lemma mux_field:
  fixes r :: u32
  assumes "s + n \<le> 32" "idx < 2 ^ n"
  shows "drop_bit s ((r AND NOT (push_bit s (mask n))) OR ucast (push_bit s (of_nat idx :: u64))) AND mask n
    = of_nat idx"
proof -
  have idx: "n \<le> k \<Longrightarrow> \<not> bit idx k" for k
    using assms(2) by (metis bit_take_bit_iff leD take_bit_nat_eq_self)
  show ?thesis
    using assms(1) idx by (auto intro!: bit_word_eqI simp: bit_simps) (meson not_le)
qed

lemma mux_read:
  assumes m: "mux_fits m" and idx: "idx < 2 ^ unat (MuxWidth m)"
  shows "ucast (ucast (drop_bit (unat (MuxShift m)) ((r AND NOT (push_bit (unat (MuxShift m)) (mask (unat (MuxWidth m)))))
      OR ucast (push_bit (unat (MuxShift m)) (of_nat idx :: u64)) :: u32)) AND GENMASK (uint (MuxWidth m) - 1) 0)
    = (of_nat idx :: u32)"
proof -
  have g: "GENMASK (uint (MuxWidth m) - 1) 0 = mask (unat (MuxWidth m))"
    using GENMASK_mask [of "unat (MuxWidth m)"] m by (simp add: mux_fits_def)
  have u: "ucast (ucast (x :: u32) AND (mask n :: u64)) = x AND mask n" for x :: u32 and n
    by (auto intro!: bit_word_eqI simp: bit_simps)
  show ?thesis
    using mux_field [of "unat (MuxShift m)" "unat (MuxWidth m)" idx r] m idx by (simp add: g u mux_fits_def)
qed

lemma mux_mask:
  "mux_fits m \<Longrightarrow> ucast (GENMASK (uint (MuxWidth m) - 1) 0) = (mask (unat (MuxWidth m)) :: u32)"
  using GENMASK_mask [of "unat (MuxWidth m)"]
  by (auto simp: mux_fits_def intro!: bit_word_eqI simp: bit_simps)

lemma set_parent_reg:
  assumes c: "ClockGetById clocks i = Some c" "mux_of c = Some m" "Controller c \<noteq> ClkMax"
    and m: "mux_fits m" and hw: "mux_hardware sv (Address (mr (Controller c))) m reg"
    and p: "p \<in> set (Parents m)"
  shows "\<exists>w1. ClockSetParent sv mr clocks i p w = Some (EFI_SUCCESS, w1) \<and>
    reg w1 = (reg w AND NOT (push_bit (unat (MuxShift m)) (mask (unat (MuxWidth m)))))
      OR ucast (push_bit (unat (MuxShift m)) (of_nat (length (takeWhile (\<lambda>q. p \<noteq> q) (Parents m))) :: u64))"
proof -
  let ?n = "length (takeWhile (\<lambda>q. p \<noteq> q) (Parents m))"
  let ?v = "(reg w AND NOT (push_bit (unat (MuxShift m)) (mask (unat (MuxWidth m)))))
      OR ucast (push_bit (unat (MuxShift m)) (of_nat ?n :: u64))"
  have idx: "parent_index p (Parents m) (unat (ParentCount m)) 0 = Some ?n" "?n \<noteq> unat (ParentCount m)"
    using parent_index_eq [of p "Parents m" 0] first_parent(1) [OF p] m by (auto simp: mux_fits_def)
  have t: "ClockType c = ClockTypeMux m \<or> ClockType c = ClockTypeMuxGate m"
    using c(2) by (auto simp: mux_of_def split: mtk_clock_type.splits)
  obtain w1 where w1: "ClockRead sv mr (Controller c) (MuxOffset m) w = Some (reg w, w1)" "reg w1 = reg w"
    using hw c(3) by (simp add: ClockRead_def mux_hardware_def) (metis prod.collapse)
  have wr: "\<exists>w'. ClockWrite sv mr (Controller c) o' x w0 = Some ((), w') \<and>
      w' = snd (run_state (MmioWrite32 sv (Address (mr (Controller c)) + ucast o') x) w0)" for o' x w0
    using c(3) by (cases "run_state (MmioWrite32 sv (Address (mr (Controller c)) + ucast o') x) w0")
      (simp add: ClockWrite_def)
  let ?M = "push_bit (unat (MuxShift m)) (mask (unat (MuxWidth m))) :: u32"
  let ?b = "ucast (push_bit (unat (MuxShift m)) (of_nat ?n :: u64)) :: u32"
  obtain w2 where w2: "ClockWrite sv mr (Controller c) (MuxClearOffset m) ?M w1 = Some ((), w2)"
    "reg w2 = reg w AND NOT ?M"
    using wr [of "MuxClearOffset m" ?M w1] hw w1(2) by (auto simp: mux_hardware_def)
  obtain w3 where w3: "ClockWrite sv mr (Controller c) (MuxSetOffset m) ?b w2 = Some ((), w3)" "reg w3 = ?v"
    using wr [of "MuxSetOffset m" ?b w2] hw w2(2) by (auto simp: mux_hardware_def)
  obtain w4 where w4: "ClockWrite sv mr (Controller c) (UpdateOffset m) (BIT (UpdateShift m)) w3 = Some ((), w4)"
    "UpdateOffset m \<noteq> 0 \<Longrightarrow> reg w4 = ?v"
    using wr [of "UpdateOffset m" "BIT (UpdateShift m)" w3] hw w3(2) by (auto simp: mux_hardware_def)
  show ?thesis
    using t
    by (cases "reg w = ?v"; cases "UpdateOffset m = 0")
      (auto simp: ClockSetParent_def c(1) Let_def idx mux_mask [OF m] w1 w2 w3 w4)
qed

section \<open>PLL values\<close>

lemma post_div_loop_some:
  assumes "fmin \<le> f * ucast (push_bit (v + n - 1) 1 :: u32)" "0 < n"
  shows "\<exists>k \<ge> v. k < v + n \<and> post_div_loop n f fmin v d = (k, push_bit k 1) \<and>
    fmin \<le> f * ucast (push_bit k 1 :: u32) \<and>
    (\<forall>j. v \<le> j \<longrightarrow> j < k \<longrightarrow> \<not> fmin \<le> f * ucast (push_bit j 1 :: u32))"
  using assms
proof (induction n arbitrary: v d)
  case (Suc n)
  show ?case
  proof (cases "fmin \<le> f * ucast (push_bit v 1 :: u32)")
    case True
    then show ?thesis by (intro exI [of _ v]) auto
  next
    case False
    then have "0 < n" using Suc.prems by (cases n) auto
    with Suc.IH [of "Suc v" "push_bit v 1"] Suc.prems obtain k where k: "k \<ge> Suc v" "k < Suc v + n"
      "post_div_loop n f fmin (Suc v) (push_bit v 1) = (k, push_bit k 1)"
      "fmin \<le> f * ucast (push_bit k 1 :: u32)"
      "\<forall>j. Suc v \<le> j \<longrightarrow> j < k \<longrightarrow> \<not> fmin \<le> f * ucast (push_bit j 1 :: u32)"
      by auto
    have "\<not> fmin \<le> f * ucast (push_bit j 1 :: u32)" if "v \<le> j" "j < k" for j
      using k(5) False that by (cases "j = v") auto
    then show ?thesis using k False by (intro exI [of _ k]) auto
  qed
qed simp

lemma post_div_loop_none:
  assumes "\<And>j. v \<le> j \<Longrightarrow> j < v + n \<Longrightarrow> \<not> fmin \<le> f * ucast (push_bit j 1 :: u32)" "0 < n"
  shows "post_div_loop n f fmin v d = (v + n, push_bit (v + n - 1) 1)"
  using assms
proof (induction n arbitrary: v d)
  case (Suc n)
  have "\<not> fmin \<le> f * ucast (push_bit v 1 :: u32)" using Suc.prems(1) [of v] by simp
  then show ?case using Suc.IH [of "Suc v" "push_bit v 1"] Suc.prems by (cases n) auto
qed simp

lemma unat_shift1: "k < 32 \<Longrightarrow> unat (ucast (push_bit k 1 :: u32) :: u64) = 2 ^ k"
  by (simp add: unat_ucast push_bit_eq_mult unat_two_power)
    (simp add: power_strict_increasing [of k 64 2, simplified])

lemma unat_times_shift:
  assumes "unat f * 16 < 2 ^ 64" "k < 5"
  shows "unat (f * ucast (push_bit k 1 :: u32) :: u64) = unat f * 2 ^ k"
proof -
  have "(2::nat) ^ k \<le> 2 ^ 4" using assms(2) by (intro power_increasing) auto
  then have "unat f * 2 ^ k < 2 ^ 64" using assms(1) by (intro le_less_trans [OF mult_left_mono assms(1)]) auto
  then show ?thesis
    using assms(2) unat_shift1 [of k] by (simp add: unat_mult_lem [THEN iffD1])
qed

lemma unat_push_bit:
  "unat (x :: u64) * 2 ^ k < 2 ^ 64 \<Longrightarrow> unat (push_bit k x) = unat x * 2 ^ k"
  by (simp only: unsigned_push_bit_eq) (simp add: push_bit_eq_mult take_bit_eq_mod)

definition clamped :: "mtk_pll_desc \<Rightarrow> u64 \<Rightarrow> u64" where
  "clamped p F = (if F > FMax p then FMax p else F)"

definition fraction_bits :: "mtk_pll_desc \<Rightarrow> nat" where
  "fraction_bits p = unat (PcwBits p) - unat (PcwiBits p)"

lemma fraction_bits_shift:
  "PcwiBits p \<le> PcwBits p \<Longrightarrow> unat (ucast (PcwBits p) - ucast (PcwiBits p) :: u32) = fraction_bits p"
proof -
  assume le: "PcwiBits p \<le> PcwBits p"
  have u: "unat (ucast (x :: u8) :: u32) = unat x" for x
    using unsigned_less [of x, where 'a = nat] by (simp add: unat_ucast)
  have "(ucast (PcwiBits p) :: u32) \<le> ucast (PcwBits p)"
    using le by (simp add: word_le_nat_alt u)
  then show ?thesis by (simp add: unat_diff_le u fraction_bits_def)
qed

lemma post_div_loop_pll:
  assumes "unat f * 16 < 2 ^ 64"
  shows "\<exists>v. post_div_loop 5 f fmin 0 0 = (v, 2 ^ min v 4) \<and>
    (\<forall>j < v. j < 5 \<longrightarrow> unat f * 2 ^ j < unat fmin) \<and>
    (if unat fmin \<le> unat f * 16 then v < 5 \<and> unat fmin \<le> unat f * 2 ^ v else v = 5)"
proof (cases "unat fmin \<le> unat f * 16")
  case True
  have "fmin \<le> f * ucast (push_bit (0 + 5 - 1) 1 :: u32)"
    using True unat_times_shift [OF assms, of 4] by (simp only: word_le_nat_alt) simp
  from post_div_loop_some [OF this] obtain k where k: "k < 5" "post_div_loop 5 f fmin 0 0 = (k, push_bit k 1)"
    "fmin \<le> f * ucast (push_bit k 1 :: u32)" "\<forall>j < k. \<not> fmin \<le> f * ucast (push_bit j 1 :: u32)"
    by auto
  have "unat f * 2 ^ j < unat fmin" if "j < k" for j
    using k(1) k(4) [rule_format, OF that] that unat_times_shift [OF assms, of j]
    by (simp add: word_le_nat_alt not_le del: push_bit_of_1)
  moreover have "unat fmin \<le> unat f * 2 ^ k"
    using k(1,3) unat_times_shift [OF assms, of k] by (simp add: word_le_nat_alt)
  ultimately show ?thesis
    using True k(1,2) by (intro exI [of _ k]) (auto simp: push_bit_eq_mult min_def)
next
  case False
  have small: "unat f * 2 ^ j < unat fmin" if "j < 5" for j
  proof -
    have "(2::nat) ^ j \<le> 2 ^ 4" using that by (intro power_increasing) auto
    then have "unat f * 2 ^ j \<le> unat f * 16" by simp
    then show ?thesis using False by linarith
  qed
  then have "\<not> fmin \<le> f * ucast (push_bit j 1 :: u32)" if "j < 5" for j
    using that unat_times_shift [OF assms, of j] by (simp add: word_le_nat_alt not_le)
  from post_div_loop_none [of 0 5 fmin f 0] this have "post_div_loop 5 f fmin 0 0 = (5, push_bit 4 1)"
    by simp
  then show ?thesis
    using False small by (intro exI [of _ 5]) (simp add: push_bit_eq_mult)
qed

lemma pcw_value:
  fixes f par :: u64
  assumes "unat f * 2 ^ v * 2 ^ n < 2 ^ 64" "par \<noteq> 0" "unat f * 2 ^ v * 2 ^ n < unat par * 2 ^ 32"
  shows "unat (ucast (push_bit n (push_bit v f) div par) :: u32) = unat f * 2 ^ v * 2 ^ n div unat par"
proof -
  have "unat f * 2 ^ v * 1 \<le> unat f * 2 ^ v * 2 ^ n" by (intro mult_left_mono) auto
  then have "unat f * 2 ^ v < 2 ^ 64" using assms(1) by linarith
  then have "unat (push_bit v f) = unat f * 2 ^ v" by (rule unat_push_bit)
  then have "unat (push_bit n (push_bit v f)) = unat f * 2 ^ v * 2 ^ n"
    using assms(1) by (subst unat_push_bit) simp_all
  moreover have "unat f * 2 ^ v * 2 ^ n div unat par < 2 ^ 32"
    using assms(2,3) by (intro div_less_iff_less_mult [THEN iffD2]) (simp_all add: unat_gt_0 mult.commute)
  ultimately show ?thesis by (simp add: unat_ucast unat_div)
qed

lemma quotient_bounds:
  fixes n d :: nat
  assumes "0 < d"
  shows "n div d * d \<le> n \<and> n < (n div d + 1) * d"
proof -
  have "n div d * d + n mod d = n" "n mod d < d" using assms by simp_all
  then show ?thesis by (simp only: distrib_right mult_1) linarith
qed

section \<open>A small table\<close>

text \<open>A world with one register, which every access reads or writes; the write to the clear register
  at offset 8 clears bits, the one to the set register at offset 4 sets bits.\<close>

definition ex_clk_sv :: "u32 clock_services" where
  "ex_clk_sv = \<lparr>
     MmioRead32 = \<lambda>a. State (\<lambda>r. (r, r)),
     MmioWrite32 = \<lambda>a v. State (\<lambda>r. ((), if a = 4 then r OR v else if a = 8 then r AND NOT v else v)),
     MicroSecondDelay = \<lambda>n. State (\<lambda>r. ((), r)),
     LowBitSet32 = \<lambda>d. 0 \<rparr>"

definition ex_osc :: clock where
  "ex_osc = \<lparr> ClockId = 0, ClockName = ''OSC'', Controller = ClkApMixed, ClockType = ClockTypeFixed 26000000 \<rparr>"

definition ex_pll_desc :: mtk_pll_desc where
  "ex_pll_desc = \<lparr> BaseOffset = 0x208, PowerOffset = 0x214, EnMask = 1, ResetBarMask = 0,
     PostDivOffset = 0x20C, PostDivShift = 24, FMax = 3800000000, FMin = 1500000000,
     PcwOffset = 0x20C, PcwShift = 0, PcwBits = 22, PcwiBits = 8, PllParent = 0 \<rparr>"

definition ex_pll :: clock where
  "ex_pll = \<lparr> ClockId = 1, ClockName = ''PLL'', Controller = ClkApMixed, ClockType = ClockTypePll ex_pll_desc \<rparr>"

definition ex_mux_desc :: mtk_mux_gate_desc where
  "ex_mux_desc = \<lparr> MuxOffset = 0, MuxSetOffset = 4, MuxClearOffset = 8, UpdateOffset = 0, MuxShift = 8,
     MuxWidth = 2, MuxGateShift = 15, UpdateShift = 0, Parents = [0, 1], ParentCount = 2 \<rparr>"

definition ex_mux :: clock where
  "ex_mux = \<lparr> ClockId = 2, ClockName = ''MUX'', Controller = ClkTopCkGen, ClockType = ClockTypeMux ex_mux_desc \<rparr>"

definition ex_gate_desc :: mtk_gate_desc where
  "ex_gate_desc = \<lparr> GateSetOffset = 0, GateClearOffset = 0, StatusOffset = 0, GateShift = 8,
     Inverted = False, GateParent = 0 \<rparr>"

definition ex_gate :: clock where
  "ex_gate = \<lparr> ClockId = 3, ClockName = ''GATE'', Controller = ClkTopCkGen, ClockType = ClockTypeGate ex_gate_desc \<rparr>"

definition ex_clocks :: "clock list" where
  "ex_clocks = [ex_osc, ex_pll, ex_mux, ex_gate]"

lemmas ex_clock_defs = ex_clocks_def ex_osc_def ex_pll_def ex_mux_def ex_gate_def ex_pll_desc_def
  ex_mux_desc_def ex_gate_desc_def

lemma ex_clocks_ranked: "ranked_table unat ex_clocks"
  by (simp add: ranked_table_def ex_clock_defs mux_ok_def parents_of_def)

lemma ex_clocks_lookup:
  "ClockGetById ex_clocks 0 = Some ex_osc" "ClockGetById ex_clocks 1 = Some ex_pll"
  "ClockGetById ex_clocks 2 = Some ex_mux" "ClockGetById ex_clocks 3 = Some ex_gate"
  by (simp_all add: ClockGetById_def ex_clocks_def ex_osc_def ex_pll_def ex_mux_def ex_gate_def)

section \<open>Properties\<close>

text \<open>C28. In a table whose parents are all in the table and form no cycle, ClockSetEnable, ClockIsEnabled
  and ClockGetFrequency return for every clock of the table, whatever the registers hold; the only
  error they can give is EFI_DEVICE_ERROR (a multiplexer register with an invalid selection),
  and ClockIsEnabled gives none.\<close>
theorem clock_operations_return:
  assumes "ranked_table rank clocks" and "i \<in> ClockId ` set clocks"
  shows "(\<exists>s w'. ClockSetEnable sv mr clocks i e w = Some (s, w') \<and> (s = EFI_SUCCESS \<or> s = EFI_DEVICE_ERROR)) \<and>
    (\<exists>b w'. ClockIsEnabled sv mr clocks i (Some b0) w = Some ((EFI_SUCCESS, Some b), w')) \<and>
    (\<exists>s f w'. ClockGetFrequency sv mr clocks i (Some f0) w = Some ((s, Some f), w') \<and>
      (s = EFI_SUCCESS \<or> s = EFI_DEVICE_ERROR))"
  using set_enable_returns [OF assms, of sv mr e w] is_enabled_returns [OF assms, of sv mr b0 w]
    get_frequency_returns [OF assms, of sv mr f0 w]
  unfolding clock_status_def by blast

theorem clock_operations_return_witness:
  "\<exists>s w'. ClockSetEnable ex_clk_sv mClockControllersRegions ex_clocks 3 True 0 = Some (s, w')"
  using clock_operations_return [OF ex_clocks_ranked, of 3 ex_clk_sv mClockControllersRegions True 0 False 0]
  by (auto simp: ex_clock_defs)

text \<open>C29. Reading a gate back: after ClockSetEnable of a gate clock succeeds, ClockIsEnabled answers the
  state that was set when the gate has set and clear registers, inverted or not; for a gate with a
  single register it answers the opposite state, because the two functions disagree on the
  polarity of the bit.\<close>
theorem gate_readback:
  assumes "ClockGetById clocks i = Some c" and "ClockType c = ClockTypeGate g" and "Controller c \<noteq> ClkMax"
    and "gate_hardware sv (Address (mr (Controller c))) g reg" and "unat (GateShift g) < 32"
    and "ClockSetEnable sv mr clocks i e w = Some (EFI_SUCCESS, w1)"
  shows "\<exists>w2. ClockIsEnabled sv mr clocks i (Some out) w1 = Some ((EFI_SUCCESS, Some (e \<noteq> single_register g)), w2)"
proof -
  obtain w0 where "gate_switch sv mr (Controller c) g e w0 = Some ((), w1)"
    using set_enable_gate [OF assms(1,2,6)] by blast
  from gate_switch_reg [OF assms(4,5) this]
  have "(reg w1 AND BIT (GateShift g) = 0) = ((e \<noteq> Inverted g) \<noteq> single_register g)" .
  moreover obtain w2 where "ClockRead sv mr (Controller c) (StatusOffset g) w1 = Some (reg w1, w2)"
    using gate_hardwareD(1) [OF assms(4), of w1] assms(3)
    by (cases "run_state (MmioRead32 sv (Address (mr (Controller c)) + ucast (StatusOffset g))) w1")
      (auto simp: ClockRead_def)
  ultimately show ?thesis
    by (subst ClockIsEnabled.simps) (auto simp: assms(1,2) Let_def)
qed

lemma ex_gate_enabled:
  "ClockSetEnable ex_clk_sv mClockControllersRegions ex_clocks 3 True 0 = Some (EFI_SUCCESS, 0x100)"
  by (subst ClockSetEnable.simps, subst ClockSetEnable.simps)
    (simp add: ex_clocks_lookup, simp add: ex_gate_def ex_gate_desc_def ex_clocks_lookup ex_osc_def
      gate_switch_def single_register_def clock_update_def ClockRead_def ClockWrite_def ex_clk_sv_def BIT_def
      mClockControllersRegions_def no_region_def)

theorem gate_readback_witness:
  "\<exists>w2. ClockIsEnabled ex_clk_sv mClockControllersRegions ex_clocks 3 (Some True) 0x100
     = Some ((EFI_SUCCESS, Some False), w2)"
proof -
  have hw: "gate_hardware ex_clk_sv (Address (mClockControllersRegions (Controller ex_gate))) ex_gate_desc id"
    by (simp add: gate_hardware_def ex_clk_sv_def ex_gate_desc_def single_register_def
        mClockControllersRegions_def no_region_def)
  from gate_readback [OF ex_clocks_lookup(4) _ _ hw _ ex_gate_enabled, of True] show ?thesis
    by (simp add: ex_gate_def ex_gate_desc_def single_register_def)
qed

text \<open>C30. Selecting a parent: for a multiplexer whose field fits its register, ClockSetParent with a
  parent of the multiplexer succeeds, changes only the bits of the field, and ClockGetParent then
  answers that parent.\<close>
theorem set_parent_get_parent:
  assumes "ClockGetById clocks i = Some c" and "mux_of c = Some m" and "Controller c \<noteq> ClkMax"
    and "mux_fits m" and "mux_hardware sv (Address (mr (Controller c))) m reg" and "p \<in> set (Parents m)"
  shows "\<exists>w1 w2. ClockSetParent sv mr clocks i p w = Some (EFI_SUCCESS, w1) \<and>
    (\<forall>k. \<not> (unat (MuxShift m) \<le> k \<and> k < unat (MuxShift m) + unat (MuxWidth m)) \<longrightarrow> bit (reg w1) k = bit (reg w) k) \<and>
    ClockGetParent sv mr clocks i (Some out) w1 = Some ((EFI_SUCCESS, Some p), w2)"
proof -
  let ?n = "length (takeWhile (\<lambda>q. p \<noteq> q) (Parents m))"
  note fp = first_parent [OF assms(6)]
  obtain w1 where w1: "ClockSetParent sv mr clocks i p w = Some (EFI_SUCCESS, w1)"
    "reg w1 = (reg w AND NOT (push_bit (unat (MuxShift m)) (mask (unat (MuxWidth m)))))
      OR ucast (push_bit (unat (MuxShift m)) (of_nat ?n :: u64))"
    using set_parent_reg [where reg = reg and mr = mr, OF assms] by blast
  obtain w2 where w2: "ClockRead sv mr (Controller c) (MuxOffset m) w1 = Some (reg w1, w2)"
    using assms(3,5) by (simp add: ClockRead_def mux_hardware_def) (metis prod.collapse)
  have n: "?n < 2 ^ unat (MuxWidth m)" "?n < unat (ParentCount m)"
    using fp(1) assms(4) by (auto simp: mux_fits_def)
  have small: "unat (of_nat ?n :: u32) = ?n"
    using n(2) unsigned_less [of "ParentCount m", where 'a = nat] by (simp add: unat_of_nat)
  have idx: "unat (MuxWidth m) \<le> k \<Longrightarrow> \<not> bit ?n k" for k
    using n(1) by (metis bit_take_bit_iff leD take_bit_nat_eq_self)
  have t: "ClockType c = ClockTypeMux m \<or> ClockType c = ClockTypeMuxGate m"
    using assms(2) by (auto simp: mux_of_def split: mtk_clock_type.splits)
  have field: "ucast (ucast (drop_bit (unat (MuxShift m)) (reg w1)) AND GENMASK (uint (MuxWidth m) - 1) 0)
      = (of_nat ?n :: u32)"
    using mux_read [OF assms(4) n(1), of "reg w"] by (simp only: w1(2))
  have get: "ClockGetParent sv mr clocks i (Some out) w1 = Some ((EFI_SUCCESS, Some p), w2)"
    using t fp n small
    by (auto simp: ClockGetParent_def assms(1) w2 Let_def field word_le_nat_alt)
  have keep: "bit (reg w1) k = bit (reg w) k"
    if "\<not> (unat (MuxShift m) \<le> k \<and> k < unat (MuxShift m) + unat (MuxWidth m))" for k
  proof (cases "k < unat (MuxShift m)")
    case True
    then show ?thesis by (auto simp: w1(2) bit_simps dest: bit_imp_le_length)
  next
    case False
    then have "unat (MuxWidth m) \<le> k - unat (MuxShift m)" using that by linarith
    then show ?thesis using idx that False by (auto simp: w1(2) bit_simps dest: bit_imp_le_length)
  qed
  show ?thesis using w1(1) get keep by blast
qed

theorem set_parent_get_parent_witness:
  "\<exists>w1 w2. ClockSetParent ex_clk_sv mClockControllersRegions ex_clocks 2 1 0 = Some (EFI_SUCCESS, w1) \<and>
     ClockGetParent ex_clk_sv mClockControllersRegions ex_clocks 2 (Some 0) w1 = Some ((EFI_SUCCESS, Some 1), w2)"
proof -
  have hw: "mux_hardware ex_clk_sv (Address (mClockControllersRegions (Controller ex_mux))) ex_mux_desc id"
    by (simp add: mux_hardware_def ex_clk_sv_def ex_mux_desc_def mClockControllersRegions_def no_region_def)
  have "mux_of ex_mux = Some ex_mux_desc" "Controller ex_mux \<noteq> ClkMax" "mux_fits ex_mux_desc"
    "1 \<in> set (Parents ex_mux_desc)"
    by (simp_all add: mux_of_def ex_mux_def mux_fits_def ex_mux_desc_def)
  from set_parent_get_parent [where mr = mClockControllersRegions and reg = id, OF ex_clocks_lookup(3) this(1-3) hw this(4), of 0 0] show ?thesis by blast
qed

text \<open>C31. PllCalcValues: with the parent's frequency known and no overflow, the post divider is the
  smallest power of two up to 16 that lifts the (clamped) frequency to the minimum of the PLL, and
  the multiplier is the largest one whose output does not exceed the wanted frequency times the
  divider. When even 16 is not enough, the divider is 16 but the multiplier is computed for 32:
  the PLL is set to about twice the wanted frequency.\<close>
theorem pll_values:
  assumes "ClockType c = ClockTypePll p"
    and "ClockGetFrequency sv mr clocks (PllParent p) (Some 0) w = Some ((EFI_SUCCESS, Some par), w1)"
    and "par \<noteq> 0" and "PcwiBits p \<le> PcwBits p"
    and "unat (clamped p F) * 32 * 2 ^ fraction_bits p < 2 ^ 64"
    and "unat (clamped p F) * 32 * 2 ^ fraction_bits p < unat par * 2 ^ 32"
  shows "\<exists>v pcw. PllCalcValues sv mr clocks (Some c) F (Some x) (Some y) w
      = Some ((EFI_SUCCESS, Some pcw, Some (2 ^ min v 4)), w1) \<and>
    (\<forall>j < v. j < 5 \<longrightarrow> unat (clamped p F) * 2 ^ j < unat (FMin p)) \<and>
    (if unat (FMin p) \<le> unat (clamped p F) * 16 then v < 5 \<and> unat (FMin p) \<le> unat (clamped p F) * 2 ^ v else v = 5) \<and>
    unat pcw * unat par \<le> unat (clamped p F) * 2 ^ v * 2 ^ fraction_bits p \<and>
    unat (clamped p F) * 2 ^ v * 2 ^ fraction_bits p < (unat pcw + 1) * unat par"
proof -
  let ?f = "clamped p F"
  have f16: "unat ?f * 16 < 2 ^ 64"
  proof -
    have "unat ?f * 16 \<le> unat ?f * 32 * 2 ^ fraction_bits p" by simp
    then show ?thesis using assms(5) by linarith
  qed
  obtain v where v: "post_div_loop 5 ?f (FMin p) 0 0 = (v, 2 ^ min v 4)"
    "\<forall>j < v. j < 5 \<longrightarrow> unat ?f * 2 ^ j < unat (FMin p)"
    "if unat (FMin p) \<le> unat ?f * 16 then v < 5 \<and> unat (FMin p) \<le> unat ?f * 2 ^ v else v = 5"
    using post_div_loop_pll [OF f16] by blast
  have v5: "v \<le> 5" using v(3) by (auto split: if_splits)
  have "(2::nat) ^ v \<le> 2 ^ 5" using v5 by (intro power_increasing) auto
  then have le: "unat ?f * 2 ^ v * 2 ^ fraction_bits p \<le> unat ?f * 32 * 2 ^ fraction_bits p" by simp
  let ?pcw = "ucast (push_bit (fraction_bits p) (push_bit v ?f) div par) :: u32"
  have pcw: "unat ?pcw = unat ?f * 2 ^ v * 2 ^ fraction_bits p div unat par"
    using assms(3,5,6) le by (intro pcw_value) linarith+
  have run: "PllCalcValues sv mr clocks (Some c) F (Some x) (Some y) w
      = Some ((EFI_SUCCESS, Some ?pcw, Some (2 ^ min v 4)), w1)"
    using assms(1,2) v(1) fraction_bits_shift [OF assms(4)]
    by (simp add: PllCalcValues_def clamped_def Let_def)
  have "unat par > 0" using assms(3) by (simp add: unat_gt_0)
  then have "unat ?pcw * unat par \<le> unat ?f * 2 ^ v * 2 ^ fraction_bits p \<and>
    unat ?f * 2 ^ v * 2 ^ fraction_bits p < (unat ?pcw + 1) * unat par"
    unfolding pcw by (rule quotient_bounds)
  then show ?thesis using run v(2,3) by blast
qed

theorem pll_values_witness:
  "\<exists>v pcw. PllCalcValues ex_clk_sv mClockControllersRegions ex_clocks (Some ex_pll) 400000000 (Some 0) (Some 0) 0
     = Some ((EFI_SUCCESS, Some pcw, Some (2 ^ min v 4)), 0) \<and> unat pcw * 26000000 \<le> 400000000 * 2 ^ v * 2 ^ 14"
proof -
  have par: "ClockGetFrequency ex_clk_sv mClockControllersRegions ex_clocks (PllParent ex_pll_desc) (Some 0) 0
      = Some ((EFI_SUCCESS, Some 26000000), 0)"
    by (subst ClockGetFrequency.simps) (simp add: ex_pll_desc_def ex_clocks_lookup, simp add: ex_osc_def)
  have n: "fraction_bits ex_pll_desc = 14" "clamped ex_pll_desc 400000000 = 400000000"
    by (simp_all add: fraction_bits_def clamped_def ex_pll_desc_def)
  from pll_values [OF _ par, of ex_pll "400000000" 0 0] show ?thesis
    by (simp add: n ex_pll_def) (auto simp: ex_pll_desc_def)
qed

end
