(* ===== verification/ClockRows.thy ===== *)
theory ClockRows
  imports MtkClockCorrect
begin

text \<open>
  What the clock tables of the SoC packages share: one function per kind of row of \<open>gClocks\<close>, whose
  arguments are the members of the row in the order of the C structures, and the check of a row.
  Members that a row leaves out are zero, as in C (the controller is then \<open>ClkApMixed\<close>).
\<close>

section \<open>Rows\<close>

definition fixed_clock :: "u32 \<Rightarrow> string \<Rightarrow> u64 \<Rightarrow> clock" where
  "fixed_clock i n f = \<lparr> ClockId = i, ClockName = n, Controller = ClkApMixed, ClockType = ClockTypeFixed f \<rparr>"

definition factor_clock :: "u32 \<Rightarrow> string \<Rightarrow> u32 \<Rightarrow> u32 \<Rightarrow> u32 \<Rightarrow> clock" where
  "factor_clock i n p mul dv = \<lparr> ClockId = i, ClockName = n, Controller = ClkApMixed,
     ClockType = ClockTypeFactors \<lparr> FactorParent = p, Mult = mul, Div = dv \<rparr> \<rparr>"

definition gate_clock ::
    "u32 \<Rightarrow> string \<Rightarrow> mtk_clock_controller_type \<Rightarrow> u32 \<Rightarrow> u32 \<Rightarrow> u32 \<Rightarrow> u8 \<Rightarrow> bool \<Rightarrow> u32 \<Rightarrow> clock" where
  "gate_clock i n c st clr sta sh neg p = \<lparr> ClockId = i, ClockName = n, Controller = c,
     ClockType = ClockTypeGate \<lparr> GateSetOffset = st, GateClearOffset = clr, StatusOffset = sta,
       GateShift = sh, Inverted = neg, GateParent = p \<rparr> \<rparr>"

definition pll_clock ::
    "u32 \<Rightarrow> string \<Rightarrow> mtk_clock_controller_type \<Rightarrow> u32 \<Rightarrow> u32 \<Rightarrow> u32 \<Rightarrow> u32 \<Rightarrow> u32 \<Rightarrow> u8 \<Rightarrow> u64 \<Rightarrow> u64
      \<Rightarrow> u32 \<Rightarrow> u8 \<Rightarrow> u8 \<Rightarrow> u8 \<Rightarrow> u32 \<Rightarrow> clock" where
  "pll_clock i n c base pow en rst pdo pds fmx fmn pco pcs pcb pib p = \<lparr> ClockId = i, ClockName = n,
     Controller = c, ClockType = ClockTypePll \<lparr> BaseOffset = base, PowerOffset = pow, EnMask = en,
       ResetBarMask = rst, PostDivOffset = pdo, PostDivShift = pds, FMax = fmx, FMin = fmn,
       PcwOffset = pco, PcwShift = pcs, PcwBits = pcb, PcwiBits = pib, PllParent = p \<rparr> \<rparr>"

definition mux_desc ::
    "u32 \<Rightarrow> u32 \<Rightarrow> u32 \<Rightarrow> u32 \<Rightarrow> u8 \<Rightarrow> u8 \<Rightarrow> u8 \<Rightarrow> u8 \<Rightarrow> u32 list \<Rightarrow> mtk_mux_gate_desc" where
  "mux_desc mo st clr upd sh wi gs us ps = \<lparr> MuxOffset = mo, MuxSetOffset = st, MuxClearOffset = clr,
     UpdateOffset = upd, MuxShift = sh, MuxWidth = wi, MuxGateShift = gs, UpdateShift = us,
     Parents = ps, ParentCount = of_nat (length ps) \<rparr>"

definition mux_clock ::
    "u32 \<Rightarrow> string \<Rightarrow> mtk_clock_controller_type \<Rightarrow> u32 \<Rightarrow> u32 \<Rightarrow> u32 \<Rightarrow> u32 \<Rightarrow> u8 \<Rightarrow> u8 \<Rightarrow> u8 \<Rightarrow> u8
      \<Rightarrow> u32 list \<Rightarrow> clock" where
  "mux_clock i n c mo st clr upd sh wi gs us ps = \<lparr> ClockId = i, ClockName = n, Controller = c,
     ClockType = ClockTypeMux (mux_desc mo st clr upd sh wi gs us ps) \<rparr>"

definition mux_gate_clock ::
    "u32 \<Rightarrow> string \<Rightarrow> mtk_clock_controller_type \<Rightarrow> u32 \<Rightarrow> u32 \<Rightarrow> u32 \<Rightarrow> u32 \<Rightarrow> u8 \<Rightarrow> u8 \<Rightarrow> u8 \<Rightarrow> u8
      \<Rightarrow> u32 list \<Rightarrow> clock" where
  "mux_gate_clock i n c mo st clr upd sh wi gs us ps = \<lparr> ClockId = i, ClockName = n, Controller = c,
     ClockType = ClockTypeMuxGate (mux_desc mo st clr upd sh wi gs us ps) \<rparr>"

section \<open>The check of a row\<close>

definition parent_list :: "clock \<Rightarrow> u32 list" where
  "parent_list c = (case ClockType c of
       ClockTypeFixed f \<Rightarrow> []
     | ClockTypePll p \<Rightarrow> [PllParent p]
     | ClockTypeMux m \<Rightarrow> Parents m
     | ClockTypeMuxGate m \<Rightarrow> Parents m
     | ClockTypeFactors f \<Rightarrow> [FactorParent f]
     | ClockTypeGate g \<Rightarrow> [GateParent g])"

text \<open>The fields of a row fit: multiplexer fields lie in their register and every parent can be
  selected; gate bits lie in theirs; no factor divides by zero.\<close>

definition fields_fit :: "clock \<Rightarrow> bool" where
  "fields_fit c = (case ClockType c of
       ClockTypeMux m \<Rightarrow> mux_fits m
     | ClockTypeMuxGate m \<Rightarrow> mux_fits m \<and> unat (MuxGateShift m) < 32
     | ClockTypeFactors f \<Rightarrow> Div f \<noteq> 0
     | ClockTypeGate g \<Rightarrow> unat (GateShift g) < 32
     | _ \<Rightarrow> True)"

definition row_ok :: "(nat \<Rightarrow> nat) \<Rightarrow> nat \<Rightarrow> clock \<Rightarrow> bool" where
  "row_ok depth n c \<longleftrightarrow> Controller c \<noteq> ClkMax \<and> fields_fit c \<and>
     list_all (\<lambda>p. unat p < n \<and> depth (unat p) < depth (unat (ClockId c))) (parent_list c)"

text \<open>A table: its rows are in the order of their ids and each is checked.\<close>

definition clock_table :: "(nat \<Rightarrow> nat) \<Rightarrow> nat \<Rightarrow> clock list \<Rightarrow> bool" where
  "clock_table depth n clocks \<longleftrightarrow> map unat (map ClockId clocks) = [0..<n] \<and> list_all (row_ok depth n) clocks"

lemmas row_defs = fixed_clock_def factor_clock_def gate_clock_def pll_clock_def mux_clock_def
  mux_gate_clock_def

lemma row_ids:
  "ClockId (fixed_clock i n f) = i" "ClockId (factor_clock i n p mul dv) = i"
  "ClockId (gate_clock i n c st clr sta sh neg p) = i"
  "ClockId (pll_clock i n c base pow en rst pdo pds fmx fmn pco pcs pcb pib p) = i"
  "ClockId (mux_clock i n c mo st clr upd sh wi gs us ps) = i"
  "ClockId (mux_gate_clock i n c mo st clr upd sh wi gs us ps) = i"
  by (simp_all add: row_defs)

lemma fits_mux_desc:
  "mux_fits (mux_desc mo st clr upd sh wi gs us ps) \<longleftrightarrow> 0 < unat wi \<and> unat sh + unat wi \<le> 32 \<and>
     length ps < 2 ^ 32 \<and> length ps \<le> 2 ^ unat wi"
proof -
  have "unat (of_nat (length ps) :: u32) = length ps \<longleftrightarrow> length ps < 2 ^ 32"
    using unsigned_less [of "of_nat (length ps) :: u32", where 'a = nat]
    by (auto simp: unat_of_nat)
  then show ?thesis by (auto simp: mux_fits_def mux_desc_def)
qed

lemma row_ok_simps:
  "row_ok d N (fixed_clock i n f)"
  "row_ok d N (factor_clock i n p mul dv) \<longleftrightarrow> dv \<noteq> 0 \<and> unat p < N \<and> d (unat p) < d (unat i)"
  "row_ok d N (gate_clock i n c st clr sta sh neg p) \<longleftrightarrow>
     c \<noteq> ClkMax \<and> unat sh < 32 \<and> unat p < N \<and> d (unat p) < d (unat i)"
  "row_ok d N (pll_clock i n c base pow en rst pdo pds fmx fmn pco pcs pcb pib p) \<longleftrightarrow>
     c \<noteq> ClkMax \<and> unat p < N \<and> d (unat p) < d (unat i)"
  "row_ok d N (mux_clock i n c mo st clr upd sh wi gs us ps) \<longleftrightarrow>
     c \<noteq> ClkMax \<and> (0 < unat wi \<and> unat sh + unat wi \<le> 32 \<and> length ps < 2 ^ 32 \<and> length ps \<le> 2 ^ unat wi) \<and>
     list_all (\<lambda>p. unat p < N \<and> d (unat p) < d (unat i)) ps"
  "row_ok d N (mux_gate_clock i n c mo st clr upd sh wi gs us ps) \<longleftrightarrow>
     c \<noteq> ClkMax \<and> (0 < unat wi \<and> unat sh + unat wi \<le> 32 \<and> length ps < 2 ^ 32 \<and> length ps \<le> 2 ^ unat wi) \<and>
     unat gs < 32 \<and> list_all (\<lambda>p. unat p < N \<and> d (unat p) < d (unat i)) ps"
  by (simp_all add: row_ok_def row_defs parent_list_def fields_fit_def fits_mux_desc)
    (simp_all add: mux_desc_def)

lemma parents_of_list: "parents_of c = set (parent_list c)"
  by (simp add: parents_of_def parent_list_def split: mtk_clock_type.split)

lemma clock_table_ids:
  assumes "clock_table depth n clocks"
  shows "i \<in> ClockId ` set clocks \<longleftrightarrow> unat i < n"
proof -
  have "unat ` (ClockId ` set clocks) = {0..<n}"
    using assms by (metis atLeastLessThan_upt clock_table_def list.set_map)
  then have "unat i \<in> unat ` (ClockId ` set clocks) \<longleftrightarrow> unat i < n" by simp
  then show ?thesis by (metis (no_types, lifting) image_iff unsigned_word_eqI)
qed

lemma clock_table_ranked:
  assumes "clock_table depth n clocks"
  shows "ranked_table (depth \<circ> unat) clocks"
  using assms clock_table_ids [OF assms]
  by (auto simp: ranked_table_def clock_table_def row_ok_def list_all_iff parents_of_list mux_ok_def
      fields_fit_def mux_fits_def split: mtk_clock_type.splits)

end
