(* ===== verification/Mt6768Clocks.thy ===== *)
theory Mt6768Clocks
  imports ClockRows
begin

text \<open>
  The clock table of the MT6768, \<open>MT6768Pkg/Library/ClockImplLib/ClockImplLib.c\<close>: the enumeration of the
  clock ids, the parents of the multiplexers and the 215 rows of \<open>gClocks\<close>, in the order of the
  source and cut into pieces of a few rows. The row functions are those of \<open>ClockRows\<close>.
\<close>

section \<open>Clock ids\<close>

abbreviation MT6768_TOP_F_FRTC :: u32 where "MT6768_TOP_F_FRTC \<equiv> 0"
abbreviation MT6768_TOP_CLK26M :: u32 where "MT6768_TOP_CLK26M \<equiv> 1"
abbreviation MT6768_TOP_DMPLL :: u32 where "MT6768_TOP_DMPLL \<equiv> 2"
abbreviation MT6768_AP_ARMPLL :: u32 where "MT6768_AP_ARMPLL \<equiv> 3"
abbreviation MT6768_AP_ARMPLL_L :: u32 where "MT6768_AP_ARMPLL_L \<equiv> 4"
abbreviation MT6768_AP_CCIPLL :: u32 where "MT6768_AP_CCIPLL \<equiv> 5"
abbreviation MT6768_AP_UNIV2PLL :: u32 where "MT6768_AP_UNIV2PLL \<equiv> 6"
abbreviation MT6768_AP_MFGPLL :: u32 where "MT6768_AP_MFGPLL \<equiv> 7"
abbreviation MT6768_AP_MAINPLL :: u32 where "MT6768_AP_MAINPLL \<equiv> 8"
abbreviation MT6768_AP_APLL1 :: u32 where "MT6768_AP_APLL1 \<equiv> 9"
abbreviation MT6768_AP_MMPLL :: u32 where "MT6768_AP_MMPLL \<equiv> 10"
abbreviation MT6768_AP_MPLL :: u32 where "MT6768_AP_MPLL \<equiv> 11"
abbreviation MT6768_AP_MSDCPLL :: u32 where "MT6768_AP_MSDCPLL \<equiv> 12"
abbreviation MT6768_TOP_AXI_SEL :: u32 where "MT6768_TOP_AXI_SEL \<equiv> 13"
abbreviation MT6768_TOP_MEM_SEL :: u32 where "MT6768_TOP_MEM_SEL \<equiv> 14"
abbreviation MT6768_TOP_MM_SEL :: u32 where "MT6768_TOP_MM_SEL \<equiv> 15"
abbreviation MT6768_TOP_SCP_SEL :: u32 where "MT6768_TOP_SCP_SEL \<equiv> 16"
abbreviation MT6768_TOP_MFG_SEL :: u32 where "MT6768_TOP_MFG_SEL \<equiv> 17"
abbreviation MT6768_TOP_ATB_SEL :: u32 where "MT6768_TOP_ATB_SEL \<equiv> 18"
abbreviation MT6768_TOP_CAMTG_SEL :: u32 where "MT6768_TOP_CAMTG_SEL \<equiv> 19"
abbreviation MT6768_TOP_CAMTG1_SEL :: u32 where "MT6768_TOP_CAMTG1_SEL \<equiv> 20"
abbreviation MT6768_TOP_CAMTG2_SEL :: u32 where "MT6768_TOP_CAMTG2_SEL \<equiv> 21"
abbreviation MT6768_TOP_CAMTG3_SEL :: u32 where "MT6768_TOP_CAMTG3_SEL \<equiv> 22"
abbreviation MT6768_TOP_UART_SEL :: u32 where "MT6768_TOP_UART_SEL \<equiv> 23"
abbreviation MT6768_TOP_SPI_SEL :: u32 where "MT6768_TOP_SPI_SEL \<equiv> 24"
abbreviation MT6768_TOP_MSDC50_0_HCLK_SEL :: u32 where "MT6768_TOP_MSDC50_0_HCLK_SEL \<equiv> 25"
abbreviation MT6768_TOP_MSDC50_0_SEL :: u32 where "MT6768_TOP_MSDC50_0_SEL \<equiv> 26"
abbreviation MT6768_TOP_MSDC30_1_SEL :: u32 where "MT6768_TOP_MSDC30_1_SEL \<equiv> 27"
abbreviation MT6768_TOP_AUDIO_SEL :: u32 where "MT6768_TOP_AUDIO_SEL \<equiv> 28"
abbreviation MT6768_TOP_AUD_INTBUS_SEL :: u32 where "MT6768_TOP_AUD_INTBUS_SEL \<equiv> 29"
abbreviation MT6768_TOP_AUD_1_SEL :: u32 where "MT6768_TOP_AUD_1_SEL \<equiv> 30"
abbreviation MT6768_TOP_AUD_ENGEN1_SEL :: u32 where "MT6768_TOP_AUD_ENGEN1_SEL \<equiv> 31"
abbreviation MT6768_TOP_SSPM_SEL :: u32 where "MT6768_TOP_SSPM_SEL \<equiv> 32"
abbreviation MT6768_TOP_DXCC_SEL :: u32 where "MT6768_TOP_DXCC_SEL \<equiv> 33"
abbreviation MT6768_TOP_USB_TOP_SEL :: u32 where "MT6768_TOP_USB_TOP_SEL \<equiv> 34"
abbreviation MT6768_TOP_SPM_SEL :: u32 where "MT6768_TOP_SPM_SEL \<equiv> 35"
abbreviation MT6768_TOP_I2C_SEL :: u32 where "MT6768_TOP_I2C_SEL \<equiv> 36"
abbreviation MT6768_TOP_PWM_SEL :: u32 where "MT6768_TOP_PWM_SEL \<equiv> 37"
abbreviation MT6768_TOP_SENINF_SEL :: u32 where "MT6768_TOP_SENINF_SEL \<equiv> 38"
abbreviation MT6768_TOP_AES_FDE_SEL :: u32 where "MT6768_TOP_AES_FDE_SEL \<equiv> 39"
abbreviation MT6768_TOP_CAMTM_SEL :: u32 where "MT6768_TOP_CAMTM_SEL \<equiv> 40"
abbreviation MT6768_TOP_VENC_SEL :: u32 where "MT6768_TOP_VENC_SEL \<equiv> 41"
abbreviation MT6768_TOP_CAM_SEL :: u32 where "MT6768_TOP_CAM_SEL \<equiv> 42"
abbreviation MT6768_TOP_CLK13M :: u32 where "MT6768_TOP_CLK13M \<equiv> 43"
abbreviation MT6768_TOP_SYSPLL :: u32 where "MT6768_TOP_SYSPLL \<equiv> 44"
abbreviation MT6768_TOP_SYSPLL_D2 :: u32 where "MT6768_TOP_SYSPLL_D2 \<equiv> 45"
abbreviation MT6768_TOP_SYSPLL1_D2 :: u32 where "MT6768_TOP_SYSPLL1_D2 \<equiv> 46"
abbreviation MT6768_TOP_SYSPLL1_D4 :: u32 where "MT6768_TOP_SYSPLL1_D4 \<equiv> 47"
abbreviation MT6768_TOP_SYSPLL1_D8 :: u32 where "MT6768_TOP_SYSPLL1_D8 \<equiv> 48"
abbreviation MT6768_TOP_SYSPLL1_D16 :: u32 where "MT6768_TOP_SYSPLL1_D16 \<equiv> 49"
abbreviation MT6768_TOP_SYSPLL_D3 :: u32 where "MT6768_TOP_SYSPLL_D3 \<equiv> 50"
abbreviation MT6768_TOP_SYSPLL2_D2 :: u32 where "MT6768_TOP_SYSPLL2_D2 \<equiv> 51"
abbreviation MT6768_TOP_SYSPLL2_D4 :: u32 where "MT6768_TOP_SYSPLL2_D4 \<equiv> 52"
abbreviation MT6768_TOP_SYSPLL2_D8 :: u32 where "MT6768_TOP_SYSPLL2_D8 \<equiv> 53"
abbreviation MT6768_TOP_SYSPLL_D5 :: u32 where "MT6768_TOP_SYSPLL_D5 \<equiv> 54"
abbreviation MT6768_TOP_SYSPLL3_D2 :: u32 where "MT6768_TOP_SYSPLL3_D2 \<equiv> 55"
abbreviation MT6768_TOP_SYSPLL3_D4 :: u32 where "MT6768_TOP_SYSPLL3_D4 \<equiv> 56"
abbreviation MT6768_TOP_SYSPLL_D7 :: u32 where "MT6768_TOP_SYSPLL_D7 \<equiv> 57"
abbreviation MT6768_TOP_SYSPLL4_D2 :: u32 where "MT6768_TOP_SYSPLL4_D2 \<equiv> 58"
abbreviation MT6768_TOP_SYSPLL4_D4 :: u32 where "MT6768_TOP_SYSPLL4_D4 \<equiv> 59"
abbreviation MT6768_TOP_USB20_192M :: u32 where "MT6768_TOP_USB20_192M \<equiv> 60"
abbreviation MT6768_TOP_USB20_192M_D4 :: u32 where "MT6768_TOP_USB20_192M_D4 \<equiv> 61"
abbreviation MT6768_TOP_USB20_192M_D8 :: u32 where "MT6768_TOP_USB20_192M_D8 \<equiv> 62"
abbreviation MT6768_TOP_USB20_192M_D16 :: u32 where "MT6768_TOP_USB20_192M_D16 \<equiv> 63"
abbreviation MT6768_TOP_USB20_192M_D32 :: u32 where "MT6768_TOP_USB20_192M_D32 \<equiv> 64"
abbreviation MT6768_TOP_UNIVPLL :: u32 where "MT6768_TOP_UNIVPLL \<equiv> 65"
abbreviation MT6768_TOP_UNIVPLL_D2 :: u32 where "MT6768_TOP_UNIVPLL_D2 \<equiv> 66"
abbreviation MT6768_TOP_UNIVPLL1_D2 :: u32 where "MT6768_TOP_UNIVPLL1_D2 \<equiv> 67"
abbreviation MT6768_TOP_UNIVPLL1_D4 :: u32 where "MT6768_TOP_UNIVPLL1_D4 \<equiv> 68"
abbreviation MT6768_TOP_UNIVPLL_D3 :: u32 where "MT6768_TOP_UNIVPLL_D3 \<equiv> 69"
abbreviation MT6768_TOP_UNIVPLL2_D2 :: u32 where "MT6768_TOP_UNIVPLL2_D2 \<equiv> 70"
abbreviation MT6768_TOP_UNIVPLL2_D4 :: u32 where "MT6768_TOP_UNIVPLL2_D4 \<equiv> 71"
abbreviation MT6768_TOP_UNIVPLL2_D8 :: u32 where "MT6768_TOP_UNIVPLL2_D8 \<equiv> 72"
abbreviation MT6768_TOP_UNIVPLL2_D32 :: u32 where "MT6768_TOP_UNIVPLL2_D32 \<equiv> 73"
abbreviation MT6768_TOP_UNIVPLL_D5 :: u32 where "MT6768_TOP_UNIVPLL_D5 \<equiv> 74"
abbreviation MT6768_TOP_UNIVPLL3_D2 :: u32 where "MT6768_TOP_UNIVPLL3_D2 \<equiv> 75"
abbreviation MT6768_TOP_UNIVPLL3_D4 :: u32 where "MT6768_TOP_UNIVPLL3_D4 \<equiv> 76"
abbreviation MT6768_TOP_MMPLL :: u32 where "MT6768_TOP_MMPLL \<equiv> 77"
abbreviation MT6768_TOP_MMPLL_D2 :: u32 where "MT6768_TOP_MMPLL_D2 \<equiv> 78"
abbreviation MT6768_TOP_MPLL :: u32 where "MT6768_TOP_MPLL \<equiv> 79"
abbreviation MT6768_TOP_DA_MPLL_104M_DIV :: u32 where "MT6768_TOP_DA_MPLL_104M_DIV \<equiv> 80"
abbreviation MT6768_TOP_DA_MPLL_52M_DIV :: u32 where "MT6768_TOP_DA_MPLL_52M_DIV \<equiv> 81"
abbreviation MT6768_TOP_MFGPLL :: u32 where "MT6768_TOP_MFGPLL \<equiv> 82"
abbreviation MT6768_TOP_MSDCPLL :: u32 where "MT6768_TOP_MSDCPLL \<equiv> 83"
abbreviation MT6768_TOP_MSDCPLL_D2 :: u32 where "MT6768_TOP_MSDCPLL_D2 \<equiv> 84"
abbreviation MT6768_TOP_APLL1 :: u32 where "MT6768_TOP_APLL1 \<equiv> 85"
abbreviation MT6768_TOP_APLL1_D2 :: u32 where "MT6768_TOP_APLL1_D2 \<equiv> 86"
abbreviation MT6768_TOP_APLL1_D4 :: u32 where "MT6768_TOP_APLL1_D4 \<equiv> 87"
abbreviation MT6768_TOP_APLL1_D8 :: u32 where "MT6768_TOP_APLL1_D8 \<equiv> 88"
abbreviation MT6768_TOP_F_F26M :: u32 where "MT6768_TOP_F_F26M \<equiv> 89"
abbreviation MT6768_TOP_AXI :: u32 where "MT6768_TOP_AXI \<equiv> 90"
abbreviation MT6768_TOP_MM :: u32 where "MT6768_TOP_MM \<equiv> 91"
abbreviation MT6768_TOP_SCP :: u32 where "MT6768_TOP_SCP \<equiv> 92"
abbreviation MT6768_TOP_MFG :: u32 where "MT6768_TOP_MFG \<equiv> 93"
abbreviation MT6768_TOP_F_FUART :: u32 where "MT6768_TOP_F_FUART \<equiv> 94"
abbreviation MT6768_TOP_SPI :: u32 where "MT6768_TOP_SPI \<equiv> 95"
abbreviation MT6768_TOP_MSDC50_0_HCLK :: u32 where "MT6768_TOP_MSDC50_0_HCLK \<equiv> 96"
abbreviation MT6768_TOP_MSDC50_0 :: u32 where "MT6768_TOP_MSDC50_0 \<equiv> 97"
abbreviation MT6768_TOP_MSDC30_1 :: u32 where "MT6768_TOP_MSDC30_1 \<equiv> 98"
abbreviation MT6768_TOP_AUDIO :: u32 where "MT6768_TOP_AUDIO \<equiv> 99"
abbreviation MT6768_TOP_AUD_1 :: u32 where "MT6768_TOP_AUD_1 \<equiv> 100"
abbreviation MT6768_TOP_AUD_ENGEN1 :: u32 where "MT6768_TOP_AUD_ENGEN1 \<equiv> 101"
abbreviation MT6768_TOP_SSPM :: u32 where "MT6768_TOP_SSPM \<equiv> 102"
abbreviation MT6768_TOP_DXCC :: u32 where "MT6768_TOP_DXCC \<equiv> 103"
abbreviation MT6768_TOP_I2C :: u32 where "MT6768_TOP_I2C \<equiv> 104"
abbreviation MT6768_TOP_F_FPWM :: u32 where "MT6768_TOP_F_FPWM \<equiv> 105"
abbreviation MT6768_TOP_F_FSENINF :: u32 where "MT6768_TOP_F_FSENINF \<equiv> 106"
abbreviation MT6768_TOP_AES_FDE :: u32 where "MT6768_TOP_AES_FDE \<equiv> 107"
abbreviation MT6768_TOP_VENC :: u32 where "MT6768_TOP_VENC \<equiv> 108"
abbreviation MT6768_TOP_CAM :: u32 where "MT6768_TOP_CAM \<equiv> 109"
abbreviation MT6768_TOP_F_BIST2FPC :: u32 where "MT6768_TOP_F_BIST2FPC \<equiv> 110"
abbreviation MT6768_TOP_ARMPLL_DIVIDER_PLL0 :: u32 where "MT6768_TOP_ARMPLL_DIVIDER_PLL0 \<equiv> 111"
abbreviation MT6768_TOP_ARMPLL_DIVIDER_PLL1 :: u32 where "MT6768_TOP_ARMPLL_DIVIDER_PLL1 \<equiv> 112"
abbreviation MT6768_TOP_ARMPLL_DIVIDER_PLL2 :: u32 where "MT6768_TOP_ARMPLL_DIVIDER_PLL2 \<equiv> 113"
abbreviation MT6768_TOP_DA_USB20_48M_DIV :: u32 where "MT6768_TOP_DA_USB20_48M_DIV \<equiv> 114"
abbreviation MT6768_TOP_DA_UNIV_48M_DIV :: u32 where "MT6768_TOP_DA_UNIV_48M_DIV \<equiv> 115"
abbreviation MT6768_TOP_MD_32K :: u32 where "MT6768_TOP_MD_32K \<equiv> 116"
abbreviation MT6768_TOP_MD_26M :: u32 where "MT6768_TOP_MD_26M \<equiv> 117"
abbreviation MT6768_TOP_MD2_32K :: u32 where "MT6768_TOP_MD2_32K \<equiv> 118"
abbreviation MT6768_TOP_MD2_26M :: u32 where "MT6768_TOP_MD2_26M \<equiv> 119"
abbreviation MT6768_TOP_ARMPLL_DIVIDER_PLL0_EN :: u32 where "MT6768_TOP_ARMPLL_DIVIDER_PLL0_EN \<equiv> 120"
abbreviation MT6768_TOP_ARMPLL_DIVIDER_PLL1_EN :: u32 where "MT6768_TOP_ARMPLL_DIVIDER_PLL1_EN \<equiv> 121"
abbreviation MT6768_TOP_ARMPLL_DIVIDER_PLL2_EN :: u32 where "MT6768_TOP_ARMPLL_DIVIDER_PLL2_EN \<equiv> 122"
abbreviation MT6768_TOP_FMEM_OCC_DRC_EN :: u32 where "MT6768_TOP_FMEM_OCC_DRC_EN \<equiv> 123"
abbreviation MT6768_TOP_USB20_48M_EN :: u32 where "MT6768_TOP_USB20_48M_EN \<equiv> 124"
abbreviation MT6768_TOP_UNIVPLL_48M_EN :: u32 where "MT6768_TOP_UNIVPLL_48M_EN \<equiv> 125"
abbreviation MT6768_TOP_MPLL_104M_EN :: u32 where "MT6768_TOP_MPLL_104M_EN \<equiv> 126"
abbreviation MT6768_TOP_MPLL_52M_EN :: u32 where "MT6768_TOP_MPLL_52M_EN \<equiv> 127"
abbreviation MT6768_TOP_F_UFS_MP_SAP_CFG_EN :: u32 where "MT6768_TOP_F_UFS_MP_SAP_CFG_EN \<equiv> 128"
abbreviation MT6768_TOP_F_BIST2FPC_EN :: u32 where "MT6768_TOP_F_BIST2FPC_EN \<equiv> 129"
abbreviation MT6768_INFRA_TOPAXI_DISABLE :: u32 where "MT6768_INFRA_TOPAXI_DISABLE \<equiv> 130"
abbreviation MT6768_INFRA_PERI_DCM_RG_FORCE_CLKOFF :: u32 where "MT6768_INFRA_PERI_DCM_RG_FORCE_CLKOFF \<equiv> 131"
abbreviation MT6768_INFRA_PMIC_TMR :: u32 where "MT6768_INFRA_PMIC_TMR \<equiv> 132"
abbreviation MT6768_INFRA_PMIC_AP :: u32 where "MT6768_INFRA_PMIC_AP \<equiv> 133"
abbreviation MT6768_INFRA_PMIC_MD :: u32 where "MT6768_INFRA_PMIC_MD \<equiv> 134"
abbreviation MT6768_INFRA_PMIC_CONN :: u32 where "MT6768_INFRA_PMIC_CONN \<equiv> 135"
abbreviation MT6768_INFRA_SCP_CORE :: u32 where "MT6768_INFRA_SCP_CORE \<equiv> 136"
abbreviation MT6768_INFRA_SEJ :: u32 where "MT6768_INFRA_SEJ \<equiv> 137"
abbreviation MT6768_INFRA_APXGPT :: u32 where "MT6768_INFRA_APXGPT \<equiv> 138"
abbreviation MT6768_INFRA_ICUSB :: u32 where "MT6768_INFRA_ICUSB \<equiv> 139"
abbreviation MT6768_INFRA_GCE :: u32 where "MT6768_INFRA_GCE \<equiv> 140"
abbreviation MT6768_INFRA_THERM :: u32 where "MT6768_INFRA_THERM \<equiv> 141"
abbreviation MT6768_INFRA_I2C_AP :: u32 where "MT6768_INFRA_I2C_AP \<equiv> 142"
abbreviation MT6768_INFRA_I2C_CCU :: u32 where "MT6768_INFRA_I2C_CCU \<equiv> 143"
abbreviation MT6768_INFRA_I2C_SSPM :: u32 where "MT6768_INFRA_I2C_SSPM \<equiv> 144"
abbreviation MT6768_INFRA_I2C_RSV :: u32 where "MT6768_INFRA_I2C_RSV \<equiv> 145"
abbreviation MT6768_INFRA_PWM_HCLK :: u32 where "MT6768_INFRA_PWM_HCLK \<equiv> 146"
abbreviation MT6768_INFRA_PWM1 :: u32 where "MT6768_INFRA_PWM1 \<equiv> 147"
abbreviation MT6768_INFRA_PWM2 :: u32 where "MT6768_INFRA_PWM2 \<equiv> 148"
abbreviation MT6768_INFRA_PWM3 :: u32 where "MT6768_INFRA_PWM3 \<equiv> 149"
abbreviation MT6768_INFRA_PWM4 :: u32 where "MT6768_INFRA_PWM4 \<equiv> 150"
abbreviation MT6768_INFRA_PWM5 :: u32 where "MT6768_INFRA_PWM5 \<equiv> 151"
abbreviation MT6768_INFRA_PWM :: u32 where "MT6768_INFRA_PWM \<equiv> 152"
abbreviation MT6768_INFRA_UART0 :: u32 where "MT6768_INFRA_UART0 \<equiv> 153"
abbreviation MT6768_INFRA_UART1 :: u32 where "MT6768_INFRA_UART1 \<equiv> 154"
abbreviation MT6768_INFRA_GCE_26M :: u32 where "MT6768_INFRA_GCE_26M \<equiv> 155"
abbreviation MT6768_INFRA_CQ_DMA_FPC :: u32 where "MT6768_INFRA_CQ_DMA_FPC \<equiv> 156"
abbreviation MT6768_INFRA_BTIF :: u32 where "MT6768_INFRA_BTIF \<equiv> 157"
abbreviation MT6768_INFRA_SPI0 :: u32 where "MT6768_INFRA_SPI0 \<equiv> 158"
abbreviation MT6768_INFRA_MSDC0 :: u32 where "MT6768_INFRA_MSDC0 \<equiv> 159"
abbreviation MT6768_INFRA_MSDC1 :: u32 where "MT6768_INFRA_MSDC1 \<equiv> 160"
abbreviation MT6768_INFRA_DVFSRC :: u32 where "MT6768_INFRA_DVFSRC \<equiv> 161"
abbreviation MT6768_INFRA_GCPU :: u32 where "MT6768_INFRA_GCPU \<equiv> 162"
abbreviation MT6768_INFRA_TRNG :: u32 where "MT6768_INFRA_TRNG \<equiv> 163"
abbreviation MT6768_INFRA_AUXADC :: u32 where "MT6768_INFRA_AUXADC \<equiv> 164"
abbreviation MT6768_INFRA_CPUM :: u32 where "MT6768_INFRA_CPUM \<equiv> 165"
abbreviation MT6768_INFRA_CCIF1_AP :: u32 where "MT6768_INFRA_CCIF1_AP \<equiv> 166"
abbreviation MT6768_INFRA_CCIF1_MD :: u32 where "MT6768_INFRA_CCIF1_MD \<equiv> 167"
abbreviation MT6768_INFRA_AUXADC_MD :: u32 where "MT6768_INFRA_AUXADC_MD \<equiv> 168"
abbreviation MT6768_INFRA_AP_DMA :: u32 where "MT6768_INFRA_AP_DMA \<equiv> 169"
abbreviation MT6768_INFRA_XIU :: u32 where "MT6768_INFRA_XIU \<equiv> 170"
abbreviation MT6768_INFRA_DEVICE_APC :: u32 where "MT6768_INFRA_DEVICE_APC \<equiv> 171"
abbreviation MT6768_INFRA_CCIF_AP :: u32 where "MT6768_INFRA_CCIF_AP \<equiv> 172"
abbreviation MT6768_INFRA_DEBUGTOP :: u32 where "MT6768_INFRA_DEBUGTOP \<equiv> 173"
abbreviation MT6768_INFRA_AUDIO :: u32 where "MT6768_INFRA_AUDIO \<equiv> 174"
abbreviation MT6768_INFRA_CCIF_MD :: u32 where "MT6768_INFRA_CCIF_MD \<equiv> 175"
abbreviation MT6768_INFRA_DXCC_SEC_CORE :: u32 where "MT6768_INFRA_DXCC_SEC_CORE \<equiv> 176"
abbreviation MT6768_INFRA_DXCC_AO :: u32 where "MT6768_INFRA_DXCC_AO \<equiv> 177"
abbreviation MT6768_INFRA_DRAMC_F26M :: u32 where "MT6768_INFRA_DRAMC_F26M \<equiv> 178"
abbreviation MT6768_INFRA_RG_PWM_FBCLK6 :: u32 where "MT6768_INFRA_RG_PWM_FBCLK6 \<equiv> 179"
abbreviation MT6768_INFRA_CLDMA_BCLK :: u32 where "MT6768_INFRA_CLDMA_BCLK \<equiv> 180"
abbreviation MT6768_INFRA_AUDIO_26M_BCLK :: u32 where "MT6768_INFRA_AUDIO_26M_BCLK \<equiv> 181"
abbreviation MT6768_INFRA_SPI1 :: u32 where "MT6768_INFRA_SPI1 \<equiv> 182"
abbreviation MT6768_INFRA_I2C4 :: u32 where "MT6768_INFRA_I2C4 \<equiv> 183"
abbreviation MT6768_INFRA_MODEM_TEMP_SHARE :: u32 where "MT6768_INFRA_MODEM_TEMP_SHARE \<equiv> 184"
abbreviation MT6768_INFRA_SPI2 :: u32 where "MT6768_INFRA_SPI2 \<equiv> 185"
abbreviation MT6768_INFRA_SPI3 :: u32 where "MT6768_INFRA_SPI3 \<equiv> 186"
abbreviation MT6768_INFRA_SSPM :: u32 where "MT6768_INFRA_SSPM \<equiv> 187"
abbreviation MT6768_INFRA_I2C5 :: u32 where "MT6768_INFRA_I2C5 \<equiv> 188"
abbreviation MT6768_INFRA_I2C5_ARBITER :: u32 where "MT6768_INFRA_I2C5_ARBITER \<equiv> 189"
abbreviation MT6768_INFRA_I2C5_IMM :: u32 where "MT6768_INFRA_I2C5_IMM \<equiv> 190"
abbreviation MT6768_INFRA_I2C1_ARBITER :: u32 where "MT6768_INFRA_I2C1_ARBITER \<equiv> 191"
abbreviation MT6768_INFRA_I2C1_IMM :: u32 where "MT6768_INFRA_I2C1_IMM \<equiv> 192"
abbreviation MT6768_INFRA_I2C2_ARBITER :: u32 where "MT6768_INFRA_I2C2_ARBITER \<equiv> 193"
abbreviation MT6768_INFRA_I2C2_IMM :: u32 where "MT6768_INFRA_I2C2_IMM \<equiv> 194"
abbreviation MT6768_INFRA_SPI4 :: u32 where "MT6768_INFRA_SPI4 \<equiv> 195"
abbreviation MT6768_INFRA_SPI5 :: u32 where "MT6768_INFRA_SPI5 \<equiv> 196"
abbreviation MT6768_INFRA_CQ_DMA :: u32 where "MT6768_INFRA_CQ_DMA \<equiv> 197"
abbreviation MT6768_INFRA_FAES_FDE :: u32 where "MT6768_INFRA_FAES_FDE \<equiv> 198"
abbreviation MT6768_INFRA_MSDC0_SELF :: u32 where "MT6768_INFRA_MSDC0_SELF \<equiv> 199"
abbreviation MT6768_INFRA_MSDC1_SELF :: u32 where "MT6768_INFRA_MSDC1_SELF \<equiv> 200"
abbreviation MT6768_INFRA_SSPM_26M_SELF :: u32 where "MT6768_INFRA_SSPM_26M_SELF \<equiv> 201"
abbreviation MT6768_INFRA_SSPM_32K_SELF :: u32 where "MT6768_INFRA_SSPM_32K_SELF \<equiv> 202"
abbreviation MT6768_INFRA_I2C6 :: u32 where "MT6768_INFRA_I2C6 \<equiv> 203"
abbreviation MT6768_INFRA_AP_MSDC0 :: u32 where "MT6768_INFRA_AP_MSDC0 \<equiv> 204"
abbreviation MT6768_INFRA_MD_MSDC0 :: u32 where "MT6768_INFRA_MD_MSDC0 \<equiv> 205"
abbreviation MT6768_INFRA_MSDC0_SRC :: u32 where "MT6768_INFRA_MSDC0_SRC \<equiv> 206"
abbreviation MT6768_INFRA_MSDC1_SRC :: u32 where "MT6768_INFRA_MSDC1_SRC \<equiv> 207"
abbreviation MT6768_INFRA_SEJ_F13M :: u32 where "MT6768_INFRA_SEJ_F13M \<equiv> 208"
abbreviation MT6768_INFRA_AES_TOP0_BCLK :: u32 where "MT6768_INFRA_AES_TOP0_BCLK \<equiv> 209"
abbreviation MT6768_INFRA_MCU_PM_BCLK :: u32 where "MT6768_INFRA_MCU_PM_BCLK \<equiv> 210"
abbreviation MT6768_INFRA_CCIF2_AP :: u32 where "MT6768_INFRA_CCIF2_AP \<equiv> 211"
abbreviation MT6768_INFRA_CCIF2_MD :: u32 where "MT6768_INFRA_CCIF2_MD \<equiv> 212"
abbreviation MT6768_INFRA_CCIF3_AP :: u32 where "MT6768_INFRA_CCIF3_AP \<equiv> 213"
abbreviation MT6768_INFRA_CCIF3_MD :: u32 where "MT6768_INFRA_CCIF3_MD \<equiv> 214"

text \<open>The enumerators in their order; \<open>MAX_CLOCK_ID\<close> is their number.\<close>

definition MT6768_CLOCK_ID :: "u32 list" where
  "MT6768_CLOCK_ID = [MT6768_TOP_F_FRTC, MT6768_TOP_CLK26M, MT6768_TOP_DMPLL, MT6768_AP_ARMPLL, MT6768_AP_ARMPLL_L,
     MT6768_AP_CCIPLL, MT6768_AP_UNIV2PLL, MT6768_AP_MFGPLL, MT6768_AP_MAINPLL, MT6768_AP_APLL1,
     MT6768_AP_MMPLL, MT6768_AP_MPLL, MT6768_AP_MSDCPLL, MT6768_TOP_AXI_SEL, MT6768_TOP_MEM_SEL,
     MT6768_TOP_MM_SEL, MT6768_TOP_SCP_SEL, MT6768_TOP_MFG_SEL, MT6768_TOP_ATB_SEL,
     MT6768_TOP_CAMTG_SEL, MT6768_TOP_CAMTG1_SEL, MT6768_TOP_CAMTG2_SEL, MT6768_TOP_CAMTG3_SEL,
     MT6768_TOP_UART_SEL, MT6768_TOP_SPI_SEL, MT6768_TOP_MSDC50_0_HCLK_SEL, MT6768_TOP_MSDC50_0_SEL,
     MT6768_TOP_MSDC30_1_SEL, MT6768_TOP_AUDIO_SEL, MT6768_TOP_AUD_INTBUS_SEL, MT6768_TOP_AUD_1_SEL,
     MT6768_TOP_AUD_ENGEN1_SEL, MT6768_TOP_SSPM_SEL, MT6768_TOP_DXCC_SEL, MT6768_TOP_USB_TOP_SEL,
     MT6768_TOP_SPM_SEL, MT6768_TOP_I2C_SEL, MT6768_TOP_PWM_SEL, MT6768_TOP_SENINF_SEL,
     MT6768_TOP_AES_FDE_SEL, MT6768_TOP_CAMTM_SEL, MT6768_TOP_VENC_SEL, MT6768_TOP_CAM_SEL,
     MT6768_TOP_CLK13M, MT6768_TOP_SYSPLL, MT6768_TOP_SYSPLL_D2, MT6768_TOP_SYSPLL1_D2,
     MT6768_TOP_SYSPLL1_D4, MT6768_TOP_SYSPLL1_D8, MT6768_TOP_SYSPLL1_D16, MT6768_TOP_SYSPLL_D3,
     MT6768_TOP_SYSPLL2_D2, MT6768_TOP_SYSPLL2_D4, MT6768_TOP_SYSPLL2_D8, MT6768_TOP_SYSPLL_D5,
     MT6768_TOP_SYSPLL3_D2, MT6768_TOP_SYSPLL3_D4, MT6768_TOP_SYSPLL_D7, MT6768_TOP_SYSPLL4_D2,
     MT6768_TOP_SYSPLL4_D4, MT6768_TOP_USB20_192M, MT6768_TOP_USB20_192M_D4, MT6768_TOP_USB20_192M_D8,
     MT6768_TOP_USB20_192M_D16, MT6768_TOP_USB20_192M_D32, MT6768_TOP_UNIVPLL, MT6768_TOP_UNIVPLL_D2,
     MT6768_TOP_UNIVPLL1_D2, MT6768_TOP_UNIVPLL1_D4, MT6768_TOP_UNIVPLL_D3, MT6768_TOP_UNIVPLL2_D2,
     MT6768_TOP_UNIVPLL2_D4, MT6768_TOP_UNIVPLL2_D8, MT6768_TOP_UNIVPLL2_D32, MT6768_TOP_UNIVPLL_D5,
     MT6768_TOP_UNIVPLL3_D2, MT6768_TOP_UNIVPLL3_D4, MT6768_TOP_MMPLL, MT6768_TOP_MMPLL_D2,
     MT6768_TOP_MPLL, MT6768_TOP_DA_MPLL_104M_DIV, MT6768_TOP_DA_MPLL_52M_DIV, MT6768_TOP_MFGPLL,
     MT6768_TOP_MSDCPLL, MT6768_TOP_MSDCPLL_D2, MT6768_TOP_APLL1, MT6768_TOP_APLL1_D2,
     MT6768_TOP_APLL1_D4, MT6768_TOP_APLL1_D8, MT6768_TOP_F_F26M, MT6768_TOP_AXI, MT6768_TOP_MM,
     MT6768_TOP_SCP, MT6768_TOP_MFG, MT6768_TOP_F_FUART, MT6768_TOP_SPI, MT6768_TOP_MSDC50_0_HCLK,
     MT6768_TOP_MSDC50_0, MT6768_TOP_MSDC30_1, MT6768_TOP_AUDIO, MT6768_TOP_AUD_1,
     MT6768_TOP_AUD_ENGEN1, MT6768_TOP_SSPM, MT6768_TOP_DXCC, MT6768_TOP_I2C, MT6768_TOP_F_FPWM,
     MT6768_TOP_F_FSENINF, MT6768_TOP_AES_FDE, MT6768_TOP_VENC, MT6768_TOP_CAM, MT6768_TOP_F_BIST2FPC,
     MT6768_TOP_ARMPLL_DIVIDER_PLL0, MT6768_TOP_ARMPLL_DIVIDER_PLL1, MT6768_TOP_ARMPLL_DIVIDER_PLL2,
     MT6768_TOP_DA_USB20_48M_DIV, MT6768_TOP_DA_UNIV_48M_DIV, MT6768_TOP_MD_32K, MT6768_TOP_MD_26M,
     MT6768_TOP_MD2_32K, MT6768_TOP_MD2_26M, MT6768_TOP_ARMPLL_DIVIDER_PLL0_EN,
     MT6768_TOP_ARMPLL_DIVIDER_PLL1_EN, MT6768_TOP_ARMPLL_DIVIDER_PLL2_EN, MT6768_TOP_FMEM_OCC_DRC_EN,
     MT6768_TOP_USB20_48M_EN, MT6768_TOP_UNIVPLL_48M_EN, MT6768_TOP_MPLL_104M_EN,
     MT6768_TOP_MPLL_52M_EN, MT6768_TOP_F_UFS_MP_SAP_CFG_EN, MT6768_TOP_F_BIST2FPC_EN,
     MT6768_INFRA_TOPAXI_DISABLE, MT6768_INFRA_PERI_DCM_RG_FORCE_CLKOFF, MT6768_INFRA_PMIC_TMR,
     MT6768_INFRA_PMIC_AP, MT6768_INFRA_PMIC_MD, MT6768_INFRA_PMIC_CONN, MT6768_INFRA_SCP_CORE,
     MT6768_INFRA_SEJ, MT6768_INFRA_APXGPT, MT6768_INFRA_ICUSB, MT6768_INFRA_GCE, MT6768_INFRA_THERM,
     MT6768_INFRA_I2C_AP, MT6768_INFRA_I2C_CCU, MT6768_INFRA_I2C_SSPM, MT6768_INFRA_I2C_RSV,
     MT6768_INFRA_PWM_HCLK, MT6768_INFRA_PWM1, MT6768_INFRA_PWM2, MT6768_INFRA_PWM3, MT6768_INFRA_PWM4,
     MT6768_INFRA_PWM5, MT6768_INFRA_PWM, MT6768_INFRA_UART0, MT6768_INFRA_UART1, MT6768_INFRA_GCE_26M,
     MT6768_INFRA_CQ_DMA_FPC, MT6768_INFRA_BTIF, MT6768_INFRA_SPI0, MT6768_INFRA_MSDC0,
     MT6768_INFRA_MSDC1, MT6768_INFRA_DVFSRC, MT6768_INFRA_GCPU, MT6768_INFRA_TRNG, MT6768_INFRA_AUXADC,
     MT6768_INFRA_CPUM, MT6768_INFRA_CCIF1_AP, MT6768_INFRA_CCIF1_MD, MT6768_INFRA_AUXADC_MD,
     MT6768_INFRA_AP_DMA, MT6768_INFRA_XIU, MT6768_INFRA_DEVICE_APC, MT6768_INFRA_CCIF_AP,
     MT6768_INFRA_DEBUGTOP, MT6768_INFRA_AUDIO, MT6768_INFRA_CCIF_MD, MT6768_INFRA_DXCC_SEC_CORE,
     MT6768_INFRA_DXCC_AO, MT6768_INFRA_DRAMC_F26M, MT6768_INFRA_RG_PWM_FBCLK6, MT6768_INFRA_CLDMA_BCLK,
     MT6768_INFRA_AUDIO_26M_BCLK, MT6768_INFRA_SPI1, MT6768_INFRA_I2C4, MT6768_INFRA_MODEM_TEMP_SHARE,
     MT6768_INFRA_SPI2, MT6768_INFRA_SPI3, MT6768_INFRA_SSPM, MT6768_INFRA_I2C5,
     MT6768_INFRA_I2C5_ARBITER, MT6768_INFRA_I2C5_IMM, MT6768_INFRA_I2C1_ARBITER, MT6768_INFRA_I2C1_IMM,
     MT6768_INFRA_I2C2_ARBITER, MT6768_INFRA_I2C2_IMM, MT6768_INFRA_SPI4, MT6768_INFRA_SPI5,
     MT6768_INFRA_CQ_DMA, MT6768_INFRA_FAES_FDE, MT6768_INFRA_MSDC0_SELF, MT6768_INFRA_MSDC1_SELF,
     MT6768_INFRA_SSPM_26M_SELF, MT6768_INFRA_SSPM_32K_SELF, MT6768_INFRA_I2C6, MT6768_INFRA_AP_MSDC0,
     MT6768_INFRA_MD_MSDC0, MT6768_INFRA_MSDC0_SRC, MT6768_INFRA_MSDC1_SRC, MT6768_INFRA_SEJ_F13M,
     MT6768_INFRA_AES_TOP0_BCLK, MT6768_INFRA_MCU_PM_BCLK, MT6768_INFRA_CCIF2_AP, MT6768_INFRA_CCIF2_MD,
     MT6768_INFRA_CCIF3_AP, MT6768_INFRA_CCIF3_MD]"

section \<open>Parents of the multiplexers\<close>

definition mt6768_TopAxiSelParents :: "u32 list" where
  "mt6768_TopAxiSelParents = [MT6768_TOP_CLK26M, MT6768_TOP_SYSPLL_D7, MT6768_TOP_SYSPLL1_D4, MT6768_TOP_SYSPLL3_D2]"

definition mt6768_TopMemSelParents :: "u32 list" where
  "mt6768_TopMemSelParents = [MT6768_TOP_CLK26M, MT6768_TOP_DMPLL, MT6768_TOP_APLL1]"

definition mt6768_TopMmSelParents :: "u32 list" where
  "mt6768_TopMmSelParents = [MT6768_TOP_CLK26M, MT6768_TOP_MMPLL, MT6768_TOP_SYSPLL1_D2, MT6768_TOP_SYSPLL_D5, MT6768_TOP_SYSPLL1_D4,
     MT6768_TOP_UNIVPLL_D5, MT6768_TOP_UNIVPLL1_D2, MT6768_TOP_MMPLL_D2]"

definition mt6768_TopScpSelParents :: "u32 list" where
  "mt6768_TopScpSelParents = [MT6768_TOP_CLK26M, MT6768_TOP_SYSPLL4_D2, MT6768_TOP_UNIVPLL2_D2, MT6768_TOP_SYSPLL1_D2,
     MT6768_TOP_UNIVPLL1_D2, MT6768_TOP_SYSPLL_D3, MT6768_TOP_UNIVPLL_D3]"

definition mt6768_TopMfgSelParents :: "u32 list" where
  "mt6768_TopMfgSelParents = [MT6768_TOP_CLK26M, MT6768_TOP_MFGPLL, MT6768_TOP_SYSPLL_D3, MT6768_TOP_UNIVPLL_D3]"

definition mt6768_TopAtbSelParents :: "u32 list" where
  "mt6768_TopAtbSelParents = [MT6768_TOP_CLK26M, MT6768_TOP_SYSPLL1_D4, MT6768_TOP_SYSPLL1_D2]"

definition mt6768_TopCamTgSelParents :: "u32 list" where
  "mt6768_TopCamTgSelParents = [MT6768_TOP_CLK26M, MT6768_TOP_USB20_192M_D8, MT6768_TOP_UNIVPLL2_D8, MT6768_TOP_USB20_192M_D4,
     MT6768_TOP_UNIVPLL2_D32, MT6768_TOP_USB20_192M_D16, MT6768_TOP_USB20_192M_D32]"

definition mt6768_TopUartSelParents :: "u32 list" where
  "mt6768_TopUartSelParents = [MT6768_TOP_CLK26M, MT6768_TOP_UNIVPLL2_D8]"

definition mt6768_TopSpiSelParents :: "u32 list" where
  "mt6768_TopSpiSelParents = [MT6768_TOP_CLK26M, MT6768_TOP_SYSPLL3_D2, MT6768_TOP_SYSPLL4_D2, MT6768_TOP_SYSPLL2_D4]"

definition mt6768_TopMsdc50HclkSelParents :: "u32 list" where
  "mt6768_TopMsdc50HclkSelParents = [MT6768_TOP_CLK26M, MT6768_TOP_SYSPLL1_D2, MT6768_TOP_UNIVPLL1_D4, MT6768_TOP_SYSPLL2_D2]"

definition mt6768_TopMsdc50SelParents :: "u32 list" where
  "mt6768_TopMsdc50SelParents = [MT6768_TOP_CLK26M, MT6768_TOP_MSDCPLL, MT6768_TOP_SYSPLL2_D2, MT6768_TOP_SYSPLL4_D2,
     MT6768_TOP_UNIVPLL1_D2, MT6768_TOP_SYSPLL1_D2, MT6768_TOP_UNIVPLL_D5, MT6768_TOP_UNIVPLL1_D4]"

definition mt6768_TopMsdc30SelParents :: "u32 list" where
  "mt6768_TopMsdc30SelParents = [MT6768_TOP_CLK26M, MT6768_TOP_MSDCPLL_D2, MT6768_TOP_UNIVPLL2_D2, MT6768_TOP_SYSPLL2_D2,
     MT6768_TOP_SYSPLL1_D4, MT6768_TOP_UNIVPLL1_D4, MT6768_TOP_USB20_192M_D4, MT6768_TOP_SYSPLL2_D4]"

definition mt6768_TopAudioSelParents :: "u32 list" where
  "mt6768_TopAudioSelParents = [MT6768_TOP_CLK26M, MT6768_TOP_SYSPLL3_D4, MT6768_TOP_SYSPLL4_D4, MT6768_TOP_SYSPLL1_D16]"

definition mt6768_TopAudIntBusSelParents :: "u32 list" where
  "mt6768_TopAudIntBusSelParents = [MT6768_TOP_CLK26M, MT6768_TOP_SYSPLL1_D4, MT6768_TOP_SYSPLL4_D2]"

definition mt6768_TopAud1SelParents :: "u32 list" where
  "mt6768_TopAud1SelParents = [MT6768_TOP_CLK26M, MT6768_TOP_APLL1]"

definition mt6768_TopAudEngEn1SelParents :: "u32 list" where
  "mt6768_TopAudEngEn1SelParents = [MT6768_TOP_CLK26M, MT6768_TOP_APLL1_D2, MT6768_TOP_APLL1_D4, MT6768_TOP_APLL1_D8]"

definition mt6768_TopSSPMSelParents :: "u32 list" where
  "mt6768_TopSSPMSelParents = [MT6768_TOP_CLK26M, MT6768_TOP_SYSPLL1_D2, MT6768_TOP_SYSPLL_D3]"

definition mt6768_TopDXCCSelParents :: "u32 list" where
  "mt6768_TopDXCCSelParents = [MT6768_TOP_CLK26M, MT6768_TOP_SYSPLL1_D2, MT6768_TOP_SYSPLL1_D4, MT6768_TOP_SYSPLL1_D8]"

definition mt6768_TopUSBTopSelParents :: "u32 list" where
  "mt6768_TopUSBTopSelParents = [MT6768_TOP_CLK26M, MT6768_TOP_UNIVPLL3_D4]"

definition mt6768_TopSpmSelParents :: "u32 list" where
  "mt6768_TopSpmSelParents = [MT6768_TOP_CLK26M, MT6768_TOP_SYSPLL1_D8]"

definition mt6768_TopI2CSelParents :: "u32 list" where
  "mt6768_TopI2CSelParents = [MT6768_TOP_CLK26M, MT6768_TOP_UNIVPLL3_D4, MT6768_TOP_UNIVPLL3_D2, MT6768_TOP_SYSPLL1_D8,
     MT6768_TOP_SYSPLL2_D8]"

definition mt6768_TopPwmSelParents :: "u32 list" where
  "mt6768_TopPwmSelParents = [MT6768_TOP_CLK26M, MT6768_TOP_UNIVPLL3_D4, MT6768_TOP_SYSPLL1_D8]"

definition mt6768_TopSeninfSelParents :: "u32 list" where
  "mt6768_TopSeninfSelParents = [MT6768_TOP_CLK26M, MT6768_TOP_UNIVPLL1_D4, MT6768_TOP_UNIVPLL1_D2, MT6768_TOP_UNIVPLL2_D2]"

definition mt6768_TopAesFdeSelParents :: "u32 list" where
  "mt6768_TopAesFdeSelParents = [MT6768_TOP_CLK26M, MT6768_TOP_MSDCPLL, MT6768_TOP_UNIVPLL_D3, MT6768_TOP_UNIVPLL2_D2,
     MT6768_TOP_UNIVPLL1_D2, MT6768_TOP_SYSPLL1_D2]"

definition mt6768_TopCamTmSelParents :: "u32 list" where
  "mt6768_TopCamTmSelParents = [MT6768_TOP_CLK26M, MT6768_TOP_UNIVPLL1_D4, MT6768_TOP_UNIVPLL1_D2, MT6768_TOP_UNIVPLL2_D2]"

definition mt6768_TopVencSelParents :: "u32 list" where
  "mt6768_TopVencSelParents = [MT6768_TOP_CLK26M, MT6768_TOP_MMPLL, MT6768_TOP_SYSPLL1_D2, MT6768_TOP_SYSPLL_D5, MT6768_TOP_SYSPLL1_D4,
     MT6768_TOP_SYSPLL_D3, MT6768_TOP_UNIVPLL_D3, MT6768_TOP_UNIVPLL1_D2]"

definition mt6768_TopCamSelParents :: "u32 list" where
  "mt6768_TopCamSelParents = [MT6768_TOP_CLK26M, MT6768_TOP_SYSPLL_D2, MT6768_TOP_SYSPLL1_D2, MT6768_TOP_SYSPLL_D5, MT6768_TOP_MMPLL,
     MT6768_TOP_UNIVPLL_D5, MT6768_TOP_UNIVPLL1_D2, MT6768_TOP_MMPLL_D2]"

section \<open>The table\<close>

definition mt6768_clocks_1 :: "clock list" where
  "mt6768_clocks_1 = [
     fixed_clock MT6768_TOP_F_FRTC ''TOP_F_FRTC'' 32768,
     fixed_clock MT6768_TOP_CLK26M ''TOP_CLK26M'' 26000000,
     fixed_clock MT6768_TOP_DMPLL ''TOP_DMPLL'' 26000000]"

definition mt6768_clocks_2 :: "clock list" where
  "mt6768_clocks_2 = [
     pll_clock MT6768_AP_ARMPLL ''AP_ARMPLL'' ClkApMixed 0x208 0x214 0x1 0 0x20C 24 3800000000 1500000000
       0x20C 0 22 8 MT6768_TOP_CLK26M,
     pll_clock MT6768_AP_ARMPLL_L ''AP_ARMPLL_L'' ClkApMixed 0x218 0x224 0x1 0 0x21C 24 3800000000 1500000000
       0x21C 0 22 8 MT6768_TOP_CLK26M,
     pll_clock MT6768_AP_CCIPLL ''AP_CCIPLL'' ClkApMixed 0x228 0x234 0x1 0 0x22C 24 3800000000 1500000000
       0x22C 0 22 8 MT6768_TOP_CLK26M,
     pll_clock MT6768_AP_UNIV2PLL ''AP_UNIV2PLL'' ClkApMixed 0x238 0x244 0x1 0x800000 0x23C 24 3800000000
       1500000000 0x23C 0 22 8 MT6768_TOP_CLK26M,
     pll_clock MT6768_AP_MFGPLL ''AP_MFGPLL'' ClkApMixed 0x248 0x254 0x1 0x800000 0x24C 24 3800000000
       1500000000 0x24C 0 22 8 MT6768_TOP_CLK26M,
     pll_clock MT6768_AP_MAINPLL ''AP_MAINPLL'' ClkApMixed 0x258 0x264 0x1 0 0x25C 24 3800000000 1500000000
       0x25C 0 22 8 MT6768_TOP_CLK26M]"

definition mt6768_clocks_3 :: "clock list" where
  "mt6768_clocks_3 = [
     pll_clock MT6768_AP_APLL1 ''AP_APLL1'' ClkApMixed 0x308 0x318 0x1 0x800000 0x30C 24 3800000000
       1500000000 0x310 0 32 0 0,
     pll_clock MT6768_AP_MMPLL ''AP_MMPLL'' ClkApMixed 0x31C 0x328 0x1 0x800000 0x320 24 3800000000
       1500000000 0x320 0 22 8 MT6768_TOP_CLK26M,
     pll_clock MT6768_AP_MPLL ''AP_MPLL'' ClkApMixed 0x32C 0x338 0x1 0 0x330 24 3800000000 1500000000 0x330 0
       22 8 MT6768_TOP_CLK26M,
     pll_clock MT6768_AP_MSDCPLL ''AP_MSDCPLL'' ClkApMixed 0x33C 0x348 0x1 0x800000 0x340 24 3800000000
       1500000000 0x340 0 22 8 MT6768_TOP_CLK26M]"

definition mt6768_clocks_4 :: "clock list" where
  "mt6768_clocks_4 = [
     mux_gate_clock MT6768_TOP_AXI_SEL ''TOP_AXI_SEL'' ClkTopCkGen 0x40 0x44 0x48 0x04 0 2 7 0
       mt6768_TopAxiSelParents,
     mux_gate_clock MT6768_TOP_MEM_SEL ''TOP_MEM_SEL'' ClkTopCkGen 0x40 0x44 0x48 0x04 8 2 15 1
       mt6768_TopMemSelParents,
     mux_gate_clock MT6768_TOP_MM_SEL ''TOP_MM_SEL'' ClkTopCkGen 0x40 0x44 0x48 0x04 16 3 23 2
       mt6768_TopMmSelParents,
     mux_gate_clock MT6768_TOP_SCP_SEL ''TOP_SCP_SEL'' ClkTopCkGen 0x40 0x44 0x48 0x04 24 3 31 3
       mt6768_TopScpSelParents,
     mux_gate_clock MT6768_TOP_MFG_SEL ''TOP_MFG_SEL'' ClkTopCkGen 0x50 0x54 0x58 0x04 0 2 7 4
       mt6768_TopMfgSelParents,
     mux_gate_clock MT6768_TOP_ATB_SEL ''TOP_ATB_SEL'' ClkTopCkGen 0x50 0x54 0x58 0x04 8 2 15 5
       mt6768_TopAtbSelParents,
     mux_gate_clock MT6768_TOP_CAMTG_SEL ''TOP_CAMTG_SEL'' ClkTopCkGen 0x50 0x54 0x58 0x04 16 3 23 6
       mt6768_TopCamTgSelParents]"

definition mt6768_clocks_5 :: "clock list" where
  "mt6768_clocks_5 = [
     mux_gate_clock MT6768_TOP_CAMTG1_SEL ''TOP_CAMTG1_SEL'' ClkTopCkGen 0x50 0x54 0x58 0x04 24 3 31 7
       mt6768_TopCamTgSelParents,
     mux_gate_clock MT6768_TOP_CAMTG2_SEL ''TOP_CAMTG2_SEL'' ClkTopCkGen 0x60 0x64 0x68 0x04 0 3 7 8
       mt6768_TopCamTgSelParents,
     mux_gate_clock MT6768_TOP_CAMTG3_SEL ''TOP_CAMTG3_SEL'' ClkTopCkGen 0x60 0x64 0x68 0x04 8 3 15 9
       mt6768_TopCamTgSelParents,
     mux_gate_clock MT6768_TOP_UART_SEL ''TOP_UART_SEL'' ClkTopCkGen 0x60 0x64 0x68 0x04 16 1 23 10
       mt6768_TopUartSelParents,
     mux_gate_clock MT6768_TOP_SPI_SEL ''TOP_SPI_SEL'' ClkTopCkGen 0x60 0x64 0x68 0x04 24 2 31 11
       mt6768_TopSpiSelParents,
     mux_gate_clock MT6768_TOP_MSDC50_0_HCLK_SEL ''TOP_MSDC50_0_HCLK_SEL'' ClkTopCkGen 0x70 0x74 0x78 0x04 0
       2 7 12 mt6768_TopMsdc50HclkSelParents,
     mux_gate_clock MT6768_TOP_MSDC50_0_SEL ''TOP_MSDC50_0_SEL'' ClkTopCkGen 0x70 0x74 0x78 0x04 8 3 15 13
       mt6768_TopMsdc50SelParents]"

definition mt6768_clocks_6 :: "clock list" where
  "mt6768_clocks_6 = [
     mux_gate_clock MT6768_TOP_MSDC30_1_SEL ''TOP_MSDC30_1_SEL'' ClkTopCkGen 0x70 0x74 0x78 0x04 16 3 23 14
       mt6768_TopMsdc30SelParents,
     mux_gate_clock MT6768_TOP_AUDIO_SEL ''TOP_AUDIO_SEL'' ClkTopCkGen 0x70 0x74 0x78 0x04 24 2 31 15
       mt6768_TopAudioSelParents,
     mux_gate_clock MT6768_TOP_AUD_INTBUS_SEL ''TOP_AUD_INTBUS_SEL'' ClkTopCkGen 0x80 0x84 0x88 0x04 0 2 7 16
       mt6768_TopAudIntBusSelParents,
     mux_gate_clock MT6768_TOP_AUD_1_SEL ''TOP_AUD_1_SEL'' ClkTopCkGen 0x80 0x84 0x88 0x04 8 1 15 17
       mt6768_TopAud1SelParents,
     mux_gate_clock MT6768_TOP_AUD_ENGEN1_SEL ''TOP_AUD_ENGEN1_SEL'' ClkTopCkGen 0x80 0x84 0x88 0x04 16 2 23
       18 mt6768_TopAudEngEn1SelParents,
     mux_gate_clock MT6768_TOP_SSPM_SEL ''TOP_SSPM_SEL'' ClkTopCkGen 0x90 0x94 0x98 0x04 0 2 7 20
       mt6768_TopSSPMSelParents,
     mux_gate_clock MT6768_TOP_DXCC_SEL ''TOP_DXCC_SEL'' ClkTopCkGen 0x90 0x94 0x98 0x04 8 2 15 21
       mt6768_TopDXCCSelParents]"

definition mt6768_clocks_7 :: "clock list" where
  "mt6768_clocks_7 = [
     mux_gate_clock MT6768_TOP_USB_TOP_SEL ''TOP_USB_TOP_SEL'' ClkTopCkGen 0x90 0x94 0x98 0x04 16 1 23 22
       mt6768_TopUSBTopSelParents,
     mux_gate_clock MT6768_TOP_SPM_SEL ''TOP_SPM_SEL'' ClkTopCkGen 0x90 0x94 0x98 0x04 24 1 31 23
       mt6768_TopSpmSelParents,
     mux_gate_clock MT6768_TOP_I2C_SEL ''TOP_I2C_SEL'' ClkTopCkGen 0xA0 0xA4 0xA8 0x04 0 3 7 24
       mt6768_TopI2CSelParents,
     mux_gate_clock MT6768_TOP_PWM_SEL ''TOP_PWM_SEL'' ClkTopCkGen 0xA0 0xA4 0xA8 0x04 8 2 15 25
       mt6768_TopPwmSelParents,
     mux_gate_clock MT6768_TOP_SENINF_SEL ''TOP_SENINF_SEL'' ClkTopCkGen 0xA0 0xA4 0xA8 0x04 16 2 23 26
       mt6768_TopSeninfSelParents,
     mux_gate_clock MT6768_TOP_AES_FDE_SEL ''TOP_AES_FDE_SEL'' ClkTopCkGen 0xA0 0xA4 0xA8 0x04 24 3 31 27
       mt6768_TopAesFdeSelParents,
     mux_gate_clock MT6768_TOP_CAMTM_SEL ''TOP_CAMTM_SEL'' ClkTopCkGen 0xB0 0xB4 0xB8 0x04 8 2 15 29
       mt6768_TopCamTmSelParents]"

definition mt6768_clocks_8 :: "clock list" where
  "mt6768_clocks_8 = [
     mux_gate_clock MT6768_TOP_VENC_SEL ''TOP_VENC_SEL'' ClkTopCkGen 0xB0 0xB4 0xB8 0x04 16 3 23 30
       mt6768_TopVencSelParents,
     mux_gate_clock MT6768_TOP_CAM_SEL ''TOP_CAM_SEL'' ClkTopCkGen 0xB0 0xB4 0xB8 0x04 24 3 31 31
       mt6768_TopCamSelParents]"

definition mt6768_clocks_9 :: "clock list" where
  "mt6768_clocks_9 = [
     factor_clock MT6768_TOP_CLK13M ''TOP_CLK13M'' MT6768_TOP_CLK26M 1 2,
     factor_clock MT6768_TOP_SYSPLL ''TOP_SYSPLL'' MT6768_AP_MAINPLL 1 1,
     factor_clock MT6768_TOP_SYSPLL_D2 ''TOP_SYSPLL_D2'' MT6768_AP_MAINPLL 1 2,
     factor_clock MT6768_TOP_SYSPLL1_D2 ''TOP_SYSPLL1_D2'' MT6768_TOP_SYSPLL_D2 1 2,
     factor_clock MT6768_TOP_SYSPLL1_D4 ''TOP_SYSPLL1_D4'' MT6768_TOP_SYSPLL_D2 1 4,
     factor_clock MT6768_TOP_SYSPLL1_D8 ''TOP_SYSPLL1_D8'' MT6768_TOP_SYSPLL_D2 1 8,
     factor_clock MT6768_TOP_SYSPLL1_D16 ''TOP_SYSPLL1_D16'' MT6768_TOP_SYSPLL_D2 1 16,
     factor_clock MT6768_TOP_SYSPLL_D3 ''TOP_SYSPLL_D3'' MT6768_AP_MAINPLL 1 3,
     factor_clock MT6768_TOP_SYSPLL2_D2 ''TOP_SYSPLL2_D2'' MT6768_TOP_SYSPLL_D3 1 2,
     factor_clock MT6768_TOP_SYSPLL2_D4 ''TOP_SYSPLL2_D4'' MT6768_TOP_SYSPLL_D3 1 4,
     factor_clock MT6768_TOP_SYSPLL2_D8 ''TOP_SYSPLL2_D8'' MT6768_TOP_SYSPLL_D3 1 8,
     factor_clock MT6768_TOP_SYSPLL_D5 ''TOP_SYSPLL_D5'' MT6768_AP_MAINPLL 1 5,
     factor_clock MT6768_TOP_SYSPLL3_D2 ''TOP_SYSPLL3_D2'' MT6768_TOP_SYSPLL_D5 1 2]"

definition mt6768_clocks_10 :: "clock list" where
  "mt6768_clocks_10 = [
     factor_clock MT6768_TOP_SYSPLL3_D4 ''TOP_SYSPLL3_D4'' MT6768_TOP_SYSPLL_D5 1 4,
     factor_clock MT6768_TOP_SYSPLL_D7 ''TOP_SYSPLL_D7'' MT6768_AP_MAINPLL 1 7,
     factor_clock MT6768_TOP_SYSPLL4_D2 ''TOP_SYSPLL4_D2'' MT6768_TOP_SYSPLL_D7 1 2,
     factor_clock MT6768_TOP_SYSPLL4_D4 ''TOP_SYSPLL4_D4'' MT6768_TOP_SYSPLL_D7 1 4,
     factor_clock MT6768_TOP_USB20_192M ''TOP_USB20_192M'' MT6768_TOP_UNIVPLL 2 13,
     factor_clock MT6768_TOP_USB20_192M_D4 ''TOP_USB20_192M_D4'' MT6768_TOP_USB20_192M 1 4,
     factor_clock MT6768_TOP_USB20_192M_D8 ''TOP_USB20_192M_D8'' MT6768_TOP_USB20_192M 1 8,
     factor_clock MT6768_TOP_USB20_192M_D16 ''TOP_USB20_192M_D16'' MT6768_TOP_USB20_192M 1 16,
     factor_clock MT6768_TOP_USB20_192M_D32 ''TOP_USB20_192M_D32'' MT6768_TOP_USB20_192M 1 32,
     factor_clock MT6768_TOP_UNIVPLL ''TOP_UNIVPLL'' MT6768_AP_UNIV2PLL 1 2,
     factor_clock MT6768_TOP_UNIVPLL_D2 ''TOP_UNIVPLL_D2'' MT6768_TOP_UNIVPLL 1 2,
     factor_clock MT6768_TOP_UNIVPLL1_D2 ''TOP_UNIVPLL1_D2'' MT6768_TOP_UNIVPLL_D2 1 2,
     factor_clock MT6768_TOP_UNIVPLL1_D4 ''TOP_UNIVPLL1_D4'' MT6768_TOP_UNIVPLL_D2 1 4]"

definition mt6768_clocks_11 :: "clock list" where
  "mt6768_clocks_11 = [
     factor_clock MT6768_TOP_UNIVPLL_D3 ''TOP_UNIVPLL_D3'' MT6768_TOP_UNIVPLL 1 3,
     factor_clock MT6768_TOP_UNIVPLL2_D2 ''TOP_UNIVPLL2_D2'' MT6768_TOP_UNIVPLL_D3 1 2,
     factor_clock MT6768_TOP_UNIVPLL2_D4 ''TOP_UNIVPLL2_D4'' MT6768_TOP_UNIVPLL_D3 1 4,
     factor_clock MT6768_TOP_UNIVPLL2_D8 ''TOP_UNIVPLL2_D8'' MT6768_TOP_UNIVPLL_D3 1 8,
     factor_clock MT6768_TOP_UNIVPLL2_D32 ''TOP_UNIVPLL2_D32'' MT6768_TOP_UNIVPLL_D3 1 32,
     factor_clock MT6768_TOP_UNIVPLL_D5 ''TOP_UNIVPLL_D5'' MT6768_TOP_UNIVPLL 1 5,
     factor_clock MT6768_TOP_UNIVPLL3_D2 ''TOP_UNIVPLL3_D2'' MT6768_TOP_UNIVPLL_D5 1 2,
     factor_clock MT6768_TOP_UNIVPLL3_D4 ''TOP_UNIVPLL3_D4'' MT6768_TOP_UNIVPLL_D5 1 4,
     factor_clock MT6768_TOP_MMPLL ''TOP_MMPLL'' MT6768_AP_MMPLL 1 1,
     factor_clock MT6768_TOP_MMPLL_D2 ''TOP_MMPLL_D2'' MT6768_TOP_MMPLL 1 2,
     factor_clock MT6768_TOP_MPLL ''TOP_MPLL'' MT6768_AP_MPLL 1 1,
     factor_clock MT6768_TOP_DA_MPLL_104M_DIV ''TOP_DA_MPLL_104M_DIV'' MT6768_TOP_MPLL 1 2,
     factor_clock MT6768_TOP_DA_MPLL_52M_DIV ''TOP_DA_MPLL_52M_DIV'' MT6768_TOP_MPLL 1 4]"

definition mt6768_clocks_12 :: "clock list" where
  "mt6768_clocks_12 = [
     factor_clock MT6768_TOP_MFGPLL ''TOP_MFGPLL'' MT6768_AP_MFGPLL 1 1,
     factor_clock MT6768_TOP_MSDCPLL ''TOP_MSDCPLL'' MT6768_AP_MSDCPLL 1 1,
     factor_clock MT6768_TOP_MSDCPLL_D2 ''TOP_MSDCPLL_D2'' MT6768_TOP_MSDCPLL 1 2,
     factor_clock MT6768_TOP_APLL1 ''TOP_APLL1'' MT6768_AP_APLL1 1 1,
     factor_clock MT6768_TOP_APLL1_D2 ''TOP_APLL1_D2'' MT6768_TOP_APLL1 1 2,
     factor_clock MT6768_TOP_APLL1_D4 ''TOP_APLL1_D4'' MT6768_TOP_APLL1 1 4,
     factor_clock MT6768_TOP_APLL1_D8 ''TOP_APLL1_D8'' MT6768_TOP_APLL1 1 8,
     factor_clock MT6768_TOP_F_F26M ''TOP_F_F26M'' MT6768_TOP_CLK26M 1 1,
     factor_clock MT6768_TOP_AXI ''TOP_AXI'' MT6768_TOP_AXI_SEL 1 1,
     factor_clock MT6768_TOP_MM ''TOP_MM'' MT6768_TOP_MM_SEL 1 1,
     factor_clock MT6768_TOP_SCP ''TOP_SCP'' MT6768_TOP_SCP_SEL 1 1,
     factor_clock MT6768_TOP_MFG ''TOP_MFG'' MT6768_TOP_MFG_SEL 1 1,
     factor_clock MT6768_TOP_F_FUART ''TOP_F_FUART'' MT6768_TOP_UART_SEL 1 1]"

definition mt6768_clocks_13 :: "clock list" where
  "mt6768_clocks_13 = [
     factor_clock MT6768_TOP_SPI ''TOP_SPI'' MT6768_TOP_SPI_SEL 1 1,
     factor_clock MT6768_TOP_MSDC50_0_HCLK ''TOP_MSDC50_0_HCLK'' MT6768_TOP_MSDC50_0_HCLK_SEL 1 1,
     factor_clock MT6768_TOP_MSDC50_0 ''TOP_MSDC50_0'' MT6768_TOP_MSDC50_0_SEL 1 1,
     factor_clock MT6768_TOP_MSDC30_1 ''TOP_MSDC30_1'' MT6768_TOP_MSDC30_1_SEL 1 1,
     factor_clock MT6768_TOP_AUDIO ''TOP_AUDIO'' MT6768_TOP_AUDIO_SEL 1 1,
     factor_clock MT6768_TOP_AUD_1 ''TOP_AUD_1'' MT6768_TOP_AUD_1_SEL 1 1,
     factor_clock MT6768_TOP_AUD_ENGEN1 ''TOP_AUD_ENGEN1'' MT6768_TOP_AUD_ENGEN1_SEL 1 1,
     factor_clock MT6768_TOP_SSPM ''TOP_SSPM'' MT6768_TOP_SSPM_SEL 1 1,
     factor_clock MT6768_TOP_DXCC ''TOP_DXCC'' MT6768_TOP_DXCC_SEL 1 1,
     factor_clock MT6768_TOP_I2C ''TOP_I2C'' MT6768_TOP_I2C_SEL 1 1,
     factor_clock MT6768_TOP_F_FPWM ''TOP_F_FPWM'' MT6768_TOP_PWM_SEL 1 1,
     factor_clock MT6768_TOP_F_FSENINF ''TOP_F_FSENINF'' MT6768_TOP_SENINF_SEL 1 1,
     factor_clock MT6768_TOP_AES_FDE ''TOP_AES_FDE'' MT6768_TOP_AES_FDE_SEL 1 1]"

definition mt6768_clocks_14 :: "clock list" where
  "mt6768_clocks_14 = [
     factor_clock MT6768_TOP_VENC ''TOP_VENC'' MT6768_TOP_VENC_SEL 1 1,
     factor_clock MT6768_TOP_CAM ''TOP_CAM'' MT6768_TOP_CAM_SEL 1 1,
     factor_clock MT6768_TOP_F_BIST2FPC ''TOP_F_BIST2FPC'' MT6768_TOP_UNIVPLL2_D2 1 1,
     factor_clock MT6768_TOP_ARMPLL_DIVIDER_PLL0 ''TOP_ARMPLL_DIVIDER_PLL0'' MT6768_TOP_SYSPLL_D2 1 1,
     factor_clock MT6768_TOP_ARMPLL_DIVIDER_PLL1 ''TOP_ARMPLL_DIVIDER_PLL1'' MT6768_TOP_SYSPLL 1 1,
     factor_clock MT6768_TOP_ARMPLL_DIVIDER_PLL2 ''TOP_ARMPLL_DIVIDER_PLL2'' MT6768_TOP_UNIVPLL_D2 1 1,
     factor_clock MT6768_TOP_DA_USB20_48M_DIV ''TOP_DA_USB20_48M_DIV'' MT6768_TOP_USB20_192M_D4 1 1,
     factor_clock MT6768_TOP_DA_UNIV_48M_DIV ''TOP_DA_UNIV_48M_DIV'' MT6768_TOP_USB20_192M_D4 1 1]"

definition mt6768_clocks_15 :: "clock list" where
  "mt6768_clocks_15 = [
     gate_clock MT6768_TOP_MD_32K ''TOP_MD_32K'' ClkTopCkGen 0 0 0 8 False MT6768_TOP_F_FRTC,
     gate_clock MT6768_TOP_MD_26M ''TOP_MD_26M'' ClkTopCkGen 0 0 0 9 False MT6768_TOP_F_F26M,
     gate_clock MT6768_TOP_MD2_32K ''TOP_MD2_32K'' ClkTopCkGen 0 0 0 10 False MT6768_TOP_F_FRTC,
     gate_clock MT6768_TOP_MD2_26M ''TOP_MD2_26M'' ClkTopCkGen 0 0 0 11 False MT6768_TOP_F_F26M,
     gate_clock MT6768_TOP_ARMPLL_DIVIDER_PLL0_EN ''TOP_ARMPLL_DIVIDER_PLL0_EN'' ClkTopCkGen 0x104 0x104
       0x104 3 True MT6768_TOP_ARMPLL_DIVIDER_PLL0,
     gate_clock MT6768_TOP_ARMPLL_DIVIDER_PLL1_EN ''TOP_ARMPLL_DIVIDER_PLL1_EN'' ClkTopCkGen 0x104 0x104
       0x104 4 True MT6768_TOP_ARMPLL_DIVIDER_PLL1,
     gate_clock MT6768_TOP_ARMPLL_DIVIDER_PLL2_EN ''TOP_ARMPLL_DIVIDER_PLL2_EN'' ClkTopCkGen 0x104 0x104
       0x104 5 True MT6768_TOP_ARMPLL_DIVIDER_PLL2,
     gate_clock MT6768_TOP_FMEM_OCC_DRC_EN ''TOP_FMEM_OCC_DRC_EN'' ClkTopCkGen 0x104 0x104 0x104 6 True
       MT6768_TOP_UNIVPLL2_D2,
     gate_clock MT6768_TOP_USB20_48M_EN ''TOP_USB20_48M_EN'' ClkTopCkGen 0x104 0x104 0x104 8 True
       MT6768_TOP_DA_USB20_48M_DIV,
     gate_clock MT6768_TOP_UNIVPLL_48M_EN ''TOP_UNIVPLL_48M_EN'' ClkTopCkGen 0x104 0x104 0x104 9 True
       MT6768_TOP_DA_UNIV_48M_DIV]"

definition mt6768_clocks_16 :: "clock list" where
  "mt6768_clocks_16 = [
     gate_clock MT6768_TOP_MPLL_104M_EN ''TOP_MPLL_104M_EN'' ClkTopCkGen 0x104 0x104 0x104 10 True
       MT6768_TOP_DA_MPLL_104M_DIV,
     gate_clock MT6768_TOP_MPLL_52M_EN ''TOP_MPLL_52M_EN'' ClkTopCkGen 0x104 0x104 0x104 11 True
       MT6768_TOP_DA_MPLL_52M_DIV,
     gate_clock MT6768_TOP_F_UFS_MP_SAP_CFG_EN ''TOP_F_UFS_MP_SAP_CFG_EN'' ClkTopCkGen 0x104 0x104 0x104 12
       True MT6768_TOP_F_F26M,
     gate_clock MT6768_TOP_F_BIST2FPC_EN ''TOP_F_BIST2FPC_EN'' ClkTopCkGen 0x104 0x104 0x104 16 True
       MT6768_TOP_F_BIST2FPC,
     gate_clock MT6768_INFRA_TOPAXI_DISABLE ''INFRA_TOPAXI_DISABLE'' ClkInfraCfgAo 0x200 0x200 0x200 31 True
       MT6768_TOP_AXI,
     gate_clock MT6768_INFRA_PERI_DCM_RG_FORCE_CLKOFF ''INFRA_PERI_DCM_RG_FORCE_CLKOFF'' ClkInfraCfgAo 0x74
       0x74 0x74 2 False MT6768_TOP_AXI,
     gate_clock MT6768_INFRA_PMIC_TMR ''INFRA_PMIC_TMR'' ClkInfraCfgAo 0x80 0x84 0x90 0 False
       MT6768_TOP_F_F26M,
     gate_clock MT6768_INFRA_PMIC_AP ''INFRA_PMIC_AP'' ClkInfraCfgAo 0x80 0x84 0x90 1 False MT6768_TOP_F_F26M,
     gate_clock MT6768_INFRA_PMIC_MD ''INFRA_PMIC_MD'' ClkInfraCfgAo 0x80 0x84 0x90 2 False MT6768_TOP_F_F26M,
     gate_clock MT6768_INFRA_PMIC_CONN ''INFRA_PMIC_CONN'' ClkInfraCfgAo 0x80 0x84 0x90 3 False
       MT6768_TOP_F_F26M]"

definition mt6768_clocks_17 :: "clock list" where
  "mt6768_clocks_17 = [
     gate_clock MT6768_INFRA_SCP_CORE ''INFRA_SCP_CORE'' ClkInfraCfgAo 0x80 0x84 0x90 4 False MT6768_TOP_SCP,
     gate_clock MT6768_INFRA_SEJ ''INFRA_SEJ'' ClkInfraCfgAo 0x80 0x84 0x90 5 False MT6768_TOP_AXI,
     gate_clock MT6768_INFRA_APXGPT ''INFRA_APXGPT'' ClkInfraCfgAo 0x80 0x84 0x90 6 False MT6768_TOP_AXI,
     gate_clock MT6768_INFRA_ICUSB ''INFRA_ICUSB'' ClkInfraCfgAo 0x80 0x84 0x90 8 False MT6768_TOP_AXI,
     gate_clock MT6768_INFRA_GCE ''INFRA_GCE'' ClkInfraCfgAo 0x80 0x84 0x90 9 False MT6768_TOP_AXI,
     gate_clock MT6768_INFRA_THERM ''INFRA_THERM'' ClkInfraCfgAo 0x80 0x84 0x90 10 False MT6768_TOP_AXI,
     gate_clock MT6768_INFRA_I2C_AP ''INFRA_I2C_AP'' ClkInfraCfgAo 0x80 0x84 0x90 11 False MT6768_TOP_I2C,
     gate_clock MT6768_INFRA_I2C_CCU ''INFRA_I2C_CCU'' ClkInfraCfgAo 0x80 0x84 0x90 12 False MT6768_TOP_I2C,
     gate_clock MT6768_INFRA_I2C_SSPM ''INFRA_I2C_SSPM'' ClkInfraCfgAo 0x80 0x84 0x90 13 False MT6768_TOP_I2C,
     gate_clock MT6768_INFRA_I2C_RSV ''INFRA_I2C_RSV'' ClkInfraCfgAo 0x80 0x84 0x90 14 False MT6768_TOP_I2C]"

definition mt6768_clocks_18 :: "clock list" where
  "mt6768_clocks_18 = [
     gate_clock MT6768_INFRA_PWM_HCLK ''INFRA_PWM_HCLK'' ClkInfraCfgAo 0x80 0x84 0x90 15 False MT6768_TOP_AXI,
     gate_clock MT6768_INFRA_PWM1 ''INFRA_PWM1'' ClkInfraCfgAo 0x80 0x84 0x90 16 False MT6768_TOP_F_FPWM,
     gate_clock MT6768_INFRA_PWM2 ''INFRA_PWM2'' ClkInfraCfgAo 0x80 0x84 0x90 17 False MT6768_TOP_F_FPWM,
     gate_clock MT6768_INFRA_PWM3 ''INFRA_PWM3'' ClkInfraCfgAo 0x80 0x84 0x90 18 False MT6768_TOP_F_FPWM,
     gate_clock MT6768_INFRA_PWM4 ''INFRA_PWM4'' ClkInfraCfgAo 0x80 0x84 0x90 19 False MT6768_TOP_F_FPWM,
     gate_clock MT6768_INFRA_PWM5 ''INFRA_PWM5'' ClkInfraCfgAo 0x80 0x84 0x90 20 False MT6768_TOP_F_FPWM,
     gate_clock MT6768_INFRA_PWM ''INFRA_PWM'' ClkInfraCfgAo 0x80 0x84 0x90 21 False MT6768_TOP_F_FPWM,
     gate_clock MT6768_INFRA_UART0 ''INFRA_UART0'' ClkInfraCfgAo 0x80 0x84 0x90 22 False MT6768_TOP_F_FUART,
     gate_clock MT6768_INFRA_UART1 ''INFRA_UART1'' ClkInfraCfgAo 0x80 0x84 0x90 23 False MT6768_TOP_F_FUART,
     gate_clock MT6768_INFRA_GCE_26M ''INFRA_GCE_26M'' ClkInfraCfgAo 0x80 0x84 0x90 27 False
       MT6768_TOP_F_F26M]"

definition mt6768_clocks_19 :: "clock list" where
  "mt6768_clocks_19 = [
     gate_clock MT6768_INFRA_CQ_DMA_FPC ''INFRA_CQ_DMA_FPC'' ClkInfraCfgAo 0x80 0x84 0x90 28 False
       MT6768_TOP_AXI,
     gate_clock MT6768_INFRA_BTIF ''INFRA_BTIF'' ClkInfraCfgAo 0x80 0x84 0x90 31 False MT6768_TOP_AXI,
     gate_clock MT6768_INFRA_SPI0 ''INFRA_SPI0'' ClkInfraCfgAo 0x88 0x8C 0x94 1 False MT6768_TOP_SPI,
     gate_clock MT6768_INFRA_MSDC0 ''INFRA_MSDC0'' ClkInfraCfgAo 0x88 0x8C 0x94 2 False
       MT6768_TOP_MSDC50_0_HCLK,
     gate_clock MT6768_INFRA_MSDC1 ''INFRA_MSDC1'' ClkInfraCfgAo 0x88 0x8C 0x94 4 False MT6768_TOP_AXI,
     gate_clock MT6768_INFRA_DVFSRC ''INFRA_DVFSRC'' ClkInfraCfgAo 0x88 0x8C 0x94 7 False MT6768_TOP_F_F26M,
     gate_clock MT6768_INFRA_GCPU ''INFRA_GCPU'' ClkInfraCfgAo 0x88 0x8C 0x94 8 False MT6768_TOP_AXI,
     gate_clock MT6768_INFRA_TRNG ''INFRA_TRNG'' ClkInfraCfgAo 0x88 0x8C 0x94 9 False MT6768_TOP_AXI,
     gate_clock MT6768_INFRA_AUXADC ''INFRA_AUXADC'' ClkInfraCfgAo 0x88 0x8C 0x94 10 False MT6768_TOP_F_F26M,
     gate_clock MT6768_INFRA_CPUM ''INFRA_CPUM'' ClkInfraCfgAo 0x88 0x8C 0x94 11 False MT6768_TOP_AXI]"

definition mt6768_clocks_20 :: "clock list" where
  "mt6768_clocks_20 = [
     gate_clock MT6768_INFRA_CCIF1_AP ''INFRA_CCIF1_AP'' ClkInfraCfgAo 0x88 0x8C 0x94 12 False MT6768_TOP_AXI,
     gate_clock MT6768_INFRA_CCIF1_MD ''INFRA_CCIF1_MD'' ClkInfraCfgAo 0x88 0x8C 0x94 13 False MT6768_TOP_AXI,
     gate_clock MT6768_INFRA_AUXADC_MD ''INFRA_AUXADC_MD'' ClkInfraCfgAo 0x88 0x8C 0x94 14 False
       MT6768_TOP_F_F26M,
     gate_clock MT6768_INFRA_AP_DMA ''INFRA_AP_DMA'' ClkInfraCfgAo 0x88 0x8C 0x94 18 False MT6768_TOP_AXI,
     gate_clock MT6768_INFRA_XIU ''INFRA_XIU'' ClkInfraCfgAo 0x88 0x8C 0x94 19 False MT6768_TOP_AXI,
     gate_clock MT6768_INFRA_DEVICE_APC ''INFRA_DEVICE_APC'' ClkInfraCfgAo 0x88 0x8C 0x94 20 False
       MT6768_TOP_AXI,
     gate_clock MT6768_INFRA_CCIF_AP ''INFRA_CCIF_AP'' ClkInfraCfgAo 0x88 0x8C 0x94 23 False MT6768_TOP_AXI,
     gate_clock MT6768_INFRA_DEBUGTOP ''INFRA_DEBUGTOP'' ClkInfraCfgAo 0x88 0x8C 0x94 24 False MT6768_TOP_AXI,
     gate_clock MT6768_INFRA_AUDIO ''INFRA_AUDIO'' ClkInfraCfgAo 0x88 0x8C 0x94 25 False MT6768_TOP_AXI,
     gate_clock MT6768_INFRA_CCIF_MD ''INFRA_CCIF_MD'' ClkInfraCfgAo 0x88 0x8C 0x94 26 False MT6768_TOP_AXI]"

definition mt6768_clocks_21 :: "clock list" where
  "mt6768_clocks_21 = [
     gate_clock MT6768_INFRA_DXCC_SEC_CORE ''INFRA_DXCC_SEC_CORE'' ClkInfraCfgAo 0x88 0x8C 0x94 27 False
       MT6768_TOP_DXCC,
     gate_clock MT6768_INFRA_DXCC_AO ''INFRA_DXCC_AO'' ClkInfraCfgAo 0x88 0x8C 0x94 28 False MT6768_TOP_DXCC,
     gate_clock MT6768_INFRA_DRAMC_F26M ''INFRA_DRAMC_F26M'' ClkInfraCfgAo 0x88 0x8C 0x94 31 False
       MT6768_TOP_F_F26M,
     gate_clock MT6768_INFRA_RG_PWM_FBCLK6 ''INFRA_RG_PWM_FBCLK6'' ClkInfraCfgAo 0xA4 0xA8 0xAC 0 False
       MT6768_TOP_F_F26M,
     gate_clock MT6768_INFRA_CLDMA_BCLK ''INFRA_CLDMA_BCLK'' ClkInfraCfgAo 0xA4 0xA8 0xAC 3 False
       MT6768_TOP_AXI,
     gate_clock MT6768_INFRA_AUDIO_26M_BCLK ''INFRA_AUDIO_26M_BCLK'' ClkInfraCfgAo 0xA4 0xA8 0xAC 4 False
       MT6768_TOP_F_F26M,
     gate_clock MT6768_INFRA_SPI1 ''INFRA_SPI1'' ClkInfraCfgAo 0xA4 0xA8 0xAC 6 False MT6768_TOP_SPI,
     gate_clock MT6768_INFRA_I2C4 ''INFRA_I2C4'' ClkInfraCfgAo 0xA4 0xA8 0xAC 7 False MT6768_TOP_I2C,
     gate_clock MT6768_INFRA_MODEM_TEMP_SHARE ''INFRA_MODEM_TEMP_SHARE'' ClkInfraCfgAo 0xA4 0xA8 0xAC 8 False
       MT6768_TOP_F_F26M,
     gate_clock MT6768_INFRA_SPI2 ''INFRA_SPI2'' ClkInfraCfgAo 0xA4 0xA8 0xAC 9 False MT6768_TOP_SPI]"

definition mt6768_clocks_22 :: "clock list" where
  "mt6768_clocks_22 = [
     gate_clock MT6768_INFRA_SPI3 ''INFRA_SPI3'' ClkInfraCfgAo 0xA4 0xA8 0xAC 10 False MT6768_TOP_SPI,
     gate_clock MT6768_INFRA_SSPM ''INFRA_SSPM'' ClkInfraCfgAo 0xA4 0xA8 0xAC 15 False MT6768_TOP_SSPM,
     gate_clock MT6768_INFRA_I2C5 ''INFRA_I2C5'' ClkInfraCfgAo 0xA4 0xA8 0xAC 18 False MT6768_TOP_I2C,
     gate_clock MT6768_INFRA_I2C5_ARBITER ''INFRA_I2C5_ARBITER'' ClkInfraCfgAo 0xA4 0xA8 0xAC 19 False
       MT6768_TOP_I2C,
     gate_clock MT6768_INFRA_I2C5_IMM ''INFRA_I2C5_IMM'' ClkInfraCfgAo 0xA4 0xA8 0xAC 20 False MT6768_TOP_I2C,
     gate_clock MT6768_INFRA_I2C1_ARBITER ''INFRA_I2C1_ARBITER'' ClkInfraCfgAo 0xA4 0xA8 0xAC 21 False
       MT6768_TOP_I2C,
     gate_clock MT6768_INFRA_I2C1_IMM ''INFRA_I2C1_IMM'' ClkInfraCfgAo 0xA4 0xA8 0xAC 22 False MT6768_TOP_I2C,
     gate_clock MT6768_INFRA_I2C2_ARBITER ''INFRA_I2C2_ARBITER'' ClkInfraCfgAo 0xA4 0xA8 0xAC 23 False
       MT6768_TOP_I2C,
     gate_clock MT6768_INFRA_I2C2_IMM ''INFRA_I2C2_IMM'' ClkInfraCfgAo 0xA4 0xA8 0xAC 24 False MT6768_TOP_I2C,
     gate_clock MT6768_INFRA_SPI4 ''INFRA_SPI4'' ClkInfraCfgAo 0xA4 0xA8 0xAC 25 False MT6768_TOP_SPI]"

definition mt6768_clocks_23 :: "clock list" where
  "mt6768_clocks_23 = [
     gate_clock MT6768_INFRA_SPI5 ''INFRA_SPI5'' ClkInfraCfgAo 0xA4 0xA8 0xAC 26 False MT6768_TOP_SPI,
     gate_clock MT6768_INFRA_CQ_DMA ''INFRA_CQ_DMA'' ClkInfraCfgAo 0xA4 0xA8 0xAC 27 False MT6768_TOP_AXI,
     gate_clock MT6768_INFRA_FAES_FDE ''INFRA_FAES_FDE'' ClkInfraCfgAo 0xA4 0xA8 0xAC 29 False
       MT6768_TOP_AES_FDE,
     gate_clock MT6768_INFRA_MSDC0_SELF ''INFRA_MSDC0_SELF'' ClkInfraCfgAo 0xC0 0xC4 0xC8 0 False
       MT6768_TOP_MSDC50_0,
     gate_clock MT6768_INFRA_MSDC1_SELF ''INFRA_MSDC1_SELF'' ClkInfraCfgAo 0xC0 0xC4 0xC8 1 False
       MT6768_TOP_MSDC50_0,
     gate_clock MT6768_INFRA_SSPM_26M_SELF ''INFRA_SSPM_26M_SELF'' ClkInfraCfgAo 0xC0 0xC4 0xC8 3 False
       MT6768_TOP_F_F26M,
     gate_clock MT6768_INFRA_SSPM_32K_SELF ''INFRA_SSPM_32K_SELF'' ClkInfraCfgAo 0xC0 0xC4 0xC8 4 False
       MT6768_TOP_F_FRTC,
     gate_clock MT6768_INFRA_I2C6 ''INFRA_I2C6'' ClkInfraCfgAo 0xC0 0xC4 0xC8 6 False MT6768_TOP_I2C,
     gate_clock MT6768_INFRA_AP_MSDC0 ''INFRA_AP_MSDC0'' ClkInfraCfgAo 0xC0 0xC4 0xC8 7 False
       MT6768_TOP_MSDC50_0,
     gate_clock MT6768_INFRA_MD_MSDC0 ''INFRA_MD_MSDC0'' ClkInfraCfgAo 0xC0 0xC4 0xC8 8 False
       MT6768_TOP_MSDC50_0]"

definition mt6768_clocks_24 :: "clock list" where
  "mt6768_clocks_24 = [
     gate_clock MT6768_INFRA_MSDC0_SRC ''INFRA_MSDC0_SRC'' ClkInfraCfgAo 0xC0 0xC4 0xC8 9 False
       MT6768_TOP_MSDC50_0,
     gate_clock MT6768_INFRA_MSDC1_SRC ''INFRA_MSDC1_SRC'' ClkInfraCfgAo 0xC0 0xC4 0xC8 10 False
       MT6768_TOP_MSDC30_1,
     gate_clock MT6768_INFRA_SEJ_F13M ''INFRA_SEJ_F13M'' ClkInfraCfgAo 0xC0 0xC4 0xC8 15 False
       MT6768_TOP_F_F26M,
     gate_clock MT6768_INFRA_AES_TOP0_BCLK ''INFRA_AES_TOP0_BCLK'' ClkInfraCfgAo 0xC0 0xC4 0xC8 16 False
       MT6768_TOP_AXI,
     gate_clock MT6768_INFRA_MCU_PM_BCLK ''INFRA_MCU_PM_BCLK'' ClkInfraCfgAo 0xC0 0xC4 0xC8 17 False
       MT6768_TOP_AXI,
     gate_clock MT6768_INFRA_CCIF2_AP ''INFRA_CCIF2_AP'' ClkInfraCfgAo 0xC0 0xC4 0xC8 18 False MT6768_TOP_AXI,
     gate_clock MT6768_INFRA_CCIF2_MD ''INFRA_CCIF2_MD'' ClkInfraCfgAo 0xC0 0xC4 0xC8 19 False MT6768_TOP_AXI,
     gate_clock MT6768_INFRA_CCIF3_AP ''INFRA_CCIF3_AP'' ClkInfraCfgAo 0xC0 0xC4 0xC8 20 False MT6768_TOP_AXI,
     gate_clock MT6768_INFRA_CCIF3_MD ''INFRA_CCIF3_MD'' ClkInfraCfgAo 0xC0 0xC4 0xC8 21 False MT6768_TOP_AXI]"

definition mt6768_gClocks :: "clock list" where
  "mt6768_gClocks = mt6768_clocks_1 @ mt6768_clocks_2 @ mt6768_clocks_3 @ mt6768_clocks_4 @ mt6768_clocks_5 @
     mt6768_clocks_6 @ mt6768_clocks_7 @ mt6768_clocks_8 @ mt6768_clocks_9 @ mt6768_clocks_10 @
     mt6768_clocks_11 @ mt6768_clocks_12 @ mt6768_clocks_13 @ mt6768_clocks_14 @ mt6768_clocks_15 @
     mt6768_clocks_16 @ mt6768_clocks_17 @ mt6768_clocks_18 @ mt6768_clocks_19 @ mt6768_clocks_20 @
     mt6768_clocks_21 @ mt6768_clocks_22 @ mt6768_clocks_23 @ mt6768_clocks_24"

section \<open>Checking the rows\<close>

text \<open>The length of the longest chain of parents from a clock.\<close>

definition mt6768_depth :: "nat \<Rightarrow> nat" where
  "mt6768_depth n = (if n < 100 then (if n < 61 then (if n < 34 then (if n < 19 then (if n < 14 then (if n < 3 then 0 else
     (if n < 13 then 1 else 4)) else (if n < 15 then 3 else (if n < 17 then 5 else 4))) else (if n < 28
     then (if n < 24 then 5 else (if n < 25 then 4 else 5)) else (if n < 30 then 4 else (if n < 31 then
     3 else 4)))) else (if n < 50 then (if n < 43 then (if n < 35 then 5 else (if n < 36 then 4 else 5))
     else (if n < 44 then 1 else (if n < 46 then 2 else 3))) else (if n < 55 then (if n < 51 then 2 else
     (if n < 54 then 3 else 2)) else (if n < 57 then 3 else (if n < 58 then 2 else 3))))) else (if n <
     82 then (if n < 74 then (if n < 67 then (if n < 65 then 4 else (if n < 66 then 2 else 3)) else (if
     n < 69 then 4 else (if n < 70 then 3 else 4))) else (if n < 78 then (if n < 75 then 3 else (if n <
     77 then 4 else 2)) else (if n < 79 then 3 else (if n < 80 then 2 else 3)))) else (if n < 91 then
     (if n < 86 then (if n < 84 then 2 else (if n < 85 then 3 else 2)) else (if n < 89 then 3 else (if n
     < 90 then 1 else 5))) else (if n < 95 then (if n < 93 then 6 else (if n < 94 then 5 else 6)) else
     (if n < 96 then 5 else (if n < 99 then 6 else 5)))))) else (if n < 156 then (if n < 122 then (if n
     < 114 then (if n < 110 then (if n < 101 then 4 else (if n < 104 then 5 else 6)) else (if n < 111
     then 5 else (if n < 113 then 3 else 4))) else (if n < 118 then (if n < 116 then 5 else (if n < 117
     then 1 else 2)) else (if n < 119 then 1 else (if n < 120 then 2 else 4)))) else (if n < 136 then
     (if n < 128 then (if n < 124 then 5 else (if n < 126 then 6 else 4)) else (if n < 129 then 2 else
     (if n < 132 then 6 else 2))) else (if n < 146 then (if n < 137 then 7 else (if n < 142 then 6 else
     7)) else (if n < 147 then 6 else (if n < 155 then 7 else 2))))) else (if n < 182 then (if n < 165
     then (if n < 161 then (if n < 159 then 6 else (if n < 160 then 7 else 6)) else (if n < 162 then 2
     else (if n < 164 then 6 else 2))) else (if n < 178 then (if n < 168 then 6 else (if n < 169 then 2
     else 6)) else (if n < 180 then 2 else (if n < 181 then 6 else 2)))) else (if n < 198 then (if n <
     185 then (if n < 183 then 6 else (if n < 184 then 7 else 2)) else (if n < 188 then 6 else (if n <
     195 then 7 else 6))) else (if n < 203 then (if n < 201 then 7 else (if n < 202 then 2 else 1)) else
     (if n < 208 then 7 else (if n < 209 then 2 else 6)))))))"

lemma mt6768_clocks_1_ok: "list_all (row_ok mt6768_depth 215) mt6768_clocks_1"
  by (simp add: mt6768_clocks_1_def row_ok_simps mt6768_depth_def )

lemma mt6768_clocks_2_ok: "list_all (row_ok mt6768_depth 215) mt6768_clocks_2"
  by (simp add: mt6768_clocks_2_def row_ok_simps mt6768_depth_def )

lemma mt6768_clocks_3_ok: "list_all (row_ok mt6768_depth 215) mt6768_clocks_3"
  by (simp add: mt6768_clocks_3_def row_ok_simps mt6768_depth_def )

lemma mt6768_clocks_4_ok: "list_all (row_ok mt6768_depth 215) mt6768_clocks_4"
  by (simp add: mt6768_clocks_4_def row_ok_simps mt6768_depth_def mt6768_TopAtbSelParents_def mt6768_TopAxiSelParents_def mt6768_TopCamTgSelParents_def mt6768_TopMemSelParents_def mt6768_TopMfgSelParents_def mt6768_TopMmSelParents_def mt6768_TopScpSelParents_def)

lemma mt6768_clocks_5_ok: "list_all (row_ok mt6768_depth 215) mt6768_clocks_5"
  by (simp add: mt6768_clocks_5_def row_ok_simps mt6768_depth_def mt6768_TopCamTgSelParents_def mt6768_TopMsdc50HclkSelParents_def mt6768_TopMsdc50SelParents_def mt6768_TopSpiSelParents_def mt6768_TopUartSelParents_def)

lemma mt6768_clocks_6_ok: "list_all (row_ok mt6768_depth 215) mt6768_clocks_6"
  by (simp add: mt6768_clocks_6_def row_ok_simps mt6768_depth_def mt6768_TopAud1SelParents_def mt6768_TopAudEngEn1SelParents_def mt6768_TopAudIntBusSelParents_def mt6768_TopAudioSelParents_def mt6768_TopDXCCSelParents_def mt6768_TopMsdc30SelParents_def mt6768_TopSSPMSelParents_def)

lemma mt6768_clocks_7_ok: "list_all (row_ok mt6768_depth 215) mt6768_clocks_7"
  by (simp add: mt6768_clocks_7_def row_ok_simps mt6768_depth_def mt6768_TopAesFdeSelParents_def mt6768_TopCamTmSelParents_def mt6768_TopI2CSelParents_def mt6768_TopPwmSelParents_def mt6768_TopSeninfSelParents_def mt6768_TopSpmSelParents_def mt6768_TopUSBTopSelParents_def)

lemma mt6768_clocks_8_ok: "list_all (row_ok mt6768_depth 215) mt6768_clocks_8"
  by (simp add: mt6768_clocks_8_def row_ok_simps mt6768_depth_def mt6768_TopCamSelParents_def mt6768_TopVencSelParents_def)

lemma mt6768_clocks_9_ok: "list_all (row_ok mt6768_depth 215) mt6768_clocks_9"
  by (simp add: mt6768_clocks_9_def row_ok_simps mt6768_depth_def )

lemma mt6768_clocks_10_ok: "list_all (row_ok mt6768_depth 215) mt6768_clocks_10"
  by (simp add: mt6768_clocks_10_def row_ok_simps mt6768_depth_def )

lemma mt6768_clocks_11_ok: "list_all (row_ok mt6768_depth 215) mt6768_clocks_11"
  by (simp add: mt6768_clocks_11_def row_ok_simps mt6768_depth_def )

lemma mt6768_clocks_12_ok: "list_all (row_ok mt6768_depth 215) mt6768_clocks_12"
  by (simp add: mt6768_clocks_12_def row_ok_simps mt6768_depth_def )

lemma mt6768_clocks_13_ok: "list_all (row_ok mt6768_depth 215) mt6768_clocks_13"
  by (simp add: mt6768_clocks_13_def row_ok_simps mt6768_depth_def )

lemma mt6768_clocks_14_ok: "list_all (row_ok mt6768_depth 215) mt6768_clocks_14"
  by (simp add: mt6768_clocks_14_def row_ok_simps mt6768_depth_def )

lemma mt6768_clocks_15_ok: "list_all (row_ok mt6768_depth 215) mt6768_clocks_15"
  by (simp add: mt6768_clocks_15_def row_ok_simps mt6768_depth_def )

lemma mt6768_clocks_16_ok: "list_all (row_ok mt6768_depth 215) mt6768_clocks_16"
  by (simp add: mt6768_clocks_16_def row_ok_simps mt6768_depth_def )

lemma mt6768_clocks_17_ok: "list_all (row_ok mt6768_depth 215) mt6768_clocks_17"
  by (simp add: mt6768_clocks_17_def row_ok_simps mt6768_depth_def )

lemma mt6768_clocks_18_ok: "list_all (row_ok mt6768_depth 215) mt6768_clocks_18"
  by (simp add: mt6768_clocks_18_def row_ok_simps mt6768_depth_def )

lemma mt6768_clocks_19_ok: "list_all (row_ok mt6768_depth 215) mt6768_clocks_19"
  by (simp add: mt6768_clocks_19_def row_ok_simps mt6768_depth_def )

lemma mt6768_clocks_20_ok: "list_all (row_ok mt6768_depth 215) mt6768_clocks_20"
  by (simp add: mt6768_clocks_20_def row_ok_simps mt6768_depth_def )

lemma mt6768_clocks_21_ok: "list_all (row_ok mt6768_depth 215) mt6768_clocks_21"
  by (simp add: mt6768_clocks_21_def row_ok_simps mt6768_depth_def )

lemma mt6768_clocks_22_ok: "list_all (row_ok mt6768_depth 215) mt6768_clocks_22"
  by (simp add: mt6768_clocks_22_def row_ok_simps mt6768_depth_def )

lemma mt6768_clocks_23_ok: "list_all (row_ok mt6768_depth 215) mt6768_clocks_23"
  by (simp add: mt6768_clocks_23_def row_ok_simps mt6768_depth_def )

lemma mt6768_clocks_24_ok: "list_all (row_ok mt6768_depth 215) mt6768_clocks_24"
  by (simp add: mt6768_clocks_24_def row_ok_simps mt6768_depth_def )

lemma mt6768_ids: "map ClockId mt6768_gClocks = MT6768_CLOCK_ID"
  by (simp add: mt6768_gClocks_def MT6768_CLOCK_ID_def row_ids
      mt6768_clocks_1_def mt6768_clocks_2_def mt6768_clocks_3_def mt6768_clocks_4_def mt6768_clocks_5_def
      mt6768_clocks_6_def mt6768_clocks_7_def mt6768_clocks_8_def mt6768_clocks_9_def
      mt6768_clocks_10_def mt6768_clocks_11_def mt6768_clocks_12_def mt6768_clocks_13_def
      mt6768_clocks_14_def mt6768_clocks_15_def mt6768_clocks_16_def mt6768_clocks_17_def
      mt6768_clocks_18_def mt6768_clocks_19_def mt6768_clocks_20_def mt6768_clocks_21_def
      mt6768_clocks_22_def mt6768_clocks_23_def mt6768_clocks_24_def)

lemma mt6768_enum: "map unat MT6768_CLOCK_ID = [0..<215]"
  by (simp add: MT6768_CLOCK_ID_def upt_rec)

lemma mt6768_rows: "list_all (row_ok mt6768_depth 215) mt6768_gClocks"
  by (simp add: mt6768_gClocks_def mt6768_clocks_1_ok mt6768_clocks_2_ok mt6768_clocks_3_ok mt6768_clocks_4_ok mt6768_clocks_5_ok
      mt6768_clocks_6_ok mt6768_clocks_7_ok mt6768_clocks_8_ok mt6768_clocks_9_ok mt6768_clocks_10_ok
      mt6768_clocks_11_ok mt6768_clocks_12_ok mt6768_clocks_13_ok mt6768_clocks_14_ok
      mt6768_clocks_15_ok mt6768_clocks_16_ok mt6768_clocks_17_ok mt6768_clocks_18_ok
      mt6768_clocks_19_ok mt6768_clocks_20_ok mt6768_clocks_21_ok mt6768_clocks_22_ok
      mt6768_clocks_23_ok mt6768_clocks_24_ok)

lemma mt6768_table: "clock_table mt6768_depth 215 mt6768_gClocks"
  using mt6768_ids mt6768_enum mt6768_rows by (simp add: clock_table_def)

end
