(* ===== verification/Mt6789Clocks.thy ===== *)
theory Mt6789Clocks
  imports ClockRows
begin

text \<open>
  The clock table of the MT6789, \<open>MT6789Pkg/Library/ClockImplLib/ClockImplLib.c\<close>: the enumeration of the
  clock ids, the parents of the multiplexers and the 226 rows of \<open>gClocks\<close>, in the order of the
  source and cut into pieces of a few rows. The row functions are those of \<open>ClockRows\<close>.
\<close>

section \<open>Clock ids\<close>

abbreviation MT6789_TOP_CLK32K :: u32 where "MT6789_TOP_CLK32K \<equiv> 0"
abbreviation MT6789_TOP_CLK26M :: u32 where "MT6789_TOP_CLK26M \<equiv> 1"
abbreviation MT6789_TOP_ULPOSC :: u32 where "MT6789_TOP_ULPOSC \<equiv> 2"
abbreviation MT6789_APMIXED_ARMPLL_LL :: u32 where "MT6789_APMIXED_ARMPLL_LL \<equiv> 3"
abbreviation MT6789_APMIXED_ARMPLL_BL0 :: u32 where "MT6789_APMIXED_ARMPLL_BL0 \<equiv> 4"
abbreviation MT6789_APMIXED_CCIPLL :: u32 where "MT6789_APMIXED_CCIPLL \<equiv> 5"
abbreviation MT6789_APMIXED_MPLL :: u32 where "MT6789_APMIXED_MPLL \<equiv> 6"
abbreviation MT6789_APMIXED_MAINPLL :: u32 where "MT6789_APMIXED_MAINPLL \<equiv> 7"
abbreviation MT6789_APMIXED_UNIVPLL :: u32 where "MT6789_APMIXED_UNIVPLL \<equiv> 8"
abbreviation MT6789_APMIXED_MSDCPLL :: u32 where "MT6789_APMIXED_MSDCPLL \<equiv> 9"
abbreviation MT6789_APMIXED_MMPLL :: u32 where "MT6789_APMIXED_MMPLL \<equiv> 10"
abbreviation MT6789_APMIXED_NPUPLL :: u32 where "MT6789_APMIXED_NPUPLL \<equiv> 11"
abbreviation MT6789_APMIXED_MFGPLL :: u32 where "MT6789_APMIXED_MFGPLL \<equiv> 12"
abbreviation MT6789_APMIXED_TVDPLL :: u32 where "MT6789_APMIXED_TVDPLL \<equiv> 13"
abbreviation MT6789_APMIXED_APLL1 :: u32 where "MT6789_APMIXED_APLL1 \<equiv> 14"
abbreviation MT6789_APMIXED_APLL2 :: u32 where "MT6789_APMIXED_APLL2 \<equiv> 15"
abbreviation MT6789_APMIXED_USBPLL :: u32 where "MT6789_APMIXED_USBPLL \<equiv> 16"
abbreviation MT6789_TOP_AXI_SEL :: u32 where "MT6789_TOP_AXI_SEL \<equiv> 17"
abbreviation MT6789_TOP_SPM_SEL :: u32 where "MT6789_TOP_SPM_SEL \<equiv> 18"
abbreviation MT6789_TOP_SCP_SEL :: u32 where "MT6789_TOP_SCP_SEL \<equiv> 19"
abbreviation MT6789_TOP_BUS_AXIMEM_SEL :: u32 where "MT6789_TOP_BUS_AXIMEM_SEL \<equiv> 20"
abbreviation MT6789_TOP_DISP_SEL :: u32 where "MT6789_TOP_DISP_SEL \<equiv> 21"
abbreviation MT6789_TOP_MDP_SEL :: u32 where "MT6789_TOP_MDP_SEL \<equiv> 22"
abbreviation MT6789_TOP_IMG1_SEL :: u32 where "MT6789_TOP_IMG1_SEL \<equiv> 23"
abbreviation MT6789_TOP_IPE_SEL :: u32 where "MT6789_TOP_IPE_SEL \<equiv> 24"
abbreviation MT6789_TOP_CAM_SEL :: u32 where "MT6789_TOP_CAM_SEL \<equiv> 25"
abbreviation MT6789_TOP_MFG_REF_SEL :: u32 where "MT6789_TOP_MFG_REF_SEL \<equiv> 26"
abbreviation MT6789_TOP_MFG_PLL_SEL :: u32 where "MT6789_TOP_MFG_PLL_SEL \<equiv> 27"
abbreviation MT6789_TOP_CAMTG_SEL :: u32 where "MT6789_TOP_CAMTG_SEL \<equiv> 28"
abbreviation MT6789_TOP_CAMTG2_SEL :: u32 where "MT6789_TOP_CAMTG2_SEL \<equiv> 29"
abbreviation MT6789_TOP_CAMTG3_SEL :: u32 where "MT6789_TOP_CAMTG3_SEL \<equiv> 30"
abbreviation MT6789_TOP_CAMTG4_SEL :: u32 where "MT6789_TOP_CAMTG4_SEL \<equiv> 31"
abbreviation MT6789_TOP_CAMTG5_SEL :: u32 where "MT6789_TOP_CAMTG5_SEL \<equiv> 32"
abbreviation MT6789_TOP_CAMTG6_SEL :: u32 where "MT6789_TOP_CAMTG6_SEL \<equiv> 33"
abbreviation MT6789_TOP_UART_SEL :: u32 where "MT6789_TOP_UART_SEL \<equiv> 34"
abbreviation MT6789_TOP_SPI_SEL :: u32 where "MT6789_TOP_SPI_SEL \<equiv> 35"
abbreviation MT6789_TOP_MSDC50_0_HCLK_SEL :: u32 where "MT6789_TOP_MSDC50_0_HCLK_SEL \<equiv> 36"
abbreviation MT6789_TOP_MSDC50_0_SEL :: u32 where "MT6789_TOP_MSDC50_0_SEL \<equiv> 37"
abbreviation MT6789_TOP_MSDC30_1_SEL :: u32 where "MT6789_TOP_MSDC30_1_SEL \<equiv> 38"
abbreviation MT6789_TOP_AUDIO_SEL :: u32 where "MT6789_TOP_AUDIO_SEL \<equiv> 39"
abbreviation MT6789_TOP_AUD_INTBUS_SEL :: u32 where "MT6789_TOP_AUD_INTBUS_SEL \<equiv> 40"
abbreviation MT6789_TOP_PWRAP_ULPOSC_SEL :: u32 where "MT6789_TOP_PWRAP_ULPOSC_SEL \<equiv> 41"
abbreviation MT6789_TOP_ATB_SEL :: u32 where "MT6789_TOP_ATB_SEL \<equiv> 42"
abbreviation MT6789_TOP_SSPM_SEL :: u32 where "MT6789_TOP_SSPM_SEL \<equiv> 43"
abbreviation MT6789_TOP_SCAM_SEL :: u32 where "MT6789_TOP_SCAM_SEL \<equiv> 44"
abbreviation MT6789_TOP_DISP_PWM_SEL :: u32 where "MT6789_TOP_DISP_PWM_SEL \<equiv> 45"
abbreviation MT6789_TOP_USB_SEL :: u32 where "MT6789_TOP_USB_SEL \<equiv> 46"
abbreviation MT6789_TOP_I2C_SEL :: u32 where "MT6789_TOP_I2C_SEL \<equiv> 47"
abbreviation MT6789_TOP_SENINF_SEL :: u32 where "MT6789_TOP_SENINF_SEL \<equiv> 48"
abbreviation MT6789_TOP_SENINF1_SEL :: u32 where "MT6789_TOP_SENINF1_SEL \<equiv> 49"
abbreviation MT6789_TOP_SENINF2_SEL :: u32 where "MT6789_TOP_SENINF2_SEL \<equiv> 50"
abbreviation MT6789_TOP_SENINF3_SEL :: u32 where "MT6789_TOP_SENINF3_SEL \<equiv> 51"
abbreviation MT6789_TOP_DXCC_SEL :: u32 where "MT6789_TOP_DXCC_SEL \<equiv> 52"
abbreviation MT6789_TOP_AUD_ENGEN1_SEL :: u32 where "MT6789_TOP_AUD_ENGEN1_SEL \<equiv> 53"
abbreviation MT6789_TOP_AUD_ENGEN2_SEL :: u32 where "MT6789_TOP_AUD_ENGEN2_SEL \<equiv> 54"
abbreviation MT6789_TOP_AES_UFSFDE_SEL :: u32 where "MT6789_TOP_AES_UFSFDE_SEL \<equiv> 55"
abbreviation MT6789_TOP_UFS_SEL :: u32 where "MT6789_TOP_UFS_SEL \<equiv> 56"
abbreviation MT6789_TOP_AUD_1_SEL :: u32 where "MT6789_TOP_AUD_1_SEL \<equiv> 57"
abbreviation MT6789_TOP_AUD_2_SEL :: u32 where "MT6789_TOP_AUD_2_SEL \<equiv> 58"
abbreviation MT6789_TOP_DPMAIF_MAIN_SEL :: u32 where "MT6789_TOP_DPMAIF_MAIN_SEL \<equiv> 59"
abbreviation MT6789_TOP_VENC_SEL :: u32 where "MT6789_TOP_VENC_SEL \<equiv> 60"
abbreviation MT6789_TOP_VDEC_SEL :: u32 where "MT6789_TOP_VDEC_SEL \<equiv> 61"
abbreviation MT6789_TOP_CAMTM_SEL :: u32 where "MT6789_TOP_CAMTM_SEL \<equiv> 62"
abbreviation MT6789_TOP_PWM_SEL :: u32 where "MT6789_TOP_PWM_SEL \<equiv> 63"
abbreviation MT6789_TOP_AUDIO_H_SEL :: u32 where "MT6789_TOP_AUDIO_H_SEL \<equiv> 64"
abbreviation MT6789_TOP_SPMI_MST_SEL :: u32 where "MT6789_TOP_SPMI_MST_SEL \<equiv> 65"
abbreviation MT6789_TOP_DVFSRC_SEL :: u32 where "MT6789_TOP_DVFSRC_SEL \<equiv> 66"
abbreviation MT6789_TOP_AES_MSDCFDE_SEL :: u32 where "MT6789_TOP_AES_MSDCFDE_SEL \<equiv> 67"
abbreviation MT6789_TOP_MCUPM_SEL :: u32 where "MT6789_TOP_MCUPM_SEL \<equiv> 68"
abbreviation MT6789_TOP_DSI_OCC_SEL :: u32 where "MT6789_TOP_DSI_OCC_SEL \<equiv> 69"
abbreviation MT6789_TOP_MFGPLL :: u32 where "MT6789_TOP_MFGPLL \<equiv> 70"
abbreviation MT6789_TOP_MAINPLL_D4 :: u32 where "MT6789_TOP_MAINPLL_D4 \<equiv> 71"
abbreviation MT6789_TOP_MAINPLL_D4_D2 :: u32 where "MT6789_TOP_MAINPLL_D4_D2 \<equiv> 72"
abbreviation MT6789_TOP_MAINPLL_D4_D4 :: u32 where "MT6789_TOP_MAINPLL_D4_D4 \<equiv> 73"
abbreviation MT6789_TOP_MAINPLL_D4_D8 :: u32 where "MT6789_TOP_MAINPLL_D4_D8 \<equiv> 74"
abbreviation MT6789_TOP_MAINPLL_D4_D16 :: u32 where "MT6789_TOP_MAINPLL_D4_D16 \<equiv> 75"
abbreviation MT6789_TOP_MAINPLL_D5 :: u32 where "MT6789_TOP_MAINPLL_D5 \<equiv> 76"
abbreviation MT6789_TOP_MAINPLL_D5_D2 :: u32 where "MT6789_TOP_MAINPLL_D5_D2 \<equiv> 77"
abbreviation MT6789_TOP_MAINPLL_D5_D4 :: u32 where "MT6789_TOP_MAINPLL_D5_D4 \<equiv> 78"
abbreviation MT6789_TOP_MAINPLL_D5_D8 :: u32 where "MT6789_TOP_MAINPLL_D5_D8 \<equiv> 79"
abbreviation MT6789_TOP_MAINPLL_D6 :: u32 where "MT6789_TOP_MAINPLL_D6 \<equiv> 80"
abbreviation MT6789_TOP_MAINPLL_D6_D2 :: u32 where "MT6789_TOP_MAINPLL_D6_D2 \<equiv> 81"
abbreviation MT6789_TOP_MAINPLL_D6_D4 :: u32 where "MT6789_TOP_MAINPLL_D6_D4 \<equiv> 82"
abbreviation MT6789_TOP_MAINPLL_D7 :: u32 where "MT6789_TOP_MAINPLL_D7 \<equiv> 83"
abbreviation MT6789_TOP_MAINPLL_D7_D2 :: u32 where "MT6789_TOP_MAINPLL_D7_D2 \<equiv> 84"
abbreviation MT6789_TOP_MAINPLL_D7_D4 :: u32 where "MT6789_TOP_MAINPLL_D7_D4 \<equiv> 85"
abbreviation MT6789_TOP_MAINPLL_D7_D8 :: u32 where "MT6789_TOP_MAINPLL_D7_D8 \<equiv> 86"
abbreviation MT6789_TOP_MAINPLL_D9 :: u32 where "MT6789_TOP_MAINPLL_D9 \<equiv> 87"
abbreviation MT6789_TOP_UNIVPLL_D4 :: u32 where "MT6789_TOP_UNIVPLL_D4 \<equiv> 88"
abbreviation MT6789_TOP_UNIVPLL_D4_D2 :: u32 where "MT6789_TOP_UNIVPLL_D4_D2 \<equiv> 89"
abbreviation MT6789_TOP_UNIVPLL_D4_D4 :: u32 where "MT6789_TOP_UNIVPLL_D4_D4 \<equiv> 90"
abbreviation MT6789_TOP_UNIVPLL_D4_D8 :: u32 where "MT6789_TOP_UNIVPLL_D4_D8 \<equiv> 91"
abbreviation MT6789_TOP_UNIVPLL_D5 :: u32 where "MT6789_TOP_UNIVPLL_D5 \<equiv> 92"
abbreviation MT6789_TOP_UNIVPLL_D5_D2 :: u32 where "MT6789_TOP_UNIVPLL_D5_D2 \<equiv> 93"
abbreviation MT6789_TOP_UNIVPLL_D5_D4 :: u32 where "MT6789_TOP_UNIVPLL_D5_D4 \<equiv> 94"
abbreviation MT6789_TOP_UNIVPLL_D6 :: u32 where "MT6789_TOP_UNIVPLL_D6 \<equiv> 95"
abbreviation MT6789_TOP_UNIVPLL_D6_D2 :: u32 where "MT6789_TOP_UNIVPLL_D6_D2 \<equiv> 96"
abbreviation MT6789_TOP_UNIVPLL_D6_D4 :: u32 where "MT6789_TOP_UNIVPLL_D6_D4 \<equiv> 97"
abbreviation MT6789_TOP_UNIVPLL_D6_D8 :: u32 where "MT6789_TOP_UNIVPLL_D6_D8 \<equiv> 98"
abbreviation MT6789_TOP_UNIVPLL_D6_D16 :: u32 where "MT6789_TOP_UNIVPLL_D6_D16 \<equiv> 99"
abbreviation MT6789_TOP_UNIVPLL_D7 :: u32 where "MT6789_TOP_UNIVPLL_D7 \<equiv> 100"
abbreviation MT6789_TOP_UNIVPLL_192M_D2 :: u32 where "MT6789_TOP_UNIVPLL_192M_D2 \<equiv> 101"
abbreviation MT6789_TOP_UNIVPLL_192M_D4 :: u32 where "MT6789_TOP_UNIVPLL_192M_D4 \<equiv> 102"
abbreviation MT6789_TOP_UNIVPLL_192M_D8 :: u32 where "MT6789_TOP_UNIVPLL_192M_D8 \<equiv> 103"
abbreviation MT6789_TOP_UNIVPLL_192M_D16 :: u32 where "MT6789_TOP_UNIVPLL_192M_D16 \<equiv> 104"
abbreviation MT6789_TOP_UNIVPLL_192M_D32 :: u32 where "MT6789_TOP_UNIVPLL_192M_D32 \<equiv> 105"
abbreviation MT6789_TOP_APLL1 :: u32 where "MT6789_TOP_APLL1 \<equiv> 106"
abbreviation MT6789_TOP_APLL1_D2 :: u32 where "MT6789_TOP_APLL1_D2 \<equiv> 107"
abbreviation MT6789_TOP_APLL1_D4 :: u32 where "MT6789_TOP_APLL1_D4 \<equiv> 108"
abbreviation MT6789_TOP_APLL1_D8 :: u32 where "MT6789_TOP_APLL1_D8 \<equiv> 109"
abbreviation MT6789_TOP_APLL2 :: u32 where "MT6789_TOP_APLL2 \<equiv> 110"
abbreviation MT6789_TOP_APLL2_D2 :: u32 where "MT6789_TOP_APLL2_D2 \<equiv> 111"
abbreviation MT6789_TOP_APLL2_D4 :: u32 where "MT6789_TOP_APLL2_D4 \<equiv> 112"
abbreviation MT6789_TOP_APLL2_D8 :: u32 where "MT6789_TOP_APLL2_D8 \<equiv> 113"
abbreviation MT6789_TOP_MMPLL_D4_D2 :: u32 where "MT6789_TOP_MMPLL_D4_D2 \<equiv> 114"
abbreviation MT6789_TOP_MMPLL_D5_D2 :: u32 where "MT6789_TOP_MMPLL_D5_D2 \<equiv> 115"
abbreviation MT6789_TOP_MMPLL_D6 :: u32 where "MT6789_TOP_MMPLL_D6 \<equiv> 116"
abbreviation MT6789_TOP_MMPLL_D6_D2 :: u32 where "MT6789_TOP_MMPLL_D6_D2 \<equiv> 117"
abbreviation MT6789_TOP_MMPLL_D7 :: u32 where "MT6789_TOP_MMPLL_D7 \<equiv> 118"
abbreviation MT6789_TOP_MMPLL_D9 :: u32 where "MT6789_TOP_MMPLL_D9 \<equiv> 119"
abbreviation MT6789_TOP_NPUPLL :: u32 where "MT6789_TOP_NPUPLL \<equiv> 120"
abbreviation MT6789_TOP_TVDPLL :: u32 where "MT6789_TOP_TVDPLL \<equiv> 121"
abbreviation MT6789_TOP_MSDCPLL :: u32 where "MT6789_TOP_MSDCPLL \<equiv> 122"
abbreviation MT6789_TOP_MSDCPLL_D2 :: u32 where "MT6789_TOP_MSDCPLL_D2 \<equiv> 123"
abbreviation MT6789_TOP_MSDCPLL_D4 :: u32 where "MT6789_TOP_MSDCPLL_D4 \<equiv> 124"
abbreviation MT6789_TOP_CLKRTC :: u32 where "MT6789_TOP_CLKRTC \<equiv> 125"
abbreviation MT6789_TOP_TCK_26M_MX9 :: u32 where "MT6789_TOP_TCK_26M_MX9 \<equiv> 126"
abbreviation MT6789_TOP_F26M_CK_D2 :: u32 where "MT6789_TOP_F26M_CK_D2 \<equiv> 127"
abbreviation MT6789_TOP_OSC_D2 :: u32 where "MT6789_TOP_OSC_D2 \<equiv> 128"
abbreviation MT6789_TOP_OSC_D4 :: u32 where "MT6789_TOP_OSC_D4 \<equiv> 129"
abbreviation MT6789_TOP_OSC_D8 :: u32 where "MT6789_TOP_OSC_D8 \<equiv> 130"
abbreviation MT6789_TOP_OSC_D16 :: u32 where "MT6789_TOP_OSC_D16 \<equiv> 131"
abbreviation MT6789_TOP_OSC_D10 :: u32 where "MT6789_TOP_OSC_D10 \<equiv> 132"
abbreviation MT6789_TOP_OSC_D20 :: u32 where "MT6789_TOP_OSC_D20 \<equiv> 133"
abbreviation MT6789_TOP_F26M :: u32 where "MT6789_TOP_F26M \<equiv> 134"
abbreviation MT6789_TOP_AXI :: u32 where "MT6789_TOP_AXI \<equiv> 135"
abbreviation MT6789_TOP_DISP :: u32 where "MT6789_TOP_DISP \<equiv> 136"
abbreviation MT6789_TOP_MDP :: u32 where "MT6789_TOP_MDP \<equiv> 137"
abbreviation MT6789_TOP_IMG1 :: u32 where "MT6789_TOP_IMG1 \<equiv> 138"
abbreviation MT6789_TOP_IPE :: u32 where "MT6789_TOP_IPE \<equiv> 139"
abbreviation MT6789_TOP_CAM :: u32 where "MT6789_TOP_CAM \<equiv> 140"
abbreviation MT6789_TOP_MFG_REF :: u32 where "MT6789_TOP_MFG_REF \<equiv> 141"
abbreviation MT6789_TOP_MFG_PLL :: u32 where "MT6789_TOP_MFG_PLL \<equiv> 142"
abbreviation MT6789_TOP_UART :: u32 where "MT6789_TOP_UART \<equiv> 143"
abbreviation MT6789_TOP_SPI :: u32 where "MT6789_TOP_SPI \<equiv> 144"
abbreviation MT6789_TOP_MSDC50_0 :: u32 where "MT6789_TOP_MSDC50_0 \<equiv> 145"
abbreviation MT6789_TOP_MSDC30_1 :: u32 where "MT6789_TOP_MSDC30_1 \<equiv> 146"
abbreviation MT6789_TOP_AUDIO :: u32 where "MT6789_TOP_AUDIO \<equiv> 147"
abbreviation MT6789_TOP_PWRAP_ULPOSC :: u32 where "MT6789_TOP_PWRAP_ULPOSC \<equiv> 148"
abbreviation MT6789_TOP_DISP_PWM :: u32 where "MT6789_TOP_DISP_PWM \<equiv> 149"
abbreviation MT6789_TOP_USB :: u32 where "MT6789_TOP_USB \<equiv> 150"
abbreviation MT6789_TOP_I2C :: u32 where "MT6789_TOP_I2C \<equiv> 151"
abbreviation MT6789_TOP_AUD_ENGEN1 :: u32 where "MT6789_TOP_AUD_ENGEN1 \<equiv> 152"
abbreviation MT6789_TOP_AUD_ENGEN2 :: u32 where "MT6789_TOP_AUD_ENGEN2 \<equiv> 153"
abbreviation MT6789_TOP_AES_UFSFDE :: u32 where "MT6789_TOP_AES_UFSFDE \<equiv> 154"
abbreviation MT6789_TOP_UFS :: u32 where "MT6789_TOP_UFS \<equiv> 155"
abbreviation MT6789_TOP_DPMAIF_MAIN :: u32 where "MT6789_TOP_DPMAIF_MAIN \<equiv> 156"
abbreviation MT6789_TOP_VENC :: u32 where "MT6789_TOP_VENC \<equiv> 157"
abbreviation MT6789_TOP_VDEC :: u32 where "MT6789_TOP_VDEC \<equiv> 158"
abbreviation MT6789_TOP_CAMTM :: u32 where "MT6789_TOP_CAMTM \<equiv> 159"
abbreviation MT6789_TOP_PWM :: u32 where "MT6789_TOP_PWM \<equiv> 160"
abbreviation MT6789_TOP_AUDIO_H :: u32 where "MT6789_TOP_AUDIO_H \<equiv> 161"
abbreviation MT6789_TOP_DSI_OCC :: u32 where "MT6789_TOP_DSI_OCC \<equiv> 162"
abbreviation MT6789_TOP_I2C_PSEUDO :: u32 where "MT6789_TOP_I2C_PSEUDO \<equiv> 163"
abbreviation MT6789_TOP_APDMA :: u32 where "MT6789_TOP_APDMA \<equiv> 164"
abbreviation MT6789_IFRAO_PMIC_TMR :: u32 where "MT6789_IFRAO_PMIC_TMR \<equiv> 165"
abbreviation MT6789_IFRAO_PMIC_AP :: u32 where "MT6789_IFRAO_PMIC_AP \<equiv> 166"
abbreviation MT6789_IFRAO_GCE :: u32 where "MT6789_IFRAO_GCE \<equiv> 167"
abbreviation MT6789_IFRAO_GCE2 :: u32 where "MT6789_IFRAO_GCE2 \<equiv> 168"
abbreviation MT6789_IFRAO_THERM :: u32 where "MT6789_IFRAO_THERM \<equiv> 169"
abbreviation MT6789_IFRAO_I2C_PSEUDO :: u32 where "MT6789_IFRAO_I2C_PSEUDO \<equiv> 170"
abbreviation MT6789_IFRAO_APDMA_PSEUDO :: u32 where "MT6789_IFRAO_APDMA_PSEUDO \<equiv> 171"
abbreviation MT6789_IFRAO_PWM_HCLK :: u32 where "MT6789_IFRAO_PWM_HCLK \<equiv> 172"
abbreviation MT6789_IFRAO_PWM1 :: u32 where "MT6789_IFRAO_PWM1 \<equiv> 173"
abbreviation MT6789_IFRAO_PWM2 :: u32 where "MT6789_IFRAO_PWM2 \<equiv> 174"
abbreviation MT6789_IFRAO_PWM3 :: u32 where "MT6789_IFRAO_PWM3 \<equiv> 175"
abbreviation MT6789_IFRAO_PWM4 :: u32 where "MT6789_IFRAO_PWM4 \<equiv> 176"
abbreviation MT6789_IFRAO_PWM :: u32 where "MT6789_IFRAO_PWM \<equiv> 177"
abbreviation MT6789_IFRAO_UART0 :: u32 where "MT6789_IFRAO_UART0 \<equiv> 178"
abbreviation MT6789_IFRAO_UART1 :: u32 where "MT6789_IFRAO_UART1 \<equiv> 179"
abbreviation MT6789_IFRAO_UART2 :: u32 where "MT6789_IFRAO_UART2 \<equiv> 180"
abbreviation MT6789_IFRAO_UART3 :: u32 where "MT6789_IFRAO_UART3 \<equiv> 181"
abbreviation MT6789_IFRAO_GCE_26M :: u32 where "MT6789_IFRAO_GCE_26M \<equiv> 182"
abbreviation MT6789_IFRAO_BTIF :: u32 where "MT6789_IFRAO_BTIF \<equiv> 183"
abbreviation MT6789_IFRAO_SPI0 :: u32 where "MT6789_IFRAO_SPI0 \<equiv> 184"
abbreviation MT6789_IFRAO_MSDC0 :: u32 where "MT6789_IFRAO_MSDC0 \<equiv> 185"
abbreviation MT6789_IFRAO_MSDC1 :: u32 where "MT6789_IFRAO_MSDC1 \<equiv> 186"
abbreviation MT6789_IFRAO_MSDC0_SRC :: u32 where "MT6789_IFRAO_MSDC0_SRC \<equiv> 187"
abbreviation MT6789_IFRAO_AUXADC :: u32 where "MT6789_IFRAO_AUXADC \<equiv> 188"
abbreviation MT6789_IFRAO_CPUM :: u32 where "MT6789_IFRAO_CPUM \<equiv> 189"
abbreviation MT6789_IFRAO_CCIF1_AP :: u32 where "MT6789_IFRAO_CCIF1_AP \<equiv> 190"
abbreviation MT6789_IFRAO_CCIF1_MD :: u32 where "MT6789_IFRAO_CCIF1_MD \<equiv> 191"
abbreviation MT6789_IFRAO_AUXADC_MD :: u32 where "MT6789_IFRAO_AUXADC_MD \<equiv> 192"
abbreviation MT6789_IFRAO_MSDC1_SRC :: u32 where "MT6789_IFRAO_MSDC1_SRC \<equiv> 193"
abbreviation MT6789_IFRAO_MSDC0_AES :: u32 where "MT6789_IFRAO_MSDC0_AES \<equiv> 194"
abbreviation MT6789_IFRAO_CCIF_AP :: u32 where "MT6789_IFRAO_CCIF_AP \<equiv> 195"
abbreviation MT6789_IFRAO_DEBUGSYS :: u32 where "MT6789_IFRAO_DEBUGSYS \<equiv> 196"
abbreviation MT6789_IFRAO_AUDIO :: u32 where "MT6789_IFRAO_AUDIO \<equiv> 197"
abbreviation MT6789_IFRAO_CCIF_MD :: u32 where "MT6789_IFRAO_CCIF_MD \<equiv> 198"
abbreviation MT6789_IFRAO_SSUSB :: u32 where "MT6789_IFRAO_SSUSB \<equiv> 199"
abbreviation MT6789_IFRAO_CLDMA_BCLK :: u32 where "MT6789_IFRAO_CLDMA_BCLK \<equiv> 200"
abbreviation MT6789_IFRAO_AUDIO_26M_BCLK :: u32 where "MT6789_IFRAO_AUDIO_26M_BCLK \<equiv> 201"
abbreviation MT6789_IFRAO_SPI1 :: u32 where "MT6789_IFRAO_SPI1 \<equiv> 202"
abbreviation MT6789_IFRAO_SPI2 :: u32 where "MT6789_IFRAO_SPI2 \<equiv> 203"
abbreviation MT6789_IFRAO_SPI3 :: u32 where "MT6789_IFRAO_SPI3 \<equiv> 204"
abbreviation MT6789_IFRAO_UNIPRO_SYSCLK :: u32 where "MT6789_IFRAO_UNIPRO_SYSCLK \<equiv> 205"
abbreviation MT6789_IFRAO_UNIPRO_TICK :: u32 where "MT6789_IFRAO_UNIPRO_TICK \<equiv> 206"
abbreviation MT6789_IFRAO_UFS_SAP_BCLK :: u32 where "MT6789_IFRAO_UFS_SAP_BCLK \<equiv> 207"
abbreviation MT6789_IFRAO_SPI4 :: u32 where "MT6789_IFRAO_SPI4 \<equiv> 208"
abbreviation MT6789_IFRAO_SPI5 :: u32 where "MT6789_IFRAO_SPI5 \<equiv> 209"
abbreviation MT6789_IFRAO_CQ_DMA :: u32 where "MT6789_IFRAO_CQ_DMA \<equiv> 210"
abbreviation MT6789_IFRAO_UFS :: u32 where "MT6789_IFRAO_UFS \<equiv> 211"
abbreviation MT6789_IFRAO_UFS_AES :: u32 where "MT6789_IFRAO_UFS_AES \<equiv> 212"
abbreviation MT6789_IFRAO_AP_MSDC0 :: u32 where "MT6789_IFRAO_AP_MSDC0 \<equiv> 213"
abbreviation MT6789_IFRAO_MD_MSDC0 :: u32 where "MT6789_IFRAO_MD_MSDC0 \<equiv> 214"
abbreviation MT6789_IFRAO_CCIF5_MD :: u32 where "MT6789_IFRAO_CCIF5_MD \<equiv> 215"
abbreviation MT6789_IFRAO_CCIF2_AP :: u32 where "MT6789_IFRAO_CCIF2_AP \<equiv> 216"
abbreviation MT6789_IFRAO_CCIF2_MD :: u32 where "MT6789_IFRAO_CCIF2_MD \<equiv> 217"
abbreviation MT6789_IFRAO_FBIST2FPC :: u32 where "MT6789_IFRAO_FBIST2FPC \<equiv> 218"
abbreviation MT6789_IFRAO_DPMAIF_MAIN :: u32 where "MT6789_IFRAO_DPMAIF_MAIN \<equiv> 219"
abbreviation MT6789_IFRAO_CCIF4_AP :: u32 where "MT6789_IFRAO_CCIF4_AP \<equiv> 220"
abbreviation MT6789_IFRAO_CCIF4_MD :: u32 where "MT6789_IFRAO_CCIF4_MD \<equiv> 221"
abbreviation MT6789_IFRAO_SPI6_CK :: u32 where "MT6789_IFRAO_SPI6_CK \<equiv> 222"
abbreviation MT6789_IFRAO_SPI7_CK :: u32 where "MT6789_IFRAO_SPI7_CK \<equiv> 223"
abbreviation MT6789_IFRAO_66MP_BUS_MCLK_CKP :: u32 where "MT6789_IFRAO_66MP_BUS_MCLK_CKP \<equiv> 224"
abbreviation MT6789_IFRAO_AP_DMA :: u32 where "MT6789_IFRAO_AP_DMA \<equiv> 225"

text \<open>The enumerators in their order; \<open>MAX_CLOCK_ID\<close> is their number.\<close>

definition MT6789_CLOCK_ID :: "u32 list" where
  "MT6789_CLOCK_ID = [MT6789_TOP_CLK32K, MT6789_TOP_CLK26M, MT6789_TOP_ULPOSC, MT6789_APMIXED_ARMPLL_LL,
     MT6789_APMIXED_ARMPLL_BL0, MT6789_APMIXED_CCIPLL, MT6789_APMIXED_MPLL, MT6789_APMIXED_MAINPLL,
     MT6789_APMIXED_UNIVPLL, MT6789_APMIXED_MSDCPLL, MT6789_APMIXED_MMPLL, MT6789_APMIXED_NPUPLL,
     MT6789_APMIXED_MFGPLL, MT6789_APMIXED_TVDPLL, MT6789_APMIXED_APLL1, MT6789_APMIXED_APLL2,
     MT6789_APMIXED_USBPLL, MT6789_TOP_AXI_SEL, MT6789_TOP_SPM_SEL, MT6789_TOP_SCP_SEL,
     MT6789_TOP_BUS_AXIMEM_SEL, MT6789_TOP_DISP_SEL, MT6789_TOP_MDP_SEL, MT6789_TOP_IMG1_SEL,
     MT6789_TOP_IPE_SEL, MT6789_TOP_CAM_SEL, MT6789_TOP_MFG_REF_SEL, MT6789_TOP_MFG_PLL_SEL,
     MT6789_TOP_CAMTG_SEL, MT6789_TOP_CAMTG2_SEL, MT6789_TOP_CAMTG3_SEL, MT6789_TOP_CAMTG4_SEL,
     MT6789_TOP_CAMTG5_SEL, MT6789_TOP_CAMTG6_SEL, MT6789_TOP_UART_SEL, MT6789_TOP_SPI_SEL,
     MT6789_TOP_MSDC50_0_HCLK_SEL, MT6789_TOP_MSDC50_0_SEL, MT6789_TOP_MSDC30_1_SEL,
     MT6789_TOP_AUDIO_SEL, MT6789_TOP_AUD_INTBUS_SEL, MT6789_TOP_PWRAP_ULPOSC_SEL, MT6789_TOP_ATB_SEL,
     MT6789_TOP_SSPM_SEL, MT6789_TOP_SCAM_SEL, MT6789_TOP_DISP_PWM_SEL, MT6789_TOP_USB_SEL,
     MT6789_TOP_I2C_SEL, MT6789_TOP_SENINF_SEL, MT6789_TOP_SENINF1_SEL, MT6789_TOP_SENINF2_SEL,
     MT6789_TOP_SENINF3_SEL, MT6789_TOP_DXCC_SEL, MT6789_TOP_AUD_ENGEN1_SEL, MT6789_TOP_AUD_ENGEN2_SEL,
     MT6789_TOP_AES_UFSFDE_SEL, MT6789_TOP_UFS_SEL, MT6789_TOP_AUD_1_SEL, MT6789_TOP_AUD_2_SEL,
     MT6789_TOP_DPMAIF_MAIN_SEL, MT6789_TOP_VENC_SEL, MT6789_TOP_VDEC_SEL, MT6789_TOP_CAMTM_SEL,
     MT6789_TOP_PWM_SEL, MT6789_TOP_AUDIO_H_SEL, MT6789_TOP_SPMI_MST_SEL, MT6789_TOP_DVFSRC_SEL,
     MT6789_TOP_AES_MSDCFDE_SEL, MT6789_TOP_MCUPM_SEL, MT6789_TOP_DSI_OCC_SEL, MT6789_TOP_MFGPLL,
     MT6789_TOP_MAINPLL_D4, MT6789_TOP_MAINPLL_D4_D2, MT6789_TOP_MAINPLL_D4_D4,
     MT6789_TOP_MAINPLL_D4_D8, MT6789_TOP_MAINPLL_D4_D16, MT6789_TOP_MAINPLL_D5,
     MT6789_TOP_MAINPLL_D5_D2, MT6789_TOP_MAINPLL_D5_D4, MT6789_TOP_MAINPLL_D5_D8,
     MT6789_TOP_MAINPLL_D6, MT6789_TOP_MAINPLL_D6_D2, MT6789_TOP_MAINPLL_D6_D4, MT6789_TOP_MAINPLL_D7,
     MT6789_TOP_MAINPLL_D7_D2, MT6789_TOP_MAINPLL_D7_D4, MT6789_TOP_MAINPLL_D7_D8,
     MT6789_TOP_MAINPLL_D9, MT6789_TOP_UNIVPLL_D4, MT6789_TOP_UNIVPLL_D4_D2, MT6789_TOP_UNIVPLL_D4_D4,
     MT6789_TOP_UNIVPLL_D4_D8, MT6789_TOP_UNIVPLL_D5, MT6789_TOP_UNIVPLL_D5_D2,
     MT6789_TOP_UNIVPLL_D5_D4, MT6789_TOP_UNIVPLL_D6, MT6789_TOP_UNIVPLL_D6_D2,
     MT6789_TOP_UNIVPLL_D6_D4, MT6789_TOP_UNIVPLL_D6_D8, MT6789_TOP_UNIVPLL_D6_D16,
     MT6789_TOP_UNIVPLL_D7, MT6789_TOP_UNIVPLL_192M_D2, MT6789_TOP_UNIVPLL_192M_D4,
     MT6789_TOP_UNIVPLL_192M_D8, MT6789_TOP_UNIVPLL_192M_D16, MT6789_TOP_UNIVPLL_192M_D32,
     MT6789_TOP_APLL1, MT6789_TOP_APLL1_D2, MT6789_TOP_APLL1_D4, MT6789_TOP_APLL1_D8, MT6789_TOP_APLL2,
     MT6789_TOP_APLL2_D2, MT6789_TOP_APLL2_D4, MT6789_TOP_APLL2_D8, MT6789_TOP_MMPLL_D4_D2,
     MT6789_TOP_MMPLL_D5_D2, MT6789_TOP_MMPLL_D6, MT6789_TOP_MMPLL_D6_D2, MT6789_TOP_MMPLL_D7,
     MT6789_TOP_MMPLL_D9, MT6789_TOP_NPUPLL, MT6789_TOP_TVDPLL, MT6789_TOP_MSDCPLL,
     MT6789_TOP_MSDCPLL_D2, MT6789_TOP_MSDCPLL_D4, MT6789_TOP_CLKRTC, MT6789_TOP_TCK_26M_MX9,
     MT6789_TOP_F26M_CK_D2, MT6789_TOP_OSC_D2, MT6789_TOP_OSC_D4, MT6789_TOP_OSC_D8, MT6789_TOP_OSC_D16,
     MT6789_TOP_OSC_D10, MT6789_TOP_OSC_D20, MT6789_TOP_F26M, MT6789_TOP_AXI, MT6789_TOP_DISP,
     MT6789_TOP_MDP, MT6789_TOP_IMG1, MT6789_TOP_IPE, MT6789_TOP_CAM, MT6789_TOP_MFG_REF,
     MT6789_TOP_MFG_PLL, MT6789_TOP_UART, MT6789_TOP_SPI, MT6789_TOP_MSDC50_0, MT6789_TOP_MSDC30_1,
     MT6789_TOP_AUDIO, MT6789_TOP_PWRAP_ULPOSC, MT6789_TOP_DISP_PWM, MT6789_TOP_USB, MT6789_TOP_I2C,
     MT6789_TOP_AUD_ENGEN1, MT6789_TOP_AUD_ENGEN2, MT6789_TOP_AES_UFSFDE, MT6789_TOP_UFS,
     MT6789_TOP_DPMAIF_MAIN, MT6789_TOP_VENC, MT6789_TOP_VDEC, MT6789_TOP_CAMTM, MT6789_TOP_PWM,
     MT6789_TOP_AUDIO_H, MT6789_TOP_DSI_OCC, MT6789_TOP_I2C_PSEUDO, MT6789_TOP_APDMA,
     MT6789_IFRAO_PMIC_TMR, MT6789_IFRAO_PMIC_AP, MT6789_IFRAO_GCE, MT6789_IFRAO_GCE2,
     MT6789_IFRAO_THERM, MT6789_IFRAO_I2C_PSEUDO, MT6789_IFRAO_APDMA_PSEUDO, MT6789_IFRAO_PWM_HCLK,
     MT6789_IFRAO_PWM1, MT6789_IFRAO_PWM2, MT6789_IFRAO_PWM3, MT6789_IFRAO_PWM4, MT6789_IFRAO_PWM,
     MT6789_IFRAO_UART0, MT6789_IFRAO_UART1, MT6789_IFRAO_UART2, MT6789_IFRAO_UART3,
     MT6789_IFRAO_GCE_26M, MT6789_IFRAO_BTIF, MT6789_IFRAO_SPI0, MT6789_IFRAO_MSDC0, MT6789_IFRAO_MSDC1,
     MT6789_IFRAO_MSDC0_SRC, MT6789_IFRAO_AUXADC, MT6789_IFRAO_CPUM, MT6789_IFRAO_CCIF1_AP,
     MT6789_IFRAO_CCIF1_MD, MT6789_IFRAO_AUXADC_MD, MT6789_IFRAO_MSDC1_SRC, MT6789_IFRAO_MSDC0_AES,
     MT6789_IFRAO_CCIF_AP, MT6789_IFRAO_DEBUGSYS, MT6789_IFRAO_AUDIO, MT6789_IFRAO_CCIF_MD,
     MT6789_IFRAO_SSUSB, MT6789_IFRAO_CLDMA_BCLK, MT6789_IFRAO_AUDIO_26M_BCLK, MT6789_IFRAO_SPI1,
     MT6789_IFRAO_SPI2, MT6789_IFRAO_SPI3, MT6789_IFRAO_UNIPRO_SYSCLK, MT6789_IFRAO_UNIPRO_TICK,
     MT6789_IFRAO_UFS_SAP_BCLK, MT6789_IFRAO_SPI4, MT6789_IFRAO_SPI5, MT6789_IFRAO_CQ_DMA,
     MT6789_IFRAO_UFS, MT6789_IFRAO_UFS_AES, MT6789_IFRAO_AP_MSDC0, MT6789_IFRAO_MD_MSDC0,
     MT6789_IFRAO_CCIF5_MD, MT6789_IFRAO_CCIF2_AP, MT6789_IFRAO_CCIF2_MD, MT6789_IFRAO_FBIST2FPC,
     MT6789_IFRAO_DPMAIF_MAIN, MT6789_IFRAO_CCIF4_AP, MT6789_IFRAO_CCIF4_MD, MT6789_IFRAO_SPI6_CK,
     MT6789_IFRAO_SPI7_CK, MT6789_IFRAO_66MP_BUS_MCLK_CKP, MT6789_IFRAO_AP_DMA]"

section \<open>Parents of the multiplexers\<close>

definition mt6789_TopAxiSelParents :: "u32 list" where
  "mt6789_TopAxiSelParents = [MT6789_TOP_TCK_26M_MX9, MT6789_TOP_MAINPLL_D4_D4, MT6789_TOP_MAINPLL_D7_D2, MT6789_TOP_MAINPLL_D4_D2,
     MT6789_TOP_MAINPLL_D5_D2, MT6789_TOP_MAINPLL_D6_D2, MT6789_TOP_OSC_D4]"

definition mt6789_TopSpmSelParents :: "u32 list" where
  "mt6789_TopSpmSelParents = [MT6789_TOP_TCK_26M_MX9, MT6789_TOP_OSC_D10, MT6789_TOP_MAINPLL_D7_D4, MT6789_TOP_CLKRTC]"

definition mt6789_TopScpSelParents :: "u32 list" where
  "mt6789_TopScpSelParents = [MT6789_TOP_TCK_26M_MX9, MT6789_TOP_UNIVPLL_D4, MT6789_TOP_NPUPLL, MT6789_TOP_MAINPLL_D6,
     MT6789_TOP_UNIVPLL_D6, MT6789_TOP_MAINPLL_D4_D2, MT6789_TOP_MAINPLL_D4, MT6789_TOP_MAINPLL_D7]"

definition mt6789_TopBusAximemSelParents :: "u32 list" where
  "mt6789_TopBusAximemSelParents = [MT6789_TOP_TCK_26M_MX9, MT6789_TOP_MAINPLL_D7_D2, MT6789_TOP_MAINPLL_D4_D2, MT6789_TOP_MAINPLL_D5_D2,
     MT6789_TOP_MAINPLL_D6]"

definition mt6789_TopDispSelParents :: "u32 list" where
  "mt6789_TopDispSelParents = [MT6789_TOP_TCK_26M_MX9, MT6789_TOP_UNIVPLL_D6_D2, MT6789_TOP_MAINPLL_D5_D2, MT6789_TOP_MMPLL_D6_D2,
     MT6789_TOP_UNIVPLL_D5_D2, MT6789_TOP_UNIVPLL_D4_D2, MT6789_TOP_MMPLL_D7, MT6789_TOP_UNIVPLL_D6,
     MT6789_TOP_MAINPLL_D4, MT6789_TOP_MMPLL_D5_D2]"

definition mt6789_TopMdpSelParents :: "u32 list" where
  "mt6789_TopMdpSelParents = [MT6789_TOP_TCK_26M_MX9, MT6789_TOP_MAINPLL_D5_D2, MT6789_TOP_MMPLL_D6_D2, MT6789_TOP_MAINPLL_D4_D2,
     MT6789_TOP_MMPLL_D4_D2, MT6789_TOP_MAINPLL_D6, MT6789_TOP_MAINPLL_D5, MT6789_TOP_MAINPLL_D4,
     MT6789_TOP_TVDPLL, MT6789_TOP_UNIVPLL_D4, MT6789_TOP_MMPLL_D5_D2]"

definition mt6789_TopImg1SelParents :: "u32 list" where
  "mt6789_TopImg1SelParents = [MT6789_TOP_TCK_26M_MX9, MT6789_TOP_UNIVPLL_D4, MT6789_TOP_TVDPLL, MT6789_TOP_MAINPLL_D4,
     MT6789_TOP_UNIVPLL_D5, MT6789_TOP_MMPLL_D6, MT6789_TOP_UNIVPLL_D6, MT6789_TOP_MAINPLL_D6,
     MT6789_TOP_MMPLL_D4_D2, MT6789_TOP_MAINPLL_D4_D2, MT6789_TOP_MMPLL_D6_D2, MT6789_TOP_MMPLL_D5_D2]"

definition mt6789_TopIpeSelParents :: "u32 list" where
  "mt6789_TopIpeSelParents = [MT6789_TOP_TCK_26M_MX9, MT6789_TOP_MAINPLL_D4, MT6789_TOP_MMPLL_D6, MT6789_TOP_UNIVPLL_D6,
     MT6789_TOP_MAINPLL_D6, MT6789_TOP_UNIVPLL_D4_D2, MT6789_TOP_MAINPLL_D4_D2, MT6789_TOP_MMPLL_D6_D2,
     MT6789_TOP_MMPLL_D5_D2]"

definition mt6789_TopCamSelParents :: "u32 list" where
  "mt6789_TopCamSelParents = [MT6789_TOP_TCK_26M_MX9, MT6789_TOP_MAINPLL_D4, MT6789_TOP_MMPLL_D6, MT6789_TOP_UNIVPLL_D4,
     MT6789_TOP_UNIVPLL_D5, MT6789_TOP_UNIVPLL_D6, MT6789_TOP_MMPLL_D7, MT6789_TOP_UNIVPLL_D4_D2,
     MT6789_TOP_MAINPLL_D4_D2, MT6789_TOP_NPUPLL]"

definition mt6789_TopMfgRefSelParents :: "u32 list" where
  "mt6789_TopMfgRefSelParents = [MT6789_TOP_TCK_26M_MX9, MT6789_TOP_MAINPLL_D6_D2, MT6789_TOP_MAINPLL_D6, MT6789_TOP_MAINPLL_D5_D2]"

definition mt6789_TopMfgPllSelParents :: "u32 list" where
  "mt6789_TopMfgPllSelParents = [MT6789_TOP_MFG_REF, MT6789_TOP_MFGPLL]"

definition mt6789_TopCamtgSelParents :: "u32 list" where
  "mt6789_TopCamtgSelParents = [MT6789_TOP_TCK_26M_MX9, MT6789_TOP_UNIVPLL_192M_D8, MT6789_TOP_UNIVPLL_D6_D8,
     MT6789_TOP_UNIVPLL_192M_D4, MT6789_TOP_UNIVPLL_D6_D16, MT6789_TOP_F26M_CK_D2,
     MT6789_TOP_UNIVPLL_192M_D16, MT6789_TOP_UNIVPLL_192M_D32]"

definition mt6789_TopCamtg2SelParents :: "u32 list" where
  "mt6789_TopCamtg2SelParents = [MT6789_TOP_TCK_26M_MX9, MT6789_TOP_UNIVPLL_192M_D8, MT6789_TOP_UNIVPLL_D6_D8,
     MT6789_TOP_UNIVPLL_192M_D4, MT6789_TOP_UNIVPLL_D6_D16, MT6789_TOP_F26M_CK_D2,
     MT6789_TOP_UNIVPLL_192M_D16, MT6789_TOP_UNIVPLL_192M_D32]"

definition mt6789_TopCamtg3SelParents :: "u32 list" where
  "mt6789_TopCamtg3SelParents = [MT6789_TOP_TCK_26M_MX9, MT6789_TOP_UNIVPLL_192M_D8, MT6789_TOP_UNIVPLL_D6_D8,
     MT6789_TOP_UNIVPLL_192M_D4, MT6789_TOP_UNIVPLL_D6_D16, MT6789_TOP_F26M_CK_D2,
     MT6789_TOP_UNIVPLL_192M_D16, MT6789_TOP_UNIVPLL_192M_D32]"

definition mt6789_TopCamtg4SelParents :: "u32 list" where
  "mt6789_TopCamtg4SelParents = [MT6789_TOP_TCK_26M_MX9, MT6789_TOP_UNIVPLL_192M_D8, MT6789_TOP_UNIVPLL_D6_D8,
     MT6789_TOP_UNIVPLL_192M_D4, MT6789_TOP_UNIVPLL_D6_D16, MT6789_TOP_F26M_CK_D2,
     MT6789_TOP_UNIVPLL_192M_D16, MT6789_TOP_UNIVPLL_192M_D32]"

definition mt6789_TopCamtg5SelParents :: "u32 list" where
  "mt6789_TopCamtg5SelParents = [MT6789_TOP_TCK_26M_MX9, MT6789_TOP_UNIVPLL_192M_D8, MT6789_TOP_UNIVPLL_D6_D8,
     MT6789_TOP_UNIVPLL_192M_D4, MT6789_TOP_UNIVPLL_D6_D16, MT6789_TOP_F26M_CK_D2,
     MT6789_TOP_UNIVPLL_192M_D16, MT6789_TOP_UNIVPLL_192M_D32]"

definition mt6789_TopCamtg6SelParents :: "u32 list" where
  "mt6789_TopCamtg6SelParents = [MT6789_TOP_TCK_26M_MX9, MT6789_TOP_UNIVPLL_192M_D8, MT6789_TOP_UNIVPLL_D6_D8,
     MT6789_TOP_UNIVPLL_192M_D4, MT6789_TOP_UNIVPLL_D6_D16, MT6789_TOP_F26M_CK_D2,
     MT6789_TOP_UNIVPLL_192M_D16, MT6789_TOP_UNIVPLL_192M_D32]"

definition mt6789_TopUartSelParents :: "u32 list" where
  "mt6789_TopUartSelParents = [MT6789_TOP_TCK_26M_MX9, MT6789_TOP_UNIVPLL_D6_D8]"

definition mt6789_TopSpiSelParents :: "u32 list" where
  "mt6789_TopSpiSelParents = [MT6789_TOP_TCK_26M_MX9, MT6789_TOP_MAINPLL_D5_D4, MT6789_TOP_MAINPLL_D6_D4, MT6789_TOP_MSDCPLL_D4,
     MT6789_TOP_MSDCPLL_D2, MT6789_TOP_MAINPLL_D6_D2, MT6789_TOP_MAINPLL_D4_D4, MT6789_TOP_UNIVPLL_D5_D4]"

definition mt6789_TopMsdc50HclkSelParents :: "u32 list" where
  "mt6789_TopMsdc50HclkSelParents = [MT6789_TOP_TCK_26M_MX9, MT6789_TOP_MAINPLL_D4_D2, MT6789_TOP_MAINPLL_D6_D2]"

definition mt6789_TopMsdc50SelParents :: "u32 list" where
  "mt6789_TopMsdc50SelParents = [MT6789_TOP_TCK_26M_MX9, MT6789_TOP_MSDCPLL, MT6789_TOP_MSDCPLL_D2, MT6789_TOP_UNIVPLL_D4_D4,
     MT6789_TOP_MAINPLL_D6_D2, MT6789_TOP_UNIVPLL_D4_D2]"

definition mt6789_TopMsdc30SelParents :: "u32 list" where
  "mt6789_TopMsdc30SelParents = [MT6789_TOP_TCK_26M_MX9, MT6789_TOP_UNIVPLL_D6_D2, MT6789_TOP_MAINPLL_D6_D2, MT6789_TOP_MAINPLL_D7_D2,
     MT6789_TOP_MSDCPLL_D2]"

definition mt6789_TopAudioSelParents :: "u32 list" where
  "mt6789_TopAudioSelParents = [MT6789_TOP_TCK_26M_MX9, MT6789_TOP_MAINPLL_D5_D8, MT6789_TOP_MAINPLL_D7_D8, MT6789_TOP_MAINPLL_D4_D16]"

definition mt6789_TopAudIntbusSelParents :: "u32 list" where
  "mt6789_TopAudIntbusSelParents = [MT6789_TOP_TCK_26M_MX9, MT6789_TOP_MAINPLL_D4_D4, MT6789_TOP_MAINPLL_D7_D4]"

definition mt6789_TopPwrapUlposcSelParents :: "u32 list" where
  "mt6789_TopPwrapUlposcSelParents = [MT6789_TOP_OSC_D10, MT6789_TOP_TCK_26M_MX9, MT6789_TOP_OSC_D4, MT6789_TOP_OSC_D8, MT6789_TOP_OSC_D16]"

definition mt6789_TopAtbSelParents :: "u32 list" where
  "mt6789_TopAtbSelParents = [MT6789_TOP_TCK_26M_MX9, MT6789_TOP_MAINPLL_D4_D2, MT6789_TOP_MAINPLL_D5_D2]"

definition mt6789_TopSspmSelParents :: "u32 list" where
  "mt6789_TopSspmSelParents = [MT6789_TOP_TCK_26M_MX9, MT6789_TOP_MAINPLL_D7_D2, MT6789_TOP_MAINPLL_D6_D2, MT6789_TOP_MAINPLL_D5_D2,
     MT6789_TOP_MAINPLL_D9, MT6789_TOP_MAINPLL_D4_D2]"

definition mt6789_TopScamSelParents :: "u32 list" where
  "mt6789_TopScamSelParents = [MT6789_TOP_TCK_26M_MX9, MT6789_TOP_MAINPLL_D5_D4]"

definition mt6789_TopDispPwmSelParents :: "u32 list" where
  "mt6789_TopDispPwmSelParents = [MT6789_TOP_TCK_26M_MX9, MT6789_TOP_UNIVPLL_D6_D4, MT6789_TOP_OSC_D2, MT6789_TOP_OSC_D4,
     MT6789_TOP_OSC_D16]"

definition mt6789_TopUsbSelParents :: "u32 list" where
  "mt6789_TopUsbSelParents = [MT6789_TOP_TCK_26M_MX9, MT6789_TOP_UNIVPLL_D5_D4, MT6789_TOP_UNIVPLL_D6_D4, MT6789_TOP_UNIVPLL_D5_D2]"

definition mt6789_TopI2cSelParents :: "u32 list" where
  "mt6789_TopI2cSelParents = [MT6789_TOP_TCK_26M_MX9, MT6789_TOP_MAINPLL_D4_D8, MT6789_TOP_UNIVPLL_D5_D4]"

definition mt6789_TopSeninfSelParents :: "u32 list" where
  "mt6789_TopSeninfSelParents = [MT6789_TOP_TCK_26M_MX9, MT6789_TOP_UNIVPLL_D4_D4, MT6789_TOP_UNIVPLL_D6_D2, MT6789_TOP_UNIVPLL_D4_D2,
     MT6789_TOP_NPUPLL, MT6789_TOP_MMPLL_D7, MT6789_TOP_MMPLL_D6, MT6789_TOP_UNIVPLL_D5]"

definition mt6789_TopSeninf1SelParents :: "u32 list" where
  "mt6789_TopSeninf1SelParents = [MT6789_TOP_TCK_26M_MX9, MT6789_TOP_UNIVPLL_D4_D4, MT6789_TOP_UNIVPLL_D6_D2, MT6789_TOP_UNIVPLL_D4_D2,
     MT6789_TOP_NPUPLL, MT6789_TOP_MMPLL_D7, MT6789_TOP_MMPLL_D6, MT6789_TOP_UNIVPLL_D5]"

definition mt6789_TopSeninf2SelParents :: "u32 list" where
  "mt6789_TopSeninf2SelParents = [MT6789_TOP_TCK_26M_MX9, MT6789_TOP_UNIVPLL_D4_D4, MT6789_TOP_UNIVPLL_D6_D2, MT6789_TOP_UNIVPLL_D4_D2,
     MT6789_TOP_NPUPLL, MT6789_TOP_MMPLL_D7, MT6789_TOP_MMPLL_D6, MT6789_TOP_UNIVPLL_D5]"

definition mt6789_TopSeninf3SelParents :: "u32 list" where
  "mt6789_TopSeninf3SelParents = [MT6789_TOP_TCK_26M_MX9, MT6789_TOP_UNIVPLL_D4_D4, MT6789_TOP_UNIVPLL_D6_D2, MT6789_TOP_UNIVPLL_D4_D2,
     MT6789_TOP_NPUPLL, MT6789_TOP_MMPLL_D7, MT6789_TOP_MMPLL_D6, MT6789_TOP_UNIVPLL_D5]"

definition mt6789_TopDxccSelParents :: "u32 list" where
  "mt6789_TopDxccSelParents = [MT6789_TOP_TCK_26M_MX9, MT6789_TOP_MAINPLL_D4_D2, MT6789_TOP_MAINPLL_D4_D4, MT6789_TOP_MAINPLL_D4_D8]"

definition mt6789_TopAudEngen1SelParents :: "u32 list" where
  "mt6789_TopAudEngen1SelParents = [MT6789_TOP_TCK_26M_MX9, MT6789_TOP_APLL1_D2, MT6789_TOP_APLL1_D4, MT6789_TOP_APLL1_D8]"

definition mt6789_TopAudEngen2SelParents :: "u32 list" where
  "mt6789_TopAudEngen2SelParents = [MT6789_TOP_TCK_26M_MX9, MT6789_TOP_APLL2_D2, MT6789_TOP_APLL2_D4, MT6789_TOP_APLL2_D8]"

definition mt6789_TopAesUfsfdeSelParents :: "u32 list" where
  "mt6789_TopAesUfsfdeSelParents = [MT6789_TOP_TCK_26M_MX9, MT6789_TOP_MAINPLL_D4, MT6789_TOP_MAINPLL_D4_D2, MT6789_TOP_MAINPLL_D6,
     MT6789_TOP_MAINPLL_D4_D4, MT6789_TOP_UNIVPLL_D4_D2, MT6789_TOP_UNIVPLL_D6]"

definition mt6789_TopUfsSelParents :: "u32 list" where
  "mt6789_TopUfsSelParents = [MT6789_TOP_TCK_26M_MX9, MT6789_TOP_MAINPLL_D4_D4, MT6789_TOP_MAINPLL_D4_D8, MT6789_TOP_UNIVPLL_D4_D4,
     MT6789_TOP_MAINPLL_D6_D2, MT6789_TOP_MAINPLL_D5_D2, MT6789_TOP_MSDCPLL_D2]"

definition mt6789_TopAud1SelParents :: "u32 list" where
  "mt6789_TopAud1SelParents = [MT6789_TOP_TCK_26M_MX9, MT6789_TOP_APLL1]"

definition mt6789_TopAud2SelParents :: "u32 list" where
  "mt6789_TopAud2SelParents = [MT6789_TOP_TCK_26M_MX9, MT6789_TOP_APLL2]"

definition mt6789_TopDpmaifMainSelParents :: "u32 list" where
  "mt6789_TopDpmaifMainSelParents = [MT6789_TOP_TCK_26M_MX9, MT6789_TOP_UNIVPLL_D4_D4, MT6789_TOP_MAINPLL_D6, MT6789_TOP_MAINPLL_D4_D2,
     MT6789_TOP_UNIVPLL_D4_D2]"

definition mt6789_TopVencSelParents :: "u32 list" where
  "mt6789_TopVencSelParents = [MT6789_TOP_TCK_26M_MX9, MT6789_TOP_MMPLL_D7, MT6789_TOP_MAINPLL_D6, MT6789_TOP_UNIVPLL_D4_D2,
     MT6789_TOP_MAINPLL_D4_D2, MT6789_TOP_UNIVPLL_D6, MT6789_TOP_MMPLL_D6, MT6789_TOP_MAINPLL_D5_D2,
     MT6789_TOP_MAINPLL_D6_D2, MT6789_TOP_MMPLL_D9, MT6789_TOP_UNIVPLL_D4_D4, MT6789_TOP_MAINPLL_D4,
     MT6789_TOP_UNIVPLL_D4, MT6789_TOP_UNIVPLL_D5, MT6789_TOP_UNIVPLL_D5_D2, MT6789_TOP_MAINPLL_D5]"

definition mt6789_TopVdecSelParents :: "u32 list" where
  "mt6789_TopVdecSelParents = [MT6789_TOP_TCK_26M_MX9, MT6789_TOP_UNIVPLL_192M_D2, MT6789_TOP_UNIVPLL_D5_D4, MT6789_TOP_MAINPLL_D5,
     MT6789_TOP_MAINPLL_D5_D2, MT6789_TOP_MMPLL_D6_D2, MT6789_TOP_UNIVPLL_D5_D2,
     MT6789_TOP_MAINPLL_D4_D2, MT6789_TOP_UNIVPLL_D4_D2, MT6789_TOP_UNIVPLL_D7, MT6789_TOP_MMPLL_D7,
     MT6789_TOP_MMPLL_D6, MT6789_TOP_UNIVPLL_D5, MT6789_TOP_MAINPLL_D4, MT6789_TOP_UNIVPLL_D4,
     MT6789_TOP_UNIVPLL_D6]"

definition mt6789_TopCamtmSelParents :: "u32 list" where
  "mt6789_TopCamtmSelParents = [MT6789_TOP_TCK_26M_MX9, MT6789_TOP_UNIVPLL_D7, MT6789_TOP_UNIVPLL_D6_D2, MT6789_TOP_UNIVPLL_D4_D2]"

definition mt6789_TopPwmSelParents :: "u32 list" where
  "mt6789_TopPwmSelParents = [MT6789_TOP_TCK_26M_MX9, MT6789_TOP_UNIVPLL_D4_D8]"

definition mt6789_TopAudioHSelParents :: "u32 list" where
  "mt6789_TopAudioHSelParents = [MT6789_TOP_TCK_26M_MX9, MT6789_TOP_UNIVPLL_D7, MT6789_TOP_APLL1, MT6789_TOP_APLL2]"

definition mt6789_TopSpmiMstSelParents :: "u32 list" where
  "mt6789_TopSpmiMstSelParents = [MT6789_TOP_TCK_26M_MX9, MT6789_TOP_F26M_CK_D2, MT6789_TOP_OSC_D8, MT6789_TOP_OSC_D10,
     MT6789_TOP_OSC_D16, MT6789_TOP_OSC_D20, MT6789_TOP_CLKRTC]"

definition mt6789_TopDvfsrcSelParents :: "u32 list" where
  "mt6789_TopDvfsrcSelParents = [MT6789_TOP_TCK_26M_MX9, MT6789_TOP_OSC_D10]"

definition mt6789_TopAesMsdcfdeSelParents :: "u32 list" where
  "mt6789_TopAesMsdcfdeSelParents = [MT6789_TOP_TCK_26M_MX9, MT6789_TOP_MAINPLL_D4_D2, MT6789_TOP_MAINPLL_D6, MT6789_TOP_MAINPLL_D4_D4,
     MT6789_TOP_UNIVPLL_D4_D2, MT6789_TOP_UNIVPLL_D6]"

definition mt6789_TopMcupmSelParents :: "u32 list" where
  "mt6789_TopMcupmSelParents = [MT6789_TOP_TCK_26M_MX9, MT6789_TOP_MAINPLL_D6_D4, MT6789_TOP_MAINPLL_D6_D2]"

definition mt6789_TopDsiOccSelParents :: "u32 list" where
  "mt6789_TopDsiOccSelParents = [MT6789_TOP_TCK_26M_MX9, MT6789_TOP_MAINPLL_D6_D2, MT6789_TOP_UNIVPLL_D5_D2, MT6789_TOP_UNIVPLL_D4_D2]"

definition mt6789_TopApllI2s0MckSelParents :: "u32 list" where
  "mt6789_TopApllI2s0MckSelParents = [MT6789_TOP_AUD_1_SEL, MT6789_TOP_AUD_2_SEL]"

definition mt6789_TopApllI2s1MckSelParents :: "u32 list" where
  "mt6789_TopApllI2s1MckSelParents = [MT6789_TOP_AUD_1_SEL, MT6789_TOP_AUD_2_SEL]"

definition mt6789_TopApllI2s2MckSelParents :: "u32 list" where
  "mt6789_TopApllI2s2MckSelParents = [MT6789_TOP_AUD_1_SEL, MT6789_TOP_AUD_2_SEL]"

definition mt6789_TopApllI2s3MckSelParents :: "u32 list" where
  "mt6789_TopApllI2s3MckSelParents = [MT6789_TOP_AUD_1_SEL, MT6789_TOP_AUD_2_SEL]"

definition mt6789_TopApllI2s4MckSelParents :: "u32 list" where
  "mt6789_TopApllI2s4MckSelParents = [MT6789_TOP_AUD_1_SEL, MT6789_TOP_AUD_2_SEL]"

definition mt6789_TopApllI2s5MckSelParents :: "u32 list" where
  "mt6789_TopApllI2s5MckSelParents = [MT6789_TOP_AUD_1_SEL, MT6789_TOP_AUD_2_SEL]"

definition mt6789_TopApllI2s6MckSelParents :: "u32 list" where
  "mt6789_TopApllI2s6MckSelParents = [MT6789_TOP_AUD_1_SEL, MT6789_TOP_AUD_2_SEL]"

definition mt6789_TopApllI2s7MckSelParents :: "u32 list" where
  "mt6789_TopApllI2s7MckSelParents = [MT6789_TOP_AUD_1_SEL, MT6789_TOP_AUD_2_SEL]"

definition mt6789_TopApllI2s8MckSelParents :: "u32 list" where
  "mt6789_TopApllI2s8MckSelParents = [MT6789_TOP_AUD_1_SEL, MT6789_TOP_AUD_2_SEL]"

definition mt6789_TopApllI2s9MckSelParents :: "u32 list" where
  "mt6789_TopApllI2s9MckSelParents = [MT6789_TOP_AUD_1_SEL, MT6789_TOP_AUD_2_SEL]"

section \<open>The table\<close>

definition mt6789_clocks_1 :: "clock list" where
  "mt6789_clocks_1 = [
     fixed_clock MT6789_TOP_CLK32K ''TOP_CLK32K'' 32768,
     fixed_clock MT6789_TOP_CLK26M ''TOP_CLK26M'' 26000000,
     fixed_clock MT6789_TOP_ULPOSC ''TOP_ULPOSC'' 0]"

definition mt6789_clocks_2 :: "clock list" where
  "mt6789_clocks_2 = [
     pll_clock MT6789_APMIXED_ARMPLL_LL ''APMIXED_ARMPLL_LL'' ClkApMixed 0x208 0x214 0x1 0 0x20C 24
       3800000000 1500000000 0x20C 0 22 8 MT6789_TOP_CLK26M,
     pll_clock MT6789_APMIXED_ARMPLL_BL0 ''APMIXED_ARMPLL_BL0'' ClkApMixed 0x218 0x224 0x1 0 0x21C 24
       3800000000 1500000000 0x21C 0 22 8 MT6789_TOP_CLK26M,
     pll_clock MT6789_APMIXED_CCIPLL ''APMIXED_CCIPLL'' ClkApMixed 0x258 0x264 0x1 0 0x25C 24 3800000000
       1500000000 0x25C 0 22 8 MT6789_TOP_CLK26M,
     pll_clock MT6789_APMIXED_MPLL ''APMIXED_MPLL'' ClkApMixed 0x390 0x39C 0x1 0 0x394 24 3800000000
       1500000000 0x394 0 22 8 MT6789_TOP_CLK26M,
     pll_clock MT6789_APMIXED_MAINPLL ''APMIXED_MAINPLL'' ClkApMixed 0x340 0x34C 0x1 0x800000 0x344 24
       3800000000 1500000000 0x344 0 22 8 MT6789_TOP_CLK26M,
     pll_clock MT6789_APMIXED_UNIVPLL ''APMIXED_UNIVPLL'' ClkApMixed 0x308 0x314 0x1 0x800000 0x30C 24
       3800000000 1500000000 0x30C 0 22 8 MT6789_TOP_CLK26M]"

definition mt6789_clocks_3 :: "clock list" where
  "mt6789_clocks_3 = [
     pll_clock MT6789_APMIXED_MSDCPLL ''APMIXED_MSDCPLL'' ClkApMixed 0x350 0x35C 0x1 0 0x354 24 3800000000
       1500000000 0x354 0 22 8 MT6789_TOP_CLK26M,
     pll_clock MT6789_APMIXED_MMPLL ''APMIXED_MMPLL'' ClkApMixed 0x360 0x36C 0x1 0x800000 0x364 24 3800000000
       1500000000 0x364 0 22 8 MT6789_TOP_CLK26M,
     pll_clock MT6789_APMIXED_NPUPLL ''APMIXED_NPUPLL'' ClkApMixed 0x3B4 0x3C0 0x1 0 0x3B8 24 3800000000
       1500000000 0x3B8 0 22 8 MT6789_TOP_CLK26M,
     pll_clock MT6789_APMIXED_MFGPLL ''APMIXED_MFGPLL'' ClkApMixed 0x268 0x274 0x1 0 0x26C 24 3800000000
       1500000000 0x26C 0 22 8 MT6789_TOP_CLK26M,
     pll_clock MT6789_APMIXED_TVDPLL ''APMIXED_TVDPLL'' ClkApMixed 0x380 0x38C 0x1 0 0x384 24 3800000000
       1500000000 0x384 0 22 8 MT6789_TOP_CLK26M,
     pll_clock MT6789_APMIXED_APLL1 ''APMIXED_APLL1'' ClkApMixed 0x318 0x328 0x1 0 0x31C 24 3800000000
       1500000000 0x320 0 32 8 MT6789_TOP_CLK26M]"

definition mt6789_clocks_4 :: "clock list" where
  "mt6789_clocks_4 = [
     pll_clock MT6789_APMIXED_APLL2 ''APMIXED_APLL2'' ClkApMixed 0x32C 0x33C 0x1 0 0x330 24 3800000000
       1500000000 0x334 0 32 8 MT6789_TOP_CLK26M,
     pll_clock MT6789_APMIXED_USBPLL ''APMIXED_USBPLL'' ClkApMixed 0x3C4 0x3CC 0x1 0x800000 0x3C4 24
       3800000000 1500000000 0x3C4 0 22 8 MT6789_TOP_CLK26M]"

definition mt6789_clocks_5 :: "clock list" where
  "mt6789_clocks_5 = [
     mux_clock MT6789_TOP_AXI_SEL ''TOP_AXI_SEL'' ClkTopCkGen 0x10 0x14 0x18 0x04 0 3 0 0
       mt6789_TopAxiSelParents,
     mux_clock MT6789_TOP_SPM_SEL ''TOP_SPM_SEL'' ClkTopCkGen 0x10 0x14 0x18 0x04 8 2 0 1
       mt6789_TopSpmSelParents,
     mux_gate_clock MT6789_TOP_SCP_SEL ''TOP_SCP_SEL'' ClkTopCkGen 0x10 0x14 0x18 0x04 16 3 23 2
       mt6789_TopScpSelParents,
     mux_clock MT6789_TOP_BUS_AXIMEM_SEL ''TOP_BUS_AXIMEM_SEL'' ClkTopCkGen 0x10 0x14 0x18 0x04 24 3 0 3
       mt6789_TopBusAximemSelParents,
     mux_gate_clock MT6789_TOP_DISP_SEL ''TOP_DISP_SEL'' ClkTopCkGen 0x20 0x24 0x28 0x04 0 4 7 4
       mt6789_TopDispSelParents,
     mux_gate_clock MT6789_TOP_MDP_SEL ''TOP_MDP_SEL'' ClkTopCkGen 0x20 0x24 0x28 0x04 8 4 15 5
       mt6789_TopMdpSelParents,
     mux_gate_clock MT6789_TOP_IMG1_SEL ''TOP_IMG1_SEL'' ClkTopCkGen 0x20 0x24 0x28 0x04 16 4 23 6
       mt6789_TopImg1SelParents,
     mux_gate_clock MT6789_TOP_IPE_SEL ''TOP_IPE_SEL'' ClkTopCkGen 0x30 0x34 0x38 0x04 0 4 7 8
       mt6789_TopIpeSelParents]"

definition mt6789_clocks_6 :: "clock list" where
  "mt6789_clocks_6 = [
     mux_gate_clock MT6789_TOP_CAM_SEL ''TOP_CAM_SEL'' ClkTopCkGen 0x30 0x34 0x38 0x04 16 4 23 10
       mt6789_TopCamSelParents,
     mux_gate_clock MT6789_TOP_MFG_REF_SEL ''TOP_MFG_REF_SEL'' ClkTopCkGen 0x50 0x54 0x58 0x04 16 2 23 18
       mt6789_TopMfgRefSelParents,
     mux_clock MT6789_TOP_MFG_PLL_SEL ''TOP_MFG_PLL_SEL'' ClkTopCkGen 0x50 0x54 0x58 (- 1) 18 1 0 (- 1)
       mt6789_TopMfgPllSelParents,
     mux_gate_clock MT6789_TOP_CAMTG_SEL ''TOP_CAMTG_SEL'' ClkTopCkGen 0x50 0x54 0x58 0x04 24 3 31 19
       mt6789_TopCamtgSelParents,
     mux_gate_clock MT6789_TOP_CAMTG2_SEL ''TOP_CAMTG2_SEL'' ClkTopCkGen 0x60 0x64 0x68 0x04 0 3 7 20
       mt6789_TopCamtg2SelParents,
     mux_gate_clock MT6789_TOP_CAMTG3_SEL ''TOP_CAMTG3_SEL'' ClkTopCkGen 0x60 0x64 0x68 0x04 8 3 15 21
       mt6789_TopCamtg3SelParents,
     mux_gate_clock MT6789_TOP_CAMTG4_SEL ''TOP_CAMTG4_SEL'' ClkTopCkGen 0x60 0x64 0x68 0x04 16 3 23 22
       mt6789_TopCamtg4SelParents]"

definition mt6789_clocks_7 :: "clock list" where
  "mt6789_clocks_7 = [
     mux_gate_clock MT6789_TOP_CAMTG5_SEL ''TOP_CAMTG5_SEL'' ClkTopCkGen 0x60 0x64 0x68 0x04 24 3 31 23
       mt6789_TopCamtg5SelParents,
     mux_gate_clock MT6789_TOP_CAMTG6_SEL ''TOP_CAMTG6_SEL'' ClkTopCkGen 0x70 0x74 0x78 0x04 0 3 7 24
       mt6789_TopCamtg6SelParents,
     mux_gate_clock MT6789_TOP_UART_SEL ''TOP_UART_SEL'' ClkTopCkGen 0x70 0x74 0x78 0x04 8 1 15 25
       mt6789_TopUartSelParents,
     mux_gate_clock MT6789_TOP_SPI_SEL ''TOP_SPI_SEL'' ClkTopCkGen 0x70 0x74 0x78 0x04 16 3 23 26
       mt6789_TopSpiSelParents,
     mux_gate_clock MT6789_TOP_MSDC50_0_HCLK_SEL ''TOP_MSDC50_0_HCLK_SEL'' ClkTopCkGen 0x70 0x74 0x78 0x04 24
       2 31 27 mt6789_TopMsdc50HclkSelParents,
     mux_gate_clock MT6789_TOP_MSDC50_0_SEL ''TOP_MSDC50_0_SEL'' ClkTopCkGen 0x80 0x84 0x88 0x04 0 3 7 28
       mt6789_TopMsdc50SelParents,
     mux_gate_clock MT6789_TOP_MSDC30_1_SEL ''TOP_MSDC30_1_SEL'' ClkTopCkGen 0x80 0x84 0x88 0x04 8 3 15 29
       mt6789_TopMsdc30SelParents]"

definition mt6789_clocks_8 :: "clock list" where
  "mt6789_clocks_8 = [
     mux_gate_clock MT6789_TOP_AUDIO_SEL ''TOP_AUDIO_SEL'' ClkTopCkGen 0x80 0x84 0x88 0x08 24 2 31 0
       mt6789_TopAudioSelParents,
     mux_gate_clock MT6789_TOP_AUD_INTBUS_SEL ''TOP_AUD_INTBUS_SEL'' ClkTopCkGen 0x90 0x94 0x98 0x08 0 2 7 1
       mt6789_TopAudIntbusSelParents,
     mux_gate_clock MT6789_TOP_PWRAP_ULPOSC_SEL ''TOP_PWRAP_ULPOSC_SEL'' ClkTopCkGen 0x90 0x94 0x98 0x08 8 3
       15 2 mt6789_TopPwrapUlposcSelParents,
     mux_gate_clock MT6789_TOP_ATB_SEL ''TOP_ATB_SEL'' ClkTopCkGen 0x90 0x94 0x98 0x08 16 2 23 3
       mt6789_TopAtbSelParents,
     mux_clock MT6789_TOP_SSPM_SEL ''TOP_SSPM_SEL'' ClkTopCkGen 0x90 0x94 0x98 0x08 24 3 0 4
       mt6789_TopSspmSelParents,
     mux_gate_clock MT6789_TOP_SCAM_SEL ''TOP_SCAM_SEL'' ClkTopCkGen 0xA0 0xA4 0xA8 0x08 8 1 15 6
       mt6789_TopScamSelParents,
     mux_gate_clock MT6789_TOP_DISP_PWM_SEL ''TOP_DISP_PWM_SEL'' ClkTopCkGen 0xA0 0xA4 0xA8 0x08 16 3 23 7
       mt6789_TopDispPwmSelParents]"

definition mt6789_clocks_9 :: "clock list" where
  "mt6789_clocks_9 = [
     mux_gate_clock MT6789_TOP_USB_SEL ''TOP_USB_SEL'' ClkTopCkGen 0xA0 0xA4 0xA8 0x08 24 2 31 8
       mt6789_TopUsbSelParents,
     mux_gate_clock MT6789_TOP_I2C_SEL ''TOP_I2C_SEL'' ClkTopCkGen 0xB0 0xB4 0xB8 0x08 8 2 15 10
       mt6789_TopI2cSelParents,
     mux_gate_clock MT6789_TOP_SENINF_SEL ''TOP_SENINF_SEL'' ClkTopCkGen 0xB0 0xB4 0xB8 0x08 16 3 23 11
       mt6789_TopSeninfSelParents,
     mux_gate_clock MT6789_TOP_SENINF1_SEL ''TOP_SENINF1_SEL'' ClkTopCkGen 0xB0 0xB4 0xB8 0x08 24 3 31 12
       mt6789_TopSeninf1SelParents,
     mux_gate_clock MT6789_TOP_SENINF2_SEL ''TOP_SENINF2_SEL'' ClkTopCkGen 0xC0 0xC4 0xC8 0x08 0 3 7 13
       mt6789_TopSeninf2SelParents,
     mux_gate_clock MT6789_TOP_SENINF3_SEL ''TOP_SENINF3_SEL'' ClkTopCkGen 0xC0 0xC4 0xC8 0x08 8 3 15 14
       mt6789_TopSeninf3SelParents,
     mux_clock MT6789_TOP_DXCC_SEL ''TOP_DXCC_SEL'' ClkTopCkGen 0xC0 0xC4 0xC8 0x08 24 2 0 16
       mt6789_TopDxccSelParents]"

definition mt6789_clocks_10 :: "clock list" where
  "mt6789_clocks_10 = [
     mux_gate_clock MT6789_TOP_AUD_ENGEN1_SEL ''TOP_AUD_ENGEN1_SEL'' ClkTopCkGen 0xD0 0xD4 0xD8 0x08 0 2 7 17
       mt6789_TopAudEngen1SelParents,
     mux_gate_clock MT6789_TOP_AUD_ENGEN2_SEL ''TOP_AUD_ENGEN2_SEL'' ClkTopCkGen 0xD0 0xD4 0xD8 0x08 8 2 15
       18 mt6789_TopAudEngen2SelParents,
     mux_gate_clock MT6789_TOP_AES_UFSFDE_SEL ''TOP_AES_UFSFDE_SEL'' ClkTopCkGen 0xD0 0xD4 0xD8 0x08 16 3 23
       19 mt6789_TopAesUfsfdeSelParents,
     mux_gate_clock MT6789_TOP_UFS_SEL ''TOP_UFS_SEL'' ClkTopCkGen 0xD0 0xD4 0xD8 0x08 24 3 31 20
       mt6789_TopUfsSelParents,
     mux_gate_clock MT6789_TOP_AUD_1_SEL ''TOP_AUD_1_SEL'' ClkTopCkGen 0xE0 0xE4 0xE8 0x08 0 1 7 21
       mt6789_TopAud1SelParents,
     mux_gate_clock MT6789_TOP_AUD_2_SEL ''TOP_AUD_2_SEL'' ClkTopCkGen 0xE0 0xE4 0xE8 0x08 8 1 15 22
       mt6789_TopAud2SelParents,
     mux_gate_clock MT6789_TOP_DPMAIF_MAIN_SEL ''TOP_DPMAIF_MAIN_SEL'' ClkTopCkGen 0xE0 0xE4 0xE8 0x08 24 3
       31 24 mt6789_TopDpmaifMainSelParents]"

definition mt6789_clocks_11 :: "clock list" where
  "mt6789_clocks_11 = [
     mux_gate_clock MT6789_TOP_VENC_SEL ''TOP_VENC_SEL'' ClkTopCkGen 0xF0 0xF4 0xF8 0x08 0 4 7 25
       mt6789_TopVencSelParents,
     mux_gate_clock MT6789_TOP_VDEC_SEL ''TOP_VDEC_SEL'' ClkTopCkGen 0xF0 0xF4 0xF8 0x08 8 4 15 26
       mt6789_TopVdecSelParents,
     mux_gate_clock MT6789_TOP_CAMTM_SEL ''TOP_CAMTM_SEL'' ClkTopCkGen 0xF0 0xF4 0xF8 0x08 16 2 23 27
       mt6789_TopCamtmSelParents,
     mux_gate_clock MT6789_TOP_PWM_SEL ''TOP_PWM_SEL'' ClkTopCkGen 0xF0 0xF4 0xF8 0x08 24 1 31 28
       mt6789_TopPwmSelParents,
     mux_gate_clock MT6789_TOP_AUDIO_H_SEL ''TOP_AUDIO_H_SEL'' ClkTopCkGen 0x100 0x104 0x108 0x8 0 2 7 29
       mt6789_TopAudioHSelParents,
     mux_clock MT6789_TOP_SPMI_MST_SEL ''TOP_SPMI_MST_SEL'' ClkTopCkGen 0x100 0x104 0x108 0x8 8 3 0 30
       mt6789_TopSpmiMstSelParents,
     mux_clock MT6789_TOP_DVFSRC_SEL ''TOP_DVFSRC_SEL'' ClkTopCkGen 0x100 0x104 0x108 0xC 16 1 0 0
       mt6789_TopDvfsrcSelParents,
     mux_gate_clock MT6789_TOP_AES_MSDCFDE_SEL ''TOP_AES_MSDCFDE_SEL'' ClkTopCkGen 0x100 0x104 0x108 0xC 24 3
       31 1 mt6789_TopAesMsdcfdeSelParents]"

definition mt6789_clocks_12 :: "clock list" where
  "mt6789_clocks_12 = [
     mux_clock MT6789_TOP_MCUPM_SEL ''TOP_MCUPM_SEL'' ClkTopCkGen 0x110 0x114 0x118 0xC 0 2 0 2
       mt6789_TopMcupmSelParents,
     mux_gate_clock MT6789_TOP_DSI_OCC_SEL ''TOP_DSI_OCC_SEL'' ClkTopCkGen 0x110 0x114 0x118 0xC 16 2 23 4
       mt6789_TopDsiOccSelParents]"

definition mt6789_clocks_13 :: "clock list" where
  "mt6789_clocks_13 = [
     factor_clock MT6789_TOP_MFGPLL ''TOP_MFGPLL'' MT6789_APMIXED_MFGPLL 1 1,
     factor_clock MT6789_TOP_MAINPLL_D4 ''TOP_MAINPLL_D4'' MT6789_APMIXED_MAINPLL 1 4,
     factor_clock MT6789_TOP_MAINPLL_D4_D2 ''TOP_MAINPLL_D4_D2'' MT6789_APMIXED_MAINPLL 1 8,
     factor_clock MT6789_TOP_MAINPLL_D4_D4 ''TOP_MAINPLL_D4_D4'' MT6789_APMIXED_MAINPLL 1 16,
     factor_clock MT6789_TOP_MAINPLL_D4_D8 ''TOP_MAINPLL_D4_D8'' MT6789_APMIXED_MAINPLL 1 32,
     factor_clock MT6789_TOP_MAINPLL_D4_D16 ''TOP_MAINPLL_D4_D16'' MT6789_APMIXED_MAINPLL 1 64,
     factor_clock MT6789_TOP_MAINPLL_D5 ''TOP_MAINPLL_D5'' MT6789_APMIXED_MAINPLL 1 5,
     factor_clock MT6789_TOP_MAINPLL_D5_D2 ''TOP_MAINPLL_D5_D2'' MT6789_APMIXED_MAINPLL 1 10,
     factor_clock MT6789_TOP_MAINPLL_D5_D4 ''TOP_MAINPLL_D5_D4'' MT6789_APMIXED_MAINPLL 1 20,
     factor_clock MT6789_TOP_MAINPLL_D5_D8 ''TOP_MAINPLL_D5_D8'' MT6789_APMIXED_MAINPLL 1 40,
     factor_clock MT6789_TOP_MAINPLL_D6 ''TOP_MAINPLL_D6'' MT6789_APMIXED_MAINPLL 1 6,
     factor_clock MT6789_TOP_MAINPLL_D6_D2 ''TOP_MAINPLL_D6_D2'' MT6789_APMIXED_MAINPLL 1 12,
     factor_clock MT6789_TOP_MAINPLL_D6_D4 ''TOP_MAINPLL_D6_D4'' MT6789_APMIXED_MAINPLL 1 24]"

definition mt6789_clocks_14 :: "clock list" where
  "mt6789_clocks_14 = [
     factor_clock MT6789_TOP_MAINPLL_D7 ''TOP_MAINPLL_D7'' MT6789_APMIXED_MAINPLL 1 7,
     factor_clock MT6789_TOP_MAINPLL_D7_D2 ''TOP_MAINPLL_D7_D2'' MT6789_APMIXED_MAINPLL 1 14,
     factor_clock MT6789_TOP_MAINPLL_D7_D4 ''TOP_MAINPLL_D7_D4'' MT6789_APMIXED_MAINPLL 1 28,
     factor_clock MT6789_TOP_MAINPLL_D7_D8 ''TOP_MAINPLL_D7_D8'' MT6789_APMIXED_MAINPLL 1 56,
     factor_clock MT6789_TOP_MAINPLL_D9 ''TOP_MAINPLL_D9'' MT6789_APMIXED_MAINPLL 1 9,
     factor_clock MT6789_TOP_UNIVPLL_D4 ''TOP_UNIVPLL_D4'' MT6789_APMIXED_UNIVPLL 1 4,
     factor_clock MT6789_TOP_UNIVPLL_D4_D2 ''TOP_UNIVPLL_D4_D2'' MT6789_APMIXED_UNIVPLL 1 8,
     factor_clock MT6789_TOP_UNIVPLL_D4_D4 ''TOP_UNIVPLL_D4_D4'' MT6789_APMIXED_UNIVPLL 1 16,
     factor_clock MT6789_TOP_UNIVPLL_D4_D8 ''TOP_UNIVPLL_D4_D8'' MT6789_APMIXED_UNIVPLL 1 32,
     factor_clock MT6789_TOP_UNIVPLL_D5 ''TOP_UNIVPLL_D5'' MT6789_APMIXED_UNIVPLL 1 5,
     factor_clock MT6789_TOP_UNIVPLL_D5_D2 ''TOP_UNIVPLL_D5_D2'' MT6789_APMIXED_UNIVPLL 1 10,
     factor_clock MT6789_TOP_UNIVPLL_D5_D4 ''TOP_UNIVPLL_D5_D4'' MT6789_APMIXED_UNIVPLL 1 20,
     factor_clock MT6789_TOP_UNIVPLL_D6 ''TOP_UNIVPLL_D6'' MT6789_APMIXED_UNIVPLL 1 6]"

definition mt6789_clocks_15 :: "clock list" where
  "mt6789_clocks_15 = [
     factor_clock MT6789_TOP_UNIVPLL_D6_D2 ''TOP_UNIVPLL_D6_D2'' MT6789_APMIXED_UNIVPLL 1 12,
     factor_clock MT6789_TOP_UNIVPLL_D6_D4 ''TOP_UNIVPLL_D6_D4'' MT6789_APMIXED_UNIVPLL 1 24,
     factor_clock MT6789_TOP_UNIVPLL_D6_D8 ''TOP_UNIVPLL_D6_D8'' MT6789_APMIXED_UNIVPLL 1 48,
     factor_clock MT6789_TOP_UNIVPLL_D6_D16 ''TOP_UNIVPLL_D6_D16'' MT6789_APMIXED_UNIVPLL 1 96,
     factor_clock MT6789_TOP_UNIVPLL_D7 ''TOP_UNIVPLL_D7'' MT6789_APMIXED_UNIVPLL 1 7,
     factor_clock MT6789_TOP_UNIVPLL_192M_D2 ''TOP_UNIVPLL_192M_D2'' MT6789_APMIXED_UNIVPLL 1 26,
     factor_clock MT6789_TOP_UNIVPLL_192M_D4 ''TOP_UNIVPLL_192M_D4'' MT6789_APMIXED_UNIVPLL 1 52,
     factor_clock MT6789_TOP_UNIVPLL_192M_D8 ''TOP_UNIVPLL_192M_D8'' MT6789_APMIXED_UNIVPLL 1 104,
     factor_clock MT6789_TOP_UNIVPLL_192M_D16 ''TOP_UNIVPLL_192M_D16'' MT6789_APMIXED_UNIVPLL 1 208,
     factor_clock MT6789_TOP_UNIVPLL_192M_D32 ''TOP_UNIVPLL_192M_D32'' MT6789_APMIXED_UNIVPLL 1 416,
     factor_clock MT6789_TOP_APLL1 ''TOP_APLL1'' MT6789_APMIXED_APLL1 1 1,
     factor_clock MT6789_TOP_APLL1_D2 ''TOP_APLL1_D2'' MT6789_APMIXED_APLL1 1 2,
     factor_clock MT6789_TOP_APLL1_D4 ''TOP_APLL1_D4'' MT6789_APMIXED_APLL1 1 4]"

definition mt6789_clocks_16 :: "clock list" where
  "mt6789_clocks_16 = [
     factor_clock MT6789_TOP_APLL1_D8 ''TOP_APLL1_D8'' MT6789_APMIXED_APLL1 1 8,
     factor_clock MT6789_TOP_APLL2 ''TOP_APLL2'' MT6789_APMIXED_APLL2 1 1,
     factor_clock MT6789_TOP_APLL2_D2 ''TOP_APLL2_D2'' MT6789_APMIXED_APLL2 1 2,
     factor_clock MT6789_TOP_APLL2_D4 ''TOP_APLL2_D4'' MT6789_APMIXED_APLL2 1 4,
     factor_clock MT6789_TOP_APLL2_D8 ''TOP_APLL2_D8'' MT6789_APMIXED_APLL2 1 8,
     factor_clock MT6789_TOP_MMPLL_D4_D2 ''TOP_MMPLL_D4_D2'' MT6789_APMIXED_MMPLL 1 8,
     factor_clock MT6789_TOP_MMPLL_D5_D2 ''TOP_MMPLL_D5_D2'' MT6789_APMIXED_MMPLL 1 12,
     factor_clock MT6789_TOP_MMPLL_D6 ''TOP_MMPLL_D6'' MT6789_APMIXED_MMPLL 1 6,
     factor_clock MT6789_TOP_MMPLL_D6_D2 ''TOP_MMPLL_D6_D2'' MT6789_APMIXED_MMPLL 1 12,
     factor_clock MT6789_TOP_MMPLL_D7 ''TOP_MMPLL_D7'' MT6789_APMIXED_MMPLL 1 7,
     factor_clock MT6789_TOP_MMPLL_D9 ''TOP_MMPLL_D9'' MT6789_APMIXED_MMPLL 1 9,
     factor_clock MT6789_TOP_NPUPLL ''TOP_NPUPLL'' MT6789_APMIXED_NPUPLL 1 1,
     factor_clock MT6789_TOP_TVDPLL ''TOP_TVDPLL'' MT6789_APMIXED_TVDPLL 1 1]"

definition mt6789_clocks_17 :: "clock list" where
  "mt6789_clocks_17 = [
     factor_clock MT6789_TOP_MSDCPLL ''TOP_MSDCPLL'' MT6789_APMIXED_MSDCPLL 1 1,
     factor_clock MT6789_TOP_MSDCPLL_D2 ''TOP_MSDCPLL_D2'' MT6789_APMIXED_MSDCPLL 1 2,
     factor_clock MT6789_TOP_MSDCPLL_D4 ''TOP_MSDCPLL_D4'' MT6789_APMIXED_MSDCPLL 1 4,
     factor_clock MT6789_TOP_CLKRTC ''TOP_CLKRTC'' MT6789_TOP_CLK32K 1 1,
     factor_clock MT6789_TOP_TCK_26M_MX9 ''TOP_TCK_26M_MX9'' MT6789_TOP_CLK26M 1 1,
     factor_clock MT6789_TOP_F26M_CK_D2 ''TOP_F26M_CK_D2'' MT6789_TOP_CLK26M 1 2,
     factor_clock MT6789_TOP_OSC_D2 ''TOP_OSC_D2'' MT6789_TOP_ULPOSC 1 2,
     factor_clock MT6789_TOP_OSC_D4 ''TOP_OSC_D4'' MT6789_TOP_ULPOSC 1 4,
     factor_clock MT6789_TOP_OSC_D8 ''TOP_OSC_D8'' MT6789_TOP_ULPOSC 1 8,
     factor_clock MT6789_TOP_OSC_D16 ''TOP_OSC_D16'' MT6789_TOP_ULPOSC 1 16,
     factor_clock MT6789_TOP_OSC_D10 ''TOP_OSC_D10'' MT6789_TOP_ULPOSC 1 10,
     factor_clock MT6789_TOP_OSC_D20 ''TOP_OSC_D20'' MT6789_TOP_ULPOSC 1 20,
     factor_clock MT6789_TOP_F26M ''TOP_F26M'' MT6789_TOP_CLK26M 1 1]"

definition mt6789_clocks_18 :: "clock list" where
  "mt6789_clocks_18 = [
     factor_clock MT6789_TOP_AXI ''TOP_AXI'' MT6789_TOP_AXI_SEL 1 1,
     factor_clock MT6789_TOP_DISP ''TOP_DISP'' MT6789_TOP_DISP_SEL 1 1,
     factor_clock MT6789_TOP_MDP ''TOP_MDP'' MT6789_TOP_MDP_SEL 1 1,
     factor_clock MT6789_TOP_IMG1 ''TOP_IMG1'' MT6789_TOP_IMG1_SEL 1 1,
     factor_clock MT6789_TOP_IPE ''TOP_IPE'' MT6789_TOP_IPE_SEL 1 1,
     factor_clock MT6789_TOP_CAM ''TOP_CAM'' MT6789_TOP_CAM_SEL 1 1,
     factor_clock MT6789_TOP_MFG_REF ''TOP_MFG_REF'' MT6789_TOP_MFG_REF_SEL 1 1,
     factor_clock MT6789_TOP_MFG_PLL ''TOP_MFG_PLL'' MT6789_TOP_MFG_PLL_SEL 1 1,
     factor_clock MT6789_TOP_UART ''TOP_UART'' MT6789_TOP_UART_SEL 1 1,
     factor_clock MT6789_TOP_SPI ''TOP_SPI'' MT6789_TOP_SPI_SEL 1 1,
     factor_clock MT6789_TOP_MSDC50_0 ''TOP_MSDC50_0'' MT6789_TOP_MSDC50_0_SEL 1 1,
     factor_clock MT6789_TOP_MSDC30_1 ''TOP_MSDC30_1'' MT6789_TOP_MSDC30_1_SEL 1 1,
     factor_clock MT6789_TOP_AUDIO ''TOP_AUDIO'' MT6789_TOP_AUDIO_SEL 1 1]"

definition mt6789_clocks_19 :: "clock list" where
  "mt6789_clocks_19 = [
     factor_clock MT6789_TOP_PWRAP_ULPOSC ''TOP_PWRAP_ULPOSC'' MT6789_TOP_PWRAP_ULPOSC_SEL 1 1,
     factor_clock MT6789_TOP_DISP_PWM ''TOP_DISP_PWM'' MT6789_TOP_DISP_PWM_SEL 1 1,
     factor_clock MT6789_TOP_USB ''TOP_USB'' MT6789_TOP_USB_SEL 1 1,
     factor_clock MT6789_TOP_I2C ''TOP_I2C'' MT6789_TOP_I2C_SEL 1 1,
     factor_clock MT6789_TOP_AUD_ENGEN1 ''TOP_AUD_ENGEN1'' MT6789_TOP_AUD_ENGEN1_SEL 1 1,
     factor_clock MT6789_TOP_AUD_ENGEN2 ''TOP_AUD_ENGEN2'' MT6789_TOP_AUD_ENGEN2_SEL 1 1,
     factor_clock MT6789_TOP_AES_UFSFDE ''TOP_AES_UFSFDE'' MT6789_TOP_AES_UFSFDE_SEL 1 1,
     factor_clock MT6789_TOP_UFS ''TOP_UFS'' MT6789_TOP_UFS_SEL 1 1,
     factor_clock MT6789_TOP_DPMAIF_MAIN ''TOP_DPMAIF_MAIN'' MT6789_TOP_DPMAIF_MAIN_SEL 1 1,
     factor_clock MT6789_TOP_VENC ''TOP_VENC'' MT6789_TOP_VENC_SEL 1 1,
     factor_clock MT6789_TOP_VDEC ''TOP_VDEC'' MT6789_TOP_VDEC_SEL 1 1,
     factor_clock MT6789_TOP_CAMTM ''TOP_CAMTM'' MT6789_TOP_CAMTM_SEL 1 1,
     factor_clock MT6789_TOP_PWM ''TOP_PWM'' MT6789_TOP_PWM_SEL 1 1]"

definition mt6789_clocks_20 :: "clock list" where
  "mt6789_clocks_20 = [
     factor_clock MT6789_TOP_AUDIO_H ''TOP_AUDIO_H'' MT6789_TOP_AUDIO_H_SEL 1 1,
     factor_clock MT6789_TOP_DSI_OCC ''TOP_DSI_OCC'' MT6789_TOP_DSI_OCC_SEL 1 1,
     factor_clock MT6789_TOP_I2C_PSEUDO ''TOP_I2C_PSEUDO'' MT6789_IFRAO_I2C_PSEUDO 1 1,
     factor_clock MT6789_TOP_APDMA ''TOP_APDMA'' MT6789_IFRAO_APDMA_PSEUDO 1 1]"

definition mt6789_clocks_21 :: "clock list" where
  "mt6789_clocks_21 = [
     gate_clock MT6789_IFRAO_PMIC_TMR ''IFRAO_PMIC_TMR'' ClkInfraCfgAo 0x80 0x84 0x90 0 False
       MT6789_TOP_PWRAP_ULPOSC,
     gate_clock MT6789_IFRAO_PMIC_AP ''IFRAO_PMIC_AP'' ClkInfraCfgAo 0x80 0x84 0x90 1 False
       MT6789_TOP_PWRAP_ULPOSC,
     gate_clock MT6789_IFRAO_GCE ''IFRAO_GCE'' ClkInfraCfgAo 0x80 0x84 0x90 8 False MT6789_TOP_AXI,
     gate_clock MT6789_IFRAO_GCE2 ''IFRAO_GCE2'' ClkInfraCfgAo 0x80 0x84 0x90 9 False MT6789_TOP_AXI,
     gate_clock MT6789_IFRAO_THERM ''IFRAO_THERM'' ClkInfraCfgAo 0x80 0x84 0x90 10 False MT6789_TOP_AXI,
     gate_clock MT6789_IFRAO_I2C_PSEUDO ''IFRAO_I2C_PSEUDO'' ClkInfraCfgAo 0x80 0x84 0x90 11 False
       MT6789_TOP_I2C,
     gate_clock MT6789_IFRAO_APDMA_PSEUDO ''IFRAO_APDMA_PSEUDO'' ClkInfraCfgAo 0x80 0x84 0x90 12 False
       MT6789_TOP_AXI,
     gate_clock MT6789_IFRAO_PWM_HCLK ''IFRAO_PWM_HCLK'' ClkInfraCfgAo 0x80 0x84 0x90 15 False MT6789_TOP_AXI,
     gate_clock MT6789_IFRAO_PWM1 ''IFRAO_PWM1'' ClkInfraCfgAo 0x80 0x84 0x90 16 False MT6789_TOP_PWM,
     gate_clock MT6789_IFRAO_PWM2 ''IFRAO_PWM2'' ClkInfraCfgAo 0x80 0x84 0x90 17 False MT6789_TOP_PWM]"

definition mt6789_clocks_22 :: "clock list" where
  "mt6789_clocks_22 = [
     gate_clock MT6789_IFRAO_PWM3 ''IFRAO_PWM3'' ClkInfraCfgAo 0x80 0x84 0x90 18 False MT6789_TOP_PWM,
     gate_clock MT6789_IFRAO_PWM4 ''IFRAO_PWM4'' ClkInfraCfgAo 0x80 0x84 0x90 19 False MT6789_TOP_PWM,
     gate_clock MT6789_IFRAO_PWM ''IFRAO_PWM'' ClkInfraCfgAo 0x80 0x84 0x90 21 False MT6789_TOP_PWM,
     gate_clock MT6789_IFRAO_UART0 ''IFRAO_UART0'' ClkInfraCfgAo 0x80 0x84 0x90 22 False MT6789_TOP_UART,
     gate_clock MT6789_IFRAO_UART1 ''IFRAO_UART1'' ClkInfraCfgAo 0x80 0x84 0x90 23 False MT6789_TOP_UART,
     gate_clock MT6789_IFRAO_UART2 ''IFRAO_UART2'' ClkInfraCfgAo 0x80 0x84 0x90 24 False MT6789_TOP_UART,
     gate_clock MT6789_IFRAO_UART3 ''IFRAO_UART3'' ClkInfraCfgAo 0x80 0x84 0x90 25 False MT6789_TOP_UART,
     gate_clock MT6789_IFRAO_GCE_26M ''IFRAO_GCE_26M'' ClkInfraCfgAo 0x80 0x84 0x90 27 False MT6789_TOP_AXI,
     gate_clock MT6789_IFRAO_BTIF ''IFRAO_BTIF'' ClkInfraCfgAo 0x80 0x84 0x90 31 False MT6789_TOP_AXI,
     gate_clock MT6789_IFRAO_SPI0 ''IFRAO_SPI0'' ClkInfraCfgAo 0x88 0x8C 0x94 1 False MT6789_TOP_SPI]"

definition mt6789_clocks_23 :: "clock list" where
  "mt6789_clocks_23 = [
     gate_clock MT6789_IFRAO_MSDC0 ''IFRAO_MSDC0'' ClkInfraCfgAo 0x88 0x8C 0x94 2 False MT6789_TOP_AXI,
     gate_clock MT6789_IFRAO_MSDC1 ''IFRAO_MSDC1'' ClkInfraCfgAo 0x88 0x8C 0x94 4 False MT6789_TOP_AXI,
     gate_clock MT6789_IFRAO_MSDC0_SRC ''IFRAO_MSDC0_SRC'' ClkInfraCfgAo 0x88 0x8C 0x94 6 False
       MT6789_TOP_MSDC50_0,
     gate_clock MT6789_IFRAO_AUXADC ''IFRAO_AUXADC'' ClkInfraCfgAo 0x88 0x8C 0x94 10 False MT6789_TOP_F26M,
     gate_clock MT6789_IFRAO_CPUM ''IFRAO_CPUM'' ClkInfraCfgAo 0x88 0x8C 0x94 11 False MT6789_TOP_AXI,
     gate_clock MT6789_IFRAO_CCIF1_AP ''IFRAO_CCIF1_AP'' ClkInfraCfgAo 0x88 0x8C 0x94 12 False MT6789_TOP_AXI,
     gate_clock MT6789_IFRAO_CCIF1_MD ''IFRAO_CCIF1_MD'' ClkInfraCfgAo 0x88 0x8C 0x94 13 False MT6789_TOP_AXI,
     gate_clock MT6789_IFRAO_AUXADC_MD ''IFRAO_AUXADC_MD'' ClkInfraCfgAo 0x88 0x8C 0x94 14 False
       MT6789_TOP_F26M,
     gate_clock MT6789_IFRAO_MSDC1_SRC ''IFRAO_MSDC1_SRC'' ClkInfraCfgAo 0x88 0x8C 0x94 16 False
       MT6789_TOP_MSDC30_1,
     gate_clock MT6789_IFRAO_MSDC0_AES ''IFRAO_MSDC0_AES'' ClkInfraCfgAo 0x88 0x8C 0x94 17 False
       MT6789_TOP_MSDC50_0]"

definition mt6789_clocks_24 :: "clock list" where
  "mt6789_clocks_24 = [
     gate_clock MT6789_IFRAO_CCIF_AP ''IFRAO_CCIF_AP'' ClkInfraCfgAo 0x88 0x8C 0x94 23 False MT6789_TOP_AXI,
     gate_clock MT6789_IFRAO_DEBUGSYS ''IFRAO_DEBUGSYS'' ClkInfraCfgAo 0x88 0x8C 0x94 24 False MT6789_TOP_AXI,
     gate_clock MT6789_IFRAO_AUDIO ''IFRAO_AUDIO'' ClkInfraCfgAo 0x88 0x8C 0x94 25 False MT6789_TOP_AXI,
     gate_clock MT6789_IFRAO_CCIF_MD ''IFRAO_CCIF_MD'' ClkInfraCfgAo 0x88 0x8C 0x94 26 False MT6789_TOP_AXI,
     gate_clock MT6789_IFRAO_SSUSB ''IFRAO_SSUSB'' ClkInfraCfgAo 0xA4 0xA8 0xAC 1 False MT6789_TOP_USB,
     gate_clock MT6789_IFRAO_CLDMA_BCLK ''IFRAO_CLDMA_BCLK'' ClkInfraCfgAo 0xA4 0xA8 0xAC 3 False
       MT6789_TOP_AXI,
     gate_clock MT6789_IFRAO_AUDIO_26M_BCLK ''IFRAO_AUDIO_26M_BCLK'' ClkInfraCfgAo 0xA4 0xA8 0xAC 4 False
       MT6789_TOP_F26M,
     gate_clock MT6789_IFRAO_SPI1 ''IFRAO_SPI1'' ClkInfraCfgAo 0xA4 0xA8 0xAC 6 False MT6789_TOP_SPI,
     gate_clock MT6789_IFRAO_SPI2 ''IFRAO_SPI2'' ClkInfraCfgAo 0xA4 0xA8 0xAC 9 False MT6789_TOP_SPI,
     gate_clock MT6789_IFRAO_SPI3 ''IFRAO_SPI3'' ClkInfraCfgAo 0xA4 0xA8 0xAC 10 False MT6789_TOP_SPI]"

definition mt6789_clocks_25 :: "clock list" where
  "mt6789_clocks_25 = [
     gate_clock MT6789_IFRAO_UNIPRO_SYSCLK ''IFRAO_UNIPRO_SYSCLK'' ClkInfraCfgAo 0xA4 0xA8 0xAC 11 False
       MT6789_TOP_UFS,
     gate_clock MT6789_IFRAO_UNIPRO_TICK ''IFRAO_UNIPRO_TICK'' ClkInfraCfgAo 0xA4 0xA8 0xAC 12 False
       MT6789_TOP_F26M,
     gate_clock MT6789_IFRAO_UFS_SAP_BCLK ''IFRAO_UFS_SAP_BCLK'' ClkInfraCfgAo 0xA4 0xA8 0xAC 13 False
       MT6789_TOP_F26M,
     gate_clock MT6789_IFRAO_SPI4 ''IFRAO_SPI4'' ClkInfraCfgAo 0xA4 0xA8 0xAC 25 False MT6789_TOP_SPI,
     gate_clock MT6789_IFRAO_SPI5 ''IFRAO_SPI5'' ClkInfraCfgAo 0xA4 0xA8 0xAC 26 False MT6789_TOP_SPI,
     gate_clock MT6789_IFRAO_CQ_DMA ''IFRAO_CQ_DMA'' ClkInfraCfgAo 0xA4 0xA8 0xAC 27 False MT6789_TOP_AXI,
     gate_clock MT6789_IFRAO_UFS ''IFRAO_UFS'' ClkInfraCfgAo 0xA4 0xA8 0xAC 28 False MT6789_TOP_UFS,
     gate_clock MT6789_IFRAO_UFS_AES ''IFRAO_UFS_AES'' ClkInfraCfgAo 0xA4 0xA8 0xAC 29 False
       MT6789_TOP_AES_UFSFDE,
     gate_clock MT6789_IFRAO_AP_MSDC0 ''IFRAO_AP_MSDC0'' ClkInfraCfgAo 0xC0 0xC4 0xC8 7 False
       MT6789_TOP_MSDC50_0,
     gate_clock MT6789_IFRAO_MD_MSDC0 ''IFRAO_MD_MSDC0'' ClkInfraCfgAo 0xC0 0xC4 0xC8 8 False
       MT6789_TOP_MSDC50_0]"

definition mt6789_clocks_26 :: "clock list" where
  "mt6789_clocks_26 = [
     gate_clock MT6789_IFRAO_CCIF5_MD ''IFRAO_CCIF5_MD'' ClkInfraCfgAo 0xC0 0xC4 0xC8 10 False MT6789_TOP_AXI,
     gate_clock MT6789_IFRAO_CCIF2_AP ''IFRAO_CCIF2_AP'' ClkInfraCfgAo 0xC0 0xC4 0xC8 16 False MT6789_TOP_AXI,
     gate_clock MT6789_IFRAO_CCIF2_MD ''IFRAO_CCIF2_MD'' ClkInfraCfgAo 0xC0 0xC4 0xC8 17 False MT6789_TOP_AXI,
     gate_clock MT6789_IFRAO_FBIST2FPC ''IFRAO_FBIST2FPC'' ClkInfraCfgAo 0xC0 0xC4 0xC8 24 False
       MT6789_TOP_MSDC50_0,
     gate_clock MT6789_IFRAO_DPMAIF_MAIN ''IFRAO_DPMAIF_MAIN'' ClkInfraCfgAo 0xC0 0xC4 0xC8 26 False
       MT6789_TOP_DPMAIF_MAIN,
     gate_clock MT6789_IFRAO_CCIF4_AP ''IFRAO_CCIF4_AP'' ClkInfraCfgAo 0xC0 0xC4 0xC8 28 False MT6789_TOP_AXI,
     gate_clock MT6789_IFRAO_CCIF4_MD ''IFRAO_CCIF4_MD'' ClkInfraCfgAo 0xC0 0xC4 0xC8 29 False MT6789_TOP_AXI,
     gate_clock MT6789_IFRAO_SPI6_CK ''IFRAO_SPI6_CK'' ClkInfraCfgAo 0xC0 0xC4 0xC8 30 False MT6789_TOP_SPI,
     gate_clock MT6789_IFRAO_SPI7_CK ''IFRAO_SPI7_CK'' ClkInfraCfgAo 0xC0 0xC4 0xC8 31 False MT6789_TOP_SPI,
     gate_clock MT6789_IFRAO_66MP_BUS_MCLK_CKP ''IFRAO_66MP_BUS_MCLK_CKP'' ClkInfraCfgAo 0xE0 0xE4 0xE8 2
       False MT6789_TOP_AXI]"

definition mt6789_clocks_27 :: "clock list" where
  "mt6789_clocks_27 = [
     gate_clock MT6789_IFRAO_AP_DMA ''IFRAO_AP_DMA'' ClkInfraCfgAo 0xD0 0xD4 0xD8 31 False MT6789_TOP_APDMA]"

definition mt6789_gClocks :: "clock list" where
  "mt6789_gClocks = mt6789_clocks_1 @ mt6789_clocks_2 @ mt6789_clocks_3 @ mt6789_clocks_4 @ mt6789_clocks_5 @
     mt6789_clocks_6 @ mt6789_clocks_7 @ mt6789_clocks_8 @ mt6789_clocks_9 @ mt6789_clocks_10 @
     mt6789_clocks_11 @ mt6789_clocks_12 @ mt6789_clocks_13 @ mt6789_clocks_14 @ mt6789_clocks_15 @
     mt6789_clocks_16 @ mt6789_clocks_17 @ mt6789_clocks_18 @ mt6789_clocks_19 @ mt6789_clocks_20 @
     mt6789_clocks_21 @ mt6789_clocks_22 @ mt6789_clocks_23 @ mt6789_clocks_24 @ mt6789_clocks_25 @
     mt6789_clocks_26 @ mt6789_clocks_27"

section \<open>Checking the rows\<close>

text \<open>The length of the longest chain of parents from a clock.\<close>

definition mt6789_depth :: "nat \<Rightarrow> nat" where
  "mt6789_depth n = (if n < 148 then (if n < 65 then (if n < 27 then (if n < 3 then 0 else (if n < 17 then 1 else 3)) else
     (if n < 41 then (if n < 28 then 5 else 3) else (if n < 42 then 2 else 3))) else (if n < 125 then
     (if n < 67 then 2 else (if n < 70 then 3 else 2)) else (if n < 142 then (if n < 135 then 1 else 4)
     else (if n < 143 then 6 else 4)))) else (if n < 192 then (if n < 165 then (if n < 149 then 3 else
     (if n < 163 then 4 else 6)) else (if n < 188 then (if n < 167 then 4 else 5) else (if n < 189 then
     2 else 5))) else (if n < 202 then (if n < 193 then 2 else (if n < 201 then 5 else 2)) else (if n <
     208 then (if n < 206 then 5 else 2) else (if n < 225 then 5 else 7)))))"

lemma mt6789_clocks_1_ok: "list_all (row_ok mt6789_depth 226) mt6789_clocks_1"
  by (simp add: mt6789_clocks_1_def row_ok_simps mt6789_depth_def )

lemma mt6789_clocks_2_ok: "list_all (row_ok mt6789_depth 226) mt6789_clocks_2"
  by (simp add: mt6789_clocks_2_def row_ok_simps mt6789_depth_def )

lemma mt6789_clocks_3_ok: "list_all (row_ok mt6789_depth 226) mt6789_clocks_3"
  by (simp add: mt6789_clocks_3_def row_ok_simps mt6789_depth_def )

lemma mt6789_clocks_4_ok: "list_all (row_ok mt6789_depth 226) mt6789_clocks_4"
  by (simp add: mt6789_clocks_4_def row_ok_simps mt6789_depth_def )

lemma mt6789_clocks_5_ok: "list_all (row_ok mt6789_depth 226) mt6789_clocks_5"
  by (simp add: mt6789_clocks_5_def row_ok_simps mt6789_depth_def mt6789_TopAxiSelParents_def mt6789_TopBusAximemSelParents_def mt6789_TopDispSelParents_def mt6789_TopImg1SelParents_def mt6789_TopIpeSelParents_def mt6789_TopMdpSelParents_def mt6789_TopScpSelParents_def mt6789_TopSpmSelParents_def)

lemma mt6789_clocks_6_ok: "list_all (row_ok mt6789_depth 226) mt6789_clocks_6"
  by (simp add: mt6789_clocks_6_def row_ok_simps mt6789_depth_def mt6789_TopCamSelParents_def mt6789_TopCamtg2SelParents_def mt6789_TopCamtg3SelParents_def mt6789_TopCamtg4SelParents_def mt6789_TopCamtgSelParents_def mt6789_TopMfgPllSelParents_def mt6789_TopMfgRefSelParents_def)

lemma mt6789_clocks_7_ok: "list_all (row_ok mt6789_depth 226) mt6789_clocks_7"
  by (simp add: mt6789_clocks_7_def row_ok_simps mt6789_depth_def mt6789_TopCamtg5SelParents_def mt6789_TopCamtg6SelParents_def mt6789_TopMsdc30SelParents_def mt6789_TopMsdc50HclkSelParents_def mt6789_TopMsdc50SelParents_def mt6789_TopSpiSelParents_def mt6789_TopUartSelParents_def)

lemma mt6789_clocks_8_ok: "list_all (row_ok mt6789_depth 226) mt6789_clocks_8"
  by (simp add: mt6789_clocks_8_def row_ok_simps mt6789_depth_def mt6789_TopAtbSelParents_def mt6789_TopAudIntbusSelParents_def mt6789_TopAudioSelParents_def mt6789_TopDispPwmSelParents_def mt6789_TopPwrapUlposcSelParents_def mt6789_TopScamSelParents_def mt6789_TopSspmSelParents_def)

lemma mt6789_clocks_9_ok: "list_all (row_ok mt6789_depth 226) mt6789_clocks_9"
  by (simp add: mt6789_clocks_9_def row_ok_simps mt6789_depth_def mt6789_TopDxccSelParents_def mt6789_TopI2cSelParents_def mt6789_TopSeninf1SelParents_def mt6789_TopSeninf2SelParents_def mt6789_TopSeninf3SelParents_def mt6789_TopSeninfSelParents_def mt6789_TopUsbSelParents_def)

lemma mt6789_clocks_10_ok: "list_all (row_ok mt6789_depth 226) mt6789_clocks_10"
  by (simp add: mt6789_clocks_10_def row_ok_simps mt6789_depth_def mt6789_TopAesUfsfdeSelParents_def mt6789_TopAud1SelParents_def mt6789_TopAud2SelParents_def mt6789_TopAudEngen1SelParents_def mt6789_TopAudEngen2SelParents_def mt6789_TopDpmaifMainSelParents_def mt6789_TopUfsSelParents_def)

lemma mt6789_clocks_11_ok: "list_all (row_ok mt6789_depth 226) mt6789_clocks_11"
  by (simp add: mt6789_clocks_11_def row_ok_simps mt6789_depth_def mt6789_TopAesMsdcfdeSelParents_def mt6789_TopAudioHSelParents_def mt6789_TopCamtmSelParents_def mt6789_TopDvfsrcSelParents_def mt6789_TopPwmSelParents_def mt6789_TopSpmiMstSelParents_def mt6789_TopVdecSelParents_def mt6789_TopVencSelParents_def)

lemma mt6789_clocks_12_ok: "list_all (row_ok mt6789_depth 226) mt6789_clocks_12"
  by (simp add: mt6789_clocks_12_def row_ok_simps mt6789_depth_def mt6789_TopDsiOccSelParents_def mt6789_TopMcupmSelParents_def)

lemma mt6789_clocks_13_ok: "list_all (row_ok mt6789_depth 226) mt6789_clocks_13"
  by (simp add: mt6789_clocks_13_def row_ok_simps mt6789_depth_def )

lemma mt6789_clocks_14_ok: "list_all (row_ok mt6789_depth 226) mt6789_clocks_14"
  by (simp add: mt6789_clocks_14_def row_ok_simps mt6789_depth_def )

lemma mt6789_clocks_15_ok: "list_all (row_ok mt6789_depth 226) mt6789_clocks_15"
  by (simp add: mt6789_clocks_15_def row_ok_simps mt6789_depth_def )

lemma mt6789_clocks_16_ok: "list_all (row_ok mt6789_depth 226) mt6789_clocks_16"
  by (simp add: mt6789_clocks_16_def row_ok_simps mt6789_depth_def )

lemma mt6789_clocks_17_ok: "list_all (row_ok mt6789_depth 226) mt6789_clocks_17"
  by (simp add: mt6789_clocks_17_def row_ok_simps mt6789_depth_def )

lemma mt6789_clocks_18_ok: "list_all (row_ok mt6789_depth 226) mt6789_clocks_18"
  by (simp add: mt6789_clocks_18_def row_ok_simps mt6789_depth_def )

lemma mt6789_clocks_19_ok: "list_all (row_ok mt6789_depth 226) mt6789_clocks_19"
  by (simp add: mt6789_clocks_19_def row_ok_simps mt6789_depth_def )

lemma mt6789_clocks_20_ok: "list_all (row_ok mt6789_depth 226) mt6789_clocks_20"
  by (simp add: mt6789_clocks_20_def row_ok_simps mt6789_depth_def )

lemma mt6789_clocks_21_ok: "list_all (row_ok mt6789_depth 226) mt6789_clocks_21"
  by (simp add: mt6789_clocks_21_def row_ok_simps mt6789_depth_def )

lemma mt6789_clocks_22_ok: "list_all (row_ok mt6789_depth 226) mt6789_clocks_22"
  by (simp add: mt6789_clocks_22_def row_ok_simps mt6789_depth_def )

lemma mt6789_clocks_23_ok: "list_all (row_ok mt6789_depth 226) mt6789_clocks_23"
  by (simp add: mt6789_clocks_23_def row_ok_simps mt6789_depth_def )

lemma mt6789_clocks_24_ok: "list_all (row_ok mt6789_depth 226) mt6789_clocks_24"
  by (simp add: mt6789_clocks_24_def row_ok_simps mt6789_depth_def )

lemma mt6789_clocks_25_ok: "list_all (row_ok mt6789_depth 226) mt6789_clocks_25"
  by (simp add: mt6789_clocks_25_def row_ok_simps mt6789_depth_def )

lemma mt6789_clocks_26_ok: "list_all (row_ok mt6789_depth 226) mt6789_clocks_26"
  by (simp add: mt6789_clocks_26_def row_ok_simps mt6789_depth_def )

lemma mt6789_clocks_27_ok: "list_all (row_ok mt6789_depth 226) mt6789_clocks_27"
  by (simp add: mt6789_clocks_27_def row_ok_simps mt6789_depth_def )

lemma mt6789_ids: "map ClockId mt6789_gClocks = MT6789_CLOCK_ID"
  by (simp add: mt6789_gClocks_def MT6789_CLOCK_ID_def row_ids
      mt6789_clocks_1_def mt6789_clocks_2_def mt6789_clocks_3_def mt6789_clocks_4_def mt6789_clocks_5_def
      mt6789_clocks_6_def mt6789_clocks_7_def mt6789_clocks_8_def mt6789_clocks_9_def
      mt6789_clocks_10_def mt6789_clocks_11_def mt6789_clocks_12_def mt6789_clocks_13_def
      mt6789_clocks_14_def mt6789_clocks_15_def mt6789_clocks_16_def mt6789_clocks_17_def
      mt6789_clocks_18_def mt6789_clocks_19_def mt6789_clocks_20_def mt6789_clocks_21_def
      mt6789_clocks_22_def mt6789_clocks_23_def mt6789_clocks_24_def mt6789_clocks_25_def
      mt6789_clocks_26_def mt6789_clocks_27_def)

lemma mt6789_enum: "map unat MT6789_CLOCK_ID = [0..<226]"
  by (simp add: MT6789_CLOCK_ID_def upt_rec)

lemma mt6789_rows: "list_all (row_ok mt6789_depth 226) mt6789_gClocks"
  by (simp add: mt6789_gClocks_def mt6789_clocks_1_ok mt6789_clocks_2_ok mt6789_clocks_3_ok mt6789_clocks_4_ok mt6789_clocks_5_ok
      mt6789_clocks_6_ok mt6789_clocks_7_ok mt6789_clocks_8_ok mt6789_clocks_9_ok mt6789_clocks_10_ok
      mt6789_clocks_11_ok mt6789_clocks_12_ok mt6789_clocks_13_ok mt6789_clocks_14_ok
      mt6789_clocks_15_ok mt6789_clocks_16_ok mt6789_clocks_17_ok mt6789_clocks_18_ok
      mt6789_clocks_19_ok mt6789_clocks_20_ok mt6789_clocks_21_ok mt6789_clocks_22_ok
      mt6789_clocks_23_ok mt6789_clocks_24_ok mt6789_clocks_25_ok mt6789_clocks_26_ok
      mt6789_clocks_27_ok)

lemma mt6789_table: "clock_table mt6789_depth 226 mt6789_gClocks"
  using mt6789_ids mt6789_enum mt6789_rows by (simp add: clock_table_def)

end
