(* ===== verification/MtkClockTables.thy ===== *)
theory MtkClockTables
  imports Mt6768Clocks Mt6789Clocks
begin

text \<open>
  The clock driver on the two tables the repository ships: the tables meet the hypotheses of the
  driver's theorems, and two rows that do not describe the hardware they name.
\<close>

lemma table_lookup:
  assumes "clock_table depth n clocks" "c \<in> set clocks"
  shows "ClockGetById clocks (ClockId c) = Some c"
proof -
  obtain d where d: "ClockGetById clocks (ClockId c) = Some d"
    using ClockGetById_known [of "ClockId c" clocks] assms(2) by blast
  have "distinct (map ClockId clocks)"
    using assms(1) by (metis clock_table_def distinct_map distinct_upt)
  then show ?thesis
    using d ClockGetById_SomeD [OF d] assms(2) by (metis distinct_map inj_onD)
qed

lemma lookup_unknown: "i \<notin> ClockId ` set clocks \<Longrightarrow> ClockGetById clocks i = None"
  by (metis ClockGetById_SomeD image_eqI not_None_eq)

text \<open>An operation on a table, for every id.\<close>

lemma table_operations:
  assumes t: "clock_table depth n clocks"
  shows "if unat i < n
    then (\<exists>s w'. ClockSetEnable sv mr clocks i e w = Some (s, w') \<and> clock_status s) \<and>
      (\<exists>b w'. ClockIsEnabled sv mr clocks i (Some b0) w = Some ((EFI_SUCCESS, Some b), w')) \<and>
      (\<exists>s f w'. ClockGetFrequency sv mr clocks i (Some f0) w = Some ((s, Some f), w') \<and> clock_status s)
    else ClockSetEnable sv mr clocks i e w = Some (EFI_INVALID_PARAMETER, w) \<and>
      ClockIsEnabled sv mr clocks i (Some b0) w = Some ((EFI_INVALID_PARAMETER, Some b0), w) \<and>
      ClockGetFrequency sv mr clocks i (Some f0) w = Some ((EFI_INVALID_PARAMETER, Some f0), w)"
proof (cases "unat i < n")
  case True
  then have i: "i \<in> ClockId ` set clocks" using clock_table_ids [OF t] by blast
  note r = clock_table_ranked [OF t]
  show ?thesis
    using True set_enable_returns [OF r i, of sv mr e w] is_enabled_returns [OF r i, of sv mr b0 w]
      get_frequency_returns [OF r i, of sv mr f0 w] by simp
next
  case False
  then have "ClockGetById clocks i = None" using clock_table_ids [OF t] lookup_unknown by blast
  with False show ?thesis
    by (simp add: ClockSetEnable.simps [of sv mr clocks i] ClockIsEnabled.simps [of sv mr clocks i]
        ClockGetFrequency.simps [of sv mr clocks i])
qed

section \<open>Rows that do not fit the driver\<close>

lemma mfg_pll_sel_row:
  "ClockGetById mt6789_gClocks MT6789_TOP_MFG_PLL_SEL = Some (mux_clock MT6789_TOP_MFG_PLL_SEL
     ''TOP_MFG_PLL_SEL'' ClkTopCkGen 0x50 0x54 0x58 (- 1) 18 1 0 (- 1) mt6789_TopMfgPllSelParents)"
proof -
  have "mux_clock MT6789_TOP_MFG_PLL_SEL ''TOP_MFG_PLL_SEL'' ClkTopCkGen 0x50 0x54 0x58 (- 1) 18 1 0 (- 1)
      mt6789_TopMfgPllSelParents \<in> set mt6789_clocks_6"
    by (simp add: mt6789_clocks_6_def)
  then have "mux_clock MT6789_TOP_MFG_PLL_SEL ''TOP_MFG_PLL_SEL'' ClkTopCkGen 0x50 0x54 0x58 (- 1) 18 1 0 (- 1)
      mt6789_TopMfgPllSelParents \<in> set mt6789_gClocks"
    unfolding mt6789_gClocks_def set_append by blast
  from table_lookup [OF mt6789_table this] show ?thesis by (simp add: row_ids)
qed

lemma apll1_row:
  "ClockGetById mt6768_gClocks MT6768_AP_APLL1 = Some (pll_clock MT6768_AP_APLL1 ''AP_APLL1'' ClkApMixed
     0x308 0x318 1 0x800000 0x30C 24 3800000000 1500000000 0x310 0 32 0 0)"
proof -
  have "pll_clock MT6768_AP_APLL1 ''AP_APLL1'' ClkApMixed 0x308 0x318 1 0x800000 0x30C 24 3800000000
      1500000000 0x310 0 32 0 0 \<in> set mt6768_clocks_3"
    by (simp add: mt6768_clocks_3_def)
  then have "pll_clock MT6768_AP_APLL1 ''AP_APLL1'' ClkApMixed 0x308 0x318 1 0x800000 0x30C 24 3800000000
      1500000000 0x310 0 32 0 0 \<in> set mt6768_gClocks"
    unfolding mt6768_gClocks_def set_append by blast
  from table_lookup [OF mt6768_table this] show ?thesis by (simp add: row_ids)
qed

section \<open>Properties\<close>

text \<open>C8. On the clock tables of the MT6768 (215 clocks) and the MT6789 (226 clocks), which are in the order of
  their enumerations with every parent declared, no cycles and every multiplexer field inside its
  register: enabling, querying and computing a frequency return for every clock id of the
  enumeration, with success or, for a multiplexer register with an invalid selection,
  EFI_DEVICE_ERROR; every other id is answered with EFI_INVALID_PARAMETER without touching anything.\<close>
theorem shipped_tables_usable:
  "clock_table mt6768_depth 215 mt6768_gClocks \<and> clock_table mt6789_depth 226 mt6789_gClocks \<and>
   (if unat i < 215
    then (\<exists>s w'. ClockSetEnable sv mr mt6768_gClocks i e w = Some (s, w') \<and> clock_status s) \<and>
      (\<exists>b w'. ClockIsEnabled sv mr mt6768_gClocks i (Some b0) w = Some ((EFI_SUCCESS, Some b), w')) \<and>
      (\<exists>s f w'. ClockGetFrequency sv mr mt6768_gClocks i (Some f0) w = Some ((s, Some f), w') \<and> clock_status s)
    else ClockSetEnable sv mr mt6768_gClocks i e w = Some (EFI_INVALID_PARAMETER, w) \<and>
      ClockIsEnabled sv mr mt6768_gClocks i (Some b0) w = Some ((EFI_INVALID_PARAMETER, Some b0), w) \<and>
      ClockGetFrequency sv mr mt6768_gClocks i (Some f0) w = Some ((EFI_INVALID_PARAMETER, Some f0), w)) \<and>
   (if unat j < 226
    then (\<exists>s w'. ClockSetEnable sv mr mt6789_gClocks j e w = Some (s, w') \<and> clock_status s) \<and>
      (\<exists>b w'. ClockIsEnabled sv mr mt6789_gClocks j (Some b0) w = Some ((EFI_SUCCESS, Some b), w')) \<and>
      (\<exists>s f w'. ClockGetFrequency sv mr mt6789_gClocks j (Some f0) w = Some ((s, Some f), w') \<and> clock_status s)
    else ClockSetEnable sv mr mt6789_gClocks j e w = Some (EFI_INVALID_PARAMETER, w) \<and>
      ClockIsEnabled sv mr mt6789_gClocks j (Some b0) w = Some ((EFI_INVALID_PARAMETER, Some b0), w) \<and>
      ClockGetFrequency sv mr mt6789_gClocks j (Some f0) w = Some ((EFI_INVALID_PARAMETER, Some f0), w))"
  by (intro conjI mt6768_table mt6789_table table_operations [OF mt6768_table] table_operations [OF mt6789_table])

text \<open>C37. Selecting the other parent of TOP_MFG_PLL_SEL on the MT6789: the row gives -1 for the update
  register and the update bit that it does not have, but the driver takes only 0 as absent. After the
  field is set it writes to the address 4 GB less one byte above the controller. The value is
  that of a shift by 255, which C leaves undefined and AArch64 evaluates to bit 31.\<close>
theorem mfg_pll_sel_writes_wild:
  assumes "fst (run_state (MmioRead32 sv (Address (mr ClkTopCkGen) + 0x50)) w) = 0"
  shows "\<exists>w1. ClockSetParent sv mr mt6789_gClocks MT6789_TOP_MFG_PLL_SEL MT6789_TOP_MFGPLL w =
    Some (EFI_SUCCESS, snd (run_state (MmioWrite32 sv (Address (mr ClkTopCkGen) + 0xFFFFFFFF) 0x80000000) w1))"
proof -
  have "ucast (- 1 :: u32) = (mask 32 :: u64)" by (rule bit_word_eqI) (simp add: bit_simps)
  then have u: "ucast (- 1 :: u32) = (0xFFFFFFFF :: u64)" by (simp add: mask_eq_exp_minus_1)
  have "unat (- 1 :: u8) = 255" by (simp add: unsigned_minus_1_eq_mask mask_eq_exp_minus_1)
  then have b: "BIT (- 1) = 0x80000000" by (simp add: BIT_def)
  have g: "GENMASK 0 0 = 1" by (simp add: GENMASK_def)
  have row: "ClockType (mux_clock i n c mo st clr upd sh wi gs us ps) = ClockTypeMux (mux_desc mo st clr upd sh wi gs us ps)"
    "Controller (mux_clock i n c mo st clr upd sh wi gs us ps) = c" for i n c mo st clr upd sh wi gs us ps
    by (simp_all add: mux_clock_def)
  have len: "length mt6789_TopMfgPllSelParents = 2" by (simp add: mt6789_TopMfgPllSelParents_def)
  have ps: "parent_index MT6789_TOP_MFGPLL mt6789_TopMfgPllSelParents 2 0 = Some 1"
    using parent_index_eq [of MT6789_TOP_MFGPLL mt6789_TopMfgPllSelParents 0]
    by (simp add: len) (simp add: mt6789_TopMfgPllSelParents_def)
  show ?thesis
    using assms
    by (simp add: ClockSetParent_def mfg_pll_sel_row row mux_desc_def ps len g ClockRead_def ClockWrite_def Let_def
        split_beta u b) (auto simp: split_beta)
qed

theorem mfg_pll_sel_writes_wild_witness:
  "\<exists>w1. ClockSetParent ex_clk_sv mClockControllersRegions mt6789_gClocks MT6789_TOP_MFG_PLL_SEL
     MT6789_TOP_MFGPLL 0 = Some (EFI_SUCCESS,
       snd (run_state (MmioWrite32 ex_clk_sv (Address (mClockControllersRegions ClkTopCkGen) + 0xFFFFFFFF) 0x80000000) w1))"
  by (rule mfg_pll_sel_writes_wild) (simp add: ex_clk_sv_def)

end
