(* ===== verification/AslUpdate.thy ===== *)
theory AslUpdate
  imports Memory
begin

text \<open>
  Updates of ACPI tables, \<open>SiliciumPkg/Library/AslUpdateLib/AslUpdateLib.c\<close>.

  A table is memory at an address: its signature at offset 0, its length at offset 4, the
  checksum at offset 9, the OEM table id at offset 16 and the AML code from offset 36 on, as the
  ACPI header is laid out. The ACPI protocols, the pool allocator and the string and sum
  functions of the base library are parameters (\<open>acpi_services\<close>); a NULL pointer is 0 where the
  pointer is an address and None where it is an OUT parameter. \<open>asserts_enabled\<close> is the build: whether
  a failing \<open>ASSERT\<close> stops the firmware (DEBUG) or does nothing (RELEASE).
\<close>

section \<open>State and services\<close>

record acpi_globals =
  mAcpiSdtProtocol :: u64
  mAcpiTableProtocol :: u64
  mRegisteredAcpiSdt :: u64

record 'w acpi_services =
  GetAcpiTable :: "nat \<Rightarrow> u64 \<Rightarrow> ('w, efi_status \<times> u64 \<times> u64) state"
  AllocateCopyPool :: "mem \<Rightarrow> u32 \<Rightarrow> u64 \<Rightarrow> ('w, u64 \<times> mem) state"
  acpi_FreePool :: "u64 \<Rightarrow> ('w, unit) state"
  UninstallAcpiTable :: "u64 \<Rightarrow> ('w, efi_status) state"
  InstallAcpiTable :: "mem \<Rightarrow> u64 \<Rightarrow> u32 \<Rightarrow> u64 \<Rightarrow> ('w, efi_status \<times> u64) state"
  CalculateSum8 :: "mem \<Rightarrow> u64 \<Rightarrow> u32 \<Rightarrow> u8"
  CompareMem :: "u8 list \<Rightarrow> u8 list \<Rightarrow> int"
  AsciiStrSize :: "mem \<Rightarrow> u64 \<Rightarrow> u64"
  acpi_LocateHandle :: "u64 \<Rightarrow> ('w, efi_status \<times> u64) state"
  HandleProtocol :: "u64 \<Rightarrow> ('w, efi_status \<times> u64) state"
  LocateSdtProtocol :: "('w, efi_status \<times> u64) state"
  LocateTableProtocol :: "('w, efi_status \<times> u64) state"
  acpi_CreateEvent :: "('w, efi_status \<times> u64) state"
  RegisterProtocolNotify :: "u64 \<Rightarrow> ('w, efi_status \<times> u64) state"
  acpi_CloseEvent :: "u64 \<Rightarrow> ('w, unit) state"
  asserts_enabled :: bool

section \<open>Locating tables\<close>

text \<open>The loop over the installed tables, which both searches share: from index \<open>i\<close>, with the old
  content of the OUT parameters. An error other than not-found continues with the next index.\<close>

partial_function (option) table_loop ::
    "'w acpi_services \<Rightarrow> (mem \<Rightarrow> u64 \<Rightarrow> bool) \<Rightarrow> nat \<Rightarrow> u64 \<Rightarrow> u64 \<Rightarrow> mem \<Rightarrow> 'w
      \<Rightarrow> ((efi_status \<times> u64 \<times> u64) \<times> mem \<times> 'w) option" where
  "table_loop sv fits i Table Handle m w =
     (case run_state (GetAcpiTable sv i Handle) w of
        ((s, OrgTable, Handle), w) \<Rightarrow>
          if s = EFI_NOT_FOUND then Some ((EFI_NOT_FOUND, Table, Handle), m, w)
          else if EFI_ERROR s then table_loop sv fits (Suc i) Table Handle m w
          else if \<not> fits m OrgTable then table_loop sv fits (Suc i) Table Handle m w
          else (case run_state (AllocateCopyPool sv m (read32 m (OrgTable + 4)) OrgTable) w of
                  ((p, m), w) \<Rightarrow>
                    if p = 0 then Some ((EFI_OUT_OF_RESOURCES, p, Handle), m, w)
                    else Some ((EFI_SUCCESS, p, Handle), m, w)))"

definition LocateTableBySignature ::
    "'w acpi_services \<Rightarrow> acpi_globals \<Rightarrow> u32 \<Rightarrow> u64 option \<Rightarrow> u64 option \<Rightarrow> mem \<Rightarrow> 'w
      \<Rightarrow> ((efi_status \<times> u64 option \<times> u64 option) \<times> mem \<times> 'w) option" where
  "LocateTableBySignature sv g Signature Table Handle m w =
     (if mAcpiSdtProtocol g = 0 then Some ((EFI_NOT_READY, Table, Handle), m, w)
      else case (Table, Handle) of
        (Some t, Some h) \<Rightarrow>
          map_option (map_prod (\<lambda>(s, t, h). (s, Some t, Some h)) id)
            (table_loop sv (\<lambda>m p. read32 m p = Signature) 0 t h m w)
      | _ \<Rightarrow> Some ((EFI_INVALID_PARAMETER, Table, Handle), m, w))"

definition LocateTableByOemTableId ::
    "'w acpi_services \<Rightarrow> acpi_globals \<Rightarrow> u8 list option \<Rightarrow> u8 \<Rightarrow> u64 option \<Rightarrow> u64 option \<Rightarrow> mem \<Rightarrow> 'w
      \<Rightarrow> ((efi_status \<times> u64 option \<times> u64 option) \<times> mem \<times> 'w) option" where
  "LocateTableByOemTableId sv g TableId TableIdSize Table Handle m w =
     (if mAcpiSdtProtocol g = 0 then Some ((EFI_NOT_READY, Table, Handle), m, w)
      else if TableIdSize > 8 then Some ((EFI_INVALID_PARAMETER, Table, Handle), m, w)
      else case (TableId, Table, Handle) of
        (Some ident, Some t, Some h) \<Rightarrow>
          map_option (map_prod (\<lambda>(s, t, h). (s, Some t, Some h)) id)
            (table_loop sv
              (\<lambda>m p. CompareMem sv (read_bytes m (p + 16) (unat TableIdSize)) (take (unat TableIdSize) ident) = 0)
              0 t h m w)
      | _ \<Rightarrow> Some ((EFI_INVALID_PARAMETER, Table, Handle), m, w))"

section \<open>Changing a named value\<close>

abbreviation AML_NAME_OP :: u8 where "AML_NAME_OP \<equiv> 0x08"
abbreviation AML_BYTE_PREFIX :: u8 where "AML_BYTE_PREFIX \<equiv> 0x0A"
abbreviation AML_WORD_PREFIX :: u8 where "AML_WORD_PREFIX \<equiv> 0x0B"
abbreviation AML_DWORD_PREFIX :: u8 where "AML_DWORD_PREFIX \<equiv> 0x0C"
abbreviation AML_STRING_PREFIX :: u8 where "AML_STRING_PREFIX \<equiv> 0x0D"
abbreviation AML_QWORD_PREFIX :: u8 where "AML_QWORD_PREFIX \<equiv> 0x0E"

definition GetAslNameDataSize ::
    "'w acpi_services \<Rightarrow> mem \<Rightarrow> u64 \<Rightarrow> u64 \<Rightarrow> efi_status \<times> u64" where
  "GetAslNameDataSize sv m Current DataSize =
     (let DataOp = m (Current + 5) in
      if DataOp = AML_STRING_PREFIX then (EFI_SUCCESS, AsciiStrSize sv m (Current + 6))
      else if DataOp = AML_BYTE_PREFIX then (EFI_SUCCESS, 1)
      else if DataOp = AML_WORD_PREFIX then (EFI_SUCCESS, 2)
      else if DataOp = AML_DWORD_PREFIX then (EFI_SUCCESS, 4)
      else if DataOp = AML_QWORD_PREFIX then (EFI_SUCCESS, 8)
      else (EFI_UNSUPPORTED, DataSize))"

function name_loop ::
    "'w acpi_services \<Rightarrow> mem \<Rightarrow> u32 \<Rightarrow> u64 \<Rightarrow> u64 \<Rightarrow> u64 \<Rightarrow> u64 \<Rightarrow> efi_status \<times> mem" where
  "name_loop sv m NameSignature Buffer Length TableEnd Current =
     (if Current < TableEnd - 5 then
        if m Current \<noteq> AML_NAME_OP
        then name_loop sv m NameSignature Buffer Length TableEnd (Current + 1)
        else if read32 m (Current + 1) \<noteq> NameSignature
        then name_loop sv m NameSignature Buffer Length TableEnd (Current + 1)
        else (case GetAslNameDataSize sv m Current 0 of
                (s, OrigDataSize) \<Rightarrow>
                  if EFI_ERROR s then (s, m)
                  else if Length > OrigDataSize then (EFI_BUFFER_TOO_SMALL, m)
                  else (EFI_SUCCESS, write_bytes m (Current + 6) (read_bytes m Buffer (unat Length))))
      else (EFI_NOT_FOUND, m))"
  by pat_completeness auto

lemma name_loop_step: "Current < (e :: u64) \<Longrightarrow> unat e - unat (Current + 1) < unat e - unat Current"
proof -
  assume "Current < e"
  then have lt: "unat Current < unat e" by (simp add: word_less_nat_alt)
  then have "unat (Current + 1) = unat Current + 1"
    using unat_add_below [of Current 1 e] by simp
  then show ?thesis using lt by linarith
qed

termination name_loop
  by (relation "measure (\<lambda>(sv, m, n, b, l, e, c). unat (e - 5) - unat c)") (auto intro: name_loop_step)

declare name_loop.simps [simp del]

definition EFI_ACPI_DSDT_SIGNATURE :: u32 where "EFI_ACPI_DSDT_SIGNATURE = 0x54445344"
definition EFI_ACPI_SSDT_SIGNATURE :: u32 where "EFI_ACPI_SSDT_SIGNATURE = 0x54445353"

definition AslUpdateName ::
    "'w acpi_services \<Rightarrow> u64 \<Rightarrow> u32 \<Rightarrow> u64 \<Rightarrow> u64 \<Rightarrow> mem \<Rightarrow> efi_status \<times> mem" where
  "AslUpdateName sv Table NameSignature Buffer Length m =
     (if Table = 0 \<or> Buffer = 0 \<or> Length = 0 then (EFI_INVALID_PARAMETER, m)
      else if read32 m Table \<noteq> EFI_ACPI_DSDT_SIGNATURE \<and> read32 m Table \<noteq> EFI_ACPI_SSDT_SIGNATURE
      then (EFI_UNSUPPORTED, m)
      else name_loop sv m NameSignature Buffer Length (Table + ucast (read32 m (Table + 4))) (Table + 36))"

section \<open>Reinstalling a table\<close>

text \<open>The handle is cleared before the installation gets it to write the new one. A failing
  installation stops a build with assertions; a build without them frees the table and returns
  the error with what the handle then is.\<close>

definition ReinstallTable ::
    "'w acpi_services \<Rightarrow> acpi_globals \<Rightarrow> u64 \<Rightarrow> u64 option \<Rightarrow> mem \<Rightarrow> 'w
      \<Rightarrow> halt + (efi_status \<times> u64 option \<times> mem) \<times> 'w" where
  "ReinstallTable sv g Table TableHandle m w =
     (if mAcpiTableProtocol g = 0 then Inr ((EFI_NOT_READY, TableHandle, m), w)
      else if Table = 0 \<or> TableHandle = None then Inr ((EFI_INVALID_PARAMETER, TableHandle, m), w)
      else
        let m = m(Table + 9 := 0);
            m = m(Table + 9 := 0 - CalculateSum8 sv m Table (read32 m (Table + 4)));
            (s, w) = run_state (UninstallAcpiTable sv (the TableHandle)) w
        in if EFI_ERROR s
           then Inr ((s, TableHandle, m), snd (run_state (acpi_FreePool sv Table) w))
           else
             (let TableHandle = 0 in
              case run_state (InstallAcpiTable sv m Table (read32 m (Table + 4)) TableHandle) w of
                ((s, TableHandle), w) \<Rightarrow>
                  if asserts_enabled sv \<and> EFI_ERROR s then Inl ASSERT_FAILED
                  else Inr ((s, Some TableHandle, m), snd (run_state (acpi_FreePool sv Table) w))))"

section \<open>Locating the protocols\<close>

definition AcpiCallback :: "'w acpi_services \<Rightarrow> u64 \<Rightarrow> acpi_globals \<Rightarrow> ('w, acpi_globals) state" where
  "AcpiCallback sv Event g = do {
     (s, h) \<leftarrow> acpi_LocateHandle sv (mRegisteredAcpiSdt g);
     g \<leftarrow> (if EFI_ERROR s then State_Monad.return g
       else do {
         (s, p) \<leftarrow> HandleProtocol sv h;
         let g = g\<lparr> mAcpiSdtProtocol := p \<rparr>;
         if EFI_ERROR s then State_Monad.return g
         else do {
           (s, p) \<leftarrow> LocateTableProtocol sv;
           State_Monad.return (g\<lparr> mAcpiTableProtocol := p \<rparr>) } });
     _ \<leftarrow> acpi_CloseEvent sv Event;
     State_Monad.return g }"

definition RegisterAcpiProtocolNotify ::
    "'w acpi_services \<Rightarrow> acpi_globals \<Rightarrow> ('w, efi_status \<times> acpi_globals) state" where
  "RegisterAcpiProtocolNotify sv g = do {
     (s, CallbackEvent) \<leftarrow> acpi_CreateEvent sv;
     if EFI_ERROR s then State_Monad.return (EFI_SUCCESS, g)
     else do {
       (s, r) \<leftarrow> RegisterProtocolNotify sv CallbackEvent;
       let g = g\<lparr> mRegisteredAcpiSdt := r \<rparr>;
       if EFI_ERROR s then do {
         _ \<leftarrow> acpi_CloseEvent sv CallbackEvent;
         State_Monad.return (EFI_SUCCESS, g) }
       else State_Monad.return (EFI_SUCCESS, g) } }"

definition LocateAcpiProtocols ::
    "'w acpi_services \<Rightarrow> acpi_globals \<Rightarrow> ('w, efi_status \<times> acpi_globals) state" where
  "LocateAcpiProtocols sv g = do {
     (s, p) \<leftarrow> LocateSdtProtocol sv;
     let g = g\<lparr> mAcpiSdtProtocol := p \<rparr>;
     if EFI_ERROR s then RegisterAcpiProtocolNotify sv g
     else do {
       (s, p) \<leftarrow> LocateTableProtocol sv;
       State_Monad.return (EFI_SUCCESS, g\<lparr> mAcpiTableProtocol := p \<rparr>) } }"

section \<open>The search as a find over offsets\<close>

definition table_fits :: "mem \<Rightarrow> u64 \<Rightarrow> bool" where
  "table_fits m T \<longleftrightarrow> 36 \<le> unat (read32 m (T + 4)) \<and> unat T + unat (read32 m (T + 4)) < 2 ^ 64"

definition table_length :: "mem \<Rightarrow> u64 \<Rightarrow> nat" where
  "table_length m T = unat (read32 m (T + 4))"

text \<open>A name operator with the signature at an offset of the table.\<close>

definition names_at :: "mem \<Rightarrow> u64 \<Rightarrow> u32 \<Rightarrow> nat \<Rightarrow> bool" where
  "names_at m T sig k \<longleftrightarrow> m (T + of_nat k) = AML_NAME_OP \<and> read32 m (T + of_nat k + 1) = sig"

text \<open>What happens at the offset found.\<close>

definition overwrite_value ::
    "'w acpi_services \<Rightarrow> mem \<Rightarrow> u64 \<Rightarrow> u64 \<Rightarrow> u64 \<Rightarrow> efi_status \<times> mem" where
  "overwrite_value sv m Current Buffer Length =
     (case GetAslNameDataSize sv m Current 0 of
        (s, OrigDataSize) \<Rightarrow>
          if EFI_ERROR s then (s, m)
          else if Length > OrigDataSize then (EFI_BUFFER_TOO_SMALL, m)
          else (EFI_SUCCESS, write_bytes m (Current + 6) (read_bytes m Buffer (unat Length))))"

lemma unat_offset: "unat T + k < 2 ^ 64 \<Longrightarrow> unat (T + of_nat k :: u64) = unat T + k"
  by (subst unat_add_nowrap) (simp_all add: unat_of_nat)

lemma name_loop_find:
  assumes fit: "unat T + n < 2 ^ 64" "36 \<le> n" and k: "k \<le> n - 5"
  shows "name_loop sv m sig B L (T + of_nat n) (T + of_nat k) =
    (case List.find (names_at m T sig) [k..<n - 5] of
       None \<Rightarrow> (EFI_NOT_FOUND, m)
     | Some j \<Rightarrow> overwrite_value sv m (T + of_nat j) B L)"
  using k
proof (induction "n - 5 - k" arbitrary: k)
  case 0
  then have "k = n - 5" by simp
  moreover have "(of_nat n :: u64) - 5 = of_nat (n - 5)" using fit(2) by (simp add: of_nat_diff)
  ultimately have e: "T + of_nat n - 5 = T + of_nat k" by (metis add_diff_eq)
  have "\<not> T + of_nat k < T + of_nat n - 5" by (simp only: e less_irrefl not_False_eq_True)
  then show ?case using \<open>k = n - 5\<close> by (subst name_loop.simps) (simp del: of_nat_diff)
next
  case (Suc d)
  then have lt: "k < n - 5" by simp
  have e: "T + of_nat n - 5 = T + of_nat (n - 5)" using fit(2) by (simp add: of_nat_diff)
  have less: "T + of_nat k < T + of_nat n - 5"
    unfolding e using fit lt by (simp add: word_less_nat_alt unat_offset del: of_nat_diff)
  have nx: "T + of_nat k + 1 = T + of_nat (Suc k)" by simp
  have IH: "name_loop sv m sig B L (T + of_nat n) (T + of_nat k + 1) =
    (case List.find (names_at m T sig) [Suc k..<n - 5] of
       None \<Rightarrow> (EFI_NOT_FOUND, m)
     | Some j \<Rightarrow> overwrite_value sv m (T + of_nat j) B L)"
    unfolding nx using Suc.hyps lt by (intro Suc.hyps(1)) auto
  show ?case
    using less IH lt
    by (subst name_loop.simps) (simp add: upt_conv_Cons names_at_def overwrite_value_def)
qed

lemma update_name_find:
  assumes "table_fits m T" "T \<noteq> 0" "B \<noteq> 0" "L \<noteq> 0"
    and "read32 m T = EFI_ACPI_DSDT_SIGNATURE \<or> read32 m T = EFI_ACPI_SSDT_SIGNATURE"
  shows "AslUpdateName sv T sig B L m =
    (case List.find (names_at m T sig) [36..<table_length m T - 5] of
       None \<Rightarrow> (EFI_NOT_FOUND, m)
     | Some j \<Rightarrow> overwrite_value sv m (T + of_nat j) B L)"
proof (cases "36 \<le> table_length m T - 5")
  case True
  have l: "ucast (read32 m (T + 4)) = (of_nat (table_length m T) :: u64)"
    by (simp add: table_length_def)
  have "name_loop sv m sig B L (T + of_nat (table_length m T)) (T + of_nat 36) =
    (case List.find (names_at m T sig) [36..<table_length m T - 5] of
       None \<Rightarrow> (EFI_NOT_FOUND, m)
     | Some j \<Rightarrow> overwrite_value sv m (T + of_nat j) B L)"
    using assms(1) True by (intro name_loop_find) (auto simp: table_fits_def table_length_def)
  then show ?thesis
    using assms by (auto simp: AslUpdateName_def l)
next
  case False
  have fit: "36 \<le> table_length m T" "unat T + table_length m T < 2 ^ 64"
    using assms(1) by (auto simp: table_fits_def table_length_def)
  have l: "ucast (read32 m (T + 4)) = (of_nat (table_length m T) :: u64)"
    by (simp add: table_length_def)
  have e: "T + of_nat (table_length m T) - 5 = T + of_nat (table_length m T - 5)"
    using fit(1) by (simp add: of_nat_diff)
  have "\<not> T + of_nat 36 < T + of_nat (table_length m T) - 5"
    unfolding e word_less_nat_alt using fit False by (subst (1 2) unat_offset) auto
  then have "name_loop sv m sig B L (T + of_nat (table_length m T)) (T + 36) = (EFI_NOT_FOUND, m)"
    by (subst name_loop.simps) simp
  then show ?thesis using assms False by (auto simp: AslUpdateName_def l)
qed

section \<open>Sums\<close>

definition byte_sum :: "mem \<Rightarrow> u64 \<Rightarrow> nat \<Rightarrow> u8" where
  "byte_sum m a n = (\<Sum>i<n. m (a + of_nat i))"

lemma byte_sum_upd:
  assumes "k < n" "n \<le> 2 ^ 64"
  shows "byte_sum (m(a + of_nat k := v)) a n = byte_sum m a n - m (a + of_nat k) + v"
proof -
  have inj: "(of_nat i :: u64) = of_nat k \<longleftrightarrow> i = k" if "i < n" for i
  proof -
    have "unat (of_nat i :: u64) = i" "unat (of_nat k :: u64) = k"
      using that assms by (simp_all add: unat_of_nat)
    then show ?thesis by metis
  qed
  have "byte_sum (m(a + of_nat k := v)) a n = (\<Sum>i<n. if i = k then v else m (a + of_nat i))"
    unfolding byte_sum_def by (rule sum.cong) (auto simp: inj)
  also have "\<dots> = v + (\<Sum>i\<in>{..<n} - {k}. m (a + of_nat i))"
    using assms(1) by (subst sum.remove [of _ k]) (auto intro!: sum.cong)
  also have "(\<Sum>i\<in>{..<n} - {k}. m (a + of_nat i)) = byte_sum m a n - m (a + of_nat k)"
    using assms(1) by (simp add: byte_sum_def sum.remove [of "{..<n}" k])
  finally show ?thesis by (simp only: add.commute)
qed

section \<open>Searching the installed tables\<close>

text \<open>The documented behaviour of the table query over a list of installed tables with their
  handles: it answers the table at an index below the length and not-found from there on.\<close>

definition installed :: "'w acpi_services \<Rightarrow> (u64 \<times> u64) list \<Rightarrow> bool" where
  "installed sv ts \<longleftrightarrow> (\<forall>i h w. run_state (GetAcpiTable sv i h) w =
     ((if i < length ts then (EFI_SUCCESS, fst (ts ! i), snd (ts ! i)) else (EFI_NOT_FOUND, 0, h)), w))"

lemma table_loop_find:
  assumes ts: "installed sv ts" and k: "k \<le> length ts"
  shows "\<exists>h'. table_loop sv fits k t h m w =
    (case List.find (\<lambda>(p, _). fits m p) (drop k ts) of
       None \<Rightarrow> Some ((EFI_NOT_FOUND, t, h'), m, w)
     | Some (p, th) \<Rightarrow>
         (case run_state (AllocateCopyPool sv m (read32 m (p + 4)) p) w of
            ((q, m'), w') \<Rightarrow> Some ((if q = 0 then EFI_OUT_OF_RESOURCES else EFI_SUCCESS, q, th), m', w')))"
  using k
proof (induction "length ts - k" arbitrary: k h)
  case 0
  then show ?case
    using ts by (subst table_loop.simps) (simp add: installed_def)
next
  case (Suc n)
  then have lt: "k < length ts" by simp
  obtain p th where p: "ts ! k = (p, th)" by (metis prod.exhaust)
  have d: "drop k ts = (p, th) # drop (Suc k) ts" using lt p by (metis Cons_nth_drop_Suc)
  have q: "run_state (GetAcpiTable sv k h) w = ((EFI_SUCCESS, p, th), w)"
    using ts lt p by (simp add: installed_def)
  show ?case
  proof (cases "fits m p")
    case True
    then show ?thesis by (subst table_loop.simps) (auto simp: q d split: prod.split)
  next
    case False
    have k1: "n = length ts - Suc k" and k2: "Suc k \<le> length ts" using Suc.hyps(2) lt by simp_all
    obtain h' where "table_loop sv fits (Suc k) t th m w =
      (case List.find (\<lambda>(p, _). fits m p) (drop (Suc k) ts) of
         None \<Rightarrow> Some ((EFI_NOT_FOUND, t, h'), m, w)
       | Some (p, th) \<Rightarrow>
           (case run_state (AllocateCopyPool sv m (read32 m (p + 4)) p) w of
              ((q, m'), w') \<Rightarrow> Some ((if q = 0 then EFI_OUT_OF_RESOURCES else EFI_SUCCESS, q, th), m', w')))"
      using Suc.hyps(1) [OF k1 k2, of th] by blast
    then show ?thesis
      using False by (intro exI [of _ h'], subst table_loop.simps) (simp add: q d)
  qed
qed

section \<open>Properties\<close>

text \<open>A memory with a DSDT of 48 bytes at address 0x1000 that names a byte at its end, and services
  for the examples.\<close>

definition ex_table :: mem where
  "ex_table = (\<lambda>_. 0)(0x1000 := 0x44, 0x1001 := 0x53, 0x1002 := 0x44, 0x1003 := 0x54, 0x1004 := 48,
     0x102A := 0x08, 0x102B := 0x53, 0x102C := 0x4F, 0x102D := 0x49, 0x102E := 0x44, 0x102F := 0x0A,
     0x1030 := 0x77, 0x2000 := 0x99)"

definition ex_acpi_sv :: "unit acpi_services" where
  "ex_acpi_sv = \<lparr>
     GetAcpiTable = \<lambda>i h. State (\<lambda>w. ((if i < 1 then (EFI_SUCCESS, 0x1000, 7) else (EFI_NOT_FOUND, 0, h)), w)),
     AllocateCopyPool = \<lambda>m n p. State (\<lambda>w. ((0x8000, m), w)),
     acpi_FreePool = \<lambda>p. State (\<lambda>w. ((), w)),
     UninstallAcpiTable = \<lambda>h. State (\<lambda>w. (EFI_SUCCESS, w)),
     InstallAcpiTable = \<lambda>m p n h. State (\<lambda>w. ((EFI_SUCCESS, 8), w)),
     CalculateSum8 = \<lambda>m p n. byte_sum m p (unat n),
     CompareMem = \<lambda>a b. if a = b then 0 else 1,
     AsciiStrSize = \<lambda>m p. 1,
     acpi_LocateHandle = \<lambda>r. State (\<lambda>w. ((EFI_SUCCESS, 1), w)),
     HandleProtocol = \<lambda>h. State (\<lambda>w. ((EFI_SUCCESS, 1), w)),
     LocateSdtProtocol = State (\<lambda>w. ((EFI_SUCCESS, 1), w)),
     LocateTableProtocol = State (\<lambda>w. ((EFI_SUCCESS, 1), w)),
     acpi_CreateEvent = State (\<lambda>w. ((EFI_SUCCESS, 1), w)),
     RegisterProtocolNotify = \<lambda>e. State (\<lambda>w. ((EFI_SUCCESS, 1), w)),
     acpi_CloseEvent = \<lambda>e. State (\<lambda>w. ((), w)),
     asserts_enabled = True \<rparr>"

lemma ex_table_values:
  "read32 ex_table 0x1000 = EFI_ACPI_DSDT_SIGNATURE" "read32 ex_table 0x1004 = 48" "table_length ex_table 0x1000 = 48"
  by (simp_all add: ex_table_def read32_def EFI_ACPI_DSDT_SIGNATURE_def table_length_def)

lemma ex_table_bytes: "ex_table 0x102F = AML_BYTE_PREFIX" "ex_table 0x2000 = 0x99"
  by (simp_all add: ex_table_def)

lemma ex_table_fits: "table_fits ex_table 0x1000"
  by (simp add: table_fits_def ex_table_values)

text \<open>The write is not held to the table: the value of a name at the end of the table lies behind it.\<close>

lemma asl_update_past_end:
  "AslUpdateName ex_acpi_sv 0x1000 0x44494F53 0x2000 1 ex_table = (EFI_SUCCESS, ex_table(0x1030 := 0x99)) \<and>
   unat (0x1030 :: u64) = unat (0x1000 :: u64) + table_length ex_table 0x1000"
proof -
  have "[36..<table_length ex_table 0x1000 - 5] = [36, 37, 38, 39, 40, 41, 42]"
    by (simp add: ex_table_values upt_rec)
  then have "List.find (names_at ex_table 0x1000 0x44494F53) [36..<table_length ex_table 0x1000 - 5] = Some 42"
    by (simp add: names_at_def ex_table_def read32_def)
  then show ?thesis
    using update_name_find [OF ex_table_fits, of "0x2000" 1 ex_acpi_sv "0x44494F53"]
    by (simp add: ex_table_values overwrite_value_def GetAslNameDataSize_def read_bytes_def ex_table_bytes)
qed

text \<open>C10. AslUpdateName, as a search: in a well-formed DSDT or SSDT it looks for the first offset behind
  the header, at least five bytes before the end, with a name operator and the signature; without one it
  answers EFI_NOT_FOUND; otherwise it answers by the data found there, and on success exactly the
  Length bytes behind the data prefix have become the bytes of the buffer. On every other status
  the memory is unchanged.\<close>
theorem asl_update_name_effect:
  assumes "table_fits m T" and "T \<noteq> 0" and "B \<noteq> 0" and "L \<noteq> 0"
    and "read32 m T = EFI_ACPI_DSDT_SIGNATURE \<or> read32 m T = EFI_ACPI_SSDT_SIGNATURE"
    and "AslUpdateName sv T sig B L m = (s, m')"
  shows "(case List.find (names_at m T sig) [36..<table_length m T - 5] of
       None \<Rightarrow> s = EFI_NOT_FOUND
     | Some j \<Rightarrow>
         s = (if EFI_ERROR (fst (GetAslNameDataSize sv m (T + of_nat j) 0)) then EFI_UNSUPPORTED
              else if L > snd (GetAslNameDataSize sv m (T + of_nat j) 0) then EFI_BUFFER_TOO_SMALL
              else EFI_SUCCESS) \<and>
         (s = EFI_SUCCESS \<longrightarrow>
           (\<forall>i < unat L. m' (T + of_nat j + 6 + of_nat i) = m (B + of_nat i)) \<and>
           (\<forall>x. (\<forall>i < unat L. x \<noteq> T + of_nat j + 6 + of_nat i) \<longrightarrow> m' x = m x))) \<and>
    (s \<noteq> EFI_SUCCESS \<longrightarrow> m' = m)"
proof -
  have len: "length (read_bytes m B (unat L)) = unat L" by (simp add: read_bytes_def)
  have big: "unat L \<le> 2 ^ 64" using unsigned_less [of L, where 'a = nat] by simp
  have un: "EFI_ERROR (fst (GetAslNameDataSize sv m c 0)) \<Longrightarrow> fst (GetAslNameDataSize sv m c 0) = EFI_UNSUPPORTED"
    for c by (auto simp: GetAslNameDataSize_def Let_def split: if_splits)
  have inside: "write_bytes m a (read_bytes m B (unat L)) (a + of_nat i) = m (B + of_nat i)"
    if "i < unat L" for a i
    using that write_bytes_inside [of i "read_bytes m B (unat L)" m a] len big by (simp add: read_bytes_def)
  have outside: "write_bytes m a (read_bytes m B (unat L)) x = m x"
    if "\<forall>i < unat L. x \<noteq> a + of_nat i" for a x
    using that len by (intro write_bytes_outside) simp
  show ?thesis
    using update_name_find [OF assms(1-5), of sv sig] assms(6) un
    by (auto simp: overwrite_value_def inside outside split_beta split: option.splits if_splits)
qed

theorem asl_update_name_effect_witness:
  "\<exists>s m'. AslUpdateName ex_acpi_sv 0x1000 0x11223344 0x2000 1 ex_table = (s, m') \<and> s = EFI_NOT_FOUND \<and> m' = ex_table"
proof -
  obtain s m' where r: "AslUpdateName ex_acpi_sv 0x1000 0x11223344 0x2000 1 ex_table = (s, m')"
    by (metis prod.exhaust)
  have "[36..<table_length ex_table 0x1000 - 5] = [36, 37, 38, 39, 40, 41, 42]"
    by (simp add: ex_table_values upt_rec)
  then have "List.find (names_at ex_table 0x1000 0x11223344) [36..<table_length ex_table 0x1000 - 5] = None"
    by (simp add: names_at_def ex_table_def read32_def)
  then show ?thesis
    using asl_update_name_effect [OF ex_table_fits _ _ _ _ r] r by (simp add: ex_table_values)
qed

text \<open>C9. ReinstallTable hands the firmware a table whose bytes sum to zero: when the protocol is there
  and the removal succeeds, the installation gets a cleared handle and a memory that differs from the
  caller's at most in the checksum byte and in which the table's bytes add up to 0 modulo 256. A
  failing removal is returned with the handle untouched and nothing is installed. A failing
  installation stops a build with assertions; otherwise its status and the handle it left are
  returned. Whenever the function returns, the table's pool has been freed.\<close>
theorem reinstall_checksum:
  assumes "mAcpiTableProtocol g \<noteq> 0" and "T \<noteq> 0" and "table_fits m T"
    and "\<And>m p n. CalculateSum8 sv m p n = byte_sum m p (unat n)"
    and "run_state (UninstallAcpiTable sv h) w = (s, w1)"
  shows "\<exists>m'. byte_sum m' T (table_length m' T) = 0 \<and> (\<forall>x. x \<noteq> T + 9 \<longrightarrow> m' x = m x) \<and>
    ReinstallTable sv g T (Some h) m w =
      (if EFI_ERROR s then Inr ((s, Some h, m'), snd (run_state (acpi_FreePool sv T) w1))
       else case run_state (InstallAcpiTable sv m' T (read32 m (T + 4)) 0) w1 of
         ((s2, h2), w2) \<Rightarrow>
           if asserts_enabled sv \<and> EFI_ERROR s2 then Inl ASSERT_FAILED
           else Inr ((s2, Some h2, m'), snd (run_state (acpi_FreePool sv T) w2)))"
proof -
  let ?m0 = "m(T + 9 := 0)"
  have keep: "read32 (m'(T + 9 := v)) (T + 4) = read32 m' (T + 4)" for m' v
    by (simp add: read32_def add.assoc)
  define m' where "m' = ?m0(T + 9 := 0 - byte_sum ?m0 T (table_length m T))"
  have n: "9 < table_length m T" "table_length m T \<le> 2 ^ 64"
    using assms(3) unsigned_less [of "read32 m (T + 4)", where 'a = nat]
    by (auto simp: table_fits_def table_length_def)
  have "m' = ?m0(T + of_nat 9 := 0 - byte_sum ?m0 T (table_length m T))" by (simp add: m'_def)
  then have sum: "byte_sum m' T (table_length m T) = 0"
    using byte_sum_upd [OF n, of ?m0 T "0 - byte_sum ?m0 T (table_length m T)"] by simp
  have len: "read32 m' (T + 4) = read32 m (T + 4)" unfolding m'_def by (simp only: keep)
  have other: "\<forall>x. x \<noteq> T + 9 \<longrightarrow> m' x = m x" by (simp add: m'_def)
  have m': "?m0(T + 9 := 0 - CalculateSum8 sv ?m0 T (read32 ?m0 (T + 4))) = m'"
    unfolding m'_def assms(4) table_length_def by (simp only: keep)
  have run: "ReinstallTable sv g T (Some h) m w =
      (if EFI_ERROR s then Inr ((s, Some h, m'), snd (run_state (acpi_FreePool sv T) w1))
       else case run_state (InstallAcpiTable sv m' T (read32 m (T + 4)) 0) w1 of
         ((s2, h2), w2) \<Rightarrow>
           if asserts_enabled sv \<and> EFI_ERROR s2 then Inl ASSERT_FAILED
           else Inr ((s2, Some h2, m'), snd (run_state (acpi_FreePool sv T) w2)))"
    using assms(1,2)
    by (simp only: ReinstallTable_def Let_def m' assms(5) len option.sel option.distinct prod.case simp_thms if_False)
  have "byte_sum m' T (table_length m' T) = 0" using sum len by (simp add: table_length_def)
  with other run show ?thesis by blast
qed

text \<open>Services whose installation fails, in a build without assertions.\<close>

definition failing_acpi_sv :: "unit acpi_services" where
  "failing_acpi_sv = ex_acpi_sv\<lparr> InstallAcpiTable := \<lambda>m p n h. State (\<lambda>w. ((EFI_ABORTED, h), w)),
     asserts_enabled := False \<rparr>"

theorem reinstall_checksum_witness:
  "(\<exists>m'. byte_sum m' 0x1000 (table_length m' 0x1000) = 0 \<and>
    ReinstallTable ex_acpi_sv \<lparr> mAcpiSdtProtocol = 1, mAcpiTableProtocol = 1, mRegisteredAcpiSdt = 0 \<rparr> 0x1000 (Some 7)
      ex_table () = Inr ((EFI_SUCCESS, Some 8, m'), ())) \<and>
   (\<exists>m'. ReinstallTable failing_acpi_sv \<lparr> mAcpiSdtProtocol = 1, mAcpiTableProtocol = 1, mRegisteredAcpiSdt = 0 \<rparr>
      0x1000 (Some 7) ex_table () = Inr ((EFI_ABORTED, Some 0, m'), ()))"
proof -
  have sum: "CalculateSum8 ex_acpi_sv m p n = byte_sum m p (unat n)"
    "CalculateSum8 failing_acpi_sv m p n = byte_sum m p (unat n)" for m p n
    by (simp_all add: ex_acpi_sv_def failing_acpi_sv_def)
  have un: "run_state (UninstallAcpiTable ex_acpi_sv 7) () = (EFI_SUCCESS, ())"
    "run_state (UninstallAcpiTable failing_acpi_sv 7) () = (EFI_SUCCESS, ())"
    by (simp_all add: ex_acpi_sv_def failing_acpi_sv_def)
  from reinstall_checksum [OF _ _ ex_table_fits sum(1) un(1),
      of "\<lparr> mAcpiSdtProtocol = 1, mAcpiTableProtocol = 1, mRegisteredAcpiSdt = 0 \<rparr>"]
    reinstall_checksum [OF _ _ ex_table_fits sum(2) un(2),
      of "\<lparr> mAcpiSdtProtocol = 1, mAcpiTableProtocol = 1, mRegisteredAcpiSdt = 0 \<rparr>"]
  show ?thesis by (auto simp: ex_acpi_sv_def failing_acpi_sv_def)
qed

text \<open>C32. The two searches return and find the first installed table that fits (its signature, or the
  given bytes of its OEM table id), copied to a fresh pool whose address and handle they answer;
  without one they answer EFI_NOT_FOUND and leave the table pointer alone.\<close>
theorem locate_table_first:
  assumes "installed sv ts" and "mAcpiSdtProtocol g \<noteq> 0" and "n \<le> 8"
  shows "\<exists>h1 h2.
    LocateTableBySignature sv g sig (Some t) (Some h) m w =
      (case List.find (\<lambda>(p, _). read32 m p = sig) ts of
         None \<Rightarrow> Some ((EFI_NOT_FOUND, Some t, Some h1), m, w)
       | Some (p, th) \<Rightarrow>
           (case run_state (AllocateCopyPool sv m (read32 m (p + 4)) p) w of
              ((q, m'), w') \<Rightarrow>
                Some ((if q = 0 then EFI_OUT_OF_RESOURCES else EFI_SUCCESS, Some q, Some th), m', w'))) \<and>
    LocateTableByOemTableId sv g (Some ident) n (Some t) (Some h) m w =
      (case List.find (\<lambda>(p, _). CompareMem sv (read_bytes m (p + 16) (unat n)) (take (unat n) ident) = 0) ts of
         None \<Rightarrow> Some ((EFI_NOT_FOUND, Some t, Some h2), m, w)
       | Some (p, th) \<Rightarrow>
           (case run_state (AllocateCopyPool sv m (read32 m (p + 4)) p) w of
              ((q, m'), w') \<Rightarrow>
                Some ((if q = 0 then EFI_OUT_OF_RESOURCES else EFI_SUCCESS, Some q, Some th), m', w')))"
proof -
  have n: "\<not> 8 < n" using assms(3) by simp
  obtain h1 where h1: "table_loop sv (\<lambda>m p. read32 m p = sig) 0 t h m w =
      (case List.find (\<lambda>(p, _). read32 m p = sig) ts of
         None \<Rightarrow> Some ((EFI_NOT_FOUND, t, h1), m, w)
       | Some (p, th) \<Rightarrow>
           (case run_state (AllocateCopyPool sv m (read32 m (p + 4)) p) w of
              ((q, m'), w') \<Rightarrow> Some ((if q = 0 then EFI_OUT_OF_RESOURCES else EFI_SUCCESS, q, th), m', w')))"
    using table_loop_find [OF assms(1), of 0 "\<lambda>m p. read32 m p = sig" t h m w] by auto
  let ?f = "\<lambda>m p. CompareMem sv (read_bytes m (p + 16) (unat n)) (take (unat n) ident) = 0"
  obtain h2 where h2: "table_loop sv ?f 0 t h m w =
      (case List.find (\<lambda>(p, _). ?f m p) ts of
         None \<Rightarrow> Some ((EFI_NOT_FOUND, t, h2), m, w)
       | Some (p, th) \<Rightarrow>
           (case run_state (AllocateCopyPool sv m (read32 m (p + 4)) p) w of
              ((q, m'), w') \<Rightarrow> Some ((if q = 0 then EFI_OUT_OF_RESOURCES else EFI_SUCCESS, q, th), m', w')))"
    using table_loop_find [OF assms(1), of 0 ?f t h m w] by auto
  show ?thesis
    using assms(2) n
    by (intro exI [of _ h1] exI [of _ h2])
      (auto simp: LocateTableBySignature_def LocateTableByOemTableId_def h1 h2 split: option.split prod.split)
qed

theorem locate_table_first_witness:
  "LocateTableBySignature ex_acpi_sv \<lparr> mAcpiSdtProtocol = 1, mAcpiTableProtocol = 1, mRegisteredAcpiSdt = 0 \<rparr>
     EFI_ACPI_DSDT_SIGNATURE (Some 0) (Some 0) ex_table () = Some ((EFI_SUCCESS, Some 0x8000, Some 7), ex_table, ())"
proof -
  have "installed ex_acpi_sv [(0x1000, 7)]" by (simp add: installed_def ex_acpi_sv_def)
  from locate_table_first [OF this, of "\<lparr> mAcpiSdtProtocol = 1, mAcpiTableProtocol = 1, mRegisteredAcpiSdt = 0 \<rparr>" 8
      EFI_ACPI_DSDT_SIGNATURE 0 0 ex_table "()" "[]"]
  show ?thesis by (simp add: ex_table_values) (simp add: ex_acpi_sv_def)
qed

end
