(* ===== verification/FrameBuffer.thy ===== *)
theory FrameBuffer
  imports Memory MemoryMap
begin

text \<open>
  The debug console on the display: \<open>SiliciumPkg/Library/FrameBufferSerialPortLib\<close>
  (\<open>FrameBufferSerialPortLib.c\<close>, \<open>FrameBuffer.h\<close>, \<open>Font.h\<close>).

  The memory is the flat memory of \<open>Memory\<close>; a function that draws takes the pixel pointer
  and the memory and returns both. The fixed PCDs with the geometry of the display are the
  record \<open>fb_config\<close>; the arithmetic on them is 32-bit, as in the code, until it is added to
  a pointer. The cursor lives in the last eight bytes of the frame buffer region, so that it
  survives between the boot phases, and is read and written there.

  The loops with an 8-bit counter run at most 255 times: the scale they run to is an 8-bit
  value, the depth in bytes is at most 31. The delay of a new line has no effect here.

  What is shown: exactly which bytes a glyph sets and to what (\<open>draw_glyph_exact\<close>), that the
  console stays in the pixels and the cursor and keeps the cursor valid
  (\<open>console_stays_inside\<close>).
\<close>

section \<open>Geometry and font\<close>

record fb_config =
  FB_WIDTH :: u32
  FB_HEIGHT :: u32
  FB_BPP :: u32

abbreviation FONT_WIDTH :: nat where "FONT_WIDTH \<equiv> 5"
abbreviation FONT_HEIGHT :: nat where "FONT_HEIGHT \<equiv> 16"

definition GlyphFont :: "u64 list" where
  "GlyphFont = [
     0x0000000000000000, 0x0842108000020084, 0x0005294000000000,
     0x15F528000000295F, 0x1C52F88000023E94, 0x088556400004D542,
     0x04528800000B2725, 0x0002108000000000, 0x0421108800821042,
     0x1084108200221108, 0x0957548000000000, 0x3E42000000000084,
     0x0000000000223000, 0x3E00000000000000, 0x0000000000471000,
     0x0884420000008442, 0x2318A88000022A31, 0x08429880000F9084,
     0x1108C5C0000F8444, 0x1C4443E000074610, 0x14A62100000423E9,
     0x26D087E000074610, 0x1E10C5C000074631, 0x088443E000010844,
     0x1D18C5C000074631, 0x3D18C5C000074610, 0x08E2000000471000,
     0x08E2000000223000, 0x0222220000082082, 0x01F00000000003E0,
     0x2082082000008888, 0x1108C5C000020084, 0x2B98C5C0000F05B5,
     0x2318A8800008C63F, 0x1D2949E00007CA52, 0x0210C5C000074421,
     0x252949E00007CA52, 0x1E1087E0000F8421, 0x1E1087E000008421,
     0x0210C5C000074639, 0x3F18C6200008C631, 0x084211C000071084,
     0x1084238000032508, 0x0654C6200008C525, 0x02108420000F8421,
     0x2B5DC6200008C631, 0x2B59CE200008C739, 0x2318C5C000074631,
     0x1F18C5E000008421, 0x2318C5C001075631, 0x1F18C5E00008C525,
     0x1C10C5C000074610, 0x084213E000021084, 0x2318C62000074631,
     0x1518C6200002114A, 0x2B18C620000556B5, 0x08A546200008C54A,
     0x08A5462000021084, 0x088443E0000F8442, 0x0421084E00E10842,
     0x0821042000084108, 0x1084210E00E42108, 0x0008A88000000000,
     0x0000000001F00000, 0x0000010400000000, 0x20E00000000B663E,
     0x22F084200007C631, 0x22E0000000074421, 0x23E84200000F4631,
     0x22E000000007443F, 0x1E21498000010842, 0x22E000001D187A31,
     0x26D084200008C631, 0x0860100000071084, 0x10C020000C94A108,
     0x0A9084200008A4A3, 0x084210C000071084, 0x2AB000000008D6B5,
     0x26D000000008C631, 0x22E0000000074631, 0x22F000000210BE31,
     0x23E0000021087A31, 0x26D0000000008421, 0x22E0000000074506,
     0x04F1080000064842, 0x23100000000B6631, 0x2310000000022951,
     0x23100000000556B5, 0x151000000008A884, 0x231000001D185B31,
     0x11F00000000F8444, 0x0642109801821084, 0x0842108000021084,
     0x3042108300321084, 0x0004D64000000000, 0x0000000000000000]"

section \<open>Drawing\<close>

text \<open>The inner loop of \<open>DrawPixel\<close>, over the bytes of one pixel.\<close>

fun pixel_bytes :: "nat \<Rightarrow> u32 \<Rightarrow> u64 \<times> mem \<Rightarrow> u64 \<times> mem" where
  "pixel_bytes 0 Color (Pixels, m) = (Pixels, m)"
| "pixel_bytes (Suc j) Color (Pixels, m) =
     pixel_bytes j (drop_bit 8 Color) (Pixels + 1, m(Pixels := ucast Color))"

definition DrawPixel :: "fb_config \<Rightarrow> u32 \<Rightarrow> u32 \<Rightarrow> u64 \<times> mem \<Rightarrow> u64 \<times> mem" where
  "DrawPixel fb PixelColor FontScale =
     pixel_bytes (unat (FB_BPP fb)) PixelColor ^^ unat FontScale"

text \<open>The inner loop of \<open>DrawRow\<close>, over the pixels of one row of the glyph.\<close>

fun row_pixels :: "fb_config \<Rightarrow> nat \<Rightarrow> u32 \<Rightarrow> u32 \<Rightarrow> u64 \<times> mem \<Rightarrow> u64 \<times> mem" where
  "row_pixels fb 0 Data FontScale s = s"
| "row_pixels fb (Suc j) Data FontScale s =
     row_pixels fb j (drop_bit 1 Data) FontScale
       (DrawPixel fb (if Data AND 1 \<noteq> 0 then 0xFFFFFFFF else 0x00000000) FontScale s)"

definition DrawRow :: "fb_config \<Rightarrow> u32 \<Rightarrow> u32 \<Rightarrow> u64 \<Rightarrow> u64 \<times> mem \<Rightarrow> u64 \<times> mem" where
  "DrawRow fb RowData FontScale Stride =
     (\<lambda>s. let (Pixels, m) = row_pixels fb FONT_WIDTH RowData FontScale s in (Pixels + Stride, m))
       ^^ unat FontScale"

fun glyph_rows ::
    "fb_config \<Rightarrow> u32 \<Rightarrow> u32 \<Rightarrow> u64 \<Rightarrow> nat list \<Rightarrow> u32 \<Rightarrow> u64 \<times> mem \<Rightarrow> u64 \<times> mem" where
  "glyph_rows fb BottomGlyph FontScale Stride [] RowData s = s"
| "glyph_rows fb BottomGlyph FontScale Stride (Row # Rows) RowData s =
     (let RowData = (if Row = 6 then BottomGlyph else RowData);
          s = DrawRow fb RowData FontScale Stride s
      in glyph_rows fb BottomGlyph FontScale Stride Rows (drop_bit FONT_WIDTH RowData) s)"

definition DrawGlyph :: "fb_config \<Rightarrow> u64 \<Rightarrow> u64 \<Rightarrow> u32 \<Rightarrow> mem \<Rightarrow> mem" where
  "DrawGlyph fb Pixels Glyph FontScale m =
     (let Stride = ucast ((FB_WIDTH fb - of_nat FONT_WIDTH * FontScale) * FB_BPP fb);
          TopGlyph = ucast (drop_bit 32 Glyph);
          BottomGlyph = ucast Glyph
      in snd (glyph_rows fb BottomGlyph FontScale Stride [0..<12] TopGlyph (Pixels, m)))"

section \<open>The cursor\<close>

text \<open>\<open>ZeroMem\<close> of the base library.\<close>

definition ZeroMem :: "u64 \<Rightarrow> nat \<Rightarrow> mem \<Rightarrow> mem" where
  "ZeroMem a n m = (\<lambda>x. if unat (x - a) < n then 0 else m x)"

record fb_position =
  XPos :: u32
  YPos :: u32

definition load_position :: "mem \<Rightarrow> u64 \<Rightarrow> fb_position" where
  "load_position m p = \<lparr> XPos = read32 m p, YPos = read32 m (p + 4) \<rparr>"

definition AdvanceNewLine :: "fb_config \<Rightarrow> u64 \<Rightarrow> u64 \<Rightarrow> fb_position \<Rightarrow> mem \<Rightarrow> mem" where
  "AdvanceNewLine fb FbBase CurrentPosition MaxPosition m =
     (let m = write32 m CurrentPosition 0;
          m = write32 m (CurrentPosition + 4) (read32 m (CurrentPosition + 4) + 1)
      in if read32 m (CurrentPosition + 4) \<ge> YPos MaxPosition
         then let m = ZeroMem FbBase (unat (FB_WIDTH fb * FB_HEIGHT fb * FB_BPP fb)) m;
                  m = write32 m CurrentPosition 0
              in write32 m (CurrentPosition + 4) 0
         else m)"

definition GetFontScale :: "fb_config \<Rightarrow> u8" where
  "GetFontScale fb =
     (let ShorterDimension = (if FB_WIDTH fb < FB_HEIGHT fb then FB_WIDTH fb else FB_HEIGHT fb)
      in if ShorterDimension < 426 then 1 else ucast (ShorterDimension div 426))"

text \<open>The products with the scale are of type \<open>int\<close> in the code and at most 12 * 255.\<close>

definition GetFbPositions :: "fb_config \<Rightarrow> u64 \<Rightarrow> u64 \<Rightarrow> u8 \<Rightarrow> u64 \<times> fb_position" where
  "GetFbPositions fb FbBase FbLength FontScale =
     (FbBase + FbLength - 8,
      \<lparr> XPos = FB_WIDTH fb div of_nat ((FONT_WIDTH + 1) * unat FontScale),
        YPos = FB_HEIGHT fb div of_nat ((FONT_HEIGHT - 4) * unat FontScale) \<rparr>)"

section \<open>Writing characters\<close>

definition WriteFrameBuffer :: "fb_config \<Rightarrow> u64 \<Rightarrow> u64 \<Rightarrow> u8 \<Rightarrow> mem \<Rightarrow> mem" where
  "WriteFrameBuffer fb FbBase FbLength Character m =
     (let GlyphFontScale = GetFontScale fb;
          (CurrentPosition, MaxPosition) = GetFbPositions fb FbBase FbLength GlyphFontScale
      in if Character \<ge> 127 then m
      else if Character < 32
      then if Character = 10 then AdvanceNewLine fb FbBase CurrentPosition MaxPosition m
           else if Character = 13 then write32 m CurrentPosition 0
           else m
      else if read32 m CurrentPosition = 0 \<and> Character = 32 then m
      else
        let Glyph = GlyphFont ! (unat Character - 32);
            GlyphWidth = of_nat ((FONT_WIDTH + 1) * unat GlyphFontScale);
            GlyphHeight = of_nat ((FONT_HEIGHT - 4) * unat GlyphFontScale);
            Pixels = FbBase;
            Pixels = Pixels + ucast (read32 m (CurrentPosition + 4)) * GlyphHeight
              * ucast (FB_WIDTH fb * FB_BPP fb);
            Pixels = Pixels + ucast (read32 m CurrentPosition) * GlyphWidth * ucast (FB_BPP fb);
            m = DrawGlyph fb Pixels Glyph (ucast GlyphFontScale) m;
            m = write32 m CurrentPosition (read32 m CurrentPosition + 1)
        in if read32 m CurrentPosition \<ge> XPos MaxPosition
           then AdvanceNewLine fb FbBase CurrentPosition MaxPosition m
           else m)"

text \<open>The two lookups of a region that has two spellings; the local descriptor is not
  initialised (\<open>FbRegion\<close>), a lookup that fails leaves it alone.\<close>

definition locate_either ::
    "(string \<Rightarrow> string \<Rightarrow> int) \<Rightarrow> region list \<Rightarrow> string \<Rightarrow> string \<Rightarrow> region \<Rightarrow> region" where
  "locate_either stricmp mm n1 n2 r =
     the (snd (LocateMemoryRegionByName stricmp mm (Some n2)
       (snd (LocateMemoryRegionByName stricmp mm (Some n1) (Some r)))))"

definition GetFrameBufferMemory ::
    "(string \<Rightarrow> string \<Rightarrow> int) \<Rightarrow> region list \<Rightarrow> region \<Rightarrow> (u64 \<times> u64) option" where
  "GetFrameBufferMemory stricmp mm FbRegion =
     (let FbRegion = locate_either stricmp mm ''Display Reserved'' ''Display_Reserved'' FbRegion
      in if Address FbRegion = 0 \<and> Length FbRegion = 0 then None
         else Some (Address FbRegion, Length FbRegion))"

text \<open>The processor state the console touches besides the memory: the interrupt enable and
  the ranges written back from the data cache.\<close>

record console =
  c_mem :: mem
  c_irq :: bool
  c_flushed :: "(u64 \<times> u64) list"

definition SerialPortWrite ::
    "fb_config \<Rightarrow> (string \<Rightarrow> string \<Rightarrow> int) \<Rightarrow> region list \<Rightarrow> region \<Rightarrow> u8 list \<Rightarrow> console
      \<Rightarrow> nat \<times> console" where
  "SerialPortWrite fb stricmp mm FbRegion Buffer c =
     (case GetFrameBufferMemory stricmp mm FbRegion of
        None \<Rightarrow> (0, c)
      | Some (FbBase, FbLength) \<Rightarrow>
          let InterruptState = c_irq c;
              c = (if InterruptState then c\<lparr> c_irq := False \<rparr> else c);
              c = c\<lparr> c_mem := fold (WriteFrameBuffer fb FbBase FbLength) Buffer (c_mem c) \<rparr>;
              c = (if InterruptState then c\<lparr> c_irq := True \<rparr> else c);
              c = c\<lparr> c_flushed := c_flushed c @ [(FbBase, FbLength)] \<rparr>
          in (length Buffer, c))"

definition SerialPortRead :: "nat \<Rightarrow> nat" where
  "SerialPortRead NumberOfBytes = 0"

definition SerialPortPoll :: bool where
  "SerialPortPoll = False"

definition SerialPortSetControl :: "u32 \<Rightarrow> efi_status" where
  "SerialPortSetControl Control = EFI_UNSUPPORTED"

definition SerialPortGetControl :: "u32 \<Rightarrow> efi_status \<times> u32" where
  "SerialPortGetControl Control = (EFI_UNSUPPORTED, Control)"

text \<open>The six parameters of the line are in and out and stay as they are.\<close>

definition SerialPortSetAttributes :: "'a \<Rightarrow> efi_status \<times> 'a" where
  "SerialPortSetAttributes line = (EFI_UNSUPPORTED, line)"

definition SerialPortInitialize :: efi_status where
  "SerialPortInitialize = EFI_SUCCESS"

section \<open>What a drawing step paints\<close>

text \<open>A drawing step takes the pixel pointer from offset \<open>k\<close> to offset \<open>l\<close> of a base address and
  sets the bytes at the offsets in the domain of \<open>f\<close>.\<close>

definition paints ::
    "u64 \<Rightarrow> nat \<Rightarrow> nat \<Rightarrow> (nat \<rightharpoonup> u8) \<Rightarrow> u64 \<times> mem \<Rightarrow> u64 \<times> mem \<Rightarrow> bool" where
  "paints base k l f s t \<longleftrightarrow> fst s = base + of_nat k \<and> fst t = base + of_nat l \<and>
     (\<forall>i < 2 ^ 64. snd t (base + of_nat i) =
        (case f i of None \<Rightarrow> snd s (base + of_nat i) | Some b \<Rightarrow> b))"

lemma paints_refl: "fst s = base + of_nat k \<Longrightarrow> paints base k k Map.empty s s"
  by (simp add: paints_def)

lemma paints_trans:
  "paints base k l f s t \<Longrightarrow> paints base l n g t u \<Longrightarrow> paints base k n (f ++ g) s u"
  by (auto simp: paints_def map_add_def split: option.splits)

lemma paints_cong: "paints base k l f s t \<Longrightarrow> f = g \<Longrightarrow> paints base k l g s t"
  by simp

lemma of_nat_u64_eq_iff:
  assumes "i < 2 ^ 64" "j < 2 ^ 64"
  shows "(of_nat i :: u64) = of_nat j \<longleftrightarrow> i = j"
proof -
  have "unat (of_nat i :: u64) = i" "unat (of_nat j :: u64) = j"
    using assms by (simp_all add: unat_of_nat)
  then show ?thesis by metis
qed

text \<open>A rectangle: \<open>n\<close> rows of \<open>w\<close> bytes at the distance \<open>W\<close>, from offset \<open>k\<close> on.\<close>

definition rectangle ::
    "nat \<Rightarrow> nat \<Rightarrow> nat \<Rightarrow> nat \<Rightarrow> (nat \<Rightarrow> nat \<Rightarrow> u8) \<Rightarrow> nat \<rightharpoonup> u8" where
  "rectangle k W n w g i =
     (if k \<le> i \<and> (i - k) div W < n \<and> (i - k) mod W < w
      then Some (g ((i - k) div W) ((i - k) mod W)) else None)"

lemma rectangle_0: "rectangle k W 0 w g = Map.empty"
  by (auto simp: rectangle_def)

lemma rectangle_append:
  assumes "0 < W"
  shows "rectangle k W n w g ++ rectangle (k + n * W) W n' w (\<lambda>r. g (n + r))
    = rectangle k W (n + n') w g"
proof
  fix i
  show "(rectangle k W n w g ++ rectangle (k + n * W) W n' w (\<lambda>r. g (n + r))) i
    = rectangle k W (n + n') w g i"
  proof (cases "k + n * W \<le> i")
    case True
    then obtain d where i: "i = k + n * W + d" using le_Suc_ex by blast
    have "(i - k) div W = n + d div W" "(i - k) mod W = d mod W"
      using assms by (simp_all add: i add.commute [of _ d])
    then show ?thesis using assms by (auto simp: rectangle_def map_add_def i)
  next
    case False
    then have "k \<le> i \<Longrightarrow> (i - k) div W < n" by (simp add: div_less_iff_less_mult assms)
    with False show ?thesis by (auto simp: rectangle_def map_add_def)
  qed
qed

text \<open>A stretch: \<open>n\<close> bytes from offset \<open>k\<close> on.\<close>

definition stretch :: "nat \<Rightarrow> nat \<Rightarrow> (nat \<Rightarrow> u8) \<Rightarrow> nat \<rightharpoonup> u8" where
  "stretch k n g i = (if k \<le> i \<and> i < k + n then Some (g (i - k)) else None)"

lemma stretch_0: "stretch k 0 g = Map.empty"
  by (auto simp: stretch_def)

lemma stretch_append:
  "stretch k n g ++ stretch (k + n) n' (\<lambda>c. g (n + c)) = stretch k (n + n') g"
  by (auto simp: stretch_def map_add_def fun_eq_iff)

lemma stretch_row:
  assumes "w \<le> W"
  shows "stretch k w (g 0) = rectangle k W 1 w g"
proof
  fix i
  have "(i - k) div W < 1 \<and> (i - k) mod W < w \<longleftrightarrow> i - k < w" if "k \<le> i"
    using assms by (cases "W = 0") (auto simp: div_eq_0_iff)
  then show "stretch k w (g 0) i = rectangle k W 1 w g i"
    using assms by (auto simp: stretch_def rectangle_def)
qed

section \<open>What the drawing functions paint\<close>

text \<open>The colour of a pixel as a byte, the same for each of its bytes.\<close>

definition ink :: "bool \<Rightarrow> u8" where
  "ink on = (if on then 0xFF else 0)"

abbreviation pixel_color :: "bool \<Rightarrow> u32" where
  "pixel_color on \<equiv> if on then 0xFFFFFFFF else 0x00000000"

lemma pixel_bytes_paint:
  assumes "\<forall>j < n. (ucast (drop_bit (8 * j) Color) :: u8) = b" "k + n \<le> 2 ^ 64"
    and "fst s = base + of_nat k"
  shows "paints base k (k + n) (stretch k n (\<lambda>_. b)) s (pixel_bytes n Color s)"
  using assms
proof (induction n arbitrary: Color k s)
  case 0
  then show ?case by (cases s) (simp add: stretch_0 paints_refl)
next
  case (Suc n)
  obtain m where s: "s = (base + of_nat k, m)" using Suc.prems(3) by (cases s) simp
  let ?t = "(base + of_nat (k + 1), m(base + of_nat k := b))"
  have "ucast Color = b" using Suc.prems(1) by fastforce
  then have run: "pixel_bytes (Suc n) Color s = pixel_bytes n (drop_bit 8 Color) ?t"
    by (simp add: s ac_simps)
  have "paints base k (k + 1) (stretch k 1 (\<lambda>_. b)) s ?t"
    using Suc.prems(2) by (auto simp: paints_def s stretch_def of_nat_u64_eq_iff)
  moreover have "paints base (k + 1) (k + 1 + n) (stretch (k + 1) n (\<lambda>_. b)) ?t
      (pixel_bytes n (drop_bit 8 Color) ?t)"
  proof (rule Suc.IH)
    show "\<forall>j < n. (ucast (drop_bit (8 * j) (drop_bit 8 Color)) :: u8) = b"
    proof (intro allI impI)
      fix j assume "j < n"
      then have "(ucast (drop_bit (8 * Suc j) Color) :: u8) = b" using Suc.prems(1) by blast
      then show "(ucast (drop_bit (8 * j) (drop_bit 8 Color)) :: u8) = b"
        by (simp add: drop_bit_drop_bit add.commute)
    qed
  qed (use Suc.prems in simp_all)
  ultimately have "paints base k (k + 1 + n)
      (stretch k 1 (\<lambda>_. b) ++ stretch (k + 1) n (\<lambda>_. b)) s (pixel_bytes (Suc n) Color s)"
    unfolding run by (rule paints_trans)
  then show ?case using stretch_append [of k 1 "\<lambda>_. b" n] by simp
qed

lemma pixel_color_bytes:
  assumes "j < 4" shows "(ucast (drop_bit (8 * j) (pixel_color on)) :: u8) = ink on"
proof -
  have "j = 0 \<or> j = 1 \<or> j = 2 \<or> j = 3" using assms by auto
  then show ?thesis by (auto simp: ink_def drop_bit_eq_div)
qed

lemma funpow_paint_stretch:
  assumes step: "\<And>k s. fst s = base + of_nat k \<Longrightarrow> k + w \<le> N
      \<Longrightarrow> paints base k (k + w) (stretch k w (\<lambda>_. b)) s (step s)"
    and "k + n * w \<le> N" "fst s = base + of_nat k"
  shows "paints base k (k + n * w) (stretch k (n * w) (\<lambda>_. b)) s ((step ^^ n) s)"
  using assms(2)
proof (induction n)
  case 0
  then show ?case by (simp add: stretch_0 paints_refl assms(3))
next
  case (Suc n)
  then have IH: "paints base k (k + n * w) (stretch k (n * w) (\<lambda>_. b)) s ((step ^^ n) s)" by simp
  have "paints base (k + n * w) (k + n * w + w) (stretch (k + n * w) w (\<lambda>_. b)) ((step ^^ n) s)
      (step ((step ^^ n) s))"
    using IH Suc.prems by (intro step) (auto simp: paints_def algebra_simps)
  from paints_trans [OF IH this] show ?case
    using stretch_append [of k "n * w" "\<lambda>_. b" w] by (simp add: algebra_simps)
qed

lemma DrawPixel_paint:
  assumes "unat (FB_BPP fb) \<le> 4" "fst s = base + of_nat k"
    and "k + unat scale * unat (FB_BPP fb) \<le> 2 ^ 64"
  shows "paints base k (k + unat scale * unat (FB_BPP fb))
    (stretch k (unat scale * unat (FB_BPP fb)) (\<lambda>_. ink on)) s (DrawPixel fb (pixel_color on) scale s)"
  unfolding DrawPixel_def
proof (rule funpow_paint_stretch [where N = "2 ^ 64", OF pixel_bytes_paint])
  show "\<forall>j < unat (FB_BPP fb). (ucast (drop_bit (8 * j) (pixel_color on)) :: u8) = ink on"
    using assms(1) by (intro allI impI pixel_color_bytes) simp
qed (use assms in simp_all)

lemma odd_and_1: "(x :: u32) AND 1 \<noteq> 0 \<longleftrightarrow> bit x 0"
  by (simp add: and_one_eq odd_iff_mod_2_eq_one bit_0)

text \<open>One line of a row: \<open>FONT_WIDTH\<close> pixels of \<open>p\<close> bytes each.\<close>

lemma row_pixels_paint:
  assumes "unat (FB_BPP fb) \<le> 4" "p = unat scale * unat (FB_BPP fb)" "0 < p"
    and "k + n * p \<le> 2 ^ 64" "fst s = base + of_nat k"
  shows "paints base k (k + n * p) (stretch k (n * p) (\<lambda>c. ink (bit Data (c div p)))) s
    (row_pixels fb n Data scale s)"
  using assms(4,5)
proof (induction n arbitrary: Data k s)
  case 0
  then show ?case by (simp add: stretch_0 paints_refl)
next
  case (Suc n)
  let ?t = "DrawPixel fb (pixel_color (bit Data 0)) scale s"
  let ?g = "\<lambda>c. ink (bit Data (c div p))"
  have "paints base k (k + p) (stretch k p (\<lambda>_. ink (bit Data 0))) s ?t"
    using DrawPixel_paint [OF assms(1) Suc.prems(2)] Suc.prems(1) by (simp add: assms(2))
  moreover have "stretch k p (\<lambda>_. ink (bit Data 0)) = stretch k p ?g"
    by (auto simp: stretch_def fun_eq_iff)
  ultimately have first: "paints base k (k + p) (stretch k p ?g) s ?t" by simp
  then have "fst ?t = base + of_nat (k + p)" by (simp add: paints_def)
  then have "paints base (k + p) (k + p + n * p)
      (stretch (k + p) (n * p) (\<lambda>c. ink (bit (drop_bit 1 Data) (c div p)))) ?t
      (row_pixels fb n (drop_bit 1 Data) scale ?t)"
    using Suc.prems(1) by (intro Suc.IH) (simp_all add: algebra_simps)
  moreover have "(\<lambda>c. ink (bit (drop_bit 1 Data) (c div p))) = (\<lambda>c. ?g (p + c))"
    using assms(3) by (simp add: bit_simps div_add_self1)
  ultimately have "paints base k (k + p + n * p)
      (stretch k p ?g ++ stretch (k + p) (n * p) (\<lambda>c. ?g (p + c))) s
      (row_pixels fb (Suc n) Data scale s)"
    using paints_trans [OF first] by (simp add: odd_and_1)
  then show ?case using stretch_append [of k p ?g "n * p"] by (simp add: algebra_simps)
qed

text \<open>A row is \<open>scale\<close> such lines; \<open>W\<close> is the length of a line of the display.\<close>

lemma DrawRow_paint:
  assumes "unat (FB_BPP fb) \<le> 4" "p = unat scale * unat (FB_BPP fb)" "0 < p"
    and "5 * p + unat Stride = W" "k + n * W \<le> 2 ^ 64" "fst s = base + of_nat k"
  shows "paints base k (k + n * W) (rectangle k W n (5 * p) (\<lambda>r c. ink (bit Data (c div p)))) s
    (((\<lambda>s. let (Pixels, m) = row_pixels fb FONT_WIDTH Data scale s in (Pixels + Stride, m)) ^^ n) s)"
  using assms(5)
proof (induction n)
  case 0
  then show ?case by (simp add: rectangle_0 paints_refl assms(6))
next
  case (Suc n)
  let ?line = "\<lambda>s. let (Pixels, m) = row_pixels fb FONT_WIDTH Data scale s in (Pixels + Stride, m)"
  let ?g = "\<lambda>(r::nat) c. ink (bit Data (c div p))"
  let ?t = "(?line ^^ n) s"
  have IH: "paints base k (k + n * W) (rectangle k W n (5 * p) ?g) s ?t"
    using Suc by simp
  have "paints base (k + n * W) (k + n * W + 5 * p) (stretch (k + n * W) (5 * p) (?g 0)) ?t
      (row_pixels fb FONT_WIDTH Data scale ?t)"
    using IH Suc.prems assms(4) by (intro row_pixels_paint assms(1-3)) (simp_all add: paints_def)
  then have "paints base (k + n * W) (k + n * W + W) (stretch (k + n * W) (5 * p) (?g 0)) ?t (?line ?t)"
    by (auto simp: paints_def split_beta ac_simps simp flip: assms(4))
  then have "paints base (k + n * W) (k + n * W + W) (rectangle (k + n * W) W 1 (5 * p) ?g) ?t (?line ?t)"
    using assms(4) stretch_row [of "5 * p" W "k + n * W" ?g] by simp
  from paints_trans [OF IH this] show ?case
    using rectangle_append [of W k n "5 * p" ?g 1] assms(3,4) by (simp add: algebra_simps)
qed

lemma rectangle_cong:
  assumes "\<And>r c. r < n \<Longrightarrow> c < w \<Longrightarrow> g r c = h r c"
  shows "rectangle k W n w g = rectangle k W n w h"
  using assms by (auto simp: rectangle_def fun_eq_iff)

text \<open>The data of the twelve rows of a glyph: six from the upper word, six from the lower.\<close>

definition glyph_row :: "u64 \<Rightarrow> nat \<Rightarrow> u32" where
  "glyph_row Glyph r =
     (if r < 6 then drop_bit (5 * r) (ucast (drop_bit 32 Glyph)) else drop_bit (5 * (r - 6)) (ucast Glyph))"

text \<open>\<open>RowData\<close> before row \<open>r\<close>: the row's data, except that row 6 starts the lower word.\<close>

definition before_row :: "u64 \<Rightarrow> nat \<Rightarrow> u32 \<Rightarrow> bool" where
  "before_row Glyph r d \<longleftrightarrow> r = 6 \<or> d = glyph_row Glyph r"

lemma before_row_step:
  assumes "before_row Glyph r d"
  shows "(if r = 6 then ucast Glyph else d) = glyph_row Glyph r"
    and "before_row Glyph (Suc r) (drop_bit 5 (glyph_row Glyph r))"
proof -
  show "(if r = 6 then ucast Glyph else d) = glyph_row Glyph r"
    using assms by (auto simp: before_row_def glyph_row_def)
  have "5 + 5 * (r - 6) = 5 * (Suc r - 6)" if "6 \<le> r" using that by simp
  then show "before_row Glyph (Suc r) (drop_bit 5 (glyph_row Glyph r))"
    by (auto simp: before_row_def glyph_row_def drop_bit_drop_bit)
qed

lemma glyph_rows_paint:
  assumes "unat (FB_BPP fb) \<le> 4" "p = unat scale * unat (FB_BPP fb)" "0 < p"
    and "5 * p + unat Stride = W" "k + n * (unat scale * W) \<le> 2 ^ 64" "fst s = base + of_nat k"
    and "a + n = 12" "before_row Glyph a d"
  shows "paints base k (k + n * (unat scale * W))
    (rectangle k W (n * unat scale) (5 * p) (\<lambda>r c. ink (bit (glyph_row Glyph (a + r div unat scale)) (c div p))))
    s (glyph_rows fb (ucast Glyph) scale Stride [a..<12] d s)"
  using assms(5-8)
proof (induction n arbitrary: a k d s)
  case 0
  then show ?case by (simp add: rectangle_0 paints_refl)
next
  case (Suc n)
  let ?s = "unat scale" and ?d = "glyph_row Glyph a"
  let ?t = "DrawRow fb ?d scale Stride s"
  let ?g = "\<lambda>a r c. ink (bit (glyph_row Glyph (a + r div ?s)) (c div p))"
  have s0: "0 < ?s" using assms(2,3) by (simp add: gr0I)
  have W0: "0 < W" using assms(3,4) by simp
  have row: "[a..<12] = a # [Suc a..<12]" using Suc.prems(3) by (simp add: upt_rec)
  have "paints base k (k + ?s * W) (rectangle k W ?s (5 * p) (\<lambda>r c. ink (bit ?d (c div p)))) s ?t"
    unfolding DrawRow_def using Suc.prems(1,2) by (intro DrawRow_paint assms(1-4)) simp_all
  also have "rectangle k W ?s (5 * p) (\<lambda>r c. ink (bit ?d (c div p))) = rectangle k W ?s (5 * p) (?g a)"
    by (rule rectangle_cong) simp
  finally have first: "paints base k (k + ?s * W) (rectangle k W ?s (5 * p) (?g a)) s ?t" .
  then have "fst ?t = base + of_nat (k + ?s * W)" by (simp add: paints_def)
  then have "paints base (k + ?s * W) (k + ?s * W + n * (?s * W))
      (rectangle (k + ?s * W) W (n * ?s) (5 * p) (?g (Suc a))) ?t
      (glyph_rows fb (ucast Glyph) scale Stride [Suc a..<12] (drop_bit 5 ?d) ?t)"
    using Suc.prems before_row_step(2) [OF Suc.prems(4)] by (intro Suc.IH) (simp_all add: algebra_simps)
  moreover have "?g (Suc a) = (\<lambda>r. ?g a (?s + r))"
    using s0 by (simp add: div_add_self1)
  ultimately have "paints base k (k + ?s * W + n * (?s * W))
      (rectangle k W ?s (5 * p) (?g a) ++ rectangle (k + ?s * W) W (n * ?s) (5 * p) (\<lambda>r. ?g a (?s + r)))
      s (glyph_rows fb (ucast Glyph) scale Stride [a..<12] d s)"
    using paints_trans [OF first] before_row_step(1) [OF Suc.prems(4)] by (simp add: row Let_def)
  then show ?case
    using rectangle_append [OF W0, of k ?s "5 * p" "?g a" "n * ?s"] by (simp add: algebra_simps)
qed

section \<open>Display geometry\<close>

text \<open>Geometry the console can work with: the products the code forms fit their 32 bits, a pixel
  has one to four bytes, and a glyph is not wider than the display.\<close>

definition geometry_ok :: "fb_config \<Rightarrow> bool" where
  "geometry_ok fb \<longleftrightarrow> 0 < unat (FB_BPP fb) \<and> unat (FB_BPP fb) \<le> 4 \<and>
     unat (FB_WIDTH fb) * unat (FB_HEIGHT fb) * unat (FB_BPP fb) < 2 ^ 32 \<and>
     6 \<le> unat (FB_WIDTH fb) \<and> 12 \<le> unat (FB_HEIGHT fb) \<and>
     min (unat (FB_WIDTH fb)) (unat (FB_HEIGHT fb)) < 426 * 256"

definition line_bytes :: "fb_config \<Rightarrow> nat" where
  "line_bytes fb = unat (FB_WIDTH fb) * unat (FB_BPP fb)"

definition screen_bytes :: "fb_config \<Rightarrow> nat" where
  "screen_bytes fb = unat (FB_WIDTH fb) * unat (FB_HEIGHT fb) * unat (FB_BPP fb)"

lemma screen_line: "screen_bytes fb = unat (FB_HEIGHT fb) * line_bytes fb"
  by (simp add: screen_bytes_def line_bytes_def)

lemma unat_mult_nowrap:
  fixes a b :: "'a::len word"
  shows "unat a * unat b < 2 ^ LENGTH('a) \<Longrightarrow> unat (a * b) = unat a * unat b"
  by (rule unat_mult_lem [THEN iffD1])

lemma screen_bytes_word:
  assumes "geometry_ok fb"
  shows "unat (FB_WIDTH fb * FB_BPP fb) = line_bytes fb"
    and "unat (FB_WIDTH fb * FB_HEIGHT fb * FB_BPP fb) = screen_bytes fb"
    and "screen_bytes fb < 2 ^ 32" "line_bytes fb \<le> screen_bytes fb"
proof -
  have lt: "unat (FB_WIDTH fb) * unat (FB_HEIGHT fb) * unat (FB_BPP fb) < 2 ^ 32"
    and pos: "0 < unat (FB_BPP fb)" "0 < unat (FB_HEIGHT fb)"
    using assms by (auto simp: geometry_ok_def)
  show "screen_bytes fb < 2 ^ 32" using lt by (simp add: screen_bytes_def)
  show le: "line_bytes fb \<le> screen_bytes fb" using pos by (simp add: screen_line)
  have "unat (FB_WIDTH fb) * unat (FB_HEIGHT fb) \<le> screen_bytes fb"
    using pos by (simp add: screen_bytes_def)
  then have "unat (FB_WIDTH fb * FB_HEIGHT fb) = unat (FB_WIDTH fb) * unat (FB_HEIGHT fb)"
    using \<open>screen_bytes fb < 2 ^ 32\<close> by (intro unat_mult_nowrap) simp
  then show "unat (FB_WIDTH fb * FB_HEIGHT fb * FB_BPP fb) = screen_bytes fb"
    using lt by (simp add: unat_mult_nowrap screen_bytes_def)
  show "unat (FB_WIDTH fb * FB_BPP fb) = line_bytes fb"
    using le_less_trans [OF le \<open>screen_bytes fb < 2 ^ 32\<close>]
    unfolding line_bytes_def by (intro unat_mult_nowrap) simp
qed

lemma stride_word:
  assumes "geometry_ok fb" "5 * unat scale \<le> unat (FB_WIDTH fb)"
  shows "unat (ucast ((FB_WIDTH fb - 5 * scale) * FB_BPP fb) :: u64)
    = (unat (FB_WIDTH fb) - 5 * unat scale) * unat (FB_BPP fb)"
proof -
  have "unat (5 * scale) = 5 * unat scale"
    using le_less_trans [OF assms(2) unsigned_less] by (subst unat_mult_nowrap) simp_all
  then have d: "unat (FB_WIDTH fb - 5 * scale) = unat (FB_WIDTH fb) - 5 * unat scale"
    using assms(2) by (simp add: unat_diff_le word_le_nat_alt)
  have "(unat (FB_WIDTH fb) - 5 * unat scale) * unat (FB_BPP fb) \<le> line_bytes fb"
    by (simp add: line_bytes_def diff_mult_distrib)
  also have "\<dots> < 2 ^ 32" using screen_bytes_word [OF assms(1)] by simp
  finally have "unat ((FB_WIDTH fb - 5 * scale) * FB_BPP fb)
      = (unat (FB_WIDTH fb) - 5 * unat scale) * unat (FB_BPP fb)"
    by (subst unat_mult_nowrap) (simp_all add: d)
  then show ?thesis
    using unsigned_less [of "(FB_WIDTH fb - 5 * scale) * FB_BPP fb", where 'a = nat]
    by (simp add: unat_ucast)
qed

text \<open>The bit of a glyph that a dot of its 5 by 12 raster shows.\<close>

definition glyph_dot :: "u64 \<Rightarrow> nat \<Rightarrow> nat \<Rightarrow> bool" where
  "glyph_dot Glyph r c = bit Glyph (if r < 6 then 32 + 5 * r + c else 5 * (r - 6) + c)"

lemma glyph_row_dot:
  assumes "r < 12" "c < 5"
  shows "bit (glyph_row Glyph r) c = glyph_dot Glyph r c"
  using assms by (auto simp: glyph_row_def glyph_dot_def bit_simps add.assoc)

lemma glyph_paint:
  assumes geo: "geometry_ok fb" and "0 < unat scale" "5 * unat scale \<le> unat (FB_WIDTH fb)"
    and "k + 12 * unat scale * line_bytes fb \<le> 2 ^ 64" "i < 2 ^ 64"
  shows "DrawGlyph fb (base + of_nat k) Glyph scale m (base + of_nat i) =
    (case rectangle k (line_bytes fb) (12 * unat scale) (5 * unat scale * unat (FB_BPP fb))
        (\<lambda>r c. ink (glyph_dot Glyph (r div unat scale) (c div (unat scale * unat (FB_BPP fb))))) i of
       None \<Rightarrow> m (base + of_nat i) | Some b \<Rightarrow> b)"
proof -
  let ?s = "unat scale" and ?b = "unat (FB_BPP fb)"
  let ?Stride = "ucast ((FB_WIDTH fb - 5 * scale) * FB_BPP fb) :: u64"
  let ?t = "glyph_rows fb (ucast Glyph) scale ?Stride [0..<12] (ucast (drop_bit 32 Glyph))
    (base + of_nat k, m)"
  have "5 * ?s * ?b \<le> line_bytes fb" using assms(3) by (simp add: line_bytes_def)
  then have W: "5 * (?s * ?b) + unat ?Stride = line_bytes fb"
    unfolding stride_word [OF geo assms(3)] by (simp add: line_bytes_def diff_mult_distrib)
  have "paints base k (k + 12 * (?s * line_bytes fb))
      (rectangle k (line_bytes fb) (12 * ?s) (5 * (?s * ?b))
        (\<lambda>r c. ink (bit (glyph_row Glyph (0 + r div ?s)) (c div (?s * ?b)))))
      (base + of_nat k, m) ?t"
    using geo assms(2,4) W
    by (intro glyph_rows_paint) (auto simp: geometry_ok_def before_row_def glyph_row_def algebra_simps)
  also have "rectangle k (line_bytes fb) (12 * ?s) (5 * (?s * ?b))
        (\<lambda>r c. ink (bit (glyph_row Glyph (0 + r div ?s)) (c div (?s * ?b))))
      = rectangle k (line_bytes fb) (12 * ?s) (5 * (?s * ?b))
        (\<lambda>r c. ink (glyph_dot Glyph (r div ?s) (c div (?s * ?b))))"
    using assms(2) by (intro rectangle_cong) (simp add: glyph_row_dot less_mult_imp_div_less)
  finally show ?thesis
    using assms(5) by (auto simp: DrawGlyph_def paints_def Let_def mult.assoc split: option.splits)
qed

section \<open>Places on the screen\<close>

text \<open>The scale, the number of columns and the number of text lines, as numbers.\<close>

definition font_scale :: "fb_config \<Rightarrow> nat" where
  "font_scale fb = max 1 (min (unat (FB_WIDTH fb)) (unat (FB_HEIGHT fb)) div 426)"

definition columns :: "fb_config \<Rightarrow> nat" where
  "columns fb = unat (FB_WIDTH fb) div (6 * font_scale fb)"

definition text_lines :: "fb_config \<Rightarrow> nat" where
  "text_lines fb = unat (FB_HEIGHT fb) div (12 * font_scale fb)"

definition position_valid :: "fb_config \<Rightarrow> fb_position \<Rightarrow> bool" where
  "position_valid fb p \<longleftrightarrow> unat (XPos p) < columns fb \<and> unat (YPos p) < text_lines fb"

lemma font_scale_bounds:
  assumes "geometry_ok fb"
  shows "1 \<le> font_scale fb" "font_scale fb < 256" "6 * font_scale fb \<le> unat (FB_WIDTH fb)"
    "12 * font_scale fb \<le> unat (FB_HEIGHT fb)"
  using assms by (auto simp: font_scale_def geometry_ok_def)

lemma GetFontScale_unat:
  assumes "geometry_ok fb" shows "unat (GetFontScale fb) = font_scale fb"
proof -
  let ?d = "if FB_WIDTH fb < FB_HEIGHT fb then FB_WIDTH fb else FB_HEIGHT fb"
  have d: "unat ?d = min (unat (FB_WIDTH fb)) (unat (FB_HEIGHT fb))"
    by (simp add: word_less_nat_alt)
  then have "unat (?d div 426) = min (unat (FB_WIDTH fb)) (unat (FB_HEIGHT fb)) div 426"
    by (simp add: unat_div)
  moreover have "min (unat (FB_WIDTH fb)) (unat (FB_HEIGHT fb)) div 426 < 256"
    using assms by (auto simp: geometry_ok_def)
  ultimately have u: "unat (ucast (?d div 426) :: u8) = min (unat (FB_WIDTH fb)) (unat (FB_HEIGHT fb)) div 426"
    by (simp add: unat_ucast)
  show ?thesis
  proof (cases "?d < 426")
    case True
    then have "min (unat (FB_WIDTH fb)) (unat (FB_HEIGHT fb)) div 426 = 0"
      using d by (simp add: word_less_nat_alt)
    with True show ?thesis by (simp add: GetFontScale_def Let_def font_scale_def)
  next
    case False
    then have "1 \<le> min (unat (FB_WIDTH fb)) (unat (FB_HEIGHT fb)) div 426"
      using d by (simp add: word_less_nat_alt)
    with False u show ?thesis by (simp only: GetFontScale_def Let_def font_scale_def if_False max_absorb2)
  qed
qed

lemma max_position:
  assumes "geometry_ok fb"
  shows "fst (GetFbPositions fb FbBase FbLength (GetFontScale fb)) = FbBase + FbLength - 8"
    and "unat (XPos (snd (GetFbPositions fb FbBase FbLength (GetFontScale fb)))) = columns fb"
    and "unat (YPos (snd (GetFbPositions fb FbBase FbLength (GetFontScale fb)))) = text_lines fb"
  using font_scale_bounds [OF assms]
  by (simp_all add: GetFbPositions_def GetFontScale_unat [OF assms] unat_div unat_of_nat
      columns_def text_lines_def del: of_nat_mult)

text \<open>A glyph at a valid position lies on the screen.\<close>

lemma glyph_on_screen:
  assumes geo: "geometry_ok fb" and pos: "x < columns fb" "y < text_lines fb"
    and k: "k = y * (12 * font_scale fb) * line_bytes fb + x * (6 * font_scale fb) * unat (FB_BPP fb)"
  shows "rectangle k (line_bytes fb) (12 * font_scale fb) (5 * font_scale fb * unat (FB_BPP fb)) g i \<noteq> None
      \<Longrightarrow> i < screen_bytes fb"
    and "k + 12 * font_scale fb * line_bytes fb \<le> screen_bytes fb + line_bytes fb"
proof -
  let ?s = "font_scale fb" and ?b = "unat (FB_BPP fb)" and ?W = "line_bytes fb"
  have b: "0 < ?b" "0 < ?s" using geo font_scale_bounds [OF geo] by (auto simp: geometry_ok_def)
  have "Suc x * (6 * ?s) \<le> unat (FB_WIDTH fb)"
    using pos(1) b by (simp add: columns_def less_eq_div_iff_mult_less_eq flip: Suc_le_eq)
  then have x: "Suc x * (6 * ?s) * ?b \<le> ?W" unfolding line_bytes_def by (rule mult_le_mono1)
  have "Suc y * (12 * ?s) \<le> unat (FB_HEIGHT fb)"
    using pos(2) b by (simp add: text_lines_def less_eq_div_iff_mult_less_eq flip: Suc_le_eq)
  then have y: "Suc y * (12 * ?s) * ?W \<le> screen_bytes fb" unfolding screen_line by (rule mult_le_mono1)
  show "k + 12 * ?s * ?W \<le> screen_bytes fb + ?W"
    using x y by (simp add: k algebra_simps)
  assume "rectangle k ?W (12 * ?s) (5 * ?s * ?b) g i \<noteq> None"
  then have i: "k \<le> i" "(i - k) div ?W < 12 * ?s" "(i - k) mod ?W < 5 * ?s * ?b"
    by (auto simp: rectangle_def split: if_splits)
  have "x * (6 * ?s) * ?b + 6 * (?s * ?b) \<le> ?W" using x by (simp add: algebra_simps)
  moreover have "(i - k) mod ?W < 5 * (?s * ?b)" using i(3) by (simp only: mult.assoc)
  ultimately have row: "x * (6 * ?s) * ?b + (i - k) mod ?W < ?W" by linarith
  have "i = k + (i - k) div ?W * ?W + (i - k) mod ?W" using i(1) by (simp add: div_mult_mod_eq)
  also have "\<dots> < y * (12 * ?s) * ?W + (i - k) div ?W * ?W + ?W"
    using row k by linarith
  also have "\<dots> = y * (12 * ?s) * ?W + Suc ((i - k) div ?W) * ?W" by simp
  also have "\<dots> \<le> y * (12 * ?s) * ?W + 12 * ?s * ?W"
    using i(2) by (intro add_left_mono mult_le_mono1) simp
  also have "\<dots> \<le> screen_bytes fb" using y by (simp add: algebra_simps)
  finally show "i < screen_bytes fb" .
qed

section \<open>The cursor as an abstract machine\<close>

definition next_line :: "fb_config \<Rightarrow> fb_position \<Rightarrow> fb_position" where
  "next_line fb p = \<lparr> XPos = 0,
     YPos = (if text_lines fb \<le> unat (YPos p) + 1 then 0 else YPos p + 1) \<rparr>"

text \<open>Where the cursor goes when a character is written.\<close>

definition cursor_step :: "fb_config \<Rightarrow> u8 \<Rightarrow> fb_position \<Rightarrow> fb_position" where
  "cursor_step fb c p =
     (if c \<ge> 127 then p
      else if c = 10 then next_line fb p
      else if c = 13 then p\<lparr> XPos := 0 \<rparr>
      else if c < 32 \<or> (XPos p = 0 \<and> c = 32) then p
      else if columns fb \<le> unat (XPos p) + 1 then next_line fb p
      else p\<lparr> XPos := XPos p + 1 \<rparr>)"

lemma positions_exist:
  assumes "geometry_ok fb"
  shows "0 < columns fb" "0 < text_lines fb" "columns fb < 2 ^ 32" "text_lines fb < 2 ^ 32"
proof -
  note s = font_scale_bounds [OF assms]
  show "0 < columns fb" "0 < text_lines fb"
    using s by (simp_all add: columns_def text_lines_def div_greater_zero_iff)
  have "columns fb \<le> unat (FB_WIDTH fb)" "text_lines fb \<le> unat (FB_HEIGHT fb)"
    by (simp_all add: columns_def text_lines_def)
  then show "columns fb < 2 ^ 32" "text_lines fb < 2 ^ 32"
    using unsigned_less [of "FB_WIDTH fb", where 'a = nat]
      unsigned_less [of "FB_HEIGHT fb", where 'a = nat] by simp_all
qed

lemma unat_Suc_below:
  fixes a :: "'a::len word"
  assumes "unat a < n" "n < 2 ^ LENGTH('a)"
  shows "unat (a + 1) = unat a + 1"
  using assms by (subst unat_add_nowrap) auto

lemma unat_Suc_le: "unat ((a :: 'a::len word) + 1) \<le> unat a + 1"
proof -
  have "unat (a + 1) \<le> unat a + unat (1 :: 'a word)" by (simp only: unat_word_ariths mod_less_eq_dividend)
  then show ?thesis by simp
qed

lemma next_line_valid:
  assumes "geometry_ok fb" shows "position_valid fb (next_line fb p)"
  using positions_exist [OF assms] unat_Suc_le [of "YPos p"]
  by (auto simp: position_valid_def next_line_def)

lemma cursor_step_valid:
  assumes "geometry_ok fb" "position_valid fb p"
  shows "position_valid fb (cursor_step fb c p)"
  using assms positions_exist [OF assms(1)] next_line_valid [OF assms(1)]
    unat_Suc_le [of "XPos p"]
  by (auto simp: cursor_step_def position_valid_def)

section \<open>The screen and the cursor in memory\<close>

definition on_screen :: "fb_config \<Rightarrow> u64 \<Rightarrow> u64 \<Rightarrow> bool" where
  "on_screen fb FbBase x \<longleftrightarrow> unat (x - FbBase) < screen_bytes fb"

definition cursor_at :: "u64 \<Rightarrow> u64 \<Rightarrow> u64" where
  "cursor_at FbBase FbLength = FbBase + FbLength - 8"

definition in_cursor :: "u64 \<Rightarrow> u64 \<Rightarrow> u64 \<Rightarrow> bool" where
  "in_cursor FbBase FbLength x \<longleftrightarrow>
     x \<in> word_at (cursor_at FbBase FbLength) \<union> word_at (cursor_at FbBase FbLength + 4)"

text \<open>The pixels and the cursor fit the region side by side.\<close>

definition console_fits :: "fb_config \<Rightarrow> u64 \<Rightarrow> bool" where
  "console_fits fb FbLength \<longleftrightarrow> screen_bytes fb + 8 \<le> unat FbLength"

lemma cursor_words_disjoint: "word_at (a :: u64) \<inter> word_at (a + 4) = {}"
  by (auto simp: word_at_def)

lemma cursor_off_screen:
  assumes "console_fits fb FbLength" "in_cursor FbBase FbLength x"
  shows "\<not> on_screen fb FbBase x"
proof -
  have L: "8 \<le> unat FbLength" using assms(1) by (simp add: console_fits_def)
  have "x - FbBase \<in> (\<lambda>j. FbLength - 8 + j) ` {0, 1, 2, 3, 4, 5, 6, 7}"
    using assms(2) by (auto simp: in_cursor_def word_at_def cursor_at_def algebra_simps)
  then obtain j where j: "x - FbBase = FbLength - 8 + j" "unat j < 8" by auto
  have "unat (FbLength - 8) = unat FbLength - 8"
    using L by (simp add: unat_diff_le word_le_nat_alt)
  moreover have "unat (FbLength - 8 + j) = unat (FbLength - 8) + unat j"
    using calculation j(2) L unsigned_less [of FbLength, where 'a = nat] by (intro unat_add_nowrap) simp
  ultimately show ?thesis using assms(1) j by (simp add: on_screen_def console_fits_def)
qed

definition only_console :: "fb_config \<Rightarrow> u64 \<Rightarrow> u64 \<Rightarrow> mem \<Rightarrow> mem \<Rightarrow> bool" where
  "only_console fb FbBase FbLength m m' \<longleftrightarrow>
     (\<forall>x. \<not> on_screen fb FbBase x \<and> \<not> in_cursor FbBase FbLength x \<longrightarrow> m' x = m x)"

lemma only_console_refl: "only_console fb FbBase FbLength m m"
  by (simp add: only_console_def)

lemma only_console_trans:
  "only_console fb b l m1 m2 \<Longrightarrow> only_console fb b l m2 m3 \<Longrightarrow> only_console fb b l m1 m3"
  by (simp add: only_console_def)

lemma only_console_cursor:
  "only_console fb b l m (write32 m (cursor_at b l) v)"
  "only_console fb b l m (write32 m (cursor_at b l + 4) v)"
  by (auto simp: only_console_def in_cursor_def write32_outside)

text \<open>A change of the screen alone leaves the cursor.\<close>

lemma screen_keeps_cursor:
  assumes "console_fits fb l" "\<And>x. \<not> on_screen fb b x \<Longrightarrow> m' x = m x"
  shows "read32 m' (cursor_at b l) = read32 m (cursor_at b l)"
    and "read32 m' (cursor_at b l + 4) = read32 m (cursor_at b l + 4)"
    and "only_console fb b l m m'"
  using assms cursor_off_screen [OF assms(1), of b]
  by (auto simp: in_cursor_def only_console_def intro!: read32_cong)

lemma cursor_writes:
  "read32 (write32 m (a + 4) v) a = read32 m a" "read32 (write32 m a v) (a + 4) = read32 m (a + 4)"
  using cursor_words_disjoint [of a] by (auto intro!: read32_write32_other)

section \<open>What writing a character does\<close>

lemma ZeroMem_screen:
  assumes "geometry_ok fb" "\<not> on_screen fb b x"
  shows "ZeroMem b (unat (FB_WIDTH fb * FB_HEIGHT fb * FB_BPP fb)) m x = m x"
  using assms by (simp add: ZeroMem_def on_screen_def screen_bytes_word)

lemma AdvanceNewLine_effect:
  assumes geo: "geometry_ok fb" and fits: "console_fits fb l"
    and y: "unat (YPos (load_position m (cursor_at b l))) < text_lines fb"
    and max: "unat (YPos mp) = text_lines fb"
  defines "m' \<equiv> AdvanceNewLine fb b (cursor_at b l) mp m"
  shows "load_position m' (cursor_at b l) = next_line fb (load_position m (cursor_at b l))"
    and "only_console fb b l m m'"
proof -
  let ?A = "cursor_at b l"
  let ?m1 = "write32 m ?A 0"
  let ?m2 = "write32 ?m1 (?A + 4) (read32 ?m1 (?A + 4) + 1)"
  let ?m3 = "ZeroMem b (unat (FB_WIDTH fb * FB_HEIGHT fb * FB_BPP fb)) ?m2"
  have wrap: "YPos mp \<le> read32 m (?A + 4) + 1 \<longleftrightarrow> text_lines fb \<le> unat (read32 m (?A + 4)) + 1"
    using y positions_exist [OF geo] max
    by (simp add: load_position_def word_le_nat_alt unat_Suc_below [of _ "text_lines fb"])
  have m2: "only_console fb b l m ?m2"
    by (blast intro: only_console_trans only_console_cursor)
  have "\<And>x. \<not> on_screen fb b x \<Longrightarrow> ?m3 x = ?m2 x" by (rule ZeroMem_screen [OF geo])
  then have m3: "only_console fb b l m ?m3"
    using m2 screen_keeps_cursor(3) [OF fits] by (blast intro: only_console_trans)
  show "load_position m' ?A = next_line fb (load_position m ?A)"
    using wrap by (simp add: m'_def AdvanceNewLine_def Let_def load_position_def next_line_def cursor_writes)
  show "only_console fb b l m m'"
    using m2 m3 by (auto simp: m'_def AdvanceNewLine_def Let_def
        intro: only_console_trans [OF _ only_console_trans [OF only_console_cursor(1) only_console_cursor(2)]])
qed

lemma pixel_pointer:
  assumes geo: "geometry_ok fb"
  shows "(b :: u64) + ucast (y :: u32) * of_nat (12 * font_scale fb) * ucast (FB_WIDTH fb * FB_BPP fb)
      + ucast (x :: u32) * of_nat (6 * font_scale fb) * ucast (FB_BPP fb)
    = b + of_nat (unat y * (12 * font_scale fb) * line_bytes fb
        + unat x * (6 * font_scale fb) * unat (FB_BPP fb) :: nat)"
proof -
  have "(ucast (FB_WIDTH fb * FB_BPP fb) :: u64) = of_nat (unat (FB_WIDTH fb * FB_BPP fb))" by simp
  then have "(ucast (FB_WIDTH fb * FB_BPP fb) :: u64) = of_nat (line_bytes fb)"
    unfolding screen_bytes_word(1) [OF geo] .
  then show ?thesis by (simp add: add.assoc)
qed

lemma DrawGlyph_screen:
  assumes geo: "geometry_ok fb" and valid: "position_valid fb p" and "\<not> on_screen fb b a"
    and k: "k = unat (YPos p) * (12 * font_scale fb) * line_bytes fb
      + unat (XPos p) * (6 * font_scale fb) * unat (FB_BPP fb)"
    and s: "unat scale = font_scale fb"
  shows "DrawGlyph fb (b + of_nat k) Glyph scale m a = m a"
proof -
  have p: "unat (XPos p) < columns fb" "unat (YPos p) < text_lines fb"
    using valid by (simp_all add: position_valid_def)
  note on = glyph_on_screen [OF geo p k]
  have "k + 12 * font_scale fb * line_bytes fb \<le> 2 ^ 64"
    using on(2) screen_bytes_word(3,4) [OF geo] by simp
  moreover have a: "a = b + of_nat (unat (a - b))" "unat (a - b) < 2 ^ 64"
    using unsigned_less [of "a - b", where 'a = nat] by simp_all
  moreover have "rectangle k (line_bytes fb) (12 * font_scale fb) (5 * font_scale fb * unat (FB_BPP fb)) g
      (unat (a - b)) = None" for g
    using on(1) [of g "unat (a - b)"] assms(3) unfolding on_screen_def by blast
  ultimately show ?thesis
    using glyph_paint [OF geo, of scale k "unat (a - b)" b Glyph m] s font_scale_bounds [OF geo]
    by simp
qed

lemma control_chars:
  fixes c :: u8
  assumes "c < 32" shows "c < 127" "c \<noteq> 32"
  using assms by (auto simp: word_less_nat_alt)

lemma WriteFrameBuffer_effect:
  assumes geo: "geometry_ok fb" and fits: "console_fits fb l"
    and valid: "position_valid fb (load_position m (cursor_at b l))"
  shows "load_position (WriteFrameBuffer fb b l c m) (cursor_at b l)
      = cursor_step fb c (load_position m (cursor_at b l))"
    and "only_console fb b l m (WriteFrameBuffer fb b l c m)"
proof -
  define A where "A = cursor_at b l"
  let ?p = "load_position m A" and ?sc = "GetFontScale fb"
  obtain mp where mp: "GetFbPositions fb b l ?sc = (A, mp)" "unat (XPos mp) = columns fb"
    "unat (YPos mp) = text_lines fb"
    using max_position [OF geo, of b l] by (cases "GetFbPositions fb b l ?sc") (simp add: A_def cursor_at_def)
  have x: "XPos ?p = read32 m A" and y: "YPos ?p = read32 m (A + 4)"
    by (simp_all add: load_position_def)
  have p: "unat (XPos ?p) < columns fb" "unat (YPos ?p) < text_lines fb"
    using valid by (simp_all add: position_valid_def A_def)
  note newline = AdvanceNewLine_effect [OF geo fits, of _ b, folded A_def, OF _ mp(3)]
  let ?k = "unat (YPos ?p) * (12 * font_scale fb) * line_bytes fb
      + unat (XPos ?p) * (6 * font_scale fb) * unat (FB_BPP fb)"
  let ?m1 = "DrawGlyph fb (b + of_nat ?k) (GlyphFont ! (unat c - 32)) (ucast ?sc) m"
  let ?m2 = "write32 ?m1 A (read32 ?m1 A + 1)"
  have sc: "unat (ucast ?sc :: u32) = font_scale fb"
    using font_scale_bounds(2) [OF geo] by (simp add: unat_ucast GetFontScale_unat [OF geo])
  have scr: "?m1 a = m a" if "\<not> on_screen fb b a" for a
    using DrawGlyph_screen [OF geo valid that _ sc, of ?k] by (simp add: A_def)
  note keep = screen_keeps_cursor [OF fits, of b ?m1 m, OF scr, folded A_def]
  have m1x: "read32 ?m1 A = XPos ?p" by (rule trans [OF keep(1) x [symmetric]])
  have m1y: "read32 ?m1 (A + 4) = YPos ?p" by (rule trans [OF keep(2) y [symmetric]])
  have m1: "only_console fb b l m ?m1" by (rule keep(3))
  have m2: "load_position ?m2 A = ?p\<lparr> XPos := XPos ?p + 1 \<rparr>" "only_console fb b l m ?m2"
    using m1x m1y only_console_trans [OF m1 only_console_cursor(1)]
    by (simp_all add: load_position_def cursor_writes A_def)
  have glyph: "WriteFrameBuffer fb b l c m =
      (if XPos mp \<le> XPos ?p + 1 then AdvanceNewLine fb b A mp ?m2 else ?m2)"
    if "\<not> 127 \<le> c" "\<not> c < 32" "\<not> (XPos ?p = 0 \<and> c = 32)"
  proof -
    have e: "FONT_WIDTH + 1 = 6" "FONT_HEIGHT - 4 = 12" by simp_all
    show ?thesis
      unfolding WriteFrameBuffer_def Let_def mp(1) prod.case if_not_P [OF that(1)]
        if_not_P [OF that(2)] if_not_P [OF that(3) [unfolded x]] e GetFontScale_unat [OF geo]
        pixel_pointer [OF geo]
      unfolding x [symmetric] y [symmetric] m1x read32_write32 by (rule refl)
  qed
  have last: "XPos mp \<le> XPos ?p + 1 \<longleftrightarrow> columns fb \<le> unat (XPos ?p) + 1"
    using p(1) positions_exist [OF geo] mp(2)
    by (simp add: word_le_nat_alt unat_Suc_below [of _ "columns fb"])
  have y2: "unat (YPos (load_position ?m2 A)) < text_lines fb" unfolding m2(1) using p(2) by simp
  have cases: "c \<ge> 127 \<or> c < 32 \<or> (XPos ?p = 0 \<and> c = 32) \<or>
      (\<not> 127 \<le> c \<and> \<not> c < 32 \<and> \<not> (XPos ?p = 0 \<and> c = 32))" by blast
  let ?w = "WriteFrameBuffer fb b l c m"
  have "load_position ?w A = cursor_step fb c ?p \<and> only_console fb b l m ?w"
    using cases
  proof (elim disjE conjE)
    assume "c \<ge> 127"
    then show ?thesis
      by (simp add: WriteFrameBuffer_def Let_def mp(1) cursor_step_def only_console_refl)
  next
    assume c: "c < 32"
    have cr: "load_position (write32 m A 0) A = ?p\<lparr> XPos := 0 \<rparr>"
      by (simp add: load_position_def cursor_writes)
    show ?thesis
      using c control_chars [OF c] newline(1,2) [OF p(2)] only_console_cursor(1) [of fb b l m 0] cr
      by (auto simp: WriteFrameBuffer_def Let_def mp(1) cursor_step_def only_console_refl A_def)
  next
    assume "XPos ?p = 0" "c = 32"
    then show ?thesis
      by (simp add: WriteFrameBuffer_def Let_def mp(1) cursor_step_def only_console_refl flip: x)
  next
    assume g: "\<not> 127 \<le> c" "\<not> c < 32" "\<not> (XPos ?p = 0 \<and> c = 32)"
    then have "c \<noteq> 10" "c \<noteq> 13" by auto
    moreover have "next_line fb (?p\<lparr> XPos := XPos ?p + 1 \<rparr>) = next_line fb ?p"
      by (simp add: next_line_def)
    ultimately show ?thesis
      unfolding glyph [OF g] last cursor_step_def
      using g m2 newline [OF y2] only_console_trans [OF m2(2)] by auto
  qed
  then show "load_position ?w (cursor_at b l) = cursor_step fb c (load_position m (cursor_at b l))"
    and "only_console fb b l m ?w" by (simp_all add: A_def)
qed

lemma fold_WriteFrameBuffer:
  fixes cs :: "u8 list"
  assumes geo: "geometry_ok fb" and fits: "console_fits fb l"
    and "position_valid fb (load_position m (cursor_at b l))"
  defines "m' \<equiv> fold (WriteFrameBuffer fb b l) cs m"
  shows "load_position m' (cursor_at b l) = fold (cursor_step fb) cs (load_position m (cursor_at b l))
    \<and> position_valid fb (load_position m' (cursor_at b l)) \<and> only_console fb b l m m'"
  using assms(3) unfolding m'_def
proof (induction cs arbitrary: m)
  case Nil
  then show ?case by (simp add: only_console_refl)
next
  case (Cons c cs)
  note w = WriteFrameBuffer_effect [OF geo fits Cons.prems, of c]
  have "position_valid fb (load_position (WriteFrameBuffer fb b l c m) (cursor_at b l))"
    using w(1) cursor_step_valid [OF geo Cons.prems] by simp
  from Cons.IH [OF this] show ?case
    using w only_console_trans [OF w(2)] by auto
qed

section \<open>Sample console\<close>

definition sample_display :: fb_config where
  "sample_display = \<lparr> FB_WIDTH = 12, FB_HEIGHT = 24, FB_BPP = 4 \<rparr>"

definition sample_fb_region :: region where
  "sample_fb_region = \<lparr> Name = ''Display Reserved'', Address = 0x9D400000, Length = 1160,
     HobOption = AddMem, ResourceType = EFI_RESOURCE_MEMORY_RESERVED, ResourceAttribute = 0,
     MemoryType = EfiReservedMemoryType, ArmAttributes = ARM_MEMORY_REGION_ATTRIBUTE_WRITE_THROUGH \<rparr>"

definition exact_stricmp :: "string \<Rightarrow> string \<Rightarrow> int" where
  "exact_stricmp a b = (if a = b then 0 else 1)"

lemma sample_geometry: "geometry_ok sample_display" "console_fits sample_display 1160"
    "columns sample_display = 2" "text_lines sample_display = 2"
  by (simp_all add: geometry_ok_def sample_display_def console_fits_def screen_bytes_def
      columns_def text_lines_def font_scale_def)

section \<open>Properties\<close>

text \<open>C17. DrawGlyph sets exactly the bytes of the 5 by 12 raster of the glyph, scaled up, at the
  pixel pointer: a dot that is set becomes white, one that is clear becomes black, in every
  byte of its square of pixels, and no other byte of memory changes.\<close>

theorem draw_glyph_exact:
  assumes "geometry_ok fb" "0 < unat scale" "5 * unat scale \<le> unat (FB_WIDTH fb)"
    and "k + 12 * unat scale * line_bytes fb \<le> 2 ^ 64" "i < 2 ^ 64"
  shows "DrawGlyph fb (base + of_nat k) Glyph scale m (base + of_nat i) =
    (let row = (i - k) div line_bytes fb; col = (i - k) mod line_bytes fb in
     if k \<le> i \<and> row < 12 * unat scale \<and> col < 5 * unat scale * unat (FB_BPP fb)
     then if glyph_dot Glyph (row div unat scale) (col div (unat scale * unat (FB_BPP fb)))
          then 0xFF else 0
     else m (base + of_nat i))"
  unfolding glyph_paint [OF assms] by (simp add: rectangle_def ink_def Let_def)

lemma draw_glyph_exact_witness:
  "DrawGlyph sample_display (0x1000 + of_nat 0) 0x0842108000020084 1 (\<lambda>_. 7) (0x1000 + of_nat 0) = 0
   \<and> DrawGlyph sample_display (0x1000 + of_nat 0) 0x0842108000020084 1 (\<lambda>_. 7) (0x1000 + of_nat 104) = 0xFF
   \<and> DrawGlyph sample_display (0x1000 + of_nat 0) 0x0842108000020084 1 (\<lambda>_. 7) (0x1000 + of_nat 20) = 7"
proof (intro conjI)
  note exact = draw_glyph_exact [OF sample_geometry(1), where scale = 1 and k = 0]
  have geo: "line_bytes sample_display = 48" "unat (FB_WIDTH sample_display) = 12"
    "unat (FB_BPP sample_display) = 4"
    by (simp_all add: line_bytes_def sample_display_def)
  show "DrawGlyph sample_display (0x1000 + of_nat 0) 0x0842108000020084 1 (\<lambda>_. 7) (0x1000 + of_nat 0) = 0"
    by (subst exact) (simp_all add: geo glyph_dot_def)
  show "DrawGlyph sample_display (0x1000 + of_nat 0) 0x0842108000020084 1 (\<lambda>_. 7) (0x1000 + of_nat 104) = 0xFF"
    by (subst exact) (simp_all add: geo glyph_dot_def)
  show "DrawGlyph sample_display (0x1000 + of_nat 0) 0x0842108000020084 1 (\<lambda>_. 7) (0x1000 + of_nat 20) = 7"
    by (subst exact) (simp_all add: geo glyph_dot_def)
qed

text \<open>C15. A write to the console, on a display whose pixels and cursor fit its memory region and
  from a valid cursor, moves the cursor as the abstract console does for the bytes written,
  leaves it valid, restores the interrupt state, and changes no memory but the pixels and the
  cursor.\<close>

theorem console_write_confined:
  assumes "geometry_ok fb" "GetFrameBufferMemory stricmp mm garbage = Some (FbBase, FbLength)"
    and "console_fits fb FbLength"
    and "position_valid fb (load_position (c_mem c) (cursor_at FbBase FbLength))"
    and "SerialPortWrite fb stricmp mm garbage Buffer c = (n, c')"
  shows "n = length Buffer \<and> c_irq c' = c_irq c
    \<and> load_position (c_mem c') (cursor_at FbBase FbLength)
      = fold (cursor_step fb) Buffer (load_position (c_mem c) (cursor_at FbBase FbLength))
    \<and> position_valid fb (load_position (c_mem c') (cursor_at FbBase FbLength))
    \<and> (\<forall>x. screen_bytes fb \<le> unat (x - FbBase) \<and> \<not> in_cursor FbBase FbLength x
        \<longrightarrow> c_mem c' x = c_mem c x)"
  using fold_WriteFrameBuffer [OF assms(1,3,4), of Buffer] assms(2,5)
  by (auto simp: SerialPortWrite_def Let_def only_console_def on_screen_def not_less split: if_splits)

lemma console_write_confined_witness:
  "\<exists>c'. SerialPortWrite sample_display exact_stricmp [sample_fb_region] undefined [65]
      \<lparr> c_mem = \<lambda>_. 0, c_irq = True, c_flushed = [] \<rparr> = (1, c')
    \<and> load_position (c_mem c') (cursor_at 0x9D400000 1160) = \<lparr> XPos = 1, YPos = 0 \<rparr>"
proof -
  let ?c = "\<lparr> c_mem = \<lambda>_. 0, c_irq = True, c_flushed = [] \<rparr>"
  have get: "GetFrameBufferMemory exact_stricmp [sample_fb_region] undefined = Some (0x9D400000, 1160)"
    by (simp add: GetFrameBufferMemory_def locate_either_def LocateMemoryRegionByName_def
        exact_stricmp_def sample_fb_region_def Let_def)
  have pos: "load_position (c_mem ?c) (cursor_at 0x9D400000 1160) = \<lparr> XPos = 0, YPos = 0 \<rparr>"
    by (simp add: load_position_def read32_def)
  obtain n c' where w: "SerialPortWrite sample_display exact_stricmp [sample_fb_region] undefined [65] ?c = (n, c')"
    by fastforce
  have "position_valid sample_display (load_position (c_mem ?c) (cursor_at 0x9D400000 1160))"
    unfolding pos by (simp add: position_valid_def sample_geometry)
  from console_write_confined [OF sample_geometry(1) get sample_geometry(2) this w] show ?thesis
    unfolding w pos by (simp add: cursor_step_def sample_geometry)
qed

end
