(* ===== verification/PlatformMap.thy ===== *)
theory PlatformMap
  imports MemoryInit
begin

text \<open>
  The vocabulary of the platform memory maps and the check that one of them passes the
  validation of the pre-DXE phase.

  \<^item> the constants: the short names of \<open>SiliciumPkg/Include/Library/MemoryMapLib.h\<close> and the
    \<open>EFI_RESOURCE_ATTRIBUTE\<close> bits of the PI specification;
  \<^item> \<open>region_row\<close>: one initialiser of a \<open>gMemoryDescriptor\<close> array, its fields in the order of
    the source.

  The maps themselves are in the theories \<open>PlatformMaps1\<close> to \<open>PlatformMaps6\<close>, one definition
  per platform. \<open>map_ok\<close> is what is computed on each: it looks only at the regions at or
  above the system memory base, which are the ones whose end the validation compares.
\<close>

section \<open>Short names\<close>

abbreviation SYS_MEM :: efi_resource_type where "SYS_MEM \<equiv> EFI_RESOURCE_SYSTEM_MEMORY"
abbreviation MEM_RES :: efi_resource_type where "MEM_RES \<equiv> EFI_RESOURCE_MEMORY_RESERVED"
abbreviation MMAP_IO :: efi_resource_type where "MMAP_IO \<equiv> EFI_RESOURCE_MEMORY_MAPPED_IO"

definition INITIALIZED :: u32 where "INITIALIZED = 0x2"
definition UNCACHEABLE :: u32 where "UNCACHEABLE = 0x400"
definition WRITE_COMBINEABLE :: u32 where "WRITE_COMBINEABLE = 0x800"

text \<open>Present, initialised, tested, the four cacheability bits, and the three bits that say
  that execution, reading and writing can be protected.\<close>

definition SYS_MEM_CAP :: u32 where
  "SYS_MEM_CAP = 0x1 OR 0x2 OR 0x4 OR 0x400 OR 0x800 OR 0x1000 OR 0x2000
     OR 0x400000 OR 0x100000 OR 0x200000"

abbreviation BsCode :: efi_memory_type where "BsCode \<equiv> EfiBootServicesCode"
abbreviation BsData :: efi_memory_type where "BsData \<equiv> EfiBootServicesData"
abbreviation Conv :: efi_memory_type where "Conv \<equiv> EfiConventionalMemory"
abbreviation MmIO :: efi_memory_type where "MmIO \<equiv> EfiMemoryMappedIO"
abbreviation Reserv :: efi_memory_type where "Reserv \<equiv> EfiReservedMemoryType"
abbreviation RtData :: efi_memory_type where "RtData \<equiv> EfiRuntimeServicesData"

abbreviation DEVICE :: arm_memory_region_attributes where
  "DEVICE \<equiv> ARM_MEMORY_REGION_ATTRIBUTE_DEVICE"
abbreviation NS_DEVICE :: arm_memory_region_attributes where
  "NS_DEVICE \<equiv> ARM_MEMORY_REGION_ATTRIBUTE_DEVICE"
abbreviation UNCACHED_UNBUFFERED :: arm_memory_region_attributes where
  "UNCACHED_UNBUFFERED \<equiv> ARM_MEMORY_REGION_ATTRIBUTE_UNCACHED_UNBUFFERED"
abbreviation UNCACHED_UNBUFFERED_XN :: arm_memory_region_attributes where
  "UNCACHED_UNBUFFERED_XN \<equiv> ARM_MEMORY_REGION_ATTRIBUTE_UNCACHED_UNBUFFERED"
abbreviation WRITE_BACK :: arm_memory_region_attributes where
  "WRITE_BACK \<equiv> ARM_MEMORY_REGION_ATTRIBUTE_WRITE_BACK"
abbreviation WRITE_BACK_XN :: arm_memory_region_attributes where
  "WRITE_BACK_XN \<equiv> ARM_MEMORY_REGION_ATTRIBUTE_WRITE_BACK"
abbreviation WRITE_THROUGH :: arm_memory_region_attributes where
  "WRITE_THROUGH \<equiv> ARM_MEMORY_REGION_ATTRIBUTE_WRITE_THROUGH"
abbreviation WRITE_THROUGH_XN :: arm_memory_region_attributes where
  "WRITE_THROUGH_XN \<equiv> ARM_MEMORY_REGION_ATTRIBUTE_WRITE_THROUGH"

definition region_row ::
    "string \<Rightarrow> u64 \<Rightarrow> u64 \<Rightarrow> efi_memory_hob_option \<Rightarrow> efi_resource_type \<Rightarrow> u32
      \<Rightarrow> efi_memory_type \<Rightarrow> arm_memory_region_attributes \<Rightarrow> region" where
  "region_row n a l h t c m r = \<lparr> Name = n, Address = a, Length = l, HobOption = h,
     ResourceType = t, ResourceAttribute = c, MemoryType = m, ArmAttributes = r \<rparr>"

lemma region_row_sel [simp]:
  "Name (region_row n a l h t c m r) = n" "Address (region_row n a l h t c m r) = a"
  "Length (region_row n a l h t c m r) = l" "HobOption (region_row n a l h t c m r) = h"
  by (simp_all add: region_row_def)

definition GetMemoryMap :: "region list \<Rightarrow> region list \<times> u8" where
  "GetMemoryMap gMemoryDescriptor = (gMemoryDescriptor, of_nat (length gMemoryDescriptor))"

section \<open>What is checked of a map\<close>

text \<open>The spans (address, length) of the regions the validation looks at, by address.\<close>

definition span_of :: "region \<Rightarrow> nat \<times> nat" where
  "span_of r = (unat (Address r), unat (Length r))"

definition ram_spans :: "nat \<Rightarrow> (nat \<times> nat) list \<Rightarrow> (nat \<times> nat) list" where
  "ram_spans base ss = sort_key fst (filter (\<lambda>s. base \<le> fst s) ss)"

fun spans_apart :: "(nat \<times> nat) list \<Rightarrow> bool" where
  "spans_apart ((a, l) # (b, k) # ss) \<longleftrightarrow> a + l \<le> b \<and> a < b \<and> spans_apart ((b, k) # ss)"
| "spans_apart _ \<longleftrightarrow> True"

definition spans_ok :: "nat \<Rightarrow> (nat \<times> nat) list \<Rightarrow> bool" where
  "spans_ok base ss \<longleftrightarrow> length ss \<le> 128 \<and> spans_apart (ram_spans base ss)"

definition map_ok :: "u64 \<Rightarrow> region list \<Rightarrow> bool" where
  "map_ok base mm \<longleftrightarrow> spans_ok (unat base) (map span_of mm)"

text \<open>The regions that the first code of the firmware looks up by name, in either spelling, and
  that no region is empty or at address 0 (which that code takes for not found).\<close>

definition lists_region :: "string \<Rightarrow> region list \<Rightarrow> bool" where
  "lists_region n mm \<longleftrightarrow> n \<in> set (map Name mm)"

definition boot_regions :: "region list \<Rightarrow> bool" where
  "boot_regions mm \<longleftrightarrow>
     (lists_region ''Display Reserved'' mm \<or> lists_region ''Display_Reserved'' mm) \<and>
     (lists_region ''DXE Heap'' mm \<or> lists_region ''DXE_Heap'' mm)"

lemma lists_region_here: "lists_region n (region_row n a l h t c m r # rs)"
  by (simp add: lists_region_def)

lemma lists_region_skip: "lists_region n rs \<Longrightarrow> lists_region n (d # rs)"
  by (simp add: lists_region_def)

lemma boot_regionsI:
  "lists_region ''Display Reserved'' mm \<Longrightarrow> lists_region ''DXE Heap'' mm \<Longrightarrow> boot_regions mm"
  "lists_region ''Display_Reserved'' mm \<Longrightarrow> lists_region ''DXE_Heap'' mm \<Longrightarrow> boot_regions mm"
  by (simp_all add: boot_regions_def)

definition none_null :: "region list \<Rightarrow> bool" where
  "none_null mm \<longleftrightarrow> list_all (\<lambda>s. fst s \<noteq> 0 \<and> snd s \<noteq> 0) (map span_of mm)"

text \<open>How the check is computed: literals of the source become naturals in one pass.\<close>

lemma unat_u64_numeral:
  "(numeral k :: nat) < 0x10000000000000000 \<Longrightarrow> unat (numeral k :: u64) = numeral k"
  unfolding unsigned_numeral by (simp only: of_nat_id) (rule take_bit_nat_eq_self, simp)

lemma span_of_row: "span_of (region_row n a l h t c m r) = (unat a, unat l)"
  by (simp add: span_of_def)

lemmas span_eval = map_ok_def none_null_def list.map span_of_row unat_u64_numeral numeral_less_iff
  less_num_simps simp_thms unsigned_0

lemma spans_apart_sorted_wrt:
  "spans_apart ss \<Longrightarrow> sorted_wrt (\<lambda>(a, l) (b, k). a + l \<le> b \<and> a < b) ss"
proof (induction ss rule: spans_apart.induct)
  case (1 a l b k ss)
  then have "sorted_wrt (\<lambda>(a, l) (b, k). a + l \<le> b \<and> a < b) ((b, k) # ss)"
    and "a + l \<le> b" "a < b" by simp_all
  then show ?case by fastforce
qed simp_all

lemma mset_map_cong: "mset xs = mset ys \<Longrightarrow> mset (map f xs) = mset (map f ys)"
  by simp

lemma filter_sorts:
  assumes srt: "sorts_with CompareMemoryRegions srt"
    and apart: "spans_apart (ram_spans (unat base) (map span_of mm))"
  shows "map span_of (filter (\<lambda>r. base \<le> Address r) (srt mm)) = ram_spans (unat base) (map span_of mm)"
    (is "?xs = ?ys")
proof -
  have "sorted_wrt (<) (map fst ?ys)"
    using spans_apart_sorted_wrt [OF apart]
    by (auto simp: sorted_wrt_map elim: sorted_wrt_mono_rel [rotated])
  then have ys: "sorted (map fst ?ys)" "distinct (map fst ?ys)"
    by (simp_all add: strict_sorted_iff)
  have "mset (srt mm) = mset mm" using srt by (simp add: sorts_with_def)
  then have ms: "mset ?xs = mset ?ys"
    by (simp add: ram_spans_def filter_map comp_def span_of_def word_le_nat_alt)
  have "distinct (map fst ?xs)"
    using mset_eq_imp_distinct_iff [OF mset_map_cong [OF ms]] ys(2) by (rule iffD2)
  moreover have "sorted (map fst ?xs)"
    using region_order.sorted_keys [OF srt, of mm]
    by (simp add: sorted_wrt_map sorted_wrt_filter span_of_def word_le_nat_alt)
  moreover have "set ?xs = set ?ys" using ms by (rule mset_eq_setD)
  moreover have "inj_on fst (set ?xs \<union> set ?ys)"
    using ys(2) calculation(3) by (simp add: distinct_map)
  ultimately show ?thesis using ys by (intro map_sorted_distinct_set_unique [of fst])
qed

lemma keeps_clear_above:
  assumes "sorted_wrt (\<lambda>d e. Address d \<le> Address e) rs"
    and "sorted_wrt (keeps_clear base) (filter (\<lambda>r. base \<le> Address r) rs)"
  shows "sorted_wrt (keeps_clear base) rs"
  using assms by (induction rs) (auto simp: keeps_clear_def split: if_splits)

lemma keeps_clear_span:
  assumes "unat (Address d) + unat (Length d) \<le> unat (Address e)"
  shows "keeps_clear base d e"
proof -
  have "unat (Address d) + unat (Length d) < 2 ^ 64"
    using le_less_trans [OF assms unsigned_less] by simp
  then show ?thesis using assms by (simp add: keeps_clear_def word_le_nat_alt unat_add_nowrap)
qed

lemma map_ok_validates:
  assumes srt: "sorts_with CompareMemoryRegions srt" and ok: "map_ok base mm"
  shows "ValidateMemoryMap dbg srt base mm = Inr (srt mm)"
proof -
  have "sorted_wrt (\<lambda>(a, l) (b, k). a + l \<le> b \<and> a < b)
      (map span_of (filter (\<lambda>r. base \<le> Address r) (srt mm)))"
    using ok by (simp add: map_ok_def spans_ok_def filter_sorts [OF srt] spans_apart_sorted_wrt)
  then have "sorted_wrt (keeps_clear base) (filter (\<lambda>r. base \<le> Address r) (srt mm))"
    by (auto simp: sorted_wrt_map span_of_def keeps_clear_span elim: sorted_wrt_mono_rel [rotated])
  then show ?thesis
    using keeps_clear_above [OF region_order.sorted_keys [OF srt]] ok
    by (simp add: validate_Inr_iff [OF srt] map_ok_def spans_ok_def)
qed

text \<open>Most maps list those regions in ascending order already.\<close>

fun in_order :: "nat \<Rightarrow> nat \<Rightarrow> nat \<Rightarrow> (nat \<times> nat) list \<Rightarrow> bool" where
  "in_order base room low [] \<longleftrightarrow> True"
| "in_order base room low ((a, l) # ss) \<longleftrightarrow> room > 0 \<and> a > 0 \<and> l > 0 \<and>
     (if a < base then in_order base (room - 1) low ss
      else low \<le> a \<and> in_order base (room - 1) (a + l) ss)"

lemma in_order_parts:
  assumes "in_order base room low ss"
  shows "length ss \<le> room" "list_all (\<lambda>s. fst s \<noteq> 0 \<and> snd s \<noteq> 0) ss"
    "spans_apart (filter (\<lambda>s. base \<le> fst s) ss)"
    "\<forall>s \<in> set ss. base \<le> fst s \<longrightarrow> low \<le> fst s"
proof -
  have "length ss \<le> room \<and> list_all (\<lambda>s. fst s \<noteq> 0 \<and> snd s \<noteq> 0) ss
    \<and> (\<forall>s \<in> set ss. base \<le> fst s \<longrightarrow> low \<le> fst s)
    \<and> sorted_wrt (\<lambda>s t. fst s + snd s \<le> fst t \<and> fst s < fst t) (filter (\<lambda>s. base \<le> fst s) ss)"
    using assms by (induction base room low ss rule: in_order.induct)
      (fastforce split: if_splits)+
  moreover have "spans_apart ts" if "sorted_wrt (\<lambda>s t. fst s + snd s \<le> fst t \<and> fst s < fst t) ts" for ts
    using that by (induction ts rule: spans_apart.induct) auto
  ultimately show "length ss \<le> room" "list_all (\<lambda>s. fst s \<noteq> 0 \<and> snd s \<noteq> 0) ss"
    "spans_apart (filter (\<lambda>s. base \<le> fst s) ss)"
    "\<forall>s \<in> set ss. base \<le> fst s \<longrightarrow> low \<le> fst s" by blast+
qed

lemma map_ok_in_order:
  assumes "in_order (unat base) 128 0 (map span_of mm)"
  shows "map_ok base mm" "none_null mm"
proof -
  let ?ss = "filter (\<lambda>s. unat base \<le> fst s) (map span_of mm)"
  have len: "length mm \<le> 128" and apart: "spans_apart ?ss" using in_order_parts [OF assms] by simp_all
  have "sorted (map fst ?ss)"
    using spans_apart_sorted_wrt [OF apart]
    by (auto simp: sorted_wrt_map elim: sorted_wrt_mono_rel [rotated])
  then have "sort_key fst ?ss = ?ss" by (rule sort_key_id_if_sorted)
  with len apart show "map_ok base mm" by (simp add: map_ok_def spans_ok_def ram_spans_def)
  show "none_null mm" using in_order_parts [OF assms] by (simp add: none_null_def)
qed

text \<open>One pair of overlapping regions of system memory is enough to stop the boot.\<close>

lemma map_clash_halts:
  assumes srt: "sorts_with CompareMemoryRegions srt" and "length mm \<le> 128"
    and "d \<in> set mm" "e \<in> set mm" "base \<le> Address d" "Address d < Address e"
    and "Address e < Address d + Length d"
  shows "ValidateMemoryMap dbg srt base mm = Inl CPU_DEAD_LOOP"
proof -
  have "mset (srt mm) = mset mm" using srt by (simp add: sorts_with_def)
  then have "d \<in> set (srt mm)" "e \<in> set (srt mm)" using assms by (metis set_mset_mset)+
  then obtain i j where ij: "i < length (srt mm)" "j < length (srt mm)"
    "srt mm ! i = d" "srt mm ! j = e" by (meson in_set_conv_nth)
  have sw: "sorted_wrt (\<lambda>d e. Address d \<le> Address e) (srt mm)"
    by (rule region_order.sorted_keys [OF srt])
  have "i < j"
  proof (rule ccontr)
    assume "\<not> i < j"
    then have "j < i \<or> i = j" by auto
    then have "Address e \<le> Address d" using sw ij by (auto simp: sorted_wrt_iff_nth_less)
    with assms(6) show False by simp
  qed
  then have "\<not> sorted_wrt (keeps_clear base) (srt mm)"
    using ij assms(5,7) by (auto simp: sorted_wrt_iff_nth_less keeps_clear_def not_le)
  then have "overlap_loop base (srt mm) False" using overlap_loop_iff [OF sw] by blast
  then show ?thesis using assms(2) by (simp add: ValidateMemoryMap_def)
qed

section \<open>A shipped map\<close>

text \<open>What is proved of the map of each platform; the flag says whether it passes the
  validation.\<close>

definition ships :: "bool \<Rightarrow> u64 \<Rightarrow> region list \<Rightarrow> bool" where
  "ships passes base mm \<longleftrightarrow> boot_regions mm \<and> none_null mm \<and> length mm \<le> 128 \<and>
     (if passes then map_ok base mm
      else \<exists>d \<in> set mm. \<exists>e \<in> set mm. base \<le> Address d \<and> Address d < Address e \<and>
        Address e < Address d + Length d)"

lemma shipsI:
  assumes "boot_regions mm" "none_null mm" "map_ok base mm"
  shows "ships True base mm"
  using assms by (simp add: ships_def map_ok_def spans_ok_def)

lemma shipsI_in_order:
  assumes "boot_regions mm" "in_order (unat base) 128 0 (map span_of mm)"
  shows "ships True base mm"
  using assms map_ok_in_order by (intro shipsI)

lemma clashI:
  assumes "boot_regions mm" "none_null mm" "length mm \<le> 128" "d \<in> set mm" "e \<in> set mm"
    and "base \<le> Address d" "Address d < Address e" "Address e < Address d + Length d"
  shows "ships False base mm"
  using assms by (auto simp: ships_def)

lemma ships_verdict:
  assumes "sorts_with CompareMemoryRegions srt" "ships passes base mm"
  shows "ValidateMemoryMap dbg srt base mm = (if passes then Inr (srt mm) else Inl CPU_DEAD_LOOP)"
  using assms map_ok_validates map_clash_halts by (cases passes) (auto simp: ships_def)

end
