(* ===== verification/PlatformMaps1.thy ===== *)
theory PlatformMaps1
  imports PlatformMap
begin

text \<open>
  Memory maps of the platforms, one definition per \<open>gMemoryDescriptor\<close> array of
  \<open>src/Platforms/<vendor>/<name>Pkg/Library/MemoryMapLib/MemoryMapLib.c\<close>, each with the check of
  what the pre-DXE phase needs of it:

  \<^item> \<open>Asus/i005dPkg\<close>;
  \<^item> \<open>LG/caymanslmPkg\<close>;
  \<^item> \<open>LG/mh2Pkg\<close>;
  \<^item> \<open>Lenovo/9707fPkg\<close>;
  \<^item> \<open>Lenovo/j706fPkg\<close>;
  \<^item> \<open>Motorola/capripPkg\<close>;
  \<^item> \<open>Motorola/cebuPkg\<close>;
  \<^item> \<open>Nintendo/nxPkg\<close>;
  \<^item> \<open>Nothing/pongPkg\<close>;
  \<^item> \<open>Nothing/spacewarPkg\<close>;
  \<^item> \<open>OnePlus/astonPkg\<close>;
  \<^item> \<open>OnePlus/cheeseburgerPkg\<close>;
  \<^item> \<open>OnePlus/dodgePkg\<close>;
  \<^item> \<open>OnePlus/enchiladaPkg\<close>;
  \<^item> \<open>OnePlus/giuliaPkg\<close>.
\<close>

definition gMemoryDescriptor_i005d :: "region list" where
  "gMemoryDescriptor_i005d = [
    region_row ''HYP'' 0x80000000 0x00600000 AddMem SYS_MEM SYS_MEM_CAP Reserv WRITE_BACK_XN,
    region_row ''Axon DMA'' 0x80600000 0x00100000 AddMem SYS_MEM SYS_MEM_CAP Reserv WRITE_BACK_XN,
    region_row ''BOOT'' 0x80700000 0x00100000 AddMem MEM_RES SYS_MEM_CAP BsData WRITE_BACK_XN,
    region_row ''AOP CMD DB'' 0x80860000 0x00020000 AddMem MEM_RES UNCACHEABLE Reserv UNCACHED_UNBUFFERED_XN,
    region_row ''XBL Log Buffer'' 0x80884000 0x00010000 AddMem SYS_MEM SYS_MEM_CAP Reserv WRITE_BACK_XN,
    region_row ''SMEM'' 0x80900000 0x00200000 AddMem MEM_RES UNCACHEABLE Reserv UNCACHED_UNBUFFERED_XN,
    region_row ''PIL Reserved'' 0x85200000 0x16600000 AddMem MEM_RES UNCACHEABLE Reserv UNCACHED_UNBUFFERED_XN,
    region_row ''Sched Heap'' 0x9f400000 0x00400000 AddMem SYS_MEM SYS_MEM_CAP BsData WRITE_BACK_XN,
    region_row ''FV Region'' 0x9f800000 0x00200000 AddMem SYS_MEM SYS_MEM_CAP BsData WRITE_BACK_XN,
    region_row ''ABOOT FV'' 0x9fa00000 0x00200000 AddMem SYS_MEM SYS_MEM_CAP Reserv WRITE_BACK_XN,
    region_row ''FD Reserved'' 0x9fc00000 0x00100000 AddMem SYS_MEM SYS_MEM_CAP BsData WRITE_BACK,
    region_row ''UEFI FD'' 0x9fd00000 0x00200000 AddMem SYS_MEM SYS_MEM_CAP BsData WRITE_BACK,
    region_row ''SEC Heap'' 0x9ff00000 0x0008c000 AddMem SYS_MEM SYS_MEM_CAP BsData WRITE_BACK_XN,
    region_row ''MMU PageTables'' 0x9ff8d000 0x00003000 AddMem SYS_MEM SYS_MEM_CAP BsData WRITE_BACK_XN,
    region_row ''UEFI Stack'' 0x9ff90000 0x00040000 AddMem SYS_MEM SYS_MEM_CAP BsData WRITE_BACK_XN,
    region_row ''Log Buffer'' 0x9fff7000 0x00008000 AddMem SYS_MEM SYS_MEM_CAP RtData WRITE_BACK_XN,
    region_row ''Info Blk'' 0x9ffff000 0x00001000 AddMem SYS_MEM SYS_MEM_CAP RtData WRITE_BACK_XN,
    region_row ''Kernel'' 0xa0000000 0x10000000 AddMem SYS_MEM SYS_MEM_CAP Reserv WRITE_BACK_XN,
    region_row ''DXE Heap'' 0xb0000000 0x04500000 AddMem SYS_MEM SYS_MEM_CAP Conv WRITE_BACK_XN,
    region_row ''Guest VM'' 0xd0000000 0x08800000 AddMem SYS_MEM SYS_MEM_CAP Reserv WRITE_BACK_XN,
    region_row ''TZApps Reserved'' 0xda000000 0x07900000 HobOnlyNoCacheSetting MEM_RES UNCACHEABLE Reserv UNCACHED_UNBUFFERED_XN,
    region_row ''DBI Dump'' 0xe4000000 0x00f00000 NoHob MMAP_IO INITIALIZED Conv UNCACHED_UNBUFFERED_XN,
    region_row ''Display Reserved'' 0xe5000000 0x02400000 AddMem MEM_RES SYS_MEM_CAP Reserv WRITE_THROUGH_XN,
    region_row ''IMEM Base'' 0x14680000 0x00040000 NoHob MMAP_IO INITIALIZED Conv NS_DEVICE,
    region_row ''IMEM Cookie Base'' 0x146bf000 0x00001000 AddDev MMAP_IO INITIALIZED Conv NS_DEVICE,
    region_row ''IPC_ROUTER_TOP'' 0x00400000 0x00100000 AddDev MMAP_IO UNCACHEABLE MmIO NS_DEVICE,
    region_row ''SECURITY CONTROL'' 0x00780000 0x00007000 AddDev MMAP_IO UNCACHEABLE MmIO NS_DEVICE,
    region_row ''QUP'' 0x00800000 0x00300000 AddDev MMAP_IO UNCACHEABLE MmIO NS_DEVICE,
    region_row ''PRNG_CFG_PRNG'' 0x010d0000 0x00010000 AddDev MMAP_IO UNCACHEABLE MmIO NS_DEVICE,
    region_row ''TCSR_TCSR_REGS'' 0x01fc0000 0x00030000 AddDev MMAP_IO UNCACHEABLE MmIO NS_DEVICE,
    region_row ''PERIPH_SS'' 0x08800000 0x00200000 AddDev MMAP_IO UNCACHEABLE MmIO NS_DEVICE,
    region_row ''USB'' 0x0a600000 0x04000000 AddDev MMAP_IO UNCACHEABLE MmIO NS_DEVICE,
    region_row ''AOSS'' 0x0b000000 0x04000000 AddDev MMAP_IO UNCACHEABLE MmIO NS_DEVICE,
    region_row ''TLMM_WEST'' 0x0f100000 0x00300000 AddDev MMAP_IO UNCACHEABLE MmIO NS_DEVICE,
    region_row ''TLMM_SOUTH'' 0x0f500000 0x00300000 AddDev MMAP_IO UNCACHEABLE MmIO NS_DEVICE,
    region_row ''TLMM_NORTH'' 0x0f900000 0x00300000 AddDev MMAP_IO UNCACHEABLE MmIO NS_DEVICE,
    region_row ''SMMU'' 0x15000000 0x000d0000 AddDev MMAP_IO UNCACHEABLE MmIO NS_DEVICE,
    region_row ''APSS_HM'' 0x17800000 0x00d99000 AddDev MMAP_IO UNCACHEABLE MmIO NS_DEVICE]"

lemma ships_i005d: "ships True 0x80000000 gMemoryDescriptor_i005d"
  apply (rule shipsI_in_order)
  subgoal by (rule boot_regionsI(1); unfold gMemoryDescriptor_i005d_def; (rule lists_region_here | rule lists_region_skip)+)
  subgoal unfolding gMemoryDescriptor_i005d_def by (simp only: span_eval) simp
  done

definition gMemoryDescriptor_caymanslm :: "region list" where
  "gMemoryDescriptor_caymanslm = [
    region_row ''Kernel'' 0x80000000 0x05700000 AddMem SYS_MEM SYS_MEM_CAP Reserv WRITE_BACK_XN,
    region_row ''QTEE'' 0x85fc0000 0x02f40000 AddMem MEM_RES UNCACHEABLE Reserv UNCACHED_UNBUFFERED_XN,
    region_row ''AOP CMD DB'' 0x85fe0000 0x00020000 AddMem SYS_MEM SYS_MEM_CAP Reserv WRITE_BACK_XN,
    region_row ''SMEM'' 0x86000000 0x00200000 AddMem MEM_RES UNCACHEABLE Reserv UNCACHED_UNBUFFERED_XN,
    region_row ''DXE Heap'' 0x97c00000 0x05730000 AddMem SYS_MEM SYS_MEM_CAP Conv WRITE_BACK_XN,
    region_row ''DBI Dump'' 0x9d330000 0x000d0000 NoHob MMAP_IO INITIALIZED Conv NS_DEVICE,
    region_row ''Display Reserved'' 0x9d400000 0x02400000 AddMem MEM_RES SYS_MEM_CAP Reserv WRITE_THROUGH_XN,
    region_row ''FV Region'' 0x9f800000 0x00200000 AddMem SYS_MEM SYS_MEM_CAP BsData WRITE_BACK_XN,
    region_row ''ABOOT FV'' 0x9fa00000 0x00200000 AddMem SYS_MEM SYS_MEM_CAP Reserv WRITE_BACK_XN,
    region_row ''UEFI FD'' 0x9fc00000 0x00300000 AddMem SYS_MEM SYS_MEM_CAP BsData WRITE_BACK,
    region_row ''SEC Heap'' 0x9ff00000 0x0008c000 AddMem SYS_MEM SYS_MEM_CAP BsData WRITE_BACK_XN,
    region_row ''MMU PageTables'' 0x9ff8d000 0x00003000 AddMem SYS_MEM SYS_MEM_CAP BsData WRITE_BACK_XN,
    region_row ''UEFI Stack'' 0x9ff90000 0x00040000 AddMem SYS_MEM SYS_MEM_CAP BsData WRITE_BACK_XN,
    region_row ''Log Buffer'' 0x9fff7000 0x00008000 AddMem SYS_MEM SYS_MEM_CAP RtData WRITE_BACK_XN,
    region_row ''Info Blk'' 0x9ffff000 0x00001000 AddMem SYS_MEM SYS_MEM_CAP RtData WRITE_BACK_XN,
    region_row ''AOP_SS_MSG_RAM'' 0x0c300000 0x00100000 NoHob MMAP_IO INITIALIZED Conv NS_DEVICE,
    region_row ''IMEM Base'' 0x14680000 0x0003f000 NoHob MMAP_IO INITIALIZED Conv NS_DEVICE,
    region_row ''IMEM Cookie Base'' 0x146bf000 0x00001000 AddDev MMAP_IO INITIALIZED Conv NS_DEVICE,
    region_row ''GCC CLK CTL'' 0x00100000 0x000b0000 AddDev MMAP_IO UNCACHEABLE MmIO NS_DEVICE,
    region_row ''SECURITY CONTROL'' 0x00780000 0x00007000 AddDev MMAP_IO UNCACHEABLE MmIO NS_DEVICE,
    region_row ''PRNG_CFG_PRNG'' 0x00790000 0x00010000 AddDev MMAP_IO UNCACHEABLE MmIO NS_DEVICE,
    region_row ''QUPV3_0_GSI'' 0x00800000 0x000d0000 AddDev MMAP_IO UNCACHEABLE MmIO NS_DEVICE,
    region_row ''QUPV3_1_GSI'' 0x00a00000 0x000d0000 AddDev MMAP_IO UNCACHEABLE MmIO NS_DEVICE,
    region_row ''PCIE_0_WRAPPER_AHB'' 0x01c00000 0x00008000 AddDev MMAP_IO UNCACHEABLE MmIO NS_DEVICE,
    region_row ''PCIE_1_WRAPPER_AHB'' 0x01c08000 0x00008000 AddDev MMAP_IO UNCACHEABLE MmIO NS_DEVICE,
    region_row ''UFS UFS REGS'' 0x01d80000 0x00020000 AddDev MMAP_IO UNCACHEABLE MmIO NS_DEVICE,
    region_row ''CRYPTO0 CRYPTO'' 0x01dc0000 0x00040000 AddDev MMAP_IO UNCACHEABLE MmIO NS_DEVICE,
    region_row ''TCSR_TCSR_REGS'' 0x01fc0000 0x00030000 AddDev MMAP_IO UNCACHEABLE MmIO NS_DEVICE,
    region_row ''TLMM_EAST'' 0x03500000 0x00300000 AddDev MMAP_IO UNCACHEABLE MmIO NS_DEVICE,
    region_row ''TLMM_NORTH'' 0x03900000 0x00300000 AddDev MMAP_IO UNCACHEABLE MmIO NS_DEVICE,
    region_row ''TLMM_SOUTH'' 0x03d00000 0x00300000 AddDev MMAP_IO UNCACHEABLE MmIO NS_DEVICE,
    region_row ''GPU_CPR'' 0x0509a000 0x00004000 AddDev MMAP_IO UNCACHEABLE MmIO NS_DEVICE,
    region_row ''RPMH_CPRF'' 0x0c200000 0x0000f000 AddDev MMAP_IO UNCACHEABLE MmIO NS_DEVICE,
    region_row ''GPU_GMU_GX_BLK'' 0x0506a000 0x00001000 AddDev MMAP_IO UNCACHEABLE MmIO NS_DEVICE,
    region_row ''GPU_GMU_CX_BLK'' 0x0507d000 0x0000c000 AddDev MMAP_IO UNCACHEABLE MmIO NS_DEVICE,
    region_row ''GPU_CC'' 0x05090000 0x00010000 AddDev MMAP_IO UNCACHEABLE MmIO NS_DEVICE,
    region_row ''GPU_ISENSE'' 0x0508b000 0x00002000 AddDev MMAP_IO UNCACHEABLE MmIO NS_DEVICE,
    region_row ''QUPV3_SSC_GSI'' 0x05a00000 0x000d0000 AddDev MMAP_IO UNCACHEABLE MmIO NS_DEVICE,
    region_row ''PERIPH_SS'' 0x08800000 0x00200000 AddDev MMAP_IO UNCACHEABLE MmIO NS_DEVICE,
    region_row ''USB30_PRIM'' 0x0a600000 0x0011b000 AddDev MMAP_IO UNCACHEABLE MmIO NS_DEVICE,
    region_row ''USB30_SEC'' 0x0a800000 0x0011b000 AddDev MMAP_IO UNCACHEABLE MmIO NS_DEVICE,
    region_row ''VIDEO_CC'' 0x0ab00000 0x00010000 AddDev MMAP_IO UNCACHEABLE MmIO NS_DEVICE,
    region_row ''TITAN_A_CCI'' 0x0ac4a000 0x00004000 AddDev MMAP_IO UNCACHEABLE MmIO NS_DEVICE,
    region_row ''TITAN_CAM_CC'' 0x0ad00000 0x00010000 AddDev MMAP_IO UNCACHEABLE MmIO NS_DEVICE,
    region_row ''MDSS'' 0x0ae00000 0x00134000 AddDev MMAP_IO UNCACHEABLE MmIO NS_DEVICE,
    region_row ''DISP_CC'' 0x0af00000 0x00020000 AddDev MMAP_IO UNCACHEABLE MmIO NS_DEVICE,
    region_row ''PDC_DISPLAY'' 0x0b290000 0x00010000 AddDev MMAP_IO UNCACHEABLE MmIO NS_DEVICE,
    region_row ''PDC_DISP_SEQ'' 0x0b490000 0x00010000 AddDev MMAP_IO UNCACHEABLE MmIO NS_DEVICE,
    region_row ''RPMH_BCM_BCM_TOP'' 0x0ba00000 0x00200000 AddDev MMAP_IO UNCACHEABLE MmIO NS_DEVICE,
    region_row ''SLP_CNTR'' 0x0c221000 0x00001000 AddDev MMAP_IO UNCACHEABLE MmIO NS_DEVICE,
    region_row ''TSENS0'' 0x0c222000 0x00001000 AddDev MMAP_IO UNCACHEABLE MmIO NS_DEVICE,
    region_row ''TSENS1'' 0x0c223000 0x00001000 AddDev MMAP_IO UNCACHEABLE MmIO NS_DEVICE,
    region_row ''TSENS0_TM'' 0x0c263000 0x00001000 AddDev MMAP_IO UNCACHEABLE MmIO NS_DEVICE,
    region_row ''PSHOLD'' 0x0c264000 0x00001000 AddDev MMAP_IO UNCACHEABLE MmIO NS_DEVICE,
    region_row ''TSENS1_TM'' 0x0c265000 0x00001000 AddDev MMAP_IO UNCACHEABLE MmIO NS_DEVICE,
    region_row ''PMIC_ARB_SPMI'' 0x0c400000 0x02800000 AddDev MMAP_IO UNCACHEABLE MmIO NS_DEVICE,
    region_row ''SMMU'' 0x15000000 0x000d0000 AddDev MMAP_IO UNCACHEABLE MmIO NS_DEVICE,
    region_row ''GOLD_SAW4_SRM'' 0x17830000 0x00001000 AddDev MMAP_IO UNCACHEABLE MmIO NS_DEVICE,
    region_row ''SILVER_SAW4_SRM'' 0x17840000 0x00001000 AddDev MMAP_IO UNCACHEABLE MmIO NS_DEVICE,
    region_row ''GOLD_CLK_CTL'' 0x178b0000 0x00001000 AddDev MMAP_IO UNCACHEABLE MmIO NS_DEVICE,
    region_row ''SILVER_CLK_CTL'' 0x178c0000 0x00001000 AddDev MMAP_IO UNCACHEABLE MmIO NS_DEVICE,
    region_row ''L3_CLK_CTL'' 0x178d0000 0x00001000 AddDev MMAP_IO UNCACHEABLE MmIO NS_DEVICE,
    region_row ''APSS_WDT_TMR1'' 0x17980000 0x00001000 AddDev MMAP_IO UNCACHEABLE MmIO NS_DEVICE,
    region_row ''APSS_RSC_RSCCR'' 0x179c0000 0x00030000 AddDev MMAP_IO UNCACHEABLE MmIO NS_DEVICE,
    region_row ''APSS_GIC500_GICD'' 0x17a00000 0x00010000 AddDev MMAP_IO UNCACHEABLE MmIO NS_DEVICE,
    region_row ''APSS_GIC500_GICR'' 0x17a60000 0x00100000 AddDev MMAP_IO UNCACHEABLE MmIO NS_DEVICE,
    region_row ''QTIMER'' 0x17c00000 0x00110000 AddDev MMAP_IO UNCACHEABLE MmIO NS_DEVICE,
    region_row ''OSM'' 0x17d20000 0x000b0000 AddDev MMAP_IO UNCACHEABLE MmIO NS_DEVICE,
    region_row ''PCIE_1_WRAPPER_AXI'' 0x40000000 0x02000000 AddDev MMAP_IO UNCACHEABLE MmIO NS_DEVICE,
    region_row ''PCIE_0_WRAPPER_AXI'' 0x60000000 0x01000000 AddDev MMAP_IO UNCACHEABLE MmIO NS_DEVICE]"

lemma ships_caymanslm: "ships False 0x80000000 gMemoryDescriptor_caymanslm"
  apply (rule clashI [where d = "gMemoryDescriptor_caymanslm ! 1" and e = "gMemoryDescriptor_caymanslm ! 2"])
  subgoal by (rule boot_regionsI(1); unfold gMemoryDescriptor_caymanslm_def; (rule lists_region_here | rule lists_region_skip)+)
  subgoal unfolding gMemoryDescriptor_caymanslm_def by (simp only: span_eval) simp
  by (simp_all add: gMemoryDescriptor_caymanslm_def)

definition gMemoryDescriptor_mh2 :: "region list" where
  "gMemoryDescriptor_mh2 = [
    region_row ''Kernel'' 0x80000000 0x00600000 AddMem SYS_MEM SYS_MEM_CAP Conv WRITE_BACK_XN,
    region_row ''MPSS_EFS'' 0x81322000 0x00300000 AddMem SYS_MEM SYS_MEM_CAP Reserv UNCACHED_UNBUFFERED_XN,
    region_row ''HYP'' 0x85700000 0x00600000 AddMem SYS_MEM SYS_MEM_CAP Reserv NS_DEVICE,
    region_row ''AOP CMD DB'' 0x85f20000 0x00020000 AddMem MEM_RES WRITE_COMBINEABLE Reserv UNCACHED_UNBUFFERED_XN,
    region_row ''GPU PRR'' 0x85f40000 0x00010000 AddMem MEM_RES WRITE_COMBINEABLE Reserv UNCACHED_UNBUFFERED_XN,
    region_row ''SMEM'' 0x86000000 0x00200000 AddMem MEM_RES WRITE_COMBINEABLE Reserv UNCACHED_UNBUFFERED,
    region_row ''QTEE'' 0x86200000 0x01800000 AddMem MEM_RES UNCACHEABLE Reserv UNCACHED_UNBUFFERED_XN,
    region_row ''TZApps'' 0x87a00000 0x02b00000 AddMem MEM_RES UNCACHEABLE Reserv UNCACHED_UNBUFFERED_XN,
    region_row ''PIL Reserved'' 0x8b700000 0x10680000 AddMem SYS_MEM SYS_MEM_CAP Reserv UNCACHED_UNBUFFERED_XN,
    region_row ''Display Reserved'' 0x9d200000 0x01200000 AddMem MEM_RES SYS_MEM_CAP Reserv WRITE_THROUGH_XN,
    region_row ''TGCM'' 0x9e400000 0x01c00000 AddMem MEM_RES WRITE_COMBINEABLE Reserv UNCACHED_UNBUFFERED_XN,
    region_row ''UEFI FD'' 0xa0000000 0x00300000 AddMem SYS_MEM SYS_MEM_CAP BsData WRITE_BACK,
    region_row ''UEFI Stack'' 0xa0300000 0x00040000 AddMem SYS_MEM SYS_MEM_CAP BsData WRITE_BACK_XN,
    region_row ''Info Blk'' 0xa0340000 0x00001000 AddMem SYS_MEM SYS_MEM_CAP RtData WRITE_BACK_XN,
    region_row ''DXE Heap'' 0xa0341000 0x03c00000 AddMem SYS_MEM SYS_MEM_CAP Conv WRITE_BACK_XN,
    region_row ''AOP_SS_MSG_RAM'' 0x0c300000 0x00100000 NoHob MMAP_IO INITIALIZED Conv NS_DEVICE,
    region_row ''IMEM Base'' 0x14680000 0x00040000 NoHob MMAP_IO INITIALIZED Conv NS_DEVICE,
    region_row ''GCC_CLK_CTL'' 0x00100000 0x00200000 AddDev MMAP_IO UNCACHEABLE MmIO NS_DEVICE,
    region_row ''MMCX_CPR3'' 0x00630000 0x00004000 AddDev MMAP_IO UNCACHEABLE MmIO NS_DEVICE,
    region_row ''SECURITY CONTROL'' 0x00780000 0x00007000 AddDev MMAP_IO UNCACHEABLE MmIO NS_DEVICE,
    region_row ''PRNG_CFG_PRNG'' 0x00790000 0x00010000 AddDev MMAP_IO UNCACHEABLE MmIO NS_DEVICE,
    region_row ''QUPV3_0_GSI'' 0x00800000 0x000d0000 AddDev MMAP_IO UNCACHEABLE MmIO NS_DEVICE,
    region_row ''QUPV3_1_GSI'' 0x00a00000 0x000d0000 AddDev MMAP_IO UNCACHEABLE MmIO NS_DEVICE,
    region_row ''QUPV3_2_GSI'' 0x00c00000 0x000d0000 AddDev MMAP_IO UNCACHEABLE MmIO NS_DEVICE,
    region_row ''PCIE_0_WRAPPER_AHB'' 0x01c00000 0x00008000 AddDev MMAP_IO UNCACHEABLE MmIO NS_DEVICE,
    region_row ''PCIE_1_WRAPPER_AHB'' 0x01c08000 0x00008000 AddDev MMAP_IO UNCACHEABLE MmIO NS_DEVICE,
    region_row ''PCIE_2_WRAPPER_AHB'' 0x01c10000 0x00008000 AddDev MMAP_IO UNCACHEABLE MmIO NS_DEVICE,
    region_row ''PCIE_3_WRAPPER_AHB'' 0x01c18000 0x00008000 AddDev MMAP_IO UNCACHEABLE MmIO NS_DEVICE,
    region_row ''UFS2 UFS REGS'' 0x01d60000 0x00020000 AddDev MMAP_IO UNCACHEABLE MmIO NS_DEVICE,
    region_row ''UFS UFS REGS'' 0x01d80000 0x00020000 AddDev MMAP_IO UNCACHEABLE MmIO NS_DEVICE,
    region_row ''CRYPTO0 CRYPTO'' 0x01dc0000 0x00040000 AddDev MMAP_IO UNCACHEABLE MmIO NS_DEVICE,
    region_row ''TCSR_TCSR_REGS'' 0x01fc0000 0x00030000 AddDev MMAP_IO UNCACHEABLE MmIO NS_DEVICE,
    region_row ''GPU_GMU_CX_BLK'' 0x02c7d000 0x00002000 AddDev MMAP_IO UNCACHEABLE MmIO NS_DEVICE,
    region_row ''GPU_CC'' 0x02c90000 0x0000a000 AddDev MMAP_IO UNCACHEABLE MmIO NS_DEVICE,
    region_row ''GPU_CPR'' 0x02c9a000 0x00004000 AddDev MMAP_IO UNCACHEABLE MmIO NS_DEVICE,
    region_row ''TLMM_WEST'' 0x03100000 0x00300000 AddDev MMAP_IO UNCACHEABLE MmIO NS_DEVICE,
    region_row ''TLMM_EAST'' 0x03500000 0x00300000 AddDev MMAP_IO UNCACHEABLE MmIO NS_DEVICE,
    region_row ''TLMM_NORTH'' 0x03900000 0x00300000 AddDev MMAP_IO UNCACHEABLE MmIO NS_DEVICE,
    region_row ''TLMM_SOUTH'' 0x03d00000 0x00300000 AddDev MMAP_IO UNCACHEABLE MmIO NS_DEVICE,
    region_row ''QUPV3_SSC_GSI'' 0x05a00000 0x000d0000 AddDev MMAP_IO UNCACHEABLE MmIO NS_DEVICE,
    region_row ''PERIPH_SS'' 0x08800000 0x00200000 AddDev MMAP_IO UNCACHEABLE MmIO NS_DEVICE,
    region_row ''REFGEN_GEN3X2_AHB'' 0x088e5000 0x00004000 AddDev MMAP_IO UNCACHEABLE MmIO NS_DEVICE,
    region_row ''MCCC_MCCC_MSTR'' 0x090b0000 0x00001000 AddDev MMAP_IO UNCACHEABLE MmIO NS_DEVICE,
    region_row ''NPU_CC'' 0x09910000 0x00010000 AddDev MMAP_IO UNCACHEABLE MmIO NS_DEVICE,
    region_row ''USB30_MP'' 0x0a400000 0x0011b000 AddDev MMAP_IO UNCACHEABLE MmIO NS_DEVICE,
    region_row ''USB_MP_RUMI1'' 0x0a520000 0x00010000 AddDev MMAP_IO UNCACHEABLE MmIO NS_DEVICE,
    region_row ''USB_MP_RUMI2'' 0x0a522000 0x00010000 AddDev MMAP_IO UNCACHEABLE MmIO NS_DEVICE,
    region_row ''USB30_PRIM'' 0x0a600000 0x0011b000 AddDev MMAP_IO UNCACHEABLE MmIO NS_DEVICE,
    region_row ''USB_RUMI'' 0x0a720000 0x00010000 AddDev MMAP_IO UNCACHEABLE MmIO NS_DEVICE,
    region_row ''USB30_SEC'' 0x0a800000 0x0011b000 AddDev MMAP_IO UNCACHEABLE MmIO NS_DEVICE,
    region_row ''VIDEO_CC'' 0x0ab00000 0x00020000 AddDev MMAP_IO UNCACHEABLE MmIO NS_DEVICE,
    region_row ''TITAN_SS_TITAN_1'' 0x0ac00000 0x0004a000 AddDev MMAP_IO UNCACHEABLE MmIO NS_DEVICE,
    region_row ''TITAN_A_CCI'' 0x0ac4a000 0x00004000 AddDev MMAP_IO UNCACHEABLE MmIO NS_DEVICE,
    region_row ''TITAN_SS_TITAN_2'' 0x0ac4e000 0x000b2000 AddDev MMAP_IO UNCACHEABLE MmIO NS_DEVICE,
    region_row ''TITAN_CAM_CC'' 0x0ad00000 0x00020000 AddDev MMAP_IO UNCACHEABLE MmIO NS_DEVICE,
    region_row ''MDSS'' 0x0ae00000 0x00134000 AddDev MMAP_IO UNCACHEABLE MmIO NS_DEVICE,
    region_row ''DISP_CC'' 0x0af00000 0x00020000 AddDev MMAP_IO UNCACHEABLE MmIO NS_DEVICE,
    region_row ''PDC_DISPLAY'' 0x0b290000 0x00020000 AddDev MMAP_IO UNCACHEABLE MmIO NS_DEVICE,
    region_row ''PDC_DISP_SEQ'' 0x0b490000 0x00020000 AddDev MMAP_IO UNCACHEABLE MmIO NS_DEVICE,
    region_row ''RPMH_BCM_BCM_TOP'' 0x0ba00000 0x00200000 AddDev MMAP_IO UNCACHEABLE MmIO NS_DEVICE,
    region_row ''RPMH_CPRF_CPRF'' 0x0c200000 0x00010000 AddDev MMAP_IO UNCACHEABLE MmIO NS_DEVICE,
    region_row ''SLP_CNTR'' 0x0c221000 0x00001000 AddDev MMAP_IO UNCACHEABLE MmIO NS_DEVICE,
    region_row ''TSENS0'' 0x0c222000 0x00001000 AddDev MMAP_IO UNCACHEABLE MmIO NS_DEVICE,
    region_row ''TSENS1'' 0x0c223000 0x00001000 AddDev MMAP_IO UNCACHEABLE MmIO NS_DEVICE,
    region_row ''TSENS0_TM'' 0x0c263000 0x00001000 AddDev MMAP_IO UNCACHEABLE MmIO NS_DEVICE,
    region_row ''PSHOLD'' 0x0c264000 0x00001000 AddDev MMAP_IO UNCACHEABLE MmIO NS_DEVICE,
    region_row ''TSENS1_TM'' 0x0c265000 0x00001000 AddDev MMAP_IO UNCACHEABLE MmIO NS_DEVICE,
    region_row ''PMIC ARB SPMI'' 0x0c400000 0x02800000 AddDev MMAP_IO UNCACHEABLE MmIO NS_DEVICE,
    region_row ''SMMU'' 0x15000000 0x000d0000 AddDev MMAP_IO UNCACHEABLE MmIO NS_DEVICE,
    region_row ''APSS_GIC500_GICD'' 0x17a00000 0x00010000 AddDev MMAP_IO UNCACHEABLE MmIO NS_DEVICE,
    region_row ''APSS_GIC500_GICR'' 0x17a60000 0x00100000 AddDev MMAP_IO UNCACHEABLE MmIO NS_DEVICE,
    region_row ''APSS_IPC_INT'' 0x17c00000 0x00001000 AddDev MMAP_IO UNCACHEABLE MmIO NS_DEVICE,
    region_row ''APSS_WDT_TMR1'' 0x17c10000 0x00001000 AddDev MMAP_IO UNCACHEABLE MmIO NS_DEVICE,
    region_row ''QTIMER'' 0x17c20000 0x00110000 AddDev MMAP_IO UNCACHEABLE MmIO NS_DEVICE,
    region_row ''APSS_RSC_APPS_RSCC'' 0x18200000 0x00030000 AddDev MMAP_IO UNCACHEABLE MmIO NS_DEVICE,
    region_row ''SILVER_CLK_CTL'' 0x18280000 0x00001000 AddDev MMAP_IO UNCACHEABLE MmIO NS_DEVICE,
    region_row ''GOLD_CLK_CTL'' 0x18282000 0x00001000 AddDev MMAP_IO UNCACHEABLE MmIO NS_DEVICE,
    region_row ''L3_CLK_CTL'' 0x18284000 0x00001000 AddDev MMAP_IO UNCACHEABLE MmIO NS_DEVICE,
    region_row ''GOLDPLUS_CLK_CTL'' 0x18286000 0x00001000 AddDev MMAP_IO UNCACHEABLE MmIO NS_DEVICE,
    region_row ''SILVER_ACD'' 0x18290000 0x00001000 AddDev MMAP_IO UNCACHEABLE MmIO NS_DEVICE,
    region_row ''GOLD_ACD'' 0x18292000 0x00001000 AddDev MMAP_IO UNCACHEABLE MmIO NS_DEVICE,
    region_row ''L3_ACD'' 0x18294000 0x00001000 AddDev MMAP_IO UNCACHEABLE MmIO NS_DEVICE,
    region_row ''GOLDPLUS_ACD'' 0x18296000 0x00001000 AddDev MMAP_IO UNCACHEABLE MmIO NS_DEVICE,
    region_row ''APSS_ACTPM_WRAP'' 0x18300000 0x000b0000 AddDev MMAP_IO UNCACHEABLE MmIO NS_DEVICE,
    region_row ''PCIE_1_WRAPPER_AXI'' 0x40000000 0x02000000 AddDev MMAP_IO UNCACHEABLE MmIO NS_DEVICE,
    region_row ''PCIE_0_WRAPPER_AXI'' 0x60000000 0x02000000 AddDev MMAP_IO UNCACHEABLE MmIO NS_DEVICE]"

lemma ships_mh2: "ships True 0x80000000 gMemoryDescriptor_mh2"
  apply (rule shipsI_in_order)
  subgoal by (rule boot_regionsI(1); unfold gMemoryDescriptor_mh2_def; (rule lists_region_here | rule lists_region_skip)+)
  subgoal unfolding gMemoryDescriptor_mh2_def by (simp only: span_eval) simp
  done

definition gMemoryDescriptor_9707f :: "region list" where
  "gMemoryDescriptor_9707f = [
    region_row ''HYP'' 0x80000000 0x00600000 AddMem SYS_MEM SYS_MEM_CAP Reserv NS_DEVICE,
    region_row ''AOP CMD DB'' 0x80860000 0x00020000 AddMem MEM_RES UNCACHEABLE Reserv UNCACHED_UNBUFFERED_XN,
    region_row ''XBL Log Buffer'' 0x80884000 0x00010000 AddMem SYS_MEM SYS_MEM_CAP Reserv WRITE_BACK_XN,
    region_row ''SMEM'' 0x80900000 0x00200000 AddMem MEM_RES UNCACHEABLE Reserv UNCACHED_UNBUFFERED_XN,
    region_row ''TZApps Reserved'' 0x80b00000 0x05500000 HobOnlyNoCacheSetting MEM_RES UNCACHEABLE Reserv UNCACHED_UNBUFFERED_XN,
    region_row ''PIL Reserved'' 0x86000000 0x0d200000 AddMem MEM_RES UNCACHEABLE Reserv UNCACHED_UNBUFFERED_XN,
    region_row ''DXE Heap'' 0x98900000 0x03300000 AddMem SYS_MEM SYS_MEM_CAP Conv WRITE_BACK_XN,
    region_row ''Sched Heap'' 0x9bc00000 0x00400000 AddMem SYS_MEM SYS_MEM_CAP BsData WRITE_BACK_XN,
    region_row ''Display Reserved'' 0x9c000000 0x02400000 AddMem MEM_RES SYS_MEM_CAP Reserv WRITE_THROUGH_XN,
    region_row ''DBI Dump'' 0x9e400000 0x00f00000 NoHob MMAP_IO INITIALIZED Conv UNCACHED_UNBUFFERED_XN,
    region_row ''FV Region'' 0x9f800000 0x00200000 AddMem SYS_MEM SYS_MEM_CAP BsData WRITE_BACK_XN,
    region_row ''UEFI FD'' 0x9fc00000 0x00300000 AddMem SYS_MEM SYS_MEM_CAP BsData WRITE_BACK,
    region_row ''SEC Heap'' 0x9ff00000 0x0008c000 AddMem SYS_MEM SYS_MEM_CAP BsData WRITE_BACK_XN,
    region_row ''MMU PageTables'' 0x9ff8d000 0x00003000 AddMem SYS_MEM SYS_MEM_CAP BsData WRITE_BACK_XN,
    region_row ''UEFI Stack'' 0x9ff90000 0x00040000 AddMem SYS_MEM SYS_MEM_CAP BsData WRITE_BACK_XN,
    region_row ''Log Buffer'' 0x9fff7000 0x00008000 AddMem SYS_MEM SYS_MEM_CAP RtData WRITE_BACK_XN,
    region_row ''Info Blk'' 0x9ffff000 0x00001000 AddMem SYS_MEM SYS_MEM_CAP RtData WRITE_BACK_XN,
    region_row ''IMEM Base'' 0x14680000 0x00040000 NoHob MMAP_IO INITIALIZED Conv NS_DEVICE,
    region_row ''IMEM Cookie Base'' 0x146bf000 0x00001000 AddDev MMAP_IO INITIALIZED Conv NS_DEVICE,
    region_row ''IPC_ROUTER_TOP'' 0x00400000 0x00100000 AddDev MMAP_IO UNCACHEABLE MmIO NS_DEVICE,
    region_row ''SECURITY CONTROL'' 0x00780000 0x00007000 AddDev MMAP_IO UNCACHEABLE MmIO NS_DEVICE,
    region_row ''QUPV3_2_GSI'' 0x00800000 0x000d0000 AddDev MMAP_IO UNCACHEABLE MmIO NS_DEVICE,
    region_row ''QUPV3_0_GSI'' 0x00900000 0x000d0000 AddDev MMAP_IO UNCACHEABLE MmIO NS_DEVICE,
    region_row ''QUPV3_1_GSI'' 0x00a00000 0x000d0000 AddDev MMAP_IO UNCACHEABLE MmIO NS_DEVICE,
    region_row ''PRNG_CFG_PRNG'' 0x00790000 0x00010000 AddDev MMAP_IO UNCACHEABLE MmIO NS_DEVICE,
    region_row ''CRYPTO0 CRYPTO'' 0x01dc0000 0x00040000 AddDev MMAP_IO UNCACHEABLE MmIO NS_DEVICE,
    region_row ''TCSR_TCSR_REGS'' 0x01fc0000 0x00030000 AddDev MMAP_IO UNCACHEABLE MmIO NS_DEVICE,
    region_row ''GPU_GMU_CX_BLK'' 0x02c7d000 0x00002000 AddDev MMAP_IO UNCACHEABLE MmIO NS_DEVICE,
    region_row ''GPU_CC'' 0x02c90000 0x0000a000 AddDev MMAP_IO UNCACHEABLE MmIO NS_DEVICE,
    region_row ''QUPV3_SSC_GSI'' 0x05a00000 0x000d0000 AddDev MMAP_IO UNCACHEABLE MmIO NS_DEVICE,
    region_row ''PERIPH_SS'' 0x08800000 0x00200000 AddDev MMAP_IO UNCACHEABLE MmIO NS_DEVICE,
    region_row ''MCCC_MCCC_MSTR'' 0x090ba000 0x00006000 AddDev MMAP_IO UNCACHEABLE MmIO NS_DEVICE,
    region_row ''USB30_PRIM'' 0x0a600000 0x0011b000 AddDev MMAP_IO UNCACHEABLE MmIO NS_DEVICE,
    region_row ''USB_RUMI'' 0x0a720000 0x00010000 AddDev MMAP_IO UNCACHEABLE MmIO NS_DEVICE,
    region_row ''USB30_SEC'' 0x0a800000 0x0011b000 AddDev MMAP_IO UNCACHEABLE MmIO NS_DEVICE,
    region_row ''AOSS'' 0x0b000000 0x04000000 AddDev MMAP_IO UNCACHEABLE MmIO NS_DEVICE,
    region_row ''TLMM_WEST'' 0x0f100000 0x00300000 AddDev MMAP_IO UNCACHEABLE MmIO NS_DEVICE,
    region_row ''TLMM_SOUTH'' 0x0f500000 0x00300000 AddDev MMAP_IO UNCACHEABLE MmIO NS_DEVICE,
    region_row ''TLMM_NORTH'' 0x0f900000 0x00300000 AddDev MMAP_IO UNCACHEABLE MmIO NS_DEVICE,
    region_row ''SMMU'' 0x15000000 0x000d0000 AddDev MMAP_IO UNCACHEABLE MmIO NS_DEVICE,
    region_row ''APSS_HM'' 0x17800000 0x0d981000 AddDev MMAP_IO UNCACHEABLE MmIO NS_DEVICE]"

lemma ships_9707f: "ships True 0x80000000 gMemoryDescriptor_9707f"
  apply (rule shipsI_in_order)
  subgoal by (rule boot_regionsI(1); unfold gMemoryDescriptor_9707f_def; (rule lists_region_here | rule lists_region_skip)+)
  subgoal unfolding gMemoryDescriptor_9707f_def by (simp only: span_eval) simp
  done

definition gMemoryDescriptor_j706f :: "region list" where
  "gMemoryDescriptor_j706f = [
    region_row ''HYP'' 0x85700000 0x00600000 AddMem SYS_MEM SYS_MEM_CAP Reserv NS_DEVICE,
    region_row ''AOP CMD DB'' 0x85f20000 0x00020000 AddMem MEM_RES UNCACHEABLE Reserv UNCACHED_UNBUFFERED_XN,
    region_row ''SMEM'' 0x86000000 0x00200000 AddMem MEM_RES UNCACHEABLE Reserv UNCACHED_UNBUFFERED_XN,
    region_row ''Removed'' 0x86200000 0x02d00000 AddMem SYS_MEM SYS_MEM_CAP Reserv NS_DEVICE,
    region_row ''PIL Reserved'' 0x8ab00000 0x0cb00000 AddMem MEM_RES UNCACHEABLE Reserv UNCACHED_UNBUFFERED_XN,
    region_row ''DXE Heap'' 0x97700000 0x04500000 AddMem SYS_MEM SYS_MEM_CAP Conv WRITE_BACK_XN,
    region_row ''Sched Heap'' 0x9bc00000 0x00400000 AddMem SYS_MEM SYS_MEM_CAP BsData WRITE_BACK_XN,
    region_row ''Display Reserved'' 0x9c000000 0x01800000 AddMem MEM_RES SYS_MEM_CAP Reserv WRITE_THROUGH_XN,
    region_row ''TGCM'' 0x9e400000 0x01400000 AddMem MEM_RES WRITE_COMBINEABLE Reserv UNCACHED_UNBUFFERED_XN,
    region_row ''FV Region'' 0x9f800000 0x00200000 AddMem SYS_MEM SYS_MEM_CAP BsData WRITE_BACK_XN,
    region_row ''ABOOT FV'' 0x9fa00000 0x00200000 AddMem SYS_MEM SYS_MEM_CAP Reserv WRITE_BACK_XN,
    region_row ''UEFI FD'' 0x9fc00000 0x00300000 AddMem SYS_MEM SYS_MEM_CAP BsData WRITE_BACK,
    region_row ''SEC Heap'' 0x9ff00000 0x0008c000 AddMem SYS_MEM SYS_MEM_CAP BsData WRITE_BACK_XN,
    region_row ''MMU PageTables'' 0x9ff8d000 0x00003000 AddMem SYS_MEM SYS_MEM_CAP BsData WRITE_BACK_XN,
    region_row ''UEFI Stack'' 0x9ff90000 0x00040000 AddMem SYS_MEM SYS_MEM_CAP BsData WRITE_BACK_XN,
    region_row ''Log Buffer'' 0x9fff7000 0x00008000 AddMem SYS_MEM SYS_MEM_CAP RtData WRITE_BACK_XN,
    region_row ''Info Blk'' 0x9ffff000 0x00001000 AddMem SYS_MEM SYS_MEM_CAP RtData WRITE_BACK_XN,
    region_row ''DBI Dump'' 0xa1600000 0x00d70000 NoHob MMAP_IO INITIALIZED Conv UNCACHED_UNBUFFERED_XN,
    region_row ''AOP_SS_MSG_RAM'' 0x0c300000 0x00100000 NoHob MMAP_IO INITIALIZED Conv NS_DEVICE,
    region_row ''IMEM Base'' 0x14680000 0x0002b000 NoHob MMAP_IO INITIALIZED Conv NS_DEVICE,
    region_row ''IMEM Cookie Base'' 0x146aa000 0x00001000 AddDev MMAP_IO INITIALIZED Conv NS_DEVICE,
    region_row ''GCC CLK CTL'' 0x00100000 0x000b0000 AddDev MMAP_IO UNCACHEABLE MmIO NS_DEVICE,
    region_row ''SECURITY CONTROL'' 0x00780000 0x00007000 AddDev MMAP_IO UNCACHEABLE MmIO NS_DEVICE,
    region_row ''PRNG_CFG_PRNG'' 0x00790000 0x00010000 AddDev MMAP_IO UNCACHEABLE MmIO NS_DEVICE,
    region_row ''SDC1_REG'' 0x007c0000 0x00005000 AddDev MMAP_IO UNCACHEABLE MmIO NS_DEVICE,
    region_row ''QUPV3_0_GSI'' 0x00800000 0x000d0000 AddDev MMAP_IO UNCACHEABLE MmIO NS_DEVICE,
    region_row ''QUPV3_1_GSI'' 0x00a00000 0x000d0000 AddDev MMAP_IO UNCACHEABLE MmIO NS_DEVICE,
    region_row ''UFS UFS REGS'' 0x01d80000 0x00020000 AddDev MMAP_IO UNCACHEABLE MmIO NS_DEVICE,
    region_row ''CRYPTO0 CRYPTO'' 0x01dc0000 0x00040000 AddDev MMAP_IO UNCACHEABLE MmIO NS_DEVICE,
    region_row ''TCSR_TCSR_REGS'' 0x01fc0000 0x00030000 AddDev MMAP_IO UNCACHEABLE MmIO NS_DEVICE,
    region_row ''TLMM_WEST'' 0x03500000 0x00300000 AddDev MMAP_IO UNCACHEABLE MmIO NS_DEVICE,
    region_row ''TLMM_NORTH'' 0x03900000 0x00300000 AddDev MMAP_IO UNCACHEABLE MmIO NS_DEVICE,
    region_row ''TLMM_SOUTH'' 0x03d00000 0x00300000 AddDev MMAP_IO UNCACHEABLE MmIO NS_DEVICE,
    region_row ''GPU_CC'' 0x05090000 0x00010000 AddDev MMAP_IO UNCACHEABLE MmIO NS_DEVICE,
    region_row ''GPU_CPR'' 0x0509a000 0x00004000 AddDev MMAP_IO UNCACHEABLE MmIO NS_DEVICE,
    region_row ''RPMH_CPRF'' 0x0c200000 0x0000f000 AddDev MMAP_IO UNCACHEABLE MmIO NS_DEVICE,
    region_row ''QUPV3_SSC_GSI'' 0x62600000 0x000d0000 AddDev MMAP_IO UNCACHEABLE MmIO NS_DEVICE,
    region_row ''PERIPH_SS'' 0x08800000 0x00200000 AddDev MMAP_IO UNCACHEABLE MmIO NS_DEVICE,
    region_row ''MCCC_MCCC_MSTR'' 0x090b0000 0x00001000 AddDev MMAP_IO UNCACHEABLE MmIO NS_DEVICE,
    region_row ''USB30_PRIM'' 0x0a600000 0x0011b000 AddDev MMAP_IO UNCACHEABLE MmIO NS_DEVICE,
    region_row ''USB_RUMI'' 0x0a720000 0x00010000 AddDev MMAP_IO UNCACHEABLE MmIO NS_DEVICE,
    region_row ''PDC_DISPLAY'' 0x0b2a0000 0x00010000 AddDev MMAP_IO UNCACHEABLE MmIO NS_DEVICE,
    region_row ''PDC_DISP_SEQ'' 0x0b4a0000 0x00010000 AddDev MMAP_IO UNCACHEABLE MmIO NS_DEVICE,
    region_row ''RPMH_BCM_BCM_TOP'' 0x0ba00000 0x00200000 AddDev MMAP_IO UNCACHEABLE MmIO NS_DEVICE,
    region_row ''SLP_CNTR'' 0x0c221000 0x00001000 AddDev MMAP_IO UNCACHEABLE MmIO NS_DEVICE,
    region_row ''TSENS0'' 0x0c222000 0x00001000 AddDev MMAP_IO UNCACHEABLE MmIO NS_DEVICE,
    region_row ''TSENS1'' 0x0c223000 0x00001000 AddDev MMAP_IO UNCACHEABLE MmIO NS_DEVICE,
    region_row ''TSENS0_TM'' 0x0c263000 0x00001000 AddDev MMAP_IO UNCACHEABLE MmIO NS_DEVICE,
    region_row ''PSHOLD'' 0x0c264000 0x00001000 AddDev MMAP_IO UNCACHEABLE MmIO NS_DEVICE,
    region_row ''TSENS1_TM'' 0x0c265000 0x00001000 AddDev MMAP_IO UNCACHEABLE MmIO NS_DEVICE,
    region_row ''PMIC ARB SPMI'' 0x0c400000 0x02800000 AddDev MMAP_IO UNCACHEABLE MmIO NS_DEVICE,
    region_row ''VIDEO_CC'' 0x0ab00000 0x00010000 AddDev MMAP_IO UNCACHEABLE MmIO NS_DEVICE,
    region_row ''NPU_CC'' 0x09910000 0x00010000 AddDev MMAP_IO UNCACHEABLE MmIO NS_DEVICE,
    region_row ''TITAN_CAM_CC'' 0x0ad00000 0x00010000 AddDev MMAP_IO UNCACHEABLE MmIO NS_DEVICE,
    region_row ''DISP_CC'' 0x0af00000 0x00020000 AddDev MMAP_IO UNCACHEABLE MmIO NS_DEVICE,
    region_row ''SILVER_CLK_CTL'' 0x18280000 0x00001000 AddDev MMAP_IO UNCACHEABLE MmIO NS_DEVICE,
    region_row ''GOLD_CLK_CTL'' 0x18282000 0x00001000 AddDev MMAP_IO UNCACHEABLE MmIO NS_DEVICE,
    region_row ''L3_CLK_CTL'' 0x18284000 0x00001000 AddDev MMAP_IO UNCACHEABLE MmIO NS_DEVICE,
    region_row ''APSS_RSC_RSCCR'' 0x18200000 0x00030000 AddDev MMAP_IO UNCACHEABLE MmIO NS_DEVICE,
    region_row ''APSS_GIC500_GICD'' 0x17a00000 0x00010000 AddDev MMAP_IO UNCACHEABLE MmIO NS_DEVICE,
    region_row ''APSS_GIC500_GICR'' 0x17a60000 0x00100000 AddDev MMAP_IO UNCACHEABLE MmIO NS_DEVICE,
    region_row ''QTIMER'' 0x17c00000 0x00110000 AddDev MMAP_IO UNCACHEABLE MmIO NS_DEVICE,
    region_row ''APSS_WDT_TMR1'' 0x17c10000 0x00001000 AddDev MMAP_IO UNCACHEABLE MmIO NS_DEVICE,
    region_row ''APSS_ACTPM_WRAP'' 0x18300000 0x000b0000 AddDev MMAP_IO UNCACHEABLE MmIO NS_DEVICE,
    region_row ''MDSS'' 0x0ae00000 0x00134000 AddDev MMAP_IO UNCACHEABLE MmIO NS_DEVICE,
    region_row ''SMMU'' 0x15000000 0x000d0000 AddDev MMAP_IO UNCACHEABLE MmIO NS_DEVICE]"

lemma ships_j706f: "ships True 0x80000000 gMemoryDescriptor_j706f"
  apply (rule shipsI_in_order)
  subgoal by (rule boot_regionsI(1); unfold gMemoryDescriptor_j706f_def; (rule lists_region_here | rule lists_region_skip)+)
  subgoal unfolding gMemoryDescriptor_j706f_def by (simp only: span_eval) simp
  done

definition gMemoryDescriptor_caprip :: "region list" where
  "gMemoryDescriptor_caprip = [
    region_row ''Kernel'' 0x40000000 0x05700000 AddMem MEM_RES SYS_MEM_CAP Reserv WRITE_BACK_XN,
    region_row ''HYP'' 0x45700000 0x00600000 AddMem SYS_MEM SYS_MEM_CAP Reserv WRITE_BACK_XN,
    region_row ''Boot Info'' 0x45d00000 0x00020000 AddMem SYS_MEM SYS_MEM_CAP BsData WRITE_BACK_XN,
    region_row ''Boot Log'' 0x45e11000 0x00002000 AddMem MEM_RES UNCACHEABLE Reserv UNCACHED_UNBUFFERED_XN,
    region_row ''SMEM'' 0x46000000 0x00200000 AddMem MEM_RES WRITE_COMBINEABLE Reserv UNCACHED_UNBUFFERED_XN,
    region_row ''PIL Reserved'' 0x4ab00000 0x09400000 AddMem MEM_RES WRITE_COMBINEABLE Reserv UNCACHED_UNBUFFERED_XN,
    region_row ''DBI Dump'' 0x56700000 0x00a00000 NoHob MMAP_IO INITIALIZED Conv UNCACHED_UNBUFFERED_XN,
    region_row ''Sched Heap'' 0x57100000 0x00400000 AddMem SYS_MEM SYS_MEM_CAP BsData WRITE_BACK_XN,
    region_row ''Display Reserved'' 0x5c000000 0x01000000 AddMem MEM_RES SYS_MEM_CAP Reserv WRITE_THROUGH_XN,
    region_row ''FV Region'' 0x5f800000 0x00200000 AddMem SYS_MEM SYS_MEM_CAP BsData WRITE_BACK_XN,
    region_row ''ABOOT FV'' 0x5fa00000 0x00200000 AddMem SYS_MEM SYS_MEM_CAP Reserv WRITE_BACK,
    region_row ''UEFI FD'' 0x5fc00000 0x00300000 AddMem SYS_MEM SYS_MEM_CAP BsData WRITE_BACK,
    region_row ''SEC Heap'' 0x5ff00000 0x0008c000 AddMem SYS_MEM SYS_MEM_CAP BsData WRITE_BACK_XN,
    region_row ''MMU PageTables'' 0x5ff8d000 0x00003000 AddMem SYS_MEM SYS_MEM_CAP BsData WRITE_BACK_XN,
    region_row ''UEFI Stack'' 0x5ff90000 0x00040000 AddMem SYS_MEM SYS_MEM_CAP BsData WRITE_BACK_XN,
    region_row ''Log Buffer'' 0x5fff0000 0x0000f000 AddMem SYS_MEM SYS_MEM_CAP RtData WRITE_BACK_XN,
    region_row ''Info Blk'' 0x5ffff000 0x00001000 AddMem SYS_MEM SYS_MEM_CAP RtData WRITE_BACK_XN,
    region_row ''DXE Heap'' 0x64400000 0x04500000 AddMem SYS_MEM SYS_MEM_CAP Conv WRITE_BACK,
    region_row ''RPM_SS_MSG_RAM'' 0x045f0000 0x00007000 NoHob MMAP_IO INITIALIZED Conv NS_DEVICE,
    region_row ''IMEM Base'' 0x0c100000 0x00026000 NoHob MMAP_IO INITIALIZED Conv NS_DEVICE,
    region_row ''IMEM Cookie Base'' 0x0c125000 0x00001000 AddDev MMAP_IO INITIALIZED Conv NS_DEVICE,
    region_row ''TCSR_TCSR_REGS'' 0x003c0000 0x00040000 AddDev MMAP_IO UNCACHEABLE MmIO NS_DEVICE,
    region_row ''TLMM_WEST'' 0x00500000 0x00300000 AddDev MMAP_IO UNCACHEABLE MmIO NS_DEVICE,
    region_row ''TLMM_SOUTH'' 0x00900000 0x00300000 AddDev MMAP_IO UNCACHEABLE MmIO NS_DEVICE,
    region_row ''TLMM_EAST'' 0x00d00000 0x00300000 AddDev MMAP_IO UNCACHEABLE MmIO NS_DEVICE,
    region_row ''GCC CLK CTL'' 0x01400000 0x00200000 AddDev MMAP_IO UNCACHEABLE MmIO NS_DEVICE,
    region_row ''USB2'' 0x01610000 0x00010000 AddDev MMAP_IO UNCACHEABLE MmIO NS_DEVICE,
    region_row ''MMCX_CPR3'' 0x01648000 0x00008000 AddDev MMAP_IO UNCACHEABLE MmIO NS_DEVICE,
    region_row ''CRYPTO0 CRYPTO'' 0x01b00000 0x00040000 AddDev MMAP_IO UNCACHEABLE MmIO NS_DEVICE,
    region_row ''SECURITY CONTROL'' 0x01b40000 0x00010000 AddDev MMAP_IO UNCACHEABLE MmIO NS_DEVICE,
    region_row ''PRNG_CFG_PRNG'' 0x01b50000 0x00010000 AddDev MMAP_IO UNCACHEABLE MmIO NS_DEVICE,
    region_row ''PMIC ARB SPMI'' 0x01c00000 0x02800000 AddDev MMAP_IO UNCACHEABLE MmIO NS_DEVICE,
    region_row ''SLP_CNTR'' 0x04403000 0x00001000 AddDev MMAP_IO UNCACHEABLE MmIO NS_DEVICE,
    region_row ''TSENS0'' 0x04410000 0x00001000 AddDev MMAP_IO UNCACHEABLE MmIO NS_DEVICE,
    region_row ''TSENS0_TM'' 0x04411000 0x00001000 AddDev MMAP_IO UNCACHEABLE MmIO NS_DEVICE,
    region_row ''PSHOLD'' 0x0440b000 0x00001000 AddDev MMAP_IO UNCACHEABLE MmIO NS_DEVICE,
    region_row ''QUPV3_0_GSI'' 0x04a00000 0x000d0000 AddDev MMAP_IO UNCACHEABLE MmIO NS_DEVICE,
    region_row ''QUPV3_1_GSI'' 0x04c00000 0x000d0000 AddDev MMAP_IO UNCACHEABLE MmIO NS_DEVICE,
    region_row ''UFS UFS REGS'' 0x04800000 0x00020000 AddDev MMAP_IO UNCACHEABLE MmIO NS_DEVICE,
    region_row ''PERIPH_SS'' 0x04700000 0x00200000 AddDev MMAP_IO UNCACHEABLE MmIO NS_DEVICE,
    region_row ''USB30_PRIM'' 0x04e00000 0x00200000 AddDev MMAP_IO UNCACHEABLE MmIO NS_DEVICE,
    region_row ''GPU_GMU_CX_BLK'' 0x0597d000 0x0000c000 AddDev MMAP_IO UNCACHEABLE MmIO NS_DEVICE,
    region_row ''GPU_CC'' 0x05990000 0x00009000 AddDev MMAP_IO UNCACHEABLE MmIO NS_DEVICE,
    region_row ''VIDEO_CC'' 0x05b00000 0x00020000 AddDev MMAP_IO UNCACHEABLE MmIO NS_DEVICE,
    region_row ''MDSS'' 0x05e00000 0x00200000 AddDev MMAP_IO UNCACHEABLE MmIO NS_DEVICE,
    region_row ''DISP_CC_DISP_CC'' 0x05f00000 0x00020000 AddDev MMAP_IO UNCACHEABLE MmIO NS_DEVICE,
    region_row ''SMMU'' 0x0c600000 0x00080000 AddDev MMAP_IO UNCACHEABLE MmIO NS_DEVICE,
    region_row ''APSS_WDT_TMR1'' 0x0f017000 0x00001000 AddDev MMAP_IO UNCACHEABLE MmIO NS_DEVICE,
    region_row ''QTIMER'' 0x0f020000 0x00110000 AddDev MMAP_IO UNCACHEABLE MmIO NS_DEVICE,
    region_row ''APCS_ALIAS0_GLB'' 0x0f111000 0x00001000 AddDev MMAP_IO UNCACHEABLE MmIO NS_DEVICE,
    region_row ''APSS_GIC500_GICD'' 0x0f200000 0x00010000 AddDev MMAP_IO UNCACHEABLE MmIO NS_DEVICE,
    region_row ''APSS_GIC500_GICR'' 0x0f300000 0x00020000 AddDev MMAP_IO UNCACHEABLE MmIO NS_DEVICE,
    region_row ''OSM_RAIL'' 0x0f520000 0x00020000 AddDev MMAP_IO UNCACHEABLE MmIO NS_DEVICE,
    region_row ''APSS_ACTPM_WRAP'' 0x0f500000 0x000b0000 AddDev MMAP_IO UNCACHEABLE MmIO NS_DEVICE]"

lemma ships_caprip: "ships True 0x40000000 gMemoryDescriptor_caprip"
  apply (rule shipsI_in_order)
  subgoal by (rule boot_regionsI(1); unfold gMemoryDescriptor_caprip_def; (rule lists_region_here | rule lists_region_skip)+)
  subgoal unfolding gMemoryDescriptor_caprip_def by (simp only: span_eval) simp
  done

definition gMemoryDescriptor_cebu :: "region list" where
  "gMemoryDescriptor_cebu = [
    region_row ''Kernel'' 0x40000000 0x05700000 AddMem SYS_MEM SYS_MEM_CAP Reserv WRITE_BACK_XN,
    region_row ''HYP'' 0x45700000 0x00600000 AddMem SYS_MEM SYS_MEM_CAP Reserv WRITE_BACK_XN,
    region_row ''AOP CMD DB'' 0x45f20000 0x00020000 AddMem MEM_RES WRITE_COMBINEABLE Reserv UNCACHED_UNBUFFERED_XN,
    region_row ''SMEM'' 0x46000000 0x00200000 AddMem MEM_RES WRITE_COMBINEABLE Reserv UNCACHED_UNBUFFERED_XN,
    region_row ''PIL Reserved'' 0x4ab00000 0x09400000 AddMem MEM_RES WRITE_COMBINEABLE Reserv UNCACHED_UNBUFFERED_XN,
    region_row ''DXE Heap'' 0x57d00000 0x03400000 AddMem SYS_MEM SYS_MEM_CAP Conv WRITE_BACK,
    region_row ''DBI Dump'' 0x56700000 0x00a00000 NoHob MMAP_IO INITIALIZED Conv UNCACHED_UNBUFFERED_XN,
    region_row ''Sched Heap'' 0x57100000 0x00400000 AddMem SYS_MEM SYS_MEM_CAP BsData WRITE_BACK_XN,
    region_row ''Display Reserved'' 0x5c000000 0x01000000 AddMem MEM_RES SYS_MEM_CAP Reserv WRITE_THROUGH_XN,
    region_row ''FV Region'' 0x5f800000 0x00200000 AddMem SYS_MEM SYS_MEM_CAP BsData WRITE_BACK_XN,
    region_row ''ABOOT FV'' 0x5fa00000 0x00200000 AddMem SYS_MEM SYS_MEM_CAP Reserv WRITE_BACK_XN,
    region_row ''UEFI FD'' 0x5fc00000 0x00300000 AddMem SYS_MEM SYS_MEM_CAP BsData WRITE_BACK,
    region_row ''SEC Heap'' 0x5ff00000 0x0008c000 AddMem SYS_MEM SYS_MEM_CAP BsData WRITE_BACK_XN,
    region_row ''MMU PageTables'' 0x5ff8d000 0x00003000 AddMem SYS_MEM SYS_MEM_CAP BsData WRITE_BACK_XN,
    region_row ''UEFI Stack'' 0x5ff90000 0x00040000 AddMem SYS_MEM SYS_MEM_CAP BsData WRITE_BACK_XN,
    region_row ''Log Buffer'' 0x5fff0000 0x0000f000 AddMem SYS_MEM SYS_MEM_CAP RtData WRITE_BACK_XN,
    region_row ''Info Blk'' 0x5ffff000 0x00001000 AddMem SYS_MEM SYS_MEM_CAP RtData WRITE_BACK_XN,
    region_row ''RPM_SS_MSG_RAM'' 0x045f0000 0x00007000 NoHob MMAP_IO INITIALIZED Conv NS_DEVICE,
    region_row ''IMEM Base'' 0x0c100000 0x00026000 NoHob MMAP_IO INITIALIZED Conv NS_DEVICE,
    region_row ''IMEM Cookie Base'' 0x0c125000 0x00001000 AddDev MMAP_IO INITIALIZED Conv NS_DEVICE,
    region_row ''TCSR_TCSR_REGS'' 0x003c0000 0x00040000 AddDev MMAP_IO UNCACHEABLE MmIO NS_DEVICE,
    region_row ''TLMM_WEST'' 0x00500000 0x00300000 AddDev MMAP_IO UNCACHEABLE MmIO NS_DEVICE,
    region_row ''TLMM_SOUTH'' 0x00900000 0x00300000 AddDev MMAP_IO UNCACHEABLE MmIO NS_DEVICE,
    region_row ''TLMM_EAST'' 0x00d00000 0x00300000 AddDev MMAP_IO UNCACHEABLE MmIO NS_DEVICE,
    region_row ''GCC CLK CTL'' 0x01400000 0x00200000 AddDev MMAP_IO UNCACHEABLE MmIO NS_DEVICE,
    region_row ''USB2'' 0x01610000 0x00010000 AddDev MMAP_IO UNCACHEABLE MmIO NS_DEVICE,
    region_row ''MMCX_CPR3'' 0x01648000 0x00008000 AddDev MMAP_IO UNCACHEABLE MmIO NS_DEVICE,
    region_row ''CRYPTO0 CRYPTO'' 0x01b00000 0x00040000 AddDev MMAP_IO UNCACHEABLE MmIO NS_DEVICE,
    region_row ''SECURITY CONTROL'' 0x01b40000 0x00010000 AddDev MMAP_IO UNCACHEABLE MmIO NS_DEVICE,
    region_row ''PRNG_CFG_PRNG'' 0x01b50000 0x00010000 AddDev MMAP_IO UNCACHEABLE MmIO NS_DEVICE,
    region_row ''PMIC ARB SPMI'' 0x01c00000 0x02800000 AddDev MMAP_IO UNCACHEABLE MmIO NS_DEVICE,
    region_row ''SLP_CNTR'' 0x04403000 0x00001000 AddDev MMAP_IO UNCACHEABLE MmIO NS_DEVICE,
    region_row ''PSHOLD'' 0x0440b000 0x00001000 AddDev MMAP_IO UNCACHEABLE MmIO NS_DEVICE,
    region_row ''TSENS0'' 0x04410000 0x00001000 AddDev MMAP_IO UNCACHEABLE MmIO NS_DEVICE,
    region_row ''TSENS0_TM'' 0x04411000 0x00001000 AddDev MMAP_IO UNCACHEABLE MmIO NS_DEVICE,
    region_row ''PERIPH_SS'' 0x04700000 0x00200000 AddDev MMAP_IO UNCACHEABLE MmIO NS_DEVICE,
    region_row ''UFS UFS REGS'' 0x04800000 0x00020000 AddDev MMAP_IO UNCACHEABLE MmIO NS_DEVICE,
    region_row ''QUPV3_0_GSI'' 0x04a00000 0x000d0000 AddDev MMAP_IO UNCACHEABLE MmIO NS_DEVICE,
    region_row ''QUPV3_1_GSI'' 0x04c00000 0x000d0000 AddDev MMAP_IO UNCACHEABLE MmIO NS_DEVICE,
    region_row ''USB30_PRIM'' 0x04e00000 0x00200000 AddDev MMAP_IO UNCACHEABLE MmIO NS_DEVICE,
    region_row ''GPU_GMU_CX_BLK'' 0x0597d000 0x0000c000 AddDev MMAP_IO UNCACHEABLE MmIO NS_DEVICE,
    region_row ''GPU_CC'' 0x05990000 0x00009000 AddDev MMAP_IO UNCACHEABLE MmIO NS_DEVICE,
    region_row ''VIDEO_CC'' 0x05b00000 0x00020000 AddDev MMAP_IO UNCACHEABLE MmIO NS_DEVICE,
    region_row ''MDSS'' 0x05e00000 0x00200000 AddDev MMAP_IO UNCACHEABLE MmIO NS_DEVICE,
    region_row ''DISP_CC_DISP_CC'' 0x05f00000 0x00020000 AddDev MMAP_IO UNCACHEABLE MmIO NS_DEVICE,
    region_row ''SMMU'' 0x0c600000 0x00080000 AddDev MMAP_IO UNCACHEABLE MmIO NS_DEVICE,
    region_row ''APSS_WDT_TMR1'' 0x0f017000 0x00001000 AddDev MMAP_IO UNCACHEABLE MmIO NS_DEVICE,
    region_row ''QTIMER'' 0x0f020000 0x00110000 AddDev MMAP_IO UNCACHEABLE MmIO NS_DEVICE,
    region_row ''APCS_ALIAS0_GLB'' 0x0f111000 0x00001000 AddDev MMAP_IO UNCACHEABLE MmIO NS_DEVICE,
    region_row ''APSS_GIC500_GICD'' 0x0f200000 0x00010000 AddDev MMAP_IO UNCACHEABLE MmIO NS_DEVICE,
    region_row ''APSS_GIC500_GICR'' 0x0f300000 0x00020000 AddDev MMAP_IO UNCACHEABLE MmIO NS_DEVICE,
    region_row ''APSS_ACTPM_WRAP'' 0x0f500000 0x000b0000 AddDev MMAP_IO UNCACHEABLE MmIO NS_DEVICE,
    region_row ''OSM_RAIL'' 0x0f520000 0x00020000 AddDev MMAP_IO UNCACHEABLE MmIO NS_DEVICE]"

lemma ships_cebu: "ships True 0x40000000 gMemoryDescriptor_cebu"
  apply (rule shipsI)
  subgoal by (rule boot_regionsI(1); unfold gMemoryDescriptor_cebu_def; (rule lists_region_here | rule lists_region_skip)+)
  subgoal unfolding gMemoryDescriptor_cebu_def by (simp only: span_eval) simp
  subgoal unfolding gMemoryDescriptor_cebu_def by (simp only: span_eval) (simp add: spans_ok_def ram_spans_def)
  done

definition gMemoryDescriptor_nx :: "region list" where
  "gMemoryDescriptor_nx = [
    region_row ''UEFI FD'' 0xaa000000 0x00200000 AddMem SYS_MEM SYS_MEM_CAP BsData WRITE_BACK,
    region_row ''UEFI Stack'' 0xaa200000 0x00040000 AddMem SYS_MEM SYS_MEM_CAP BsData WRITE_BACK,
    region_row ''DXE Heap'' 0xaa240000 0x04500000 AddMem SYS_MEM SYS_MEM_CAP Conv WRITE_BACK,
    region_row ''Display Reserved'' 0xf5a00000 0x00384000 AddMem MEM_RES SYS_MEM_CAP Reserv WRITE_THROUGH,
    region_row ''GICC'' 0x50041000 0x00001000 AddDev MMAP_IO UNCACHEABLE MmIO NS_DEVICE,
    region_row ''GICD'' 0x50042000 0x00002000 AddDev MMAP_IO UNCACHEABLE MmIO NS_DEVICE,
    region_row ''GICH'' 0x50044000 0x00002000 AddDev MMAP_IO UNCACHEABLE MmIO NS_DEVICE,
    region_row ''GICV'' 0x50046000 0x00002000 AddDev MMAP_IO UNCACHEABLE MmIO NS_DEVICE]"

lemma ships_nx: "ships True 0x80000000 gMemoryDescriptor_nx"
  apply (rule shipsI_in_order)
  subgoal by (rule boot_regionsI(1); unfold gMemoryDescriptor_nx_def; (rule lists_region_here | rule lists_region_skip)+)
  subgoal unfolding gMemoryDescriptor_nx_def by (simp only: span_eval) simp
  done

definition gMemoryDescriptor_pong :: "region list" where
  "gMemoryDescriptor_pong = [
    region_row ''HYP'' 0x80000000 0x00600000 AddMem MEM_RES SYS_MEM_CAP Reserv NS_DEVICE,
    region_row ''DT BLOB'' 0x80600000 0x00040000 AddMem MEM_RES SYS_MEM_CAP Reserv WRITE_BACK_XN,
    region_row ''XBL RAMDUMP'' 0x80640000 0x001c0000 AddMem MEM_RES UNCACHEABLE Conv UNCACHED_UNBUFFERED_XN,
    region_row ''AOP'' 0x80800000 0x000a0000 AddMem MEM_RES UNCACHEABLE Reserv UNCACHED_UNBUFFERED_XN,
    region_row ''SMEM'' 0x80900000 0x00200000 AddMem MEM_RES UNCACHEABLE Reserv UNCACHED_UNBUFFERED_XN,
    region_row ''CUCP FW'' 0x80b00000 0x00100000 AddMem MEM_RES UNCACHEABLE Reserv UNCACHED_UNBUFFERED_XN,
    region_row ''PIL Reserved'' 0x85200000 0x1c200000 AddMem MEM_RES UNCACHEABLE Reserv UNCACHED_UNBUFFERED_XN,
    region_row ''Display Demura'' 0xa1400000 0x02b00000 AddMem MEM_RES SYS_MEM_CAP Reserv WRITE_THROUGH_XN,
    region_row ''DBI Dump'' 0xa6000000 0x00f00000 NoHob MMAP_IO INITIALIZED Conv UNCACHED_UNBUFFERED_XN,
    region_row ''FD Reserved'' 0xa7000000 0x00100000 AddMem SYS_MEM SYS_MEM_CAP BsData WRITE_BACK,
    region_row ''UEFI FD'' 0xa7100000 0x00300000 AddMem SYS_MEM SYS_MEM_CAP BsData WRITE_BACK,
    region_row ''UEFI FD Reserved'' 0xa7400000 0x00200000 AddMem SYS_MEM SYS_MEM_CAP BsData WRITE_BACK,
    region_row ''Info Blk'' 0xa7601000 0x00001000 AddMem SYS_MEM SYS_MEM_CAP RtData WRITE_BACK_XN,
    region_row ''MMU PageTables'' 0xa7602000 0x00003000 AddMem SYS_MEM SYS_MEM_CAP BsData WRITE_BACK_XN,
    region_row ''Log Buffer'' 0xa7605000 0x00008000 AddMem SYS_MEM SYS_MEM_CAP RtData WRITE_BACK_XN,
    region_row ''UEFI Stack'' 0xa760d000 0x00040000 AddMem SYS_MEM SYS_MEM_CAP BsData WRITE_BACK_XN,
    region_row ''SEC Heap'' 0xa764d000 0x0008c000 AddMem SYS_MEM SYS_MEM_CAP BsData WRITE_BACK_XN,
    region_row ''Sched Heap'' 0xa76d9000 0x00400000 AddMem SYS_MEM SYS_MEM_CAP BsData WRITE_BACK_XN,
    region_row ''FV Region'' 0xa7ad9000 0x00400000 AddMem SYS_MEM SYS_MEM_CAP BsData WRITE_BACK_XN,
    region_row ''UEFI RESV'' 0xa7ed9000 0x00127000 AddMem SYS_MEM SYS_MEM_CAP BsData WRITE_BACK_XN,
    region_row ''Display Reserved'' 0xb8000000 0x02b00000 AddMem MEM_RES SYS_MEM_CAP Reserv WRITE_THROUGH_XN,
    region_row ''OEM VM'' 0xbb000000 0x05000000 AddMem SYS_MEM SYS_MEM_CAP Reserv WRITE_BACK_XN,
    region_row ''MTE Reserved'' 0xc0000000 0x20000000 AddMem SYS_MEM SYS_MEM_CAP Reserv WRITE_BACK_XN,
    region_row ''VM PIL'' 0xe0000000 0x05700000 AddMem SYS_MEM SYS_MEM_CAP Reserv WRITE_BACK_XN,
    region_row ''TZ STATS'' 0xe8800000 0x01000000 AddMem MEM_RES UNCACHEABLE Reserv UNCACHED_UNBUFFERED_XN,
    region_row ''QTEE'' 0xe9b00000 0x00500000 AddMem MEM_RES UNCACHEABLE Reserv UNCACHED_UNBUFFERED_XN,
    region_row ''TZApps Reserved'' 0xea000000 0x07400000 AddMem MEM_RES UNCACHEABLE Reserv UNCACHED_UNBUFFERED_XN,
    region_row ''DXE Heap'' 0xf8000000 0x07c00000 AddMem SYS_MEM SYS_MEM_CAP Conv WRITE_BACK_XN,
    region_row ''HYP Reserved'' 0x830000000 0x10000000 AddMem SYS_MEM SYS_MEM_CAP Reserv WRITE_BACK_XN,
    region_row ''IMEM Base'' 0x14680000 0x0002a000 NoHob MMAP_IO INITIALIZED Conv NS_DEVICE,
    region_row ''IMEM Cookie Base'' 0x146aa000 0x00016000 AddDev MMAP_IO INITIALIZED Conv NS_DEVICE,
    region_row ''IPC_ROUTER_TOP'' 0x00400000 0x00100000 AddDev MMAP_IO UNCACHEABLE MmIO NS_DEVICE,
    region_row ''SECURITY CONTROL'' 0x00780000 0x00007000 AddDev MMAP_IO UNCACHEABLE MmIO NS_DEVICE,
    region_row ''QUP'' 0x00800000 0x00300000 AddDev MMAP_IO UNCACHEABLE MmIO NS_DEVICE,
    region_row ''PRNG_CFG_PRNG'' 0x010c0000 0x0000c000 AddDev MMAP_IO UNCACHEABLE MmIO NS_DEVICE,
    region_row ''CRYPTO0 CRYPTO'' 0x01dc0000 0x00040000 AddDev MMAP_IO UNCACHEABLE MmIO NS_DEVICE,
    region_row ''TCSR_TCSR_REGS'' 0x01fc0000 0x00030000 AddDev MMAP_IO UNCACHEABLE MmIO NS_DEVICE,
    region_row ''PERIPH_SS'' 0x08800000 0x00100000 AddDev MMAP_IO UNCACHEABLE MmIO NS_DEVICE,
    region_row ''USB'' 0x0a600000 0x00200000 AddDev MMAP_IO UNCACHEABLE MmIO NS_DEVICE,
    region_row ''AOSS'' 0x0b000000 0x04000000 AddDev MMAP_IO UNCACHEABLE MmIO NS_DEVICE,
    region_row ''TLMM'' 0x0f000000 0x01000000 AddDev MMAP_IO UNCACHEABLE MmIO NS_DEVICE,
    region_row ''SMMU'' 0x15000000 0x00200000 AddDev MMAP_IO UNCACHEABLE MmIO NS_DEVICE,
    region_row ''APSS_HM'' 0x17000000 0x02000000 AddDev MMAP_IO UNCACHEABLE MmIO NS_DEVICE]"

lemma ships_pong: "ships True 0x80000000 gMemoryDescriptor_pong"
  apply (rule shipsI_in_order)
  subgoal by (rule boot_regionsI(1); unfold gMemoryDescriptor_pong_def; (rule lists_region_here | rule lists_region_skip)+)
  subgoal unfolding gMemoryDescriptor_pong_def by (simp only: span_eval) simp
  done

definition gMemoryDescriptor_spacewar :: "region list" where
  "gMemoryDescriptor_spacewar = [
    region_row ''HYP'' 0x80000000 0x00600000 AddMem MEM_RES SYS_MEM_CAP Reserv WRITE_BACK_XN,
    region_row ''Axon DMA'' 0x80600000 0x00100000 AddMem SYS_MEM SYS_MEM_CAP Reserv WRITE_BACK_XN,
    region_row ''BOOT'' 0x80700000 0x00100000 AddMem MEM_RES SYS_MEM_CAP BsData WRITE_BACK_XN,
    region_row ''AOP CMD'' 0x80800000 0x00060000 AddMem MEM_RES UNCACHEABLE Reserv UNCACHED_UNBUFFERED_XN,
    region_row ''AOP CMD DB'' 0x80860000 0x00020000 AddMem MEM_RES UNCACHEABLE Reserv UNCACHED_UNBUFFERED_XN,
    region_row ''XBL Log Buffer'' 0x80884000 0x00010000 AddMem SYS_MEM SYS_MEM_CAP Reserv WRITE_BACK_XN,
    region_row ''SMEM'' 0x80900000 0x00200000 AddMem MEM_RES UNCACHEABLE Reserv UNCACHED_UNBUFFERED_XN,
    region_row ''Sched Heap'' 0x83600000 0x00400000 AddMem SYS_MEM SYS_MEM_CAP BsData WRITE_BACK_XN,
    region_row ''PIL Reserved'' 0x85800000 0x16f00000 AddMem MEM_RES UNCACHEABLE Reserv UNCACHED_UNBUFFERED_XN,
    region_row ''FV Region'' 0x9f800000 0x00200000 AddMem SYS_MEM SYS_MEM_CAP BsData WRITE_BACK_XN,
    region_row ''ABOOT FV'' 0x9fa00000 0x00200000 AddMem SYS_MEM SYS_MEM_CAP Reserv WRITE_BACK_XN,
    region_row ''FD Reserved'' 0x9fc00000 0x00100000 AddMem SYS_MEM SYS_MEM_CAP BsData WRITE_BACK,
    region_row ''UEFI FD'' 0x9fd00000 0x00200000 AddMem SYS_MEM SYS_MEM_CAP BsData WRITE_BACK,
    region_row ''SEC Heap'' 0x9ff00000 0x0008c000 AddMem SYS_MEM SYS_MEM_CAP BsData WRITE_BACK_XN,
    region_row ''MMU PageTables'' 0x9ff8d000 0x00003000 AddMem SYS_MEM SYS_MEM_CAP BsData WRITE_BACK_XN,
    region_row ''UEFI Stack'' 0x9ff90000 0x00040000 AddMem SYS_MEM SYS_MEM_CAP BsData WRITE_BACK_XN,
    region_row ''Log Buffer'' 0x9fff7000 0x00008000 AddMem SYS_MEM SYS_MEM_CAP RtData WRITE_BACK_XN,
    region_row ''Info Blk'' 0x9ffff000 0x00001000 AddMem SYS_MEM SYS_MEM_CAP RtData WRITE_BACK_XN,
    region_row ''Kernel'' 0xa0000000 0x10000000 AddMem SYS_MEM SYS_MEM_CAP Reserv WRITE_BACK_XN,
    region_row ''HYP RESERVED'' 0xb0000000 0x10000000 AddMem SYS_MEM SYS_MEM_CAP Reserv WRITE_BACK_XN,
    region_row ''TZ Stat 4K Page'' 0xc00c6000 0x00001000 AddMem SYS_MEM SYS_MEM_CAP Reserv WRITE_BACK_XN,
    region_row ''TZApps Reserved'' 0xc1800000 0x03900000 HobOnlyNoCacheSetting MEM_RES UNCACHEABLE Reserv UNCACHED_UNBUFFERED_XN,
    region_row ''Guest VM'' 0xd0000000 0x10000000 AddMem SYS_MEM SYS_MEM_CAP Reserv WRITE_BACK_XN,
    region_row ''DBI Dump'' 0xe0000000 0x00f00000 NoHob MMAP_IO INITIALIZED Conv UNCACHED_UNBUFFERED_XN,
    region_row ''Display Reserved'' 0xe1000000 0x02400000 AddMem MEM_RES SYS_MEM_CAP Reserv WRITE_THROUGH_XN,
    region_row ''DXE Heap'' 0xe3400000 0x03100000 AddMem SYS_MEM SYS_MEM_CAP Conv WRITE_BACK_XN,
    region_row ''IMEM Base'' 0x14680000 0x0002b000 NoHob MMAP_IO INITIALIZED Conv NS_DEVICE,
    region_row ''IMEM Cookie Base'' 0x146aa000 0x00001000 AddDev MMAP_IO INITIALIZED Conv NS_DEVICE,
    region_row ''IPC_ROUTER_TOP'' 0x00400000 0x00100000 AddDev MMAP_IO UNCACHEABLE MmIO NS_DEVICE,
    region_row ''SECURITY CONTROL'' 0x00780000 0x00010000 AddDev MMAP_IO UNCACHEABLE MmIO NS_DEVICE,
    region_row ''QUP'' 0x00900000 0x00200000 AddDev MMAP_IO UNCACHEABLE MmIO NS_DEVICE,
    region_row ''PRNG_CFG_PRNG'' 0x010d0000 0x00010000 AddDev MMAP_IO UNCACHEABLE MmIO NS_DEVICE,
    region_row ''CRYPTO0 CRYPTO'' 0x01dc0000 0x00040000 AddDev MMAP_IO UNCACHEABLE MmIO NS_DEVICE,
    region_row ''TCSR_TCSR_REGS'' 0x01fc0000 0x00030000 AddDev MMAP_IO UNCACHEABLE MmIO NS_DEVICE,
    region_row ''PERIPH_SS_SDC1'' 0x007c0000 0x00100000 AddDev MMAP_IO UNCACHEABLE MmIO NS_DEVICE,
    region_row ''PERIPH_SS'' 0x08800000 0x00200000 AddDev MMAP_IO UNCACHEABLE MmIO NS_DEVICE,
    region_row ''USB'' 0x0a600000 0x04000000 AddDev MMAP_IO UNCACHEABLE MmIO NS_DEVICE,
    region_row ''USB2 controller'' 0x08c00000 0x00400000 AddDev MMAP_IO UNCACHEABLE MmIO NS_DEVICE,
    region_row ''AOSS'' 0x0b000000 0x04000000 AddDev MMAP_IO UNCACHEABLE MmIO NS_DEVICE,
    region_row ''TLMM'' 0x0f100000 0x00300000 AddDev MMAP_IO UNCACHEABLE MmIO NS_DEVICE,
    region_row ''SMMU'' 0x15000000 0x00200000 AddDev MMAP_IO UNCACHEABLE MmIO NS_DEVICE,
    region_row ''APSS_HM'' 0x17800000 0x00e00000 AddDev MMAP_IO UNCACHEABLE MmIO NS_DEVICE]"

lemma ships_spacewar: "ships True 0x80000000 gMemoryDescriptor_spacewar"
  apply (rule shipsI_in_order)
  subgoal by (rule boot_regionsI(1); unfold gMemoryDescriptor_spacewar_def; (rule lists_region_here | rule lists_region_skip)+)
  subgoal unfolding gMemoryDescriptor_spacewar_def by (simp only: span_eval) simp
  done

definition gMemoryDescriptor_aston :: "region list" where
  "gMemoryDescriptor_aston = [
    region_row ''HYP'' 0x80000000 0x00a00000 AddMem SYS_MEM SYS_MEM_CAP Reserv WRITE_BACK_XN,
    region_row ''CPUSYS VM'' 0x80a00000 0x00400000 AddMem SYS_MEM SYS_MEM_CAP Reserv WRITE_BACK_XN,
    region_row ''XBL DT'' 0x81a00000 0x00040000 AddMem SYS_MEM SYS_MEM_CAP Reserv WRITE_BACK_XN,
    region_row ''XBL Ramdump'' 0x81a40000 0x001c0000 AddMem MEM_RES UNCACHEABLE Reserv UNCACHED_UNBUFFERED_XN,
    region_row ''AOP'' 0x81c00000 0x000f4000 AddMem MEM_RES UNCACHEABLE Reserv UNCACHED_UNBUFFERED_XN,
    region_row ''SMEM'' 0x81d00000 0x00200000 AddMem MEM_RES UNCACHEABLE Reserv UNCACHED_UNBUFFERED_XN,
    region_row ''ADSP MHI'' 0x81f00000 0x00020000 AddMem MEM_RES UNCACHEABLE Reserv UNCACHED_UNBUFFERED_XN,
    region_row ''Global Sync'' 0x82600000 0x00100000 AddMem MEM_RES UNCACHEABLE Reserv UNCACHED_UNBUFFERED_XN,
    region_row ''TZ Stat'' 0x82700000 0x00100000 AddMem MEM_RES UNCACHEABLE Reserv UNCACHED_UNBUFFERED_XN,
    region_row ''PIL Reserved'' 0x89800000 0x19280000 AddMem MEM_RES UNCACHEABLE Reserv UNCACHED_UNBUFFERED_XN,
    region_row ''Display Demura'' 0xa2a80000 0x02b00000 AddMem MEM_RES SYS_MEM_CAP Reserv WRITE_THROUGH_XN,
    region_row ''DBI Dump'' 0xa6100000 0x00f00000 NoHob MMAP_IO INITIALIZED Conv UNCACHED_UNBUFFERED_XN,
    region_row ''FD Reserved'' 0xa7000000 0x00100000 AddMem SYS_MEM SYS_MEM_CAP BsData WRITE_BACK,
    region_row ''UEFI FD'' 0xa7100000 0x00300000 AddMem SYS_MEM SYS_MEM_CAP BsData WRITE_BACK,
    region_row ''UEFI FD Reserved'' 0xa7400000 0x00200000 AddMem SYS_MEM SYS_MEM_CAP BsData WRITE_BACK,
    region_row ''Info Blk'' 0xa7601000 0x00001000 AddMem SYS_MEM SYS_MEM_CAP RtData WRITE_BACK_XN,
    region_row ''MMU PageTables'' 0xa7602000 0x00003000 AddMem SYS_MEM SYS_MEM_CAP BsData WRITE_BACK_XN,
    region_row ''Log Buffer'' 0xa7605000 0x00008000 AddMem SYS_MEM SYS_MEM_CAP RtData WRITE_BACK_XN,
    region_row ''UEFI Stack'' 0xa760d000 0x00040000 AddMem SYS_MEM SYS_MEM_CAP BsData WRITE_BACK_XN,
    region_row ''SEC Heap'' 0xa764d000 0x0008c000 AddMem SYS_MEM SYS_MEM_CAP BsData WRITE_BACK_XN,
    region_row ''Sched Heap'' 0xa76d9000 0x00400000 AddMem SYS_MEM SYS_MEM_CAP BsData WRITE_BACK_XN,
    region_row ''FV Region'' 0xa7ad9000 0x00400000 AddMem SYS_MEM SYS_MEM_CAP BsData WRITE_BACK_XN,
    region_row ''UEFI RESV'' 0xa7ed9000 0x00127000 AddMem SYS_MEM SYS_MEM_CAP BsData WRITE_BACK_XN,
    region_row ''Kernel'' 0xa8000000 0x10000000 AddMem MEM_RES SYS_MEM_CAP Reserv WRITE_BACK_XN,
    region_row ''Display Reserved'' 0xb8000000 0x02b00000 AddMem MEM_RES SYS_MEM_CAP Reserv WRITE_THROUGH_XN,
    region_row ''DXE Heap'' 0xbae00000 0x07c00000 AddMem SYS_MEM SYS_MEM_CAP Conv WRITE_BACK_XN,
    region_row ''MPSS DSM'' 0xd4d00000 0x03300000 AddMem MEM_RES SYS_MEM_CAP Reserv WRITE_BACK_XN,
    region_row ''TZ Reserved'' 0xd8000000 0x00100000 AddMem MEM_RES UNCACHEABLE Reserv UNCACHED_UNBUFFERED_XN,
    region_row ''XBL SC'' 0xd8100000 0x00040000 AddMem MEM_RES UNCACHEABLE Reserv UNCACHED_UNBUFFERED_XN,
    region_row ''CPUCP FW'' 0xd8140000 0x001c0000 AddMem MEM_RES UNCACHEABLE Reserv UNCACHED_UNBUFFERED_XN,
    region_row ''QTEE'' 0xd8300000 0x00500000 AddMem MEM_RES UNCACHEABLE Reserv UNCACHED_UNBUFFERED_XN,
    region_row ''TZApps Reserved'' 0xd8800000 0x08a00000 AddMem MEM_RES UNCACHEABLE Reserv UNCACHED_UNBUFFERED_XN,
    region_row ''HW Fence'' 0xe6440000 0x00279000 AddMem MEM_RES UNCACHEABLE Reserv UNCACHED_UNBUFFERED_XN,
    region_row ''Trusted VM'' 0xf3800000 0x04200000 AddMem MEM_RES UNCACHEABLE Reserv UNCACHED_UNBUFFERED_XN,
    region_row ''OEM VM'' 0xf7afc000 0x02904000 AddMem MEM_RES UNCACHEABLE Reserv UNCACHED_UNBUFFERED_XN,
    region_row ''LLCC LPI'' 0xff800000 0x00600000 AddMem MEM_RES UNCACHEABLE Reserv UNCACHED_UNBUFFERED_XN,
    region_row ''IMEM Base'' 0x14680000 0x0002a000 NoHob MMAP_IO INITIALIZED Conv NS_DEVICE,
    region_row ''IMEM Cookie Base'' 0x146aa000 0x00016000 AddDev MMAP_IO INITIALIZED Conv NS_DEVICE,
    region_row ''IPC_ROUTER_TOP'' 0x00400000 0x00100000 AddDev MMAP_IO UNCACHEABLE MmIO NS_DEVICE,
    region_row ''SECURITY CONTROL'' 0x00780000 0x00007000 AddDev MMAP_IO UNCACHEABLE MmIO NS_DEVICE,
    region_row ''QUP'' 0x00800000 0x00300000 AddDev MMAP_IO UNCACHEABLE MmIO NS_DEVICE,
    region_row ''PRNG_CFG_PRNG'' 0x010c0000 0x0000c000 AddDev MMAP_IO UNCACHEABLE MmIO NS_DEVICE,
    region_row ''CRYPTO0 CRYPTO'' 0x01dc0000 0x00040000 AddDev MMAP_IO UNCACHEABLE MmIO NS_DEVICE,
    region_row ''CORE_TOP_CSR'' 0x01f00000 0x00100000 AddDev MMAP_IO UNCACHEABLE MmIO NS_DEVICE,
    region_row ''PERIPH_SS'' 0x08800000 0x00100000 AddDev MMAP_IO UNCACHEABLE MmIO NS_DEVICE,
    region_row ''USB'' 0x0a600000 0x00200000 AddDev MMAP_IO UNCACHEABLE MmIO NS_DEVICE,
    region_row ''AOSS'' 0x0b000000 0x04000000 AddDev MMAP_IO UNCACHEABLE MmIO NS_DEVICE,
    region_row ''TLMM'' 0x0f000000 0x01000000 AddDev MMAP_IO UNCACHEABLE MmIO NS_DEVICE,
    region_row ''SMMU'' 0x15000000 0x00200000 AddDev MMAP_IO UNCACHEABLE MmIO NS_DEVICE,
    region_row ''APSS_HM'' 0x17000000 0x02000000 AddDev MMAP_IO UNCACHEABLE MmIO NS_DEVICE]"

lemma ships_aston: "ships True 0x80000000 gMemoryDescriptor_aston"
  apply (rule shipsI_in_order)
  subgoal by (rule boot_regionsI(1); unfold gMemoryDescriptor_aston_def; (rule lists_region_here | rule lists_region_skip)+)
  subgoal unfolding gMemoryDescriptor_aston_def by (simp only: span_eval) simp
  done

definition gMemoryDescriptor_cheeseburger :: "region list" where
  "gMemoryDescriptor_cheeseburger = [
    region_row ''Kernel'' 0x80000000 0x05800000 AddMem SYS_MEM SYS_MEM_CAP Reserv WRITE_BACK_XN,
    region_row ''SMEM'' 0x86000000 0x00200000 AddMem MEM_RES UNCACHEABLE Reserv UNCACHED_UNBUFFERED_XN,
    region_row ''DXE Heap'' 0x94000000 0x09400000 AddMem SYS_MEM SYS_MEM_CAP Conv WRITE_BACK_XN,
    region_row ''Display Reserved'' 0x9d400000 0x02400000 AddMem MEM_RES SYS_MEM_CAP Reserv WRITE_THROUGH_XN,
    region_row ''FV Region'' 0x9f800000 0x00200000 AddMem SYS_MEM SYS_MEM_CAP BsData WRITE_BACK_XN,
    region_row ''ABOOT FV'' 0x9fa00000 0x00200000 AddMem SYS_MEM SYS_MEM_CAP Reserv WRITE_BACK_XN,
    region_row ''UEFI FD'' 0x9fc00000 0x00300000 AddMem SYS_MEM SYS_MEM_CAP BsData WRITE_BACK,
    region_row ''SEC Heap'' 0x9ff00000 0x0008c000 AddMem SYS_MEM SYS_MEM_CAP BsData WRITE_BACK_XN,
    region_row ''MMU PageTables'' 0x9ff8d000 0x00003000 AddMem SYS_MEM SYS_MEM_CAP BsData WRITE_BACK_XN,
    region_row ''UEFI Stack'' 0x9ff90000 0x00040000 AddMem SYS_MEM SYS_MEM_CAP BsData WRITE_BACK_XN,
    region_row ''DBI Dump'' 0x9ffd0000 0x00027000 AddMem SYS_MEM SYS_MEM_CAP RtData WRITE_BACK_XN,
    region_row ''Log Buffer'' 0x9fff7000 0x00008000 AddMem SYS_MEM SYS_MEM_CAP RtData WRITE_BACK_XN,
    region_row ''Info Blk'' 0x9ffff000 0x00001000 AddMem SYS_MEM SYS_MEM_CAP RtData WRITE_BACK_XN,
    region_row ''IMEM_Base'' 0x14680000 0x00040000 NoHob MMAP_IO INITIALIZED Conv NS_DEVICE,
    region_row ''IMEM_Cookie_Base'' 0x146bf000 0x00001000 AddDev MMAP_IO INITIALIZED Conv NS_DEVICE,
    region_row ''QDSS_STM'' 0x16000000 0x01000000 AddDev MMAP_IO INITIALIZED Conv NS_DEVICE,
    region_row ''BOOT_CONFIG'' 0x00070000 0x00010000 AddDev MMAP_IO UNCACHEABLE MmIO NS_DEVICE,
    region_row ''GCC CLK CTL'' 0x00100000 0x000b0000 AddDev MMAP_IO UNCACHEABLE MmIO NS_DEVICE,
    region_row ''UFS_RUMI'' 0x00620000 0x00020000 AddDev MMAP_IO UNCACHEABLE MmIO NS_DEVICE,
    region_row ''RPM MSG RAM'' 0x00778000 0x00008000 AddDev MMAP_IO UNCACHEABLE MmIO NS_DEVICE,
    region_row ''SECURITY CONTROL'' 0x00780000 0x00007000 AddDev MMAP_IO UNCACHEABLE MmIO NS_DEVICE,
    region_row ''PRNG_CFG_PRNG'' 0x00790000 0x00010000 AddDev MMAP_IO UNCACHEABLE MmIO NS_DEVICE,
    region_row ''MPM2_SLP_CNTR'' 0x010a3000 0x00001000 AddDev MMAP_IO UNCACHEABLE MmIO NS_DEVICE,
    region_row ''MPM2_TSENS0'' 0x010aa000 0x00001000 AddDev MMAP_IO UNCACHEABLE MmIO NS_DEVICE,
    region_row ''MPM2_TSENS0_TM'' 0x010ab000 0x00001000 AddDev MMAP_IO UNCACHEABLE MmIO NS_DEVICE,
    region_row ''MPM2_PSHOLD'' 0x010ac000 0x00001000 AddDev MMAP_IO UNCACHEABLE MmIO NS_DEVICE,
    region_row ''MPM2_TSENS1'' 0x010ad000 0x00001000 AddDev MMAP_IO UNCACHEABLE MmIO NS_DEVICE,
    region_row ''MPM2_TSENS1_TM'' 0x010ae000 0x00001000 AddDev MMAP_IO UNCACHEABLE MmIO NS_DEVICE,
    region_row ''PCIE WRAPPER AHB'' 0x01c00000 0x00007000 AddDev MMAP_IO UNCACHEABLE MmIO NS_DEVICE,
    region_row ''UFS UFS REGS'' 0x01da0000 0x00020000 AddDev MMAP_IO UNCACHEABLE MmIO NS_DEVICE,
    region_row ''CRYPTO0 CRYPTO'' 0x01dc0000 0x00040000 AddDev MMAP_IO UNCACHEABLE MmIO NS_DEVICE,
    region_row ''TCSR_TCSR_REGS'' 0x01fc0000 0x00026000 AddDev MMAP_IO UNCACHEABLE MmIO NS_DEVICE,
    region_row ''TLMM CSR'' 0x03400000 0x00c00000 AddDev MMAP_IO UNCACHEABLE MmIO NS_DEVICE,
    region_row ''GPMU_DRAM'' 0x05026000 0x00002000 AddDev MMAP_IO UNCACHEABLE MmIO NS_DEVICE,
    region_row ''GPMU_BLOCK0'' 0x0502a000 0x00002000 AddDev MMAP_IO UNCACHEABLE MmIO NS_DEVICE,
    region_row ''GPU_ISENSE'' 0x05030000 0x00002000 AddDev MMAP_IO UNCACHEABLE MmIO NS_DEVICE,
    region_row ''GPUCC'' 0x05065000 0x00009000 AddDev MMAP_IO UNCACHEABLE MmIO NS_DEVICE,
    region_row ''QDSS_QDSS'' 0x06000000 0x00100000 AddDev MMAP_IO UNCACHEABLE MmIO NS_DEVICE,
    region_row ''HMSS_QLL'' 0x06400000 0x00200000 AddDev MMAP_IO UNCACHEABLE MmIO NS_DEVICE,
    region_row ''PMIC ARB SPMI'' 0x08000000 0x02800000 AddDev MMAP_IO UNCACHEABLE MmIO NS_DEVICE,
    region_row ''USB30_PRIM'' 0x0a800000 0x0011b000 AddDev MMAP_IO UNCACHEABLE MmIO NS_DEVICE,
    region_row ''USB_RUMI'' 0x0a920000 0x00010000 AddDev MMAP_IO UNCACHEABLE MmIO NS_DEVICE,
    region_row ''PERIPH_SS'' 0x0c000000 0x00200000 AddDev MMAP_IO UNCACHEABLE MmIO NS_DEVICE,
    region_row ''MMSS'' 0x0c800000 0x00800000 AddDev MMAP_IO UNCACHEABLE MmIO NS_DEVICE,
    region_row ''APCS_CC'' 0x17800000 0x00100000 AddDev MMAP_IO UNCACHEABLE MmIO NS_DEVICE,
    region_row ''QTIMER'' 0x17900000 0x00030000 AddDev MMAP_IO UNCACHEABLE MmIO NS_DEVICE,
    region_row ''APCS_GIC500_GICD'' 0x17a00000 0x00010000 AddDev MMAP_IO UNCACHEABLE MmIO NS_DEVICE,
    region_row ''APCS_GIC500_GICR'' 0x17b00000 0x00100000 AddDev MMAP_IO UNCACHEABLE MmIO NS_DEVICE,
    region_row ''PCIE WRAPPER AXI'' 0x1b000000 0x01000000 AddDev MMAP_IO UNCACHEABLE MmIO NS_DEVICE]"

lemma ships_cheeseburger: "ships True 0x80000000 gMemoryDescriptor_cheeseburger"
  apply (rule shipsI_in_order)
  subgoal by (rule boot_regionsI(1); unfold gMemoryDescriptor_cheeseburger_def; (rule lists_region_here | rule lists_region_skip)+)
  subgoal unfolding gMemoryDescriptor_cheeseburger_def by (simp only: span_eval) simp
  done

definition gMemoryDescriptor_dodge :: "region list" where
  "gMemoryDescriptor_dodge = [
    region_row ''RSRV0'' 0x81960000 0x000a0000 AddMem SYS_MEM SYS_MEM_CAP Reserv WRITE_BACK_XN,
    region_row ''XBL_DT'' 0x81a00000 0x00040000 AddMem MEM_RES SYS_MEM_CAP Reserv WRITE_BACK_XN,
    region_row ''AOP'' 0x81c00000 0x000a0000 AddMem MEM_RES UNCACHEABLE Reserv UNCACHED_UNBUFFERED_XN,
    region_row ''UEFI_Log'' 0x81ce4000 0x00010000 AddMem MEM_RES UNCACHEABLE Reserv UNCACHED_UNBUFFERED_XN,
    region_row ''SMEM'' 0x81d00000 0x00200000 AddMem MEM_RES UNCACHEABLE Reserv UNCACHED_UNBUFFERED_XN,
    region_row ''PDP_NS'' 0x81f00000 0x00100000 AddMem MEM_RES UNCACHEABLE Reserv NS_DEVICE,
    region_row ''PvmFw'' 0x824a0000 0x00100000 AddMem SYS_MEM SYS_MEM_CAP Reserv WRITE_BACK_XN,
    region_row ''PIL_Reserved'' 0x89e00000 0x19700000 AddMem MEM_RES UNCACHEABLE Reserv UNCACHED_UNBUFFERED_XN,
    region_row ''Display_Demura'' 0xa3500000 0x02c80000 AddMem MEM_RES SYS_MEM_CAP Reserv WRITE_THROUGH_XN,
    region_row ''FD_Reserved'' 0xa7000000 0x00100000 AddMem SYS_MEM SYS_MEM_CAP BsData WRITE_BACK,
    region_row ''UEFI_FD'' 0xa7100000 0x00300000 AddMem SYS_MEM SYS_MEM_CAP BsData WRITE_BACK,
    region_row ''UEFI_FD_Reserved'' 0xa7400000 0x00200000 AddMem SYS_MEM SYS_MEM_CAP BsData WRITE_BACK,
    region_row ''Info_Blk'' 0xa7601000 0x00001000 AddMem SYS_MEM SYS_MEM_CAP RtData WRITE_BACK_XN,
    region_row ''MMU_PageTables'' 0xa7602000 0x00003000 AddMem SYS_MEM SYS_MEM_CAP BsData WRITE_BACK_XN,
    region_row ''Log_Buffer'' 0xa7605000 0x00008000 AddMem SYS_MEM SYS_MEM_CAP RtData WRITE_BACK_XN,
    region_row ''UEFI_Stack'' 0xa760d000 0x00040000 AddMem SYS_MEM SYS_MEM_CAP BsData WRITE_BACK_XN,
    region_row ''SEC_Heap'' 0xa764d000 0x0008c000 AddMem SYS_MEM SYS_MEM_CAP BsData WRITE_BACK_XN,
    region_row ''Sched_Heap'' 0xa76d9000 0x00400000 AddMem SYS_MEM SYS_MEM_CAP BsData WRITE_BACK_XN,
    region_row ''FV_Region'' 0xa7ad9000 0x00400000 AddMem SYS_MEM SYS_MEM_CAP BsData WRITE_BACK_XN,
    region_row ''UEFI_RESV'' 0xa7ed9000 0x00127000 AddMem SYS_MEM SYS_MEM_CAP BsData WRITE_BACK_XN,
    region_row ''Kernel'' 0xa8000000 0x10000000 AddMem SYS_MEM SYS_MEM_CAP Reserv WRITE_BACK_XN,
    region_row ''XBL_Ramdump'' 0xb8000000 0x001c0000 AddMem MEM_RES UNCACHEABLE Reserv UNCACHED_UNBUFFERED_XN,
    region_row ''DBI_Dump'' 0xb81c0000 0x00f00000 NoHob MMAP_IO INITIALIZED Conv UNCACHED_UNBUFFERED_XN,
    region_row ''DXE_Heap'' 0xb90c0000 0x1d500000 AddMem SYS_MEM SYS_MEM_CAP Conv WRITE_BACK_XN,
    region_row ''Display_Reserved'' 0xfc800000 0x02b00000 AddMem MEM_RES SYS_MEM_CAP Reserv WRITE_THROUGH_XN,
    region_row ''IMEM_Base'' 0x14680000 0x0002a000 NoHob MMAP_IO INITIALIZED Conv NS_DEVICE,
    region_row ''IMEM_Cookie_Base'' 0x146aa000 0x00016000 AddDev MMAP_IO INITIALIZED Conv NS_DEVICE,
    region_row ''IPC_ROUTER_TOP'' 0x00400000 0x00100000 AddDev MMAP_IO UNCACHEABLE MmIO NS_DEVICE,
    region_row ''SECURITY_CONTROL'' 0x00780000 0x00007000 AddDev MMAP_IO UNCACHEABLE MmIO NS_DEVICE,
    region_row ''QUP'' 0x00800000 0x00300000 AddDev MMAP_IO UNCACHEABLE MmIO NS_DEVICE,
    region_row ''PRNG_CFG_PRNG'' 0x010c0000 0x0000c000 AddDev MMAP_IO UNCACHEABLE MmIO NS_DEVICE,
    region_row ''CRYPTO0_CRYPTO'' 0x01dc0000 0x00040000 AddDev MMAP_IO UNCACHEABLE MmIO NS_DEVICE,
    region_row ''CLK_TCSR_TCSR_REGS'' 0x01f00000 0x00100000 AddDev MMAP_IO UNCACHEABLE MmIO NS_DEVICE,
    region_row ''PERIPH_SS'' 0x08800000 0x00100000 AddDev MMAP_IO UNCACHEABLE MmIO NS_DEVICE,
    region_row ''USB'' 0x0a600000 0x00200000 AddDev MMAP_IO UNCACHEABLE MmIO NS_DEVICE,
    region_row ''AOSS'' 0x0b000000 0x04000000 AddDev MMAP_IO UNCACHEABLE MmIO NS_DEVICE,
    region_row ''TLMM'' 0x0f000000 0x01000000 AddDev MMAP_IO UNCACHEABLE MmIO NS_DEVICE,
    region_row ''SMMU'' 0x15000000 0x00200000 AddDev MMAP_IO UNCACHEABLE MmIO NS_DEVICE,
    region_row ''APSS_HM'' 0x16000000 0x06000000 AddDev MMAP_IO UNCACHEABLE MmIO NS_DEVICE]"

lemma ships_dodge: "ships True 0x80000000 gMemoryDescriptor_dodge"
  apply (rule shipsI_in_order)
  subgoal by (rule boot_regionsI(2); unfold gMemoryDescriptor_dodge_def; (rule lists_region_here | rule lists_region_skip)+)
  subgoal unfolding gMemoryDescriptor_dodge_def by (simp only: span_eval) simp
  done

definition gMemoryDescriptor_enchilada :: "region list" where
  "gMemoryDescriptor_enchilada = [
    region_row ''Kernel'' 0x80000000 0x00600000 AddMem SYS_MEM SYS_MEM_CAP Reserv WRITE_BACK_XN,
    region_row ''DBI Dump'' 0x80600000 0x00d20000 NoHob MMAP_IO INITIALIZED Conv UNCACHED_UNBUFFERED_XN,
    region_row ''Hypervisor'' 0x85700000 0x00600000 AddMem SYS_MEM SYS_MEM_CAP Reserv NS_DEVICE,
    region_row ''AOP CMD DB'' 0x85fe0000 0x00020000 AddMem SYS_MEM SYS_MEM_CAP Reserv WRITE_BACK_XN,
    region_row ''SMEM'' 0x86000000 0x00200000 AddMem MEM_RES UNCACHEABLE Reserv UNCACHED_UNBUFFERED_XN,
    region_row ''QSEE'' 0x86200000 0x04900000 AddMem MEM_RES UNCACHEABLE Reserv UNCACHED_UNBUFFERED_XN,
    region_row ''DXE Heap'' 0x97c00000 0x05730000 AddMem SYS_MEM SYS_MEM_CAP Conv WRITE_BACK_XN,
    region_row ''Display Reserved'' 0x9d400000 0x02400000 AddMem MEM_RES SYS_MEM_CAP Reserv WRITE_THROUGH_XN,
    region_row ''FV Region'' 0x9f800000 0x00400000 AddMem SYS_MEM SYS_MEM_CAP BsData WRITE_BACK_XN,
    region_row ''UEFI FD'' 0x9fc00000 0x00300000 AddMem SYS_MEM SYS_MEM_CAP BsData WRITE_BACK,
    region_row ''SEC Heap'' 0x9ff00000 0x0008c000 AddMem SYS_MEM SYS_MEM_CAP BsData WRITE_BACK_XN,
    region_row ''MMU PageTables'' 0x9ff8d000 0x00003000 AddMem SYS_MEM SYS_MEM_CAP BsData WRITE_BACK_XN,
    region_row ''UEFI Stack'' 0x9ff90000 0x00040000 AddMem SYS_MEM SYS_MEM_CAP BsData WRITE_BACK_XN,
    region_row ''Log Buffer'' 0x9fff7000 0x00008000 AddMem SYS_MEM SYS_MEM_CAP RtData WRITE_BACK_XN,
    region_row ''Info Blk'' 0x9ffff000 0x00001000 AddMem SYS_MEM SYS_MEM_CAP RtData WRITE_BACK_XN,
    region_row ''AOP_SS_MSG_RAM'' 0x0c300000 0x00100000 NoHob MMAP_IO INITIALIZED Conv NS_DEVICE,
    region_row ''IMEM Base'' 0x14680000 0x0003f000 NoHob MMAP_IO INITIALIZED Conv NS_DEVICE,
    region_row ''IMEM Cookie Base'' 0x146bf000 0x00001000 AddDev MMAP_IO INITIALIZED Conv NS_DEVICE,
    region_row ''GCC CLK CTL'' 0x00100000 0x000b0000 AddDev MMAP_IO UNCACHEABLE MmIO NS_DEVICE,
    region_row ''SECURITY CONTROL'' 0x00780000 0x00007000 AddDev MMAP_IO UNCACHEABLE MmIO NS_DEVICE,
    region_row ''PRNG_CFG_PRNG'' 0x00790000 0x00010000 AddDev MMAP_IO UNCACHEABLE MmIO NS_DEVICE,
    region_row ''QUPV3_0_GSI'' 0x00800000 0x000d0000 AddDev MMAP_IO UNCACHEABLE MmIO NS_DEVICE,
    region_row ''QUPV3_1_GSI'' 0x00a00000 0x000d0000 AddDev MMAP_IO UNCACHEABLE MmIO NS_DEVICE,
    region_row ''UFS UFS REGS'' 0x01d80000 0x00020000 AddDev MMAP_IO UNCACHEABLE MmIO NS_DEVICE,
    region_row ''CRYPTO0 CRYPTO'' 0x01dc0000 0x00040000 AddDev MMAP_IO UNCACHEABLE MmIO NS_DEVICE,
    region_row ''TCSR_TCSR_REGS'' 0x01fc0000 0x00030000 AddDev MMAP_IO UNCACHEABLE MmIO NS_DEVICE,
    region_row ''TLMM_EAST'' 0x03500000 0x00300000 AddDev MMAP_IO UNCACHEABLE MmIO NS_DEVICE,
    region_row ''TLMM_NORTH'' 0x03900000 0x00300000 AddDev MMAP_IO UNCACHEABLE MmIO NS_DEVICE,
    region_row ''TLMM_SOUTH'' 0x03d00000 0x00300000 AddDev MMAP_IO UNCACHEABLE MmIO NS_DEVICE,
    region_row ''GPU_CPR'' 0x0509a000 0x00004000 AddDev MMAP_IO UNCACHEABLE MmIO NS_DEVICE,
    region_row ''RPMH_CPRF'' 0x0c200000 0x0000f000 AddDev MMAP_IO UNCACHEABLE MmIO NS_DEVICE,
    region_row ''GPU_GMU_GX_BLK'' 0x0506a000 0x00001000 AddDev MMAP_IO UNCACHEABLE MmIO NS_DEVICE,
    region_row ''GPU_GMU_CX_BLK'' 0x0507d000 0x0000c000 AddDev MMAP_IO UNCACHEABLE MmIO NS_DEVICE,
    region_row ''GPU_CC'' 0x05090000 0x00010000 AddDev MMAP_IO UNCACHEABLE MmIO NS_DEVICE,
    region_row ''GPU_ISENSE'' 0x0508b000 0x00002000 AddDev MMAP_IO UNCACHEABLE MmIO NS_DEVICE,
    region_row ''QUPV3_SSC_GSI'' 0x05a00000 0x000d0000 AddDev MMAP_IO UNCACHEABLE MmIO NS_DEVICE,
    region_row ''PERIPH_SS'' 0x08800000 0x00200000 AddDev MMAP_IO UNCACHEABLE MmIO NS_DEVICE,
    region_row ''USB30_PRIM'' 0x0a600000 0x0011b000 AddDev MMAP_IO UNCACHEABLE MmIO NS_DEVICE,
    region_row ''VIDEO_CC'' 0x0ab00000 0x00010000 AddDev MMAP_IO UNCACHEABLE MmIO NS_DEVICE,
    region_row ''TITAN_CAM_CC'' 0x0ad00000 0x00010000 AddDev MMAP_IO UNCACHEABLE MmIO NS_DEVICE,
    region_row ''MDSS'' 0x0ae00000 0x00134000 AddDev MMAP_IO UNCACHEABLE MmIO NS_DEVICE,
    region_row ''DISP_CC'' 0x0af00000 0x00020000 AddDev MMAP_IO UNCACHEABLE MmIO NS_DEVICE,
    region_row ''PDC_DISPLAY'' 0x0b290000 0x00010000 AddDev MMAP_IO UNCACHEABLE MmIO NS_DEVICE,
    region_row ''PDC_DISP_SEQ'' 0x0b490000 0x00010000 AddDev MMAP_IO UNCACHEABLE MmIO NS_DEVICE,
    region_row ''RPMH_BCM_BCM_TOP'' 0x0ba00000 0x00200000 AddDev MMAP_IO UNCACHEABLE MmIO NS_DEVICE,
    region_row ''SLP_CNTR'' 0x0c221000 0x00001000 AddDev MMAP_IO UNCACHEABLE MmIO NS_DEVICE,
    region_row ''TSENS0'' 0x0c222000 0x00001000 AddDev MMAP_IO UNCACHEABLE MmIO NS_DEVICE,
    region_row ''TSENS1'' 0x0c223000 0x00001000 AddDev MMAP_IO UNCACHEABLE MmIO NS_DEVICE,
    region_row ''TSENS0_TM'' 0x0c263000 0x00001000 AddDev MMAP_IO UNCACHEABLE MmIO NS_DEVICE,
    region_row ''PSHOLD'' 0x0c264000 0x00001000 AddDev MMAP_IO UNCACHEABLE MmIO NS_DEVICE,
    region_row ''TSENS1_TM'' 0x0c265000 0x00001000 AddDev MMAP_IO UNCACHEABLE MmIO NS_DEVICE,
    region_row ''PMIC_ARB_SPMI'' 0x0c400000 0x02800000 AddDev MMAP_IO UNCACHEABLE MmIO NS_DEVICE,
    region_row ''SMMU'' 0x15000000 0x000d0000 AddDev MMAP_IO UNCACHEABLE MmIO NS_DEVICE,
    region_row ''GOLD_SAW4_SRM'' 0x17830000 0x00001000 AddDev MMAP_IO UNCACHEABLE MmIO NS_DEVICE,
    region_row ''SILVER_SAW4_SRM'' 0x17840000 0x00001000 AddDev MMAP_IO UNCACHEABLE MmIO NS_DEVICE,
    region_row ''GOLD_CLK_CTL'' 0x178b0000 0x00001000 AddDev MMAP_IO UNCACHEABLE MmIO NS_DEVICE,
    region_row ''SILVER_CLK_CTL'' 0x178c0000 0x00001000 AddDev MMAP_IO UNCACHEABLE MmIO NS_DEVICE,
    region_row ''L3_CLK_CTL'' 0x178d0000 0x00001000 AddDev MMAP_IO UNCACHEABLE MmIO NS_DEVICE,
    region_row ''APSS_WDT_TMR1'' 0x17980000 0x00001000 AddDev MMAP_IO UNCACHEABLE MmIO NS_DEVICE,
    region_row ''APSS_IPC_INT'' 0x17990000 0x00001000 AddDev MMAP_IO UNCACHEABLE MmIO NS_DEVICE,
    region_row ''APSS_RSC_RSCCR'' 0x179c0000 0x00030000 AddDev MMAP_IO UNCACHEABLE MmIO NS_DEVICE,
    region_row ''APSS_GIC500_GICD'' 0x17a00000 0x00010000 AddDev MMAP_IO UNCACHEABLE MmIO NS_DEVICE,
    region_row ''APSS_GIC500_GICR'' 0x17a60000 0x00100000 AddDev MMAP_IO UNCACHEABLE MmIO NS_DEVICE,
    region_row ''QTIMER'' 0x17c00000 0x00110000 AddDev MMAP_IO UNCACHEABLE MmIO NS_DEVICE,
    region_row ''OSM'' 0x17d20000 0x000b0000 AddDev MMAP_IO UNCACHEABLE MmIO NS_DEVICE]"

lemma ships_enchilada: "ships True 0x80000000 gMemoryDescriptor_enchilada"
  apply (rule shipsI_in_order)
  subgoal by (rule boot_regionsI(1); unfold gMemoryDescriptor_enchilada_def; (rule lists_region_here | rule lists_region_skip)+)
  subgoal unfolding gMemoryDescriptor_enchilada_def by (simp only: span_eval) simp
  done

definition gMemoryDescriptor_giulia :: "region list" where
  "gMemoryDescriptor_giulia = [
    region_row ''RSRV0'' 0x816e0000 0x00320000 AddMem SYS_MEM SYS_MEM_CAP Reserv WRITE_BACK_XN,
    region_row ''XBL_DT'' 0x81a00000 0x00040000 AddMem MEM_RES SYS_MEM_CAP Reserv WRITE_BACK_XN,
    region_row ''XBL_Ramdump'' 0x81a40000 0x001c0000 AddMem MEM_RES UNCACHEABLE Reserv UNCACHED_UNBUFFERED_XN,
    region_row ''AOP'' 0x81c00000 0x000a0000 AddMem MEM_RES UNCACHEABLE Reserv UNCACHED_UNBUFFERED_XN,
    region_row ''UEFI_Log'' 0x81ce4000 0x00010000 AddMem MEM_RES UNCACHEABLE Reserv UNCACHED_UNBUFFERED_XN,
    region_row ''SMEM'' 0x81d00000 0x00200000 AddMem MEM_RES UNCACHEABLE Reserv UNCACHED_UNBUFFERED_XN,
    region_row ''PvmFw'' 0x824a0000 0x00100000 AddMem SYS_MEM SYS_MEM_CAP Reserv WRITE_BACK_XN,
    region_row ''PIL_Reserved'' 0x8bc00000 0x17580000 AddMem MEM_RES UNCACHEABLE Reserv UNCACHED_UNBUFFERED_XN,
    region_row ''DBI_Dump'' 0xa6100000 0x00f00000 NoHob MMAP_IO INITIALIZED Conv UNCACHED_UNBUFFERED_XN,
    region_row ''FD_Reserved'' 0xa7000000 0x00100000 AddMem SYS_MEM SYS_MEM_CAP BsData WRITE_BACK,
    region_row ''UEFI_FD'' 0xa7100000 0x00300000 AddMem SYS_MEM SYS_MEM_CAP BsData WRITE_BACK,
    region_row ''UEFI_FD_Reserved'' 0xa7400000 0x00200000 AddMem SYS_MEM SYS_MEM_CAP BsData WRITE_BACK,
    region_row ''Info_Blk'' 0xa7601000 0x00001000 AddMem SYS_MEM SYS_MEM_CAP RtData WRITE_BACK_XN,
    region_row ''MMU_PageTables'' 0xa7602000 0x00003000 AddMem SYS_MEM SYS_MEM_CAP BsData WRITE_BACK_XN,
    region_row ''Log_Buffer'' 0xa7605000 0x00008000 AddMem SYS_MEM SYS_MEM_CAP RtData WRITE_BACK_XN,
    region_row ''UEFI_Stack'' 0xa760d000 0x00040000 AddMem SYS_MEM SYS_MEM_CAP BsData WRITE_BACK_XN,
    region_row ''SEC_Heap'' 0xa764d000 0x0008c000 AddMem SYS_MEM SYS_MEM_CAP BsData WRITE_BACK_XN,
    region_row ''Sched_Heap'' 0xa76d9000 0x00400000 AddMem SYS_MEM SYS_MEM_CAP BsData WRITE_BACK_XN,
    region_row ''FV_Region'' 0xa7ad9000 0x00400000 AddMem SYS_MEM SYS_MEM_CAP BsData WRITE_BACK_XN,
    region_row ''UEFI_RESV'' 0xa7ed9000 0x00127000 AddMem SYS_MEM SYS_MEM_CAP BsData WRITE_BACK_XN,
    region_row ''Kernel'' 0xa8000000 0x10000000 AddMem SYS_MEM SYS_MEM_CAP Reserv WRITE_BACK_XN,
    region_row ''DXE_Heap'' 0xb8000000 0x1ba00000 AddMem SYS_MEM SYS_MEM_CAP Conv WRITE_BACK_XN,
    region_row ''Display_Reserved'' 0xd5100000 0x02b00000 AddMem MEM_RES SYS_MEM_CAP Reserv WRITE_THROUGH_XN,
    region_row ''TZApps_Reserved'' 0xd8800000 0x1b000000 AddMem MEM_RES UNCACHEABLE Reserv UNCACHED_UNBUFFERED_XN,
    region_row ''IMEM_Base'' 0x14680000 0x0002a000 NoHob MMAP_IO INITIALIZED Conv NS_DEVICE,
    region_row ''IMEM_Cookie_Base'' 0x146aa000 0x00016000 AddDev MMAP_IO INITIALIZED Conv NS_DEVICE,
    region_row ''IPC_ROUTER_TOP'' 0x00400000 0x00100000 AddDev MMAP_IO UNCACHEABLE MmIO NS_DEVICE,
    region_row ''SECURITY_CONTROL'' 0x00780000 0x00007000 AddDev MMAP_IO UNCACHEABLE MmIO NS_DEVICE,
    region_row ''QUP'' 0x00800000 0x00300000 AddDev MMAP_IO UNCACHEABLE MmIO NS_DEVICE,
    region_row ''PRNG_CFG_PRNG'' 0x010c0000 0x0000c000 AddDev MMAP_IO UNCACHEABLE MmIO NS_DEVICE,
    region_row ''CRYPTO0_CRYPTO'' 0x01dc0000 0x00040000 AddDev MMAP_IO UNCACHEABLE MmIO NS_DEVICE,
    region_row ''CLK_TCSR_TCSR_REGS'' 0x01f00000 0x00100000 AddDev MMAP_IO UNCACHEABLE MmIO NS_DEVICE,
    region_row ''PERIPH_SS'' 0x08800000 0x00100000 AddDev MMAP_IO UNCACHEABLE MmIO NS_DEVICE,
    region_row ''USB'' 0x0a600000 0x00200000 AddDev MMAP_IO UNCACHEABLE MmIO NS_DEVICE,
    region_row ''AOSS'' 0x0b000000 0x04000000 AddDev MMAP_IO UNCACHEABLE MmIO NS_DEVICE,
    region_row ''TLMM'' 0x0f000000 0x01000000 AddDev MMAP_IO UNCACHEABLE MmIO NS_DEVICE,
    region_row ''SMMU'' 0x15000000 0x00200000 AddDev MMAP_IO UNCACHEABLE MmIO NS_DEVICE,
    region_row ''APSS_HM'' 0x17000000 0x02000000 AddDev MMAP_IO UNCACHEABLE MmIO NS_DEVICE]"

lemma ships_giulia: "ships True 0x80000000 gMemoryDescriptor_giulia"
  apply (rule shipsI_in_order)
  subgoal by (rule boot_regionsI(2); unfold gMemoryDescriptor_giulia_def; (rule lists_region_here | rule lists_region_skip)+)
  subgoal unfolding gMemoryDescriptor_giulia_def by (simp only: span_eval) simp
  done

definition platform_maps_1 :: "(string \<times> u64 \<times> region list) list" where
  "platform_maps_1 = [
    (''Asus/i005d'', 0x80000000, gMemoryDescriptor_i005d),
    (''LG/caymanslm'', 0x80000000, gMemoryDescriptor_caymanslm),
    (''LG/mh2'', 0x80000000, gMemoryDescriptor_mh2),
    (''Lenovo/9707f'', 0x80000000, gMemoryDescriptor_9707f),
    (''Lenovo/j706f'', 0x80000000, gMemoryDescriptor_j706f),
    (''Motorola/caprip'', 0x40000000, gMemoryDescriptor_caprip),
    (''Motorola/cebu'', 0x40000000, gMemoryDescriptor_cebu),
    (''Nintendo/nx'', 0x80000000, gMemoryDescriptor_nx),
    (''Nothing/pong'', 0x80000000, gMemoryDescriptor_pong),
    (''Nothing/spacewar'', 0x80000000, gMemoryDescriptor_spacewar),
    (''OnePlus/aston'', 0x80000000, gMemoryDescriptor_aston),
    (''OnePlus/cheeseburger'', 0x80000000, gMemoryDescriptor_cheeseburger),
    (''OnePlus/dodge'', 0x80000000, gMemoryDescriptor_dodge),
    (''OnePlus/enchilada'', 0x80000000, gMemoryDescriptor_enchilada),
    (''OnePlus/giulia'', 0x80000000, gMemoryDescriptor_giulia)]"

end
