(* ===== verification/PlatformMaps2.thy ===== *)
theory PlatformMaps2
  imports PlatformMap
begin

text \<open>
  Memory maps of the platforms, one definition per \<open>gMemoryDescriptor\<close> array of
  \<open>src/Platforms/<vendor>/<name>Pkg/Library/MemoryMapLib/MemoryMapLib.c\<close>, each with the check of
  what the pre-DXE phase needs of it:

  \<^item> \<open>OnePlus/infinitiPkg\<close>;
  \<^item> \<open>OnePlus/kebabPkg\<close>;
  \<^item> \<open>OnePlus/lemonadePkg\<close>;
  \<^item> \<open>OnePlus/macanPkg\<close>;
  \<^item> \<open>OnePlus/paganiPkg\<close>;
  \<^item> \<open>OnePlus/salamiPkg\<close>;
  \<^item> \<open>Qualcomm/qrd8550Pkg\<close>;
  \<^item> \<open>Realme/bale_bPkg\<close>;
  \<^item> \<open>Realme/bitraPkg\<close>;
  \<^item> \<open>Realme/senna_aPkg\<close>;
  \<^item> \<open>Realme/senna_bcPkg\<close>;
  \<^item> \<open>Samsung/a10Pkg\<close>;
  \<^item> \<open>Samsung/a52qPkg\<close>;
  \<^item> \<open>Samsung/a52sxqPkg\<close>;
  \<^item> \<open>Samsung/a7Pkg\<close>.
\<close>

definition gMemoryDescriptor_infiniti :: "region list" where
  "gMemoryDescriptor_infiniti = [
    region_row ''HYP'' 0x80000000 0x00e00000 AddMem SYS_MEM SYS_MEM_CAP Reserv WRITE_BACK_XN,
    region_row ''RSRV0'' 0x80e00000 0x00400000 AddMem SYS_MEM SYS_MEM_CAP Reserv WRITE_BACK_XN,
    region_row ''PDP'' 0x81300000 0x00100000 AddMem MEM_RES UNCACHEABLE Reserv UNCACHED_UNBUFFERED_XN,
    region_row ''RSRV1'' 0x81960000 0x000a0000 AddMem SYS_MEM SYS_MEM_CAP Reserv WRITE_BACK_XN,
    region_row ''XBL_DT'' 0x81a00000 0x00060000 AddMem MEM_RES SYS_MEM_CAP Reserv WRITE_BACK_XN,
    region_row ''AOP'' 0x81c00000 0x000a0000 AddMem MEM_RES UNCACHEABLE Reserv UNCACHED_UNBUFFERED_XN,
    region_row ''TME'' 0x81ca0000 0x00054000 AddMem MEM_RES UNCACHEABLE Reserv UNCACHED_UNBUFFERED_XN,
    region_row ''SMEM'' 0x81d00000 0x00200000 AddMem MEM_RES UNCACHEABLE Reserv UNCACHED_UNBUFFERED_XN,
    region_row ''PDP_NS'' 0x81f00000 0x00100000 AddMem MEM_RES UNCACHEABLE Reserv NS_DEVICE,
    region_row ''PvmFw'' 0x824a0000 0x00100000 AddMem SYS_MEM SYS_MEM_CAP Reserv WRITE_BACK_XN,
    region_row ''PIL_Reserved'' 0x8aa00000 0x1d300000 AddMem MEM_RES UNCACHEABLE Reserv UNCACHED_UNBUFFERED_XN,
    region_row ''Display_Demura'' 0xa7d00000 0x02c80000 AddMem MEM_RES SYS_MEM_CAP Reserv WRITE_THROUGH_XN,
    region_row ''DBI_Dump'' 0xaa980000 0x05770000 NoHob MMAP_IO INITIALIZED Conv UNCACHED_UNBUFFERED_XN,
    region_row ''DXE_Heap'' 0xb00f0000 0x131a0000 AddMem SYS_MEM SYS_MEM_CAP Conv WRITE_BACK_XN,
    region_row ''FD_Reserved'' 0xc6800000 0x00100000 AddMem SYS_MEM SYS_MEM_CAP BsData WRITE_BACK,
    region_row ''UEFI_FD'' 0xc6900000 0x00300000 AddMem SYS_MEM SYS_MEM_CAP BsData WRITE_BACK,
    region_row ''UEFI_FD_Reserved'' 0xc6c00000 0x00200000 AddMem SYS_MEM SYS_MEM_CAP BsData WRITE_BACK,
    region_row ''Info_Blk'' 0xc6e01000 0x00001000 AddMem SYS_MEM SYS_MEM_CAP RtData WRITE_BACK_XN,
    region_row ''MMU_PageTables'' 0xc6e02000 0x00003000 AddMem SYS_MEM SYS_MEM_CAP BsData WRITE_BACK_XN,
    region_row ''Log_Buffer'' 0xc6e05000 0x00008000 AddMem SYS_MEM SYS_MEM_CAP RtData WRITE_BACK_XN,
    region_row ''UEFI_Stack'' 0xc6e0d000 0x00040000 AddMem SYS_MEM SYS_MEM_CAP BsData WRITE_BACK_XN,
    region_row ''SEC_Heap'' 0xc6e4d000 0x0008c000 AddMem SYS_MEM SYS_MEM_CAP BsData WRITE_BACK_XN,
    region_row ''Sched_Heap'' 0xc6ed9000 0x00400000 AddMem SYS_MEM SYS_MEM_CAP BsData WRITE_BACK_XN,
    region_row ''FV_Region'' 0xc72d9000 0x00400000 AddMem SYS_MEM SYS_MEM_CAP BsData WRITE_BACK_XN,
    region_row ''UEFI_RESV'' 0xc76d9000 0x00127000 AddMem SYS_MEM SYS_MEM_CAP BsData WRITE_BACK_XN,
    region_row ''Kernel'' 0xc7800000 0x10000000 AddMem SYS_MEM SYS_MEM_CAP Reserv WRITE_BACK_XN,
    region_row ''XBL_Ramdump'' 0xd7800000 0x001c0000 AddMem MEM_RES UNCACHEABLE Reserv UNCACHED_UNBUFFERED_XN,
    region_row ''Global_SYNC'' 0xd7a00000 0x00200000 AddMem MEM_RES UNCACHEABLE Reserv UNCACHED_UNBUFFERED_XN,
    region_row ''Display_Reserved'' 0xfc800000 0x02b00000 AddMem MEM_RES SYS_MEM_CAP Reserv WRITE_THROUGH_XN,
    region_row ''IMEM_Cookie_Base'' 0x14680000 0x00001000 AddDev MMAP_IO INITIALIZED Conv NS_DEVICE,
    region_row ''IPC_ROUTER_TOP'' 0x01100000 0x00400000 AddDev MMAP_IO UNCACHEABLE MmIO NS_DEVICE,
    region_row ''SECURITY_CONTROL'' 0x00780000 0x00007000 AddDev MMAP_IO UNCACHEABLE MmIO NS_DEVICE,
    region_row ''QUP'' 0x00800000 0x00300000 AddDev MMAP_IO UNCACHEABLE MmIO NS_DEVICE,
    region_row ''QUP1'' 0x01900000 0x00200000 AddDev MMAP_IO UNCACHEABLE MmIO NS_DEVICE,
    region_row ''PRNG_CFG_PRNG'' 0x010c0000 0x0000c000 AddDev MMAP_IO UNCACHEABLE MmIO NS_DEVICE,
    region_row ''CRYPTO0_CRYPTO'' 0x01dc0000 0x00040000 AddDev MMAP_IO UNCACHEABLE MmIO NS_DEVICE,
    region_row ''TCSR_TCSR_REGS'' 0x01f00000 0x00100000 AddDev MMAP_IO UNCACHEABLE MmIO NS_DEVICE,
    region_row ''PERIPH_SS'' 0x08800000 0x00100000 AddDev MMAP_IO UNCACHEABLE MmIO NS_DEVICE,
    region_row ''USB'' 0x0a600000 0x00200000 AddDev MMAP_IO UNCACHEABLE MmIO NS_DEVICE,
    region_row ''AOSS'' 0x0b000000 0x04000000 AddDev MMAP_IO UNCACHEABLE MmIO NS_DEVICE,
    region_row ''TLMM'' 0x0f000000 0x01000000 AddDev MMAP_IO UNCACHEABLE MmIO NS_DEVICE,
    region_row ''SMMU'' 0x15000000 0x00200000 AddDev MMAP_IO UNCACHEABLE MmIO NS_DEVICE,
    region_row ''APSS_HM'' 0x17000000 0x08000000 AddDev MMAP_IO UNCACHEABLE MmIO NS_DEVICE]"

lemma ships_infiniti: "ships True 0x80000000 gMemoryDescriptor_infiniti"
  apply (rule shipsI_in_order)
  subgoal by (rule boot_regionsI(2); unfold gMemoryDescriptor_infiniti_def; (rule lists_region_here | rule lists_region_skip)+)
  subgoal unfolding gMemoryDescriptor_infiniti_def by (simp only: span_eval) simp
  done

definition gMemoryDescriptor_kebab :: "region list" where
  "gMemoryDescriptor_kebab = [
    region_row ''HYP'' 0x80000000 0x00600000 AddMem SYS_MEM SYS_MEM_CAP Reserv NS_DEVICE,
    region_row ''MPSS EFS'' 0x80600000 0x00100000 AddMem SYS_MEM SYS_MEM_CAP Reserv WRITE_BACK_XN,
    region_row ''AOP CMD DB'' 0x80860000 0x00020000 AddMem MEM_RES UNCACHEABLE Reserv UNCACHED_UNBUFFERED_XN,
    region_row ''SMEM'' 0x80900000 0x00200000 AddMem MEM_RES UNCACHEABLE Reserv UNCACHED_UNBUFFERED_XN,
    region_row ''TZApps Reserved'' 0x82400000 0x09600000 HobOnlyNoCacheSetting MEM_RES UNCACHEABLE Reserv UNCACHED_UNBUFFERED_XN,
    region_row ''PIL Reserved'' 0x8bf00000 0x06500000 AddMem MEM_RES UNCACHEABLE Reserv UNCACHED_UNBUFFERED_XN,
    region_row ''Sched Heap'' 0x9bc00000 0x00400000 AddMem SYS_MEM SYS_MEM_CAP BsData WRITE_BACK_XN,
    region_row ''Display Reserved'' 0x9c000000 0x02400000 AddMem MEM_RES SYS_MEM_CAP Reserv WRITE_THROUGH_XN,
    region_row ''DBI Dump'' 0x9e400000 0x00f00000 NoHob MMAP_IO INITIALIZED Conv UNCACHED_UNBUFFERED_XN,
    region_row ''FV Region'' 0x9f800000 0x00200000 AddMem SYS_MEM SYS_MEM_CAP BsData WRITE_BACK_XN,
    region_row ''ABOOT FV'' 0x9fa00000 0x00200000 AddMem SYS_MEM SYS_MEM_CAP Reserv WRITE_BACK_XN,
    region_row ''UEFI FD'' 0x9fc00000 0x00300000 AddMem SYS_MEM SYS_MEM_CAP BsData WRITE_BACK,
    region_row ''SEC Heap'' 0x9ff00000 0x0008c000 AddMem SYS_MEM SYS_MEM_CAP BsData WRITE_BACK_XN,
    region_row ''MMU PageTables'' 0x9ff8d000 0x00003000 AddMem SYS_MEM SYS_MEM_CAP BsData WRITE_BACK_XN,
    region_row ''UEFI Stack'' 0x9ff90000 0x00040000 AddMem SYS_MEM SYS_MEM_CAP BsData WRITE_BACK_XN,
    region_row ''Log Buffer'' 0x9fff7000 0x00008000 AddMem SYS_MEM SYS_MEM_CAP RtData WRITE_BACK_XN,
    region_row ''Info Blk'' 0x9ffff000 0x00001000 AddMem SYS_MEM SYS_MEM_CAP RtData WRITE_BACK_XN,
    region_row ''Kernel'' 0xa0000000 0x10000000 AddMem MEM_RES SYS_MEM_CAP Reserv WRITE_BACK_XN,
    region_row ''DXE Heap'' 0xb0000000 0x04500000 AddMem SYS_MEM SYS_MEM_CAP Conv WRITE_BACK_XN,
    region_row ''IMEM Base'' 0x14680000 0x00040000 NoHob MMAP_IO INITIALIZED Conv NS_DEVICE,
    region_row ''IMEM Cookie Base'' 0x146bf000 0x00001000 AddDev MMAP_IO INITIALIZED Conv NS_DEVICE,
    region_row ''IPC_ROUTER_TOP'' 0x00400000 0x00100000 AddDev MMAP_IO UNCACHEABLE MmIO NS_DEVICE,
    region_row ''SECURITY CONTROL'' 0x00780000 0x00007000 AddDev MMAP_IO UNCACHEABLE MmIO NS_DEVICE,
    region_row ''QUPV3_2_GSI'' 0x00800000 0x000d0000 AddDev MMAP_IO UNCACHEABLE MmIO NS_DEVICE,
    region_row ''QUPV3_0_GSI'' 0x00900000 0x000d0000 AddDev MMAP_IO UNCACHEABLE MmIO NS_DEVICE,
    region_row ''QUPV3_1_GSI'' 0x00a00000 0x000d0000 AddDev MMAP_IO UNCACHEABLE MmIO NS_DEVICE,
    region_row ''PRNG_CFG_PRNG'' 0x00790000 0x00010000 AddDev MMAP_IO UNCACHEABLE MmIO NS_DEVICE,
    region_row ''CRYPTO0 CRYPTO'' 0x01dc0000 0x00040000 AddDev MMAP_IO UNCACHEABLE MmIO NS_DEVICE,
    region_row ''TCSR_TCSR_REGS'' 0x01fc0000 0x00030000 AddDev MMAP_IO UNCACHEABLE MmIO NS_DEVICE,
    region_row ''GPU_GMU_CX_BLK'' 0x02c7d000 0x00002000 AddDev MMAP_IO UNCACHEABLE MmIO NS_DEVICE,
    region_row ''GPU_CC'' 0x02c90000 0x0000a000 AddDev MMAP_IO UNCACHEABLE MmIO NS_DEVICE,
    region_row ''QUPV3_SSC_GSI'' 0x05a00000 0x000d0000 AddDev MMAP_IO UNCACHEABLE MmIO NS_DEVICE,
    region_row ''PERIPH_SS'' 0x08800000 0x00200000 AddDev MMAP_IO UNCACHEABLE MmIO NS_DEVICE,
    region_row ''USB30_PRIM'' 0x0a600000 0x0011b000 AddDev MMAP_IO UNCACHEABLE MmIO NS_DEVICE,
    region_row ''USB_RUMI'' 0x0a720000 0x00010000 AddDev MMAP_IO UNCACHEABLE MmIO NS_DEVICE,
    region_row ''USB30_SEC'' 0x0a800000 0x0011b000 AddDev MMAP_IO UNCACHEABLE MmIO NS_DEVICE,
    region_row ''AOSS'' 0x0b000000 0x04000000 AddDev MMAP_IO UNCACHEABLE MmIO NS_DEVICE,
    region_row ''TLMM_WEST'' 0x0f100000 0x00300000 AddDev MMAP_IO UNCACHEABLE MmIO NS_DEVICE,
    region_row ''TLMM_SOUTH'' 0x0f500000 0x00300000 AddDev MMAP_IO UNCACHEABLE MmIO NS_DEVICE,
    region_row ''TLMM_NORTH'' 0x0f900000 0x00300000 AddDev MMAP_IO UNCACHEABLE MmIO NS_DEVICE,
    region_row ''SMMU'' 0x15000000 0x000d0000 AddDev MMAP_IO UNCACHEABLE MmIO NS_DEVICE,
    region_row ''APSS_HM'' 0x17800000 0x0d981000 AddDev MMAP_IO UNCACHEABLE MmIO NS_DEVICE]"

lemma ships_kebab: "ships True 0x80000000 gMemoryDescriptor_kebab"
  apply (rule shipsI_in_order)
  subgoal by (rule boot_regionsI(1); unfold gMemoryDescriptor_kebab_def; (rule lists_region_here | rule lists_region_skip)+)
  subgoal unfolding gMemoryDescriptor_kebab_def by (simp only: span_eval) simp
  done

definition gMemoryDescriptor_lemonade :: "region list" where
  "gMemoryDescriptor_lemonade = [
    region_row ''HYP'' 0x80000000 0x00600000 AddMem SYS_MEM SYS_MEM_CAP Reserv WRITE_BACK_XN,
    region_row ''AOP CMD DB'' 0x80860000 0x00020000 AddMem MEM_RES UNCACHEABLE Reserv UNCACHED_UNBUFFERED_XN,
    region_row ''XBL Log Buffer'' 0x80884000 0x00010000 AddMem SYS_MEM SYS_MEM_CAP Reserv WRITE_BACK_XN,
    region_row ''USB HLOS Shared'' 0x808a0000 0x00010000 AddMem SYS_MEM SYS_MEM_CAP Reserv UNCACHED_UNBUFFERED_XN,
    region_row ''GPU PRR'' 0x808b0000 0x00010000 AddMem MEM_RES WRITE_COMBINEABLE Reserv UNCACHED_UNBUFFERED_XN,
    region_row ''SMEM'' 0x80900000 0x00200000 AddMem MEM_RES UNCACHEABLE Reserv UNCACHED_UNBUFFERED_XN,
    region_row ''CPUCP FW'' 0x80b00000 0x00100000 AddMem SYS_MEM SYS_MEM_CAP Reserv UNCACHED_UNBUFFERED_XN,
    region_row ''MPSS_EFS'' 0x82480000 0x00280000 AddMem SYS_MEM SYS_MEM_CAP Reserv UNCACHED_UNBUFFERED_XN,
    region_row ''LPASS_NPU'' 0x82700000 0x02300000 AddMem MEM_RES UNCACHEABLE Reserv UNCACHED_UNBUFFERED_XN,
    region_row ''ADSP RPC'' 0x84a00000 0x00800000 AddMem MEM_RES UNCACHEABLE Reserv UNCACHED_UNBUFFERED_XN,
    region_row ''PIL Reserved'' 0x85200000 0x16c00000 AddMem MEM_RES UNCACHEABLE Reserv UNCACHED_UNBUFFERED_XN,
    region_row ''Sched Heap'' 0x9f400000 0x00400000 AddMem SYS_MEM SYS_MEM_CAP BsData WRITE_BACK_XN,
    region_row ''FV Region'' 0x9f800000 0x00400000 AddMem SYS_MEM SYS_MEM_CAP BsData WRITE_BACK_XN,
    region_row ''FD Reserved'' 0x9fc00000 0x00100000 AddMem SYS_MEM SYS_MEM_CAP BsData WRITE_BACK,
    region_row ''UEFI FD'' 0x9fd00000 0x00200000 AddMem SYS_MEM SYS_MEM_CAP BsData WRITE_BACK,
    region_row ''SEC Heap'' 0x9ff00000 0x0008c000 AddMem SYS_MEM SYS_MEM_CAP BsData WRITE_BACK_XN,
    region_row ''MMU PageTables'' 0x9ff8d000 0x00003000 AddMem SYS_MEM SYS_MEM_CAP BsData WRITE_BACK_XN,
    region_row ''UEFI Stack'' 0x9ff90000 0x00040000 AddMem SYS_MEM SYS_MEM_CAP BsData WRITE_BACK_XN,
    region_row ''Log Buffer'' 0x9fff7000 0x00008000 AddMem SYS_MEM SYS_MEM_CAP RtData WRITE_BACK_XN,
    region_row ''Info Blk'' 0x9ffff000 0x00001000 AddMem SYS_MEM SYS_MEM_CAP RtData WRITE_BACK_XN,
    region_row ''DXE Heap'' 0xa0000000 0x06500000 AddMem SYS_MEM SYS_MEM_CAP Conv WRITE_BACK_XN,
    region_row ''QTEE'' 0xd8800000 0x01800000 HobOnlyNoCacheSetting MEM_RES UNCACHEABLE Reserv UNCACHED_UNBUFFERED_XN,
    region_row ''TZApps Reserved'' 0xda000000 0x07600000 HobOnlyNoCacheSetting MEM_RES UNCACHEABLE Reserv UNCACHED_UNBUFFERED_XN,
    region_row ''DBI Dump'' 0xe3d00000 0x00f00000 NoHob MMAP_IO INITIALIZED Conv UNCACHED_UNBUFFERED_XN,
    region_row ''Display Reserved'' 0xe4d00000 0x02400000 AddMem MEM_RES SYS_MEM_CAP Reserv WRITE_THROUGH_XN,
    region_row ''IMEM Base'' 0x14680000 0x00040000 NoHob MMAP_IO INITIALIZED Conv NS_DEVICE,
    region_row ''IMEM Cookie Base'' 0x146bf000 0x00001000 AddDev MMAP_IO INITIALIZED Conv NS_DEVICE,
    region_row ''IPC_ROUTER_TOP'' 0x00400000 0x00100000 AddDev MMAP_IO UNCACHEABLE MmIO NS_DEVICE,
    region_row ''SECURITY CONTROL'' 0x00780000 0x00007000 AddDev MMAP_IO UNCACHEABLE MmIO NS_DEVICE,
    region_row ''QUP'' 0x00800000 0x00300000 AddDev MMAP_IO UNCACHEABLE MmIO NS_DEVICE,
    region_row ''PRNG_CFG_PRNG'' 0x010d0000 0x00010000 AddDev MMAP_IO UNCACHEABLE MmIO NS_DEVICE,
    region_row ''TCSR_TCSR_REGS'' 0x01f00000 0x00100000 AddDev MMAP_IO UNCACHEABLE MmIO NS_DEVICE,
    region_row ''PERIPH_SS'' 0x08800000 0x00200000 AddDev MMAP_IO UNCACHEABLE MmIO NS_DEVICE,
    region_row ''USB'' 0x0a400000 0x00c00000 AddDev MMAP_IO UNCACHEABLE MmIO NS_DEVICE,
    region_row ''AOSS'' 0x0b000000 0x04000000 AddDev MMAP_IO UNCACHEABLE MmIO NS_DEVICE,
    region_row ''TLMM_WEST'' 0x0f100000 0x00300000 AddDev MMAP_IO UNCACHEABLE MmIO NS_DEVICE,
    region_row ''TLMM_SOUTH'' 0x0f500000 0x00300000 AddDev MMAP_IO UNCACHEABLE MmIO NS_DEVICE,
    region_row ''TLMM_NORTH'' 0x0f900000 0x00300000 AddDev MMAP_IO UNCACHEABLE MmIO NS_DEVICE,
    region_row ''SMMU'' 0x15000000 0x000d0000 AddDev MMAP_IO UNCACHEABLE MmIO NS_DEVICE,
    region_row ''APSS_HM'' 0x17800000 0x00d99000 AddDev MMAP_IO UNCACHEABLE MmIO NS_DEVICE]"

lemma ships_lemonade: "ships True 0x80000000 gMemoryDescriptor_lemonade"
  apply (rule shipsI_in_order)
  subgoal by (rule boot_regionsI(1); unfold gMemoryDescriptor_lemonade_def; (rule lists_region_here | rule lists_region_skip)+)
  subgoal unfolding gMemoryDescriptor_lemonade_def by (simp only: span_eval) simp
  done

definition gMemoryDescriptor_macan :: "region list" where
  "gMemoryDescriptor_macan = [
    region_row ''HYP'' 0x80000000 0x00e00000 AddMem SYS_MEM SYS_MEM_CAP Reserv WRITE_BACK_XN,
    region_row ''RSRV'' 0x80e00000 0x00400000 AddMem SYS_MEM SYS_MEM_CAP Reserv WRITE_BACK_XN,
    region_row ''CPUCP FW'' 0x81200000 0x00100000 AddMem SYS_MEM SYS_MEM_CAP Reserv UNCACHED_UNBUFFERED_XN,
    region_row ''PDP'' 0x81300000 0x00100000 AddMem MEM_RES UNCACHEABLE Reserv UNCACHED_UNBUFFERED_XN,
    region_row ''XBL_DT'' 0x81a00000 0x00060000 AddMem MEM_RES SYS_MEM_CAP Reserv WRITE_BACK_XN,
    region_row ''AOP'' 0x81c00000 0x000a0000 AddMem MEM_RES UNCACHEABLE Reserv UNCACHED_UNBUFFERED_XN,
    region_row ''TME'' 0x81ca0000 0x00044000 AddMem MEM_RES UNCACHEABLE Reserv UNCACHED_UNBUFFERED_XN,
    region_row ''UEFI_Log'' 0x81ce4000 0x00010000 AddMem MEM_RES UNCACHEABLE Reserv UNCACHED_UNBUFFERED_XN,
    region_row ''SEC_DATA_APPS'' 0x81cff000 0x00001000 AddMem MEM_RES UNCACHEABLE Reserv UNCACHED_UNBUFFERED_XN,
    region_row ''SMEM'' 0x81d00000 0x00200000 AddMem MEM_RES UNCACHEABLE Reserv UNCACHED_UNBUFFERED_XN,
    region_row ''PDP_NS'' 0x81f00000 0x00100000 AddMem MEM_RES UNCACHEABLE Reserv NS_DEVICE,
    region_row ''CPUCP_Scandump'' 0x82000000 0x00380000 AddMem SYS_MEM SYS_MEM_CAP Reserv WRITE_BACK_XN,
    region_row ''ADSP_MHI'' 0x82380000 0x00020000 AddMem SYS_MEM SYS_MEM_CAP Reserv WRITE_BACK_XN,
    region_row ''SOCCP_SDI'' 0x823a0000 0x00040000 AddMem SYS_MEM SYS_MEM_CAP Reserv WRITE_BACK_XN,
    region_row ''PMIC_Minii_Dump'' 0x823e0000 0x00080000 AddMem SYS_MEM SYS_MEM_CAP Reserv WRITE_BACK_XN,
    region_row ''QupFw'' 0x82460000 0x00018000 AddMem SYS_MEM SYS_MEM_CAP Reserv WRITE_BACK_XN,
    region_row ''PvmFw'' 0x824a0000 0x00100000 AddMem SYS_MEM SYS_MEM_CAP Reserv WRITE_BACK_XN,
    region_row ''HYP_Database'' 0x825a0000 0x00060000 AddMem SYS_MEM SYS_MEM_CAP Reserv WRITE_BACK_XN,
    region_row ''TZ_STATS'' 0x82700000 0x00100000 AddMem MEM_RES UNCACHEABLE Reserv UNCACHED_UNBUFFERED_XN,
    region_row ''DSM'' 0x84a00000 0x05f80000 AddMem SYS_MEM SYS_MEM_CAP Reserv WRITE_BACK_XN,
    region_row ''PIL_Reserved'' 0x8aa00000 0x1a400000 AddMem MEM_RES UNCACHEABLE Reserv UNCACHED_UNBUFFERED_XN,
    region_row ''FD_Reserved'' 0xa7000000 0x00100000 AddMem SYS_MEM SYS_MEM_CAP BsData WRITE_BACK,
    region_row ''UEFI_FD'' 0xa7100000 0x00300000 AddMem SYS_MEM SYS_MEM_CAP BsData WRITE_BACK,
    region_row ''UEFI_FD_Reserved'' 0xa7400000 0x00200000 AddMem SYS_MEM SYS_MEM_CAP BsData WRITE_BACK,
    region_row ''Info_Blk'' 0xa7601000 0x00001000 AddMem SYS_MEM SYS_MEM_CAP RtData WRITE_BACK_XN,
    region_row ''MMU_PageTables'' 0xa7602000 0x00003000 AddMem SYS_MEM SYS_MEM_CAP BsData WRITE_BACK_XN,
    region_row ''Log_Buffer'' 0xa7605000 0x00008000 AddMem SYS_MEM SYS_MEM_CAP RtData WRITE_BACK_XN,
    region_row ''UEFI_Stack'' 0xa760d000 0x00040000 AddMem SYS_MEM SYS_MEM_CAP BsData WRITE_BACK_XN,
    region_row ''SEC_Heap'' 0xa764d000 0x0008c000 AddMem SYS_MEM SYS_MEM_CAP BsData WRITE_BACK_XN,
    region_row ''Sched_Heap'' 0xa76d9000 0x00400000 AddMem SYS_MEM SYS_MEM_CAP BsData WRITE_BACK_XN,
    region_row ''FV_Region'' 0xa7ad9000 0x00400000 AddMem SYS_MEM SYS_MEM_CAP BsData WRITE_BACK_XN,
    region_row ''UEFI_RESV'' 0xa7ed9000 0x00127000 AddMem SYS_MEM SYS_MEM_CAP BsData WRITE_BACK_XN,
    region_row ''Kernel'' 0xa8000000 0x10000000 AddMem SYS_MEM SYS_MEM_CAP Reserv WRITE_BACK_XN,
    region_row ''XBL_Ramdump'' 0xb8000000 0x001c0000 AddMem MEM_RES UNCACHEABLE Reserv UNCACHED_UNBUFFERED_XN,
    region_row ''Display_Demura'' 0xb81c0000 0x02c80000 AddMem MEM_RES SYS_MEM_CAP Reserv WRITE_THROUGH_XN,
    region_row ''DBI_Dump'' 0xbae40000 0x00f00000 NoHob MMAP_IO INITIALIZED Conv UNCACHED_UNBUFFERED_XN,
    region_row ''DXE_Heap'' 0xbbd40000 0x06500000 AddMem SYS_MEM SYS_MEM_CAP Conv WRITE_BACK_XN,
    region_row ''HW_Fence'' 0xd4e23000 0x002dd000 AddMem SYS_MEM SYS_MEM_CAP Reserv WRITE_BACK_XN,
    region_row ''HYP_Heap'' 0xd63d0000 0x00800000 AddMem SYS_MEM SYS_MEM_CAP Reserv WRITE_BACK_XN,
    region_row ''WLAN_MSA'' 0xd6e00000 0x00c00000 AddMem SYS_MEM SYS_MEM_CAP Reserv WRITE_BACK_XN,
    region_row ''Global_SYNC'' 0xd7a00000 0x00200000 AddMem MEM_RES UNCACHEABLE Reserv UNCACHED_UNBUFFERED_XN,
    region_row ''TZApps_Reserved'' 0xd8000000 0x03a00000 AddMem MEM_RES UNCACHEABLE Reserv UNCACHED_UNBUFFERED_XN,
    region_row ''Guest_VM'' 0xf7c00000 0x04c00000 AddMem SYS_MEM SYS_MEM_CAP Reserv WRITE_BACK_XN,
    region_row ''Display_Reserved'' 0xfc800000 0x02b00000 AddMem MEM_RES SYS_MEM_CAP Reserv WRITE_THROUGH_XN,
    region_row ''LLCC_LPI'' 0xff800000 0x00600000 AddMem SYS_MEM SYS_MEM_CAP Reserv WRITE_BACK_XN,
    region_row ''IMEM_Cookie_Base'' 0x14680000 0x00001000 AddDev MMAP_IO INITIALIZED Conv NS_DEVICE,
    region_row ''IPC_ROUTER_TOP'' 0x01100000 0x00400000 AddDev MMAP_IO UNCACHEABLE MmIO NS_DEVICE,
    region_row ''SECURITY_CONTROL'' 0x00780000 0x00007000 AddDev MMAP_IO UNCACHEABLE MmIO NS_DEVICE,
    region_row ''QUP'' 0x00800000 0x00300000 AddDev MMAP_IO UNCACHEABLE MmIO NS_DEVICE,
    region_row ''QUP1'' 0x01900000 0x00200000 AddDev MMAP_IO UNCACHEABLE MmIO NS_DEVICE,
    region_row ''PRNG_CFG_PRNG'' 0x010c0000 0x0000c000 AddDev MMAP_IO UNCACHEABLE MmIO NS_DEVICE,
    region_row ''CRYPTO0_CRYPTO'' 0x01dc0000 0x00040000 AddDev MMAP_IO UNCACHEABLE MmIO NS_DEVICE,
    region_row ''TCSR_TCSR_REGS'' 0x01f00000 0x00100000 AddDev MMAP_IO UNCACHEABLE MmIO NS_DEVICE,
    region_row ''PERIPH_SS'' 0x08800000 0x00100000 AddDev MMAP_IO UNCACHEABLE MmIO NS_DEVICE,
    region_row ''USB'' 0x0a600000 0x00200000 AddDev MMAP_IO UNCACHEABLE MmIO NS_DEVICE,
    region_row ''AOSS'' 0x0b000000 0x04000000 AddDev MMAP_IO UNCACHEABLE MmIO NS_DEVICE,
    region_row ''TLMM'' 0x0f000000 0x01000000 AddDev MMAP_IO UNCACHEABLE MmIO NS_DEVICE,
    region_row ''SMMU'' 0x15000000 0x00200000 AddDev MMAP_IO UNCACHEABLE MmIO NS_DEVICE,
    region_row ''APSS_HM'' 0x17000000 0x08000000 AddDev MMAP_IO UNCACHEABLE MmIO NS_DEVICE]"

lemma ships_macan: "ships True 0x80000000 gMemoryDescriptor_macan"
  apply (rule shipsI_in_order)
  subgoal by (rule boot_regionsI(2); unfold gMemoryDescriptor_macan_def; (rule lists_region_here | rule lists_region_skip)+)
  subgoal unfolding gMemoryDescriptor_macan_def by (simp only: span_eval) simp
  done

definition gMemoryDescriptor_pagani :: "region list" where
  "gMemoryDescriptor_pagani = [
    region_row ''RSRV0'' 0x81960000 0x000a0000 AddMem SYS_MEM SYS_MEM_CAP Reserv WRITE_BACK_XN,
    region_row ''XBL_DT'' 0x81a00000 0x00040000 AddMem MEM_RES SYS_MEM_CAP Reserv WRITE_BACK_XN,
    region_row ''AOP'' 0x81c00000 0x000a0000 AddMem MEM_RES UNCACHEABLE Reserv UNCACHED_UNBUFFERED_XN,
    region_row ''UEFI_Log'' 0x81ce4000 0x00010000 AddMem MEM_RES UNCACHEABLE Reserv UNCACHED_UNBUFFERED_XN,
    region_row ''SMEM'' 0x81d00000 0x00200000 AddMem MEM_RES UNCACHEABLE Reserv UNCACHED_UNBUFFERED_XN,
    region_row ''PDP_NS'' 0x81f00000 0x00100000 AddMem MEM_RES UNCACHEABLE Reserv NS_DEVICE,
    region_row ''PvmFw'' 0x824a0000 0x00100000 AddMem SYS_MEM SYS_MEM_CAP Reserv WRITE_BACK_XN,
    region_row ''Global_SYNC'' 0x82600000 0x00100000 AddMem MEM_RES UNCACHEABLE Reserv UNCACHED_UNBUFFERED_XN,
    region_row ''PIL_Reserved'' 0x89e00000 0x19700000 AddMem MEM_RES UNCACHEABLE Reserv UNCACHED_UNBUFFERED_XN,
    region_row ''Display_Demura'' 0xa3500000 0x02c80000 AddMem MEM_RES SYS_MEM_CAP Reserv WRITE_THROUGH_XN,
    region_row ''FD_Reserved'' 0xa7000000 0x00100000 AddMem SYS_MEM SYS_MEM_CAP BsData WRITE_BACK,
    region_row ''UEFI_FD'' 0xa7100000 0x00300000 AddMem SYS_MEM SYS_MEM_CAP BsData WRITE_BACK,
    region_row ''UEFI_FD_Reserved'' 0xa7400000 0x00200000 AddMem SYS_MEM SYS_MEM_CAP BsData WRITE_BACK,
    region_row ''Info_Blk'' 0xa7601000 0x00001000 AddMem SYS_MEM SYS_MEM_CAP RtData WRITE_BACK_XN,
    region_row ''MMU_PageTables'' 0xa7602000 0x00003000 AddMem SYS_MEM SYS_MEM_CAP BsData WRITE_BACK_XN,
    region_row ''Log_Buffer'' 0xa7605000 0x00008000 AddMem SYS_MEM SYS_MEM_CAP RtData WRITE_BACK_XN,
    region_row ''UEFI_Stack'' 0xa760d000 0x00040000 AddMem SYS_MEM SYS_MEM_CAP BsData WRITE_BACK_XN,
    region_row ''SEC_Heap'' 0xa764d000 0x0008c000 AddMem SYS_MEM SYS_MEM_CAP BsData WRITE_BACK_XN,
    region_row ''Sched_Heap'' 0xa76d9000 0x00400000 AddMem SYS_MEM SYS_MEM_CAP BsData WRITE_BACK_XN,
    region_row ''FV_Region'' 0xa7ad9000 0x00400000 AddMem SYS_MEM SYS_MEM_CAP BsData WRITE_BACK_XN,
    region_row ''UEFI_RESV'' 0xa7ed9000 0x00127000 AddMem SYS_MEM SYS_MEM_CAP BsData WRITE_BACK_XN,
    region_row ''Kernel'' 0xa8000000 0x10000000 AddMem SYS_MEM SYS_MEM_CAP Reserv WRITE_BACK_XN,
    region_row ''XBL_Ramdump'' 0xb8000000 0x001c0000 AddMem MEM_RES UNCACHEABLE Reserv UNCACHED_UNBUFFERED_XN,
    region_row ''DBI_Dump'' 0xb81c0000 0x05770000 NoHob MMAP_IO INITIALIZED Conv UNCACHED_UNBUFFERED_XN,
    region_row ''DXE_Heap'' 0xbe360000 0x19ca0000 AddMem SYS_MEM SYS_MEM_CAP Conv WRITE_BACK_XN,
    region_row ''Display_Reserved'' 0xfc800000 0x02b00000 AddMem MEM_RES SYS_MEM_CAP Reserv WRITE_THROUGH_XN,
    region_row ''IMEM_Base'' 0x14680000 0x0002a000 NoHob MMAP_IO INITIALIZED Conv NS_DEVICE,
    region_row ''IMEM_Cookie_Base'' 0x146aa000 0x00016000 AddDev MMAP_IO INITIALIZED Conv NS_DEVICE,
    region_row ''IPC_ROUTER_TOP'' 0x00400000 0x00100000 AddDev MMAP_IO UNCACHEABLE MmIO NS_DEVICE,
    region_row ''SECURITY_CONTROL'' 0x00780000 0x00007000 AddDev MMAP_IO UNCACHEABLE MmIO NS_DEVICE,
    region_row ''QUP'' 0x00800000 0x00300000 AddDev MMAP_IO UNCACHEABLE MmIO NS_DEVICE,
    region_row ''PRNG_CFG_PRNG'' 0x010c0000 0x0000c000 AddDev MMAP_IO UNCACHEABLE MmIO NS_DEVICE,
    region_row ''CRYPTO0_CRYPTO'' 0x01dc0000 0x00040000 AddDev MMAP_IO UNCACHEABLE MmIO NS_DEVICE,
    region_row ''CLK_TCSR_TCSR_REGS'' 0x01f00000 0x00100000 AddDev MMAP_IO UNCACHEABLE MmIO NS_DEVICE,
    region_row ''PERIPH_SS'' 0x08800000 0x00100000 AddDev MMAP_IO UNCACHEABLE MmIO NS_DEVICE,
    region_row ''USB'' 0x0a600000 0x00200000 AddDev MMAP_IO UNCACHEABLE MmIO NS_DEVICE,
    region_row ''AOSS'' 0x0b000000 0x04000000 AddDev MMAP_IO UNCACHEABLE MmIO NS_DEVICE,
    region_row ''TLMM'' 0x0f000000 0x01000000 AddDev MMAP_IO UNCACHEABLE MmIO NS_DEVICE,
    region_row ''SMMU'' 0x15000000 0x00200000 AddDev MMAP_IO UNCACHEABLE MmIO NS_DEVICE,
    region_row ''APSS_HM'' 0x16000000 0x06000000 AddDev MMAP_IO UNCACHEABLE MmIO NS_DEVICE]"

lemma ships_pagani: "ships True 0x80000000 gMemoryDescriptor_pagani"
  apply (rule shipsI_in_order)
  subgoal by (rule boot_regionsI(2); unfold gMemoryDescriptor_pagani_def; (rule lists_region_here | rule lists_region_skip)+)
  subgoal unfolding gMemoryDescriptor_pagani_def by (simp only: span_eval) simp
  done

definition gMemoryDescriptor_salami :: "region list" where
  "gMemoryDescriptor_salami = [
    region_row ''NOMAP'' 0x80000000 0x01200000 AddMem MEM_RES UNCACHEABLE Reserv UNCACHED_UNBUFFERED_XN,
    region_row ''RSRV0'' 0x81200000 0x00800000 AddMem SYS_MEM SYS_MEM_CAP Reserv WRITE_BACK_XN,
    region_row ''XBL DT'' 0x81a00000 0x00040000 AddMem SYS_MEM SYS_MEM_CAP Reserv WRITE_BACK_XN,
    region_row ''XBL Ramdump'' 0x81a40000 0x001c0000 AddMem MEM_RES UNCACHEABLE Reserv UNCACHED_UNBUFFERED_XN,
    region_row ''AOP'' 0x81c00000 0x000a0000 AddMem MEM_RES UNCACHEABLE Reserv UNCACHED_UNBUFFERED_XN,
    region_row ''SMEM'' 0x81d00000 0x00200000 AddMem MEM_RES UNCACHEABLE Reserv UNCACHED_UNBUFFERED_XN,
    region_row ''UEFI Log'' 0x81ce4000 0x00010000 AddMem MEM_RES UNCACHEABLE Reserv UNCACHED_UNBUFFERED_XN,
    region_row ''PIL Reserved'' 0x8a800000 0x18280000 AddMem MEM_RES UNCACHEABLE Reserv UNCACHED_UNBUFFERED_XN,
    region_row ''Display Demura'' 0xa2a80000 0x02b00000 AddMem MEM_RES SYS_MEM_CAP Reserv WRITE_THROUGH_XN,
    region_row ''DBI Dump'' 0xa6100000 0x00f00000 NoHob MMAP_IO INITIALIZED Conv UNCACHED_UNBUFFERED_XN,
    region_row ''FD Reserved'' 0xa7000000 0x00100000 AddMem SYS_MEM SYS_MEM_CAP BsData WRITE_BACK,
    region_row ''UEFI FD'' 0xa7100000 0x00300000 AddMem SYS_MEM SYS_MEM_CAP BsData WRITE_BACK,
    region_row ''UEFI FD Reserved'' 0xa7400000 0x00200000 AddMem SYS_MEM SYS_MEM_CAP BsData WRITE_BACK,
    region_row ''Info Blk'' 0xa7601000 0x00001000 AddMem SYS_MEM SYS_MEM_CAP RtData WRITE_BACK_XN,
    region_row ''MMU PageTables'' 0xa7602000 0x00003000 AddMem SYS_MEM SYS_MEM_CAP BsData WRITE_BACK_XN,
    region_row ''Log Buffer'' 0xa7605000 0x00008000 AddMem SYS_MEM SYS_MEM_CAP RtData WRITE_BACK_XN,
    region_row ''UEFI Stack'' 0xa760d000 0x00040000 AddMem SYS_MEM SYS_MEM_CAP BsData WRITE_BACK_XN,
    region_row ''SEC Heap'' 0xa764d000 0x0008c000 AddMem SYS_MEM SYS_MEM_CAP BsData WRITE_BACK_XN,
    region_row ''Sched Heap'' 0xa76d9000 0x00400000 AddMem SYS_MEM SYS_MEM_CAP BsData WRITE_BACK_XN,
    region_row ''FV Region'' 0xa7ad9000 0x00400000 AddMem SYS_MEM SYS_MEM_CAP BsData WRITE_BACK_XN,
    region_row ''UEFI RESV'' 0xa7ed9000 0x00127000 AddMem SYS_MEM SYS_MEM_CAP BsData WRITE_BACK_XN,
    region_row ''Kernel'' 0xa8000000 0x10000000 AddMem SYS_MEM SYS_MEM_CAP Reserv WRITE_BACK_XN,
    region_row ''Display Reserved'' 0xb8000000 0x02b00000 AddMem MEM_RES SYS_MEM_CAP Reserv WRITE_THROUGH_XN,
    region_row ''DXE Heap'' 0xbab00000 0x0d1c0000 AddMem SYS_MEM SYS_MEM_CAP Conv WRITE_BACK_XN,
    region_row ''TZApps Reserved'' 0xd8800000 0x07400000 AddMem MEM_RES UNCACHEABLE Reserv UNCACHED_UNBUFFERED_XN,
    region_row ''NOMAP'' 0xff800000 0x00800000 AddMem MEM_RES UNCACHEABLE Reserv UNCACHED_UNBUFFERED_XN,
    region_row ''IMEM Base'' 0x14680000 0x0002a000 NoHob MMAP_IO INITIALIZED Conv NS_DEVICE,
    region_row ''IMEM Cookie Base'' 0x146aa000 0x00016000 AddDev MMAP_IO INITIALIZED Conv NS_DEVICE,
    region_row ''IPC_ROUTER_TOP'' 0x00400000 0x00100000 AddDev MMAP_IO UNCACHEABLE MmIO NS_DEVICE,
    region_row ''SECURITY CONTROL'' 0x00780000 0x00007000 AddDev MMAP_IO UNCACHEABLE MmIO NS_DEVICE,
    region_row ''QUP'' 0x00800000 0x00300000 AddDev MMAP_IO UNCACHEABLE MmIO NS_DEVICE,
    region_row ''PRNG_CFG_PRNG'' 0x010c0000 0x0000c000 AddDev MMAP_IO UNCACHEABLE MmIO NS_DEVICE,
    region_row ''CRYPTO0 CRYPTO'' 0x01dc0000 0x00040000 AddDev MMAP_IO UNCACHEABLE MmIO NS_DEVICE,
    region_row ''CORE_TOP_CSR'' 0x01f00000 0x00100000 AddDev MMAP_IO UNCACHEABLE MmIO NS_DEVICE,
    region_row ''PERIPH_SS'' 0x08800000 0x00100000 AddDev MMAP_IO UNCACHEABLE MmIO NS_DEVICE,
    region_row ''USB'' 0x0a600000 0x00200000 AddDev MMAP_IO UNCACHEABLE MmIO NS_DEVICE,
    region_row ''AOSS'' 0x0b000000 0x04000000 AddDev MMAP_IO UNCACHEABLE MmIO NS_DEVICE,
    region_row ''TLMM'' 0x0f000000 0x01000000 AddDev MMAP_IO UNCACHEABLE MmIO NS_DEVICE,
    region_row ''SMMU'' 0x15000000 0x00200000 AddDev MMAP_IO UNCACHEABLE MmIO NS_DEVICE,
    region_row ''APSS_HM'' 0x17000000 0x02000000 AddDev MMAP_IO UNCACHEABLE MmIO NS_DEVICE]"

lemma ships_salami: "ships True 0x80000000 gMemoryDescriptor_salami"
  apply (rule shipsI)
  subgoal by (rule boot_regionsI(1); unfold gMemoryDescriptor_salami_def; (rule lists_region_here | rule lists_region_skip)+)
  subgoal unfolding gMemoryDescriptor_salami_def by (simp only: span_eval) simp
  subgoal unfolding gMemoryDescriptor_salami_def by (simp only: span_eval) (simp add: spans_ok_def ram_spans_def)
  done

definition gMemoryDescriptor_qrd8550 :: "region list" where
  "gMemoryDescriptor_qrd8550 = [
    region_row ''NOMAP'' 0x80000000 0x01200000 AddMem MEM_RES UNCACHEABLE Reserv UNCACHED_UNBUFFERED_XN,
    region_row ''RSRV0'' 0x81200000 0x00800000 AddMem SYS_MEM SYS_MEM_CAP Reserv WRITE_BACK_XN,
    region_row ''XBL DT'' 0x81a00000 0x00040000 AddMem SYS_MEM SYS_MEM_CAP Reserv WRITE_BACK_XN,
    region_row ''XBL Ramdump'' 0x81a40000 0x001c0000 AddMem MEM_RES UNCACHEABLE Reserv UNCACHED_UNBUFFERED_XN,
    region_row ''AOP'' 0x81c00000 0x000a0000 AddMem MEM_RES UNCACHEABLE Reserv UNCACHED_UNBUFFERED_XN,
    region_row ''SMEM'' 0x81d00000 0x00200000 AddMem MEM_RES UNCACHEABLE Reserv UNCACHED_UNBUFFERED_XN,
    region_row ''GPU PRR'' 0x81f00000 0x00010000 AddMem MEM_RES WRITE_COMBINEABLE Reserv UNCACHED_UNBUFFERED_XN,
    region_row ''TPMControl'' 0x81f10000 0x00010000 AddMem MEM_RES WRITE_COMBINEABLE RtData UNCACHED_UNBUFFERED_XN,
    region_row ''USB UCSI Shared'' 0x81f20000 0x00010000 AddMem SYS_MEM SYS_MEM_CAP Reserv UNCACHED_UNBUFFERED_XN,
    region_row ''PLD_PEP'' 0x81f30000 0x00006000 AddMem SYS_MEM SYS_MEM_CAP Reserv UNCACHED_UNBUFFERED_XN,
    region_row ''TZ STAT'' 0x82700000 0x00100000 AddMem MEM_RES UNCACHEABLE Reserv UNCACHED_UNBUFFERED_XN,
    region_row ''ADSP RPC'' 0x84b00000 0x00800000 AddMem MEM_RES UNCACHEABLE Reserv UNCACHED_UNBUFFERED_XN,
    region_row ''MPSS_EFS'' 0x85300000 0x00280000 AddMem SYS_MEM SYS_MEM_CAP Reserv UNCACHED_UNBUFFERED_XN,
    region_row ''PIL Reserved'' 0x8a800000 0x18280000 AddMem MEM_RES UNCACHEABLE Reserv UNCACHED_UNBUFFERED_XN,
    region_row ''Display Demura'' 0xa2a80000 0x02b00000 AddMem MEM_RES SYS_MEM_CAP Reserv WRITE_THROUGH_XN,
    region_row ''DBI Dump'' 0xa6100000 0x00f00000 NoHob MMAP_IO INITIALIZED Reserv UNCACHED_UNBUFFERED_XN,
    region_row ''FD Reserved'' 0xa7000000 0x00100000 AddMem SYS_MEM SYS_MEM_CAP BsData WRITE_BACK,
    region_row ''UEFI FD'' 0xa7100000 0x00300000 AddMem SYS_MEM SYS_MEM_CAP BsData WRITE_BACK,
    region_row ''UEFI FD Reserved'' 0xa7400000 0x00200000 AddMem SYS_MEM SYS_MEM_CAP BsData WRITE_BACK,
    region_row ''Info Blk'' 0xa7601000 0x00001000 AddMem SYS_MEM SYS_MEM_CAP RtData WRITE_BACK_XN,
    region_row ''MMU PageTables'' 0xa7602000 0x00003000 AddMem SYS_MEM SYS_MEM_CAP BsData WRITE_BACK_XN,
    region_row ''Log Buffer'' 0xa7605000 0x00008000 AddMem SYS_MEM SYS_MEM_CAP RtData WRITE_BACK_XN,
    region_row ''UEFI Stack'' 0xa760d000 0x00040000 AddMem SYS_MEM SYS_MEM_CAP BsData WRITE_BACK_XN,
    region_row ''SEC Heap'' 0xa764d000 0x0008c000 AddMem SYS_MEM SYS_MEM_CAP BsData WRITE_BACK_XN,
    region_row ''Sched Heap'' 0xa76d9000 0x00400000 AddMem SYS_MEM SYS_MEM_CAP BsData WRITE_BACK_XN,
    region_row ''FV Region'' 0xa7ad9000 0x00400000 AddMem SYS_MEM SYS_MEM_CAP BsData WRITE_BACK_XN,
    region_row ''UEFI RESV'' 0xa7ed9000 0x00127000 AddMem SYS_MEM SYS_MEM_CAP BsData WRITE_BACK_XN,
    region_row ''Kernel'' 0xa8000000 0x10000000 AddMem MEM_RES SYS_MEM_CAP Reserv WRITE_BACK_XN,
    region_row ''Display Reserved'' 0xb8000000 0x02b00000 AddMem MEM_RES SYS_MEM_CAP Reserv WRITE_THROUGH_XN,
    region_row ''DXE Heap'' 0xbab00000 0x0d1c0000 AddMem SYS_MEM SYS_MEM_CAP Conv WRITE_BACK_XN,
    region_row ''TZApps Reserved'' 0xd8800000 0x07400000 AddMem MEM_RES UNCACHEABLE Reserv UNCACHED_UNBUFFERED_XN,
    region_row ''NOMAP'' 0xff800000 0x00800000 AddMem MEM_RES UNCACHEABLE Reserv UNCACHED_UNBUFFERED_XN,
    region_row ''IMEM Base'' 0x14680000 0x0002a000 NoHob MMAP_IO INITIALIZED Conv NS_DEVICE,
    region_row ''IMEM Cookie Base'' 0x146aa000 0x00016000 AddDev MMAP_IO INITIALIZED Conv NS_DEVICE,
    region_row ''IPC_ROUTER_TOP'' 0x00400000 0x00100000 AddDev MMAP_IO UNCACHEABLE MmIO NS_DEVICE,
    region_row ''SECURITY CONTROL'' 0x00780000 0x00007000 AddDev MMAP_IO UNCACHEABLE MmIO NS_DEVICE,
    region_row ''QUP'' 0x00800000 0x00300000 AddDev MMAP_IO UNCACHEABLE MmIO NS_DEVICE,
    region_row ''PRNG_CFG_PRNG'' 0x010c0000 0x0000c000 AddDev MMAP_IO UNCACHEABLE MmIO NS_DEVICE,
    region_row ''CRYPTO0 CRYPTO'' 0x01dc0000 0x00040000 AddDev MMAP_IO UNCACHEABLE MmIO NS_DEVICE,
    region_row ''CORE_TOP_CSR'' 0x01f00000 0x00100000 AddDev MMAP_IO UNCACHEABLE MmIO NS_DEVICE,
    region_row ''PERIPH_SS'' 0x08800000 0x00100000 AddDev MMAP_IO UNCACHEABLE MmIO NS_DEVICE,
    region_row ''USB'' 0x0a600000 0x00200000 AddDev MMAP_IO UNCACHEABLE MmIO NS_DEVICE,
    region_row ''AOSS'' 0x0b000000 0x04000000 AddDev MMAP_IO UNCACHEABLE MmIO NS_DEVICE,
    region_row ''TLMM'' 0x0f000000 0x01000000 AddDev MMAP_IO UNCACHEABLE MmIO NS_DEVICE,
    region_row ''SMMU'' 0x15000000 0x00200000 AddDev MMAP_IO UNCACHEABLE MmIO NS_DEVICE,
    region_row ''APSS_HM'' 0x17000000 0x02000000 AddDev MMAP_IO UNCACHEABLE MmIO NS_DEVICE,
    region_row ''PCIE_0_AXI'' 0x40000000 0x20000000 AddDev MMAP_IO UNCACHEABLE MmIO NS_DEVICE,
    region_row ''PCIE_1_AXI'' 0x60000000 0x04000000 AddDev MMAP_IO UNCACHEABLE MmIO NS_DEVICE,
    region_row ''PCIE_0_AHB'' 0x01c00000 0x00008000 AddDev MMAP_IO UNCACHEABLE MmIO NS_DEVICE,
    region_row ''PCIE_1_AHB'' 0x01c08000 0x00008000 AddDev MMAP_IO UNCACHEABLE MmIO NS_DEVICE]"

lemma ships_qrd8550: "ships True 0x80000000 gMemoryDescriptor_qrd8550"
  apply (rule shipsI_in_order)
  subgoal by (rule boot_regionsI(1); unfold gMemoryDescriptor_qrd8550_def; (rule lists_region_here | rule lists_region_skip)+)
  subgoal unfolding gMemoryDescriptor_qrd8550_def by (simp only: span_eval) simp
  done

definition gMemoryDescriptor_bale_b :: "region list" where
  "gMemoryDescriptor_bale_b = [
    region_row ''RSRV0'' 0x816e0000 0x00320000 AddMem SYS_MEM SYS_MEM_CAP Reserv WRITE_BACK_XN,
    region_row ''XBL_DT'' 0x81a00000 0x00040000 AddMem MEM_RES SYS_MEM_CAP Reserv WRITE_BACK_XN,
    region_row ''XBL_Ramdump'' 0x81a40000 0x001c0000 AddMem MEM_RES UNCACHEABLE Reserv UNCACHED_UNBUFFERED_XN,
    region_row ''AOP'' 0x81c00000 0x000a0000 AddMem MEM_RES UNCACHEABLE Reserv UNCACHED_UNBUFFERED_XN,
    region_row ''UEFI_Log'' 0x81ce4000 0x00010000 AddMem MEM_RES UNCACHEABLE Reserv UNCACHED_UNBUFFERED_XN,
    region_row ''SMEM'' 0x81d00000 0x00200000 AddMem MEM_RES UNCACHEABLE Reserv UNCACHED_UNBUFFERED_XN,
    region_row ''PvmFw'' 0x824a0000 0x00100000 AddMem SYS_MEM SYS_MEM_CAP Reserv WRITE_BACK_XN,
    region_row ''PIL_Reserved'' 0x8bc00000 0x16e00000 AddMem MEM_RES UNCACHEABLE Reserv UNCACHED_UNBUFFERED_XN,
    region_row ''DBI_Dump'' 0xa2a00000 0x00f00000 NoHob MMAP_IO INITIALIZED Conv UNCACHED_UNBUFFERED_XN,
    region_row ''FD_Reserved'' 0xa7000000 0x00100000 AddMem SYS_MEM SYS_MEM_CAP BsData WRITE_BACK,
    region_row ''UEFI_FD'' 0xa7100000 0x00300000 AddMem SYS_MEM SYS_MEM_CAP BsData WRITE_BACK,
    region_row ''UEFI_FD_Reserved'' 0xa7400000 0x00200000 AddMem SYS_MEM SYS_MEM_CAP BsData WRITE_BACK,
    region_row ''Info_Blk'' 0xa7601000 0x00001000 AddMem SYS_MEM SYS_MEM_CAP RtData WRITE_BACK_XN,
    region_row ''MMU_PageTables'' 0xa7602000 0x00003000 AddMem SYS_MEM SYS_MEM_CAP BsData WRITE_BACK_XN,
    region_row ''Log_Buffer'' 0xa7605000 0x00008000 AddMem SYS_MEM SYS_MEM_CAP RtData WRITE_BACK_XN,
    region_row ''UEFI_Stack'' 0xa760d000 0x00040000 AddMem SYS_MEM SYS_MEM_CAP BsData WRITE_BACK_XN,
    region_row ''SEC_Heap'' 0xa764d000 0x0008c000 AddMem SYS_MEM SYS_MEM_CAP BsData WRITE_BACK_XN,
    region_row ''Sched_Heap'' 0xa76d9000 0x00400000 AddMem SYS_MEM SYS_MEM_CAP BsData WRITE_BACK_XN,
    region_row ''FV_Region'' 0xa7ad9000 0x00400000 AddMem SYS_MEM SYS_MEM_CAP BsData WRITE_BACK_XN,
    region_row ''UEFI_RESV'' 0xa7ed9000 0x00127000 AddMem SYS_MEM SYS_MEM_CAP BsData WRITE_BACK_XN,
    region_row ''Kernel'' 0xa8000000 0x10000000 AddMem SYS_MEM SYS_MEM_CAP Reserv WRITE_BACK_XN,
    region_row ''DXE_Heap'' 0xb8000000 0x1ba00000 AddMem SYS_MEM SYS_MEM_CAP Conv WRITE_BACK_XN,
    region_row ''Display Demura'' 0xd3a00000 0x02b00000 AddMem MEM_RES SYS_MEM_CAP Reserv WRITE_THROUGH_XN,
    region_row ''TZApps_Reserved'' 0xd8800000 0x093b0000 AddMem MEM_RES UNCACHEABLE Reserv UNCACHED_UNBUFFERED_XN,
    region_row ''Display_Reserved'' 0xe3940000 0x02b00000 AddMem MEM_RES SYS_MEM_CAP Reserv WRITE_THROUGH_XN,
    region_row ''IMEM_Base'' 0x14680000 0x0002a000 NoHob MMAP_IO INITIALIZED Conv NS_DEVICE,
    region_row ''IMEM_Cookie_Base'' 0x146aa000 0x00016000 AddDev MMAP_IO INITIALIZED Conv NS_DEVICE,
    region_row ''IPC_ROUTER_TOP'' 0x00400000 0x00100000 AddDev MMAP_IO UNCACHEABLE MmIO NS_DEVICE,
    region_row ''SECURITY_CONTROL'' 0x00780000 0x00007000 AddDev MMAP_IO UNCACHEABLE MmIO NS_DEVICE,
    region_row ''QUP'' 0x00800000 0x00300000 AddDev MMAP_IO UNCACHEABLE MmIO NS_DEVICE,
    region_row ''PRNG_CFG_PRNG'' 0x010c0000 0x0000c000 AddDev MMAP_IO UNCACHEABLE MmIO NS_DEVICE,
    region_row ''CRYPTO0_CRYPTO'' 0x01dc0000 0x00040000 AddDev MMAP_IO UNCACHEABLE MmIO NS_DEVICE,
    region_row ''CLK_TCSR_TCSR_REGS'' 0x01f00000 0x00100000 AddDev MMAP_IO UNCACHEABLE MmIO NS_DEVICE,
    region_row ''PERIPH_SS'' 0x08800000 0x00100000 AddDev MMAP_IO UNCACHEABLE MmIO NS_DEVICE,
    region_row ''USB'' 0x0a600000 0x00200000 AddDev MMAP_IO UNCACHEABLE MmIO NS_DEVICE,
    region_row ''AOSS'' 0x0b000000 0x04000000 AddDev MMAP_IO UNCACHEABLE MmIO NS_DEVICE,
    region_row ''TLMM'' 0x0f000000 0x01000000 AddDev MMAP_IO UNCACHEABLE MmIO NS_DEVICE,
    region_row ''SMMU'' 0x15000000 0x00200000 AddDev MMAP_IO UNCACHEABLE MmIO NS_DEVICE,
    region_row ''APSS_HM'' 0x17000000 0x02000000 AddDev MMAP_IO UNCACHEABLE MmIO NS_DEVICE]"

lemma ships_bale_b: "ships True 0x80000000 gMemoryDescriptor_bale_b"
  apply (rule shipsI_in_order)
  subgoal by (rule boot_regionsI(2); unfold gMemoryDescriptor_bale_b_def; (rule lists_region_here | rule lists_region_skip)+)
  subgoal unfolding gMemoryDescriptor_bale_b_def by (simp only: span_eval) simp
  done

definition gMemoryDescriptor_bitra :: "region list" where
  "gMemoryDescriptor_bitra = [
    region_row ''HYP'' 0x80000000 0x00600000 AddMem SYS_MEM SYS_MEM_CAP Reserv NS_DEVICE,
    region_row ''AOP CMD DB'' 0x80860000 0x00020000 AddMem MEM_RES UNCACHEABLE Reserv UNCACHED_UNBUFFERED_XN,
    region_row ''XBL Log Buffer'' 0x80884000 0x00010000 AddMem SYS_MEM SYS_MEM_CAP Reserv WRITE_BACK_XN,
    region_row ''SMEM'' 0x80900000 0x00200000 AddMem MEM_RES UNCACHEABLE Reserv UNCACHED_UNBUFFERED_XN,
    region_row ''TZApps Reserved'' 0x82400000 0x0b400000 HobOnlyNoCacheSetting MEM_RES UNCACHEABLE Reserv UNCACHED_UNBUFFERED_XN,
    region_row ''PIL Reserved'' 0x8da00000 0x0ad00000 AddMem MEM_RES UNCACHEABLE Reserv UNCACHED_UNBUFFERED_XN,
    region_row ''DXE Heap'' 0x98900000 0x03300000 AddMem SYS_MEM SYS_MEM_CAP Conv WRITE_BACK_XN,
    region_row ''Sched Heap'' 0x9bc00000 0x00400000 AddMem SYS_MEM SYS_MEM_CAP BsData WRITE_BACK_XN,
    region_row ''Display Reserved'' 0x9c000000 0x02400000 AddMem MEM_RES SYS_MEM_CAP Reserv WRITE_THROUGH_XN,
    region_row ''DBI Dump'' 0x9e400000 0x00f00000 NoHob MMAP_IO INITIALIZED Conv UNCACHED_UNBUFFERED_XN,
    region_row ''FV Region'' 0x9f800000 0x00200000 AddMem SYS_MEM SYS_MEM_CAP BsData WRITE_BACK_XN,
    region_row ''UEFI FD'' 0x9fc00000 0x00300000 AddMem SYS_MEM SYS_MEM_CAP BsData WRITE_BACK,
    region_row ''SEC Heap'' 0x9ff00000 0x0008c000 AddMem SYS_MEM SYS_MEM_CAP BsData WRITE_BACK_XN,
    region_row ''MMU PageTables'' 0x9ff8d000 0x00003000 AddMem SYS_MEM SYS_MEM_CAP BsData WRITE_BACK_XN,
    region_row ''UEFI Stack'' 0x9ff90000 0x00040000 AddMem SYS_MEM SYS_MEM_CAP BsData WRITE_BACK_XN,
    region_row ''Log Buffer'' 0x9fff7000 0x00008000 AddMem SYS_MEM SYS_MEM_CAP RtData WRITE_BACK_XN,
    region_row ''Info Blk'' 0x9ffff000 0x00001000 AddMem SYS_MEM SYS_MEM_CAP RtData WRITE_BACK_XN,
    region_row ''IMEM Base'' 0x14680000 0x00040000 NoHob MMAP_IO INITIALIZED Conv NS_DEVICE,
    region_row ''IMEM Cookie Base'' 0x146bf000 0x00001000 AddDev MMAP_IO INITIALIZED Conv NS_DEVICE,
    region_row ''IPC_ROUTER_TOP'' 0x00400000 0x00100000 AddDev MMAP_IO UNCACHEABLE MmIO NS_DEVICE,
    region_row ''SECURITY CONTROL'' 0x00780000 0x00007000 AddDev MMAP_IO UNCACHEABLE MmIO NS_DEVICE,
    region_row ''QUPV3_2_GSI'' 0x00800000 0x000d0000 AddDev MMAP_IO UNCACHEABLE MmIO NS_DEVICE,
    region_row ''QUPV3_0_GSI'' 0x00900000 0x000d0000 AddDev MMAP_IO UNCACHEABLE MmIO NS_DEVICE,
    region_row ''QUPV3_1_GSI'' 0x00a00000 0x000d0000 AddDev MMAP_IO UNCACHEABLE MmIO NS_DEVICE,
    region_row ''PRNG_CFG_PRNG'' 0x00790000 0x00010000 AddDev MMAP_IO UNCACHEABLE MmIO NS_DEVICE,
    region_row ''CRYPTO0 CRYPTO'' 0x01dc0000 0x00040000 AddDev MMAP_IO UNCACHEABLE MmIO NS_DEVICE,
    region_row ''TCSR_TCSR_REGS'' 0x01fc0000 0x00030000 AddDev MMAP_IO UNCACHEABLE MmIO NS_DEVICE,
    region_row ''GPU_GMU_CX_BLK'' 0x02c7d000 0x00002000 AddDev MMAP_IO UNCACHEABLE MmIO NS_DEVICE,
    region_row ''GPU_CC'' 0x02c90000 0x0000a000 AddDev MMAP_IO UNCACHEABLE MmIO NS_DEVICE,
    region_row ''QUPV3_SSC_GSI'' 0x05a00000 0x000d0000 AddDev MMAP_IO UNCACHEABLE MmIO NS_DEVICE,
    region_row ''PERIPH_SS'' 0x08800000 0x00200000 AddDev MMAP_IO UNCACHEABLE MmIO NS_DEVICE,
    region_row ''MCCC_MCCC_MSTR'' 0x090ba000 0x00006000 AddDev MMAP_IO UNCACHEABLE MmIO NS_DEVICE,
    region_row ''USB30_PRIM'' 0x0a600000 0x0011b000 AddDev MMAP_IO UNCACHEABLE MmIO NS_DEVICE,
    region_row ''USB_RUMI'' 0x0a720000 0x00010000 AddDev MMAP_IO UNCACHEABLE MmIO NS_DEVICE,
    region_row ''USB30_SEC'' 0x0a800000 0x0011b000 AddDev MMAP_IO UNCACHEABLE MmIO NS_DEVICE,
    region_row ''AOSS'' 0x0b000000 0x04000000 AddDev MMAP_IO UNCACHEABLE MmIO NS_DEVICE,
    region_row ''TLMM_WEST'' 0x0f100000 0x00300000 AddDev MMAP_IO UNCACHEABLE MmIO NS_DEVICE,
    region_row ''TLMM_SOUTH'' 0x0f500000 0x00300000 AddDev MMAP_IO UNCACHEABLE MmIO NS_DEVICE,
    region_row ''TLMM_NORTH'' 0x0f900000 0x00300000 AddDev MMAP_IO UNCACHEABLE MmIO NS_DEVICE,
    region_row ''SMMU'' 0x15000000 0x000d0000 AddDev MMAP_IO UNCACHEABLE MmIO NS_DEVICE,
    region_row ''APSS_HM'' 0x17800000 0x0d981000 AddDev MMAP_IO UNCACHEABLE MmIO NS_DEVICE]"

lemma ships_bitra: "ships True 0x80000000 gMemoryDescriptor_bitra"
  apply (rule shipsI_in_order)
  subgoal by (rule boot_regionsI(1); unfold gMemoryDescriptor_bitra_def; (rule lists_region_here | rule lists_region_skip)+)
  subgoal unfolding gMemoryDescriptor_bitra_def by (simp only: span_eval) simp
  done

definition gMemoryDescriptor_senna_a :: "region list" where
  "gMemoryDescriptor_senna_a = [
    region_row ''HYP'' 0x80000000 0x00600000 AddMem MEM_RES SYS_MEM_CAP Reserv WRITE_BACK_XN,
    region_row ''DT BLOB'' 0x80600000 0x00040000 AddMem MEM_RES SYS_MEM_CAP Reserv WRITE_BACK_XN,
    region_row ''XBL RAMDUMP'' 0x80640000 0x001c0000 AddMem MEM_RES UNCACHEABLE Conv UNCACHED_UNBUFFERED_XN,
    region_row ''AOP'' 0x80800000 0x000a0000 AddMem MEM_RES UNCACHEABLE Reserv UNCACHED_UNBUFFERED_XN,
    region_row ''SMEM'' 0x80900000 0x00200000 AddMem MEM_RES UNCACHEABLE Reserv UNCACHED_UNBUFFERED_XN,
    region_row ''CUCP'' 0x80b00000 0x00100000 AddMem MEM_RES UNCACHEABLE Reserv UNCACHED_UNBUFFERED_XN,
    region_row ''PIL Reserved'' 0x85200000 0x1c200000 AddMem MEM_RES UNCACHEABLE Reserv UNCACHED_UNBUFFERED_XN,
    region_row ''Display Demura'' 0xa1400000 0x02b00000 AddMem MEM_RES SYS_MEM_CAP Reserv WRITE_THROUGH_XN,
    region_row ''DBI Dump'' 0xa6000000 0x00f00000 NoHob MMAP_IO INITIALIZED Conv UNCACHED_UNBUFFERED_XN,
    region_row ''FD Reserved'' 0xa7000000 0x00100000 AddMem SYS_MEM SYS_MEM_CAP BsData WRITE_BACK,
    region_row ''UEFI FD'' 0xa7100000 0x00300000 AddMem SYS_MEM SYS_MEM_CAP BsData WRITE_BACK,
    region_row ''UEFI FD Reserved'' 0xa7400000 0x00200000 AddMem SYS_MEM SYS_MEM_CAP BsData WRITE_BACK,
    region_row ''Info Blk'' 0xa7601000 0x00001000 AddMem SYS_MEM SYS_MEM_CAP RtData WRITE_BACK_XN,
    region_row ''MMU PageTables'' 0xa7602000 0x00003000 AddMem SYS_MEM SYS_MEM_CAP BsData WRITE_BACK_XN,
    region_row ''Log Buffer'' 0xa7605000 0x00008000 AddMem SYS_MEM SYS_MEM_CAP RtData WRITE_BACK_XN,
    region_row ''UEFI Stack'' 0xa760d000 0x00040000 AddMem SYS_MEM SYS_MEM_CAP BsData WRITE_BACK_XN,
    region_row ''SEC Heap'' 0xa764d000 0x0008c000 AddMem SYS_MEM SYS_MEM_CAP BsData WRITE_BACK_XN,
    region_row ''Sched Heap'' 0xa76d9000 0x00400000 AddMem SYS_MEM SYS_MEM_CAP BsData WRITE_BACK_XN,
    region_row ''FV_Region'' 0xa7ad9000 0x00400000 AddMem SYS_MEM SYS_MEM_CAP BsData WRITE_BACK_XN,
    region_row ''UEFI RESV'' 0xa7ed9000 0x00127000 AddMem SYS_MEM SYS_MEM_CAP BsData WRITE_BACK_XN,
    region_row ''Kernel'' 0xa8000000 0x10000000 AddMem SYS_MEM SYS_MEM_CAP Reserv WRITE_BACK_XN,
    region_row ''Display Reserved'' 0xb8000000 0x02b00000 AddMem MEM_RES SYS_MEM_CAP Reserv WRITE_THROUGH_XN,
    region_row ''OEM VM'' 0xbb000000 0x05000000 AddMem SYS_MEM SYS_MEM_CAP Reserv WRITE_BACK_XN,
    region_row ''MTE Reserved'' 0xc0000000 0x20000000 AddMem SYS_MEM SYS_MEM_CAP Reserv WRITE_BACK_XN,
    region_row ''VM PIL'' 0xe0000000 0x05700000 AddMem SYS_MEM SYS_MEM_CAP Reserv WRITE_BACK_XN,
    region_row ''UEFI FD'' 0xe5700000 0x00300000 AddMem SYS_MEM SYS_MEM_CAP BsData WRITE_BACK,
    region_row ''TZ STATS'' 0xe8800000 0x01000000 AddMem MEM_RES UNCACHEABLE Reserv UNCACHED_UNBUFFERED_XN,
    region_row ''TZApps Reserved'' 0xea000000 0x07400000 AddMem MEM_RES UNCACHEABLE Reserv UNCACHED_UNBUFFERED_XN,
    region_row ''DXE Heap'' 0xf8000000 0x07c00000 AddMem SYS_MEM SYS_MEM_CAP Conv WRITE_BACK_XN,
    region_row ''HYP Reserved'' 0x830000000 0x10000000 AddMem SYS_MEM SYS_MEM_CAP Reserv WRITE_BACK_XN,
    region_row ''IMEM_Base'' 0x14680000 0x0002a000 NoHob MMAP_IO INITIALIZED Conv NS_DEVICE,
    region_row ''IMEM_Cookie_Base'' 0x146aa000 0x00016000 AddDev MMAP_IO INITIALIZED Conv NS_DEVICE,
    region_row ''IPC_ROUTER_TOP'' 0x00400000 0x00100000 AddDev MMAP_IO UNCACHEABLE MmIO NS_DEVICE,
    region_row ''SECURITY_CONTROL'' 0x00780000 0x00007000 AddDev MMAP_IO UNCACHEABLE MmIO NS_DEVICE,
    region_row ''QUP'' 0x00800000 0x00300000 AddDev MMAP_IO UNCACHEABLE MmIO NS_DEVICE,
    region_row ''PRNG_CFG_PRNG'' 0x010c0000 0x0000c000 AddDev MMAP_IO UNCACHEABLE MmIO NS_DEVICE,
    region_row ''CRYPTO0_CRYPTO'' 0x01dc0000 0x00040000 AddDev MMAP_IO UNCACHEABLE MmIO NS_DEVICE,
    region_row ''CLK_TCSR_TCSR_REGS'' 0x01f00000 0x00100000 AddDev MMAP_IO UNCACHEABLE MmIO NS_DEVICE,
    region_row ''PERIPH_SS'' 0x08800000 0x00100000 AddDev MMAP_IO UNCACHEABLE MmIO NS_DEVICE,
    region_row ''USB'' 0x0a600000 0x00200000 AddDev MMAP_IO UNCACHEABLE MmIO NS_DEVICE,
    region_row ''AOSS'' 0x0b000000 0x04000000 AddDev MMAP_IO UNCACHEABLE MmIO NS_DEVICE,
    region_row ''TLMM'' 0x0f000000 0x01000000 AddDev MMAP_IO UNCACHEABLE MmIO NS_DEVICE,
    region_row ''SMMU'' 0x15000000 0x00200000 AddDev MMAP_IO UNCACHEABLE MmIO NS_DEVICE,
    region_row ''APSS_HM'' 0x17000000 0x02000000 AddDev MMAP_IO UNCACHEABLE MmIO NS_DEVICE]"

lemma ships_senna_a: "ships True 0x80000000 gMemoryDescriptor_senna_a"
  apply (rule shipsI_in_order)
  subgoal by (rule boot_regionsI(1); unfold gMemoryDescriptor_senna_a_def; (rule lists_region_here | rule lists_region_skip)+)
  subgoal unfolding gMemoryDescriptor_senna_a_def by (simp only: span_eval) simp
  done

definition gMemoryDescriptor_senna_bc :: "region list" where
  "gMemoryDescriptor_senna_bc = [
    region_row ''HYP'' 0x80000000 0x00600000 AddMem MEM_RES SYS_MEM_CAP Reserv WRITE_BACK_XN,
    region_row ''DT BLOB'' 0x80600000 0x00040000 AddMem MEM_RES SYS_MEM_CAP Reserv WRITE_BACK_XN,
    region_row ''XBL RAMDUMP'' 0x80640000 0x001c0000 AddMem MEM_RES UNCACHEABLE Conv UNCACHED_UNBUFFERED_XN,
    region_row ''AOP'' 0x80800000 0x000a0000 AddMem MEM_RES UNCACHEABLE Reserv UNCACHED_UNBUFFERED_XN,
    region_row ''SMEM'' 0x80900000 0x00200000 AddMem MEM_RES UNCACHEABLE Reserv UNCACHED_UNBUFFERED_XN,
    region_row ''CUCP'' 0x80b00000 0x00100000 AddMem MEM_RES UNCACHEABLE Reserv UNCACHED_UNBUFFERED_XN,
    region_row ''PIL Reserved'' 0x85200000 0x1c200000 AddMem MEM_RES UNCACHEABLE Reserv UNCACHED_UNBUFFERED_XN,
    region_row ''Display Demura'' 0xa1400000 0x02b00000 AddMem MEM_RES SYS_MEM_CAP Reserv WRITE_THROUGH_XN,
    region_row ''DBI Dump'' 0xa6000000 0x00f00000 NoHob MMAP_IO INITIALIZED Conv UNCACHED_UNBUFFERED_XN,
    region_row ''FD Reserved'' 0xa7000000 0x00100000 AddMem SYS_MEM SYS_MEM_CAP BsData WRITE_BACK,
    region_row ''UEFI FD'' 0xa7100000 0x00300000 AddMem SYS_MEM SYS_MEM_CAP BsData WRITE_BACK,
    region_row ''UEFI FD Reserved'' 0xa7400000 0x00200000 AddMem SYS_MEM SYS_MEM_CAP BsData WRITE_BACK,
    region_row ''Info Blk'' 0xa7601000 0x00001000 AddMem SYS_MEM SYS_MEM_CAP RtData WRITE_BACK_XN,
    region_row ''MMU PageTables'' 0xa7602000 0x00003000 AddMem SYS_MEM SYS_MEM_CAP BsData WRITE_BACK_XN,
    region_row ''Log Buffer'' 0xa7605000 0x00008000 AddMem SYS_MEM SYS_MEM_CAP RtData WRITE_BACK_XN,
    region_row ''UEFI Stack'' 0xa760d000 0x00040000 AddMem SYS_MEM SYS_MEM_CAP BsData WRITE_BACK_XN,
    region_row ''SEC Heap'' 0xa764d000 0x0008c000 AddMem SYS_MEM SYS_MEM_CAP BsData WRITE_BACK_XN,
    region_row ''Sched Heap'' 0xa76d9000 0x00400000 AddMem SYS_MEM SYS_MEM_CAP BsData WRITE_BACK_XN,
    region_row ''FV_Region'' 0xa7ad9000 0x00400000 AddMem SYS_MEM SYS_MEM_CAP BsData WRITE_BACK_XN,
    region_row ''UEFI RESV'' 0xa7ed9000 0x00127000 AddMem SYS_MEM SYS_MEM_CAP BsData WRITE_BACK_XN,
    region_row ''Kernel'' 0xa8000000 0x10000000 AddMem SYS_MEM SYS_MEM_CAP Reserv WRITE_BACK_XN,
    region_row ''Display Reserved'' 0xb8000000 0x02b00000 AddMem MEM_RES SYS_MEM_CAP Reserv WRITE_THROUGH_XN,
    region_row ''OEM VM'' 0xbb000000 0x05000000 AddMem SYS_MEM SYS_MEM_CAP Reserv WRITE_BACK_XN,
    region_row ''MTE Reserved'' 0xc0000000 0x20000000 AddMem SYS_MEM SYS_MEM_CAP Reserv WRITE_BACK_XN,
    region_row ''VM PIL'' 0xe0000000 0x05700000 AddMem SYS_MEM SYS_MEM_CAP Reserv WRITE_BACK_XN,
    region_row ''TZ STATS'' 0xe8800000 0x01000000 AddMem MEM_RES UNCACHEABLE Reserv UNCACHED_UNBUFFERED_XN,
    region_row ''TZApps Reserved'' 0xea000000 0x07400000 AddMem MEM_RES UNCACHEABLE Reserv UNCACHED_UNBUFFERED_XN,
    region_row ''DXE Heap'' 0xf8000000 0x07c00000 AddMem SYS_MEM SYS_MEM_CAP Conv WRITE_BACK_XN,
    region_row ''HYP Reserved'' 0x830000000 0x10000000 AddMem SYS_MEM SYS_MEM_CAP Reserv WRITE_BACK_XN,
    region_row ''IMEM_Base'' 0x14680000 0x0002a000 NoHob MMAP_IO INITIALIZED Conv NS_DEVICE,
    region_row ''IMEM_Cookie_Base'' 0x146aa000 0x00016000 AddDev MMAP_IO INITIALIZED Conv NS_DEVICE,
    region_row ''IPC_ROUTER_TOP'' 0x00400000 0x00100000 AddDev MMAP_IO UNCACHEABLE MmIO NS_DEVICE,
    region_row ''SECURITY_CONTROL'' 0x00780000 0x00007000 AddDev MMAP_IO UNCACHEABLE MmIO NS_DEVICE,
    region_row ''QUP'' 0x00800000 0x00300000 AddDev MMAP_IO UNCACHEABLE MmIO NS_DEVICE,
    region_row ''PRNG_CFG_PRNG'' 0x010c0000 0x0000c000 AddDev MMAP_IO UNCACHEABLE MmIO NS_DEVICE,
    region_row ''CRYPTO0_CRYPTO'' 0x01dc0000 0x00040000 AddDev MMAP_IO UNCACHEABLE MmIO NS_DEVICE,
    region_row ''CLK_TCSR_TCSR_REGS'' 0x01f00000 0x00100000 AddDev MMAP_IO UNCACHEABLE MmIO NS_DEVICE,
    region_row ''PERIPH_SS'' 0x08800000 0x00100000 AddDev MMAP_IO UNCACHEABLE MmIO NS_DEVICE,
    region_row ''USB'' 0x0a600000 0x00200000 AddDev MMAP_IO UNCACHEABLE MmIO NS_DEVICE,
    region_row ''AOSS'' 0x0b000000 0x04000000 AddDev MMAP_IO UNCACHEABLE MmIO NS_DEVICE,
    region_row ''TLMM'' 0x0f000000 0x01000000 AddDev MMAP_IO UNCACHEABLE MmIO NS_DEVICE,
    region_row ''SMMU'' 0x15000000 0x00200000 AddDev MMAP_IO UNCACHEABLE MmIO NS_DEVICE,
    region_row ''APSS_HM'' 0x17000000 0x02000000 AddDev MMAP_IO UNCACHEABLE MmIO NS_DEVICE]"

lemma ships_senna_bc: "ships True 0x80000000 gMemoryDescriptor_senna_bc"
  apply (rule shipsI_in_order)
  subgoal by (rule boot_regionsI(1); unfold gMemoryDescriptor_senna_bc_def; (rule lists_region_here | rule lists_region_skip)+)
  subgoal unfolding gMemoryDescriptor_senna_bc_def by (simp only: span_eval) simp
  done

definition gMemoryDescriptor_a10 :: "region list" where
  "gMemoryDescriptor_a10 = [
    region_row ''DRAM Test'' 0x80002000 0x00002000 AddMem SYS_MEM SYS_MEM_CAP BsCode WRITE_BACK,
    region_row ''UEFI FD'' 0x8f000000 0x00200000 AddMem SYS_MEM SYS_MEM_CAP BsData WRITE_BACK,
    region_row ''UEFI Stack'' 0x8f200000 0x00040000 AddMem SYS_MEM SYS_MEM_CAP BsData WRITE_BACK,
    region_row ''DXE Heap'' 0x8f240000 0x05400000 AddMem SYS_MEM SYS_MEM_CAP Conv WRITE_BACK,
    region_row ''Tima'' 0xb8000000 0x00200000 AddMem SYS_MEM UNCACHEABLE Reserv UNCACHED_UNBUFFERED,
    region_row ''ABOX'' 0xe9400000 0x00400000 AddMem SYS_MEM SYS_MEM_CAP Reserv WRITE_BACK,
    region_row ''Display Reserved'' 0xec000000 0x0085a000 AddMem MEM_RES SYS_MEM_CAP Reserv WRITE_THROUGH,
    region_row ''Chip Info'' 0x10000000 0x00001000 AddDev MMAP_IO UNCACHEABLE MmIO NS_DEVICE,
    region_row ''PMU'' 0x11c80000 0x00010000 AddDev MMAP_IO UNCACHEABLE MmIO NS_DEVICE,
    region_row ''Clock Controller'' 0x12060000 0x00001000 AddDev MMAP_IO UNCACHEABLE MmIO NS_DEVICE,
    region_row ''GICD'' 0x12301000 0x00001000 AddDev MMAP_IO UNCACHEABLE MmIO NS_DEVICE,
    region_row ''GICC'' 0x12302000 0x00001000 AddDev MMAP_IO UNCACHEABLE MmIO NS_DEVICE,
    region_row ''GICH'' 0x12304000 0x00002000 AddDev MMAP_IO UNCACHEABLE MmIO NS_DEVICE,
    region_row ''GICV'' 0x12306000 0x00002000 AddDev MMAP_IO UNCACHEABLE MmIO NS_DEVICE,
    region_row ''Decon'' 0x14860000 0x00010000 AddDev MMAP_IO UNCACHEABLE MmIO NS_DEVICE]"

lemma ships_a10: "ships True 0x80000000 gMemoryDescriptor_a10"
  apply (rule shipsI_in_order)
  subgoal by (rule boot_regionsI(1); unfold gMemoryDescriptor_a10_def; (rule lists_region_here | rule lists_region_skip)+)
  subgoal unfolding gMemoryDescriptor_a10_def by (simp only: span_eval) simp
  done

definition gMemoryDescriptor_a52q :: "region list" where
  "gMemoryDescriptor_a52q = [
    region_row ''HYP'' 0x80000000 0x00600000 AddMem MEM_RES UNCACHEABLE Reserv UNCACHED_UNBUFFERED_XN,
    region_row ''MPSS_EFS'' 0x80600000 0x00200000 AddMem SYS_MEM SYS_MEM_CAP Reserv UNCACHED_UNBUFFERED_XN,
    region_row ''AOP Image'' 0x80800000 0x00020000 AddMem MEM_RES UNCACHEABLE Reserv UNCACHED_UNBUFFERED_XN,
    region_row ''AOP CMD DB'' 0x80820000 0x00020000 AddMem MEM_RES UNCACHEABLE Reserv UNCACHED_UNBUFFERED_XN,
    region_row ''GPU PRR'' 0x80840000 0x00010000 AddMem MEM_RES WRITE_COMBINEABLE Reserv UNCACHED_UNBUFFERED_XN,
    region_row ''TZApps'' 0x808ff000 0x00001000 AddMem MEM_RES UNCACHEABLE Reserv UNCACHED_UNBUFFERED_XN,
    region_row ''SMEM'' 0x80900000 0x00200000 AddMem MEM_RES UNCACHEABLE Reserv UNCACHED_UNBUFFERED_XN,
    region_row ''QSEE'' 0x80b00000 0x07100000 AddMem MEM_RES UNCACHEABLE Reserv UNCACHED_UNBUFFERED_XN,
    region_row ''PIL Reserved'' 0x8b000000 0x0fe00000 AddMem MEM_RES UNCACHEABLE Reserv UNCACHED_UNBUFFERED_XN,
    region_row ''Sched Heap'' 0x9b800000 0x00400000 AddMem SYS_MEM SYS_MEM_CAP BsData WRITE_BACK_XN,
    region_row ''Display Reserved'' 0x9c000000 0x01800000 AddMem MEM_RES SYS_MEM_CAP Reserv WRITE_THROUGH_XN,
    region_row ''ADSP RPC'' 0x9dc00000 0x00800000 AddMem MEM_RES UNCACHEABLE Reserv UNCACHED_UNBUFFERED_XN,
    region_row ''TGCM'' 0x9e400000 0x01400000 AddMem MEM_RES WRITE_COMBINEABLE Reserv UNCACHED_UNBUFFERED_XN,
    region_row ''FV Region'' 0x9f800000 0x00200000 AddMem SYS_MEM SYS_MEM_CAP BsData WRITE_BACK_XN,
    region_row ''Reserved FD'' 0x9fc00000 0x00100000 AddMem SYS_MEM SYS_MEM_CAP BsData WRITE_BACK,
    region_row ''UEFI FD'' 0x9fd00000 0x00200000 AddMem SYS_MEM SYS_MEM_CAP BsData WRITE_BACK,
    region_row ''SEC Heap'' 0x9ff00000 0x0008c000 AddMem SYS_MEM SYS_MEM_CAP BsData WRITE_BACK_XN,
    region_row ''MMU PageTables'' 0x9ff8d000 0x00003000 AddMem SYS_MEM SYS_MEM_CAP BsData WRITE_BACK_XN,
    region_row ''USB UCSI Temp'' 0x9ff90000 0x00002000 AddMem SYS_MEM SYS_MEM_CAP Reserv UNCACHED_UNBUFFERED_XN,
    region_row ''UEFI Stack'' 0x9ffb0000 0x00020000 AddMem SYS_MEM SYS_MEM_CAP BsData WRITE_BACK_XN,
    region_row ''RSRV1'' 0x9ffd0000 0x0000a000 AddMem SYS_MEM SYS_MEM_CAP RtData WRITE_BACK_XN,
    region_row ''TPMControl'' 0x9ffda000 0x00003000 AddMem MEM_RES WRITE_COMBINEABLE RtData UNCACHED_UNBUFFERED_XN,
    region_row ''Reset Data'' 0x9ffdd000 0x00004000 AddMem SYS_MEM SYS_MEM_CAP RtData UNCACHED_UNBUFFERED_XN,
    region_row ''RSRV3'' 0x9ffe1000 0x00001000 AddMem SYS_MEM SYS_MEM_CAP RtData WRITE_BACK_XN,
    region_row ''Capsule Header'' 0x9ffe2000 0x00001000 AddMem SYS_MEM SYS_MEM_CAP RtData UNCACHED_UNBUFFERED_XN,
    region_row ''RSRV2'' 0x9ffe3000 0x00014000 AddMem SYS_MEM SYS_MEM_CAP RtData WRITE_BACK_XN,
    region_row ''Log Buffer'' 0x9fff7000 0x00008000 AddMem SYS_MEM SYS_MEM_CAP RtData WRITE_BACK_XN,
    region_row ''Info Blk'' 0x9ffff000 0x00001000 AddMem SYS_MEM SYS_MEM_CAP RtData WRITE_BACK_XN,
    region_row ''DBI Dump'' 0xa2000000 0x00d70000 NoHob MMAP_IO INITIALIZED Conv UNCACHED_UNBUFFERED_XN,
    region_row ''DXE Heap'' 0xa2d70000 0x04800000 AddMem SYS_MEM SYS_MEM_CAP Conv WRITE_BACK_XN,
    region_row ''AOP_SS_MSG_RAM'' 0x0c300000 0x00100000 NoHob MMAP_IO INITIALIZED Conv NS_DEVICE,
    region_row ''IMEM Base'' 0x14680000 0x0002b000 NoHob MMAP_IO INITIALIZED Conv NS_DEVICE,
    region_row ''IMEM Cookie Base'' 0x146aa000 0x00001000 AddDev MMAP_IO INITIALIZED Conv NS_DEVICE,
    region_row ''GCC CLK CTL'' 0x00100000 0x00200000 AddDev MMAP_IO UNCACHEABLE MmIO NS_DEVICE,
    region_row ''SECURITY CONTROL'' 0x00780000 0x00007000 AddDev MMAP_IO UNCACHEABLE MmIO NS_DEVICE,
    region_row ''PRNG_CFG_PRNG'' 0x00790000 0x00010000 AddDev MMAP_IO UNCACHEABLE MmIO NS_DEVICE,
    region_row ''SDC1_REG'' 0x007c0000 0x00020000 AddDev MMAP_IO UNCACHEABLE MmIO NS_DEVICE,
    region_row ''QUPV3_0_GSI'' 0x00800000 0x00100000 AddDev MMAP_IO UNCACHEABLE MmIO NS_DEVICE,
    region_row ''QUPV3_1_GSI'' 0x00a00000 0x00100000 AddDev MMAP_IO UNCACHEABLE MmIO NS_DEVICE,
    region_row ''UFS UFS REGS'' 0x01d80000 0x00020000 AddDev MMAP_IO UNCACHEABLE MmIO NS_DEVICE,
    region_row ''CRYPTO0 CRYPTO'' 0x01dc0000 0x00040000 AddDev MMAP_IO UNCACHEABLE MmIO NS_DEVICE,
    region_row ''TCSR_TCSR_REGS'' 0x01fc0000 0x00040000 AddDev MMAP_IO UNCACHEABLE MmIO NS_DEVICE,
    region_row ''TLMM_WEST'' 0x03500000 0x00300000 AddDev MMAP_IO UNCACHEABLE MmIO NS_DEVICE,
    region_row ''TLMM_NORTH'' 0x03900000 0x00300000 AddDev MMAP_IO UNCACHEABLE MmIO NS_DEVICE,
    region_row ''TLMM_SOUTH'' 0x03d00000 0x00300000 AddDev MMAP_IO UNCACHEABLE MmIO NS_DEVICE,
    region_row ''GPU_CC'' 0x05090000 0x00009000 AddDev MMAP_IO UNCACHEABLE MmIO NS_DEVICE,
    region_row ''GPU_CPR'' 0x0509a000 0x00004000 AddDev MMAP_IO UNCACHEABLE MmIO NS_DEVICE,
    region_row ''PERIPH_SS'' 0x08800000 0x00200000 AddDev MMAP_IO UNCACHEABLE MmIO NS_DEVICE,
    region_row ''MCCC_MCCC_MSTR'' 0x090b0000 0x00001000 AddDev MMAP_IO UNCACHEABLE MmIO NS_DEVICE,
    region_row ''NPU_CC'' 0x09980000 0x00010000 AddDev MMAP_IO UNCACHEABLE MmIO NS_DEVICE,
    region_row ''USB30_PRIM'' 0x0a600000 0x0011b000 AddDev MMAP_IO UNCACHEABLE MmIO NS_DEVICE,
    region_row ''USB_RUMI'' 0x0a720000 0x00010000 AddDev MMAP_IO UNCACHEABLE MmIO NS_DEVICE,
    region_row ''MDSS'' 0x0ae00000 0x00134000 AddDev MMAP_IO UNCACHEABLE MmIO NS_DEVICE,
    region_row ''PDC_DISPLAY'' 0x0b2a0000 0x00010000 AddDev MMAP_IO UNCACHEABLE MmIO NS_DEVICE,
    region_row ''PDC_DISP_SEQ'' 0x0b4a0000 0x00010000 AddDev MMAP_IO UNCACHEABLE MmIO NS_DEVICE,
    region_row ''RPMH_BCM_BCM_TOP'' 0x0ba00000 0x00200000 AddDev MMAP_IO UNCACHEABLE MmIO NS_DEVICE,
    region_row ''RPMH_CPRF'' 0x0c200000 0x00010000 AddDev MMAP_IO UNCACHEABLE MmIO NS_DEVICE,
    region_row ''SLP_CNTR_TSENS'' 0x0c221000 0x00003000 AddDev MMAP_IO UNCACHEABLE MmIO NS_DEVICE,
    region_row ''TSENS0_TM_PSHOLD'' 0x0c263000 0x00003000 AddDev MMAP_IO UNCACHEABLE MmIO NS_DEVICE,
    region_row ''PMIC ARB SPMI'' 0x0c400000 0x02800000 AddDev MMAP_IO UNCACHEABLE MmIO NS_DEVICE,
    region_row ''VIDEO_CC'' 0x0ab00000 0x00020000 AddDev MMAP_IO UNCACHEABLE MmIO NS_DEVICE,
    region_row ''TITAN_CAM_CC'' 0x0ad00000 0x00020000 AddDev MMAP_IO UNCACHEABLE MmIO NS_DEVICE,
    region_row ''DISP_CC'' 0x0af00000 0x00020000 AddDev MMAP_IO UNCACHEABLE MmIO NS_DEVICE,
    region_row ''SMMU'' 0x15000000 0x000d0000 AddDev MMAP_IO UNCACHEABLE MmIO NS_DEVICE,
    region_row ''SILVER_CLK_CTL'' 0x18280000 0x00001000 AddDev MMAP_IO UNCACHEABLE MmIO NS_DEVICE,
    region_row ''GOLD_CLK_CTL'' 0x18282000 0x00001000 AddDev MMAP_IO UNCACHEABLE MmIO NS_DEVICE,
    region_row ''L3_CLK_CTL'' 0x18284000 0x00001000 AddDev MMAP_IO UNCACHEABLE MmIO NS_DEVICE,
    region_row ''APSS_RSC_RSCCR'' 0x18200000 0x00030000 AddDev MMAP_IO UNCACHEABLE MmIO NS_DEVICE,
    region_row ''APSS_ACTPM_WRAP'' 0x18300000 0x000b0000 AddDev MMAP_IO UNCACHEABLE MmIO NS_DEVICE,
    region_row ''APSS_GIC500_GICD'' 0x17a00000 0x00010000 AddDev MMAP_IO UNCACHEABLE MmIO NS_DEVICE,
    region_row ''APSS_GIC500_GICR'' 0x17a60000 0x00100000 AddDev MMAP_IO UNCACHEABLE MmIO NS_DEVICE,
    region_row ''QTIMER'' 0x17c00000 0x00110000 AddDev MMAP_IO UNCACHEABLE MmIO NS_DEVICE,
    region_row ''QUPV3_SSC_GSI'' 0x62b00000 0x00060000 AddDev MMAP_IO UNCACHEABLE MmIO NS_DEVICE]"

lemma ships_a52q: "ships True 0x80000000 gMemoryDescriptor_a52q"
  apply (rule shipsI_in_order)
  subgoal by (rule boot_regionsI(1); unfold gMemoryDescriptor_a52q_def; (rule lists_region_here | rule lists_region_skip)+)
  subgoal unfolding gMemoryDescriptor_a52q_def by (simp only: span_eval) simp
  done

definition gMemoryDescriptor_a52sxq :: "region list" where
  "gMemoryDescriptor_a52sxq = [
    region_row ''HYP'' 0x80000000 0x00600000 AddMem MEM_RES SYS_MEM_CAP Reserv WRITE_BACK_XN,
    region_row ''Axon DMA'' 0x80600000 0x00100000 AddMem SYS_MEM SYS_MEM_CAP Reserv WRITE_BACK_XN,
    region_row ''BOOT'' 0x80700000 0x00100000 AddMem MEM_RES SYS_MEM_CAP BsData WRITE_BACK_XN,
    region_row ''AOP CMD'' 0x80800000 0x00060000 AddMem MEM_RES UNCACHEABLE Reserv UNCACHED_UNBUFFERED_XN,
    region_row ''AOP CMD DB'' 0x80860000 0x00020000 AddMem MEM_RES UNCACHEABLE Reserv UNCACHED_UNBUFFERED_XN,
    region_row ''Reserved'' 0x80880000 0x00004000 AddMem MEM_RES UNCACHEABLE Reserv UNCACHED_UNBUFFERED_XN,
    region_row ''XBL Log Buffer'' 0x80884000 0x00010000 AddMem SYS_MEM SYS_MEM_CAP Reserv WRITE_BACK_XN,
    region_row ''GPU PRR'' 0x80894000 0x00001000 AddMem MEM_RES WRITE_COMBINEABLE Reserv UNCACHED_UNBUFFERED_XN,
    region_row ''TPMControl'' 0x808a4000 0x00010000 AddMem SYS_MEM SYS_MEM_CAP Reserv UNCACHED_UNBUFFERED_XN,
    region_row ''APSS'' 0x808ff000 0x00001000 AddMem SYS_MEM SYS_MEM_CAP Conv WRITE_BACK_XN,
    region_row ''SMEM'' 0x80900000 0x00200000 AddMem MEM_RES UNCACHEABLE Reserv UNCACHED_UNBUFFERED_XN,
    region_row ''CPUCP'' 0x80b00000 0x00100000 AddMem SYS_MEM SYS_MEM_CAP Reserv UNCACHED_UNBUFFERED_XN,
    region_row ''WLAN FW'' 0x80c00000 0x00c00000 AddMem SYS_MEM SYS_MEM_CAP Reserv UNCACHED_UNBUFFERED_XN,
    region_row ''LPASS_ML'' 0x81800000 0x00f00000 AddMem SYS_MEM SYS_MEM_CAP Reserv UNCACHED_UNBUFFERED_XN,
    region_row ''CDSP Secure Heap'' 0x82700000 0x00010000 AddMem SYS_MEM SYS_MEM_CAP Reserv UNCACHED_UNBUFFERED_XN,
    region_row ''Sched Heap'' 0x83600000 0x00400000 AddMem SYS_MEM SYS_MEM_CAP BsData WRITE_BACK_XN,
    region_row ''PIL Reserved'' 0x84700000 0x19500000 AddMem MEM_RES UNCACHEABLE Reserv UNCACHED_UNBUFFERED_XN,
    region_row ''FV Region'' 0x9f800000 0x00200000 AddMem SYS_MEM SYS_MEM_CAP BsData WRITE_BACK_XN,
    region_row ''ABOOT FV'' 0x9fa00000 0x00200000 AddMem SYS_MEM SYS_MEM_CAP Reserv WRITE_BACK_XN,
    region_row ''FD Reserved'' 0x9fc00000 0x00100000 AddMem SYS_MEM SYS_MEM_CAP BsData WRITE_BACK,
    region_row ''UEFI FD'' 0x9fd00000 0x00200000 AddMem SYS_MEM SYS_MEM_CAP BsData WRITE_BACK,
    region_row ''SEC Heap'' 0x9ff00000 0x0008c000 AddMem SYS_MEM SYS_MEM_CAP BsData WRITE_BACK_XN,
    region_row ''MMU PageTables'' 0x9ff8d000 0x00003000 AddMem SYS_MEM SYS_MEM_CAP BsData WRITE_BACK_XN,
    region_row ''UEFI Stack'' 0x9ff90000 0x00040000 AddMem SYS_MEM SYS_MEM_CAP BsData WRITE_BACK_XN,
    region_row ''Log Buffer'' 0x9fff7000 0x00008000 AddMem SYS_MEM SYS_MEM_CAP RtData WRITE_BACK_XN,
    region_row ''Info Blk'' 0x9ffff000 0x00001000 AddMem SYS_MEM SYS_MEM_CAP RtData WRITE_BACK_XN,
    region_row ''USB UCSI Temp'' 0xa0000000 0x00002000 AddMem SYS_MEM SYS_MEM_CAP Reserv UNCACHED_UNBUFFERED_XN,
    region_row ''MPSS_EFS'' 0xa0800000 0x00300000 AddMem SYS_MEM SYS_MEM_CAP Reserv UNCACHED_UNBUFFERED_XN,
    region_row ''DXE Heap'' 0xa0b00000 0x0f500000 AddMem SYS_MEM SYS_MEM_CAP Conv WRITE_BACK_XN,
    region_row ''HYP RESERVED'' 0xb0000000 0x10000000 AddMem SYS_MEM SYS_MEM_CAP Reserv WRITE_BACK_XN,
    region_row ''Reserv'' 0xc0000000 0x00100000 AddMem MEM_RES UNCACHEABLE Reserv UNCACHED_UNBUFFERED_XN,
    region_row ''TAGS'' 0xc0100000 0x01200000 AddMem MEM_RES UNCACHEABLE Reserv UNCACHED_UNBUFFERED_XN,
    region_row ''QTEE'' 0xc1300000 0x00500000 AddMem MEM_RES UNCACHEABLE Reserv UNCACHED_UNBUFFERED_XN,
    region_row ''TZApps Reserved'' 0xc1800000 0x04700000 HobOnlyNoCacheSetting MEM_RES UNCACHEABLE Reserv UNCACHED_UNBUFFERED_XN,
    region_row ''ADSP RPC'' 0xc6500000 0x00800000 AddMem MEM_RES UNCACHEABLE Reserv UNCACHED_UNBUFFERED_XN,
    region_row ''TGCM'' 0xce500000 0x01400000 AddMem SYS_MEM SYS_MEM_CAP Reserv UNCACHED_UNBUFFERED_XN,
    region_row ''Guest VM'' 0xd0000000 0x10000000 AddMem SYS_MEM SYS_MEM_CAP Reserv WRITE_BACK_XN,
    region_row ''DBI Dump'' 0xe0000000 0x00f00000 NoHob MMAP_IO INITIALIZED Conv UNCACHED_UNBUFFERED_XN,
    region_row ''Display Reserved'' 0xe1000000 0x02400000 AddMem MEM_RES SYS_MEM_CAP Reserv WRITE_THROUGH_XN,
    region_row ''APSS Ext'' 0xe3400000 0x01700000 AddMem SYS_MEM SYS_MEM_CAP Conv WRITE_BACK_XN,
    region_row ''IMEM Base'' 0x14680000 0x0002b000 NoHob MMAP_IO INITIALIZED Conv NS_DEVICE,
    region_row ''IMEM Cookie Base'' 0x146aa000 0x00001000 AddDev MMAP_IO INITIALIZED Conv NS_DEVICE,
    region_row ''IPC_ROUTER_TOP'' 0x00400000 0x00100000 AddDev MMAP_IO UNCACHEABLE MmIO NS_DEVICE,
    region_row ''SECURITY CONTROL'' 0x00780000 0x00010000 AddDev MMAP_IO UNCACHEABLE MmIO NS_DEVICE,
    region_row ''PERIPH_SS_SDC1'' 0x007c0000 0x00100000 AddDev MMAP_IO UNCACHEABLE MmIO NS_DEVICE,
    region_row ''QUP'' 0x00900000 0x00200000 AddDev MMAP_IO UNCACHEABLE MmIO NS_DEVICE,
    region_row ''PRNG_CFG_PRNG'' 0x010d0000 0x00010000 AddDev MMAP_IO UNCACHEABLE MmIO NS_DEVICE,
    region_row ''PCIE_1_AHB'' 0x01c08000 0x00008000 AddDev MMAP_IO UNCACHEABLE MmIO NS_DEVICE,
    region_row ''CRYPTO0 CRYPTO'' 0x01dc0000 0x00040000 AddDev MMAP_IO UNCACHEABLE MmIO NS_DEVICE,
    region_row ''TCSR_TCSR_REGS'' 0x01fc0000 0x00030000 AddDev MMAP_IO UNCACHEABLE MmIO NS_DEVICE,
    region_row ''PERIPH_SS'' 0x08800000 0x00200000 AddDev MMAP_IO UNCACHEABLE MmIO NS_DEVICE,
    region_row ''USB'' 0x0a600000 0x04000000 AddDev MMAP_IO UNCACHEABLE MmIO NS_DEVICE,
    region_row ''AOSS'' 0x0b000000 0x04000000 AddDev MMAP_IO UNCACHEABLE MmIO NS_DEVICE,
    region_row ''TLMM'' 0x0f100000 0x00300000 AddDev MMAP_IO UNCACHEABLE MmIO NS_DEVICE,
    region_row ''SMMU'' 0x15000000 0x00200000 AddDev MMAP_IO UNCACHEABLE MmIO NS_DEVICE,
    region_row ''APSS_HM'' 0x17800000 0x00e00000 AddDev MMAP_IO UNCACHEABLE MmIO NS_DEVICE,
    region_row ''PCIE_1_AXI'' 0x40000000 0x02000000 AddDev MMAP_IO UNCACHEABLE MmIO NS_DEVICE]"

lemma ships_a52sxq: "ships True 0x80000000 gMemoryDescriptor_a52sxq"
  apply (rule shipsI_in_order)
  subgoal by (rule boot_regionsI(1); unfold gMemoryDescriptor_a52sxq_def; (rule lists_region_here | rule lists_region_skip)+)
  subgoal unfolding gMemoryDescriptor_a52sxq_def by (simp only: span_eval) simp
  done

definition gMemoryDescriptor_a7 :: "region list" where
  "gMemoryDescriptor_a7 = [
    region_row ''DRAM Test'' 0x80002000 0x00002000 AddMem SYS_MEM SYS_MEM_CAP BsCode WRITE_BACK,
    region_row ''UEFI FD'' 0x8f000000 0x00200000 AddMem SYS_MEM SYS_MEM_CAP BsData WRITE_BACK,
    region_row ''UEFI Stack'' 0x8f200000 0x00040000 AddMem SYS_MEM SYS_MEM_CAP BsData WRITE_BACK,
    region_row ''DXE Heap'' 0x8f240000 0x05400000 AddMem SYS_MEM SYS_MEM_CAP Conv WRITE_BACK,
    region_row ''Tima'' 0xb8000000 0x00200000 AddMem SYS_MEM UNCACHEABLE Reserv UNCACHED_UNBUFFERED,
    region_row ''ABOX'' 0xe9400000 0x00400000 AddMem SYS_MEM SYS_MEM_CAP Reserv WRITE_BACK,
    region_row ''Display Reserved'' 0xec000000 0x0085a000 AddMem MEM_RES SYS_MEM_CAP Reserv WRITE_THROUGH,
    region_row ''Chip Info'' 0x10000000 0x00001000 AddDev MMAP_IO UNCACHEABLE MmIO NS_DEVICE,
    region_row ''PMU'' 0x11c80000 0x00010000 AddDev MMAP_IO UNCACHEABLE MmIO NS_DEVICE,
    region_row ''Clock Controller'' 0x12060000 0x00001000 AddDev MMAP_IO UNCACHEABLE MmIO NS_DEVICE,
    region_row ''GICD'' 0x12301000 0x00001000 AddDev MMAP_IO UNCACHEABLE MmIO NS_DEVICE,
    region_row ''GICC'' 0x12302000 0x00001000 AddDev MMAP_IO UNCACHEABLE MmIO NS_DEVICE,
    region_row ''GICH'' 0x12304000 0x00002000 AddDev MMAP_IO UNCACHEABLE MmIO NS_DEVICE,
    region_row ''GICV'' 0x12306000 0x00002000 AddDev MMAP_IO UNCACHEABLE MmIO NS_DEVICE,
    region_row ''Decon'' 0x14860000 0x00010000 AddDev MMAP_IO UNCACHEABLE MmIO NS_DEVICE]"

lemma ships_a7: "ships True 0x80000000 gMemoryDescriptor_a7"
  apply (rule shipsI_in_order)
  subgoal by (rule boot_regionsI(1); unfold gMemoryDescriptor_a7_def; (rule lists_region_here | rule lists_region_skip)+)
  subgoal unfolding gMemoryDescriptor_a7_def by (simp only: span_eval) simp
  done

definition platform_maps_2 :: "(string \<times> u64 \<times> region list) list" where
  "platform_maps_2 = [
    (''OnePlus/infiniti'', 0x80000000, gMemoryDescriptor_infiniti),
    (''OnePlus/kebab'', 0x80000000, gMemoryDescriptor_kebab),
    (''OnePlus/lemonade'', 0x80000000, gMemoryDescriptor_lemonade),
    (''OnePlus/macan'', 0x80000000, gMemoryDescriptor_macan),
    (''OnePlus/pagani'', 0x80000000, gMemoryDescriptor_pagani),
    (''OnePlus/salami'', 0x80000000, gMemoryDescriptor_salami),
    (''Qualcomm/qrd8550'', 0x80000000, gMemoryDescriptor_qrd8550),
    (''Realme/bale_b'', 0x80000000, gMemoryDescriptor_bale_b),
    (''Realme/bitra'', 0x80000000, gMemoryDescriptor_bitra),
    (''Realme/senna_a'', 0x80000000, gMemoryDescriptor_senna_a),
    (''Realme/senna_bc'', 0x80000000, gMemoryDescriptor_senna_bc),
    (''Samsung/a10'', 0x80000000, gMemoryDescriptor_a10),
    (''Samsung/a52q'', 0x80000000, gMemoryDescriptor_a52q),
    (''Samsung/a52sxq'', 0x80000000, gMemoryDescriptor_a52sxq),
    (''Samsung/a7'', 0x80000000, gMemoryDescriptor_a7)]"

end
