(* ===== verification/PlatformMaps3.thy ===== *)
theory PlatformMaps3
  imports PlatformMap
begin

text \<open>
  Memory maps of the platforms, one definition per \<open>gMemoryDescriptor\<close> array of
  \<open>src/Platforms/<vendor>/<name>Pkg/Library/MemoryMapLib/MemoryMapLib.c\<close>, each with the check of
  what the pre-DXE phase needs of it:

  \<^item> \<open>Samsung/b4qPkg\<close>;
  \<^item> \<open>Samsung/b5qPkg\<close>;
  \<^item> \<open>Samsung/beyond1ltePkg\<close>;
  \<^item> \<open>Samsung/c1sPkg\<close>;
  \<^item> \<open>Samsung/dm2qPkg\<close>;
  \<^item> \<open>Samsung/dreamltePkg\<close>;
  \<^item> \<open>Samsung/e1sPkg\<close>;
  \<^item> \<open>Samsung/gta4lPkg\<close>;
  \<^item> \<open>Samsung/gta9pwifiPkg\<close>;
  \<^item> \<open>Samsung/gtaxlltePkg\<close>;
  \<^item> \<open>Samsung/gts8pPkg\<close>;
  \<^item> \<open>Samsung/gts9wifiPkg\<close>;
  \<^item> \<open>Samsung/q2qPkg\<close>;
  \<^item> \<open>Samsung/r0qPkg\<close>;
  \<^item> \<open>Samsung/r8qPkg\<close>.
\<close>

definition gMemoryDescriptor_b4q :: "region list" where
  "gMemoryDescriptor_b4q = [
    region_row ''HYP'' 0x80000000 0x00600000 AddMem MEM_RES SYS_MEM_CAP Reserv WRITE_BACK_XN,
    region_row ''DT BLOB'' 0x80600000 0x00040000 AddMem MEM_RES SYS_MEM_CAP Reserv WRITE_BACK_XN,
    region_row ''AOP'' 0x80800000 0x000a0000 AddMem MEM_RES UNCACHEABLE Reserv UNCACHED_UNBUFFERED_XN,
    region_row ''SMEM'' 0x80900000 0x00200000 AddMem MEM_RES UNCACHEABLE Reserv UNCACHED_UNBUFFERED_XN,
    region_row ''CUCP'' 0x80b00000 0x00100000 AddMem MEM_RES UNCACHEABLE Reserv UNCACHED_UNBUFFERED_XN,
    region_row ''PIL Reserved'' 0x85200000 0x1c200000 AddMem MEM_RES UNCACHEABLE Reserv UNCACHED_UNBUFFERED_XN,
    region_row ''Display Demura'' 0xa1400000 0x02b00000 AddMem MEM_RES SYS_MEM_CAP Reserv WRITE_THROUGH_XN,
    region_row ''DBI Dump'' 0xa6000000 0x00f00000 NoHob MMAP_IO INITIALIZED Conv UNCACHED_UNBUFFERED_XN,
    region_row ''FD Reserved'' 0xa7000000 0x00100000 AddMem SYS_MEM SYS_MEM_CAP BsData WRITE_BACK,
    region_row ''UEFI FD'' 0xa7100000 0x00300000 AddMem SYS_MEM SYS_MEM_CAP BsData WRITE_BACK,
    region_row ''UEFI FD Reserved'' 0xa7400000 0x00200000 AddMem SYS_MEM SYS_MEM_CAP BsData WRITE_BACK,
    region_row ''Info Blk'' 0xa7601000 0x00001000 AddMem SYS_MEM SYS_MEM_CAP RtData WRITE_BACK_XN,
    region_row ''MMU PageTables'' 0xa7602000 0x00003000 AddMem SYS_MEM SYS_MEM_CAP BsData WRITE_BACK_XN,
    region_row ''Log Buffer'' 0xa7605000 0x00008000 AddMem SYS_MEM SYS_MEM_CAP RtData WRITE_BACK_XN,
    region_row ''UEFI Stack'' 0xa760d000 0x00040000 AddMem SYS_MEM SYS_MEM_CAP BsData WRITE_BACK_XN,
    region_row ''SEC Heap'' 0xa764d000 0x0008c000 AddMem SYS_MEM SYS_MEM_CAP BsData WRITE_BACK_XN,
    region_row ''Sched Heap'' 0xa76d9000 0x00400000 AddMem SYS_MEM SYS_MEM_CAP BsData WRITE_BACK_XN,
    region_row ''FV Region'' 0xa7ad9000 0x00400000 AddMem SYS_MEM SYS_MEM_CAP BsData WRITE_BACK_XN,
    region_row ''Kernel'' 0xa8000000 0x10000000 AddMem SYS_MEM SYS_MEM_CAP Reserv WRITE_BACK_XN,
    region_row ''Display Reserved'' 0xb8000000 0x02b00000 AddMem MEM_RES SYS_MEM_CAP Reserv WRITE_THROUGH_XN,
    region_row ''OEM VM'' 0xbb000000 0x05000000 AddMem SYS_MEM SYS_MEM_CAP Reserv WRITE_BACK_XN,
    region_row ''MTE Reserved'' 0xc0000000 0x20000000 AddMem SYS_MEM SYS_MEM_CAP Reserv WRITE_BACK_XN,
    region_row ''VM PIL'' 0xe0000000 0x05700000 AddMem SYS_MEM SYS_MEM_CAP Reserv WRITE_BACK_XN,
    region_row ''TZ STATS'' 0xe8800000 0x01000000 AddMem MEM_RES UNCACHEABLE Reserv UNCACHED_UNBUFFERED_XN,
    region_row ''TAGS'' 0xe9800000 0x00300000 AddMem MEM_RES UNCACHEABLE Reserv UNCACHED_UNBUFFERED_XN,
    region_row ''QTEE'' 0xe9b00000 0x00500000 AddMem MEM_RES UNCACHEABLE Reserv UNCACHED_UNBUFFERED_XN,
    region_row ''TZApps Reserved'' 0xea000000 0x07400000 AddMem MEM_RES UNCACHEABLE Reserv UNCACHED_UNBUFFERED_XN,
    region_row ''DXE Heap'' 0xf1c00000 0x07c00000 AddMem SYS_MEM SYS_MEM_CAP Conv WRITE_BACK_XN,
    region_row ''HYP Reserved'' 0x830000000 0x10000000 AddMem SYS_MEM SYS_MEM_CAP Reserv WRITE_BACK_XN,
    region_row ''IMEM Base'' 0x14680000 0x0002a000 NoHob MMAP_IO INITIALIZED Conv NS_DEVICE,
    region_row ''IMEM Cookie Base'' 0x146aa000 0x00016000 AddDev MMAP_IO INITIALIZED Conv NS_DEVICE,
    region_row ''IPC_ROUTER_TOP'' 0x00400000 0x00100000 AddDev MMAP_IO UNCACHEABLE MmIO NS_DEVICE,
    region_row ''SECURITY CONTROL'' 0x00780000 0x00007000 AddDev MMAP_IO UNCACHEABLE MmIO NS_DEVICE,
    region_row ''QUP'' 0x00800000 0x00300000 AddDev MMAP_IO UNCACHEABLE MmIO NS_DEVICE,
    region_row ''PRNG_CFG_PRNG'' 0x010c0000 0x0000c000 AddDev MMAP_IO UNCACHEABLE MmIO NS_DEVICE,
    region_row ''CRYPTO0 CRYPTO'' 0x01dc0000 0x00040000 AddDev MMAP_IO UNCACHEABLE MmIO NS_DEVICE,
    region_row ''TCSR_TCSR_REGS'' 0x01fc0000 0x00030000 AddDev MMAP_IO UNCACHEABLE MmIO NS_DEVICE,
    region_row ''PERIPH_SS'' 0x08800000 0x00100000 AddDev MMAP_IO UNCACHEABLE MmIO NS_DEVICE,
    region_row ''USB'' 0x0a600000 0x00200000 AddDev MMAP_IO UNCACHEABLE MmIO NS_DEVICE,
    region_row ''AOSS'' 0x0b000000 0x04000000 AddDev MMAP_IO UNCACHEABLE MmIO NS_DEVICE,
    region_row ''TLMM'' 0x0f000000 0x01000000 AddDev MMAP_IO UNCACHEABLE MmIO NS_DEVICE,
    region_row ''SMMU'' 0x15000000 0x00200000 AddDev MMAP_IO UNCACHEABLE MmIO NS_DEVICE,
    region_row ''APSS_HM'' 0x17000000 0x02000000 AddDev MMAP_IO UNCACHEABLE MmIO NS_DEVICE]"

lemma ships_b4q: "ships True 0x80000000 gMemoryDescriptor_b4q"
  apply (rule shipsI_in_order)
  subgoal by (rule boot_regionsI(1); unfold gMemoryDescriptor_b4q_def; (rule lists_region_here | rule lists_region_skip)+)
  subgoal unfolding gMemoryDescriptor_b4q_def by (simp only: span_eval) simp
  done

definition gMemoryDescriptor_b5q :: "region list" where
  "gMemoryDescriptor_b5q = [
    region_row ''HYP'' 0x80000000 0x00a00000 AddMem MEM_RES SYS_MEM_CAP Reserv WRITE_BACK_XN,
    region_row ''CPUSYS VM'' 0x80a00000 0x00400000 AddMem MEM_RES SYS_MEM_CAP Reserv WRITE_BACK_XN,
    region_row ''XBL DT'' 0x81a00000 0x00040000 AddMem SYS_MEM SYS_MEM_CAP Reserv WRITE_BACK_XN,
    region_row ''XBL Ramdump'' 0x81a40000 0x001c0000 AddMem MEM_RES UNCACHEABLE Reserv UNCACHED_UNBUFFERED_XN,
    region_row ''AOP'' 0x81c00000 0x000f4000 AddMem MEM_RES UNCACHEABLE Reserv UNCACHED_UNBUFFERED_XN,
    region_row ''Chip Info'' 0x81cf4000 0x00001000 AddMem SYS_MEM SYS_MEM_CAP Reserv WRITE_BACK_XN,
    region_row ''SMEM'' 0x81d00000 0x00200000 AddMem MEM_RES UNCACHEABLE Reserv UNCACHED_UNBUFFERED_XN,
    region_row ''ADSP MHI'' 0x81f00000 0x00020000 AddMem SYS_MEM SYS_MEM_CAP Reserv WRITE_BACK_XN,
    region_row ''TZ STATS'' 0x82700000 0x00100000 AddMem MEM_RES UNCACHEABLE Reserv UNCACHED_UNBUFFERED_XN,
    region_row ''PIL Reserved'' 0x8a800000 0x18280000 AddMem MEM_RES UNCACHEABLE Reserv UNCACHED_UNBUFFERED_XN,
    region_row ''Display Demura'' 0xa2a80000 0x02b00000 AddMem MEM_RES SYS_MEM_CAP Reserv WRITE_THROUGH_XN,
    region_row ''DBI Dump'' 0xa6100000 0x00f00000 NoHob MMAP_IO INITIALIZED Conv UNCACHED_UNBUFFERED_XN,
    region_row ''FD Reserved'' 0xa7000000 0x00100000 AddMem SYS_MEM SYS_MEM_CAP BsData WRITE_BACK,
    region_row ''UEFI FD'' 0xa7100000 0x00300000 AddMem SYS_MEM SYS_MEM_CAP BsData WRITE_BACK,
    region_row ''UEFI FD Reserved'' 0xa7400000 0x00200000 AddMem SYS_MEM SYS_MEM_CAP BsData WRITE_BACK,
    region_row ''Info Blk'' 0xa7601000 0x00001000 AddMem SYS_MEM SYS_MEM_CAP RtData WRITE_BACK_XN,
    region_row ''MMU PageTables'' 0xa7602000 0x00003000 AddMem SYS_MEM SYS_MEM_CAP BsData WRITE_BACK_XN,
    region_row ''Log Buffer'' 0xa7605000 0x00008000 AddMem SYS_MEM SYS_MEM_CAP RtData WRITE_BACK_XN,
    region_row ''UEFI Stack'' 0xa760d000 0x00040000 AddMem SYS_MEM SYS_MEM_CAP BsData WRITE_BACK_XN,
    region_row ''SEC Heap'' 0xa764d000 0x0008c000 AddMem SYS_MEM SYS_MEM_CAP BsData WRITE_BACK_XN,
    region_row ''Sched Heap'' 0xa76d9000 0x00400000 AddMem SYS_MEM SYS_MEM_CAP BsData WRITE_BACK_XN,
    region_row ''FV Region'' 0xa7ad9000 0x00400000 AddMem SYS_MEM SYS_MEM_CAP BsData WRITE_BACK_XN,
    region_row ''Kernel'' 0xa8000000 0x10000000 AddMem SYS_MEM SYS_MEM_CAP Reserv WRITE_BACK_XN,
    region_row ''Display Reserved'' 0xb8000000 0x02b00000 AddMem MEM_RES SYS_MEM_CAP Reserv WRITE_THROUGH_XN,
    region_row ''DXE Heap'' 0xbab00000 0x0d1c0000 AddMem SYS_MEM SYS_MEM_CAP Conv WRITE_BACK_XN,
    region_row ''CPUCP FW'' 0xd8140000 0x001c0000 AddMem SYS_MEM SYS_MEM_CAP Reserv UNCACHED_UNBUFFERED_XN,
    region_row ''QTEE'' 0xd8300000 0x00500000 AddMem MEM_RES UNCACHEABLE Reserv UNCACHED_UNBUFFERED_XN,
    region_row ''TZApps Reserved'' 0xd8800000 0x07400000 AddMem MEM_RES UNCACHEABLE Reserv UNCACHED_UNBUFFERED_XN,
    region_row ''IMEM Base'' 0x14680000 0x0002a000 NoHob MMAP_IO INITIALIZED Conv NS_DEVICE,
    region_row ''IMEM Cookie Base'' 0x146aa000 0x00016000 AddDev MMAP_IO INITIALIZED Conv NS_DEVICE,
    region_row ''IPC_ROUTER_TOP'' 0x00400000 0x00100000 AddDev MMAP_IO UNCACHEABLE MmIO NS_DEVICE,
    region_row ''SECURITY CONTROL'' 0x00780000 0x00007000 AddDev MMAP_IO UNCACHEABLE MmIO NS_DEVICE,
    region_row ''QUP'' 0x00800000 0x00300000 AddDev MMAP_IO UNCACHEABLE MmIO NS_DEVICE,
    region_row ''PRNG_CFG_PRNG'' 0x010c0000 0x0000c000 AddDev MMAP_IO UNCACHEABLE MmIO NS_DEVICE,
    region_row ''CRYPTO0 CRYPTO'' 0x01dc0000 0x00040000 AddDev MMAP_IO UNCACHEABLE MmIO NS_DEVICE,
    region_row ''CORE_TOP_CSR'' 0x01f00000 0x00100000 AddDev MMAP_IO UNCACHEABLE MmIO NS_DEVICE,
    region_row ''PERIPH_SS'' 0x08800000 0x00100000 AddDev MMAP_IO UNCACHEABLE MmIO NS_DEVICE,
    region_row ''USB'' 0x0a600000 0x00200000 AddDev MMAP_IO UNCACHEABLE MmIO NS_DEVICE,
    region_row ''AOSS'' 0x0b000000 0x04000000 AddDev MMAP_IO UNCACHEABLE MmIO NS_DEVICE,
    region_row ''TLMM'' 0x0f000000 0x01000000 AddDev MMAP_IO UNCACHEABLE MmIO NS_DEVICE,
    region_row ''SMMU'' 0x15000000 0x00200000 AddDev MMAP_IO UNCACHEABLE MmIO NS_DEVICE,
    region_row ''APSS_HM'' 0x17000000 0x02000000 AddDev MMAP_IO UNCACHEABLE MmIO NS_DEVICE]"

lemma ships_b5q: "ships True 0x80000000 gMemoryDescriptor_b5q"
  apply (rule shipsI_in_order)
  subgoal by (rule boot_regionsI(1); unfold gMemoryDescriptor_b5q_def; (rule lists_region_here | rule lists_region_skip)+)
  subgoal unfolding gMemoryDescriptor_b5q_def by (simp only: span_eval) simp
  done

definition gMemoryDescriptor_beyond1lte :: "region list" where
  "gMemoryDescriptor_beyond1lte = [
    region_row ''EL2 Code'' 0x87000000 0x00200000 AddMem SYS_MEM SYS_MEM_CAP BsCode WRITE_BACK,
    region_row ''UEFI FD'' 0xc9000000 0x00200000 AddMem SYS_MEM SYS_MEM_CAP BsData WRITE_BACK,
    region_row ''UEFI Stack'' 0xc9200000 0x00040000 AddMem SYS_MEM SYS_MEM_CAP BsData WRITE_BACK,
    region_row ''DXE Heap'' 0xc9240000 0x03c00000 AddMem SYS_MEM SYS_MEM_CAP Conv WRITE_BACK,
    region_row ''Display Reserved'' 0xca000000 0x01400000 AddMem MEM_RES SYS_MEM_CAP Reserv WRITE_THROUGH,
    region_row ''IRAM'' 0x02020000 0x00018000 AddDev MMAP_IO UNCACHEABLE MmIO DEVICE,
    region_row ''NS_IRAM'' 0x02038000 0x00004000 AddDev MMAP_IO UNCACHEABLE MmIO NS_DEVICE,
    region_row ''Chip Info'' 0x10000000 0x00001000 AddDev MMAP_IO UNCACHEABLE MmIO NS_DEVICE,
    region_row ''GICD'' 0x10101000 0x00001000 AddDev MMAP_IO UNCACHEABLE MmIO NS_DEVICE,
    region_row ''GICC'' 0x10102000 0x00001000 AddDev MMAP_IO UNCACHEABLE MmIO NS_DEVICE,
    region_row ''GICH'' 0x10104000 0x00002000 AddDev MMAP_IO UNCACHEABLE MmIO NS_DEVICE,
    region_row ''GICV'' 0x10106000 0x00002000 AddDev MMAP_IO UNCACHEABLE MmIO NS_DEVICE,
    region_row ''PMU'' 0x15860000 0x00010000 AddDev MMAP_IO UNCACHEABLE MmIO NS_DEVICE,
    region_row ''Decon'' 0x19030000 0x00010000 AddDev MMAP_IO UNCACHEABLE MmIO NS_DEVICE,
    region_row ''Clock Controller'' 0x1a240000 0x00008000 AddDev MMAP_IO UNCACHEABLE MmIO NS_DEVICE]"

lemma ships_beyond1lte: "ships False 0x80000000 gMemoryDescriptor_beyond1lte"
  apply (rule clashI [where d = "gMemoryDescriptor_beyond1lte ! 3" and e = "gMemoryDescriptor_beyond1lte ! 4"])
  subgoal by (rule boot_regionsI(1); unfold gMemoryDescriptor_beyond1lte_def; (rule lists_region_here | rule lists_region_skip)+)
  subgoal unfolding gMemoryDescriptor_beyond1lte_def by (simp only: span_eval) simp
  by (simp_all add: gMemoryDescriptor_beyond1lte_def)

definition gMemoryDescriptor_c1s :: "region list" where
  "gMemoryDescriptor_c1s = [
    region_row ''EL2 Code'' 0x83c80000 0x00200000 AddMem SYS_MEM SYS_MEM_CAP Reserv WRITE_BACK,
    region_row ''UEFI FD'' 0xe8000000 0x00200000 AddMem SYS_MEM SYS_MEM_CAP BsData WRITE_BACK,
    region_row ''DXE Heap'' 0xe8200000 0x03c00000 AddMem SYS_MEM SYS_MEM_CAP Conv WRITE_BACK,
    region_row ''UEFI Stack'' 0xebe00000 0x00040000 AddMem SYS_MEM SYS_MEM_CAP BsData WRITE_BACK,
    region_row ''Display Reserved'' 0xf1000000 0x01194000 AddMem MEM_RES SYS_MEM_CAP Reserv WRITE_THROUGH,
    region_row ''RAM Partition'' 0xf2194000 0x00001000 AddMem SYS_MEM SYS_MEM_CAP Conv WRITE_BACK,
    region_row ''IRAM'' 0x02020000 0x00018000 AddDev MMAP_IO UNCACHEABLE MmIO DEVICE,
    region_row ''NS_IRAM'' 0x02038000 0x00039000 AddDev MMAP_IO UNCACHEABLE MmIO NS_DEVICE,
    region_row ''Chip Info'' 0x10000000 0x00001000 AddDev MMAP_IO UNCACHEABLE MmIO NS_DEVICE,
    region_row ''GICD'' 0x10101000 0x00001000 AddDev MMAP_IO UNCACHEABLE MmIO NS_DEVICE,
    region_row ''GICC'' 0x10102000 0x00001000 AddDev MMAP_IO UNCACHEABLE MmIO NS_DEVICE,
    region_row ''GICH'' 0x10104000 0x00002000 AddDev MMAP_IO UNCACHEABLE MmIO NS_DEVICE,
    region_row ''GICV'' 0x10106000 0x00002000 AddDev MMAP_IO UNCACHEABLE MmIO NS_DEVICE,
    region_row ''SYSREG PERIC0'' 0x10420000 0x00010000 AddDev MMAP_IO UNCACHEABLE MmIO NS_DEVICE,
    region_row ''SYSREG PERIC1'' 0x10720000 0x00010000 AddDev MMAP_IO UNCACHEABLE MmIO NS_DEVICE,
    region_row ''SYSREG HSI0'' 0x10a20000 0x00010000 AddDev MMAP_IO UNCACHEABLE MmIO NS_DEVICE,
    region_row ''SYSREG HSI1'' 0x13020000 0x00010000 AddDev MMAP_IO UNCACHEABLE MmIO NS_DEVICE,
    region_row ''UFS HCI'' 0x13100000 0x00010000 AddDev MMAP_IO UNCACHEABLE MmIO NS_DEVICE,
    region_row ''UFS UniPro'' 0x13180000 0x00001000 AddDev MMAP_IO UNCACHEABLE MmIO NS_DEVICE,
    region_row ''PMU'' 0x15860000 0x00004000 AddDev MMAP_IO UNCACHEABLE MmIO NS_DEVICE,
    region_row ''Decon'' 0x19050000 0x00010000 AddDev MMAP_IO UNCACHEABLE MmIO NS_DEVICE,
    region_row ''Clock Controller'' 0x1a330000 0x00008000 AddDev MMAP_IO UNCACHEABLE MmIO NS_DEVICE]"

lemma ships_c1s: "ships True 0x80000000 gMemoryDescriptor_c1s"
  apply (rule shipsI_in_order)
  subgoal by (rule boot_regionsI(1); unfold gMemoryDescriptor_c1s_def; (rule lists_region_here | rule lists_region_skip)+)
  subgoal unfolding gMemoryDescriptor_c1s_def by (simp only: span_eval) simp
  done

definition gMemoryDescriptor_dm2q :: "region list" where
  "gMemoryDescriptor_dm2q = [
    region_row ''RSRV0'' 0x81200000 0x00800000 AddMem SYS_MEM SYS_MEM_CAP Reserv WRITE_BACK_XN,
    region_row ''XBL DT'' 0x81a00000 0x00040000 AddMem SYS_MEM SYS_MEM_CAP Reserv WRITE_BACK_XN,
    region_row ''XBL Ramdump'' 0x81a40000 0x001c0000 AddMem MEM_RES UNCACHEABLE Reserv UNCACHED_UNBUFFERED_XN,
    region_row ''AOP'' 0x81c00000 0x000a0000 AddMem MEM_RES UNCACHEABLE Reserv UNCACHED_UNBUFFERED_XN,
    region_row ''UEFI Log'' 0x81ce4000 0x00010000 AddMem MEM_RES UNCACHEABLE Reserv UNCACHED_UNBUFFERED_XN,
    region_row ''SMEM'' 0x81d00000 0x00200000 AddMem MEM_RES UNCACHEABLE Reserv UNCACHED_UNBUFFERED_XN,
    region_row ''PIL Reserved'' 0x8a800000 0x18280000 AddMem MEM_RES UNCACHEABLE Reserv UNCACHED_UNBUFFERED_XN,
    region_row ''Display Demura'' 0xa2a80000 0x02b00000 AddMem MEM_RES SYS_MEM_CAP Reserv WRITE_THROUGH_XN,
    region_row ''DBI Dump'' 0xa6100000 0x00f00000 NoHob MMAP_IO INITIALIZED Conv UNCACHED_UNBUFFERED_XN,
    region_row ''FD Reserved'' 0xa7000000 0x00100000 AddMem SYS_MEM SYS_MEM_CAP BsData WRITE_BACK,
    region_row ''UEFI FD'' 0xa7100000 0x00300000 AddMem SYS_MEM SYS_MEM_CAP BsData WRITE_BACK,
    region_row ''UEFI FD Reserved'' 0xa7400000 0x00200000 AddMem SYS_MEM SYS_MEM_CAP BsData WRITE_BACK,
    region_row ''Info Blk'' 0xa7601000 0x00001000 AddMem SYS_MEM SYS_MEM_CAP RtData WRITE_BACK_XN,
    region_row ''MMU PageTables'' 0xa7602000 0x00003000 AddMem SYS_MEM SYS_MEM_CAP BsData WRITE_BACK_XN,
    region_row ''Log Buffer'' 0xa7605000 0x00008000 AddMem SYS_MEM SYS_MEM_CAP RtData WRITE_BACK_XN,
    region_row ''UEFI Stack'' 0xa760d000 0x00040000 AddMem SYS_MEM SYS_MEM_CAP BsData WRITE_BACK_XN,
    region_row ''SEC Heap'' 0xa764d000 0x0008c000 AddMem SYS_MEM SYS_MEM_CAP BsData WRITE_BACK_XN,
    region_row ''Sched Heap'' 0xa76d9000 0x00400000 AddMem SYS_MEM SYS_MEM_CAP BsData WRITE_BACK_XN,
    region_row ''FV Region'' 0xa7ad9000 0x00400000 AddMem SYS_MEM SYS_MEM_CAP BsData WRITE_BACK_XN,
    region_row ''UEFI RESV'' 0xa7ed9000 0x00127000 AddMem SYS_MEM SYS_MEM_CAP BsData WRITE_BACK_XN,
    region_row ''Kernel'' 0xa8000000 0x10000000 AddMem SYS_MEM SYS_MEM_CAP Reserv WRITE_BACK_XN,
    region_row ''Display Reserved'' 0xb8000000 0x02b00000 AddMem MEM_RES SYS_MEM_CAP Reserv WRITE_THROUGH_XN,
    region_row ''DXE Heap'' 0xbae00000 0x04500000 AddMem SYS_MEM SYS_MEM_CAP Conv WRITE_BACK_XN,
    region_row ''TZApps Reserved'' 0xd8800000 0x07400000 AddMem MEM_RES UNCACHEABLE Reserv UNCACHED_UNBUFFERED_XN,
    region_row ''SEC Debug'' 0x880000000 0x0b000000 AddMem SYS_MEM UNCACHEABLE Reserv UNCACHED_UNBUFFERED_XN,
    region_row ''IMEM Base'' 0x14680000 0x0002a000 NoHob MMAP_IO INITIALIZED Conv NS_DEVICE,
    region_row ''IMEM Cookie Base'' 0x146aa000 0x00016000 AddDev MMAP_IO INITIALIZED Conv NS_DEVICE,
    region_row ''IPC_ROUTER_TOP'' 0x00400000 0x00100000 AddDev MMAP_IO UNCACHEABLE MmIO NS_DEVICE,
    region_row ''SECURITY CONTROL'' 0x00780000 0x00007000 AddDev MMAP_IO UNCACHEABLE MmIO NS_DEVICE,
    region_row ''QUP'' 0x00800000 0x00300000 AddDev MMAP_IO UNCACHEABLE MmIO NS_DEVICE,
    region_row ''PRNG_CFG_PRNG'' 0x010c0000 0x0000c000 AddDev MMAP_IO UNCACHEABLE MmIO NS_DEVICE,
    region_row ''CRYPTO0 CRYPTO'' 0x01dc0000 0x00040000 AddDev MMAP_IO UNCACHEABLE MmIO NS_DEVICE,
    region_row ''CORE_TOP_CSR'' 0x01f00000 0x00100000 AddDev MMAP_IO UNCACHEABLE MmIO NS_DEVICE,
    region_row ''PERIPH_SS'' 0x08800000 0x00100000 AddDev MMAP_IO UNCACHEABLE MmIO NS_DEVICE,
    region_row ''USB'' 0x0a600000 0x00200000 AddDev MMAP_IO UNCACHEABLE MmIO NS_DEVICE,
    region_row ''AOSS'' 0x0b000000 0x04000000 AddDev MMAP_IO UNCACHEABLE MmIO NS_DEVICE,
    region_row ''TLMM'' 0x0f000000 0x01000000 AddDev MMAP_IO UNCACHEABLE MmIO NS_DEVICE,
    region_row ''SMMU'' 0x15000000 0x00200000 AddDev MMAP_IO UNCACHEABLE MmIO NS_DEVICE,
    region_row ''APSS_HM'' 0x17000000 0x02000000 AddDev MMAP_IO UNCACHEABLE MmIO NS_DEVICE]"

lemma ships_dm2q: "ships True 0x80000000 gMemoryDescriptor_dm2q"
  apply (rule shipsI_in_order)
  subgoal by (rule boot_regionsI(1); unfold gMemoryDescriptor_dm2q_def; (rule lists_region_here | rule lists_region_skip)+)
  subgoal unfolding gMemoryDescriptor_dm2q_def by (simp only: span_eval) simp
  done

definition gMemoryDescriptor_dreamlte :: "region list" where
  "gMemoryDescriptor_dreamlte = [
    region_row ''DXE Heap'' 0xc3a00000 0x05600000 AddMem SYS_MEM SYS_MEM_CAP Conv WRITE_BACK,
    region_row ''UEFI FD'' 0xc9000000 0x00200000 AddMem SYS_MEM SYS_MEM_CAP BsData WRITE_BACK,
    region_row ''UEFI Stack'' 0xc9200000 0x00040000 AddMem SYS_MEM SYS_MEM_CAP BsData WRITE_BACK,
    region_row ''Display Reserved'' 0xcc000000 0x01043000 AddMem MEM_RES SYS_MEM_CAP Reserv WRITE_THROUGH,
    region_row ''Secure Camera'' 0xd0000000 0x01400000 AddMem SYS_MEM SYS_MEM_CAP Reserv WRITE_BACK,
    region_row ''RAM Partition'' 0x880000000 0x80000000 AddMem SYS_MEM SYS_MEM_CAP Conv WRITE_BACK,
    region_row ''Chip Info'' 0x10000000 0x00001000 AddDev MMAP_IO UNCACHEABLE MmIO NS_DEVICE,
    region_row ''GICD'' 0x10201000 0x00001000 AddDev MMAP_IO UNCACHEABLE MmIO NS_DEVICE,
    region_row ''GICC'' 0x10202000 0x00001000 AddDev MMAP_IO UNCACHEABLE MmIO NS_DEVICE,
    region_row ''GICH'' 0x10204000 0x00002000 AddDev MMAP_IO UNCACHEABLE MmIO NS_DEVICE,
    region_row ''GICV'' 0x10206000 0x00002000 AddDev MMAP_IO UNCACHEABLE MmIO NS_DEVICE,
    region_row ''PMU'' 0x16480000 0x00010000 AddDev MMAP_IO UNCACHEABLE MmIO NS_DEVICE,
    region_row ''SYSREG FSYS0'' 0x11020000 0x00002000 AddDev MMAP_IO UNCACHEABLE MmIO NS_DEVICE,
    region_row ''UFS HCI'' 0x11120000 0x00010000 AddDev MMAP_IO UNCACHEABLE MmIO NS_DEVICE,
    region_row ''UFS UniPro'' 0x11130000 0x00008000 AddDev MMAP_IO UNCACHEABLE MmIO NS_DEVICE,
    region_row ''Clock Controller'' 0x15a80000 0x00002000 AddDev MMAP_IO UNCACHEABLE MmIO NS_DEVICE,
    region_row ''Decon'' 0x12860000 0x00010000 AddDev MMAP_IO UNCACHEABLE MmIO NS_DEVICE]"

lemma ships_dreamlte: "ships True 0x80000000 gMemoryDescriptor_dreamlte"
  apply (rule shipsI_in_order)
  subgoal by (rule boot_regionsI(1); unfold gMemoryDescriptor_dreamlte_def; (rule lists_region_here | rule lists_region_skip)+)
  subgoal unfolding gMemoryDescriptor_dreamlte_def by (simp only: span_eval) simp
  done

definition gMemoryDescriptor_e1s :: "region list" where
  "gMemoryDescriptor_e1s = [
    region_row ''EL2 Code'' 0xc1400000 0x00200000 AddMem SYS_MEM SYS_MEM_CAP BsCode WRITE_BACK,
    region_row ''UEFI FD'' 0xf4800000 0x00200000 AddMem SYS_MEM SYS_MEM_CAP BsData WRITE_BACK,
    region_row ''UEFI Stack'' 0xf4a00000 0x00040000 AddMem SYS_MEM SYS_MEM_CAP BsData WRITE_BACK,
    region_row ''DXE Heap'' 0xf4a40000 0x03c00000 AddMem SYS_MEM SYS_MEM_CAP Conv WRITE_BACK,
    region_row ''Display Reserved'' 0xfa200000 0x009a4000 AddMem MEM_RES SYS_MEM_CAP Reserv WRITE_THROUGH,
    region_row ''IRAM'' 0x02020000 0x00018000 AddDev MMAP_IO UNCACHEABLE MmIO DEVICE,
    region_row ''NS_IRAM'' 0x02038000 0x00004000 AddDev MMAP_IO UNCACHEABLE MmIO NS_DEVICE,
    region_row ''Chip Info'' 0x10000000 0x00010000 AddDev MMAP_IO UNCACHEABLE MmIO NS_DEVICE,
    region_row ''Watchdog Timer'' 0x10040000 0x00001000 AddDev MMAP_IO UNCACHEABLE MmIO NS_DEVICE,
    region_row ''GICD'' 0x10200000 0x00010000 AddDev MMAP_IO UNCACHEABLE MmIO NS_DEVICE,
    region_row ''GICR'' 0x10240000 0x00140000 AddDev MMAP_IO UNCACHEABLE MmIO NS_DEVICE,
    region_row ''PMU'' 0x12860000 0x00010000 AddDev MMAP_IO UNCACHEABLE MmIO NS_DEVICE,
    region_row ''SYSREG HSI0'' 0x17820000 0x00010000 AddDev MMAP_IO UNCACHEABLE MmIO NS_DEVICE,
    region_row ''DRM Decon'' 0x19100000 0x00004000 AddDev MMAP_IO UNCACHEABLE MmIO NS_DEVICE,
    region_row ''Clock Controller'' 0x22b20000 0x00008000 AddDev MMAP_IO UNCACHEABLE MmIO NS_DEVICE]"

lemma ships_e1s: "ships True 0x80000000 gMemoryDescriptor_e1s"
  apply (rule shipsI_in_order)
  subgoal by (rule boot_regionsI(1); unfold gMemoryDescriptor_e1s_def; (rule lists_region_here | rule lists_region_skip)+)
  subgoal unfolding gMemoryDescriptor_e1s_def by (simp only: span_eval) simp
  done

definition gMemoryDescriptor_gta4l :: "region list" where
  "gMemoryDescriptor_gta4l = [
    region_row ''Kernel'' 0x40000000 0x05700000 AddMem SYS_MEM SYS_MEM_CAP Reserv WRITE_BACK_XN,
    region_row ''HYP'' 0x45700000 0x00600000 AddMem SYS_MEM SYS_MEM_CAP Reserv WRITE_BACK_XN,
    region_row ''Boot Info'' 0x45d00000 0x00020000 AddMem SYS_MEM SYS_MEM_CAP BsData WRITE_BACK_XN,
    region_row ''SMEM'' 0x46000000 0x00200000 AddMem MEM_RES WRITE_COMBINEABLE Reserv UNCACHED_UNBUFFERED_XN,
    region_row ''PIL Reserved'' 0x4ab00000 0x09400000 AddMem MEM_RES WRITE_COMBINEABLE Reserv UNCACHED_UNBUFFERED_XN,
    region_row ''DXE Heap'' 0x53f00000 0x02800000 AddMem SYS_MEM SYS_MEM_CAP Conv WRITE_BACK,
    region_row ''DBI Dump'' 0x56700000 0x00a00000 NoHob MMAP_IO INITIALIZED Conv UNCACHED_UNBUFFERED_XN,
    region_row ''Sched Heap'' 0x57100000 0x00400000 AddMem SYS_MEM SYS_MEM_CAP BsData WRITE_BACK_XN,
    region_row ''Display Reserved'' 0x5c000000 0x01000000 AddMem MEM_RES SYS_MEM_CAP Reserv WRITE_THROUGH_XN,
    region_row ''FV Region'' 0x5f800000 0x00200000 AddMem SYS_MEM SYS_MEM_CAP BsData WRITE_BACK_XN,
    region_row ''ABOOT FV'' 0x5fa00000 0x00200000 AddMem SYS_MEM SYS_MEM_CAP Reserv WRITE_BACK,
    region_row ''UEFI FD'' 0x5fc00000 0x00300000 AddMem SYS_MEM SYS_MEM_CAP BsData WRITE_BACK,
    region_row ''SEC Heap'' 0x5ff00000 0x0008c000 AddMem SYS_MEM SYS_MEM_CAP BsData WRITE_BACK_XN,
    region_row ''MMU PageTables'' 0x5ff8d000 0x00003000 AddMem SYS_MEM SYS_MEM_CAP BsData WRITE_BACK_XN,
    region_row ''UEFI Stack'' 0x5ff90000 0x00040000 AddMem SYS_MEM SYS_MEM_CAP BsData WRITE_BACK_XN,
    region_row ''Log Buffer'' 0x5fff7000 0x00008000 AddMem SYS_MEM SYS_MEM_CAP RtData WRITE_BACK_XN,
    region_row ''Info Blk'' 0x5ffff000 0x00001000 AddMem SYS_MEM SYS_MEM_CAP RtData WRITE_BACK_XN,
    region_row ''WtShareMem'' 0x68000000 0x00100000 AddMem SYS_MEM SYS_MEM_CAP Reserv WRITE_THROUGH_XN,
    region_row ''SEC Debug'' 0x71400000 0x00900000 AddMem SYS_MEM SYS_MEM_CAP Reserv WRITE_BACK_XN,
    region_row ''RPM_SS_MSG_RAM'' 0x045f0000 0x00007000 NoHob MMAP_IO INITIALIZED Conv NS_DEVICE,
    region_row ''IMEM Base'' 0x0c100000 0x00026000 NoHob MMAP_IO INITIALIZED Conv NS_DEVICE,
    region_row ''IMEM Cookie Base'' 0x0c125000 0x00001000 AddDev MMAP_IO INITIALIZED Conv NS_DEVICE,
    region_row ''TCSR_TCSR_REGS'' 0x003c0000 0x00040000 AddDev MMAP_IO UNCACHEABLE MmIO NS_DEVICE,
    region_row ''TLMM_WEST'' 0x00500000 0x00300000 AddDev MMAP_IO UNCACHEABLE MmIO NS_DEVICE,
    region_row ''TLMM_SOUTH'' 0x00900000 0x00300000 AddDev MMAP_IO UNCACHEABLE MmIO NS_DEVICE,
    region_row ''TLMM_EAST'' 0x00d00000 0x00300000 AddDev MMAP_IO UNCACHEABLE MmIO NS_DEVICE,
    region_row ''GCC CLK CTL'' 0x01400000 0x00200000 AddDev MMAP_IO UNCACHEABLE MmIO NS_DEVICE,
    region_row ''USB2'' 0x01610000 0x00010000 AddDev MMAP_IO UNCACHEABLE MmIO NS_DEVICE,
    region_row ''MMCX_CPR3'' 0x01648000 0x00008000 AddDev MMAP_IO UNCACHEABLE MmIO NS_DEVICE,
    region_row ''CRYPTO0 CRYPTO'' 0x01b00000 0x00040000 AddDev MMAP_IO UNCACHEABLE MmIO NS_DEVICE,
    region_row ''SECURITY CONTROL'' 0x01b40000 0x00010000 AddDev MMAP_IO UNCACHEABLE MmIO NS_DEVICE,
    region_row ''PRNG_CFG_PRNG'' 0x01b50000 0x00010000 AddDev MMAP_IO UNCACHEABLE MmIO NS_DEVICE,
    region_row ''PMIC ARB SPMI'' 0x01c00000 0x02800000 AddDev MMAP_IO UNCACHEABLE MmIO NS_DEVICE,
    region_row ''SLP_CNTR'' 0x04403000 0x00001000 AddDev MMAP_IO UNCACHEABLE MmIO NS_DEVICE,
    region_row ''PSHOLD'' 0x0440b000 0x00001000 AddDev MMAP_IO UNCACHEABLE MmIO NS_DEVICE,
    region_row ''TSENS0'' 0x04410000 0x00001000 AddDev MMAP_IO UNCACHEABLE MmIO NS_DEVICE,
    region_row ''TSENS0_TM'' 0x04411000 0x00001000 AddDev MMAP_IO UNCACHEABLE MmIO NS_DEVICE,
    region_row ''MCCC_MCCC_MSTR'' 0x0447d000 0x00001000 AddDev MMAP_IO UNCACHEABLE MmIO NS_DEVICE,
    region_row ''PERIPH_SS'' 0x04700000 0x00200000 AddDev MMAP_IO UNCACHEABLE MmIO NS_DEVICE,
    region_row ''UFS UFS REGS'' 0x04800000 0x00020000 AddDev MMAP_IO UNCACHEABLE MmIO NS_DEVICE,
    region_row ''QUPV3_0_GSI'' 0x04a00000 0x000d0000 AddDev MMAP_IO UNCACHEABLE MmIO NS_DEVICE,
    region_row ''QUPV3_1_GSI'' 0x04c00000 0x000d0000 AddDev MMAP_IO UNCACHEABLE MmIO NS_DEVICE,
    region_row ''USB30_PRIM'' 0x04e00000 0x00200000 AddDev MMAP_IO UNCACHEABLE MmIO NS_DEVICE,
    region_row ''GPU_GMU_CX_BLK'' 0x0597d000 0x0000c000 AddDev MMAP_IO UNCACHEABLE MmIO NS_DEVICE,
    region_row ''GPU_CC'' 0x05990000 0x00009000 AddDev MMAP_IO UNCACHEABLE MmIO NS_DEVICE,
    region_row ''VIDEO_CC'' 0x05b00000 0x00020000 AddDev MMAP_IO UNCACHEABLE MmIO NS_DEVICE,
    region_row ''MDSS'' 0x05e00000 0x00200000 AddDev MMAP_IO UNCACHEABLE MmIO NS_DEVICE,
    region_row ''DISP_CC_DISP_CC'' 0x05f00000 0x00020000 AddDev MMAP_IO UNCACHEABLE MmIO NS_DEVICE,
    region_row ''SMMU'' 0x0c600000 0x00080000 AddDev MMAP_IO UNCACHEABLE MmIO NS_DEVICE,
    region_row ''APSS_WDT_TMR1'' 0x0f017000 0x00001000 AddDev MMAP_IO UNCACHEABLE MmIO NS_DEVICE,
    region_row ''QTIMER'' 0x0f020000 0x00110000 AddDev MMAP_IO UNCACHEABLE MmIO NS_DEVICE,
    region_row ''APCS_ALIAS0_GLB'' 0x0f111000 0x00001000 AddDev MMAP_IO UNCACHEABLE MmIO NS_DEVICE,
    region_row ''APSS_GIC500_GICD'' 0x0f200000 0x00010000 AddDev MMAP_IO UNCACHEABLE MmIO NS_DEVICE,
    region_row ''APSS_GIC500_GICR'' 0x0f300000 0x00020000 AddDev MMAP_IO UNCACHEABLE MmIO NS_DEVICE,
    region_row ''APSS_ACTPM_WRAP'' 0x0f500000 0x000b0000 AddDev MMAP_IO UNCACHEABLE MmIO NS_DEVICE,
    region_row ''OSM_RAIL'' 0x0f520000 0x00020000 AddDev MMAP_IO UNCACHEABLE MmIO NS_DEVICE]"

lemma ships_gta4l: "ships True 0x40000000 gMemoryDescriptor_gta4l"
  apply (rule shipsI_in_order)
  subgoal by (rule boot_regionsI(1); unfold gMemoryDescriptor_gta4l_def; (rule lists_region_here | rule lists_region_skip)+)
  subgoal unfolding gMemoryDescriptor_gta4l_def by (simp only: span_eval) simp
  done

definition gMemoryDescriptor_gta9pwifi :: "region list" where
  "gMemoryDescriptor_gta9pwifi = [
    region_row ''HYP'' 0x80000000 0x00600000 AddMem MEM_RES SYS_MEM_CAP Reserv WRITE_BACK_XN,
    region_row ''Boot Info'' 0x80600000 0x00200000 AddMem SYS_MEM SYS_MEM_CAP BsData WRITE_BACK_XN,
    region_row ''XBL Log Buffer'' 0x80880000 0x00014000 AddMem SYS_MEM SYS_MEM_CAP Reserv WRITE_BACK_XN,
    region_row ''SMEM'' 0x80900000 0x00200000 AddMem MEM_RES WRITE_COMBINEABLE Reserv UNCACHED_UNBUFFERED_XN,
    region_row ''Display Reserved'' 0x85200000 0x00d00000 AddMem MEM_RES SYS_MEM_CAP Reserv WRITE_THROUGH_XN,
    region_row ''Sched Heap'' 0x85f00000 0x00600000 AddMem SYS_MEM SYS_MEM_CAP BsData WRITE_BACK_XN,
    region_row ''PIL Reserved'' 0x86500000 0x16600000 AddMem MEM_RES WRITE_COMBINEABLE Reserv UNCACHED_UNBUFFERED_XN,
    region_row ''DXE Heap'' 0x9cb00000 0x02300000 AddMem SYS_MEM SYS_MEM_CAP Conv WRITE_BACK,
    region_row ''FV Region'' 0x9f800000 0x00200000 AddMem SYS_MEM SYS_MEM_CAP BsData WRITE_BACK_XN,
    region_row ''ABOOT FV'' 0x9fa00000 0x00200000 AddMem SYS_MEM SYS_MEM_CAP Reserv WRITE_BACK,
    region_row ''UEFI FD'' 0x9fc00000 0x00300000 AddMem SYS_MEM SYS_MEM_CAP BsData WRITE_BACK,
    region_row ''SEC Heap'' 0x9ff00000 0x0008c000 AddMem SYS_MEM SYS_MEM_CAP BsData WRITE_BACK_XN,
    region_row ''MMU PageTables'' 0x9ff8d000 0x00003000 AddMem SYS_MEM SYS_MEM_CAP BsData WRITE_BACK_XN,
    region_row ''UEFI Stack'' 0x9ff90000 0x00040000 AddMem SYS_MEM SYS_MEM_CAP BsData WRITE_BACK_XN,
    region_row ''Log Buffer'' 0x9fff7000 0x00008000 AddMem SYS_MEM SYS_MEM_CAP RtData WRITE_BACK_XN,
    region_row ''Info Blk'' 0x9ffff000 0x00001000 AddMem SYS_MEM SYS_MEM_CAP RtData WRITE_BACK_XN,
    region_row ''Kernel'' 0xa0000000 0x05700000 AddMem SYS_MEM SYS_MEM_CAP Reserv WRITE_BACK_XN,
    region_row ''DBI Dump'' 0xa6000000 0x01400000 NoHob MMAP_IO INITIALIZED Conv UNCACHED_UNBUFFERED_XN,
    region_row ''WtShareMem'' 0xa8000000 0x00100000 AddMem SYS_MEM SYS_MEM_CAP Reserv WRITE_THROUGH_XN,
    region_row ''RPM_SS_MSG_RAM'' 0x045f0000 0x00007000 NoHob MMAP_IO INITIALIZED Conv NS_DEVICE,
    region_row ''IMEM Base'' 0x0c100000 0x00026000 NoHob MMAP_IO INITIALIZED Conv NS_DEVICE,
    region_row ''IMEM Cookie Base'' 0x0c125000 0x00001000 AddDev MMAP_IO INITIALIZED Conv NS_DEVICE,
    region_row ''IPC_ROUTER_TOP'' 0x00200000 0x00100000 AddDev MMAP_IO UNCACHEABLE MmIO NS_DEVICE,
    region_row ''TCSR_TCSR_REGS'' 0x003c0000 0x00040000 AddDev MMAP_IO UNCACHEABLE MmIO NS_DEVICE,
    region_row ''TLMM_WEST'' 0x00500000 0x00300000 AddDev MMAP_IO UNCACHEABLE MmIO NS_DEVICE,
    region_row ''TLMM_SOUTH'' 0x00900000 0x00300000 AddDev MMAP_IO UNCACHEABLE MmIO NS_DEVICE,
    region_row ''TLMM_EAST'' 0x00d00000 0x00300000 AddDev MMAP_IO UNCACHEABLE MmIO NS_DEVICE,
    region_row ''GCC CLK CTL'' 0x01400000 0x00200000 AddDev MMAP_IO UNCACHEABLE MmIO NS_DEVICE,
    region_row ''PMIC ARB SPMI'' 0x01c00000 0x02800000 AddDev MMAP_IO UNCACHEABLE MmIO NS_DEVICE,
    region_row ''MMCX_CPR3'' 0x01648000 0x00008000 AddDev MMAP_IO UNCACHEABLE MmIO NS_DEVICE,
    region_row ''CRYPTO0 CRYPTO'' 0x01b00000 0x00040000 AddDev MMAP_IO UNCACHEABLE MmIO NS_DEVICE,
    region_row ''SECURITY CONTROL'' 0x01b40000 0x00010000 AddDev MMAP_IO UNCACHEABLE MmIO NS_DEVICE,
    region_row ''PRNG_CFG_PRNG'' 0x01b50000 0x00010000 AddDev MMAP_IO UNCACHEABLE MmIO NS_DEVICE,
    region_row ''SLP_CNTR'' 0x04403000 0x00001000 AddDev MMAP_IO UNCACHEABLE MmIO NS_DEVICE,
    region_row ''TSENS0'' 0x04410000 0x00001000 AddDev MMAP_IO UNCACHEABLE MmIO NS_DEVICE,
    region_row ''TSENS0_TM'' 0x04411000 0x00001000 AddDev MMAP_IO UNCACHEABLE MmIO NS_DEVICE,
    region_row ''TSENS1'' 0x04412000 0x00001000 AddDev MMAP_IO UNCACHEABLE MmIO NS_DEVICE,
    region_row ''TSENS1_TM'' 0x04413000 0x00001000 AddDev MMAP_IO UNCACHEABLE MmIO NS_DEVICE,
    region_row ''PSHOLD'' 0x0440b000 0x00001000 AddDev MMAP_IO UNCACHEABLE MmIO NS_DEVICE,
    region_row ''KM_PRNG_TOP'' 0x04450000 0x00010000 AddDev MMAP_IO UNCACHEABLE MmIO NS_DEVICE,
    region_row ''QUPV3_0_GSI'' 0x04a00000 0x000d0000 AddDev MMAP_IO UNCACHEABLE MmIO NS_DEVICE,
    region_row ''QUPV3_1_GSI'' 0x04c00000 0x000d0000 AddDev MMAP_IO UNCACHEABLE MmIO NS_DEVICE,
    region_row ''UFS UFS REGS'' 0x04800000 0x00020000 AddDev MMAP_IO UNCACHEABLE MmIO NS_DEVICE,
    region_row ''PERIPH_SS'' 0x04700000 0x00200000 AddDev MMAP_IO UNCACHEABLE MmIO NS_DEVICE,
    region_row ''USB30_PRIM'' 0x04e00000 0x00200000 AddDev MMAP_IO UNCACHEABLE MmIO NS_DEVICE,
    region_row ''GPU_GMU_CX_BLK'' 0x0597d000 0x0000c000 AddDev MMAP_IO UNCACHEABLE MmIO NS_DEVICE,
    region_row ''GPU_CC'' 0x05990000 0x00009000 AddDev MMAP_IO UNCACHEABLE MmIO NS_DEVICE,
    region_row ''VIDEO_CC'' 0x05b00000 0x00020000 AddDev MMAP_IO UNCACHEABLE MmIO NS_DEVICE,
    region_row ''MDSS'' 0x05e00000 0x00200000 AddDev MMAP_IO UNCACHEABLE MmIO NS_DEVICE,
    region_row ''DISP_CC_DISP_CC'' 0x05f00000 0x00020000 AddDev MMAP_IO UNCACHEABLE MmIO NS_DEVICE,
    region_row ''SMMU'' 0x0c600000 0x00080000 AddDev MMAP_IO UNCACHEABLE MmIO NS_DEVICE,
    region_row ''APSS_WDT_TMR1'' 0x0f410000 0x00001000 AddDev MMAP_IO UNCACHEABLE MmIO NS_DEVICE,
    region_row ''QTIMER'' 0x0f420000 0x00110000 AddDev MMAP_IO UNCACHEABLE MmIO NS_DEVICE,
    region_row ''APCS_ALIAS_0_GLB'' 0x0f850000 0x00001000 AddDev MMAP_IO UNCACHEABLE MmIO NS_DEVICE,
    region_row ''APSS_GIC600_GICD'' 0x0f200000 0x00150000 AddDev MMAP_IO UNCACHEABLE MmIO NS_DEVICE,
    region_row ''APSS_GIC500_GICR'' 0x0f240000 0x00020000 AddDev MMAP_IO UNCACHEABLE MmIO NS_DEVICE,
    region_row ''RIMPS_SLOW'' 0x0fd90000 0x00008000 AddDev MMAP_IO UNCACHEABLE MmIO NS_DEVICE,
    region_row ''APSS_ACTPM_WRAP'' 0x0f500000 0x000b0000 AddDev MMAP_IO UNCACHEABLE MmIO NS_DEVICE,
    region_row ''USB2'' 0x01610000 0x00010000 AddDev MMAP_IO UNCACHEABLE MmIO NS_DEVICE,
    region_row ''EUD_MODE_MANAGER'' 0x01629000 0x00003000 AddDev MMAP_IO UNCACHEABLE MmIO NS_DEVICE,
    region_row ''USB3'' 0x01630000 0x00010000 AddDev MMAP_IO UNCACHEABLE MmIO NS_DEVICE,
    region_row ''PMIC ARB SPMI'' 0x01c00000 0x02800000 AddDev MMAP_IO UNCACHEABLE MmIO NS_DEVICE,
    region_row ''MCCC_MCCC_MSTR'' 0x0447d000 0x00001000 AddDev MMAP_IO UNCACHEABLE MmIO NS_DEVICE]"

lemma ships_gta9pwifi: "ships True 0x80000000 gMemoryDescriptor_gta9pwifi"
  apply (rule shipsI_in_order)
  subgoal by (rule boot_regionsI(1); unfold gMemoryDescriptor_gta9pwifi_def; (rule lists_region_here | rule lists_region_skip)+)
  subgoal unfolding gMemoryDescriptor_gta9pwifi_def by (simp only: span_eval) simp
  done

definition gMemoryDescriptor_gtaxllte :: "region list" where
  "gMemoryDescriptor_gtaxllte = [
    region_row ''UEFI FD'' 0x43e00000 0x00200000 AddMem SYS_MEM SYS_MEM_CAP BsData WRITE_BACK,
    region_row ''UEFI Stack'' 0x44000000 0x00040000 AddMem SYS_MEM SYS_MEM_CAP BsData WRITE_BACK,
    region_row ''DXE Heap'' 0x44040000 0x05400000 AddMem SYS_MEM SYS_MEM_CAP Conv WRITE_BACK,
    region_row ''TIMA Region'' 0x52a00000 0x00200000 AddMem SYS_MEM SYS_MEM_CAP Reserv WRITE_BACK,
    region_row ''Display Reserved'' 0x67000000 0x01194000 AddMem MEM_RES SYS_MEM_CAP Reserv WRITE_THROUGH,
    region_row ''ION Crypto'' 0x80000000 0x00600000 AddMem SYS_MEM SYS_MEM_CAP Reserv WRITE_BACK,
    region_row ''ION VFW'' 0x80600000 0x00400000 AddMem SYS_MEM SYS_MEM_CAP Reserv WRITE_BACK,
    region_row ''ION NFW'' 0x80c00000 0x00400000 AddMem SYS_MEM SYS_MEM_CAP Reserv WRITE_BACK,
    region_row ''ION VStream'' 0x81000000 0x01400000 AddMem SYS_MEM SYS_MEM_CAP Reserv WRITE_BACK,
    region_row ''ION VFrame'' 0x82400000 0x05400000 AddMem SYS_MEM SYS_MEM_CAP Reserv WRITE_BACK,
    region_row ''ION VScaler'' 0x87800000 0x01c00000 AddMem SYS_MEM SYS_MEM_CAP Reserv WRITE_BACK,
    region_row ''ECT'' 0x90000000 0x00014000 AddMem SYS_MEM SYS_MEM_CAP Reserv WRITE_BACK,
    region_row ''MFC NFW'' 0xae600000 0x00200000 AddMem SYS_MEM SYS_MEM_CAP Reserv WRITE_BACK,
    region_row ''MFC FW'' 0xae800000 0x00200000 AddMem SYS_MEM SYS_MEM_CAP Reserv WRITE_BACK,
    region_row ''DRAM Init'' 0xaffff000 0x00001000 AddMem SYS_MEM SYS_MEM_CAP Reserv WRITE_BACK,
    region_row ''Modem IF'' 0xb0000000 0x07800000 AddMem SYS_MEM SYS_MEM_CAP Reserv WRITE_BACK,
    region_row ''GNSS IF'' 0xb7c00000 0x00400000 AddMem SYS_MEM SYS_MEM_CAP Reserv WRITE_BACK,
    region_row ''IRAM'' 0x02020000 0x0004b000 AddDev MMAP_IO UNCACHEABLE MmIO DEVICE,
    region_row ''NS_IRAM'' 0x0206b000 0x00002000 AddDev MMAP_IO UNCACHEABLE MmIO NS_DEVICE,
    region_row ''Chip Info'' 0x10000000 0x00001000 AddDev MMAP_IO UNCACHEABLE MmIO NS_DEVICE,
    region_row ''Clock Controller'' 0x10460000 0x00001000 AddDev MMAP_IO UNCACHEABLE MmIO NS_DEVICE,
    region_row ''PMU'' 0x10480000 0x00010000 AddDev MMAP_IO UNCACHEABLE MmIO NS_DEVICE,
    region_row ''GICD'' 0x104e1000 0x00001000 AddDev MMAP_IO UNCACHEABLE MmIO NS_DEVICE,
    region_row ''GICC'' 0x104e2000 0x00001000 AddDev MMAP_IO UNCACHEABLE MmIO NS_DEVICE,
    region_row ''GICH'' 0x104e4000 0x00002000 AddDev MMAP_IO UNCACHEABLE MmIO NS_DEVICE,
    region_row ''GICV'' 0x104e6000 0x00002000 AddDev MMAP_IO UNCACHEABLE MmIO NS_DEVICE,
    region_row ''MSHC'' 0x13540000 0x00002000 AddDev MMAP_IO UNCACHEABLE MmIO NS_DEVICE,
    region_row ''UART2'' 0x13820000 0x00001000 AddDev MMAP_IO UNCACHEABLE MmIO NS_DEVICE,
    region_row ''Decon'' 0x14830000 0x00008000 AddDev MMAP_IO UNCACHEABLE MmIO NS_DEVICE]"

lemma ships_gtaxllte: "ships True 0x40000000 gMemoryDescriptor_gtaxllte"
  apply (rule shipsI_in_order)
  subgoal by (rule boot_regionsI(1); unfold gMemoryDescriptor_gtaxllte_def; (rule lists_region_here | rule lists_region_skip)+)
  subgoal unfolding gMemoryDescriptor_gtaxllte_def by (simp only: span_eval) simp
  done

definition gMemoryDescriptor_gts8p :: "region list" where
  "gMemoryDescriptor_gts8p = [
    region_row ''HYP'' 0x80000000 0x00600000 AddMem SYS_MEM SYS_MEM_CAP Reserv WRITE_BACK_XN,
    region_row ''DT BLOB'' 0x80600000 0x00040000 AddMem MEM_RES SYS_MEM_CAP Reserv WRITE_BACK_XN,
    region_row ''AOP'' 0x80800000 0x000a0000 AddMem MEM_RES UNCACHEABLE Reserv UNCACHED_UNBUFFERED_XN,
    region_row ''TME'' 0x808a0000 0x00044000 AddMem SYS_MEM SYS_MEM_CAP Reserv WRITE_BACK_XN,
    region_row ''SMEM'' 0x80900000 0x00200000 AddMem MEM_RES UNCACHEABLE Reserv UNCACHED_UNBUFFERED_XN,
    region_row ''CPUCP FW'' 0x80b00000 0x00100000 AddMem SYS_MEM SYS_MEM_CAP Reserv UNCACHED_UNBUFFERED_XN,
    region_row ''PIL Reserved'' 0x85200000 0x1c200000 AddMem MEM_RES UNCACHEABLE Reserv UNCACHED_UNBUFFERED_XN,
    region_row ''Display Demura'' 0xa1400000 0x02b00000 AddMem MEM_RES SYS_MEM_CAP Reserv WRITE_THROUGH_XN,
    region_row ''DBI Dump'' 0xa6000000 0x00f00000 NoHob MMAP_IO INITIALIZED Conv UNCACHED_UNBUFFERED_XN,
    region_row ''FD Reserved'' 0xa7000000 0x00100000 AddMem SYS_MEM SYS_MEM_CAP BsData WRITE_BACK,
    region_row ''UEFI FD'' 0xa7100000 0x00300000 AddMem SYS_MEM SYS_MEM_CAP BsData WRITE_BACK,
    region_row ''UEFI FD Reserved'' 0xa7400000 0x00200000 AddMem SYS_MEM SYS_MEM_CAP BsData WRITE_BACK,
    region_row ''Info Blk'' 0xa7601000 0x00001000 AddMem SYS_MEM SYS_MEM_CAP RtData WRITE_BACK_XN,
    region_row ''MMU PageTables'' 0xa7602000 0x00003000 AddMem SYS_MEM SYS_MEM_CAP BsData WRITE_BACK_XN,
    region_row ''Log Buffer'' 0xa7605000 0x00008000 AddMem SYS_MEM SYS_MEM_CAP RtData WRITE_BACK_XN,
    region_row ''UEFI Stack'' 0xa760d000 0x00040000 AddMem SYS_MEM SYS_MEM_CAP BsData WRITE_BACK_XN,
    region_row ''SEC Heap'' 0xa764d000 0x0008c000 AddMem SYS_MEM SYS_MEM_CAP BsData WRITE_BACK_XN,
    region_row ''Sched Heap'' 0xa76d9000 0x00400000 AddMem SYS_MEM SYS_MEM_CAP BsData WRITE_BACK_XN,
    region_row ''FV Region'' 0xa7ad9000 0x00400000 AddMem SYS_MEM SYS_MEM_CAP BsData WRITE_BACK_XN,
    region_row ''Kernel'' 0xa8000000 0x10000000 AddMem SYS_MEM SYS_MEM_CAP Reserv WRITE_BACK_XN,
    region_row ''Display Reserved'' 0xb8000000 0x02b00000 AddMem MEM_RES SYS_MEM_CAP Reserv WRITE_THROUGH_XN,
    region_row ''OEM VM'' 0xbb000000 0x05000000 AddMem SYS_MEM SYS_MEM_CAP Reserv WRITE_BACK_XN,
    region_row ''MTE Reserved'' 0xc0000000 0x20000000 AddMem SYS_MEM SYS_MEM_CAP Reserv WRITE_BACK_XN,
    region_row ''VM PIL'' 0xe0000000 0x05700000 AddMem SYS_MEM SYS_MEM_CAP Reserv WRITE_BACK_XN,
    region_row ''TZ STATS'' 0xe8800000 0x00100000 AddMem MEM_RES UNCACHEABLE Reserv UNCACHED_UNBUFFERED_XN,
    region_row ''TAGS'' 0xe8900000 0x01200000 AddMem MEM_RES UNCACHEABLE Reserv UNCACHED_UNBUFFERED_XN,
    region_row ''QTEE'' 0xe9b00000 0x00500000 AddMem MEM_RES UNCACHEABLE Reserv UNCACHED_UNBUFFERED_XN,
    region_row ''TZApps Reserved'' 0xea000000 0x07400000 AddMem MEM_RES UNCACHEABLE Reserv UNCACHED_UNBUFFERED_XN,
    region_row ''DXE Heap'' 0xf1c00000 0x07c00000 AddMem SYS_MEM SYS_MEM_CAP Conv WRITE_BACK_XN,
    region_row ''HYP Reserved'' 0x830000000 0x10000000 AddMem SYS_MEM SYS_MEM_CAP Reserv WRITE_BACK_XN,
    region_row ''IMEM Base'' 0x14680000 0x0002a000 NoHob MMAP_IO INITIALIZED Conv NS_DEVICE,
    region_row ''IMEM Cookie Base'' 0x146aa000 0x00016000 AddDev MMAP_IO INITIALIZED Conv NS_DEVICE,
    region_row ''IPC_ROUTER_TOP'' 0x00400000 0x00100000 AddDev MMAP_IO UNCACHEABLE MmIO NS_DEVICE,
    region_row ''SECURITY CONTROL'' 0x00780000 0x00007000 AddDev MMAP_IO UNCACHEABLE MmIO NS_DEVICE,
    region_row ''QUP'' 0x00800000 0x00300000 AddDev MMAP_IO UNCACHEABLE MmIO NS_DEVICE,
    region_row ''PRNG_CFG_PRNG'' 0x010c0000 0x0000c000 AddDev MMAP_IO UNCACHEABLE MmIO NS_DEVICE,
    region_row ''CRYPTO0 CRYPTO'' 0x01dc0000 0x00040000 AddDev MMAP_IO UNCACHEABLE MmIO NS_DEVICE,
    region_row ''TCSR_TCSR_REGS'' 0x01fc0000 0x00030000 AddDev MMAP_IO UNCACHEABLE MmIO NS_DEVICE,
    region_row ''PERIPH_SS'' 0x08800000 0x00100000 AddDev MMAP_IO UNCACHEABLE MmIO NS_DEVICE,
    region_row ''USB'' 0x0a600000 0x00200000 AddDev MMAP_IO UNCACHEABLE MmIO NS_DEVICE,
    region_row ''AOSS'' 0x0b000000 0x04000000 AddDev MMAP_IO UNCACHEABLE MmIO NS_DEVICE,
    region_row ''TLMM'' 0x0f000000 0x01000000 AddDev MMAP_IO UNCACHEABLE MmIO NS_DEVICE,
    region_row ''SMMU'' 0x15000000 0x00200000 AddDev MMAP_IO UNCACHEABLE MmIO NS_DEVICE,
    region_row ''APSS_HM'' 0x17000000 0x02000000 AddDev MMAP_IO UNCACHEABLE MmIO NS_DEVICE]"

lemma ships_gts8p: "ships True 0x80000000 gMemoryDescriptor_gts8p"
  apply (rule shipsI_in_order)
  subgoal by (rule boot_regionsI(1); unfold gMemoryDescriptor_gts8p_def; (rule lists_region_here | rule lists_region_skip)+)
  subgoal unfolding gMemoryDescriptor_gts8p_def by (simp only: span_eval) simp
  done

definition gMemoryDescriptor_gts9wifi :: "region list" where
  "gMemoryDescriptor_gts9wifi = [
    region_row ''NOMAP'' 0x80000000 0x01200000 AddMem MEM_RES UNCACHEABLE Reserv UNCACHED_UNBUFFERED_XN,
    region_row ''RSRV0'' 0x81200000 0x00800000 AddMem SYS_MEM SYS_MEM_CAP Reserv WRITE_BACK_XN,
    region_row ''XBL DT'' 0x81a00000 0x00040000 AddMem SYS_MEM SYS_MEM_CAP Reserv WRITE_BACK_XN,
    region_row ''XBL Ramdump'' 0x81a40000 0x001c0000 AddMem MEM_RES UNCACHEABLE Reserv UNCACHED_UNBUFFERED_XN,
    region_row ''AOP'' 0x81c00000 0x000a0000 AddMem MEM_RES UNCACHEABLE Reserv UNCACHED_UNBUFFERED_XN,
    region_row ''UEFI Log'' 0x81ce4000 0x00010000 AddMem MEM_RES UNCACHEABLE Reserv UNCACHED_UNBUFFERED_XN,
    region_row ''SMEM'' 0x81d00000 0x00200000 AddMem MEM_RES UNCACHEABLE Reserv UNCACHED_UNBUFFERED_XN,
    region_row ''PIL Reserved'' 0x8a800000 0x18280000 AddMem MEM_RES UNCACHEABLE Reserv UNCACHED_UNBUFFERED_XN,
    region_row ''Display Demura'' 0xa2a80000 0x02b00000 AddMem MEM_RES SYS_MEM_CAP Reserv WRITE_THROUGH_XN,
    region_row ''DBI Dump'' 0xa6100000 0x00f00000 NoHob MMAP_IO INITIALIZED Conv UNCACHED_UNBUFFERED_XN,
    region_row ''FD Reserved'' 0xa7000000 0x00100000 AddMem SYS_MEM SYS_MEM_CAP BsData WRITE_BACK,
    region_row ''UEFI FD'' 0xa7100000 0x00300000 AddMem SYS_MEM SYS_MEM_CAP BsData WRITE_BACK,
    region_row ''UEFI FD Reserved'' 0xa7400000 0x00200000 AddMem SYS_MEM SYS_MEM_CAP BsData WRITE_BACK,
    region_row ''CPU Vectors'' 0xa7600000 0x00001000 AddMem SYS_MEM SYS_MEM_CAP BsData WRITE_BACK,
    region_row ''Info Blk'' 0xa7601000 0x00001000 AddMem SYS_MEM SYS_MEM_CAP RtData WRITE_BACK_XN,
    region_row ''MMU PageTables'' 0xa7602000 0x00003000 AddMem SYS_MEM SYS_MEM_CAP BsData WRITE_BACK_XN,
    region_row ''Log Buffer'' 0xa7605000 0x00008000 AddMem SYS_MEM SYS_MEM_CAP RtData WRITE_BACK_XN,
    region_row ''UEFI Stack'' 0xa760d000 0x00040000 AddMem SYS_MEM SYS_MEM_CAP BsData WRITE_BACK_XN,
    region_row ''SEC Heap'' 0xa764d000 0x0008c000 AddMem SYS_MEM SYS_MEM_CAP BsData WRITE_BACK_XN,
    region_row ''Sched Heap'' 0xa76d9000 0x00400000 AddMem SYS_MEM SYS_MEM_CAP BsData WRITE_BACK_XN,
    region_row ''FV Region'' 0xa7ad9000 0x00400000 AddMem SYS_MEM SYS_MEM_CAP BsData WRITE_BACK_XN,
    region_row ''UEFI RESV'' 0xa7ed9000 0x00127000 AddMem SYS_MEM SYS_MEM_CAP BsData WRITE_BACK_XN,
    region_row ''Kernel'' 0xa8000000 0x10000000 AddMem SYS_MEM SYS_MEM_CAP Reserv WRITE_BACK_XN,
    region_row ''Display Reserved'' 0xb8000000 0x02b00000 AddMem MEM_RES SYS_MEM_CAP Reserv WRITE_THROUGH_XN,
    region_row ''DXE Heap'' 0xbae00000 0x04500000 AddMem SYS_MEM SYS_MEM_CAP Conv WRITE_BACK_XN,
    region_row ''TZApps Reserved'' 0xd8800000 0x07400000 AddMem MEM_RES UNCACHEABLE Reserv UNCACHED_UNBUFFERED_XN,
    region_row ''NOMAP'' 0xff800000 0x00800000 AddMem MEM_RES UNCACHEABLE Reserv UNCACHED_UNBUFFERED_XN,
    region_row ''IMEM Base'' 0x14680000 0x0002a000 NoHob MMAP_IO INITIALIZED Conv NS_DEVICE,
    region_row ''IMEM Cookie Base'' 0x146aa000 0x00016000 AddDev MMAP_IO INITIALIZED Conv NS_DEVICE,
    region_row ''IPC_ROUTER_TOP'' 0x00400000 0x00100000 AddDev MMAP_IO UNCACHEABLE MmIO NS_DEVICE,
    region_row ''SECURITY CONTROL'' 0x00780000 0x00007000 AddDev MMAP_IO UNCACHEABLE MmIO NS_DEVICE,
    region_row ''QUP'' 0x00800000 0x00300000 AddDev MMAP_IO UNCACHEABLE MmIO NS_DEVICE,
    region_row ''PRNG_CFG_PRNG'' 0x010c0000 0x0000c000 AddDev MMAP_IO UNCACHEABLE MmIO NS_DEVICE,
    region_row ''CRYPTO0 CRYPTO'' 0x01dc0000 0x00040000 AddDev MMAP_IO UNCACHEABLE MmIO NS_DEVICE,
    region_row ''CORE_TOP_CSR'' 0x01f00000 0x00100000 AddDev MMAP_IO UNCACHEABLE MmIO NS_DEVICE,
    region_row ''PERIPH_SS'' 0x08800000 0x00100000 AddDev MMAP_IO UNCACHEABLE MmIO NS_DEVICE,
    region_row ''USB'' 0x0a600000 0x00200000 AddDev MMAP_IO UNCACHEABLE MmIO NS_DEVICE,
    region_row ''AOSS'' 0x0b000000 0x04000000 AddDev MMAP_IO UNCACHEABLE MmIO NS_DEVICE,
    region_row ''TLMM'' 0x0f000000 0x01000000 AddDev MMAP_IO UNCACHEABLE MmIO NS_DEVICE,
    region_row ''SMMU'' 0x15000000 0x00200000 AddDev MMAP_IO UNCACHEABLE MmIO NS_DEVICE,
    region_row ''APSS_HM'' 0x17000000 0x02000000 AddDev MMAP_IO UNCACHEABLE MmIO NS_DEVICE]"

lemma ships_gts9wifi: "ships True 0x80000000 gMemoryDescriptor_gts9wifi"
  apply (rule shipsI_in_order)
  subgoal by (rule boot_regionsI(1); unfold gMemoryDescriptor_gts9wifi_def; (rule lists_region_here | rule lists_region_skip)+)
  subgoal unfolding gMemoryDescriptor_gts9wifi_def by (simp only: span_eval) simp
  done

definition gMemoryDescriptor_q2q :: "region list" where
  "gMemoryDescriptor_q2q = [
    region_row ''HYP'' 0x80000000 0x00600000 AddMem SYS_MEM SYS_MEM_CAP Reserv WRITE_BACK_XN,
    region_row ''AOP CMD DB'' 0x80860000 0x00020000 AddMem MEM_RES UNCACHEABLE Reserv UNCACHED_UNBUFFERED_XN,
    region_row ''XBL Log Buffer'' 0x80884000 0x00010000 AddMem SYS_MEM SYS_MEM_CAP Reserv WRITE_BACK_XN,
    region_row ''SMEM'' 0x80900000 0x00200000 AddMem MEM_RES UNCACHEABLE Reserv UNCACHED_UNBUFFERED_XN,
    region_row ''CPUCP FW'' 0x80b00000 0x00100000 AddMem SYS_MEM SYS_MEM_CAP Reserv UNCACHED_UNBUFFERED_XN,
    region_row ''PIL Reserved'' 0x85200000 0x16600000 AddMem MEM_RES UNCACHEABLE Reserv UNCACHED_UNBUFFERED_XN,
    region_row ''Sched Heap'' 0x9f400000 0x00400000 AddMem SYS_MEM SYS_MEM_CAP BsData WRITE_BACK_XN,
    region_row ''FV Region'' 0x9f800000 0x00400000 AddMem SYS_MEM SYS_MEM_CAP BsData WRITE_BACK_XN,
    region_row ''FD Reserved'' 0x9fc00000 0x00100000 AddMem SYS_MEM SYS_MEM_CAP BsData WRITE_BACK,
    region_row ''UEFI FD'' 0x9fd00000 0x00200000 AddMem SYS_MEM SYS_MEM_CAP BsData WRITE_BACK,
    region_row ''SEC Heap'' 0x9ff00000 0x0008c000 AddMem SYS_MEM SYS_MEM_CAP BsData WRITE_BACK_XN,
    region_row ''MMU PageTables'' 0x9ff8d000 0x00003000 AddMem SYS_MEM SYS_MEM_CAP BsData WRITE_BACK_XN,
    region_row ''UEFI Stack'' 0x9ff90000 0x00040000 AddMem SYS_MEM SYS_MEM_CAP BsData WRITE_BACK_XN,
    region_row ''Log Buffer'' 0x9fff7000 0x00008000 AddMem SYS_MEM SYS_MEM_CAP RtData WRITE_BACK_XN,
    region_row ''Info Blk'' 0x9ffff000 0x00001000 AddMem SYS_MEM SYS_MEM_CAP RtData WRITE_BACK_XN,
    region_row ''DXE Heap'' 0xa0000000 0x06500000 AddMem SYS_MEM SYS_MEM_CAP Conv WRITE_BACK_XN,
    region_row ''QTEE'' 0xd8800000 0x01800000 HobOnlyNoCacheSetting MEM_RES UNCACHEABLE Reserv UNCACHED_UNBUFFERED_XN,
    region_row ''TZApps Reserved'' 0xda000000 0x06000000 HobOnlyNoCacheSetting MEM_RES UNCACHEABLE Reserv UNCACHED_UNBUFFERED_XN,
    region_row ''DBI Dump'' 0xe3100000 0x00f00000 NoHob MMAP_IO INITIALIZED Conv UNCACHED_UNBUFFERED_XN,
    region_row ''Display Reserved'' 0xe4000000 0x02400000 AddMem MEM_RES SYS_MEM_CAP Reserv WRITE_THROUGH_XN,
    region_row ''IMEM Base'' 0x14680000 0x00040000 NoHob MMAP_IO INITIALIZED Conv NS_DEVICE,
    region_row ''IMEM Cookie Base'' 0x146bf000 0x00001000 AddDev MMAP_IO INITIALIZED Conv NS_DEVICE,
    region_row ''IPC_ROUTER_TOP'' 0x00400000 0x00100000 AddDev MMAP_IO UNCACHEABLE MmIO NS_DEVICE,
    region_row ''SECURITY CONTROL'' 0x00780000 0x00007000 AddDev MMAP_IO UNCACHEABLE MmIO NS_DEVICE,
    region_row ''QUP'' 0x00800000 0x00300000 AddDev MMAP_IO UNCACHEABLE MmIO NS_DEVICE,
    region_row ''PRNG_CFG_PRNG'' 0x010d0000 0x00010000 AddDev MMAP_IO UNCACHEABLE MmIO NS_DEVICE,
    region_row ''TCSR_TCSR_REGS'' 0x01fc0000 0x00030000 AddDev MMAP_IO UNCACHEABLE MmIO NS_DEVICE,
    region_row ''PERIPH_SS'' 0x08800000 0x00200000 AddDev MMAP_IO UNCACHEABLE MmIO NS_DEVICE,
    region_row ''USB'' 0x0a600000 0x04000000 AddDev MMAP_IO UNCACHEABLE MmIO NS_DEVICE,
    region_row ''AOSS'' 0x0b000000 0x04000000 AddDev MMAP_IO UNCACHEABLE MmIO NS_DEVICE,
    region_row ''TLMM_WEST'' 0x0f100000 0x00300000 AddDev MMAP_IO UNCACHEABLE MmIO NS_DEVICE,
    region_row ''TLMM_SOUTH'' 0x0f500000 0x00300000 AddDev MMAP_IO UNCACHEABLE MmIO NS_DEVICE,
    region_row ''TLMM_NORTH'' 0x0f900000 0x00300000 AddDev MMAP_IO UNCACHEABLE MmIO NS_DEVICE,
    region_row ''SMMU'' 0x15000000 0x000d0000 AddDev MMAP_IO UNCACHEABLE MmIO NS_DEVICE,
    region_row ''APSS_HM'' 0x17800000 0x00d99000 AddDev MMAP_IO UNCACHEABLE MmIO NS_DEVICE]"

lemma ships_q2q: "ships True 0x80000000 gMemoryDescriptor_q2q"
  apply (rule shipsI_in_order)
  subgoal by (rule boot_regionsI(1); unfold gMemoryDescriptor_q2q_def; (rule lists_region_here | rule lists_region_skip)+)
  subgoal unfolding gMemoryDescriptor_q2q_def by (simp only: span_eval) simp
  done

definition gMemoryDescriptor_r0q :: "region list" where
  "gMemoryDescriptor_r0q = [
    region_row ''HYP'' 0x80000000 0x00600000 AddMem SYS_MEM SYS_MEM_CAP Reserv WRITE_BACK_XN,
    region_row ''DT BLOB'' 0x80600000 0x00040000 AddMem MEM_RES SYS_MEM_CAP Reserv WRITE_BACK_XN,
    region_row ''AOP'' 0x80800000 0x000a0000 AddMem MEM_RES UNCACHEABLE Reserv UNCACHED_UNBUFFERED_XN,
    region_row ''TME'' 0x808a0000 0x00044000 AddMem MEM_RES UNCACHEABLE Reserv UNCACHED_UNBUFFERED_XN,
    region_row ''SMEM'' 0x80900000 0x00200000 AddMem MEM_RES UNCACHEABLE Reserv UNCACHED_UNBUFFERED_XN,
    region_row ''CPUCP FW'' 0x80b00000 0x00100000 AddMem SYS_MEM SYS_MEM_CAP Reserv UNCACHED_UNBUFFERED_XN,
    region_row ''DXE Heap'' 0x80c00000 0x04600000 AddMem SYS_MEM SYS_MEM_CAP Conv WRITE_BACK_XN,
    region_row ''PIL Reserved'' 0x85200000 0x1c200000 AddMem MEM_RES UNCACHEABLE Reserv UNCACHED_UNBUFFERED_XN,
    region_row ''Display Demura'' 0xa1400000 0x02b00000 AddMem MEM_RES SYS_MEM_CAP Reserv WRITE_THROUGH_XN,
    region_row ''DBI Dump'' 0xa6000000 0x00f00000 NoHob MMAP_IO INITIALIZED Conv UNCACHED_UNBUFFERED_XN,
    region_row ''FD Reserved'' 0xa7000000 0x00100000 AddMem SYS_MEM SYS_MEM_CAP BsData WRITE_BACK,
    region_row ''UEFI FD'' 0xa7100000 0x00300000 AddMem SYS_MEM SYS_MEM_CAP BsData WRITE_BACK,
    region_row ''UEFI FD Reserved'' 0xa7400000 0x00200000 AddMem SYS_MEM SYS_MEM_CAP BsData WRITE_BACK,
    region_row ''Info Blk'' 0xa7601000 0x00001000 AddMem SYS_MEM SYS_MEM_CAP RtData WRITE_BACK_XN,
    region_row ''MMU PageTables'' 0xa7602000 0x00003000 AddMem SYS_MEM SYS_MEM_CAP BsData WRITE_BACK_XN,
    region_row ''Log Buffer'' 0xa7605000 0x00008000 AddMem SYS_MEM SYS_MEM_CAP RtData WRITE_BACK_XN,
    region_row ''UEFI Stack'' 0xa760d000 0x00040000 AddMem SYS_MEM SYS_MEM_CAP BsData WRITE_BACK_XN,
    region_row ''SEC Heap'' 0xa764d000 0x0008c000 AddMem SYS_MEM SYS_MEM_CAP BsData WRITE_BACK_XN,
    region_row ''Sched Heap'' 0xa76d9000 0x00400000 AddMem SYS_MEM SYS_MEM_CAP BsData WRITE_BACK_XN,
    region_row ''FV Region'' 0xa7ad9000 0x00400000 AddMem SYS_MEM SYS_MEM_CAP BsData WRITE_BACK_XN,
    region_row ''Kernel'' 0xa8000000 0x10000000 AddMem SYS_MEM SYS_MEM_CAP Reserv WRITE_BACK_XN,
    region_row ''Display Reserved'' 0xb8000000 0x02b00000 AddMem MEM_RES SYS_MEM_CAP Reserv WRITE_THROUGH_XN,
    region_row ''OEM VM'' 0xbb000000 0x05000000 AddMem SYS_MEM SYS_MEM_CAP Reserv WRITE_BACK_XN,
    region_row ''MTE Reserved'' 0xc0000000 0x20000000 AddMem SYS_MEM SYS_MEM_CAP Reserv WRITE_BACK_XN,
    region_row ''VM PIL'' 0xe0000000 0x05700000 AddMem SYS_MEM SYS_MEM_CAP Reserv WRITE_BACK_XN,
    region_row ''TZ STATS'' 0xe8800000 0x00100000 AddMem MEM_RES UNCACHEABLE Reserv UNCACHED_UNBUFFERED_XN,
    region_row ''TAGS'' 0xe8900000 0x01200000 AddMem MEM_RES UNCACHEABLE Reserv UNCACHED_UNBUFFERED_XN,
    region_row ''QTEE'' 0xe9b00000 0x00500000 AddMem MEM_RES UNCACHEABLE Reserv UNCACHED_UNBUFFERED_XN,
    region_row ''TZApps Reserved'' 0xea000000 0x07400000 AddMem MEM_RES UNCACHEABLE Reserv UNCACHED_UNBUFFERED_XN,
    region_row ''SEC Debug'' 0x800000000 0x0b900000 AddMem SYS_MEM UNCACHEABLE Reserv UNCACHED_UNBUFFERED_XN,
    region_row ''HYP Reserved'' 0x830000000 0x10000000 AddMem SYS_MEM SYS_MEM_CAP Reserv WRITE_BACK_XN,
    region_row ''IMEM Base'' 0x14680000 0x0002a000 NoHob MMAP_IO INITIALIZED Conv NS_DEVICE,
    region_row ''IMEM Cookie Base'' 0x146aa000 0x00016000 AddDev MMAP_IO INITIALIZED Conv NS_DEVICE,
    region_row ''IPC_ROUTER_TOP'' 0x00400000 0x00100000 AddDev MMAP_IO UNCACHEABLE MmIO NS_DEVICE,
    region_row ''SECURITY CONTROL'' 0x00780000 0x00007000 AddDev MMAP_IO UNCACHEABLE MmIO NS_DEVICE,
    region_row ''QUP'' 0x00800000 0x00300000 AddDev MMAP_IO UNCACHEABLE MmIO NS_DEVICE,
    region_row ''PRNG_CFG_PRNG'' 0x010c0000 0x0000c000 AddDev MMAP_IO UNCACHEABLE MmIO NS_DEVICE,
    region_row ''CRYPTO0 CRYPTO'' 0x01dc0000 0x00040000 AddDev MMAP_IO UNCACHEABLE MmIO NS_DEVICE,
    region_row ''TCSR_TCSR_REGS'' 0x01fc0000 0x00030000 AddDev MMAP_IO UNCACHEABLE MmIO NS_DEVICE,
    region_row ''PERIPH_SS'' 0x08800000 0x00100000 AddDev MMAP_IO UNCACHEABLE MmIO NS_DEVICE,
    region_row ''USB'' 0x0a600000 0x00200000 AddDev MMAP_IO UNCACHEABLE MmIO NS_DEVICE,
    region_row ''AOSS'' 0x0b000000 0x04000000 AddDev MMAP_IO UNCACHEABLE MmIO NS_DEVICE,
    region_row ''TLMM'' 0x0f000000 0x01000000 AddDev MMAP_IO UNCACHEABLE MmIO NS_DEVICE,
    region_row ''SMMU'' 0x15000000 0x00200000 AddDev MMAP_IO UNCACHEABLE MmIO NS_DEVICE,
    region_row ''APSS_HM'' 0x17000000 0x02000000 AddDev MMAP_IO UNCACHEABLE MmIO NS_DEVICE]"

lemma ships_r0q: "ships True 0x80000000 gMemoryDescriptor_r0q"
  apply (rule shipsI_in_order)
  subgoal by (rule boot_regionsI(1); unfold gMemoryDescriptor_r0q_def; (rule lists_region_here | rule lists_region_skip)+)
  subgoal unfolding gMemoryDescriptor_r0q_def by (simp only: span_eval) simp
  done

definition gMemoryDescriptor_r8q :: "region list" where
  "gMemoryDescriptor_r8q = [
    region_row ''IPC SHM'' 0x805d0000 0x00020000 AddMem SYS_MEM SYS_MEM_CAP BsData WRITE_BACK_XN,
    region_row ''BOOT INFO'' 0x805f0000 0x00010000 AddMem SYS_MEM SYS_MEM_CAP BsData WRITE_BACK_XN,
    region_row ''MPSS EFS'' 0x80600000 0x00100000 AddMem SYS_MEM SYS_MEM_CAP Reserv WRITE_BACK_XN,
    region_row ''AOP CMD DB'' 0x80860000 0x00020000 AddMem MEM_RES UNCACHEABLE Reserv UNCACHED_UNBUFFERED_XN,
    region_row ''SMEM'' 0x80900000 0x00200000 AddMem MEM_RES UNCACHEABLE Reserv UNCACHED_UNBUFFERED_XN,
    region_row ''TZApps Reserved'' 0x82400000 0x04a00000 HobOnlyNoCacheSetting MEM_RES UNCACHEABLE Reserv UNCACHED_UNBUFFERED_XN,
    region_row ''PIL Reserved'' 0x89200000 0x0d200000 AddMem MEM_RES UNCACHEABLE Reserv UNCACHED_UNBUFFERED_XN,
    region_row ''Sched Heap'' 0x9bc00000 0x00400000 AddMem SYS_MEM SYS_MEM_CAP BsData WRITE_BACK_XN,
    region_row ''Display Reserved'' 0x9c000000 0x02400000 AddMem MEM_RES SYS_MEM_CAP Reserv WRITE_THROUGH_XN,
    region_row ''DBI Dump'' 0x9e400000 0x00f00000 NoHob MMAP_IO INITIALIZED Conv UNCACHED_UNBUFFERED_XN,
    region_row ''FV Region'' 0x9f800000 0x00200000 AddMem SYS_MEM SYS_MEM_CAP BsData WRITE_BACK_XN,
    region_row ''ABOOT FV'' 0x9fa00000 0x00200000 AddMem SYS_MEM SYS_MEM_CAP Reserv WRITE_BACK_XN,
    region_row ''UEFI FD'' 0x9fc00000 0x00300000 AddMem SYS_MEM SYS_MEM_CAP BsData WRITE_BACK,
    region_row ''SEC Heap'' 0x9ff00000 0x0008c000 AddMem SYS_MEM SYS_MEM_CAP BsData WRITE_BACK_XN,
    region_row ''MMU PageTables'' 0x9ff8d000 0x00003000 AddMem SYS_MEM SYS_MEM_CAP BsData WRITE_BACK_XN,
    region_row ''UEFI Stack'' 0x9ff90000 0x00040000 AddMem SYS_MEM SYS_MEM_CAP BsData WRITE_BACK_XN,
    region_row ''Log Buffer'' 0x9fff7000 0x00008000 AddMem SYS_MEM SYS_MEM_CAP RtData WRITE_BACK_XN,
    region_row ''Info Blk'' 0x9ffff000 0x00001000 AddMem SYS_MEM SYS_MEM_CAP RtData WRITE_BACK_XN,
    region_row ''DXE Heap'' 0xa0000000 0x06400000 AddMem SYS_MEM SYS_MEM_CAP Conv WRITE_BACK_XN,
    region_row ''IMEM Base'' 0x14680000 0x00040000 NoHob MMAP_IO INITIALIZED Conv NS_DEVICE,
    region_row ''IMEM Cookie Base'' 0x146bf000 0x00001000 AddDev MMAP_IO INITIALIZED Conv NS_DEVICE,
    region_row ''IPC_ROUTER_TOP'' 0x00400000 0x00100000 AddDev MMAP_IO UNCACHEABLE MmIO NS_DEVICE,
    region_row ''SECURITY CONTROL'' 0x00780000 0x00007000 AddDev MMAP_IO UNCACHEABLE MmIO NS_DEVICE,
    region_row ''PRNG_CFG_PRNG'' 0x00790000 0x00010000 AddDev MMAP_IO UNCACHEABLE MmIO NS_DEVICE,
    region_row ''QUPV3_2_GSI'' 0x00800000 0x000d0000 AddDev MMAP_IO UNCACHEABLE MmIO NS_DEVICE,
    region_row ''QUPV3_0_GSI'' 0x00900000 0x000d0000 AddDev MMAP_IO UNCACHEABLE MmIO NS_DEVICE,
    region_row ''QUPV3_1_GSI'' 0x00a00000 0x000d0000 AddDev MMAP_IO UNCACHEABLE MmIO NS_DEVICE,
    region_row ''CRYPTO0 CRYPTO'' 0x01dc0000 0x00040000 AddDev MMAP_IO UNCACHEABLE MmIO NS_DEVICE,
    region_row ''TCSR_TCSR_REGS'' 0x01fc0000 0x00030000 AddDev MMAP_IO UNCACHEABLE MmIO NS_DEVICE,
    region_row ''GPU_GMU_CX_BLK'' 0x02c7d000 0x00002000 AddDev MMAP_IO UNCACHEABLE MmIO NS_DEVICE,
    region_row ''GPU_CC'' 0x02c90000 0x0000a000 AddDev MMAP_IO UNCACHEABLE MmIO NS_DEVICE,
    region_row ''QUPV3_SSC_GSI'' 0x05a00000 0x000d0000 AddDev MMAP_IO UNCACHEABLE MmIO NS_DEVICE,
    region_row ''PERIPH_SS'' 0x08800000 0x00200000 AddDev MMAP_IO UNCACHEABLE MmIO NS_DEVICE,
    region_row ''USB30_PRIM'' 0x0a600000 0x0011b000 AddDev MMAP_IO UNCACHEABLE MmIO NS_DEVICE,
    region_row ''USB_RUMI'' 0x0a720000 0x00010000 AddDev MMAP_IO UNCACHEABLE MmIO NS_DEVICE,
    region_row ''USB30_SEC'' 0x0a800000 0x0011b000 AddDev MMAP_IO UNCACHEABLE MmIO NS_DEVICE,
    region_row ''AOSS'' 0x0b000000 0x04000000 AddDev MMAP_IO UNCACHEABLE MmIO NS_DEVICE,
    region_row ''TLMM_WEST'' 0x0f100000 0x00300000 AddDev MMAP_IO UNCACHEABLE MmIO NS_DEVICE,
    region_row ''TLMM_SOUTH'' 0x0f500000 0x00300000 AddDev MMAP_IO UNCACHEABLE MmIO NS_DEVICE,
    region_row ''TLMM_NORTH'' 0x0f900000 0x00300000 AddDev MMAP_IO UNCACHEABLE MmIO NS_DEVICE,
    region_row ''SMMU'' 0x15000000 0x000d0000 AddDev MMAP_IO UNCACHEABLE MmIO NS_DEVICE,
    region_row ''APSS_HM'' 0x17800000 0x0d981000 AddDev MMAP_IO UNCACHEABLE MmIO NS_DEVICE]"

lemma ships_r8q: "ships True 0x80000000 gMemoryDescriptor_r8q"
  apply (rule shipsI_in_order)
  subgoal by (rule boot_regionsI(1); unfold gMemoryDescriptor_r8q_def; (rule lists_region_here | rule lists_region_skip)+)
  subgoal unfolding gMemoryDescriptor_r8q_def by (simp only: span_eval) simp
  done

definition platform_maps_3 :: "(string \<times> u64 \<times> region list) list" where
  "platform_maps_3 = [
    (''Samsung/b4q'', 0x80000000, gMemoryDescriptor_b4q),
    (''Samsung/b5q'', 0x80000000, gMemoryDescriptor_b5q),
    (''Samsung/beyond1lte'', 0x80000000, gMemoryDescriptor_beyond1lte),
    (''Samsung/c1s'', 0x80000000, gMemoryDescriptor_c1s),
    (''Samsung/dm2q'', 0x80000000, gMemoryDescriptor_dm2q),
    (''Samsung/dreamlte'', 0x80000000, gMemoryDescriptor_dreamlte),
    (''Samsung/e1s'', 0x80000000, gMemoryDescriptor_e1s),
    (''Samsung/gta4l'', 0x40000000, gMemoryDescriptor_gta4l),
    (''Samsung/gta9pwifi'', 0x80000000, gMemoryDescriptor_gta9pwifi),
    (''Samsung/gtaxllte'', 0x40000000, gMemoryDescriptor_gtaxllte),
    (''Samsung/gts8p'', 0x80000000, gMemoryDescriptor_gts8p),
    (''Samsung/gts9wifi'', 0x80000000, gMemoryDescriptor_gts9wifi),
    (''Samsung/q2q'', 0x80000000, gMemoryDescriptor_q2q),
    (''Samsung/r0q'', 0x80000000, gMemoryDescriptor_r0q),
    (''Samsung/r8q'', 0x80000000, gMemoryDescriptor_r8q)]"

end
