(* ===== verification/PlatformMaps4.thy ===== *)
theory PlatformMaps4
  imports PlatformMap
begin

text \<open>
  Memory maps of the platforms, one definition per \<open>gMemoryDescriptor\<close> array of
  \<open>src/Platforms/<vendor>/<name>Pkg/Library/MemoryMapLib/MemoryMapLib.c\<close>, each with the check of
  what the pre-DXE phase needs of it:

  \<^item> \<open>Samsung/r8sPkg\<close>;
  \<^item> \<open>Samsung/r9qb2Pkg\<close>;
  \<^item> \<open>Samsung/starltePkg\<close>;
  \<^item> \<open>Samsung/starqltechnPkg\<close>;
  \<^item> \<open>Samsung/x1sPkg\<close>;
  \<^item> \<open>Xiaomi/aliothPkg\<close>;
  \<^item> \<open>Xiaomi/annibalePkg\<close>;
  \<^item> \<open>Xiaomi/cepheusPkg\<close>;
  \<^item> \<open>Xiaomi/citrusPkg\<close>;
  \<^item> \<open>Xiaomi/equuleusPkg\<close>;
  \<^item> \<open>Xiaomi/fogPkg\<close>;
  \<^item> \<open>Xiaomi/garnetPkg\<close>;
  \<^item> \<open>Xiaomi/ginkgoPkg\<close>;
  \<^item> \<open>Xiaomi/ingresPkg\<close>;
  \<^item> \<open>Xiaomi/lancelotPkg\<close>.
\<close>

definition gMemoryDescriptor_r8s :: "region list" where
  "gMemoryDescriptor_r8s = [
    region_row ''EL2 Code'' 0x83c80000 0x00200000 AddMem SYS_MEM SYS_MEM_CAP Reserv WRITE_BACK,
    region_row ''UEFI FD'' 0xe8000000 0x00200000 AddMem SYS_MEM SYS_MEM_CAP BsData WRITE_BACK,
    region_row ''DXE Heap'' 0xe8200000 0x03c00000 AddMem SYS_MEM SYS_MEM_CAP Conv WRITE_BACK,
    region_row ''UEFI Stack'' 0xebe00000 0x00040000 AddMem SYS_MEM SYS_MEM_CAP BsData WRITE_BACK,
    region_row ''Display Reserved'' 0xf1000000 0x01194000 AddMem MEM_RES SYS_MEM_CAP Reserv WRITE_THROUGH,
    region_row ''RAM Partition'' 0xf2194000 0x00001000 AddMem SYS_MEM SYS_MEM_CAP Conv WRITE_BACK,
    region_row ''IRAM'' 0x02020000 0x00018000 AddDev MMAP_IO UNCACHEABLE MmIO DEVICE,
    region_row ''NS_IRAM'' 0x02038000 0x00039000 AddDev MMAP_IO UNCACHEABLE MmIO NS_DEVICE,
    region_row ''Chip Info'' 0x10000000 0x00001000 AddDev MMAP_IO UNCACHEABLE MmIO NS_DEVICE,
    region_row ''GICD'' 0x10101000 0x00001000 AddDev MMAP_IO UNCACHEABLE MmIO NS_DEVICE,
    region_row ''GICC'' 0x10102000 0x00001000 AddDev MMAP_IO UNCACHEABLE MmIO NS_DEVICE,
    region_row ''GICH'' 0x10104000 0x00002000 AddDev MMAP_IO UNCACHEABLE MmIO NS_DEVICE,
    region_row ''GICV'' 0x10106000 0x00002000 AddDev MMAP_IO UNCACHEABLE MmIO NS_DEVICE,
    region_row ''SYSREG PERIC0'' 0x10420000 0x00010000 AddDev MMAP_IO UNCACHEABLE MmIO NS_DEVICE,
    region_row ''SYSREG PERIC1'' 0x10720000 0x00010000 AddDev MMAP_IO UNCACHEABLE MmIO NS_DEVICE,
    region_row ''SYSREG HSI0'' 0x10a20000 0x00010000 AddDev MMAP_IO UNCACHEABLE MmIO NS_DEVICE,
    region_row ''SYSREG HSI1'' 0x13020000 0x00010000 AddDev MMAP_IO UNCACHEABLE MmIO NS_DEVICE,
    region_row ''UFS HCI'' 0x13100000 0x00010000 AddDev MMAP_IO UNCACHEABLE MmIO NS_DEVICE,
    region_row ''UFS UniPro'' 0x13180000 0x00001000 AddDev MMAP_IO UNCACHEABLE MmIO NS_DEVICE,
    region_row ''PMU'' 0x15860000 0x00004000 AddDev MMAP_IO UNCACHEABLE MmIO NS_DEVICE,
    region_row ''Decon'' 0x19050000 0x00010000 AddDev MMAP_IO UNCACHEABLE MmIO NS_DEVICE,
    region_row ''Clock Controller'' 0x1a330000 0x00008000 AddDev MMAP_IO UNCACHEABLE MmIO NS_DEVICE]"

lemma ships_r8s: "ships True 0x80000000 gMemoryDescriptor_r8s"
  apply (rule shipsI_in_order)
  subgoal by (rule boot_regionsI(1); unfold gMemoryDescriptor_r8s_def; (rule lists_region_here | rule lists_region_skip)+)
  subgoal unfolding gMemoryDescriptor_r8s_def by (simp only: span_eval) simp
  done

definition gMemoryDescriptor_r9qb2 :: "region list" where
  "gMemoryDescriptor_r9qb2 = [
    region_row ''HYP'' 0x80000000 0x00600000 AddMem SYS_MEM SYS_MEM_CAP Reserv WRITE_BACK_XN,
    region_row ''Axon DMA'' 0x80600000 0x00100000 AddMem SYS_MEM SYS_MEM_CAP Reserv WRITE_BACK_XN,
    region_row ''BOOT'' 0x80700000 0x00100000 AddMem MEM_RES SYS_MEM_CAP BsData WRITE_BACK_XN,
    region_row ''AOP CMD DB'' 0x80860000 0x00020000 AddMem MEM_RES UNCACHEABLE Reserv UNCACHED_UNBUFFERED_XN,
    region_row ''XBL Log Buffer'' 0x80884000 0x00010000 AddMem SYS_MEM SYS_MEM_CAP Reserv WRITE_BACK_XN,
    region_row ''SMEM'' 0x80900000 0x00200000 AddMem MEM_RES UNCACHEABLE Reserv UNCACHED_UNBUFFERED_XN,
    region_row ''PIL Reserved'' 0x85200000 0x16600000 AddMem MEM_RES UNCACHEABLE Reserv UNCACHED_UNBUFFERED_XN,
    region_row ''DXE Heap'' 0x9b800000 0x03c00000 AddMem SYS_MEM SYS_MEM_CAP Conv WRITE_BACK_XN,
    region_row ''Sched Heap'' 0x9f400000 0x00400000 AddMem SYS_MEM SYS_MEM_CAP BsData WRITE_BACK_XN,
    region_row ''FV Region'' 0x9f800000 0x00200000 AddMem SYS_MEM SYS_MEM_CAP BsData WRITE_BACK_XN,
    region_row ''ABOOT FV'' 0x9fa00000 0x00200000 AddMem SYS_MEM SYS_MEM_CAP Reserv WRITE_BACK_XN,
    region_row ''FD Reserved'' 0x9fc00000 0x00100000 AddMem SYS_MEM SYS_MEM_CAP BsData WRITE_BACK,
    region_row ''UEFI FD'' 0x9fd00000 0x00200000 AddMem SYS_MEM SYS_MEM_CAP BsData WRITE_BACK,
    region_row ''SEC Heap'' 0x9ff00000 0x0008c000 AddMem SYS_MEM SYS_MEM_CAP BsData WRITE_BACK_XN,
    region_row ''MMU PageTables'' 0x9ff8d000 0x00003000 AddMem SYS_MEM SYS_MEM_CAP BsData WRITE_BACK_XN,
    region_row ''UEFI Stack'' 0x9ff90000 0x00040000 AddMem SYS_MEM SYS_MEM_CAP BsData WRITE_BACK_XN,
    region_row ''Log Buffer'' 0x9fff7000 0x00008000 AddMem SYS_MEM SYS_MEM_CAP RtData WRITE_BACK_XN,
    region_row ''Info Blk'' 0x9ffff000 0x00001000 AddMem SYS_MEM SYS_MEM_CAP RtData WRITE_BACK_XN,
    region_row ''Kernel'' 0xa0000000 0x10000000 AddMem SYS_MEM SYS_MEM_CAP Reserv WRITE_BACK_XN,
    region_row ''SOD Test'' 0xc0000000 0x0a100000 AddMem SYS_MEM SYS_MEM_CAP Reserv WRITE_BACK_XN,
    region_row ''Guest VM'' 0xd0000000 0x08800000 AddMem SYS_MEM SYS_MEM_CAP Reserv WRITE_BACK_XN,
    region_row ''TZApps Reserved'' 0xda000000 0x06000000 HobOnlyNoCacheSetting MEM_RES UNCACHEABLE Reserv UNCACHED_UNBUFFERED_XN,
    region_row ''DBI Dump'' 0xe3100000 0x00f00000 NoHob MMAP_IO INITIALIZED Conv UNCACHED_UNBUFFERED_XN,
    region_row ''Display Reserved'' 0xe4000000 0x02400000 AddMem MEM_RES SYS_MEM_CAP Reserv WRITE_THROUGH_XN,
    region_row ''IMEM Base'' 0x14680000 0x00040000 NoHob MMAP_IO INITIALIZED Conv NS_DEVICE,
    region_row ''IMEM Cookie Base'' 0x146bf000 0x00001000 AddDev MMAP_IO INITIALIZED Conv NS_DEVICE,
    region_row ''IPC_ROUTER_TOP'' 0x00400000 0x00100000 AddDev MMAP_IO UNCACHEABLE MmIO NS_DEVICE,
    region_row ''SECURITY CONTROL'' 0x00780000 0x00007000 AddDev MMAP_IO UNCACHEABLE MmIO NS_DEVICE,
    region_row ''QUP'' 0x00800000 0x00300000 AddDev MMAP_IO UNCACHEABLE MmIO NS_DEVICE,
    region_row ''PRNG_CFG_PRNG'' 0x010d0000 0x00010000 AddDev MMAP_IO UNCACHEABLE MmIO NS_DEVICE,
    region_row ''TCSR_TCSR_REGS'' 0x01fc0000 0x00030000 AddDev MMAP_IO UNCACHEABLE MmIO NS_DEVICE,
    region_row ''PERIPH_SS'' 0x08800000 0x00200000 AddDev MMAP_IO UNCACHEABLE MmIO NS_DEVICE,
    region_row ''USB'' 0x0a600000 0x04000000 AddDev MMAP_IO UNCACHEABLE MmIO NS_DEVICE,
    region_row ''AOSS'' 0x0b000000 0x04000000 AddDev MMAP_IO UNCACHEABLE MmIO NS_DEVICE,
    region_row ''TLMM_WEST'' 0x0f100000 0x00300000 AddDev MMAP_IO UNCACHEABLE MmIO NS_DEVICE,
    region_row ''TLMM_SOUTH'' 0x0f500000 0x00300000 AddDev MMAP_IO UNCACHEABLE MmIO NS_DEVICE,
    region_row ''TLMM_NORTH'' 0x0f900000 0x00300000 AddDev MMAP_IO UNCACHEABLE MmIO NS_DEVICE,
    region_row ''SMMU'' 0x15000000 0x000d0000 AddDev MMAP_IO UNCACHEABLE MmIO NS_DEVICE,
    region_row ''APSS_HM'' 0x17800000 0x00d99000 AddDev MMAP_IO UNCACHEABLE MmIO NS_DEVICE]"

lemma ships_r9qb2: "ships True 0x80000000 gMemoryDescriptor_r9qb2"
  apply (rule shipsI_in_order)
  subgoal by (rule boot_regionsI(1); unfold gMemoryDescriptor_r9qb2_def; (rule lists_region_here | rule lists_region_skip)+)
  subgoal unfolding gMemoryDescriptor_r9qb2_def by (simp only: span_eval) simp
  done

definition gMemoryDescriptor_starlte :: "region list" where
  "gMemoryDescriptor_starlte = [
    region_row ''UEFI FD'' 0x8f000000 0x00200000 AddMem SYS_MEM SYS_MEM_CAP BsData WRITE_BACK,
    region_row ''UEFI Stack'' 0x8f200000 0x00040000 AddMem SYS_MEM SYS_MEM_CAP BsData WRITE_BACK,
    region_row ''DXE Heap'' 0x8f240000 0x03c00000 AddMem SYS_MEM SYS_MEM_CAP Conv WRITE_BACK,
    region_row ''Display Reserved'' 0xcc000000 0x01043000 AddMem MEM_RES SYS_MEM_CAP Reserv WRITE_THROUGH,
    region_row ''Secure Camera'' 0xe1900000 0x01e00000 AddMem SYS_MEM SYS_MEM_CAP Reserv WRITE_BACK,
    region_row ''IRAM'' 0x02020000 0x00018000 AddDev MMAP_IO UNCACHEABLE MmIO DEVICE,
    region_row ''NS_IRAM'' 0x02038000 0x00021000 AddDev MMAP_IO UNCACHEABLE MmIO NS_DEVICE,
    region_row ''Chip Info'' 0x10000000 0x00001000 AddDev MMAP_IO UNCACHEABLE MmIO NS_DEVICE,
    region_row ''GICD'' 0x10101000 0x00001000 AddDev MMAP_IO UNCACHEABLE MmIO NS_DEVICE,
    region_row ''GICC'' 0x10102000 0x00001000 AddDev MMAP_IO UNCACHEABLE MmIO NS_DEVICE,
    region_row ''GICH'' 0x10104000 0x00002000 AddDev MMAP_IO UNCACHEABLE MmIO NS_DEVICE,
    region_row ''GICV'' 0x10106000 0x00002000 AddDev MMAP_IO UNCACHEABLE MmIO NS_DEVICE,
    region_row ''SYSREG FSYS0'' 0x11010000 0x00001000 AddDev MMAP_IO UNCACHEABLE MmIO NS_DEVICE,
    region_row ''UFS HCI'' 0x11120000 0x00010000 AddDev MMAP_IO UNCACHEABLE MmIO NS_DEVICE,
    region_row ''UFS UniPro'' 0x11130000 0x00008000 AddDev MMAP_IO UNCACHEABLE MmIO NS_DEVICE,
    region_row ''PMU'' 0x14060000 0x00010000 AddDev MMAP_IO UNCACHEABLE MmIO NS_DEVICE,
    region_row ''Clock Controller'' 0x1a240000 0x00002000 AddDev MMAP_IO UNCACHEABLE MmIO NS_DEVICE,
    region_row ''Decon'' 0x16030000 0x00010000 AddDev MMAP_IO UNCACHEABLE MmIO NS_DEVICE]"

lemma ships_starlte: "ships True 0x80000000 gMemoryDescriptor_starlte"
  apply (rule shipsI_in_order)
  subgoal by (rule boot_regionsI(1); unfold gMemoryDescriptor_starlte_def; (rule lists_region_here | rule lists_region_skip)+)
  subgoal unfolding gMemoryDescriptor_starlte_def by (simp only: span_eval) simp
  done

definition gMemoryDescriptor_starqltechn :: "region list" where
  "gMemoryDescriptor_starqltechn = [
    region_row ''Kernel'' 0x80000000 0x05700000 AddMem SYS_MEM SYS_MEM_CAP Reserv WRITE_BACK_XN,
    region_row ''AOP CMD DB'' 0x85fe0000 0x00020000 AddMem SYS_MEM SYS_MEM_CAP BsData WRITE_BACK_XN,
    region_row ''SMEM'' 0x86000000 0x00200000 AddMem MEM_RES UNCACHEABLE Reserv UNCACHED_UNBUFFERED_XN,
    region_row ''DXE Heap'' 0x96200000 0x07130000 AddMem SYS_MEM SYS_MEM_CAP Conv WRITE_BACK_XN,
    region_row ''DBI Dump'' 0x9d330000 0x000d0000 NoHob MMAP_IO INITIALIZED Conv NS_DEVICE,
    region_row ''Display Reserved'' 0x9d400000 0x02400000 AddMem MEM_RES SYS_MEM_CAP Reserv WRITE_THROUGH_XN,
    region_row ''FV Region'' 0x9f800000 0x00200000 AddMem SYS_MEM SYS_MEM_CAP BsData WRITE_BACK_XN,
    region_row ''ABOOT FV'' 0x9fa00000 0x00200000 AddMem SYS_MEM SYS_MEM_CAP Reserv WRITE_BACK_XN,
    region_row ''UEFI FD'' 0x9fc00000 0x00300000 AddMem SYS_MEM SYS_MEM_CAP BsData WRITE_BACK,
    region_row ''SEC Heap'' 0x9ff00000 0x0008c000 AddMem SYS_MEM SYS_MEM_CAP BsData WRITE_BACK_XN,
    region_row ''MMU PageTables'' 0x9ff8d000 0x00003000 AddMem SYS_MEM SYS_MEM_CAP BsData WRITE_BACK_XN,
    region_row ''UEFI Stack'' 0x9ff90000 0x00040000 AddMem SYS_MEM SYS_MEM_CAP BsData WRITE_BACK_XN,
    region_row ''Log Buffer'' 0x9fff7000 0x00008000 AddMem SYS_MEM SYS_MEM_CAP RtData WRITE_BACK_XN,
    region_row ''Info Blk'' 0x9ffff000 0x00001000 AddMem SYS_MEM SYS_MEM_CAP RtData WRITE_BACK_XN,
    region_row ''SEC Debug'' 0xa1400000 0x00400000 AddMem SYS_MEM UNCACHEABLE Reserv UNCACHED_UNBUFFERED_XN,
    region_row ''AOP_SS_MSG_RAM'' 0x0c300000 0x00100000 NoHob MMAP_IO INITIALIZED Conv NS_DEVICE,
    region_row ''IMEM Base'' 0x14680000 0x0003f000 NoHob MMAP_IO INITIALIZED Conv NS_DEVICE,
    region_row ''IMEM Cookie Base'' 0x146bf000 0x00001000 AddDev MMAP_IO INITIALIZED Conv NS_DEVICE,
    region_row ''GCC CLK CTL'' 0x00100000 0x000b0000 AddDev MMAP_IO UNCACHEABLE MmIO NS_DEVICE,
    region_row ''SECURITY CONTROL'' 0x00780000 0x00007000 AddDev MMAP_IO UNCACHEABLE MmIO NS_DEVICE,
    region_row ''PRNG_CFG_PRNG'' 0x00790000 0x00010000 AddDev MMAP_IO UNCACHEABLE MmIO NS_DEVICE,
    region_row ''QUPV3_0_GSI'' 0x00800000 0x000d0000 AddDev MMAP_IO UNCACHEABLE MmIO NS_DEVICE,
    region_row ''QUPV3_1_GSI'' 0x00a00000 0x000d0000 AddDev MMAP_IO UNCACHEABLE MmIO NS_DEVICE,
    region_row ''UFS UFS REGS'' 0x01d80000 0x00020000 AddDev MMAP_IO UNCACHEABLE MmIO NS_DEVICE,
    region_row ''CRYPTO0 CRYPTO'' 0x01dc0000 0x00040000 AddDev MMAP_IO UNCACHEABLE MmIO NS_DEVICE,
    region_row ''TCSR_TCSR_REGS'' 0x01fc0000 0x00030000 AddDev MMAP_IO UNCACHEABLE MmIO NS_DEVICE,
    region_row ''TLMM_EAST'' 0x03500000 0x00300000 AddDev MMAP_IO UNCACHEABLE MmIO NS_DEVICE,
    region_row ''TLMM_NORTH'' 0x03900000 0x00300000 AddDev MMAP_IO UNCACHEABLE MmIO NS_DEVICE,
    region_row ''TLMM_SOUTH'' 0x03d00000 0x00300000 AddDev MMAP_IO UNCACHEABLE MmIO NS_DEVICE,
    region_row ''GPU_CPR'' 0x0509a000 0x00004000 AddDev MMAP_IO UNCACHEABLE MmIO NS_DEVICE,
    region_row ''RPMH_CPRF'' 0x0c200000 0x0000f000 AddDev MMAP_IO UNCACHEABLE MmIO NS_DEVICE,
    region_row ''GPU_GMU_GX_BLK'' 0x0506a000 0x00001000 AddDev MMAP_IO UNCACHEABLE MmIO NS_DEVICE,
    region_row ''GPU_GMU_CX_BLK'' 0x0507d000 0x0000c000 AddDev MMAP_IO UNCACHEABLE MmIO NS_DEVICE,
    region_row ''GPU_CC'' 0x05090000 0x00010000 AddDev MMAP_IO UNCACHEABLE MmIO NS_DEVICE,
    region_row ''GPU_ISENSE'' 0x0508b000 0x00002000 AddDev MMAP_IO UNCACHEABLE MmIO NS_DEVICE,
    region_row ''QUPV3_SSC_GSI'' 0x05a00000 0x000d0000 AddDev MMAP_IO UNCACHEABLE MmIO NS_DEVICE,
    region_row ''PERIPH_SS'' 0x08800000 0x00200000 AddDev MMAP_IO UNCACHEABLE MmIO NS_DEVICE,
    region_row ''USB30_PRIM'' 0x0a600000 0x0011b000 AddDev MMAP_IO UNCACHEABLE MmIO NS_DEVICE,
    region_row ''VIDEO_CC'' 0x0ab00000 0x00010000 AddDev MMAP_IO UNCACHEABLE MmIO NS_DEVICE,
    region_row ''TITAN_CAM_CC'' 0x0ad00000 0x00010000 AddDev MMAP_IO UNCACHEABLE MmIO NS_DEVICE,
    region_row ''MDSS'' 0x0ae00000 0x00134000 AddDev MMAP_IO UNCACHEABLE MmIO NS_DEVICE,
    region_row ''DISP_CC'' 0x0af00000 0x00020000 AddDev MMAP_IO UNCACHEABLE MmIO NS_DEVICE,
    region_row ''PDC_DISPLAY'' 0x0b290000 0x00010000 AddDev MMAP_IO UNCACHEABLE MmIO NS_DEVICE,
    region_row ''PDC_DISP_SEQ'' 0x0b490000 0x00010000 AddDev MMAP_IO UNCACHEABLE MmIO NS_DEVICE,
    region_row ''RPMH_BCM_BCM_TOP'' 0x0ba00000 0x00200000 AddDev MMAP_IO UNCACHEABLE MmIO NS_DEVICE,
    region_row ''SLP_CNTR'' 0x0c221000 0x00001000 AddDev MMAP_IO UNCACHEABLE MmIO NS_DEVICE,
    region_row ''TSENS0'' 0x0c222000 0x00001000 AddDev MMAP_IO UNCACHEABLE MmIO NS_DEVICE,
    region_row ''TSENS1'' 0x0c223000 0x00001000 AddDev MMAP_IO UNCACHEABLE MmIO NS_DEVICE,
    region_row ''TSENS0_TM'' 0x0c263000 0x00001000 AddDev MMAP_IO UNCACHEABLE MmIO NS_DEVICE,
    region_row ''PSHOLD'' 0x0c264000 0x00001000 AddDev MMAP_IO UNCACHEABLE MmIO NS_DEVICE,
    region_row ''TSENS1_TM'' 0x0c265000 0x00001000 AddDev MMAP_IO UNCACHEABLE MmIO NS_DEVICE,
    region_row ''PMIC_ARB_SPMI'' 0x0c400000 0x02800000 AddDev MMAP_IO UNCACHEABLE MmIO NS_DEVICE,
    region_row ''SMMU'' 0x15000000 0x000d0000 AddDev MMAP_IO UNCACHEABLE MmIO NS_DEVICE,
    region_row ''GOLD_SAW4_SRM'' 0x17830000 0x00001000 AddDev MMAP_IO UNCACHEABLE MmIO NS_DEVICE,
    region_row ''SILVER_SAW4_SRM'' 0x17840000 0x00001000 AddDev MMAP_IO UNCACHEABLE MmIO NS_DEVICE,
    region_row ''GOLD_CLK_CTL'' 0x178b0000 0x00001000 AddDev MMAP_IO UNCACHEABLE MmIO NS_DEVICE,
    region_row ''SILVER_CLK_CTL'' 0x178c0000 0x00001000 AddDev MMAP_IO UNCACHEABLE MmIO NS_DEVICE,
    region_row ''L3_CLK_CTL'' 0x178d0000 0x00001000 AddDev MMAP_IO UNCACHEABLE MmIO NS_DEVICE,
    region_row ''APSS_WDT_TMR1'' 0x17980000 0x00001000 AddDev MMAP_IO UNCACHEABLE MmIO NS_DEVICE,
    region_row ''APSS_IPC_INT'' 0x17990000 0x00001000 AddDev MMAP_IO UNCACHEABLE MmIO NS_DEVICE,
    region_row ''APSS_RSC_RSCCR'' 0x179c0000 0x00030000 AddDev MMAP_IO UNCACHEABLE MmIO NS_DEVICE,
    region_row ''APSS_GIC500_GICD'' 0x17a00000 0x00010000 AddDev MMAP_IO UNCACHEABLE MmIO NS_DEVICE,
    region_row ''APSS_GIC500_GICR'' 0x17a60000 0x00100000 AddDev MMAP_IO UNCACHEABLE MmIO NS_DEVICE,
    region_row ''QTIMER'' 0x17c00000 0x00110000 AddDev MMAP_IO UNCACHEABLE MmIO NS_DEVICE,
    region_row ''OSM'' 0x17d20000 0x000b0000 AddDev MMAP_IO UNCACHEABLE MmIO NS_DEVICE]"

lemma ships_starqltechn: "ships True 0x80000000 gMemoryDescriptor_starqltechn"
  apply (rule shipsI_in_order)
  subgoal by (rule boot_regionsI(1); unfold gMemoryDescriptor_starqltechn_def; (rule lists_region_here | rule lists_region_skip)+)
  subgoal unfolding gMemoryDescriptor_starqltechn_def by (simp only: span_eval) simp
  done

definition gMemoryDescriptor_x1s :: "region list" where
  "gMemoryDescriptor_x1s = [
    region_row ''EL2 Code'' 0x83c80000 0x00200000 AddMem SYS_MEM SYS_MEM_CAP Reserv WRITE_BACK,
    region_row ''EL2 Code'' 0xc1400000 0x00200000 AddMem SYS_MEM SYS_MEM_CAP Reserv WRITE_BACK,
    region_row ''S2MPU Table'' 0xc1800000 0x00300000 AddMem SYS_MEM SYS_MEM_CAP Reserv WRITE_BACK,
    region_row ''UEFI FD'' 0xe8000000 0x00200000 AddMem SYS_MEM SYS_MEM_CAP BsData WRITE_BACK,
    region_row ''DXE Heap'' 0xe8200000 0x03c00000 AddMem SYS_MEM SYS_MEM_CAP Conv WRITE_BACK,
    region_row ''UEFI Stack'' 0xebe00000 0x00040000 AddMem SYS_MEM SYS_MEM_CAP BsData WRITE_BACK,
    region_row ''Display Reserved'' 0xf1000000 0x01194000 AddMem MEM_RES SYS_MEM_CAP Reserv WRITE_THROUGH,
    region_row ''RAM Partition'' 0xf2194000 0x00001000 AddMem SYS_MEM SYS_MEM_CAP Conv WRITE_BACK,
    region_row ''EL2 Early Memory'' 0xafe800000 0x01800000 AddMem SYS_MEM SYS_MEM_CAP Reserv WRITE_BACK,
    region_row ''IRAM'' 0x02020000 0x00018000 AddDev MMAP_IO UNCACHEABLE MmIO DEVICE,
    region_row ''NS_IRAM'' 0x02038000 0x00039000 AddDev MMAP_IO UNCACHEABLE MmIO NS_DEVICE,
    region_row ''Chip Info'' 0x10000000 0x00001000 AddDev MMAP_IO UNCACHEABLE MmIO NS_DEVICE,
    region_row ''GICD'' 0x10101000 0x00001000 AddDev MMAP_IO UNCACHEABLE MmIO NS_DEVICE,
    region_row ''GICC'' 0x10102000 0x00001000 AddDev MMAP_IO UNCACHEABLE MmIO NS_DEVICE,
    region_row ''GICH'' 0x10104000 0x00002000 AddDev MMAP_IO UNCACHEABLE MmIO NS_DEVICE,
    region_row ''GICV'' 0x10106000 0x00002000 AddDev MMAP_IO UNCACHEABLE MmIO NS_DEVICE,
    region_row ''SYSREG PERIC0'' 0x10420000 0x00010000 AddDev MMAP_IO UNCACHEABLE MmIO NS_DEVICE,
    region_row ''SYSREG PERIC1'' 0x10720000 0x00010000 AddDev MMAP_IO UNCACHEABLE MmIO NS_DEVICE,
    region_row ''SYSREG HSI0'' 0x10a20000 0x00010000 AddDev MMAP_IO UNCACHEABLE MmIO NS_DEVICE,
    region_row ''USB DRD PHY'' 0x10c00000 0x00001000 AddDev MMAP_IO UNCACHEABLE MmIO NS_DEVICE,
    region_row ''USB DRD Link'' 0x10e00000 0x00010000 AddDev MMAP_IO UNCACHEABLE MmIO NS_DEVICE,
    region_row ''CMU HSI1'' 0x13000000 0x00008000 AddDev MMAP_IO UNCACHEABLE MmIO NS_DEVICE,
    region_row ''SYSREG HSI1'' 0x13020000 0x00010000 AddDev MMAP_IO UNCACHEABLE MmIO NS_DEVICE,
    region_row ''UFS HCI'' 0x13100000 0x00010000 AddDev MMAP_IO UNCACHEABLE MmIO NS_DEVICE,
    region_row ''MSHC'' 0x132e0000 0x00002000 AddDev MMAP_IO UNCACHEABLE MmIO NS_DEVICE,
    region_row ''UFS UniPro'' 0x13180000 0x00008000 AddDev MMAP_IO UNCACHEABLE MmIO NS_DEVICE,
    region_row ''PMU'' 0x15860000 0x00004000 AddDev MMAP_IO UNCACHEABLE MmIO NS_DEVICE,
    region_row ''SYSREG CMGP'' 0x15c20000 0x00010000 AddDev MMAP_IO UNCACHEABLE MmIO NS_DEVICE,
    region_row ''Decon'' 0x19050000 0x00010000 AddDev MMAP_IO UNCACHEABLE MmIO NS_DEVICE,
    region_row ''Clock Controller'' 0x1a330000 0x00008000 AddDev MMAP_IO UNCACHEABLE MmIO NS_DEVICE]"

lemma ships_x1s: "ships True 0x80000000 gMemoryDescriptor_x1s"
  apply (rule shipsI_in_order)
  subgoal by (rule boot_regionsI(1); unfold gMemoryDescriptor_x1s_def; (rule lists_region_here | rule lists_region_skip)+)
  subgoal unfolding gMemoryDescriptor_x1s_def by (simp only: span_eval) simp
  done

definition gMemoryDescriptor_alioth :: "region list" where
  "gMemoryDescriptor_alioth = [
    region_row ''HYP'' 0x80000000 0x00600000 AddMem MEM_RES SYS_MEM_CAP Reserv NS_DEVICE,
    region_row ''AOP CMD DB'' 0x80860000 0x00020000 AddMem MEM_RES UNCACHEABLE Reserv UNCACHED_UNBUFFERED_XN,
    region_row ''GPU PRR'' 0x80880000 0x00010000 AddMem MEM_RES WRITE_COMBINEABLE Reserv UNCACHED_UNBUFFERED_XN,
    region_row ''SMEM'' 0x80900000 0x00200000 AddMem MEM_RES UNCACHEABLE Reserv UNCACHED_UNBUFFERED_XN,
    region_row ''QTEE'' 0x80b00000 0x01900000 AddMem MEM_RES UNCACHEABLE Reserv UNCACHED_UNBUFFERED_XN,
    region_row ''TZApps'' 0x82400000 0x03a00000 AddMem MEM_RES UNCACHEABLE Reserv UNCACHED_UNBUFFERED_XN,
    region_row ''PIL Reserved'' 0x86200000 0x0c500000 AddMem MEM_RES UNCACHEABLE Reserv UNCACHED_UNBUFFERED_XN,
    region_row ''ADSP RPC'' 0x92700000 0x00800000 AddMem MEM_RES UNCACHEABLE Reserv UNCACHED_UNBUFFERED_XN,
    region_row ''DXE Heap'' 0x98900000 0x03300000 AddMem SYS_MEM SYS_MEM_CAP Conv WRITE_BACK_XN,
    region_row ''Display Reserved'' 0x9c000000 0x02400000 AddMem MEM_RES SYS_MEM_CAP Reserv WRITE_THROUGH_XN,
    region_row ''UEFI FD'' 0x9fc00000 0x00300000 AddMem SYS_MEM SYS_MEM_CAP BsData WRITE_BACK,
    region_row ''UEFI Stack'' 0x9ff90000 0x00040000 AddMem SYS_MEM SYS_MEM_CAP BsData WRITE_BACK_XN,
    region_row ''Info Blk'' 0x9ffff000 0x00001000 AddMem SYS_MEM SYS_MEM_CAP RtData WRITE_BACK_XN,
    region_row ''IMEM Base'' 0x14680000 0x00040000 NoHob MMAP_IO INITIALIZED Conv NS_DEVICE,
    region_row ''IMEM Cookie Base'' 0x146bf000 0x00001000 AddDev MMAP_IO INITIALIZED Conv NS_DEVICE,
    region_row ''IPC_ROUTER_TOP'' 0x00400000 0x00100000 AddDev MMAP_IO UNCACHEABLE MmIO NS_DEVICE,
    region_row ''SECURITY CONTROL'' 0x00780000 0x00007000 AddDev MMAP_IO UNCACHEABLE MmIO NS_DEVICE,
    region_row ''PRNG_CFG_PRNG'' 0x00790000 0x00010000 AddDev MMAP_IO UNCACHEABLE MmIO NS_DEVICE,
    region_row ''QUPV3_2_GSI'' 0x00800000 0x000d0000 AddDev MMAP_IO UNCACHEABLE MmIO NS_DEVICE,
    region_row ''QUPV3_0_GSI'' 0x00900000 0x000d0000 AddDev MMAP_IO UNCACHEABLE MmIO NS_DEVICE,
    region_row ''QUPV3_1_GSI'' 0x00a00000 0x000d0000 AddDev MMAP_IO UNCACHEABLE MmIO NS_DEVICE,
    region_row ''CRYPTO0 CRYPTO'' 0x01dc0000 0x00040000 AddDev MMAP_IO UNCACHEABLE MmIO NS_DEVICE,
    region_row ''TCSR_TCSR_REGS'' 0x01fc0000 0x00030000 AddDev MMAP_IO UNCACHEABLE MmIO NS_DEVICE,
    region_row ''GPU_GMU_CX_BLK'' 0x02c7d000 0x00002000 AddDev MMAP_IO UNCACHEABLE MmIO NS_DEVICE,
    region_row ''GPU_CC'' 0x02c90000 0x0000a000 AddDev MMAP_IO UNCACHEABLE MmIO NS_DEVICE,
    region_row ''QUPV3_SSC_GSI'' 0x05a00000 0x000d0000 AddDev MMAP_IO UNCACHEABLE MmIO NS_DEVICE,
    region_row ''PERIPH_SS'' 0x08800000 0x00200000 AddDev MMAP_IO UNCACHEABLE MmIO NS_DEVICE,
    region_row ''USB30_PRIM'' 0x0a600000 0x0011b000 AddDev MMAP_IO UNCACHEABLE MmIO NS_DEVICE,
    region_row ''USB_RUMI'' 0x0a720000 0x00010000 AddDev MMAP_IO UNCACHEABLE MmIO NS_DEVICE,
    region_row ''USB30_SEC'' 0x0a800000 0x0011b000 AddDev MMAP_IO UNCACHEABLE MmIO NS_DEVICE,
    region_row ''AOSS'' 0x0b000000 0x04000000 AddDev MMAP_IO UNCACHEABLE MmIO NS_DEVICE,
    region_row ''TLMM_WEST'' 0x0f100000 0x00300000 AddDev MMAP_IO UNCACHEABLE MmIO NS_DEVICE,
    region_row ''TLMM_SOUTH'' 0x0f500000 0x00300000 AddDev MMAP_IO UNCACHEABLE MmIO NS_DEVICE,
    region_row ''TLMM_NORTH'' 0x0f900000 0x00300000 AddDev MMAP_IO UNCACHEABLE MmIO NS_DEVICE,
    region_row ''SMMU'' 0x15000000 0x000d0000 AddDev MMAP_IO UNCACHEABLE MmIO NS_DEVICE,
    region_row ''APSS_HM'' 0x17800000 0x0d981000 AddDev MMAP_IO UNCACHEABLE MmIO NS_DEVICE]"

lemma ships_alioth: "ships True 0x80000000 gMemoryDescriptor_alioth"
  apply (rule shipsI_in_order)
  subgoal by (rule boot_regionsI(1); unfold gMemoryDescriptor_alioth_def; (rule lists_region_here | rule lists_region_skip)+)
  subgoal unfolding gMemoryDescriptor_alioth_def by (simp only: span_eval) simp
  done

definition gMemoryDescriptor_annibale :: "region list" where
  "gMemoryDescriptor_annibale = [
    region_row ''RSRV0'' 0x81960000 0x000a0000 AddMem SYS_MEM SYS_MEM_CAP Reserv WRITE_BACK_XN,
    region_row ''XBL_DT'' 0x81a00000 0x00040000 AddMem MEM_RES SYS_MEM_CAP Reserv WRITE_BACK_XN,
    region_row ''AOP'' 0x81c00000 0x000a0000 AddMem MEM_RES UNCACHEABLE Reserv UNCACHED_UNBUFFERED_XN,
    region_row ''UEFI_Log'' 0x81ce4000 0x00010000 AddMem MEM_RES UNCACHEABLE Reserv UNCACHED_UNBUFFERED_XN,
    region_row ''SMEM'' 0x81d00000 0x00200000 AddMem MEM_RES UNCACHEABLE Reserv UNCACHED_UNBUFFERED_XN,
    region_row ''PDP_NS'' 0x81f00000 0x00100000 AddMem MEM_RES UNCACHEABLE Reserv NS_DEVICE,
    region_row ''PvmFw'' 0x824a0000 0x00100000 AddMem SYS_MEM SYS_MEM_CAP Reserv WRITE_BACK_XN,
    region_row ''Global_SYNC'' 0x82600000 0x00100000 AddMem MEM_RES UNCACHEABLE Reserv UNCACHED_UNBUFFERED_XN,
    region_row ''PIL_Reserved'' 0x89e00000 0x19700000 AddMem MEM_RES UNCACHEABLE Reserv UNCACHED_UNBUFFERED_XN,
    region_row ''Display_Demura'' 0xa3500000 0x02c80000 AddMem MEM_RES SYS_MEM_CAP Reserv WRITE_THROUGH_XN,
    region_row ''FD_Reserved'' 0xa7000000 0x00100000 AddMem SYS_MEM SYS_MEM_CAP BsData WRITE_BACK,
    region_row ''UEFI_FD'' 0xa7100000 0x00300000 AddMem SYS_MEM SYS_MEM_CAP BsData WRITE_BACK,
    region_row ''UEFI_FD_Reserved'' 0xa7400000 0x00200000 AddMem SYS_MEM SYS_MEM_CAP BsData WRITE_BACK,
    region_row ''Info_Blk'' 0xa7601000 0x00001000 AddMem SYS_MEM SYS_MEM_CAP RtData WRITE_BACK_XN,
    region_row ''MMU_PageTables'' 0xa7602000 0x00003000 AddMem SYS_MEM SYS_MEM_CAP BsData WRITE_BACK_XN,
    region_row ''Log_Buffer'' 0xa7605000 0x00008000 AddMem SYS_MEM SYS_MEM_CAP RtData WRITE_BACK_XN,
    region_row ''UEFI_Stack'' 0xa760d000 0x00040000 AddMem SYS_MEM SYS_MEM_CAP BsData WRITE_BACK_XN,
    region_row ''SEC_Heap'' 0xa764d000 0x0008c000 AddMem SYS_MEM SYS_MEM_CAP BsData WRITE_BACK_XN,
    region_row ''Sched_Heap'' 0xa76d9000 0x00400000 AddMem SYS_MEM SYS_MEM_CAP BsData WRITE_BACK_XN,
    region_row ''FV_Region'' 0xa7ad9000 0x00400000 AddMem SYS_MEM SYS_MEM_CAP BsData WRITE_BACK_XN,
    region_row ''UEFI_RESV'' 0xa7ed9000 0x00127000 AddMem SYS_MEM SYS_MEM_CAP BsData WRITE_BACK_XN,
    region_row ''Kernel'' 0xa8000000 0x10000000 AddMem SYS_MEM SYS_MEM_CAP Reserv WRITE_BACK_XN,
    region_row ''XBL_Ramdump'' 0xb8000000 0x001c0000 AddMem MEM_RES UNCACHEABLE Reserv UNCACHED_UNBUFFERED_XN,
    region_row ''DBI_Dump'' 0xb81c0000 0x05770000 NoHob MMAP_IO INITIALIZED Conv UNCACHED_UNBUFFERED_XN,
    region_row ''DXE_Heap'' 0xbd930000 0x1a6d0000 AddMem SYS_MEM SYS_MEM_CAP Conv WRITE_BACK_XN,
    region_row ''Display_Reserved'' 0xfc800000 0x02b00000 AddMem MEM_RES SYS_MEM_CAP Reserv WRITE_THROUGH_XN,
    region_row ''IMEM_Base'' 0x14680000 0x0002a000 NoHob MMAP_IO INITIALIZED Conv NS_DEVICE,
    region_row ''IMEM_Cookie_Base'' 0x146aa000 0x00016000 AddDev MMAP_IO INITIALIZED Conv NS_DEVICE,
    region_row ''IPC_ROUTER_TOP'' 0x00400000 0x00100000 AddDev MMAP_IO UNCACHEABLE MmIO NS_DEVICE,
    region_row ''SECURITY_CONTROL'' 0x00780000 0x00007000 AddDev MMAP_IO UNCACHEABLE MmIO NS_DEVICE,
    region_row ''QUP'' 0x00800000 0x00300000 AddDev MMAP_IO UNCACHEABLE MmIO NS_DEVICE,
    region_row ''PRNG_CFG_PRNG'' 0x010c0000 0x0000c000 AddDev MMAP_IO UNCACHEABLE MmIO NS_DEVICE,
    region_row ''CRYPTO0_CRYPTO'' 0x01dc0000 0x00040000 AddDev MMAP_IO UNCACHEABLE MmIO NS_DEVICE,
    region_row ''CLK_TCSR_TCSR_REGS'' 0x01f00000 0x00100000 AddDev MMAP_IO UNCACHEABLE MmIO NS_DEVICE,
    region_row ''PERIPH_SS'' 0x08800000 0x00100000 AddDev MMAP_IO UNCACHEABLE MmIO NS_DEVICE,
    region_row ''USB'' 0x0a600000 0x00200000 AddDev MMAP_IO UNCACHEABLE MmIO NS_DEVICE,
    region_row ''AOSS'' 0x0b000000 0x04000000 AddDev MMAP_IO UNCACHEABLE MmIO NS_DEVICE,
    region_row ''TLMM'' 0x0f000000 0x01000000 AddDev MMAP_IO UNCACHEABLE MmIO NS_DEVICE,
    region_row ''SMMU'' 0x15000000 0x00200000 AddDev MMAP_IO UNCACHEABLE MmIO NS_DEVICE,
    region_row ''APSS_HM'' 0x16000000 0x06000000 AddDev MMAP_IO UNCACHEABLE MmIO NS_DEVICE]"

lemma ships_annibale: "ships True 0x80000000 gMemoryDescriptor_annibale"
  apply (rule shipsI_in_order)
  subgoal by (rule boot_regionsI(2); unfold gMemoryDescriptor_annibale_def; (rule lists_region_here | rule lists_region_skip)+)
  subgoal unfolding gMemoryDescriptor_annibale_def by (simp only: span_eval) simp
  done

definition gMemoryDescriptor_cepheus :: "region list" where
  "gMemoryDescriptor_cepheus = [
    region_row ''Kernel'' 0x80000000 0x02a00000 AddMem SYS_MEM SYS_MEM_CAP Reserv WRITE_BACK_XN,
    region_row ''DBI Dump'' 0x82a00000 0x00d22000 NoHob MMAP_IO INITIALIZED Reserv UNCACHED_UNBUFFERED_XN,
    region_row ''HYP'' 0x85700000 0x00600000 AddMem SYS_MEM SYS_MEM_CAP Reserv NS_DEVICE,
    region_row ''Reserved'' 0x85d00000 0x00200000 AddMem SYS_MEM SYS_MEM_CAP Reserv UNCACHED_UNBUFFERED_XN,
    region_row ''AOP'' 0x85f00000 0x00020000 AddMem MEM_RES WRITE_COMBINEABLE Reserv UNCACHED_UNBUFFERED_XN,
    region_row ''AOP CMD DB'' 0x85f20000 0x00020000 AddMem MEM_RES WRITE_COMBINEABLE Reserv UNCACHED_UNBUFFERED_XN,
    region_row ''GPU PRR'' 0x85f40000 0x00010000 AddMem MEM_RES WRITE_COMBINEABLE Reserv UNCACHED_UNBUFFERED_XN,
    region_row ''SMEM'' 0x86000000 0x00200000 AddMem MEM_RES WRITE_COMBINEABLE Reserv UNCACHED_UNBUFFERED,
    region_row ''QTEE'' 0x86200000 0x01800000 AddMem MEM_RES UNCACHEABLE Reserv UNCACHED_UNBUFFERED_XN,
    region_row ''TZApps'' 0x87a00000 0x02100000 AddMem MEM_RES UNCACHEABLE Reserv UNCACHED_UNBUFFERED_XN,
    region_row ''PIL_REGION'' 0x8b700000 0x0f400000 AddMem SYS_MEM SYS_MEM_CAP Reserv UNCACHED_UNBUFFERED_XN,
    region_row ''Reserved'' 0x9ab00000 0x01100000 AddMem SYS_MEM SYS_MEM_CAP Reserv UNCACHED_UNBUFFERED_XN,
    region_row ''Sched Heap'' 0x9bc00000 0x00400000 AddMem SYS_MEM SYS_MEM_CAP BsData WRITE_BACK_XN,
    region_row ''Display Reserved'' 0x9c000000 0x02400000 AddMem MEM_RES SYS_MEM_CAP Reserv WRITE_THROUGH_XN,
    region_row ''TGCM'' 0x9e400000 0x01400000 AddMem MEM_RES WRITE_COMBINEABLE Reserv UNCACHED_UNBUFFERED_XN,
    region_row ''FV Region'' 0x9f800000 0x00400000 AddMem SYS_MEM SYS_MEM_CAP BsData WRITE_BACK_XN,
    region_row ''UEFI FD'' 0x9fc00000 0x00300000 AddMem SYS_MEM SYS_MEM_CAP BsData WRITE_BACK,
    region_row ''SEC Heap'' 0x9ff00000 0x0008c000 AddMem SYS_MEM SYS_MEM_CAP BsData WRITE_BACK_XN,
    region_row ''MMU PageTables'' 0x9ff8d000 0x00003000 AddMem SYS_MEM SYS_MEM_CAP BsData WRITE_BACK_XN,
    region_row ''USB UCSI Temp'' 0x9ff90000 0x00002000 AddMem SYS_MEM SYS_MEM_CAP Reserv UNCACHED_UNBUFFERED_XN,
    region_row ''UEFI Stack'' 0x9ffb0000 0x00020000 AddMem SYS_MEM SYS_MEM_CAP BsData WRITE_BACK_XN,
    region_row ''RSRV1'' 0x9ffd0000 0x0000a000 AddMem SYS_MEM SYS_MEM_CAP RtData WRITE_BACK_XN,
    region_row ''TPMControl'' 0x9ffda000 0x00003000 AddMem MEM_RES WRITE_COMBINEABLE RtData UNCACHED_UNBUFFERED_XN,
    region_row ''Reset Data'' 0x9ffdd000 0x00004000 AddMem SYS_MEM SYS_MEM_CAP RtData UNCACHED_UNBUFFERED_XN,
    region_row ''RSRV3'' 0x9ffe1000 0x00001000 AddMem SYS_MEM SYS_MEM_CAP RtData WRITE_BACK_XN,
    region_row ''Capsule Header'' 0x9ffe2000 0x00001000 AddMem SYS_MEM SYS_MEM_CAP RtData UNCACHED_UNBUFFERED_XN,
    region_row ''RSRV2'' 0x9ffe3000 0x00014000 AddMem SYS_MEM SYS_MEM_CAP RtData WRITE_BACK_XN,
    region_row ''Log Buffer'' 0x9fff7000 0x00008000 AddMem SYS_MEM SYS_MEM_CAP RtData WRITE_BACK_XN,
    region_row ''Info Blk'' 0x9ffff000 0x00001000 AddMem SYS_MEM SYS_MEM_CAP RtData WRITE_BACK_XN,
    region_row ''MPSS_EFS'' 0xc0000000 0x00300000 AddMem SYS_MEM SYS_MEM_CAP Reserv UNCACHED_UNBUFFERED_XN,
    region_row ''DXE Heap'' 0xc0300000 0x04500000 AddMem SYS_MEM SYS_MEM_CAP Conv WRITE_BACK_XN,
    region_row ''AOP_SS_MSG_RAM'' 0x0c300000 0x00100000 NoHob MMAP_IO INITIALIZED Conv NS_DEVICE,
    region_row ''IMEM Base'' 0x14680000 0x00040000 NoHob MMAP_IO INITIALIZED Conv NS_DEVICE,
    region_row ''GCC_CLK_CTL'' 0x00100000 0x00200000 AddDev MMAP_IO UNCACHEABLE MmIO NS_DEVICE,
    region_row ''MMCX_CPR3'' 0x00630000 0x00004000 AddDev MMAP_IO UNCACHEABLE MmIO NS_DEVICE,
    region_row ''SECURITY CONTROL'' 0x00780000 0x00007000 AddDev MMAP_IO UNCACHEABLE MmIO NS_DEVICE,
    region_row ''PRNG_CFG_PRNG'' 0x00790000 0x00010000 AddDev MMAP_IO UNCACHEABLE MmIO NS_DEVICE,
    region_row ''QUPV3_0_GSI'' 0x00800000 0x000d0000 AddDev MMAP_IO UNCACHEABLE MmIO NS_DEVICE,
    region_row ''QUPV3_1_GSI'' 0x00a00000 0x000d0000 AddDev MMAP_IO UNCACHEABLE MmIO NS_DEVICE,
    region_row ''QUPV3_2_GSI'' 0x00c00000 0x000d0000 AddDev MMAP_IO UNCACHEABLE MmIO NS_DEVICE,
    region_row ''PCIE_0_WRAPPER_AHB'' 0x01c00000 0x00008000 AddDev MMAP_IO UNCACHEABLE MmIO NS_DEVICE,
    region_row ''PCIE_1_WRAPPER_AHB'' 0x01c08000 0x00008000 AddDev MMAP_IO UNCACHEABLE MmIO NS_DEVICE,
    region_row ''PCIE_2_WRAPPER_AHB'' 0x01c10000 0x00008000 AddDev MMAP_IO UNCACHEABLE MmIO NS_DEVICE,
    region_row ''PCIE_3_WRAPPER_AHB'' 0x01c18000 0x00008000 AddDev MMAP_IO UNCACHEABLE MmIO NS_DEVICE,
    region_row ''UFS2 UFS REGS'' 0x01d60000 0x00020000 AddDev MMAP_IO UNCACHEABLE MmIO NS_DEVICE,
    region_row ''UFS UFS REGS'' 0x01d80000 0x00020000 AddDev MMAP_IO UNCACHEABLE MmIO NS_DEVICE,
    region_row ''CRYPTO0 CRYPTO'' 0x01dc0000 0x00040000 AddDev MMAP_IO UNCACHEABLE MmIO NS_DEVICE,
    region_row ''TCSR_TCSR_REGS'' 0x01fc0000 0x00030000 AddDev MMAP_IO UNCACHEABLE MmIO NS_DEVICE,
    region_row ''GPU_GMU_CX_BLK'' 0x02c7d000 0x00002000 AddDev MMAP_IO UNCACHEABLE MmIO NS_DEVICE,
    region_row ''GPU_CC'' 0x02c90000 0x0000a000 AddDev MMAP_IO UNCACHEABLE MmIO NS_DEVICE,
    region_row ''GPU_CPR'' 0x02c9a000 0x00004000 AddDev MMAP_IO UNCACHEABLE MmIO NS_DEVICE,
    region_row ''TLMM_WEST'' 0x03100000 0x00300000 AddDev MMAP_IO UNCACHEABLE MmIO NS_DEVICE,
    region_row ''TLMM_EAST'' 0x03500000 0x00300000 AddDev MMAP_IO UNCACHEABLE MmIO NS_DEVICE,
    region_row ''TLMM_NORTH'' 0x03900000 0x00300000 AddDev MMAP_IO UNCACHEABLE MmIO NS_DEVICE,
    region_row ''TLMM_SOUTH'' 0x03d00000 0x00300000 AddDev MMAP_IO UNCACHEABLE MmIO NS_DEVICE,
    region_row ''QUPV3_SSC_GSI'' 0x05a00000 0x000d0000 AddDev MMAP_IO UNCACHEABLE MmIO NS_DEVICE,
    region_row ''PERIPH_SS'' 0x08800000 0x00200000 AddDev MMAP_IO UNCACHEABLE MmIO NS_DEVICE,
    region_row ''REFGEN_GEN3X2_AHB'' 0x088e5000 0x00004000 AddDev MMAP_IO UNCACHEABLE MmIO NS_DEVICE,
    region_row ''MCCC_MCCC_MSTR'' 0x090b0000 0x00001000 AddDev MMAP_IO UNCACHEABLE MmIO NS_DEVICE,
    region_row ''NPU_CC'' 0x09910000 0x00010000 AddDev MMAP_IO UNCACHEABLE MmIO NS_DEVICE,
    region_row ''USB30_MP'' 0x0a400000 0x0011b000 AddDev MMAP_IO UNCACHEABLE MmIO NS_DEVICE,
    region_row ''USB_MP_RUMI1'' 0x0a520000 0x00010000 AddDev MMAP_IO UNCACHEABLE MmIO NS_DEVICE,
    region_row ''USB_MP_RUMI2'' 0x0a522000 0x00010000 AddDev MMAP_IO UNCACHEABLE MmIO NS_DEVICE,
    region_row ''USB30_PRIM'' 0x0a600000 0x0011b000 AddDev MMAP_IO UNCACHEABLE MmIO NS_DEVICE,
    region_row ''USB_RUMI'' 0x0a720000 0x00010000 AddDev MMAP_IO UNCACHEABLE MmIO NS_DEVICE,
    region_row ''VIDEO_CC'' 0x0ab00000 0x00020000 AddDev MMAP_IO UNCACHEABLE MmIO NS_DEVICE,
    region_row ''TITAN_SS_TITAN_1'' 0x0ac00000 0x0004a000 AddDev MMAP_IO UNCACHEABLE MmIO NS_DEVICE,
    region_row ''TITAN_A_CCI'' 0x0ac4a000 0x00004000 AddDev MMAP_IO UNCACHEABLE MmIO NS_DEVICE,
    region_row ''TITAN_SS_TITAN_2'' 0x0ac4e000 0x000b2000 AddDev MMAP_IO UNCACHEABLE MmIO NS_DEVICE,
    region_row ''TITAN_CAM_CC'' 0x0ad00000 0x00020000 AddDev MMAP_IO UNCACHEABLE MmIO NS_DEVICE,
    region_row ''MDSS'' 0x0ae00000 0x00134000 AddDev MMAP_IO UNCACHEABLE MmIO NS_DEVICE,
    region_row ''DISP_CC'' 0x0af00000 0x00020000 AddDev MMAP_IO UNCACHEABLE MmIO NS_DEVICE,
    region_row ''PDC_DISPLAY'' 0x0b290000 0x00020000 AddDev MMAP_IO UNCACHEABLE MmIO NS_DEVICE,
    region_row ''PDC_DISP_SEQ'' 0x0b490000 0x00020000 AddDev MMAP_IO UNCACHEABLE MmIO NS_DEVICE,
    region_row ''RPMH_BCM_BCM_TOP'' 0x0ba00000 0x00200000 AddDev MMAP_IO UNCACHEABLE MmIO NS_DEVICE,
    region_row ''RPMH_CPRF_CPRF'' 0x0c200000 0x00010000 AddDev MMAP_IO UNCACHEABLE MmIO NS_DEVICE,
    region_row ''SLP_CNTR'' 0x0c221000 0x00001000 AddDev MMAP_IO UNCACHEABLE MmIO NS_DEVICE,
    region_row ''TSENS0'' 0x0c222000 0x00001000 AddDev MMAP_IO UNCACHEABLE MmIO NS_DEVICE,
    region_row ''TSENS1'' 0x0c223000 0x00001000 AddDev MMAP_IO UNCACHEABLE MmIO NS_DEVICE,
    region_row ''TSENS0_TM'' 0x0c263000 0x00001000 AddDev MMAP_IO UNCACHEABLE MmIO NS_DEVICE,
    region_row ''PSHOLD'' 0x0c264000 0x00001000 AddDev MMAP_IO UNCACHEABLE MmIO NS_DEVICE,
    region_row ''TSENS1_TM'' 0x0c265000 0x00001000 AddDev MMAP_IO UNCACHEABLE MmIO NS_DEVICE,
    region_row ''PMIC ARB SPMI'' 0x0c400000 0x02800000 AddDev MMAP_IO UNCACHEABLE MmIO NS_DEVICE,
    region_row ''SMMU'' 0x15000000 0x000d0000 AddDev MMAP_IO UNCACHEABLE MmIO NS_DEVICE,
    region_row ''APSS_RSC_APPS_RSCC'' 0x18200000 0x00030000 AddDev MMAP_IO UNCACHEABLE MmIO NS_DEVICE,
    region_row ''SILVER_CLK_CTL'' 0x18280000 0x00001000 AddDev MMAP_IO UNCACHEABLE MmIO NS_DEVICE,
    region_row ''GOLD_CLK_CTL'' 0x18282000 0x00001000 AddDev MMAP_IO UNCACHEABLE MmIO NS_DEVICE,
    region_row ''L3_CLK_CTL'' 0x18284000 0x00001000 AddDev MMAP_IO UNCACHEABLE MmIO NS_DEVICE,
    region_row ''GOLDPLUS_CLK_CTL'' 0x18286000 0x00001000 AddDev MMAP_IO UNCACHEABLE MmIO NS_DEVICE,
    region_row ''SILVER_ACD'' 0x18290000 0x00001000 AddDev MMAP_IO UNCACHEABLE MmIO NS_DEVICE,
    region_row ''GOLD_ACD'' 0x18292000 0x00001000 AddDev MMAP_IO UNCACHEABLE MmIO NS_DEVICE,
    region_row ''L3_ACD'' 0x18294000 0x00001000 AddDev MMAP_IO UNCACHEABLE MmIO NS_DEVICE,
    region_row ''GOLDPLUS_ACD'' 0x18296000 0x00001000 AddDev MMAP_IO UNCACHEABLE MmIO NS_DEVICE,
    region_row ''APSS_ACTPM_WRAP'' 0x18300000 0x000b0000 AddDev MMAP_IO UNCACHEABLE MmIO NS_DEVICE,
    region_row ''APSS_GIC500_GICD'' 0x17a00000 0x00010000 AddDev MMAP_IO UNCACHEABLE MmIO NS_DEVICE,
    region_row ''APSS_GIC500_GICR'' 0x17a60000 0x00100000 AddDev MMAP_IO UNCACHEABLE MmIO NS_DEVICE,
    region_row ''APSS_IPC_INT'' 0x17c00000 0x00001000 AddDev MMAP_IO UNCACHEABLE MmIO NS_DEVICE,
    region_row ''APSS_WDT_TMR1'' 0x17c10000 0x00001000 AddDev MMAP_IO UNCACHEABLE MmIO NS_DEVICE,
    region_row ''QTIMER'' 0x17c20000 0x00110000 AddDev MMAP_IO UNCACHEABLE MmIO NS_DEVICE,
    region_row ''PCIE_0_WRAPPER_AXI'' 0x60000000 0x02000000 AddDev MMAP_IO UNCACHEABLE MmIO NS_DEVICE,
    region_row ''PCIE_1_WRAPPER_AXI'' 0x40000000 0x02000000 AddDev MMAP_IO UNCACHEABLE MmIO NS_DEVICE,
    region_row ''PCIE_2_WRAPPER_AXI'' 0x68000000 0x02000000 AddDev MMAP_IO UNCACHEABLE MmIO NS_DEVICE,
    region_row ''PCIE_3_WRAPPER_AXI'' 0x70000000 0x02000000 AddDev MMAP_IO UNCACHEABLE MmIO NS_DEVICE]"

lemma ships_cepheus: "ships True 0x80000000 gMemoryDescriptor_cepheus"
  apply (rule shipsI_in_order)
  subgoal by (rule boot_regionsI(1); unfold gMemoryDescriptor_cepheus_def; (rule lists_region_here | rule lists_region_skip)+)
  subgoal unfolding gMemoryDescriptor_cepheus_def by (simp only: span_eval) simp
  done

definition gMemoryDescriptor_citrus :: "region list" where
  "gMemoryDescriptor_citrus = [
    region_row ''Kernel'' 0x40000000 0x05700000 AddMem SYS_MEM SYS_MEM_CAP Reserv WRITE_BACK_XN,
    region_row ''HYP'' 0x45700000 0x00600000 AddMem SYS_MEM SYS_MEM_CAP Reserv WRITE_BACK_XN,
    region_row ''Boot Info'' 0x45d00000 0x00020000 AddMem SYS_MEM SYS_MEM_CAP BsData WRITE_BACK_XN,
    region_row ''SMEM'' 0x46000000 0x00200000 AddMem MEM_RES WRITE_COMBINEABLE Reserv UNCACHED_UNBUFFERED_XN,
    region_row ''PIL Reserved'' 0x4ab00000 0x09400000 AddMem MEM_RES WRITE_COMBINEABLE Reserv UNCACHED_UNBUFFERED_XN,
    region_row ''DXE Heap'' 0x53f00000 0x02800000 AddMem SYS_MEM SYS_MEM_CAP Conv WRITE_BACK,
    region_row ''DBI Dump'' 0x56700000 0x00a00000 NoHob MMAP_IO INITIALIZED Conv UNCACHED_UNBUFFERED_XN,
    region_row ''Sched Heap'' 0x57100000 0x00400000 AddMem SYS_MEM SYS_MEM_CAP BsData WRITE_BACK_XN,
    region_row ''Display Reserved'' 0x5c000000 0x01000000 AddMem MEM_RES SYS_MEM_CAP Reserv WRITE_THROUGH_XN,
    region_row ''FV Region'' 0x5f800000 0x00200000 AddMem SYS_MEM SYS_MEM_CAP BsData WRITE_BACK_XN,
    region_row ''ABOOT FV'' 0x5fa00000 0x00200000 AddMem SYS_MEM SYS_MEM_CAP Reserv WRITE_BACK,
    region_row ''UEFI FD'' 0x5fc00000 0x00300000 AddMem SYS_MEM SYS_MEM_CAP BsData WRITE_BACK,
    region_row ''SEC Heap'' 0x5ff00000 0x0008c000 AddMem SYS_MEM SYS_MEM_CAP BsData WRITE_BACK_XN,
    region_row ''MMU PageTables'' 0x5ff8d000 0x00003000 AddMem SYS_MEM SYS_MEM_CAP BsData WRITE_BACK_XN,
    region_row ''UEFI Stack'' 0x5ff90000 0x00040000 AddMem SYS_MEM SYS_MEM_CAP BsData WRITE_BACK_XN,
    region_row ''Log Buffer'' 0x5fff7000 0x00008000 AddMem SYS_MEM SYS_MEM_CAP RtData WRITE_BACK_XN,
    region_row ''Info Blk'' 0x5ffff000 0x00001000 AddMem SYS_MEM SYS_MEM_CAP RtData WRITE_BACK_XN,
    region_row ''RPM_SS_MSG_RAM'' 0x045f0000 0x00007000 NoHob MMAP_IO INITIALIZED Conv NS_DEVICE,
    region_row ''IMEM Base'' 0x0c100000 0x00026000 NoHob MMAP_IO INITIALIZED Conv NS_DEVICE,
    region_row ''IMEM Cookie Base'' 0x0c125000 0x00001000 AddDev MMAP_IO INITIALIZED Conv NS_DEVICE,
    region_row ''TCSR_TCSR_REGS'' 0x003c0000 0x00040000 AddDev MMAP_IO UNCACHEABLE MmIO NS_DEVICE,
    region_row ''TLMM_WEST'' 0x00500000 0x00300000 AddDev MMAP_IO UNCACHEABLE MmIO NS_DEVICE,
    region_row ''TLMM_SOUTH'' 0x00900000 0x00300000 AddDev MMAP_IO UNCACHEABLE MmIO NS_DEVICE,
    region_row ''TLMM_EAST'' 0x00d00000 0x00300000 AddDev MMAP_IO UNCACHEABLE MmIO NS_DEVICE,
    region_row ''GCC CLK CTL'' 0x01400000 0x00200000 AddDev MMAP_IO UNCACHEABLE MmIO NS_DEVICE,
    region_row ''USB2'' 0x01610000 0x00010000 AddDev MMAP_IO UNCACHEABLE MmIO NS_DEVICE,
    region_row ''MMCX_CPR3'' 0x01648000 0x00008000 AddDev MMAP_IO UNCACHEABLE MmIO NS_DEVICE,
    region_row ''CRYPTO0 CRYPTO'' 0x01b00000 0x00040000 AddDev MMAP_IO UNCACHEABLE MmIO NS_DEVICE,
    region_row ''SECURITY CONTROL'' 0x01b40000 0x00010000 AddDev MMAP_IO UNCACHEABLE MmIO NS_DEVICE,
    region_row ''PRNG_CFG_PRNG'' 0x01b50000 0x00010000 AddDev MMAP_IO UNCACHEABLE MmIO NS_DEVICE,
    region_row ''PMIC ARB SPMI'' 0x01c00000 0x02800000 AddDev MMAP_IO UNCACHEABLE MmIO NS_DEVICE,
    region_row ''SLP_CNTR'' 0x04403000 0x00001000 AddDev MMAP_IO UNCACHEABLE MmIO NS_DEVICE,
    region_row ''PSHOLD'' 0x0440b000 0x00001000 AddDev MMAP_IO UNCACHEABLE MmIO NS_DEVICE,
    region_row ''TSENS0'' 0x04410000 0x00001000 AddDev MMAP_IO UNCACHEABLE MmIO NS_DEVICE,
    region_row ''TSENS0_TM'' 0x04411000 0x00001000 AddDev MMAP_IO UNCACHEABLE MmIO NS_DEVICE,
    region_row ''PERIPH_SS'' 0x04700000 0x00200000 AddDev MMAP_IO UNCACHEABLE MmIO NS_DEVICE,
    region_row ''UFS UFS REGS'' 0x04800000 0x00020000 AddDev MMAP_IO UNCACHEABLE MmIO NS_DEVICE,
    region_row ''QUPV3_0_GSI'' 0x04a00000 0x000d0000 AddDev MMAP_IO UNCACHEABLE MmIO NS_DEVICE,
    region_row ''QUPV3_1_GSI'' 0x04c00000 0x000d0000 AddDev MMAP_IO UNCACHEABLE MmIO NS_DEVICE,
    region_row ''USB30_PRIM'' 0x04e00000 0x00200000 AddDev MMAP_IO UNCACHEABLE MmIO NS_DEVICE,
    region_row ''GPU_GMU_CX_BLK'' 0x0597d000 0x0000c000 AddDev MMAP_IO UNCACHEABLE MmIO NS_DEVICE,
    region_row ''GPU_CC'' 0x05990000 0x00009000 AddDev MMAP_IO UNCACHEABLE MmIO NS_DEVICE,
    region_row ''VIDEO_CC'' 0x05b00000 0x00020000 AddDev MMAP_IO UNCACHEABLE MmIO NS_DEVICE,
    region_row ''MDSS'' 0x05e00000 0x00200000 AddDev MMAP_IO UNCACHEABLE MmIO NS_DEVICE,
    region_row ''DISP_CC_DISP_CC'' 0x05f00000 0x00020000 AddDev MMAP_IO UNCACHEABLE MmIO NS_DEVICE,
    region_row ''SMMU'' 0x0c600000 0x00080000 AddDev MMAP_IO UNCACHEABLE MmIO NS_DEVICE,
    region_row ''APSS_WDT_TMR1'' 0x0f017000 0x00001000 AddDev MMAP_IO UNCACHEABLE MmIO NS_DEVICE,
    region_row ''QTIMER'' 0x0f020000 0x00110000 AddDev MMAP_IO UNCACHEABLE MmIO NS_DEVICE,
    region_row ''APCS_ALIAS0_GLB'' 0x0f111000 0x00001000 AddDev MMAP_IO UNCACHEABLE MmIO NS_DEVICE,
    region_row ''APSS_GIC500_GICD'' 0x0f200000 0x00010000 AddDev MMAP_IO UNCACHEABLE MmIO NS_DEVICE,
    region_row ''APSS_GIC500_GICR'' 0x0f300000 0x00020000 AddDev MMAP_IO UNCACHEABLE MmIO NS_DEVICE,
    region_row ''APSS_ACTPM_WRAP'' 0x0f500000 0x000b0000 AddDev MMAP_IO UNCACHEABLE MmIO NS_DEVICE,
    region_row ''OSM_RAIL'' 0x0f520000 0x00020000 AddDev MMAP_IO UNCACHEABLE MmIO NS_DEVICE,
    region_row ''MCCC_MCCC_MSTR'' 0x0447d000 0x00001000 AddDev MMAP_IO UNCACHEABLE MmIO NS_DEVICE]"

lemma ships_citrus: "ships True 0x40000000 gMemoryDescriptor_citrus"
  apply (rule shipsI_in_order)
  subgoal by (rule boot_regionsI(1); unfold gMemoryDescriptor_citrus_def; (rule lists_region_here | rule lists_region_skip)+)
  subgoal unfolding gMemoryDescriptor_citrus_def by (simp only: span_eval) simp
  done

definition gMemoryDescriptor_equuleus :: "region list" where
  "gMemoryDescriptor_equuleus = [
    region_row ''Kernel'' 0x80000000 0x05600000 AddMem SYS_MEM SYS_MEM_CAP Reserv WRITE_BACK_XN,
    region_row ''ipc_shm'' 0x85cd0000 0x00020000 AddMem SYS_MEM SYS_MEM_CAP BsData WRITE_BACK_XN,
    region_row ''boot_info'' 0x85cf0000 0x00010000 AddMem SYS_MEM SYS_MEM_CAP BsData WRITE_BACK_XN,
    region_row ''AOP CMD DB'' 0x85fe0000 0x00020000 AddMem SYS_MEM SYS_MEM_CAP BsData WRITE_BACK_XN,
    region_row ''SMEM'' 0x86000000 0x00200000 AddMem MEM_RES UNCACHEABLE Reserv UNCACHED_UNBUFFERED_XN,
    region_row ''DXE Heap'' 0x97c00000 0x05730000 AddMem SYS_MEM SYS_MEM_CAP Conv WRITE_BACK_XN,
    region_row ''DBI Dump'' 0x9d330000 0x000d0000 NoHob MMAP_IO INITIALIZED Conv NS_DEVICE,
    region_row ''Display Reserved'' 0x9d400000 0x02400000 AddMem MEM_RES SYS_MEM_CAP Reserv WRITE_THROUGH_XN,
    region_row ''FV Region'' 0x9f800000 0x00200000 AddMem SYS_MEM SYS_MEM_CAP BsData WRITE_BACK_XN,
    region_row ''ABOOT FV'' 0x9fa00000 0x00200000 AddMem SYS_MEM SYS_MEM_CAP Reserv WRITE_BACK_XN,
    region_row ''UEFI FD'' 0x9fc00000 0x00300000 AddMem SYS_MEM SYS_MEM_CAP BsData WRITE_BACK,
    region_row ''SEC Heap'' 0x9ff00000 0x0008c000 AddMem SYS_MEM SYS_MEM_CAP BsData WRITE_BACK_XN,
    region_row ''MMU PageTables'' 0x9ff8d000 0x00003000 AddMem SYS_MEM SYS_MEM_CAP BsData WRITE_BACK_XN,
    region_row ''UEFI Stack'' 0x9ff90000 0x00040000 AddMem SYS_MEM SYS_MEM_CAP BsData WRITE_BACK_XN,
    region_row ''Log Buffer'' 0x9fff7000 0x00008000 AddMem SYS_MEM SYS_MEM_CAP RtData WRITE_BACK_XN,
    region_row ''Info Blk'' 0x9ffff000 0x00001000 AddMem SYS_MEM SYS_MEM_CAP RtData WRITE_BACK_XN,
    region_row ''MLVM'' 0xb0400000 0x09000000 AddMem SYS_MEM SYS_MEM_CAP Reserv WRITE_BACK_XN,
    region_row ''AOP_SS_MSG_RAM'' 0x0c300000 0x00100000 NoHob MMAP_IO INITIALIZED Conv NS_DEVICE,
    region_row ''IMEM Base'' 0x14680000 0x0003f000 NoHob MMAP_IO INITIALIZED Conv NS_DEVICE,
    region_row ''IMEM Cookie Base'' 0x146bf000 0x00001000 AddDev MMAP_IO INITIALIZED Conv NS_DEVICE,
    region_row ''GCC CLK CTL'' 0x00100000 0x000b0000 AddDev MMAP_IO UNCACHEABLE MmIO NS_DEVICE,
    region_row ''SECURITY CONTROL'' 0x00780000 0x00007000 AddDev MMAP_IO UNCACHEABLE MmIO NS_DEVICE,
    region_row ''PRNG_CFG_PRNG'' 0x00790000 0x00010000 AddDev MMAP_IO UNCACHEABLE MmIO NS_DEVICE,
    region_row ''QUPV3_0_GSI'' 0x00800000 0x000d0000 AddDev MMAP_IO UNCACHEABLE MmIO NS_DEVICE,
    region_row ''QUPV3_1_GSI'' 0x00a00000 0x000d0000 AddDev MMAP_IO UNCACHEABLE MmIO NS_DEVICE,
    region_row ''UFS UFS REGS'' 0x01d80000 0x00020000 AddDev MMAP_IO UNCACHEABLE MmIO NS_DEVICE,
    region_row ''CRYPTO0 CRYPTO'' 0x01dc0000 0x00040000 AddDev MMAP_IO UNCACHEABLE MmIO NS_DEVICE,
    region_row ''TCSR_TCSR_REGS'' 0x01fc0000 0x00030000 AddDev MMAP_IO UNCACHEABLE MmIO NS_DEVICE,
    region_row ''TLMM_EAST'' 0x03500000 0x00300000 AddDev MMAP_IO UNCACHEABLE MmIO NS_DEVICE,
    region_row ''TLMM_NORTH'' 0x03900000 0x00300000 AddDev MMAP_IO UNCACHEABLE MmIO NS_DEVICE,
    region_row ''TLMM_SOUTH'' 0x03d00000 0x00300000 AddDev MMAP_IO UNCACHEABLE MmIO NS_DEVICE,
    region_row ''GPU_GMU_GX_BLK'' 0x0506a000 0x00001000 AddDev MMAP_IO UNCACHEABLE MmIO NS_DEVICE,
    region_row ''GPU_GMU_CX_BLK'' 0x0507d000 0x0000c000 AddDev MMAP_IO UNCACHEABLE MmIO NS_DEVICE,
    region_row ''GPU_ISENSE'' 0x0508b000 0x00002000 AddDev MMAP_IO UNCACHEABLE MmIO NS_DEVICE,
    region_row ''GPU_CC'' 0x05090000 0x00010000 AddDev MMAP_IO UNCACHEABLE MmIO NS_DEVICE,
    region_row ''GPU_CPR'' 0x0509a000 0x00004000 AddDev MMAP_IO UNCACHEABLE MmIO NS_DEVICE,
    region_row ''QUPV3_SSC_GSI'' 0x05a00000 0x000d0000 AddDev MMAP_IO UNCACHEABLE MmIO NS_DEVICE,
    region_row ''RPMH_CPRF'' 0x0c200000 0x0000f000 AddDev MMAP_IO UNCACHEABLE MmIO NS_DEVICE,
    region_row ''PERIPH_SS'' 0x08800000 0x00200000 AddDev MMAP_IO UNCACHEABLE MmIO NS_DEVICE,
    region_row ''USB30_PRIM'' 0x0a600000 0x0011b000 AddDev MMAP_IO UNCACHEABLE MmIO NS_DEVICE,
    region_row ''VIDEO_CC'' 0x0ab00000 0x00010000 AddDev MMAP_IO UNCACHEABLE MmIO NS_DEVICE,
    region_row ''TITAN_CAM_CC'' 0x0ad00000 0x00010000 AddDev MMAP_IO UNCACHEABLE MmIO NS_DEVICE,
    region_row ''MDSS'' 0x0ae00000 0x00134000 AddDev MMAP_IO UNCACHEABLE MmIO NS_DEVICE,
    region_row ''DISP_CC'' 0x0af00000 0x00020000 AddDev MMAP_IO UNCACHEABLE MmIO NS_DEVICE,
    region_row ''PDC_DISPLAY'' 0x0b290000 0x00010000 AddDev MMAP_IO UNCACHEABLE MmIO NS_DEVICE,
    region_row ''PDC_DISP_SEQ'' 0x0b490000 0x00010000 AddDev MMAP_IO UNCACHEABLE MmIO NS_DEVICE,
    region_row ''RPMH_BCM_BCM_TOP'' 0x0ba00000 0x00200000 AddDev MMAP_IO UNCACHEABLE MmIO NS_DEVICE,
    region_row ''SLP_CNTR'' 0x0c221000 0x00001000 AddDev MMAP_IO UNCACHEABLE MmIO NS_DEVICE,
    region_row ''TSENS0'' 0x0c222000 0x00001000 AddDev MMAP_IO UNCACHEABLE MmIO NS_DEVICE,
    region_row ''TSENS1'' 0x0c223000 0x00001000 AddDev MMAP_IO UNCACHEABLE MmIO NS_DEVICE,
    region_row ''TSENS0_TM'' 0x0c263000 0x00001000 AddDev MMAP_IO UNCACHEABLE MmIO NS_DEVICE,
    region_row ''PSHOLD'' 0x0c264000 0x00001000 AddDev MMAP_IO UNCACHEABLE MmIO NS_DEVICE,
    region_row ''TSENS1_TM'' 0x0c265000 0x00001000 AddDev MMAP_IO UNCACHEABLE MmIO NS_DEVICE,
    region_row ''PMIC_ARB_SPMI'' 0x0c400000 0x02800000 AddDev MMAP_IO UNCACHEABLE MmIO NS_DEVICE,
    region_row ''SMMU'' 0x15000000 0x000d0000 AddDev MMAP_IO UNCACHEABLE MmIO NS_DEVICE,
    region_row ''GOLD_SAW4_SRM'' 0x17830000 0x00001000 AddDev MMAP_IO UNCACHEABLE MmIO NS_DEVICE,
    region_row ''SILVER_SAW4_SRM'' 0x17840000 0x00001000 AddDev MMAP_IO UNCACHEABLE MmIO NS_DEVICE,
    region_row ''GOLD_CLK_CTL'' 0x178b0000 0x00001000 AddDev MMAP_IO UNCACHEABLE MmIO NS_DEVICE,
    region_row ''SILVER_CLK_CTL'' 0x178c0000 0x00001000 AddDev MMAP_IO UNCACHEABLE MmIO NS_DEVICE,
    region_row ''L3_CLK_CTL'' 0x178d0000 0x00001000 AddDev MMAP_IO UNCACHEABLE MmIO NS_DEVICE,
    region_row ''APSS_WDT_TMR1'' 0x17980000 0x00001000 AddDev MMAP_IO UNCACHEABLE MmIO NS_DEVICE,
    region_row ''APSS_IPC_INT'' 0x17990000 0x00001000 AddDev MMAP_IO UNCACHEABLE MmIO NS_DEVICE,
    region_row ''APSS_RSC_RSCCR'' 0x179c0000 0x00030000 AddDev MMAP_IO UNCACHEABLE MmIO NS_DEVICE,
    region_row ''APSS_GIC500_GICD'' 0x17a00000 0x00010000 AddDev MMAP_IO UNCACHEABLE MmIO NS_DEVICE,
    region_row ''APSS_GIC500_GICR'' 0x17a60000 0x00100000 AddDev MMAP_IO UNCACHEABLE MmIO NS_DEVICE,
    region_row ''QTIMER'' 0x17c00000 0x00110000 AddDev MMAP_IO UNCACHEABLE MmIO NS_DEVICE,
    region_row ''OSM'' 0x17d20000 0x000b0000 AddDev MMAP_IO UNCACHEABLE MmIO NS_DEVICE]"

lemma ships_equuleus: "ships True 0x80000000 gMemoryDescriptor_equuleus"
  apply (rule shipsI_in_order)
  subgoal by (rule boot_regionsI(1); unfold gMemoryDescriptor_equuleus_def; (rule lists_region_here | rule lists_region_skip)+)
  subgoal unfolding gMemoryDescriptor_equuleus_def by (simp only: span_eval) simp
  done

definition gMemoryDescriptor_fog :: "region list" where
  "gMemoryDescriptor_fog = [
    region_row ''Kernel'' 0x40000000 0x05700000 AddMem MEM_RES SYS_MEM_CAP Reserv WRITE_BACK_XN,
    region_row ''HYP'' 0x45700000 0x00600000 AddMem SYS_MEM SYS_MEM_CAP Reserv WRITE_BACK_XN,
    region_row ''Boot Info'' 0x45d00000 0x00020000 AddMem SYS_MEM SYS_MEM_CAP BsData WRITE_BACK_XN,
    region_row ''SMEM'' 0x46000000 0x00200000 AddMem MEM_RES WRITE_COMBINEABLE Reserv UNCACHED_UNBUFFERED_XN,
    region_row ''PIL Reserved'' 0x4ab00000 0x0a400000 AddMem MEM_RES WRITE_COMBINEABLE Reserv UNCACHED_UNBUFFERED_XN,
    region_row ''DBI Dump'' 0x56700000 0x00a00000 NoHob MMAP_IO INITIALIZED Conv UNCACHED_UNBUFFERED_XN,
    region_row ''Sched Heap'' 0x57100000 0x00400000 AddMem SYS_MEM SYS_MEM_CAP BsData WRITE_BACK_XN,
    region_row ''Display Reserved'' 0x5c000000 0x01000000 AddMem MEM_RES SYS_MEM_CAP Reserv WRITE_THROUGH_XN,
    region_row ''LAST LOG'' 0x5d000000 0x00400000 AddMem SYS_MEM SYS_MEM_CAP Reserv WRITE_BACK_XN,
    region_row ''FV Region'' 0x5f800000 0x00200000 AddMem SYS_MEM SYS_MEM_CAP BsData WRITE_BACK_XN,
    region_row ''ABOOT FV'' 0x5fa00000 0x00200000 AddMem SYS_MEM SYS_MEM_CAP Reserv WRITE_BACK,
    region_row ''UEFI FD'' 0x5fc00000 0x00300000 AddMem SYS_MEM SYS_MEM_CAP BsData WRITE_BACK,
    region_row ''SEC Heap'' 0x5ff00000 0x0008c000 AddMem SYS_MEM SYS_MEM_CAP BsData WRITE_BACK_XN,
    region_row ''MMU PageTables'' 0x5ff8d000 0x00003000 AddMem SYS_MEM SYS_MEM_CAP BsData WRITE_BACK_XN,
    region_row ''UEFI Stack'' 0x5ff90000 0x00040000 AddMem SYS_MEM SYS_MEM_CAP BsData WRITE_BACK_XN,
    region_row ''Log Buffer'' 0x5fff7000 0x00008000 AddMem SYS_MEM SYS_MEM_CAP RtData WRITE_BACK_XN,
    region_row ''Info Blk'' 0x5ffff000 0x00001000 AddMem SYS_MEM SYS_MEM_CAP RtData WRITE_BACK_XN,
    region_row ''DXE Heap'' 0x60000000 0x03c00000 AddMem SYS_MEM SYS_MEM_CAP Conv WRITE_BACK,
    region_row ''RPM_SS_MSG_RAM'' 0x045f0000 0x00007000 NoHob MMAP_IO INITIALIZED Conv NS_DEVICE,
    region_row ''IMEM Base'' 0x0c100000 0x00026000 NoHob MMAP_IO INITIALIZED Conv NS_DEVICE,
    region_row ''IMEM Cookie Base'' 0x0c125000 0x00001000 AddDev MMAP_IO INITIALIZED Conv NS_DEVICE,
    region_row ''TCSR_TCSR_REGS'' 0x003c0000 0x00040000 AddDev MMAP_IO UNCACHEABLE MmIO NS_DEVICE,
    region_row ''TLMM_WEST'' 0x00500000 0x00300000 AddDev MMAP_IO UNCACHEABLE MmIO NS_DEVICE,
    region_row ''TLMM_SOUTH'' 0x00900000 0x00300000 AddDev MMAP_IO UNCACHEABLE MmIO NS_DEVICE,
    region_row ''TLMM_EAST'' 0x00d00000 0x00300000 AddDev MMAP_IO UNCACHEABLE MmIO NS_DEVICE,
    region_row ''GCC CLK CTL'' 0x01400000 0x00200000 AddDev MMAP_IO UNCACHEABLE MmIO NS_DEVICE,
    region_row ''USB2'' 0x01610000 0x00010000 AddDev MMAP_IO UNCACHEABLE MmIO NS_DEVICE,
    region_row ''MMCX_CPR3'' 0x01648000 0x00008000 AddDev MMAP_IO UNCACHEABLE MmIO NS_DEVICE,
    region_row ''CRYPTO0 CRYPTO'' 0x01b00000 0x00040000 AddDev MMAP_IO UNCACHEABLE MmIO NS_DEVICE,
    region_row ''SECURITY CONTROL'' 0x01b40000 0x00010000 AddDev MMAP_IO UNCACHEABLE MmIO NS_DEVICE,
    region_row ''PRNG_CFG_PRNG'' 0x01b50000 0x00010000 AddDev MMAP_IO UNCACHEABLE MmIO NS_DEVICE,
    region_row ''PMIC ARB SPMI'' 0x01c00000 0x02800000 AddDev MMAP_IO UNCACHEABLE MmIO NS_DEVICE,
    region_row ''SLP_CNTR'' 0x04403000 0x00001000 AddDev MMAP_IO UNCACHEABLE MmIO NS_DEVICE,
    region_row ''PSHOLD'' 0x0440b000 0x00001000 AddDev MMAP_IO UNCACHEABLE MmIO NS_DEVICE,
    region_row ''TSENS0'' 0x04410000 0x00001000 AddDev MMAP_IO UNCACHEABLE MmIO NS_DEVICE,
    region_row ''TSENS0_TM'' 0x04411000 0x00001000 AddDev MMAP_IO UNCACHEABLE MmIO NS_DEVICE,
    region_row ''MCCC_MCCC_MSTR'' 0x0447d000 0x00001000 AddDev MMAP_IO UNCACHEABLE MmIO NS_DEVICE,
    region_row ''PERIPH_SS'' 0x04700000 0x00200000 AddDev MMAP_IO UNCACHEABLE MmIO NS_DEVICE,
    region_row ''UFS UFS REGS'' 0x04800000 0x00020000 AddDev MMAP_IO UNCACHEABLE MmIO NS_DEVICE,
    region_row ''QUPV3_0_GSI'' 0x04a00000 0x000d0000 AddDev MMAP_IO UNCACHEABLE MmIO NS_DEVICE,
    region_row ''QUPV3_1_GSI'' 0x04c00000 0x000d0000 AddDev MMAP_IO UNCACHEABLE MmIO NS_DEVICE,
    region_row ''USB30_PRIM'' 0x04e00000 0x00200000 AddDev MMAP_IO UNCACHEABLE MmIO NS_DEVICE,
    region_row ''GPU_GMU_CX_BLK'' 0x0597d000 0x0000c000 AddDev MMAP_IO UNCACHEABLE MmIO NS_DEVICE,
    region_row ''GPU_CC'' 0x05990000 0x00009000 AddDev MMAP_IO UNCACHEABLE MmIO NS_DEVICE,
    region_row ''VIDEO_CC'' 0x05b00000 0x00020000 AddDev MMAP_IO UNCACHEABLE MmIO NS_DEVICE,
    region_row ''MDSS'' 0x05e00000 0x00200000 AddDev MMAP_IO UNCACHEABLE MmIO NS_DEVICE,
    region_row ''DISP_CC_DISP_CC'' 0x05f00000 0x00020000 AddDev MMAP_IO UNCACHEABLE MmIO NS_DEVICE,
    region_row ''SMMU'' 0x0c600000 0x00080000 AddDev MMAP_IO UNCACHEABLE MmIO NS_DEVICE,
    region_row ''APSS_WDT_TMR1'' 0x0f017000 0x00001000 AddDev MMAP_IO UNCACHEABLE MmIO NS_DEVICE,
    region_row ''QTIMER'' 0x0f020000 0x00110000 AddDev MMAP_IO UNCACHEABLE MmIO NS_DEVICE,
    region_row ''APCS_ALIAS0_GLB'' 0x0f111000 0x00001000 AddDev MMAP_IO UNCACHEABLE MmIO NS_DEVICE,
    region_row ''APSS_GIC500_GICD'' 0x0f200000 0x00010000 AddDev MMAP_IO UNCACHEABLE MmIO NS_DEVICE,
    region_row ''APSS_GIC500_GICR'' 0x0f300000 0x00020000 AddDev MMAP_IO UNCACHEABLE MmIO NS_DEVICE,
    region_row ''APSS_ACTPM_WRAP'' 0x0f500000 0x000b0000 AddDev MMAP_IO UNCACHEABLE MmIO NS_DEVICE,
    region_row ''OSM_RAIL'' 0x0f520000 0x00020000 AddDev MMAP_IO UNCACHEABLE MmIO NS_DEVICE]"

lemma ships_fog: "ships True 0x40000000 gMemoryDescriptor_fog"
  apply (rule shipsI_in_order)
  subgoal by (rule boot_regionsI(1); unfold gMemoryDescriptor_fog_def; (rule lists_region_here | rule lists_region_skip)+)
  subgoal unfolding gMemoryDescriptor_fog_def by (simp only: span_eval) simp
  done

definition gMemoryDescriptor_garnet :: "region list" where
  "gMemoryDescriptor_garnet = [
    region_row ''DT BLOB'' 0x80600000 0x00040000 AddMem MEM_RES SYS_MEM_CAP Reserv WRITE_BACK_XN,
    region_row ''AOP'' 0x80800000 0x000a0000 AddMem MEM_RES UNCACHEABLE Reserv UNCACHED_UNBUFFERED_XN,
    region_row ''TME'' 0x808a0000 0x00044000 AddMem SYS_MEM SYS_MEM_CAP Reserv WRITE_BACK_XN,
    region_row ''SMEM'' 0x80900000 0x00200000 AddMem MEM_RES UNCACHEABLE Reserv UNCACHED_UNBUFFERED_XN,
    region_row ''CPUCP FW'' 0x80b00000 0x00100000 AddMem SYS_MEM SYS_MEM_CAP Reserv UNCACHED_UNBUFFERED_XN,
    region_row ''PIL Reserved'' 0x84b00000 0x1c900000 AddMem MEM_RES UNCACHEABLE Reserv UNCACHED_UNBUFFERED_XN,
    region_row ''Display Demura'' 0xa1400000 0x02b00000 AddMem MEM_RES SYS_MEM_CAP Reserv WRITE_THROUGH_XN,
    region_row ''DBI Dump'' 0xa6000000 0x00f00000 NoHob MMAP_IO INITIALIZED Conv UNCACHED_UNBUFFERED_XN,
    region_row ''FD Reserved'' 0xa7000000 0x00100000 AddMem SYS_MEM SYS_MEM_CAP BsData WRITE_BACK,
    region_row ''UEFI FD'' 0xa7100000 0x00300000 AddMem SYS_MEM SYS_MEM_CAP BsData WRITE_BACK,
    region_row ''UEFI FD Reserved'' 0xa7400000 0x00200000 AddMem SYS_MEM SYS_MEM_CAP BsData WRITE_BACK,
    region_row ''Info Blk'' 0xa7601000 0x00001000 AddMem SYS_MEM SYS_MEM_CAP RtData WRITE_BACK_XN,
    region_row ''MMU PageTables'' 0xa7602000 0x00003000 AddMem SYS_MEM SYS_MEM_CAP BsData WRITE_BACK_XN,
    region_row ''Log Buffer'' 0xa7605000 0x00008000 AddMem SYS_MEM SYS_MEM_CAP RtData WRITE_BACK_XN,
    region_row ''UEFI Stack'' 0xa760d000 0x00040000 AddMem SYS_MEM SYS_MEM_CAP BsData WRITE_BACK_XN,
    region_row ''SEC Heap'' 0xa764d000 0x0008c000 AddMem SYS_MEM SYS_MEM_CAP BsData WRITE_BACK_XN,
    region_row ''Sched Heap'' 0xa76d9000 0x00400000 AddMem SYS_MEM SYS_MEM_CAP BsData WRITE_BACK_XN,
    region_row ''FV Region'' 0xa7ad9000 0x00400000 AddMem SYS_MEM SYS_MEM_CAP BsData WRITE_BACK_XN,
    region_row ''UEFI RESV'' 0xa7ed9000 0x00127000 AddMem SYS_MEM SYS_MEM_CAP BsData WRITE_BACK_XN,
    region_row ''Kernel'' 0xa8000000 0x10000000 AddMem MEM_RES SYS_MEM_CAP Reserv WRITE_BACK_XN,
    region_row ''Display Reserved'' 0xb8000000 0x02b00000 AddMem MEM_RES SYS_MEM_CAP Reserv WRITE_THROUGH_XN,
    region_row ''OEM VM'' 0xbb000000 0x05000000 AddMem SYS_MEM SYS_MEM_CAP Reserv WRITE_BACK_XN,
    region_row ''MTE Reserved'' 0xc0000000 0x20000000 AddMem SYS_MEM SYS_MEM_CAP Reserv WRITE_BACK_XN,
    region_row ''VM PIL'' 0xe0000000 0x05700000 AddMem SYS_MEM SYS_MEM_CAP Reserv WRITE_BACK_XN,
    region_row ''TZ STATS'' 0xe8800000 0x00100000 AddMem MEM_RES UNCACHEABLE Reserv UNCACHED_UNBUFFERED_XN,
    region_row ''TAGS'' 0xe8900000 0x00680000 AddMem MEM_RES UNCACHEABLE Reserv UNCACHED_UNBUFFERED_XN,
    region_row ''QTEE'' 0xe8f80000 0x00500000 AddMem MEM_RES UNCACHEABLE Reserv UNCACHED_UNBUFFERED_XN,
    region_row ''TZApps Reserved'' 0xea000000 0x07400000 AddMem MEM_RES UNCACHEABLE Reserv UNCACHED_UNBUFFERED_XN,
    region_row ''DXE Heap'' 0xf8000000 0x07c00000 AddMem SYS_MEM SYS_MEM_CAP Conv WRITE_BACK_XN,
    region_row ''HYP Reserved'' 0x830000000 0x10000000 AddMem SYS_MEM SYS_MEM_CAP Reserv WRITE_BACK_XN,
    region_row ''IMEM Base'' 0x14680000 0x0002a000 NoHob MMAP_IO INITIALIZED Conv NS_DEVICE,
    region_row ''IMEM Cookie Base'' 0x146aa000 0x00016000 AddDev MMAP_IO INITIALIZED Conv NS_DEVICE,
    region_row ''IPC_ROUTER_TOP'' 0x00400000 0x00100000 AddDev MMAP_IO UNCACHEABLE MmIO NS_DEVICE,
    region_row ''SECURITY CONTROL'' 0x00780000 0x00007000 AddDev MMAP_IO UNCACHEABLE MmIO NS_DEVICE,
    region_row ''PERIPH_SS_SDC1'' 0x007c0000 0x00020000 AddDev MMAP_IO UNCACHEABLE MmIO NS_DEVICE,
    region_row ''QUP'' 0x00800000 0x00300000 AddDev MMAP_IO UNCACHEABLE MmIO NS_DEVICE,
    region_row ''PRNG_CFG_PRNG'' 0x010c0000 0x0000c000 AddDev MMAP_IO UNCACHEABLE MmIO NS_DEVICE,
    region_row ''CRYPTO0 CRYPTO'' 0x01dc0000 0x00040000 AddDev MMAP_IO UNCACHEABLE MmIO NS_DEVICE,
    region_row ''TCSR_TCSR_REGS'' 0x01fc0000 0x00030000 AddDev MMAP_IO UNCACHEABLE MmIO NS_DEVICE,
    region_row ''PERIPH_SS'' 0x08800000 0x00100000 AddDev MMAP_IO UNCACHEABLE MmIO NS_DEVICE,
    region_row ''USB'' 0x0a600000 0x00200000 AddDev MMAP_IO UNCACHEABLE MmIO NS_DEVICE,
    region_row ''AOSS'' 0x0b000000 0x04000000 AddDev MMAP_IO UNCACHEABLE MmIO NS_DEVICE,
    region_row ''TLMM'' 0x0f000000 0x01000000 AddDev MMAP_IO UNCACHEABLE MmIO NS_DEVICE,
    region_row ''SMMU'' 0x15000000 0x00200000 AddDev MMAP_IO UNCACHEABLE MmIO NS_DEVICE,
    region_row ''APSS_HM'' 0x17000000 0x02000000 AddDev MMAP_IO UNCACHEABLE MmIO NS_DEVICE]"

lemma ships_garnet: "ships True 0x80000000 gMemoryDescriptor_garnet"
  apply (rule shipsI_in_order)
  subgoal by (rule boot_regionsI(1); unfold gMemoryDescriptor_garnet_def; (rule lists_region_here | rule lists_region_skip)+)
  subgoal unfolding gMemoryDescriptor_garnet_def by (simp only: span_eval) simp
  done

definition gMemoryDescriptor_ginkgo :: "region list" where
  "gMemoryDescriptor_ginkgo = [
    region_row ''HYP'' 0x45700000 0x00600000 AddMem SYS_MEM SYS_MEM_CAP Reserv WRITE_BACK_XN,
    region_row ''AOP CMD DB'' 0x45f20000 0x00020000 AddMem MEM_RES WRITE_COMBINEABLE Reserv UNCACHED_UNBUFFERED_XN,
    region_row ''SMEM'' 0x46000000 0x00200000 AddMem MEM_RES WRITE_COMBINEABLE Reserv UNCACHED_UNBUFFERED_XN,
    region_row ''QTEE'' 0x46200000 0x00b00000 AddMem MEM_RES UNCACHEABLE Reserv UNCACHED_UNBUFFERED_XN,
    region_row ''TZApps'' 0x46d00000 0x02200000 AddMem MEM_RES UNCACHEABLE Reserv UNCACHED_UNBUFFERED_XN,
    region_row ''PIL Reserved'' 0x4ab00000 0x0d200000 AddMem MEM_RES WRITE_COMBINEABLE Reserv UNCACHED_UNBUFFERED_XN,
    region_row ''DXE Heap'' 0x57d00000 0x03400000 AddMem SYS_MEM SYS_MEM_CAP Conv WRITE_BACK,
    region_row ''DBI Dump'' 0x5b100000 0x00a00000 NoHob MMAP_IO INITIALIZED Conv UNCACHED_UNBUFFERED_XN,
    region_row ''Sched Heap'' 0x5bc00000 0x00400000 AddMem SYS_MEM SYS_MEM_CAP BsData WRITE_BACK_XN,
    region_row ''Display Reserved'' 0x5c000000 0x01000000 AddMem MEM_RES SYS_MEM_CAP Reserv WRITE_THROUGH_XN,
    region_row ''FV Region'' 0x5f800000 0x00400000 AddMem SYS_MEM SYS_MEM_CAP BsData WRITE_BACK_XN,
    region_row ''UEFI FD'' 0x5fc00000 0x00300000 AddMem SYS_MEM SYS_MEM_CAP BsData WRITE_BACK,
    region_row ''SEC Heap'' 0x5ff00000 0x0008c000 AddMem SYS_MEM SYS_MEM_CAP BsData WRITE_BACK_XN,
    region_row ''MMU PageTables'' 0x5ff8d000 0x00003000 AddMem SYS_MEM SYS_MEM_CAP BsData WRITE_BACK_XN,
    region_row ''UEFI Stack'' 0x5ff90000 0x00040000 AddMem SYS_MEM SYS_MEM_CAP BsData WRITE_BACK_XN,
    region_row ''Log Buffer'' 0x5fff7000 0x00008000 AddMem SYS_MEM SYS_MEM_CAP RtData WRITE_BACK_XN,
    region_row ''Info Blk'' 0x5ffff000 0x00001000 AddMem SYS_MEM SYS_MEM_CAP RtData WRITE_BACK_XN,
    region_row ''AOP_SS_MSG_RAM'' 0x045f0000 0x00007000 NoHob MMAP_IO INITIALIZED Conv NS_DEVICE,
    region_row ''IMEM Base'' 0x0c100000 0x00026000 NoHob MMAP_IO INITIALIZED Conv NS_DEVICE,
    region_row ''IMEM Cookie Base'' 0x0c125000 0x00001000 AddDev MMAP_IO INITIALIZED Conv NS_DEVICE,
    region_row ''TCSR_TCSR_REGS'' 0x003c0000 0x00040000 AddDev MMAP_IO UNCACHEABLE MmIO NS_DEVICE,
    region_row ''TLMM_WEST'' 0x00500000 0x00300000 AddDev MMAP_IO UNCACHEABLE MmIO NS_DEVICE,
    region_row ''TLMM_SOUTH'' 0x00900000 0x00300000 AddDev MMAP_IO UNCACHEABLE MmIO NS_DEVICE,
    region_row ''TLMM_EAST'' 0x00d00000 0x00300000 AddDev MMAP_IO UNCACHEABLE MmIO NS_DEVICE,
    region_row ''GCC CLK CTL'' 0x01400000 0x00200000 AddDev MMAP_IO UNCACHEABLE MmIO NS_DEVICE,
    region_row ''USB2'' 0x01610000 0x00010000 AddDev MMAP_IO UNCACHEABLE MmIO NS_DEVICE,
    region_row ''MMCX_CPR3'' 0x01648000 0x00008000 AddDev MMAP_IO UNCACHEABLE MmIO NS_DEVICE,
    region_row ''CRYPTO0 CRYPTO'' 0x01b00000 0x00040000 AddDev MMAP_IO UNCACHEABLE MmIO NS_DEVICE,
    region_row ''SECURITY CONTROL'' 0x01b40000 0x00010000 AddDev MMAP_IO UNCACHEABLE MmIO NS_DEVICE,
    region_row ''PRNG_CFG_PRNG'' 0x01b50000 0x00010000 AddDev MMAP_IO UNCACHEABLE MmIO NS_DEVICE,
    region_row ''PMIC ARB SPMI'' 0x01c00000 0x02800000 AddDev MMAP_IO UNCACHEABLE MmIO NS_DEVICE,
    region_row ''PSHOLD'' 0x0440b000 0x00001000 AddDev MMAP_IO UNCACHEABLE MmIO NS_DEVICE,
    region_row ''SLP_CNTR'' 0x04403000 0x00001000 AddDev MMAP_IO UNCACHEABLE MmIO NS_DEVICE,
    region_row ''TSENS0'' 0x04410000 0x00001000 AddDev MMAP_IO UNCACHEABLE MmIO NS_DEVICE,
    region_row ''TSENS0_TM'' 0x04411000 0x00001000 AddDev MMAP_IO UNCACHEABLE MmIO NS_DEVICE,
    region_row ''MCCC_MCCC_MSTR'' 0x0447d000 0x00001000 AddDev MMAP_IO UNCACHEABLE MmIO NS_DEVICE,
    region_row ''PERIPH_SS'' 0x04700000 0x00200000 AddDev MMAP_IO UNCACHEABLE MmIO NS_DEVICE,
    region_row ''QUPV3_0_GSI'' 0x04a00000 0x000d0000 AddDev MMAP_IO UNCACHEABLE MmIO NS_DEVICE,
    region_row ''QUPV3_1_GSI'' 0x04c00000 0x000d0000 AddDev MMAP_IO UNCACHEABLE MmIO NS_DEVICE,
    region_row ''USB30_PRIM'' 0x04e00000 0x00200000 AddDev MMAP_IO UNCACHEABLE MmIO NS_DEVICE,
    region_row ''UFS UFS REGS'' 0x04800000 0x00020000 AddDev MMAP_IO UNCACHEABLE MmIO NS_DEVICE,
    region_row ''GPU_GMU_CX_BLK'' 0x0597d000 0x0000c000 AddDev MMAP_IO UNCACHEABLE MmIO NS_DEVICE,
    region_row ''GPU_CC'' 0x05990000 0x00009000 AddDev MMAP_IO UNCACHEABLE MmIO NS_DEVICE,
    region_row ''VIDEO_CC'' 0x05b00000 0x00020000 AddDev MMAP_IO UNCACHEABLE MmIO NS_DEVICE,
    region_row ''MDSS'' 0x05e00000 0x00200000 AddDev MMAP_IO UNCACHEABLE MmIO NS_DEVICE,
    region_row ''DISP_CC_DISP_CC'' 0x05f00000 0x00020000 AddDev MMAP_IO UNCACHEABLE MmIO NS_DEVICE,
    region_row ''SMMU'' 0x0c600000 0x00080000 AddDev MMAP_IO UNCACHEABLE MmIO NS_DEVICE,
    region_row ''APSS_WDT_TMR1'' 0x0f017000 0x00001000 AddDev MMAP_IO UNCACHEABLE MmIO NS_DEVICE,
    region_row ''QTIMER'' 0x0f020000 0x00110000 AddDev MMAP_IO UNCACHEABLE MmIO NS_DEVICE,
    region_row ''APCS_ALIAS0_GLB'' 0x0f111000 0x00001000 AddDev MMAP_IO UNCACHEABLE MmIO NS_DEVICE,
    region_row ''APSS_GIC500_GICD'' 0x0f200000 0x00010000 AddDev MMAP_IO UNCACHEABLE MmIO NS_DEVICE,
    region_row ''APSS_GIC500_GICR'' 0x0f300000 0x00020000 AddDev MMAP_IO UNCACHEABLE MmIO NS_DEVICE,
    region_row ''APSS_ACTPM_WRAP'' 0x0f500000 0x000b0000 AddDev MMAP_IO UNCACHEABLE MmIO NS_DEVICE,
    region_row ''OSM_RAIL'' 0x0f520000 0x00020000 AddDev MMAP_IO UNCACHEABLE MmIO NS_DEVICE]"

lemma ships_ginkgo: "ships True 0x40000000 gMemoryDescriptor_ginkgo"
  apply (rule shipsI_in_order)
  subgoal by (rule boot_regionsI(1); unfold gMemoryDescriptor_ginkgo_def; (rule lists_region_here | rule lists_region_skip)+)
  subgoal unfolding gMemoryDescriptor_ginkgo_def by (simp only: span_eval) simp
  done

definition gMemoryDescriptor_ingres :: "region list" where
  "gMemoryDescriptor_ingres = [
    region_row ''HYP'' 0x80000000 0x00600000 AddMem MEM_RES SYS_MEM_CAP Reserv NS_DEVICE,
    region_row ''DT BLOB'' 0x80600000 0x00040000 AddMem MEM_RES SYS_MEM_CAP Reserv WRITE_BACK_XN,
    region_row ''XBL RAMDUMP'' 0x80640000 0x001c0000 AddMem MEM_RES UNCACHEABLE Conv UNCACHED_UNBUFFERED_XN,
    region_row ''AOP'' 0x80800000 0x000a0000 AddMem MEM_RES UNCACHEABLE Reserv UNCACHED_UNBUFFERED_XN,
    region_row ''SMEM'' 0x80900000 0x00200000 AddMem MEM_RES UNCACHEABLE Reserv UNCACHED_UNBUFFERED_XN,
    region_row ''PIL Reserved'' 0x85200000 0x1dc00000 AddMem MEM_RES UNCACHEABLE Reserv UNCACHED_UNBUFFERED_XN,
    region_row ''DBI Dump'' 0xa6000000 0x00f00000 NoHob MMAP_IO INITIALIZED Conv UNCACHED_UNBUFFERED_XN,
    region_row ''FD Reserved'' 0xa7000000 0x00100000 AddMem SYS_MEM SYS_MEM_CAP BsData WRITE_BACK,
    region_row ''UEFI FD'' 0xa7100000 0x00300000 AddMem SYS_MEM SYS_MEM_CAP BsData WRITE_BACK,
    region_row ''UEFI FD Reserved'' 0xa7400000 0x00200000 AddMem SYS_MEM SYS_MEM_CAP BsData WRITE_BACK,
    region_row ''Info Blk'' 0xa7601000 0x00001000 AddMem SYS_MEM SYS_MEM_CAP RtData WRITE_BACK_XN,
    region_row ''MMU PageTables'' 0xa7602000 0x00003000 AddMem SYS_MEM SYS_MEM_CAP BsData WRITE_BACK_XN,
    region_row ''Log Buffer'' 0xa7605000 0x00008000 AddMem SYS_MEM SYS_MEM_CAP RtData WRITE_BACK_XN,
    region_row ''UEFI Stack'' 0xa760d000 0x00040000 AddMem SYS_MEM SYS_MEM_CAP BsData WRITE_BACK_XN,
    region_row ''SEC Heap'' 0xa764d000 0x0008c000 AddMem SYS_MEM SYS_MEM_CAP BsData WRITE_BACK_XN,
    region_row ''Sched Heap'' 0xa76d9000 0x00400000 AddMem SYS_MEM SYS_MEM_CAP BsData WRITE_BACK_XN,
    region_row ''FV Region'' 0xa7ad9000 0x00400000 AddMem SYS_MEM SYS_MEM_CAP BsData WRITE_BACK_XN,
    region_row ''UEFI RESV'' 0xa7ed9000 0x00127000 AddMem SYS_MEM SYS_MEM_CAP BsData WRITE_BACK_XN,
    region_row ''Kernel'' 0xa8000000 0x10000000 AddMem SYS_MEM SYS_MEM_CAP Reserv WRITE_BACK_XN,
    region_row ''Display Reserved'' 0xb8000000 0x02b00000 AddMem MEM_RES SYS_MEM_CAP Reserv WRITE_THROUGH_XN,
    region_row ''OEM VM'' 0xbb000000 0x05000000 AddMem SYS_MEM SYS_MEM_CAP Reserv WRITE_BACK_XN,
    region_row ''MTE Reserved'' 0xc0000000 0x20000000 AddMem SYS_MEM SYS_MEM_CAP Reserv WRITE_BACK_XN,
    region_row ''VM PIL'' 0xe0000000 0x05700000 AddMem SYS_MEM SYS_MEM_CAP Reserv WRITE_BACK_XN,
    region_row ''TZApps Reserved'' 0xea000000 0x07400000 AddMem MEM_RES UNCACHEABLE Reserv UNCACHED_UNBUFFERED_XN,
    region_row ''DXE Heap'' 0xf8000000 0x07c00000 AddMem SYS_MEM SYS_MEM_CAP Conv WRITE_BACK_XN,
    region_row ''HYP Reserved'' 0x830000000 0x10000000 AddMem SYS_MEM SYS_MEM_CAP Reserv WRITE_BACK_XN,
    region_row ''IMEM Base'' 0x14680000 0x0002a000 NoHob MMAP_IO INITIALIZED Conv NS_DEVICE,
    region_row ''IMEM Cookie Base'' 0x146aa000 0x00016000 AddDev MMAP_IO INITIALIZED Conv NS_DEVICE,
    region_row ''IPC_ROUTER_TOP'' 0x00400000 0x00100000 AddDev MMAP_IO UNCACHEABLE MmIO NS_DEVICE,
    region_row ''SECURITY CONTROL'' 0x00780000 0x00007000 AddDev MMAP_IO UNCACHEABLE MmIO NS_DEVICE,
    region_row ''QUP'' 0x00800000 0x00300000 AddDev MMAP_IO UNCACHEABLE MmIO NS_DEVICE,
    region_row ''PRNG_CFG_PRNG'' 0x010c0000 0x0000c000 AddDev MMAP_IO UNCACHEABLE MmIO NS_DEVICE,
    region_row ''CRYPTO0 CRYPTO'' 0x01dc0000 0x00040000 AddDev MMAP_IO UNCACHEABLE MmIO NS_DEVICE,
    region_row ''TCSR_TCSR_REGS'' 0x01fc0000 0x00030000 AddDev MMAP_IO UNCACHEABLE MmIO NS_DEVICE,
    region_row ''PERIPH_SS'' 0x08800000 0x00100000 AddDev MMAP_IO UNCACHEABLE MmIO NS_DEVICE,
    region_row ''USB'' 0x0a600000 0x00200000 AddDev MMAP_IO UNCACHEABLE MmIO NS_DEVICE,
    region_row ''AOSS'' 0x0b000000 0x04000000 AddDev MMAP_IO UNCACHEABLE MmIO NS_DEVICE,
    region_row ''TLMM'' 0x0f000000 0x01000000 AddDev MMAP_IO UNCACHEABLE MmIO NS_DEVICE,
    region_row ''SMMU'' 0x15000000 0x00200000 AddDev MMAP_IO UNCACHEABLE MmIO NS_DEVICE,
    region_row ''APSS_HM'' 0x17000000 0x02000000 AddDev MMAP_IO UNCACHEABLE MmIO NS_DEVICE]"

lemma ships_ingres: "ships True 0x80000000 gMemoryDescriptor_ingres"
  apply (rule shipsI_in_order)
  subgoal by (rule boot_regionsI(1); unfold gMemoryDescriptor_ingres_def; (rule lists_region_here | rule lists_region_skip)+)
  subgoal unfolding gMemoryDescriptor_ingres_def by (simp only: span_eval) simp
  done

definition gMemoryDescriptor_lancelot :: "region list" where
  "gMemoryDescriptor_lancelot = [
    region_row ''UEFI Stack'' 0x40000000 0x00040000 AddMem SYS_MEM SYS_MEM_CAP BsData WRITE_BACK,
    region_row ''UEFI FD'' 0x40080000 0x00200000 AddMem SYS_MEM SYS_MEM_CAP BsData WRITE_BACK,
    region_row ''DXE Heap'' 0x40280000 0x03c00000 AddMem SYS_MEM SYS_MEM_CAP Conv WRITE_BACK,
    region_row ''ATF Reserved'' 0x4ce00000 0x00060000 AddMem MEM_RES SYS_MEM_CAP Reserv WRITE_BACK,
    region_row ''TEE Reserved'' 0x70000000 0x05000000 AddMem MEM_RES SYS_MEM_CAP Reserv WRITE_BACK,
    region_row ''AP MD C SMEM'' 0x76000000 0x00c00000 AddMem MEM_RES SYS_MEM_CAP Reserv WRITE_BACK,
    region_row ''SPM Reserved'' 0x77ff0000 0x00010000 AddMem MEM_RES SYS_MEM_CAP Reserv WRITE_BACK,
    region_row ''AP MD NC SMEM'' 0x78000000 0x01000000 AddMem MEM_RES SYS_MEM_CAP Reserv WRITE_BACK,
    region_row ''Display Reserved'' 0x7d9b0000 0x02250000 AddMem MEM_RES SYS_MEM_CAP Reserv WRITE_THROUGH,
    region_row ''TEE SecMem'' 0x7fc00000 0x00200000 AddMem MEM_RES SYS_MEM_CAP Reserv WRITE_BACK,
    region_row ''SSPM Reserved'' 0x7ff00000 0x000c0000 AddMem MEM_RES SYS_MEM_CAP Reserv WRITE_BACK,
    region_row ''SCP Reserved'' 0x9f900000 0x00600000 AddMem MEM_RES SYS_MEM_CAP Reserv WRITE_BACK,
    region_row ''CCCI Tag Mem'' 0x9ffef000 0x00010000 AddMem MEM_RES SYS_MEM_CAP Reserv WRITE_BACK,
    region_row ''MD Mem Usage'' 0xae000000 0x10000000 AddMem MEM_RES SYS_MEM_CAP Reserv WRITE_BACK,
    region_row ''TEE Log Reserved'' 0xbfc00000 0x00020000 AddMem MEM_RES SYS_MEM_CAP Reserv WRITE_BACK,
    region_row ''ATF Log Reserved'' 0xbfe00000 0x00040000 AddMem MEM_RES SYS_MEM_CAP Reserv WRITE_BACK,
    region_row ''ATF Ramdump'' 0xbff80000 0x00080000 AddMem MEM_RES SYS_MEM_CAP Reserv WRITE_BACK,
    region_row ''GIC Distributor'' 0x0c000000 0x00040000 AddDev MMAP_IO UNCACHEABLE MmIO NS_DEVICE,
    region_row ''GIC Redistributors'' 0x0c040000 0x00200000 AddDev MMAP_IO UNCACHEABLE MmIO NS_DEVICE,
    region_row ''Top Ck Gen'' 0x10000000 0x00001000 AddDev MMAP_IO UNCACHEABLE MmIO NS_DEVICE,
    region_row ''Infra Cfg AO'' 0x10001000 0x00001000 AddDev MMAP_IO UNCACHEABLE MmIO NS_DEVICE,
    region_row ''Pinctrl'' 0x10005000 0x00001000 AddDev MMAP_IO UNCACHEABLE MmIO NS_DEVICE,
    region_row ''WatchDog Timer'' 0x10007000 0x00001000 AddDev MMAP_IO UNCACHEABLE MmIO NS_DEVICE,
    region_row ''AP Mixed'' 0x1000c000 0x00001000 AddDev MMAP_IO UNCACHEABLE MmIO NS_DEVICE,
    region_row ''PMIC Wrapper'' 0x1000d000 0x00001000 AddDev MMAP_IO UNCACHEABLE MmIO NS_DEVICE,
    region_row ''EMI'' 0x10219000 0x00001000 AddDev MMAP_IO UNCACHEABLE MmIO NS_DEVICE,
    region_row ''MSDC-0'' 0x11230000 0x00010000 AddDev MMAP_IO UNCACHEABLE MmIO NS_DEVICE,
    region_row ''MSDC-1'' 0x11240000 0x00010000 AddDev MMAP_IO UNCACHEABLE MmIO NS_DEVICE,
    region_row ''MSDC Top-0'' 0x11c90000 0x00001000 AddDev MMAP_IO UNCACHEABLE MmIO NS_DEVICE,
    region_row ''MSDC Top-1'' 0x11cd0000 0x00001000 AddDev MMAP_IO UNCACHEABLE MmIO NS_DEVICE,
    region_row ''Display OVL'' 0x1400b000 0x00001000 AddDev MMAP_IO UNCACHEABLE MmIO NS_DEVICE]"

lemma ships_lancelot: "ships True 0x40000000 gMemoryDescriptor_lancelot"
  apply (rule shipsI_in_order)
  subgoal by (rule boot_regionsI(1); unfold gMemoryDescriptor_lancelot_def; (rule lists_region_here | rule lists_region_skip)+)
  subgoal unfolding gMemoryDescriptor_lancelot_def by (simp only: span_eval) simp
  done

definition platform_maps_4 :: "(string \<times> u64 \<times> region list) list" where
  "platform_maps_4 = [
    (''Samsung/r8s'', 0x80000000, gMemoryDescriptor_r8s),
    (''Samsung/r9qb2'', 0x80000000, gMemoryDescriptor_r9qb2),
    (''Samsung/starlte'', 0x80000000, gMemoryDescriptor_starlte),
    (''Samsung/starqltechn'', 0x80000000, gMemoryDescriptor_starqltechn),
    (''Samsung/x1s'', 0x80000000, gMemoryDescriptor_x1s),
    (''Xiaomi/alioth'', 0x80000000, gMemoryDescriptor_alioth),
    (''Xiaomi/annibale'', 0x80000000, gMemoryDescriptor_annibale),
    (''Xiaomi/cepheus'', 0x80000000, gMemoryDescriptor_cepheus),
    (''Xiaomi/citrus'', 0x40000000, gMemoryDescriptor_citrus),
    (''Xiaomi/equuleus'', 0x80000000, gMemoryDescriptor_equuleus),
    (''Xiaomi/fog'', 0x40000000, gMemoryDescriptor_fog),
    (''Xiaomi/garnet'', 0x80000000, gMemoryDescriptor_garnet),
    (''Xiaomi/ginkgo'', 0x40000000, gMemoryDescriptor_ginkgo),
    (''Xiaomi/ingres'', 0x80000000, gMemoryDescriptor_ingres),
    (''Xiaomi/lancelot'', 0x40000000, gMemoryDescriptor_lancelot)]"

end
