(* ===== verification/ShippedMaps.thy ===== *)
theory ShippedMaps
  imports PlatformMaps1 PlatformMaps2 PlatformMaps3 PlatformMaps4 PlatformMaps5 PlatformMaps6
begin

text \<open>
  All the platforms of the repository, with the value of \<open>PcdSystemMemoryBase\<close> that the
  platform's \<open>.dsc\<close> or \<open>.fdf\<close> file sets, and the verdict of the validation on their maps.
\<close>

definition shipped_maps :: "(string \<times> u64 \<times> region list) list" where
  "shipped_maps = platform_maps_1 @ platform_maps_2 @ platform_maps_3 @ platform_maps_4
     @ platform_maps_5 @ platform_maps_6"

definition overlapping_platforms :: "string list" where
  "overlapping_platforms = [''LG/caymanslm'', ''Samsung/beyond1lte'']"

definition ships_as_listed :: "string \<times> u64 \<times> region list \<Rightarrow> bool" where
  "ships_as_listed e = (case e of (p, base, mm) \<Rightarrow>
     ships (p \<notin> set overlapping_platforms) base mm)"

lemma platform_maps_1_ship: "list_all ships_as_listed platform_maps_1"
  unfolding platform_maps_1_def list.pred_inject
  by (simp add: ships_as_listed_def overlapping_platforms_def
    ships_i005d ships_caymanslm ships_mh2 ships_9707f
    ships_j706f ships_caprip ships_cebu ships_nx
    ships_pong ships_spacewar ships_aston ships_cheeseburger
    ships_dodge ships_enchilada ships_giulia)

lemma platform_maps_2_ship: "list_all ships_as_listed platform_maps_2"
  unfolding platform_maps_2_def list.pred_inject
  by (simp add: ships_as_listed_def overlapping_platforms_def
    ships_infiniti ships_kebab ships_lemonade ships_macan
    ships_pagani ships_salami ships_qrd8550 ships_bale_b
    ships_bitra ships_senna_a ships_senna_bc ships_a10
    ships_a52q ships_a52sxq ships_a7)

lemma platform_maps_3_ship: "list_all ships_as_listed platform_maps_3"
  unfolding platform_maps_3_def list.pred_inject
  by (simp add: ships_as_listed_def overlapping_platforms_def
    ships_b4q ships_b5q ships_beyond1lte ships_c1s
    ships_dm2q ships_dreamlte ships_e1s ships_gta4l
    ships_gta9pwifi ships_gtaxllte ships_gts8p ships_gts9wifi
    ships_q2q ships_r0q ships_r8q)

lemma platform_maps_4_ship: "list_all ships_as_listed platform_maps_4"
  unfolding platform_maps_4_def list.pred_inject
  by (simp add: ships_as_listed_def overlapping_platforms_def
    ships_r8s ships_r9qb2 ships_starlte ships_starqltechn
    ships_x1s ships_alioth ships_annibale ships_cepheus
    ships_citrus ships_equuleus ships_fog ships_garnet
    ships_ginkgo ships_ingres ships_lancelot)

lemma platform_maps_5_ship: "list_all ships_as_listed platform_maps_5"
  unfolding platform_maps_5_def list.pred_inject
  by (simp add: ships_as_listed_def overlapping_platforms_def
    ships_laurel_sprout ships_lavender ships_lime ships_lisa
    ships_marble ships_miatoll ships_muyu ships_nabu
    ships_nitrogen ships_nuwa ships_onyx ships_peridot
    ships_phoenix ships_pipa ships_polaris)

lemma platform_maps_6_ship: "list_all ships_as_listed platform_maps_6"
  unfolding platform_maps_6_def list.pred_inject
  by (simp add: ships_as_listed_def overlapping_platforms_def
    ships_renoir ships_spes ships_stone ships_surya
    ships_sweet_k6a ships_tapas ships_vayu ships_venus
    ships_veux ships_vili ships_willow ships_nx729j)

lemma shipped_maps_ship:
  assumes "(p, base, mm) \<in> set shipped_maps"
  shows "ships (p \<notin> set overlapping_platforms) base mm"
proof -
  have "list_all ships_as_listed shipped_maps"
    by (simp only: shipped_maps_def list_all_append platform_maps_1_ship platform_maps_2_ship
        platform_maps_3_ship platform_maps_4_ship platform_maps_5_ship platform_maps_6_ship)
  with assms show ?thesis by (auto simp: list_all_iff ships_as_listed_def)
qed

section \<open>Properties\<close>

text \<open>C7. The memory map of every platform in the repository passes ValidateMemoryMap, sorted,
  with or without assertions, except those of two: on LG caymanslm and on Samsung
  beyond1lte two regions of system memory overlap, so the boot stops in the
  CPU dead loop.\<close>

theorem shipped_maps_verdict:
  assumes "sorts_with CompareMemoryRegions srt" and "(p, base, mm) \<in> set shipped_maps"
  shows "ValidateMemoryMap dbg srt base mm =
    (if p = ''LG/caymanslm'' \<or> p = ''Samsung/beyond1lte'' then Inl CPU_DEAD_LOOP
     else Inr (srt mm))"
  using ships_verdict [OF assms(1) shipped_maps_ship [OF assms(2)], of dbg]
  by (simp add: overlapping_platforms_def)

lemma shipped_maps_verdict_witness:
  "ValidateMemoryMap True address_sort 0x80000000 gMemoryDescriptor_caymanslm = Inl CPU_DEAD_LOOP
   \<and> ValidateMemoryMap True address_sort 0x80000000 gMemoryDescriptor_i005d
       = Inr (address_sort gMemoryDescriptor_i005d)"
  using shipped_maps_verdict [OF region_order.sort_key_sorts, of "''LG/caymanslm''" "0x80000000"
      gMemoryDescriptor_caymanslm True]
    shipped_maps_verdict [OF region_order.sort_key_sorts, of "''Asus/i005d''" "0x80000000"
      gMemoryDescriptor_i005d True]
  by (simp add: shipped_maps_def platform_maps_1_def)

end
