(* ===== verification/Sec.thy ===== *)
theory Sec
  imports FrameBuffer ShippedMaps
begin

text \<open>
  The SEC phase: \<open>SiliciumPkg/Sec/Sec.c\<close>, from the entry point to the DXE core.

  A run is the list of the calls it makes to the processor, the platform libraries and the
  core, in order, with the arguments that come from the code. Their code is not in this
  repository or is modelled elsewhere: the status each returns is a field of \<open>sec_platform\<close>,
  except for \<open>MemoryPeim\<close>, which is the function of \<open>MemoryInit\<close>. The local region
  descriptors are not initialised in the code, so their first content is an argument
  (\<open>garbage\<close>). \<open>sec_debug\<close> says whether \<open>MDEPKG_NDEBUG\<close> is undefined.

  What is shown: on every platform of the repository the run does not depend on the garbage
  and goes on as far as the statuses of the MMU, of \<open>PlatformPeim\<close> and of the decompression let it
  (to the DXE core when all succeed), or stops in the dead loop of \<open>ValidateMemoryMap\<close> on the two
  platforms with overlapping regions (\<open>sec_boots_shipped\<close>); on a map without the regions it
  zeroes whatever range is on the stack (\<open>sec_clears_garbage\<close>).
\<close>

section \<open>Runs\<close>

datatype sec_call =
    ArmDisableDataCache | ArmInvalidateInstructionCache | ArmEnableInstructionCache
  | InvalidateDataCacheRange u64 u64 | ArmWriteVBar u64
  | PlatformInitialize | SerialInitialize | SecZeroMem u64 u64 | VersionMessage
  | InitializeDebugAgent | SaveAndSetDebugTimerInterrupt
  | HobConstructor u64 u64 u64 u64 | PrePeiSetHobList | BuildHobs "hob list" | BuildStackHob u64 u64
  | BuildCpuHob | SetBootMode | PlatformPeim | ProcessLibraryConstructorList
  | DecompressFirstFv | LoadDxeCoreFromFv

record sec_platform =
  sec_debug :: bool
  sec_map :: "region list"
  sec_stricmp :: "string \<Rightarrow> string \<Rightarrow> int"
  sec_sort :: "region list \<Rightarrow> region list"
  sec_base :: u64
  sec_mti :: bool
  sec_mmu :: "arm_memory_region_descriptor list \<Rightarrow> efi_status"
  StackBase :: u64
  StackSize :: u64
  FdBase :: u64
  FdSize :: u64
  SecVectorTable :: u64
  VectorAlignment :: u64
  peim_platform :: efi_status
  decompress :: efi_status
  dxe_core :: efi_status

text \<open>A step gives the calls it made and either a halt or a result.\<close>

type_synonym 'a sec = "sec_call list \<times> (halt + 'a)"

definition sec_bind :: "'a sec \<Rightarrow> ('a \<Rightarrow> 'b sec) \<Rightarrow> 'b sec" where
  "sec_bind p f = (case p of
     (cs, Inl h) \<Rightarrow> (cs, Inl h)
   | (cs, Inr x) \<Rightarrow> (case f x of (ds, r) \<Rightarrow> (cs @ ds, r)))"

definition sec_do :: "sec_call list \<Rightarrow> 'a \<Rightarrow> 'a sec" where
  "sec_do cs x = (cs, Inr x)"

lemma sec_bind_simps [simp]:
  "sec_bind (sec_do cs x) f = (cs @ fst (f x), snd (f x))"
  "sec_bind (cs, Inl h) f = (cs, Inl h)"
  "sec_bind (cs, Inr x) f = (cs @ fst (f x), snd (f x))"
  by (simp_all add: sec_bind_def sec_do_def split_beta)

lemma sec_do_simps [simp]: "fst (sec_do cs x) = cs" "snd (sec_do cs x) = Inr x"
  by (simp_all add: sec_do_def)

section \<open>The SEC phase\<close>

definition ClearFrameBuffer :: "sec_platform \<Rightarrow> region \<Rightarrow> unit sec" where
  "ClearFrameBuffer p garbage =
     (let FrameBufferRegion =
        locate_either (sec_stricmp p) (sec_map p) ''Display Reserved'' ''Display_Reserved'' garbage
      in if Address FrameBufferRegion \<noteq> 0 \<and> Length FrameBufferRegion \<noteq> 0
         then sec_do [SecZeroMem (Address FrameBufferRegion) (Length FrameBufferRegion)] ()
         else sec_do [] ())"

definition PrintFirmwareVersion :: "sec_platform \<Rightarrow> region \<Rightarrow> unit sec" where
  "PrintFirmwareVersion p garbage =
     sec_bind (ClearFrameBuffer p garbage) (\<lambda>_. sec_do [VersionMessage] ())"

text \<open>\<open>MemoryPeim\<close> with the HOBs it builds as a call.\<close>

definition sec_MemoryPeim :: "sec_platform \<Rightarrow> efi_status sec" where
  "sec_MemoryPeim p =
     (case MemoryPeim (sec_debug p) (sec_sort p) (sec_base p) (sec_mti p) (sec_mmu p) (sec_map p) of
        Inl h \<Rightarrow> ([], Inl h)
      | Inr res \<Rightarrow> ([BuildHobs (peim_hobs res)], Inr (peim_status res)))"

definition InitializeMemory :: "sec_platform \<Rightarrow> region \<Rightarrow> efi_status sec" where
  "InitializeMemory p garbage =
     (let UefiMemoryRegion =
        locate_either (sec_stricmp p) (sec_map p) ''DXE Heap'' ''DXE_Heap'' garbage;
          UefiMemoryBase = Address UefiMemoryRegion;
          UefiMemorySize = Length UefiMemoryRegion
      in if UefiMemoryBase = 0 \<and> UefiMemorySize = 0 then sec_do [] EFI_NOT_FOUND
         else sec_bind (sec_do [HobConstructor UefiMemoryBase UefiMemorySize UefiMemoryBase
                (UefiMemoryBase + UefiMemorySize), PrePeiSetHobList] ())
           (\<lambda>_. sec_bind (sec_MemoryPeim p)
             (\<lambda>Status. if EFI_ERROR Status then sec_do [] Status
                else sec_do [BuildStackHob (StackBase p) (StackSize p)] EFI_SUCCESS)))"

definition SecMain :: "sec_platform \<Rightarrow> region \<Rightarrow> region \<Rightarrow> unit sec" where
  "SecMain p garbage1 garbage2 =
     sec_bind (sec_do [PlatformInitialize] ()) (\<lambda>_.
     sec_bind (if sec_debug p then sec_do [SerialInitialize] SerialPortInitialize
               else sec_do [] EFI_SUCCESS) (\<lambda>Status.
     if EFI_ERROR Status then sec_do [] () else
     sec_bind (if sec_debug p then sec_bind (PrintFirmwareVersion p garbage1)
                 (\<lambda>_. sec_do [InitializeDebugAgent, SaveAndSetDebugTimerInterrupt] ())
               else sec_do [] ()) (\<lambda>_.
     sec_bind (InitializeMemory p garbage2) (\<lambda>Status.
     if EFI_ERROR Status then sec_do [] () else
     sec_bind (sec_do [BuildCpuHob, SetBootMode, PlatformPeim] (peim_platform p)) (\<lambda>Status.
     if EFI_ERROR Status then sec_do [] () else
     sec_bind (sec_do [ProcessLibraryConstructorList, DecompressFirstFv] (decompress p)) (\<lambda>Status.
     if EFI_ERROR Status then sec_do [] () else
     sec_do [LoadDxeCoreFromFv] ()))))))"

definition SecEntry :: "sec_platform \<Rightarrow> region \<Rightarrow> region \<Rightarrow> unit sec" where
  "SecEntry p garbage1 garbage2 =
     sec_bind (sec_do [ArmDisableDataCache, ArmInvalidateInstructionCache, ArmEnableInstructionCache,
         InvalidateDataCacheRange (StackBase p) (StackSize p),
         InvalidateDataCacheRange (FdBase p) (FdSize p)] ()) (\<lambda>_.
     if sec_debug p \<and> \<not> (SecVectorTable p AND VectorAlignment p) = 0 then ([], Inl ASSERT_FAILED)
     else sec_bind (sec_do [ArmWriteVBar (SecVectorTable p)] ()) (\<lambda>_. SecMain p garbage1 garbage2))"

section \<open>Lemmas\<close>

text \<open>Looking up a region under two spellings: when the map has one, the result is a region of
  the map and does not depend on what the descriptor held.\<close>

lemma by_name_loop_result:
  "by_name_loop cmp n mm r = (case List.find (\<lambda>d. cmp n (Name d) = 0) mm of
     None \<Rightarrow> (EFI_NOT_FOUND, r) | Some d \<Rightarrow> (EFI_SUCCESS, d))"
  by (induction mm) auto

lemma locate_either_eq:
  "locate_either cmp mm n1 n2 r = snd (by_name_loop cmp n2 mm (snd (by_name_loop cmp n1 mm r)))"
  by (simp add: locate_either_def LocateMemoryRegionByName_def)

lemma find_Some_mem: "List.find P xs = Some x \<Longrightarrow> x \<in> set xs"
  by (auto simp: find_Some_iff)

lemma find_Some_holds: "List.find P xs = Some x \<Longrightarrow> P x"
  by (auto simp: find_Some_iff)

definition named :: "(string \<Rightarrow> string \<Rightarrow> int) \<Rightarrow> string \<Rightarrow> region \<Rightarrow> bool" where
  "named cmp n d \<longleftrightarrow> cmp n (Name d) = 0"

text \<open>The first region with the second name, or else the first one with the first name.\<close>

definition region_named :: "(string \<Rightarrow> string \<Rightarrow> int) \<Rightarrow> region list \<Rightarrow> string \<Rightarrow> string \<Rightarrow> region \<Rightarrow> bool" where
  "region_named cmp mm n1 n2 d \<longleftrightarrow> List.find (named cmp n2) mm = Some d
     \<or> List.find (named cmp n2) mm = None \<and> List.find (named cmp n1) mm = Some d"

lemma region_named_mem: "region_named cmp mm n1 n2 d \<Longrightarrow> d \<in> set mm \<and> (named cmp n1 d \<or> named cmp n2 d)"
  by (auto simp: region_named_def dest: find_Some_mem find_Some_holds)

lemma locate_either_hit:
  assumes refl: "\<And>n. cmp n n = 0" and lists: "lists_region n1 mm \<or> lists_region n2 mm"
  obtains d where "region_named cmp mm n1 n2 d" "\<And>r. locate_either cmp mm n1 n2 r = d"
proof -
  have loop: "by_name_loop cmp n mm r = (case List.find (named cmp n) mm of
     None \<Rightarrow> (EFI_NOT_FOUND, r) | Some d \<Rightarrow> (EFI_SUCCESS, d))" for n r
    unfolding by_name_loop_result named_def ..
  have hit: "\<exists>d. List.find (named cmp n) mm = Some d" if l: "lists_region n mm" for n
  proof -
    obtain d0 where "d0 \<in> set mm" "Name d0 = n" using l by (auto simp: lists_region_def)
    then have "List.find (named cmp n) mm \<noteq> None"
      using refl by (auto simp: find_None_iff named_def)
    then show ?thesis by blast
  qed
  show ?thesis
  proof (cases "List.find (named cmp n2) mm")
    case None
    then have "lists_region n1 mm" using hit lists by fastforce
    then obtain d where "List.find (named cmp n1) mm = Some d" using hit by blast
    with None show ?thesis by (intro that [of d]) (simp_all add: region_named_def locate_either_eq loop)
  next
    case (Some d)
    then show ?thesis by (intro that [of d]) (simp_all add: region_named_def locate_either_eq loop)
  qed
qed

lemma locate_either_miss:
  assumes "\<And>d. d \<in> set mm \<Longrightarrow> cmp n1 (Name d) \<noteq> 0 \<and> cmp n2 (Name d) \<noteq> 0"
  shows "locate_either cmp mm n1 n2 r = r"
proof -
  have "List.find (\<lambda>d. cmp n1 (Name d) = 0) mm = None" "List.find (\<lambda>d. cmp n2 (Name d) = 0) mm = None"
    using assms by (auto simp: find_None_iff)
  then show ?thesis by (simp add: locate_either_eq by_name_loop_result)
qed

text \<open>The runs of a platform whose map lists the two regions, none of them empty, and whose vector
  table is aligned.\<close>

definition sec_run :: "sec_platform \<Rightarrow> region \<Rightarrow> region \<Rightarrow> sec_call list" where
  "sec_run p fb heap =
     [ArmDisableDataCache, ArmInvalidateInstructionCache, ArmEnableInstructionCache,
      InvalidateDataCacheRange (StackBase p) (StackSize p),
      InvalidateDataCacheRange (FdBase p) (FdSize p), ArmWriteVBar (SecVectorTable p),
      PlatformInitialize] @
     (if sec_debug p then [SerialInitialize, SecZeroMem (Address fb) (Length fb), VersionMessage,
        InitializeDebugAgent, SaveAndSetDebugTimerInterrupt] else []) @
     [HobConstructor (Address heap) (Length heap) (Address heap) (Address heap + Length heap),
      PrePeiSetHobList]"

text \<open>What follows once the memory is described, with the status of the MMU; every later step is
  taken only when those before it succeeded.\<close>

definition sec_tail :: "sec_platform \<Rightarrow> efi_status \<Rightarrow> hob list \<Rightarrow> sec_call list" where
  "sec_tail p mmu_status hobs = BuildHobs hobs #
     (if EFI_ERROR mmu_status then []
      else [BuildStackHob (StackBase p) (StackSize p), BuildCpuHob, SetBootMode, PlatformPeim] @
       (if EFI_ERROR (peim_platform p) then []
        else [ProcessLibraryConstructorList, DecompressFirstFv] @
         (if EFI_ERROR (decompress p) then [] else [LoadDxeCoreFromFv])))"

lemma sec_run_found:
  assumes aligned: "SecVectorTable p AND VectorAlignment p = 0"
    and fb: "locate_either (sec_stricmp p) (sec_map p) ''Display Reserved'' ''Display_Reserved'' g1 = fb"
    and heap: "locate_either (sec_stricmp p) (sec_map p) ''DXE Heap'' ''DXE_Heap'' g2 = heap"
    and "Address fb \<noteq> 0" "Length fb \<noteq> 0" "Address heap \<noteq> 0"
  shows "SecEntry p g1 g2 =
    (case MemoryPeim (sec_debug p) (sec_sort p) (sec_base p) (sec_mti p) (sec_mmu p) (sec_map p) of
       Inl h \<Rightarrow> (sec_run p fb heap, Inl h)
     | Inr res \<Rightarrow> (sec_run p fb heap @ sec_tail p (peim_status res) (peim_hobs res), Inr ()))"
proof (cases "MemoryPeim (sec_debug p) (sec_sort p) (sec_base p) (sec_mti p) (sec_mmu p) (sec_map p)")
  case (Inl h)
  with assms show ?thesis
    by (cases "sec_debug p") (simp_all add: SecEntry_def SecMain_def PrintFirmwareVersion_def ClearFrameBuffer_def Let_def
        InitializeMemory_def sec_MemoryPeim_def sec_run_def SerialPortInitialize_def)
next
  case (Inr res)
  with assms show ?thesis
    by (cases "sec_debug p"; cases "EFI_ERROR (peim_status res)"; cases "EFI_ERROR (peim_platform p)";
        cases "EFI_ERROR (decompress p)")
      (simp_all add: SecEntry_def SecMain_def PrintFirmwareVersion_def ClearFrameBuffer_def Let_def
        InitializeMemory_def sec_MemoryPeim_def sec_run_def sec_tail_def SerialPortInitialize_def)
qed

text \<open>A validated map of at most 128 regions is mapped without overrunning the table.\<close>

lemma MemoryPeim_validated:
  assumes srt: "sorts_with CompareMemoryRegions srt" and "length mm \<le> 128"
  shows "ValidateMemoryMap dbg srt base mm = Inl h \<Longrightarrow> MemoryPeim dbg srt base mti mmu mm = Inl h"
    and "ValidateMemoryMap dbg srt base mm = Inr (srt mm) \<Longrightarrow>
      \<exists>res. MemoryPeim dbg srt base mti mmu mm = Inr res"
proof -
  have m: "mset (srt mm) = mset mm" using srt by (simp add: sorts_with_def)
  have "length (mapped (srt mm)) \<le> 128"
    using length_mapped_le [of "srt mm"] m assms(2) by (metis le_trans size_mset)
  then obtain out where "peim_loop (srt mm) 0 (replicate 128 zero_entry) [] = Inr out"
    using peim_loop_ok [of 0 "srt mm" "replicate 128 zero_entry" "[]"] by auto
  then show "ValidateMemoryMap dbg srt base mm = Inr (srt mm) \<Longrightarrow>
      \<exists>res. MemoryPeim dbg srt base mti mmu mm = Inr res"
    by (cases out) (auto simp: MemoryPeim_def Let_def)
qed (simp add: MemoryPeim_def)

section \<open>Properties\<close>

text \<open>C5. On every platform of the repository, with the platform's system memory base, a string
  comparison that finds equal names and an aligned vector table, the SEC phase finds its frame
  buffer and its heap: regions of the map that carry the two names of each, so the
  uninitialised descriptors never matter, the frame buffer is what is zeroed (in debug builds)
  and the heap is where the HOB list goes. On the two platforms whose maps overlap the run stops in the dead loop of the
  validation. On all others the memory is described to the end, and the run goes as far as the
  statuses allow: the error of the MMU, of PlatformPeim or of the decompression ends it right
  there, and otherwise the DXE core is loaded.\<close>

theorem sec_boots_shipped:
  assumes "(name, sec_base p, sec_map p) \<in> set shipped_maps"
    and "sorts_with CompareMemoryRegions (sec_sort p)" "\<And>n. sec_stricmp p n n = 0"
    and "SecVectorTable p AND VectorAlignment p = 0"
  shows "\<exists>fb heap. region_named (sec_stricmp p) (sec_map p) ''Display Reserved'' ''Display_Reserved'' fb
    \<and> region_named (sec_stricmp p) (sec_map p) ''DXE Heap'' ''DXE_Heap'' heap
    \<and> (\<forall>g1 g2. if name = ''LG/caymanslm'' \<or> name = ''Samsung/beyond1lte''
        then SecEntry p g1 g2 = (sec_run p fb heap, Inl CPU_DEAD_LOOP)
        else \<exists>res. MemoryPeim (sec_debug p) (sec_sort p) (sec_base p) (sec_mti p) (sec_mmu p) (sec_map p) = Inr res
          \<and> SecEntry p g1 g2 = (sec_run p fb heap @ sec_tail p (peim_status res) (peim_hobs res), Inr ()))"
proof -
  let ?bad = "name = ''LG/caymanslm'' \<or> name = ''Samsung/beyond1lte''"
  have ships: "ships (\<not> ?bad) (sec_base p) (sec_map p)"
    using shipped_maps_ship [OF assms(1)] by (simp add: overlapping_platforms_def)
  then have lists: "boot_regions (sec_map p)" and len: "length (sec_map p) \<le> 128"
    and nn: "\<And>d. d \<in> set (sec_map p) \<Longrightarrow> Address d \<noteq> 0 \<and> Length d \<noteq> 0"
    by (auto simp: ships_def none_null_def list_all_iff span_of_def unat_eq_zero)
  obtain fb where fb: "region_named (sec_stricmp p) (sec_map p) ''Display Reserved'' ''Display_Reserved'' fb"
    "\<And>r. locate_either (sec_stricmp p) (sec_map p) ''Display Reserved'' ''Display_Reserved'' r = fb"
    using lists locate_either_hit [where cmp = "sec_stricmp p", OF assms(3)] unfolding boot_regions_def by metis
  obtain heap where heap: "region_named (sec_stricmp p) (sec_map p) ''DXE Heap'' ''DXE_Heap'' heap"
    "\<And>r. locate_either (sec_stricmp p) (sec_map p) ''DXE Heap'' ''DXE_Heap'' r = heap"
    using lists locate_either_hit [where cmp = "sec_stricmp p", OF assms(3)] unfolding boot_regions_def by metis
  have mem: "fb \<in> set (sec_map p)" "heap \<in> set (sec_map p)"
    using region_named_mem [OF fb(1)] region_named_mem [OF heap(1)] by simp_all
  note run = sec_run_found [OF assms(4) fb(2) heap(2)]
  have verdict: "ValidateMemoryMap (sec_debug p) (sec_sort p) (sec_base p) (sec_map p) =
      (if \<not> ?bad then Inr (sec_sort p (sec_map p)) else Inl CPU_DEAD_LOOP)"
    by (rule ships_verdict [OF assms(2) ships])
  note peim = MemoryPeim_validated [OF assms(2) len]
  have "if ?bad then SecEntry p g1 g2 = (sec_run p fb heap, Inl CPU_DEAD_LOOP)
      else \<exists>res. MemoryPeim (sec_debug p) (sec_sort p) (sec_base p) (sec_mti p) (sec_mmu p) (sec_map p) = Inr res
        \<and> SecEntry p g1 g2 = (sec_run p fb heap @ sec_tail p (peim_status res) (peim_hobs res), Inr ())" for g1 g2
    using run [of g1 g2] verdict peim(1) [of "sec_debug p" "sec_base p" CPU_DEAD_LOOP "sec_mti p" "sec_mmu p"]
      peim(2) [of "sec_debug p" "sec_base p" "sec_mti p" "sec_mmu p"] nn [OF mem(1)] nn [OF mem(2)]
    by (cases ?bad) auto
  then show ?thesis using fb(1) heap(1) by blast
qed

definition sample_platform :: "region list \<Rightarrow> sec_platform" where
  "sample_platform mm = \<lparr> sec_debug = True, sec_map = mm, sec_stricmp = exact_stricmp,
     sec_sort = address_sort, sec_base = 0x80000000, sec_mti = True, sec_mmu = \<lambda>_. EFI_SUCCESS,
     StackBase = 0x9FF90000, StackSize = 0x40000, FdBase = 0x9FC00000, FdSize = 0x300000,
     SecVectorTable = 0x9FC00800, VectorAlignment = 0x7FF, peim_platform = EFI_SUCCESS,
     decompress = EFI_SUCCESS, dxe_core = EFI_SUCCESS \<rparr>"

lemma sample_platform_good:
  "SecVectorTable (sample_platform mm) AND VectorAlignment (sample_platform mm) = 0"
  "sec_base (sample_platform mm) = 0x80000000"
  "sec_map (sample_platform mm) = mm" "sorts_with CompareMemoryRegions (sec_sort (sample_platform mm))"
  "\<And>n. sec_stricmp (sample_platform mm) n n = 0"
  using region_order.sort_key_sorts
  by (simp_all add: sample_platform_def exact_stricmp_def)

lemma sec_boots_shipped_witness:
  "(\<exists>fb heap. region_named exact_stricmp gMemoryDescriptor_caymanslm ''DXE Heap'' ''DXE_Heap'' heap
      \<and> SecEntry (sample_platform gMemoryDescriptor_caymanslm) undefined undefined
        = (sec_run (sample_platform gMemoryDescriptor_caymanslm) fb heap, Inl CPU_DEAD_LOOP))
   \<and> LoadDxeCoreFromFv \<in> set (fst (SecEntry (sample_platform gMemoryDescriptor_i005d) undefined undefined))"
proof
  have c: "sec_stricmp (sample_platform mm) = exact_stricmp" for mm by (simp add: sample_platform_def)
  have e: "exact_stricmp n n = 0" for n by (simp add: exact_stricmp_def)
  have "(''LG/caymanslm'', 0x80000000, gMemoryDescriptor_caymanslm) \<in> set shipped_maps"
    by (simp add: shipped_maps_def platform_maps_1_def)
  then show "\<exists>fb heap. region_named exact_stricmp gMemoryDescriptor_caymanslm ''DXE Heap'' ''DXE_Heap'' heap
      \<and> SecEntry (sample_platform gMemoryDescriptor_caymanslm) undefined undefined
        = (sec_run (sample_platform gMemoryDescriptor_caymanslm) fb heap, Inl CPU_DEAD_LOOP)"
    using sec_boots_shipped [of "''LG/caymanslm''" "sample_platform gMemoryDescriptor_caymanslm"]
    by (simp add: sample_platform_good c e) blast
  let ?p = "sample_platform gMemoryDescriptor_i005d"
  have ok: "\<not> EFI_ERROR (peim_platform ?p)" "\<not> EFI_ERROR (decompress ?p)" "sec_mmu ?p = (\<lambda>_. EFI_SUCCESS)"
    by (simp_all add: sample_platform_def)
  have "(''Asus/i005d'', 0x80000000, gMemoryDescriptor_i005d) \<in> set shipped_maps"
    by (simp add: shipped_maps_def platform_maps_1_def)
  then obtain fb heap res where
    peim: "MemoryPeim (sec_debug ?p) (sec_sort ?p) (sec_base ?p) (sec_mti ?p) (sec_mmu ?p) (sec_map ?p) = Inr res"
    and run: "SecEntry ?p undefined undefined
        = (sec_run ?p fb heap @ sec_tail ?p (peim_status res) (peim_hobs res), Inr ())"
    using sec_boots_shipped [of "''Asus/i005d''" ?p] by (simp add: sample_platform_good) blast
  have "\<not> EFI_ERROR (peim_status res)"
    using peim by (auto simp: ok MemoryPeim_def Let_def split: sum.splits if_splits)
  then show "LoadDxeCoreFromFv \<in> set (fst (SecEntry ?p undefined undefined))"
    by (simp add: run sec_tail_def ok)
qed

text \<open>Without the regions the descriptors keep what the stack held, and a debug build zeroes
  that range before anything else.\<close>

lemma sec_clears_garbage:
  assumes "\<And>d. d \<in> set (sec_map p) \<Longrightarrow> sec_stricmp p ''Display Reserved'' (Name d) \<noteq> 0
      \<and> sec_stricmp p ''Display_Reserved'' (Name d) \<noteq> 0"
    and "sec_debug p" "Address garbage \<noteq> 0" "Length garbage \<noteq> 0"
  shows "SecZeroMem (Address garbage) (Length garbage) \<in> set (fst (SecMain p garbage g2))"
  using locate_either_miss [where cmp = "sec_stricmp p" and mm = "sec_map p"
      and ?n1.0 = "''Display Reserved''" and ?n2.0 = "''Display_Reserved''" and r = garbage,
      OF assms(1)] assms(2-)
  by (simp add: SecMain_def PrintFirmwareVersion_def ClearFrameBuffer_def Let_def SerialPortInitialize_def)

text \<open>Clearing the frame buffer region puts a valid cursor in its place.\<close>

lemma cleared_cursor:
  assumes "8 \<le> unat l"
  shows "load_position (ZeroMem b (unat l) m) (cursor_at b l) = \<lparr> XPos = 0, YPos = 0 \<rparr>"
proof -
  have z: "ZeroMem b (unat l) m (cursor_at b l + of_nat j) = 0" if "j < 8" for j
  proof -
    have "unat (l - 8) = unat l - 8" using assms by (simp add: unat_diff_le word_le_nat_alt)
    moreover have "unat (l - 8 + of_nat j) = unat (l - 8) + unat (of_nat j :: u64)"
      using calculation that assms unsigned_less [of l, where 'a = nat]
      by (intro unat_add_nowrap) (simp add: unat_of_nat)
    ultimately have "unat (l - 8 + of_nat j) < unat l" using that assms by (simp add: unat_of_nat)
    moreover have "cursor_at b l + of_nat j - b = l - 8 + of_nat j" by (simp add: cursor_at_def)
    ultimately have "unat (cursor_at b l + of_nat j - b) < unat l" by (simp only:)
    then show ?thesis by (simp add: ZeroMem_def)
  qed
  have "ZeroMem b (unat l) m (cursor_at b l + k) = 0" if "k \<in> {0, 1, 2, 3, 4, 5, 6, 7}" for k
    using z [of 0] z [of 1] z [of 2] z [of 3] z [of 4] z [of 5] z [of 6] z [of 7] that by auto
  from this this [of 0] show ?thesis by (simp add: load_position_def read32_def add.assoc)
qed

end
