(* ===== verification/ShippedDisplays.thy ===== *)
theory ShippedDisplays
  imports Sec
begin

text \<open>
  The display of each platform of the repository, from the PCDs in its \<open>.dsc\<close> file (the
  colour depth is 32 on all of them), and whether the console of \<open>FrameBuffer\<close> fits the frame
  buffer region of the platform's memory map.
\<close>

definition fb_names :: "string list" where
  "fb_names = [''Display Reserved'', ''Display_Reserved'']"

definition display :: "u32 \<Rightarrow> u32 \<Rightarrow> fb_config" where
  "display w h = \<lparr> FB_WIDTH = w, FB_HEIGHT = h, FB_BPP = 4 \<rparr>"

text \<open>The verdict on a platform: whether the pixels fit the region, and whether the pixels and
  the cursor do.\<close>

definition display_verdict :: "bool \<Rightarrow> bool \<Rightarrow> fb_config \<Rightarrow> region list \<Rightarrow> bool" where
  "display_verdict inside fits fb mm \<longleftrightarrow> geometry_ok fb \<and>
     (\<forall>r \<in> set mm. Name r \<in> set fb_names \<longrightarrow>
       (screen_bytes fb \<le> unat (Length r) \<longleftrightarrow> inside) \<and> (console_fits fb (Length r) \<longleftrightarrow> fits))"

text \<open>The lengths of the frame buffer regions of a map, one region at a time.\<close>

definition fb_lengths :: "region list \<Rightarrow> u64 list" where
  "fb_lengths mm = map Length (filter (\<lambda>r. Name r \<in> set fb_names) mm)"

lemma fb_lengths_end: "fb_lengths [] = []"
  by (simp add: fb_lengths_def)

lemma fb_lengths_skip:
  "n \<notin> set fb_names \<Longrightarrow> fb_lengths mm = ls \<Longrightarrow> fb_lengths (region_row n a l h t c m r # mm) = ls"
  by (simp add: fb_lengths_def)

lemma fb_lengths_take:
  "fb_lengths mm = ls \<Longrightarrow> fb_lengths (region_row ''Display Reserved'' a l h t c m r # mm) = l # ls"
  "fb_lengths mm = ls \<Longrightarrow> fb_lengths (region_row ''Display_Reserved'' a l h t c m r # mm) = l # ls"
  by (simp_all add: fb_lengths_def fb_names_def)

lemma other_name:
  "n \<noteq> ''Display Reserved'' \<Longrightarrow> n \<noteq> ''Display_Reserved'' \<Longrightarrow> n \<notin> set fb_names"
  by (simp add: fb_names_def)

lemma display_verdictI:
  assumes "fb_lengths mm = [l]" "geometry_ok fb" "screen_bytes fb \<le> unat l \<longleftrightarrow> inside"
    "screen_bytes fb + 8 \<le> unat l \<longleftrightarrow> fits"
  shows "display_verdict inside fits fb mm"
proof -
  have "Length r = l" if "r \<in> set mm" "Name r \<in> set fb_names" for r
  proof -
    have "Length r \<in> set (fb_lengths mm)" using that by (auto simp: fb_lengths_def)
    with assms(1) show ?thesis by simp
  qed
  with assms show ?thesis by (simp add: display_verdict_def console_fits_def)
qed

lemma display_geometry:
  assumes "unat w * unat h * 4 < 2 ^ 32" "6 \<le> unat w" "12 \<le> unat h" "unat w < 109056"
  shows "geometry_ok (display w h)"
  using assms by (simp add: geometry_ok_def display_def)

lemma display_bytes: "screen_bytes (display w h) = unat w * unat h * 4"
  by (simp add: screen_bytes_def display_def)

lemma unat_u32_numeral: "(numeral k :: nat) < 0x100000000 \<Longrightarrow> unat (numeral k :: u32) = numeral k"
  unfolding unsigned_numeral by (simp only: of_nat_id) (rule take_bit_nat_eq_self, simp)

lemmas display_eval = display_bytes unat_u32_numeral unat_u64_numeral numeral_less_iff less_num_simps

lemma display_i005d: "display_verdict True True (display 1080 2448) gMemoryDescriptor_i005d"
  apply (rule display_verdictI [where l = "0x2400000"])
  subgoal unfolding gMemoryDescriptor_i005d_def
    by (rule fb_lengths_end fb_lengths_take | rule fb_lengths_skip, rule other_name, simp, simp)+
  subgoal by (rule display_geometry; simp only: display_eval; simp)
  by (simp only: display_eval, simp)+

lemma display_caymanslm: "display_verdict True True (display 1080 2460) gMemoryDescriptor_caymanslm"
  apply (rule display_verdictI [where l = "0x2400000"])
  subgoal unfolding gMemoryDescriptor_caymanslm_def
    by (rule fb_lengths_end fb_lengths_take | rule fb_lengths_skip, rule other_name, simp, simp)+
  subgoal by (rule display_geometry; simp only: display_eval; simp)
  by (simp only: display_eval, simp)+

lemma display_mh2: "display_verdict True True (display 1080 2340) gMemoryDescriptor_mh2"
  apply (rule display_verdictI [where l = "0x1200000"])
  subgoal unfolding gMemoryDescriptor_mh2_def
    by (rule fb_lengths_end fb_lengths_take | rule fb_lengths_skip, rule other_name, simp, simp)+
  subgoal by (rule display_geometry; simp only: display_eval; simp)
  by (simp only: display_eval, simp)+

lemma display_9707f: "display_verdict True True (display 1600 2560) gMemoryDescriptor_9707f"
  apply (rule display_verdictI [where l = "0x2400000"])
  subgoal unfolding gMemoryDescriptor_9707f_def
    by (rule fb_lengths_end fb_lengths_take | rule fb_lengths_skip, rule other_name, simp, simp)+
  subgoal by (rule display_geometry; simp only: display_eval; simp)
  by (simp only: display_eval, simp)+

lemma display_j706f: "display_verdict True True (display 2560 1600) gMemoryDescriptor_j706f"
  apply (rule display_verdictI [where l = "0x1800000"])
  subgoal unfolding gMemoryDescriptor_j706f_def
    by (rule fb_lengths_end fb_lengths_take | rule fb_lengths_skip, rule other_name, simp, simp)+
  subgoal by (rule display_geometry; simp only: display_eval; simp)
  by (simp only: display_eval, simp)+

lemma display_caprip: "display_verdict True True (display 720 1600) gMemoryDescriptor_caprip"
  apply (rule display_verdictI [where l = "0x1000000"])
  subgoal unfolding gMemoryDescriptor_caprip_def
    by (rule fb_lengths_end fb_lengths_take | rule fb_lengths_skip, rule other_name, simp, simp)+
  subgoal by (rule display_geometry; simp only: display_eval; simp)
  by (simp only: display_eval, simp)+

lemma display_cebu: "display_verdict True True (display 720 1640) gMemoryDescriptor_cebu"
  apply (rule display_verdictI [where l = "0x1000000"])
  subgoal unfolding gMemoryDescriptor_cebu_def
    by (rule fb_lengths_end fb_lengths_take | rule fb_lengths_skip, rule other_name, simp, simp)+
  subgoal by (rule display_geometry; simp only: display_eval; simp)
  by (simp only: display_eval, simp)+

lemma display_nx: "display_verdict True False (display 720 1280) gMemoryDescriptor_nx"
  apply (rule display_verdictI [where l = "0x384000"])
  subgoal unfolding gMemoryDescriptor_nx_def
    by (rule fb_lengths_end fb_lengths_take | rule fb_lengths_skip, rule other_name, simp, simp)+
  subgoal by (rule display_geometry; simp only: display_eval; simp)
  by (simp only: display_eval, simp)+

lemma display_pong: "display_verdict True True (display 1080 2412) gMemoryDescriptor_pong"
  apply (rule display_verdictI [where l = "0x2b00000"])
  subgoal unfolding gMemoryDescriptor_pong_def
    by (rule fb_lengths_end fb_lengths_take | rule fb_lengths_skip, rule other_name, simp, simp)+
  subgoal by (rule display_geometry; simp only: display_eval; simp)
  by (simp only: display_eval, simp)+

lemma display_spacewar: "display_verdict True True (display 1080 2400) gMemoryDescriptor_spacewar"
  apply (rule display_verdictI [where l = "0x2400000"])
  subgoal unfolding gMemoryDescriptor_spacewar_def
    by (rule fb_lengths_end fb_lengths_take | rule fb_lengths_skip, rule other_name, simp, simp)+
  subgoal by (rule display_geometry; simp only: display_eval; simp)
  by (simp only: display_eval, simp)+

lemma display_aston: "display_verdict True True (display 1264 2780) gMemoryDescriptor_aston"
  apply (rule display_verdictI [where l = "0x2b00000"])
  subgoal unfolding gMemoryDescriptor_aston_def
    by (rule fb_lengths_end fb_lengths_take | rule fb_lengths_skip, rule other_name, simp, simp)+
  subgoal by (rule display_geometry; simp only: display_eval; simp)
  by (simp only: display_eval, simp)+

lemma display_cheeseburger: "display_verdict True True (display 1080 1920) gMemoryDescriptor_cheeseburger"
  apply (rule display_verdictI [where l = "0x2400000"])
  subgoal unfolding gMemoryDescriptor_cheeseburger_def
    by (rule fb_lengths_end fb_lengths_take | rule fb_lengths_skip, rule other_name, simp, simp)+
  subgoal by (rule display_geometry; simp only: display_eval; simp)
  by (simp only: display_eval, simp)+

lemma display_dodge: "display_verdict True True (display 1440 3168) gMemoryDescriptor_dodge"
  apply (rule display_verdictI [where l = "0x2b00000"])
  subgoal unfolding gMemoryDescriptor_dodge_def
    by (rule fb_lengths_end fb_lengths_take | rule fb_lengths_skip, rule other_name, simp, simp)+
  subgoal by (rule display_geometry; simp only: display_eval; simp)
  by (simp only: display_eval, simp)+

lemma display_enchilada: "display_verdict True True (display 1080 2280) gMemoryDescriptor_enchilada"
  apply (rule display_verdictI [where l = "0x2400000"])
  subgoal unfolding gMemoryDescriptor_enchilada_def
    by (rule fb_lengths_end fb_lengths_take | rule fb_lengths_skip, rule other_name, simp, simp)+
  subgoal by (rule display_geometry; simp only: display_eval; simp)
  by (simp only: display_eval, simp)+

lemma display_giulia: "display_verdict True True (display 1264 2780) gMemoryDescriptor_giulia"
  apply (rule display_verdictI [where l = "0x2b00000"])
  subgoal unfolding gMemoryDescriptor_giulia_def
    by (rule fb_lengths_end fb_lengths_take | rule fb_lengths_skip, rule other_name, simp, simp)+
  subgoal by (rule display_geometry; simp only: display_eval; simp)
  by (simp only: display_eval, simp)+

lemma display_infiniti: "display_verdict True True (display 1272 2772) gMemoryDescriptor_infiniti"
  apply (rule display_verdictI [where l = "0x2b00000"])
  subgoal unfolding gMemoryDescriptor_infiniti_def
    by (rule fb_lengths_end fb_lengths_take | rule fb_lengths_skip, rule other_name, simp, simp)+
  subgoal by (rule display_geometry; simp only: display_eval; simp)
  by (simp only: display_eval, simp)+

lemma display_kebab: "display_verdict True True (display 1080 2400) gMemoryDescriptor_kebab"
  apply (rule display_verdictI [where l = "0x2400000"])
  subgoal unfolding gMemoryDescriptor_kebab_def
    by (rule fb_lengths_end fb_lengths_take | rule fb_lengths_skip, rule other_name, simp, simp)+
  subgoal by (rule display_geometry; simp only: display_eval; simp)
  by (simp only: display_eval, simp)+

lemma display_lemonade: "display_verdict True True (display 1080 2400) gMemoryDescriptor_lemonade"
  apply (rule display_verdictI [where l = "0x2400000"])
  subgoal unfolding gMemoryDescriptor_lemonade_def
    by (rule fb_lengths_end fb_lengths_take | rule fb_lengths_skip, rule other_name, simp, simp)+
  subgoal by (rule display_geometry; simp only: display_eval; simp)
  by (simp only: display_eval, simp)+

lemma display_macan: "display_verdict True True (display 1272 2800) gMemoryDescriptor_macan"
  apply (rule display_verdictI [where l = "0x2b00000"])
  subgoal unfolding gMemoryDescriptor_macan_def
    by (rule fb_lengths_end fb_lengths_take | rule fb_lengths_skip, rule other_name, simp, simp)+
  subgoal by (rule display_geometry; simp only: display_eval; simp)
  by (simp only: display_eval, simp)+

lemma display_pagani: "display_verdict True True (display 1216 2640) gMemoryDescriptor_pagani"
  apply (rule display_verdictI [where l = "0x2b00000"])
  subgoal unfolding gMemoryDescriptor_pagani_def
    by (rule fb_lengths_end fb_lengths_take | rule fb_lengths_skip, rule other_name, simp, simp)+
  subgoal by (rule display_geometry; simp only: display_eval; simp)
  by (simp only: display_eval, simp)+

lemma display_salami: "display_verdict True True (display 1080 2412) gMemoryDescriptor_salami"
  apply (rule display_verdictI [where l = "0x2b00000"])
  subgoal unfolding gMemoryDescriptor_salami_def
    by (rule fb_lengths_end fb_lengths_take | rule fb_lengths_skip, rule other_name, simp, simp)+
  subgoal by (rule display_geometry; simp only: display_eval; simp)
  by (simp only: display_eval, simp)+

lemma display_qrd8550: "display_verdict True True (display 1080 2400) gMemoryDescriptor_qrd8550"
  apply (rule display_verdictI [where l = "0x2b00000"])
  subgoal unfolding gMemoryDescriptor_qrd8550_def
    by (rule fb_lengths_end fb_lengths_take | rule fb_lengths_skip, rule other_name, simp, simp)+
  subgoal by (rule display_geometry; simp only: display_eval; simp)
  by (simp only: display_eval, simp)+

lemma display_bale_b: "display_verdict True True (display 1264 2780) gMemoryDescriptor_bale_b"
  apply (rule display_verdictI [where l = "0x2b00000"])
  subgoal unfolding gMemoryDescriptor_bale_b_def
    by (rule fb_lengths_end fb_lengths_take | rule fb_lengths_skip, rule other_name, simp, simp)+
  subgoal by (rule display_geometry; simp only: display_eval; simp)
  by (simp only: display_eval, simp)+

lemma display_bitra: "display_verdict True True (display 1080 2400) gMemoryDescriptor_bitra"
  apply (rule display_verdictI [where l = "0x2400000"])
  subgoal unfolding gMemoryDescriptor_bitra_def
    by (rule fb_lengths_end fb_lengths_take | rule fb_lengths_skip, rule other_name, simp, simp)+
  subgoal by (rule display_geometry; simp only: display_eval; simp)
  by (simp only: display_eval, simp)+

lemma display_senna_a: "display_verdict True True (display 1240 2772) gMemoryDescriptor_senna_a"
  apply (rule display_verdictI [where l = "0x2b00000"])
  subgoal unfolding gMemoryDescriptor_senna_a_def
    by (rule fb_lengths_end fb_lengths_take | rule fb_lengths_skip, rule other_name, simp, simp)+
  subgoal by (rule display_geometry; simp only: display_eval; simp)
  by (simp only: display_eval, simp)+

lemma display_senna_bc: "display_verdict True True (display 1240 2772) gMemoryDescriptor_senna_bc"
  apply (rule display_verdictI [where l = "0x2b00000"])
  subgoal unfolding gMemoryDescriptor_senna_bc_def
    by (rule fb_lengths_end fb_lengths_take | rule fb_lengths_skip, rule other_name, simp, simp)+
  subgoal by (rule display_geometry; simp only: display_eval; simp)
  by (simp only: display_eval, simp)+

lemma display_a10: "display_verdict True True (display 720 1520) gMemoryDescriptor_a10"
  apply (rule display_verdictI [where l = "0x85a000"])
  subgoal unfolding gMemoryDescriptor_a10_def
    by (rule fb_lengths_end fb_lengths_take | rule fb_lengths_skip, rule other_name, simp, simp)+
  subgoal by (rule display_geometry; simp only: display_eval; simp)
  by (simp only: display_eval, simp)+

lemma display_a52q: "display_verdict True True (display 1080 2400) gMemoryDescriptor_a52q"
  apply (rule display_verdictI [where l = "0x1800000"])
  subgoal unfolding gMemoryDescriptor_a52q_def
    by (rule fb_lengths_end fb_lengths_take | rule fb_lengths_skip, rule other_name, simp, simp)+
  subgoal by (rule display_geometry; simp only: display_eval; simp)
  by (simp only: display_eval, simp)+

lemma display_a52sxq: "display_verdict True True (display 1080 2400) gMemoryDescriptor_a52sxq"
  apply (rule display_verdictI [where l = "0x2400000"])
  subgoal unfolding gMemoryDescriptor_a52sxq_def
    by (rule fb_lengths_end fb_lengths_take | rule fb_lengths_skip, rule other_name, simp, simp)+
  subgoal by (rule display_geometry; simp only: display_eval; simp)
  by (simp only: display_eval, simp)+

lemma display_a7: "display_verdict False False (display 1080 2220) gMemoryDescriptor_a7"
  apply (rule display_verdictI [where l = "0x85a000"])
  subgoal unfolding gMemoryDescriptor_a7_def
    by (rule fb_lengths_end fb_lengths_take | rule fb_lengths_skip, rule other_name, simp, simp)+
  subgoal by (rule display_geometry; simp only: display_eval; simp)
  by (simp only: display_eval, simp)+

lemma display_b4q: "display_verdict True True (display 1080 2640) gMemoryDescriptor_b4q"
  apply (rule display_verdictI [where l = "0x2b00000"])
  subgoal unfolding gMemoryDescriptor_b4q_def
    by (rule fb_lengths_end fb_lengths_take | rule fb_lengths_skip, rule other_name, simp, simp)+
  subgoal by (rule display_geometry; simp only: display_eval; simp)
  by (simp only: display_eval, simp)+

lemma display_b5q: "display_verdict True True (display 1080 2640) gMemoryDescriptor_b5q"
  apply (rule display_verdictI [where l = "0x2b00000"])
  subgoal unfolding gMemoryDescriptor_b5q_def
    by (rule fb_lengths_end fb_lengths_take | rule fb_lengths_skip, rule other_name, simp, simp)+
  subgoal by (rule display_geometry; simp only: display_eval; simp)
  by (simp only: display_eval, simp)+

lemma display_beyond1lte: "display_verdict True True (display 1440 3040) gMemoryDescriptor_beyond1lte"
  apply (rule display_verdictI [where l = "0x1400000"])
  subgoal unfolding gMemoryDescriptor_beyond1lte_def
    by (rule fb_lengths_end fb_lengths_take | rule fb_lengths_skip, rule other_name, simp, simp)+
  subgoal by (rule display_geometry; simp only: display_eval; simp)
  by (simp only: display_eval, simp)+

lemma display_c1s: "display_verdict True True (display 1080 2400) gMemoryDescriptor_c1s"
  apply (rule display_verdictI [where l = "0x1194000"])
  subgoal unfolding gMemoryDescriptor_c1s_def
    by (rule fb_lengths_end fb_lengths_take | rule fb_lengths_skip, rule other_name, simp, simp)+
  subgoal by (rule display_geometry; simp only: display_eval; simp)
  by (simp only: display_eval, simp)+

lemma display_dm2q: "display_verdict True True (display 1080 2340) gMemoryDescriptor_dm2q"
  apply (rule display_verdictI [where l = "0x2b00000"])
  subgoal unfolding gMemoryDescriptor_dm2q_def
    by (rule fb_lengths_end fb_lengths_take | rule fb_lengths_skip, rule other_name, simp, simp)+
  subgoal by (rule display_geometry; simp only: display_eval; simp)
  by (simp only: display_eval, simp)+

lemma display_dreamlte: "display_verdict True True (display 1440 2960) gMemoryDescriptor_dreamlte"
  apply (rule display_verdictI [where l = "0x1043000"])
  subgoal unfolding gMemoryDescriptor_dreamlte_def
    by (rule fb_lengths_end fb_lengths_take | rule fb_lengths_skip, rule other_name, simp, simp)+
  subgoal by (rule display_geometry; simp only: display_eval; simp)
  by (simp only: display_eval, simp)+

lemma display_e1s: "display_verdict True True (display 1080 2340) gMemoryDescriptor_e1s"
  apply (rule display_verdictI [where l = "0x9a4000"])
  subgoal unfolding gMemoryDescriptor_e1s_def
    by (rule fb_lengths_end fb_lengths_take | rule fb_lengths_skip, rule other_name, simp, simp)+
  subgoal by (rule display_geometry; simp only: display_eval; simp)
  by (simp only: display_eval, simp)+

lemma display_gta4l: "display_verdict True True (display 1200 2000) gMemoryDescriptor_gta4l"
  apply (rule display_verdictI [where l = "0x1000000"])
  subgoal unfolding gMemoryDescriptor_gta4l_def
    by (rule fb_lengths_end fb_lengths_take | rule fb_lengths_skip, rule other_name, simp, simp)+
  subgoal by (rule display_geometry; simp only: display_eval; simp)
  by (simp only: display_eval, simp)+

lemma display_gta9pwifi: "display_verdict True True (display 1200 1920) gMemoryDescriptor_gta9pwifi"
  apply (rule display_verdictI [where l = "0xd00000"])
  subgoal unfolding gMemoryDescriptor_gta9pwifi_def
    by (rule fb_lengths_end fb_lengths_take | rule fb_lengths_skip, rule other_name, simp, simp)+
  subgoal by (rule display_geometry; simp only: display_eval; simp)
  by (simp only: display_eval, simp)+

lemma display_gtaxllte: "display_verdict True True (display 1200 1920) gMemoryDescriptor_gtaxllte"
  apply (rule display_verdictI [where l = "0x1194000"])
  subgoal unfolding gMemoryDescriptor_gtaxllte_def
    by (rule fb_lengths_end fb_lengths_take | rule fb_lengths_skip, rule other_name, simp, simp)+
  subgoal by (rule display_geometry; simp only: display_eval; simp)
  by (simp only: display_eval, simp)+

lemma display_gts8p: "display_verdict True True (display 2800 1752) gMemoryDescriptor_gts8p"
  apply (rule display_verdictI [where l = "0x2b00000"])
  subgoal unfolding gMemoryDescriptor_gts8p_def
    by (rule fb_lengths_end fb_lengths_take | rule fb_lengths_skip, rule other_name, simp, simp)+
  subgoal by (rule display_geometry; simp only: display_eval; simp)
  by (simp only: display_eval, simp)+

lemma display_gts9wifi: "display_verdict True True (display 2560 1600) gMemoryDescriptor_gts9wifi"
  apply (rule display_verdictI [where l = "0x2b00000"])
  subgoal unfolding gMemoryDescriptor_gts9wifi_def
    by (rule fb_lengths_end fb_lengths_take | rule fb_lengths_skip, rule other_name, simp, simp)+
  subgoal by (rule display_geometry; simp only: display_eval; simp)
  by (simp only: display_eval, simp)+

lemma display_q2q: "display_verdict True True (display 2208 1768) gMemoryDescriptor_q2q"
  apply (rule display_verdictI [where l = "0x2400000"])
  subgoal unfolding gMemoryDescriptor_q2q_def
    by (rule fb_lengths_end fb_lengths_take | rule fb_lengths_skip, rule other_name, simp, simp)+
  subgoal by (rule display_geometry; simp only: display_eval; simp)
  by (simp only: display_eval, simp)+

lemma display_r0q: "display_verdict True True (display 1080 2340) gMemoryDescriptor_r0q"
  apply (rule display_verdictI [where l = "0x2b00000"])
  subgoal unfolding gMemoryDescriptor_r0q_def
    by (rule fb_lengths_end fb_lengths_take | rule fb_lengths_skip, rule other_name, simp, simp)+
  subgoal by (rule display_geometry; simp only: display_eval; simp)
  by (simp only: display_eval, simp)+

lemma display_r8q: "display_verdict True True (display 1080 2400) gMemoryDescriptor_r8q"
  apply (rule display_verdictI [where l = "0x2400000"])
  subgoal unfolding gMemoryDescriptor_r8q_def
    by (rule fb_lengths_end fb_lengths_take | rule fb_lengths_skip, rule other_name, simp, simp)+
  subgoal by (rule display_geometry; simp only: display_eval; simp)
  by (simp only: display_eval, simp)+

lemma display_r8s: "display_verdict True True (display 1080 2400) gMemoryDescriptor_r8s"
  apply (rule display_verdictI [where l = "0x1194000"])
  subgoal unfolding gMemoryDescriptor_r8s_def
    by (rule fb_lengths_end fb_lengths_take | rule fb_lengths_skip, rule other_name, simp, simp)+
  subgoal by (rule display_geometry; simp only: display_eval; simp)
  by (simp only: display_eval, simp)+

lemma display_r9qb2: "display_verdict True True (display 1080 2340) gMemoryDescriptor_r9qb2"
  apply (rule display_verdictI [where l = "0x2400000"])
  subgoal unfolding gMemoryDescriptor_r9qb2_def
    by (rule fb_lengths_end fb_lengths_take | rule fb_lengths_skip, rule other_name, simp, simp)+
  subgoal by (rule display_geometry; simp only: display_eval; simp)
  by (simp only: display_eval, simp)+

lemma display_starlte: "display_verdict True True (display 1440 2960) gMemoryDescriptor_starlte"
  apply (rule display_verdictI [where l = "0x1043000"])
  subgoal unfolding gMemoryDescriptor_starlte_def
    by (rule fb_lengths_end fb_lengths_take | rule fb_lengths_skip, rule other_name, simp, simp)+
  subgoal by (rule display_geometry; simp only: display_eval; simp)
  by (simp only: display_eval, simp)+

lemma display_starqltechn: "display_verdict True True (display 1440 2960) gMemoryDescriptor_starqltechn"
  apply (rule display_verdictI [where l = "0x2400000"])
  subgoal unfolding gMemoryDescriptor_starqltechn_def
    by (rule fb_lengths_end fb_lengths_take | rule fb_lengths_skip, rule other_name, simp, simp)+
  subgoal by (rule display_geometry; simp only: display_eval; simp)
  by (simp only: display_eval, simp)+

lemma display_x1s: "display_verdict True False (display 1440 3200) gMemoryDescriptor_x1s"
  apply (rule display_verdictI [where l = "0x1194000"])
  subgoal unfolding gMemoryDescriptor_x1s_def
    by (rule fb_lengths_end fb_lengths_take | rule fb_lengths_skip, rule other_name, simp, simp)+
  subgoal by (rule display_geometry; simp only: display_eval; simp)
  by (simp only: display_eval, simp)+

lemma display_alioth: "display_verdict True True (display 1080 2400) gMemoryDescriptor_alioth"
  apply (rule display_verdictI [where l = "0x2400000"])
  subgoal unfolding gMemoryDescriptor_alioth_def
    by (rule fb_lengths_end fb_lengths_take | rule fb_lengths_skip, rule other_name, simp, simp)+
  subgoal by (rule display_geometry; simp only: display_eval; simp)
  by (simp only: display_eval, simp)+

lemma display_annibale: "display_verdict True True (display 1156 2510) gMemoryDescriptor_annibale"
  apply (rule display_verdictI [where l = "0x2b00000"])
  subgoal unfolding gMemoryDescriptor_annibale_def
    by (rule fb_lengths_end fb_lengths_take | rule fb_lengths_skip, rule other_name, simp, simp)+
  subgoal by (rule display_geometry; simp only: display_eval; simp)
  by (simp only: display_eval, simp)+

lemma display_cepheus: "display_verdict True True (display 1080 2340) gMemoryDescriptor_cepheus"
  apply (rule display_verdictI [where l = "0x2400000"])
  subgoal unfolding gMemoryDescriptor_cepheus_def
    by (rule fb_lengths_end fb_lengths_take | rule fb_lengths_skip, rule other_name, simp, simp)+
  subgoal by (rule display_geometry; simp only: display_eval; simp)
  by (simp only: display_eval, simp)+

lemma display_citrus: "display_verdict True True (display 1080 2340) gMemoryDescriptor_citrus"
  apply (rule display_verdictI [where l = "0x1000000"])
  subgoal unfolding gMemoryDescriptor_citrus_def
    by (rule fb_lengths_end fb_lengths_take | rule fb_lengths_skip, rule other_name, simp, simp)+
  subgoal by (rule display_geometry; simp only: display_eval; simp)
  by (simp only: display_eval, simp)+

lemma display_equuleus: "display_verdict True True (display 1080 2248) gMemoryDescriptor_equuleus"
  apply (rule display_verdictI [where l = "0x2400000"])
  subgoal unfolding gMemoryDescriptor_equuleus_def
    by (rule fb_lengths_end fb_lengths_take | rule fb_lengths_skip, rule other_name, simp, simp)+
  subgoal by (rule display_geometry; simp only: display_eval; simp)
  by (simp only: display_eval, simp)+

lemma display_fog: "display_verdict True True (display 720 1650) gMemoryDescriptor_fog"
  apply (rule display_verdictI [where l = "0x1000000"])
  subgoal unfolding gMemoryDescriptor_fog_def
    by (rule fb_lengths_end fb_lengths_take | rule fb_lengths_skip, rule other_name, simp, simp)+
  subgoal by (rule display_geometry; simp only: display_eval; simp)
  by (simp only: display_eval, simp)+

lemma display_garnet: "display_verdict True True (display 1220 2712) gMemoryDescriptor_garnet"
  apply (rule display_verdictI [where l = "0x2b00000"])
  subgoal unfolding gMemoryDescriptor_garnet_def
    by (rule fb_lengths_end fb_lengths_take | rule fb_lengths_skip, rule other_name, simp, simp)+
  subgoal by (rule display_geometry; simp only: display_eval; simp)
  by (simp only: display_eval, simp)+

lemma display_ginkgo: "display_verdict True True (display 1080 2340) gMemoryDescriptor_ginkgo"
  apply (rule display_verdictI [where l = "0x1000000"])
  subgoal unfolding gMemoryDescriptor_ginkgo_def
    by (rule fb_lengths_end fb_lengths_take | rule fb_lengths_skip, rule other_name, simp, simp)+
  subgoal by (rule display_geometry; simp only: display_eval; simp)
  by (simp only: display_eval, simp)+

lemma display_ingres: "display_verdict True True (display 1080 2400) gMemoryDescriptor_ingres"
  apply (rule display_verdictI [where l = "0x2b00000"])
  subgoal unfolding gMemoryDescriptor_ingres_def
    by (rule fb_lengths_end fb_lengths_take | rule fb_lengths_skip, rule other_name, simp, simp)+
  subgoal by (rule display_geometry; simp only: display_eval; simp)
  by (simp only: display_eval, simp)+

lemma display_lancelot: "display_verdict True True (display 1088 2340) gMemoryDescriptor_lancelot"
  apply (rule display_verdictI [where l = "0x2250000"])
  subgoal unfolding gMemoryDescriptor_lancelot_def
    by (rule fb_lengths_end fb_lengths_take | rule fb_lengths_skip, rule other_name, simp, simp)+
  subgoal by (rule display_geometry; simp only: display_eval; simp)
  by (simp only: display_eval, simp)+

lemma display_laurel_sprout: "display_verdict True True (display 720 1560) gMemoryDescriptor_laurel_sprout"
  apply (rule display_verdictI [where l = "0x1000000"])
  subgoal unfolding gMemoryDescriptor_laurel_sprout_def
    by (rule fb_lengths_end fb_lengths_take | rule fb_lengths_skip, rule other_name, simp, simp)+
  subgoal by (rule display_geometry; simp only: display_eval; simp)
  by (simp only: display_eval, simp)+

lemma display_lavender: "display_verdict True True (display 1080 2340) gMemoryDescriptor_lavender"
  apply (rule display_verdictI [where l = "0x2400000"])
  subgoal unfolding gMemoryDescriptor_lavender_def
    by (rule fb_lengths_end fb_lengths_take | rule fb_lengths_skip, rule other_name, simp, simp)+
  subgoal by (rule display_geometry; simp only: display_eval; simp)
  by (simp only: display_eval, simp)+

lemma display_lime: "display_verdict True True (display 1080 2340) gMemoryDescriptor_lime"
  apply (rule display_verdictI [where l = "0x1000000"])
  subgoal unfolding gMemoryDescriptor_lime_def
    by (rule fb_lengths_end fb_lengths_take | rule fb_lengths_skip, rule other_name, simp, simp)+
  subgoal by (rule display_geometry; simp only: display_eval; simp)
  by (simp only: display_eval, simp)+

lemma display_lisa: "display_verdict True True (display 1080 2400) gMemoryDescriptor_lisa"
  apply (rule display_verdictI [where l = "0x2400000"])
  subgoal unfolding gMemoryDescriptor_lisa_def
    by (rule fb_lengths_end fb_lengths_take | rule fb_lengths_skip, rule other_name, simp, simp)+
  subgoal by (rule display_geometry; simp only: display_eval; simp)
  by (simp only: display_eval, simp)+

lemma display_marble: "display_verdict True True (display 1080 2400) gMemoryDescriptor_marble"
  apply (rule display_verdictI [where l = "0x2b00000"])
  subgoal unfolding gMemoryDescriptor_marble_def
    by (rule fb_lengths_end fb_lengths_take | rule fb_lengths_skip, rule other_name, simp, simp)+
  subgoal by (rule display_geometry; simp only: display_eval; simp)
  by (simp only: display_eval, simp)+

lemma display_miatoll: "display_verdict True True (display 1080 2400) gMemoryDescriptor_miatoll"
  apply (rule display_verdictI [where l = "0x1800000"])
  subgoal unfolding gMemoryDescriptor_miatoll_def
    by (rule fb_lengths_end fb_lengths_take | rule fb_lengths_skip, rule other_name, simp, simp)+
  subgoal by (rule display_geometry; simp only: display_eval; simp)
  by (simp only: display_eval, simp)+

lemma display_muyu: "display_verdict True True (display 3200 2136) gMemoryDescriptor_muyu"
  apply (rule display_verdictI [where l = "0x2b00000"])
  subgoal unfolding gMemoryDescriptor_muyu_def
    by (rule fb_lengths_end fb_lengths_take | rule fb_lengths_skip, rule other_name, simp, simp)+
  subgoal by (rule display_geometry; simp only: display_eval; simp)
  by (simp only: display_eval, simp)+

lemma display_nabu: "display_verdict True True (display 1600 2560) gMemoryDescriptor_nabu"
  apply (rule display_verdictI [where l = "0x2400000"])
  subgoal unfolding gMemoryDescriptor_nabu_def
    by (rule fb_lengths_end fb_lengths_take | rule fb_lengths_skip, rule other_name, simp, simp)+
  subgoal by (rule display_geometry; simp only: display_eval; simp)
  by (simp only: display_eval, simp)+

lemma display_nitrogen: "display_verdict True True (display 1080 2160) gMemoryDescriptor_nitrogen"
  apply (rule display_verdictI [where l = "0x2400000"])
  subgoal unfolding gMemoryDescriptor_nitrogen_def
    by (rule fb_lengths_end fb_lengths_take | rule fb_lengths_skip, rule other_name, simp, simp)+
  subgoal by (rule display_geometry; simp only: display_eval; simp)
  by (simp only: display_eval, simp)+

lemma display_nuwa: "display_verdict True True (display 1440 3200) gMemoryDescriptor_nuwa"
  apply (rule display_verdictI [where l = "0x2b00000"])
  subgoal unfolding gMemoryDescriptor_nuwa_def
    by (rule fb_lengths_end fb_lengths_take | rule fb_lengths_skip, rule other_name, simp, simp)+
  subgoal by (rule display_geometry; simp only: display_eval; simp)
  by (simp only: display_eval, simp)+

lemma display_onyx: "display_verdict True True (display 1280 2772) gMemoryDescriptor_onyx"
  apply (rule display_verdictI [where l = "0x2b00000"])
  subgoal unfolding gMemoryDescriptor_onyx_def
    by (rule fb_lengths_end fb_lengths_take | rule fb_lengths_skip, rule other_name, simp, simp)+
  subgoal by (rule display_geometry; simp only: display_eval; simp)
  by (simp only: display_eval, simp)+

lemma display_peridot: "display_verdict True True (display 1220 2712) gMemoryDescriptor_peridot"
  apply (rule display_verdictI [where l = "0x2b00000"])
  subgoal unfolding gMemoryDescriptor_peridot_def
    by (rule fb_lengths_end fb_lengths_take | rule fb_lengths_skip, rule other_name, simp, simp)+
  subgoal by (rule display_geometry; simp only: display_eval; simp)
  by (simp only: display_eval, simp)+

lemma display_phoenix: "display_verdict True True (display 1080 2400) gMemoryDescriptor_phoenix"
  apply (rule display_verdictI [where l = "0x1800000"])
  subgoal unfolding gMemoryDescriptor_phoenix_def
    by (rule fb_lengths_end fb_lengths_take | rule fb_lengths_skip, rule other_name, simp, simp)+
  subgoal by (rule display_geometry; simp only: display_eval; simp)
  by (simp only: display_eval, simp)+

lemma display_pipa: "display_verdict True True (display 1800 2880) gMemoryDescriptor_pipa"
  apply (rule display_verdictI [where l = "0x2400000"])
  subgoal unfolding gMemoryDescriptor_pipa_def
    by (rule fb_lengths_end fb_lengths_take | rule fb_lengths_skip, rule other_name, simp, simp)+
  subgoal by (rule display_geometry; simp only: display_eval; simp)
  by (simp only: display_eval, simp)+

lemma display_polaris: "display_verdict True True (display 1080 2160) gMemoryDescriptor_polaris"
  apply (rule display_verdictI [where l = "0x2400000"])
  subgoal unfolding gMemoryDescriptor_polaris_def
    by (rule fb_lengths_end fb_lengths_take | rule fb_lengths_skip, rule other_name, simp, simp)+
  subgoal by (rule display_geometry; simp only: display_eval; simp)
  by (simp only: display_eval, simp)+

lemma display_renoir: "display_verdict True True (display 1080 2400) gMemoryDescriptor_renoir"
  apply (rule display_verdictI [where l = "0x2400000"])
  subgoal unfolding gMemoryDescriptor_renoir_def
    by (rule fb_lengths_end fb_lengths_take | rule fb_lengths_skip, rule other_name, simp, simp)+
  subgoal by (rule display_geometry; simp only: display_eval; simp)
  by (simp only: display_eval, simp)+

lemma display_spes: "display_verdict True True (display 1080 2400) gMemoryDescriptor_spes"
  apply (rule display_verdictI [where l = "0x1000000"])
  subgoal unfolding gMemoryDescriptor_spes_def
    by (rule fb_lengths_end fb_lengths_take | rule fb_lengths_skip, rule other_name, simp, simp)+
  subgoal by (rule display_geometry; simp only: display_eval; simp)
  by (simp only: display_eval, simp)+

lemma display_stone: "display_verdict True True (display 1088 2408) gMemoryDescriptor_stone"
  apply (rule display_verdictI [where l = "0x1f93000"])
  subgoal unfolding gMemoryDescriptor_stone_def
    by (rule fb_lengths_end fb_lengths_take | rule fb_lengths_skip, rule other_name, simp, simp)+
  subgoal by (rule display_geometry; simp only: display_eval; simp)
  by (simp only: display_eval, simp)+

lemma display_surya: "display_verdict True True (display 1080 2400) gMemoryDescriptor_surya"
  apply (rule display_verdictI [where l = "0x1800000"])
  subgoal unfolding gMemoryDescriptor_surya_def
    by (rule fb_lengths_end fb_lengths_take | rule fb_lengths_skip, rule other_name, simp, simp)+
  subgoal by (rule display_geometry; simp only: display_eval; simp)
  by (simp only: display_eval, simp)+

lemma display_sweet_k6a: "display_verdict True True (display 1080 2400) gMemoryDescriptor_sweet_k6a"
  apply (rule display_verdictI [where l = "0x1800000"])
  subgoal unfolding gMemoryDescriptor_sweet_k6a_def
    by (rule fb_lengths_end fb_lengths_take | rule fb_lengths_skip, rule other_name, simp, simp)+
  subgoal by (rule display_geometry; simp only: display_eval; simp)
  by (simp only: display_eval, simp)+

lemma display_tapas: "display_verdict True True (display 1080 2400) gMemoryDescriptor_tapas"
  apply (rule display_verdictI [where l = "0x1000000"])
  subgoal unfolding gMemoryDescriptor_tapas_def
    by (rule fb_lengths_end fb_lengths_take | rule fb_lengths_skip, rule other_name, simp, simp)+
  subgoal by (rule display_geometry; simp only: display_eval; simp)
  by (simp only: display_eval, simp)+

lemma display_vayu: "display_verdict True True (display 1080 2400) gMemoryDescriptor_vayu"
  apply (rule display_verdictI [where l = "0x2400000"])
  subgoal unfolding gMemoryDescriptor_vayu_def
    by (rule fb_lengths_end fb_lengths_take | rule fb_lengths_skip, rule other_name, simp, simp)+
  subgoal by (rule display_geometry; simp only: display_eval; simp)
  by (simp only: display_eval, simp)+

lemma display_venus: "display_verdict True True (display 1440 3200) gMemoryDescriptor_venus"
  apply (rule display_verdictI [where l = "0x2400000"])
  subgoal unfolding gMemoryDescriptor_venus_def
    by (rule fb_lengths_end fb_lengths_take | rule fb_lengths_skip, rule other_name, simp, simp)+
  subgoal by (rule display_geometry; simp only: display_eval; simp)
  by (simp only: display_eval, simp)+

lemma display_veux: "display_verdict True True (display 1080 2400) gMemoryDescriptor_veux"
  apply (rule display_verdictI [where l = "0xd00000"])
  subgoal unfolding gMemoryDescriptor_veux_def
    by (rule fb_lengths_end fb_lengths_take | rule fb_lengths_skip, rule other_name, simp, simp)+
  subgoal by (rule display_geometry; simp only: display_eval; simp)
  by (simp only: display_eval, simp)+

lemma display_vili: "display_verdict True True (display 1080 2400) gMemoryDescriptor_vili"
  apply (rule display_verdictI [where l = "0x2400000"])
  subgoal unfolding gMemoryDescriptor_vili_def
    by (rule fb_lengths_end fb_lengths_take | rule fb_lengths_skip, rule other_name, simp, simp)+
  subgoal by (rule display_geometry; simp only: display_eval; simp)
  by (simp only: display_eval, simp)+

lemma display_willow: "display_verdict True True (display 1080 2340) gMemoryDescriptor_willow"
  apply (rule display_verdictI [where l = "0x1000000"])
  subgoal unfolding gMemoryDescriptor_willow_def
    by (rule fb_lengths_end fb_lengths_take | rule fb_lengths_skip, rule other_name, simp, simp)+
  subgoal by (rule display_geometry; simp only: display_eval; simp)
  by (simp only: display_eval, simp)+

lemma display_nx729j: "display_verdict True True (display 1116 2480) gMemoryDescriptor_nx729j"
  apply (rule display_verdictI [where l = "0x2b00000"])
  subgoal unfolding gMemoryDescriptor_nx729j_def
    by (rule fb_lengths_end fb_lengths_take | rule fb_lengths_skip, rule other_name, simp, simp)+
  subgoal by (rule display_geometry; simp only: display_eval; simp)
  by (simp only: display_eval, simp)+

definition platform_displays_1 :: "(string \<times> fb_config) list" where
  "platform_displays_1 = [
    (''Asus/i005d'', display 1080 2448),
    (''LG/caymanslm'', display 1080 2460),
    (''LG/mh2'', display 1080 2340),
    (''Lenovo/9707f'', display 1600 2560),
    (''Lenovo/j706f'', display 2560 1600),
    (''Motorola/caprip'', display 720 1600),
    (''Motorola/cebu'', display 720 1640),
    (''Nintendo/nx'', display 720 1280),
    (''Nothing/pong'', display 1080 2412),
    (''Nothing/spacewar'', display 1080 2400),
    (''OnePlus/aston'', display 1264 2780),
    (''OnePlus/cheeseburger'', display 1080 1920),
    (''OnePlus/dodge'', display 1440 3168),
    (''OnePlus/enchilada'', display 1080 2280),
    (''OnePlus/giulia'', display 1264 2780)]"

definition platform_displays_2 :: "(string \<times> fb_config) list" where
  "platform_displays_2 = [
    (''OnePlus/infiniti'', display 1272 2772),
    (''OnePlus/kebab'', display 1080 2400),
    (''OnePlus/lemonade'', display 1080 2400),
    (''OnePlus/macan'', display 1272 2800),
    (''OnePlus/pagani'', display 1216 2640),
    (''OnePlus/salami'', display 1080 2412),
    (''Qualcomm/qrd8550'', display 1080 2400),
    (''Realme/bale_b'', display 1264 2780),
    (''Realme/bitra'', display 1080 2400),
    (''Realme/senna_a'', display 1240 2772),
    (''Realme/senna_bc'', display 1240 2772),
    (''Samsung/a10'', display 720 1520),
    (''Samsung/a52q'', display 1080 2400),
    (''Samsung/a52sxq'', display 1080 2400),
    (''Samsung/a7'', display 1080 2220)]"

definition platform_displays_3 :: "(string \<times> fb_config) list" where
  "platform_displays_3 = [
    (''Samsung/b4q'', display 1080 2640),
    (''Samsung/b5q'', display 1080 2640),
    (''Samsung/beyond1lte'', display 1440 3040),
    (''Samsung/c1s'', display 1080 2400),
    (''Samsung/dm2q'', display 1080 2340),
    (''Samsung/dreamlte'', display 1440 2960),
    (''Samsung/e1s'', display 1080 2340),
    (''Samsung/gta4l'', display 1200 2000),
    (''Samsung/gta9pwifi'', display 1200 1920),
    (''Samsung/gtaxllte'', display 1200 1920),
    (''Samsung/gts8p'', display 2800 1752),
    (''Samsung/gts9wifi'', display 2560 1600),
    (''Samsung/q2q'', display 2208 1768),
    (''Samsung/r0q'', display 1080 2340),
    (''Samsung/r8q'', display 1080 2400)]"

definition platform_displays_4 :: "(string \<times> fb_config) list" where
  "platform_displays_4 = [
    (''Samsung/r8s'', display 1080 2400),
    (''Samsung/r9qb2'', display 1080 2340),
    (''Samsung/starlte'', display 1440 2960),
    (''Samsung/starqltechn'', display 1440 2960),
    (''Samsung/x1s'', display 1440 3200),
    (''Xiaomi/alioth'', display 1080 2400),
    (''Xiaomi/annibale'', display 1156 2510),
    (''Xiaomi/cepheus'', display 1080 2340),
    (''Xiaomi/citrus'', display 1080 2340),
    (''Xiaomi/equuleus'', display 1080 2248),
    (''Xiaomi/fog'', display 720 1650),
    (''Xiaomi/garnet'', display 1220 2712),
    (''Xiaomi/ginkgo'', display 1080 2340),
    (''Xiaomi/ingres'', display 1080 2400),
    (''Xiaomi/lancelot'', display 1088 2340)]"

definition platform_displays_5 :: "(string \<times> fb_config) list" where
  "platform_displays_5 = [
    (''Xiaomi/laurel_sprout'', display 720 1560),
    (''Xiaomi/lavender'', display 1080 2340),
    (''Xiaomi/lime'', display 1080 2340),
    (''Xiaomi/lisa'', display 1080 2400),
    (''Xiaomi/marble'', display 1080 2400),
    (''Xiaomi/miatoll'', display 1080 2400),
    (''Xiaomi/muyu'', display 3200 2136),
    (''Xiaomi/nabu'', display 1600 2560),
    (''Xiaomi/nitrogen'', display 1080 2160),
    (''Xiaomi/nuwa'', display 1440 3200),
    (''Xiaomi/onyx'', display 1280 2772),
    (''Xiaomi/peridot'', display 1220 2712),
    (''Xiaomi/phoenix'', display 1080 2400),
    (''Xiaomi/pipa'', display 1800 2880),
    (''Xiaomi/polaris'', display 1080 2160)]"

definition platform_displays_6 :: "(string \<times> fb_config) list" where
  "platform_displays_6 = [
    (''Xiaomi/renoir'', display 1080 2400),
    (''Xiaomi/spes'', display 1080 2400),
    (''Xiaomi/stone'', display 1088 2408),
    (''Xiaomi/surya'', display 1080 2400),
    (''Xiaomi/sweet_k6a'', display 1080 2400),
    (''Xiaomi/tapas'', display 1080 2400),
    (''Xiaomi/vayu'', display 1080 2400),
    (''Xiaomi/venus'', display 1440 3200),
    (''Xiaomi/veux'', display 1080 2400),
    (''Xiaomi/vili'', display 1080 2400),
    (''Xiaomi/willow'', display 1080 2340),
    (''ZTE/nx729j'', display 1116 2480)]"

end
