(* ===== verification/ShippedConsole.thy ===== *)
theory ShippedConsole
  imports ShippedDisplays
begin

text \<open>
  The console of \<open>FrameBuffer\<close> on the displays and memory maps of the platforms of the
  repository.
\<close>

definition shipped_displays :: "(string \<times> fb_config) list" where
  "shipped_displays = platform_displays_1 @ platform_displays_2 @ platform_displays_3
     @ platform_displays_4 @ platform_displays_5 @ platform_displays_6"

text \<open>A platform: its display and its memory map, listed under the same name.\<close>

definition shipped_consoles :: "((string \<times> fb_config) \<times> string \<times> u64 \<times> region list) list" where
  "shipped_consoles = zip shipped_displays shipped_maps"

definition console_as_listed :: "(string \<times> fb_config) \<times> string \<times> u64 \<times> region list \<Rightarrow> bool" where
  "console_as_listed e = (case e of ((p, fb), q, base, mm) \<Rightarrow> p = q \<and>
     display_verdict (p \<noteq> ''Samsung/a7'')
       (p \<notin> {''Nintendo/nx'', ''Samsung/a7'', ''Samsung/x1s''}) fb mm)"

lemma platform_consoles_1:
  "list_all console_as_listed (zip platform_displays_1 platform_maps_1)"
  "length platform_displays_1 = length platform_maps_1"
  unfolding platform_displays_1_def platform_maps_1_def
  by (simp_all add: console_as_listed_def
    display_i005d display_caymanslm display_mh2 display_9707f
    display_j706f display_caprip display_cebu display_nx
    display_pong display_spacewar display_aston display_cheeseburger
    display_dodge display_enchilada display_giulia)

lemma platform_consoles_2:
  "list_all console_as_listed (zip platform_displays_2 platform_maps_2)"
  "length platform_displays_2 = length platform_maps_2"
  unfolding platform_displays_2_def platform_maps_2_def
  by (simp_all add: console_as_listed_def
    display_infiniti display_kebab display_lemonade display_macan
    display_pagani display_salami display_qrd8550 display_bale_b
    display_bitra display_senna_a display_senna_bc display_a10
    display_a52q display_a52sxq display_a7)

lemma platform_consoles_3:
  "list_all console_as_listed (zip platform_displays_3 platform_maps_3)"
  "length platform_displays_3 = length platform_maps_3"
  unfolding platform_displays_3_def platform_maps_3_def
  by (simp_all add: console_as_listed_def
    display_b4q display_b5q display_beyond1lte display_c1s
    display_dm2q display_dreamlte display_e1s display_gta4l
    display_gta9pwifi display_gtaxllte display_gts8p display_gts9wifi
    display_q2q display_r0q display_r8q)

lemma platform_consoles_4:
  "list_all console_as_listed (zip platform_displays_4 platform_maps_4)"
  "length platform_displays_4 = length platform_maps_4"
  unfolding platform_displays_4_def platform_maps_4_def
  by (simp_all add: console_as_listed_def
    display_r8s display_r9qb2 display_starlte display_starqltechn
    display_x1s display_alioth display_annibale display_cepheus
    display_citrus display_equuleus display_fog display_garnet
    display_ginkgo display_ingres display_lancelot)

lemma platform_consoles_5:
  "list_all console_as_listed (zip platform_displays_5 platform_maps_5)"
  "length platform_displays_5 = length platform_maps_5"
  unfolding platform_displays_5_def platform_maps_5_def
  by (simp_all add: console_as_listed_def
    display_laurel_sprout display_lavender display_lime display_lisa
    display_marble display_miatoll display_muyu display_nabu
    display_nitrogen display_nuwa display_onyx display_peridot
    display_phoenix display_pipa display_polaris)

lemma platform_consoles_6:
  "list_all console_as_listed (zip platform_displays_6 platform_maps_6)"
  "length platform_displays_6 = length platform_maps_6"
  unfolding platform_displays_6_def platform_maps_6_def
  by (simp_all add: console_as_listed_def
    display_renoir display_spes display_stone display_surya
    display_sweet_k6a display_tapas display_vayu display_venus
    display_veux display_vili display_willow display_nx729j)

lemma shipped_consoles_listed: "list_all console_as_listed shipped_consoles"
  by (simp add: shipped_consoles_def shipped_displays_def shipped_maps_def zip_append
      platform_consoles_1 platform_consoles_2 platform_consoles_3 platform_consoles_4
      platform_consoles_5 platform_consoles_6)

lemma shipped_consoles_complete:
  "map snd shipped_consoles = shipped_maps" "map fst shipped_consoles = shipped_displays"
  by (simp_all add: shipped_consoles_def shipped_displays_def shipped_maps_def
      platform_consoles_1 platform_consoles_2 platform_consoles_3 platform_consoles_4
      platform_consoles_5 platform_consoles_6)

section \<open>Properties\<close>

text \<open>C19. On every platform of the repository the frame buffer region holds the pixels of the
  display, except on Samsung a7, where the console draws and clears past its end; it holds
  the pixels and the cursor side by side except on that platform, Nintendo nx and Samsung x1s,
  and then clearing the region in the SEC phase leaves a valid cursor at the top left.\<close>

theorem shipped_consoles_fit:
  assumes "((p, fb), q, base, mm) \<in> set shipped_consoles"
    and "r \<in> set mm" "Name r = ''Display Reserved'' \<or> Name r = ''Display_Reserved''"
  shows "geometry_ok fb \<and> (screen_bytes fb \<le> unat (Length r) \<longleftrightarrow> p \<noteq> ''Samsung/a7'')
    \<and> (if p = ''Nintendo/nx'' \<or> p = ''Samsung/a7'' \<or> p = ''Samsung/x1s''
       then \<not> console_fits fb (Length r)
       else console_fits fb (Length r) \<and>
         position_valid fb (load_position (ZeroMem (Address r) (unat (Length r)) m)
           (cursor_at (Address r) (Length r))))"
proof -
  have "display_verdict (p \<noteq> ''Samsung/a7'')
      (p \<notin> {''Nintendo/nx'', ''Samsung/a7'', ''Samsung/x1s''}) fb mm"
    using shipped_consoles_listed assms(1) by (auto simp: list_all_iff console_as_listed_def)
  then have v: "geometry_ok fb" "screen_bytes fb \<le> unat (Length r) \<longleftrightarrow> p \<noteq> ''Samsung/a7''"
    "console_fits fb (Length r) \<longleftrightarrow> p \<notin> {''Nintendo/nx'', ''Samsung/a7'', ''Samsung/x1s''}"
    using assms(2,3) by (auto simp: display_verdict_def fb_names_def)
  have "position_valid fb (load_position (ZeroMem (Address r) (unat (Length r)) m)
      (cursor_at (Address r) (Length r)))" if "console_fits fb (Length r)"
    using that positions_exist [OF v(1)]
    by (simp add: cleared_cursor console_fits_def position_valid_def)
  with v show ?thesis by auto
qed

lemma shipped_consoles_fit_witness:
  "unat (Length (gMemoryDescriptor_a7 ! 6)) < screen_bytes (display 1080 2220)"
proof -
  have "((''Samsung/a7'', display 1080 2220), ''Samsung/a7'', 0x80000000, gMemoryDescriptor_a7)
      \<in> set (zip platform_displays_2 platform_maps_2)"
    by (simp add: platform_displays_2_def platform_maps_2_def)
  then have "((''Samsung/a7'', display 1080 2220), ''Samsung/a7'', 0x80000000, gMemoryDescriptor_a7)
      \<in> set shipped_consoles"
    by (simp add: shipped_consoles_def shipped_displays_def shipped_maps_def zip_append
        platform_consoles_1 platform_consoles_2)
  from shipped_consoles_fit [OF this, of "gMemoryDescriptor_a7 ! 6"] show ?thesis
    by (simp add: gMemoryDescriptor_a7_def)
qed

end
