(* ===== verification/Spec2Isabelle.thy ===== *)
theory Spec2Isabelle
  imports MemoryMap MemoryInit RamManager RamRanges ErrataPatcher Kep Keypad MtkClockTables AslUpdate ShippedConsole
begin

text \<open>Header.\<close>

end
